(* ===== verification/Prelude.thy ===== *)
theory Prelude
  imports Complex_Main "HOL-Library.State_Monad" "HOL-Library.Code_Target_Nat"
begin

text \<open>
  Shared vocabulary of the development: the fragment of Go's \<open>strings\<close>, \<open>errors\<close> and \<open>time\<close>
  packages that the services use, the error values of \<open>src/internal/port/port.go\<close>, and a
  weakest-precondition calculus for the state monad in which the stateful services are written.

  Strings are byte strings. \<open>TrimSpace\<close>, \<open>ToUpper\<close>, \<open>ToLower\<close> and \<open>EqualFold\<close> are modelled on
  ASCII; white space and letters outside ASCII are left alone, where Go also trims and folds the
  Unicode ones.
\<close>

section \<open>Strings\<close>

definition is_space :: "char \<Rightarrow> bool" where
  "is_space c \<longleftrightarrow> (let n = of_char c :: nat in 9 \<le> n \<and> n \<le> 13 \<or> n = 32)"

definition trim_space :: "string \<Rightarrow> string" where
  "trim_space s = rev (dropWhile is_space (rev (dropWhile is_space s)))"

definition upper_char :: "char \<Rightarrow> char" where
  "upper_char c = (let n = of_char c :: nat in if 97 \<le> n \<and> n \<le> 122 then char_of (n - 32) else c)"

definition lower_char :: "char \<Rightarrow> char" where
  "lower_char c = (let n = of_char c :: nat in if 65 \<le> n \<and> n \<le> 90 then char_of (n + 32) else c)"

definition to_upper :: "string \<Rightarrow> string" where
  "to_upper s = map upper_char s"

definition to_lower :: "string \<Rightarrow> string" where
  "to_lower s = map lower_char s"

definition equal_fold :: "string \<Rightarrow> string \<Rightarrow> bool" where
  "equal_fold s t \<longleftrightarrow> to_lower s = to_lower t"

definition has_prefix :: "string \<Rightarrow> string \<Rightarrow> bool" where
  "has_prefix s p \<longleftrightarrow> take (length p) s = p"

definition trim_left_char :: "char \<Rightarrow> string \<Rightarrow> string" where
  "trim_left_char c s = dropWhile (\<lambda>x. x = c) s"

definition trim_right_char :: "char \<Rightarrow> string \<Rightarrow> string" where
  "trim_right_char c s = rev (dropWhile (\<lambda>x. x = c) (rev s))"

text \<open>\<open>strings.Cut\<close> at the first occurrence of a byte: before, after, found.\<close>

definition cut_char :: "char \<Rightarrow> string \<Rightarrow> string \<times> string \<times> bool" where
  "cut_char c s =
     (if c \<in> set s then (takeWhile (\<lambda>x. x \<noteq> c) s, tl (dropWhile (\<lambda>x. x \<noteq> c) s), True)
      else (s, [], False))"

fun show_nat :: "nat \<Rightarrow> string" where
  "show_nat n = (if n < 10 then [char_of (48 + n)] else show_nat (n div 10) @ [char_of (48 + n mod 10)])"

declare show_nat.simps [simp del]

definition show_int :: "int \<Rightarrow> string" where
  "show_int i = (if i < 0 then ''-'' @ show_nat (nat (- i)) else show_nat (nat i))"

text \<open>The verb \<open>%q\<close> on printable ASCII.\<close>

definition quoted :: "string \<Rightarrow> string" where
  "quoted s = CHR 0x22 # concat (map (\<lambda>c. if c = CHR 0x22 \<or> c = CHR 0x5C then [CHR 0x5C, c] else [c]) s) @ [CHR 0x22]"

definition first_non_empty :: "string list \<Rightarrow> string" where
  "first_non_empty vs = (case filter (\<lambda>v. v \<noteq> []) (map trim_space vs) of [] \<Rightarrow> [] | v # _ \<Rightarrow> v)"

lemma dropWhile_idem [simp]: "dropWhile P (dropWhile P xs) = dropWhile P xs"
  by (induction xs) auto

lemma dropWhile_eq_self: "(xs \<noteq> [] \<Longrightarrow> \<not> P (hd xs)) \<Longrightarrow> dropWhile P xs = xs"
  by (cases xs) auto

text \<open>Trimming the back never uncovers a blank at the front.\<close>

lemma dropWhile_rev_dropWhile:
  "dropWhile P (rev (dropWhile P (rev (dropWhile P xs)))) = rev (dropWhile P (rev (dropWhile P xs)))"
proof (rule dropWhile_eq_self)
  let ?d = "dropWhile P xs"
  let ?t = "rev (dropWhile P (rev ?d))"
  assume ne: "?t \<noteq> []"
  have "rev ?d = takeWhile P (rev ?d) @ dropWhile P (rev ?d)" by simp
  then have "?d = ?t @ rev (takeWhile P (rev ?d))" by (metis rev_append rev_rev_ident)
  with ne have hd: "hd ?t = hd ?d" by (metis hd_append2)
  from ne have "?d \<noteq> []" by (metis dropWhile.simps(1) rev.simps(1))
  then have "\<not> P (hd ?d)" by (rule hd_dropWhile)
  with hd show "\<not> P (hd ?t)" by simp
qed

lemma trim_space_idem [simp]: "trim_space (trim_space s) = trim_space s"
  by (simp add: trim_space_def dropWhile_rev_dropWhile)

lemma trim_space_Nil [simp]: "trim_space [] = []"
  by (simp add: trim_space_def)

lemma upper_char_idem [simp]: "upper_char (upper_char c) = upper_char c"
  by (auto simp: upper_char_def Let_def)

lemma lower_char_idem [simp]: "lower_char (lower_char c) = lower_char c"
proof -
  have "(of_char c :: nat) < 256" by simp
  then show ?thesis by (auto simp: lower_char_def Let_def)
qed

lemma to_upper_idem [simp]: "to_upper (to_upper s) = to_upper s"
  by (simp add: to_upper_def)

lemma to_lower_idem [simp]: "to_lower (to_lower s) = to_lower s"
  by (simp add: to_lower_def)

lemma to_upper_Nil [simp]: "to_upper s = [] \<longleftrightarrow> s = []" "to_upper [] = []"
  by (simp_all add: to_upper_def)

lemma to_lower_Nil [simp]: "to_lower s = [] \<longleftrightarrow> s = []" "to_lower [] = []"
  by (simp_all add: to_lower_def)

lemma is_space_upper_char [simp]: "is_space (upper_char c) = is_space c"
  by (auto simp: is_space_def upper_char_def Let_def)

lemma is_space_lower_char [simp]: "is_space (lower_char c) = is_space c"
  by (auto simp: is_space_def lower_char_def Let_def)

lemma trim_space_map:
  assumes "\<And>c. is_space (f c) = is_space c"
  shows "trim_space (map f s) = map f (trim_space s)"
proof -
  from assms have "is_space \<circ> f = is_space" by auto
  then show ?thesis by (simp add: trim_space_def dropWhile_map rev_map)
qed

lemma trim_space_to_upper [simp]: "trim_space (to_upper s) = to_upper (trim_space s)"
  by (simp add: to_upper_def trim_space_map)

lemma trim_space_to_lower [simp]: "trim_space (to_lower s) = to_lower (trim_space s)"
  by (simp add: to_lower_def trim_space_map)

lemma trim_space_no_space: "\<forall>c \<in> set s. \<not> is_space c \<Longrightarrow> trim_space s = s"
  by (metis dropWhile_eq_self hd_in_set rev_rev_ident set_rev trim_space_def)


section \<open>Times and durations\<close>

text \<open>
  A \<open>time.Time\<close> is its instant in nanoseconds since Go's zero time, so \<open>IsZero\<close> is equality with
  0, \<open>UTC\<close> is the identity and \<open>Before\<close>, \<open>After\<close>, \<open>Equal\<close> are the order of the integers. A
  \<open>time.Duration\<close> is a number of nanoseconds.
\<close>

type_synonym gtime = int
type_synonym duration = int

definition is_zero_time :: "gtime \<Rightarrow> bool" where
  "is_zero_time t \<longleftrightarrow> t = 0"

definition second :: duration where "second = 1000000000"
definition minute :: duration where "minute = 60 * second"
definition hour :: duration where "hour = 60 * minute"

lemmas duration_defs = second_def minute_def hour_def


text \<open>\<open>time.Duration.String\<close> of a duration of at least one second, which is all the services print.\<close>

definition seconds_text :: "nat \<Rightarrow> string" where
  "seconds_text ns =
     (let s = ns div 1000000000; sub = ns mod 1000000000;
          fraction = (if sub = 0 then [] else ''.'' @ trim_right_char (CHR ''0'') (drop 1 (show_nat (1000000000 + sub))));
          m = s div 60; h = m div 60;
          seconds = show_nat (s mod 60) @ fraction @ ''s''
      in if h > 0 then show_nat h @ ''h'' @ show_nat (m mod 60) @ ''m'' @ seconds
         else if m > 0 then show_nat m @ ''m'' @ seconds else seconds)"

text \<open>\<open>Format(time.RFC3339)\<close> in UTC: the civil date of a day counted from January 1 of the year 1.\<close>

definition leap_year :: "nat \<Rightarrow> bool" where
  "leap_year y \<longleftrightarrow> y mod 4 = 0 \<and> (y mod 100 \<noteq> 0 \<or> y mod 400 = 0)"

fun month_day :: "nat \<Rightarrow> nat \<Rightarrow> nat list \<Rightarrow> nat \<times> nat" where
  "month_day month yday [] = (month, Suc yday)"
| "month_day month yday (len # lens) = (if yday < len then (month, Suc yday) else month_day (Suc month) (yday - len) lens)"

definition civil_date :: "nat \<Rightarrow> nat \<times> nat \<times> nat" where
  "civil_date d =
     (let d1 = d mod 146097; n100 = min 3 (d1 div 36524); d2 = d1 - 36524 * n100; d3 = d2 mod 1461; n1 = min 3 (d3 div 365);
          year = 400 * (d div 146097) + 100 * n100 + 4 * (d2 div 1461) + n1 + 1
      in (year, month_day 1 (d3 - 365 * n1) [31, if leap_year year then 29 else 28, 31, 30, 31, 30, 31, 31, 30, 31, 30, 31]))"

definition padded :: "nat \<Rightarrow> nat \<Rightarrow> string" where
  "padded width n = (let s = show_nat n in replicate (width - length s) (CHR ''0'') @ s)"

definition format_rfc3339 :: "gtime \<Rightarrow> string" where
  "format_rfc3339 t =
     (let s = nat t div 1000000000; (year, month, day) = civil_date (s div 86400); r = s mod 86400
      in padded 4 year @ ''-'' @ padded 2 month @ ''-'' @ padded 2 day @ ''T'' @
         padded 2 (r div 3600) @ '':'' @ padded 2 (r div 60 mod 60) @ '':'' @ padded 2 (r mod 60) @ ''Z'')"


section \<open>Error values\<close>

text \<open>
  Go errors are trees. A sentinel is compared by identity; \<open>ErrText\<close> is an anonymous
  \<open>fmt.Errorf\<close> or \<open>errors.New\<close> value; \<open>ErrWrap\<close> carries the formatted text and the wrapped errors
  (one for \<open>%w\<close>, several for \<open>errors.Join\<close>); \<open>ErrRejection\<close> and \<open>ErrVenue\<close> are the structured
  errors of \<open>port.go\<close>. A returned \<open>error\<close> is a \<open>go_error option\<close>, \<open>None\<close> for \<open>nil\<close>.
\<close>

datatype sentinel =
    ErrOrderNotFound | ErrOrderRevisionConflict | ErrReservationNotFound | ErrReservationConflict
  | ErrFillConflict | ErrCancelFinalityPending | ErrSubmitInFlight
  | ErrInvalidIntent | ErrIdempotencyConflict | ErrIntentExpired | ErrOrderNotCancelable
  | ErrIllegalTransition | ErrInvalidObservation
  | ErrOrderRecoveryLeaseHeld | ErrOrderRecoveryBackoff | ErrOrderRecoveryStaleView
  | ErrMaintenanceOnly | ErrNoFillChainWindowNotReached | DeadlineExceeded
  | ErrDecisionRunNotFound | ErrDecisionConflict | ErrDecisionIntentConflict | ErrPredictionSourceUnavailable

datatype venue_error_kind =
  VenueErrorRejected | VenueErrorAmbiguous | VenueErrorUnavailable | VenueErrorInvalid

datatype go_error =
    ErrSentinel sentinel
  | ErrText string
  | ErrWrap string "go_error list"
  | ErrRejection string string
  | ErrVenue venue_error_kind string string string int duration "go_error option"

type_synonym err = "go_error option"

fun sentinel_text :: "sentinel \<Rightarrow> string" where
  "sentinel_text ErrOrderNotFound = ''order not found''"
| "sentinel_text ErrOrderRevisionConflict = ''order revision conflict''"
| "sentinel_text ErrReservationNotFound = ''asset reservation not found''"
| "sentinel_text ErrReservationConflict = ''asset reservation idempotency conflict''"
| "sentinel_text ErrFillConflict = ''fill identity conflict''"
| "sentinel_text ErrCancelFinalityPending = ''cancel fill finality window has not elapsed''"
| "sentinel_text ErrSubmitInFlight = ''order submit attempt is still in flight''"
| "sentinel_text ErrInvalidIntent = ''invalid order intent''"
| "sentinel_text ErrIdempotencyConflict = ''client order id is already used by a different intent''"
| "sentinel_text ErrIntentExpired = ''order intent has expired''"
| "sentinel_text ErrOrderNotCancelable = ''order is not in a cancelable state''"
| "sentinel_text ErrIllegalTransition = ''illegal order status transition''"
| "sentinel_text ErrInvalidObservation = ''invalid venue observation''"
| "sentinel_text ErrOrderRecoveryLeaseHeld = ''order recovery lease is held by another worker''"
| "sentinel_text ErrOrderRecoveryBackoff = ''order recovery retry is not due yet''"
| "sentinel_text ErrOrderRecoveryStaleView = ''order recovery snapshot revision is stale''"
| "sentinel_text ErrMaintenanceOnly = ''Kalshi execution route is maintenance-only''"
| "sentinel_text ErrNoFillChainWindowNotReached = ''confirmed chain head has not reached the required scan window''"
| "sentinel_text DeadlineExceeded = ''context deadline exceeded''"
| "sentinel_text ErrDecisionRunNotFound = ''strategy decision run not found''"
| "sentinel_text ErrDecisionConflict = ''strategy decision idempotency conflict''"
| "sentinel_text ErrDecisionIntentConflict = ''strategy decision intent claim conflict''"
| "sentinel_text ErrPredictionSourceUnavailable = ''prediction source unavailable''"

fun error_text :: "go_error \<Rightarrow> string" where
  "error_text (ErrSentinel s) = sentinel_text s"
| "error_text (ErrText t) = t"
| "error_text (ErrWrap t es) = t"
| "error_text (ErrRejection code reason) = code @ '': '' @ reason"
| "error_text (ErrVenue kind code message oid http after cause) =
     (if message \<noteq> [] then code @ '': '' @ message
      else case cause of Some c \<Rightarrow> code @ '': '' @ error_text c | None \<Rightarrow> code)"

text \<open>\<open>errors.Is\<close> and \<open>errors.As\<close> walk the tree in pre-order.\<close>

fun errors_is :: "go_error \<Rightarrow> sentinel \<Rightarrow> bool" where
  "errors_is (ErrSentinel s) t = (s = t)"
| "errors_is (ErrText x) t = False"
| "errors_is (ErrWrap x es) t = (\<exists>e \<in> set es. errors_is e t)"
| "errors_is (ErrRejection c r) t = False"
| "errors_is (ErrVenue kind code message oid http after cause) t =
     (case cause of Some c \<Rightarrow> errors_is c t | None \<Rightarrow> False)"

definition err_is :: "err \<Rightarrow> sentinel \<Rightarrow> bool" where
  "err_is e s = (case e of None \<Rightarrow> False | Some x \<Rightarrow> errors_is x s)"

fun errors_as_rejection :: "go_error \<Rightarrow> (string \<times> string) option"
  and errors_as_rejection_list :: "go_error list \<Rightarrow> (string \<times> string) option" where
  "errors_as_rejection (ErrSentinel s) = None"
| "errors_as_rejection (ErrText x) = None"
| "errors_as_rejection (ErrWrap x es) = errors_as_rejection_list es"
| "errors_as_rejection (ErrRejection c r) = Some (c, r)"
| "errors_as_rejection (ErrVenue kind code message oid http after cause) =
     (case cause of Some c \<Rightarrow> errors_as_rejection c | None \<Rightarrow> None)"
| "errors_as_rejection_list [] = None"
| "errors_as_rejection_list (e # es) =
     (case errors_as_rejection e of Some r \<Rightarrow> Some r | None \<Rightarrow> errors_as_rejection_list es)"

text \<open>The venue error found by \<open>errors.As\<close>: kind, code, venue order id, HTTP status.\<close>

fun errors_as_venue :: "go_error \<Rightarrow> (venue_error_kind \<times> string \<times> string \<times> int) option"
  and errors_as_venue_list :: "go_error list \<Rightarrow> (venue_error_kind \<times> string \<times> string \<times> int) option" where
  "errors_as_venue (ErrSentinel s) = None"
| "errors_as_venue (ErrText x) = None"
| "errors_as_venue (ErrWrap x es) = errors_as_venue_list es"
| "errors_as_venue (ErrRejection c r) = None"
| "errors_as_venue (ErrVenue kind code message oid http after cause) = Some (kind, code, oid, http)"
| "errors_as_venue_list [] = None"
| "errors_as_venue_list (e # es) =
     (case errors_as_venue e of Some r \<Rightarrow> Some r | None \<Rightarrow> errors_as_venue_list es)"

text \<open>\<open>fmt.Errorf("prefix: %w", err)\<close> and \<open>errors.Join\<close>.\<close>

definition wrap_error :: "string \<Rightarrow> go_error \<Rightarrow> go_error" where
  "wrap_error pre e = ErrWrap (pre @ '': '' @ error_text e) [e]"

fun join_lines :: "string list \<Rightarrow> string" where
  "join_lines [] = []"
| "join_lines [x] = x"
| "join_lines (x # xs) = x @ CHR 0x0A # join_lines xs"

definition errors_join :: "err list \<Rightarrow> err" where
  "errors_join es =
     (let xs = map the (filter (\<lambda>e. e \<noteq> None) es) in
      if xs = [] then None else Some (ErrWrap (join_lines (map error_text xs)) xs))"

lemma errors_join_None [simp]: "errors_join es = None \<longleftrightarrow> (\<forall>e \<in> set es. e = None)"
  by (auto simp: errors_join_def Let_def filter_empty_conv)

lemma err_is_join [simp]: "err_is (errors_join es) s \<longleftrightarrow> (\<exists>e \<in> set es. err_is e s)"
  by (auto simp: errors_join_def err_is_def Let_def filter_empty_conv split: option.splits)

lemma err_is_simps [simp]:
  "err_is None s = False"
  "err_is (Some e) s = errors_is e s"
  by (simp_all add: err_is_def)

lemma errors_is_wrap [simp]: "errors_is (wrap_error p e) s = errors_is e s"
  by (simp add: wrap_error_def)


section \<open>Weakest preconditions for the state monad\<close>

text \<open>
  \<open>wp m Q s\<close>: running \<open>m\<close> from \<open>s\<close> ends with a result and a state in \<open>Q\<close>. The rules in \<open>wp_rules\<close> follow the
  syntax of a program; the ones for known pairs and options come first, so that a proof follows only the
  branches that can be taken.
\<close>

definition wp :: "('s, 'a) state \<Rightarrow> ('a \<Rightarrow> 's \<Rightarrow> bool) \<Rightarrow> 's \<Rightarrow> bool" where
  "wp m Q s = (case run_state m s of (x, s') \<Rightarrow> Q x s')"

lemma wp_return: "Q x s \<Longrightarrow> wp (State_Monad.return x) Q s"
  by (simp add: wp_def)

lemma wp_bind: "wp m (\<lambda>x. wp (f x) Q) s \<Longrightarrow> wp (State_Monad.bind m f) Q s"
  by (simp add: wp_def split_def)

lemma wp_let: "wp (f a) Q s \<Longrightarrow> wp (Let a f) Q s"
  by simp

lemma wp_pair: "wp (f a b) Q s \<Longrightarrow> wp (case (a, b) of (x, y) \<Rightarrow> f x y) Q s"
  by simp

lemma wp_prod: "(\<And>a b. x = (a, b) \<Longrightarrow> wp (f a b) Q s) \<Longrightarrow> wp (case x of (a, b) \<Rightarrow> f a b) Q s"
  by (cases x) simp

lemma wp_None: "wp m Q s \<Longrightarrow> wp (case None of None \<Rightarrow> m | Some y \<Rightarrow> f y) Q s"
  by simp

lemma wp_Some: "wp (f y) Q s \<Longrightarrow> wp (case Some y of None \<Rightarrow> m | Some y \<Rightarrow> f y) Q s"
  by simp

lemma wp_option:
  "(x = None \<Longrightarrow> wp m Q s) \<Longrightarrow> (\<And>y. x = Some y \<Longrightarrow> wp (f y) Q s) \<Longrightarrow> wp (case x of None \<Rightarrow> m | Some y \<Rightarrow> f y) Q s"
  by (cases x) auto

lemma wp_Inl: "wp (f y) Q s \<Longrightarrow> wp (case Inl y of Inl y \<Rightarrow> f y | Inr z \<Rightarrow> g z) Q s"
  by simp

lemma wp_Inr: "wp (g z) Q s \<Longrightarrow> wp (case Inr z of Inl y \<Rightarrow> f y | Inr z \<Rightarrow> g z) Q s"
  by simp

lemma wp_sum:
  "(\<And>y. x = Inl y \<Longrightarrow> wp (f y) Q s) \<Longrightarrow> (\<And>z. x = Inr z \<Longrightarrow> wp (g z) Q s) \<Longrightarrow>
   wp (case x of Inl y \<Rightarrow> f y | Inr z \<Rightarrow> g z) Q s"
  by (cases x) auto

lemma wp_True: "wp m Q s \<Longrightarrow> wp (if True then m else n) Q s"
  by simp

lemma wp_False: "wp n Q s \<Longrightarrow> wp (if False then m else n) Q s"
  by simp

lemma wp_if: "(c \<Longrightarrow> wp m Q s) \<Longrightarrow> (\<not> c \<Longrightarrow> wp n Q s) \<Longrightarrow> wp (if c then m else n) Q s"
  by simp

lemma wp_mono: "wp m Q s \<Longrightarrow> (\<And>x s'. Q x s' \<Longrightarrow> R x s') \<Longrightarrow> wp m R s"
  by (auto simp: wp_def)

lemma wpD: "wp m Q s \<Longrightarrow> run_state m s = (x, s') \<Longrightarrow> Q x s'"
  by (simp add: wp_def)

lemma wpI: "(\<And>x s'. run_state m s = (x, s') \<Longrightarrow> Q x s') \<Longrightarrow> wp m Q s"
  by (simp add: wp_def split_def)

lemmas wp_rules = wp_return wp_bind wp_let wp_pair wp_prod wp_None wp_Some wp_option wp_Inl wp_Inr wp_sum
  wp_True wp_False wp_if

text \<open>\<open>keeps R m\<close>: the program \<open>m\<close> takes states in \<open>R\<close> to states in \<open>R\<close>.\<close>

definition keeps :: "('s \<Rightarrow> bool) \<Rightarrow> ('s, 'a) state \<Rightarrow> bool" where
  "keeps R m \<longleftrightarrow> (\<forall>s. R s \<longrightarrow> wp m (\<lambda>_. R) s)"

lemma keepsI: "(\<And>s x s'. R s \<Longrightarrow> run_state m s = (x, s') \<Longrightarrow> R s') \<Longrightarrow> keeps R m"
  by (auto simp: keeps_def intro: wpI)

lemma keepsD: "keeps R m \<Longrightarrow> R s \<Longrightarrow> run_state m s = (x, s') \<Longrightarrow> R s'"
  by (auto simp: keeps_def dest: wpD)

lemma keeps_return: "keeps R (State_Monad.return x)"
  by (simp add: keeps_def wp_return)

lemma keeps_bind: "keeps R m \<Longrightarrow> (\<And>x. keeps R (f x)) \<Longrightarrow> keeps R (State_Monad.bind m f)"
  unfolding keeps_def by (intro allI impI wp_bind) (blast intro: wp_mono)

lemma keeps_if: "keeps R m \<Longrightarrow> keeps R n \<Longrightarrow> keeps R (if b then m else n)"
  by simp

lemma keeps_let: "(\<And>x. keeps R (f x)) \<Longrightarrow> keeps R (Let a f)"
  by simp

lemma keeps_option: "keeps R m \<Longrightarrow> (\<And>y. keeps R (f y)) \<Longrightarrow> keeps R (case x of None \<Rightarrow> m | Some y \<Rightarrow> f y)"
  by (cases x) simp_all

lemma keeps_sum: "(\<And>y. keeps R (f y)) \<Longrightarrow> (\<And>z. keeps R (g z)) \<Longrightarrow> keeps R (case x of Inl y \<Rightarrow> f y | Inr z \<Rightarrow> g z)"
  by (cases x) simp_all

lemma keeps_prod: "(\<And>a b. keeps R (f a b)) \<Longrightarrow> keeps R (case x of (a, b) \<Rightarrow> f a b)"
  by (cases x) simp

lemmas keeps_rules = keeps_return keeps_bind keeps_if keeps_let keeps_option keeps_sum keeps_prod

end
