(* ===== verification/Decimal.thy ===== *)
theory Decimal
  imports Prelude
begin

text \<open>
  \<open>src/internal/domain/decimal.go\<close>: decimals carried as JSON strings and read as exact rationals by
  \<open>big.Rat.SetString\<close>. The scanner of \<open>math/big\<close> is modelled in full (base prefixes, digit
  separators, radix point, decimal and binary exponents, fractions), because it decides which strings
  the code accepts. The theorems relate \<open>Canonical\<close>, \<open>Compare\<close> and \<open>Equal\<close> to the value.
\<close>

type_synonym decimal = string


section \<open>The scanner of \<open>math/big\<close>\<close>

datatype scan_prev = PrevDot | PrevDigit | PrevSep

definition digit_value :: "char \<Rightarrow> nat option" where
  "digit_value c =
     (let n = of_char c :: nat in
      if 48 \<le> n \<and> n \<le> 57 then Some (n - 48)
      else if 97 \<le> n \<and> n \<le> 122 then Some (n - 87)
      else if 65 \<le> n \<and> n \<le> 90 then Some (n - 55)
      else None)"

text \<open>
  The loop of \<open>nat.scan\<close> with base argument 0: accumulated value, digit count, position of the radix
  point, last character class, whether a separator was misplaced, unread rest.
\<close>

fun scan_loop :: "nat \<Rightarrow> bool \<Rightarrow> scan_prev \<Rightarrow> bool \<Rightarrow> nat \<Rightarrow> nat option \<Rightarrow> nat \<Rightarrow> string \<Rightarrow>
    nat \<times> nat \<times> nat option \<times> scan_prev \<times> bool \<times> string" where
  "scan_loop b fracok prev inval cnt dp acc [] = (acc, cnt, dp, prev, inval, [])"
| "scan_loop b fracok prev inval cnt dp acc (c # cs) =
     (if c = CHR ''.'' \<and> fracok then scan_loop b False PrevDot (inval \<or> prev = PrevSep) cnt (Some cnt) acc cs
      else if c = CHR ''_'' then scan_loop b fracok PrevSep (inval \<or> prev \<noteq> PrevDigit) cnt dp acc cs
      else case digit_value c of
        Some d \<Rightarrow> if d < b then scan_loop b fracok PrevDigit inval (Suc cnt) dp (acc * b + d) cs
                   else (acc, cnt, dp, prev, inval, c # cs)
      | None \<Rightarrow> (acc, cnt, dp, prev, inval, c # cs))"

text \<open>The base prefix: base, whether only an octal \<open>0\<close> was read, initial count, class, rest.\<close>

fun scan_prefix :: "bool \<Rightarrow> string \<Rightarrow> nat \<times> bool \<times> nat \<times> scan_prev \<times> string" where
  "scan_prefix fracok [] = (10, False, 0, PrevDot, [])"
| "scan_prefix fracok (c # cs) =
     (if c \<noteq> CHR ''0'' then (10, False, 0, PrevDot, c # cs)
      else case cs of
        [] \<Rightarrow> (10, False, 1, PrevDigit, [])
      | d # ds \<Rightarrow>
          if d = CHR ''b'' \<or> d = CHR ''B'' then (2, False, 0, PrevDigit, ds)
          else if d = CHR ''o'' \<or> d = CHR ''O'' then (8, False, 0, PrevDigit, ds)
          else if d = CHR ''x'' \<or> d = CHR ''X'' then (16, False, 0, PrevDigit, ds)
          else if fracok then (10, False, 1, PrevDigit, d # ds)
          else (8, True, 0, PrevDigit, d # ds))"

text \<open>\<open>nat.scan\<close>: value, base, digit count (minus the fractional digits after a point), rest.\<close>

definition nat_scan :: "bool \<Rightarrow> string \<Rightarrow> (nat \<times> nat \<times> int \<times> string) option" where
  "nat_scan fracok s =
     (case scan_prefix fracok s of (b, octal, cnt0, prev0, rest0) \<Rightarrow>
      case scan_loop b fracok prev0 False cnt0 None 0 rest0 of (acc, cnt, dp, prev, inval, rest) \<Rightarrow>
        if inval \<or> prev = PrevSep then None
        else if cnt = 0 then (if octal then Some (0, 10, 1, rest) else None)
        else Some (acc, b, (case dp of Some p \<Rightarrow> int p - int cnt | None \<Rightarrow> int cnt), rest))"

fun scan_sign :: "string \<Rightarrow> bool \<times> string" where
  "scan_sign [] = (False, [])"
| "scan_sign (c # cs) = (if c = CHR ''-'' then (True, cs) else if c = CHR ''+'' then (False, cs) else (False, c # cs))"

text \<open>The digits of an exponent: value, class, misplaced separator, any digit, rest.\<close>

fun scan_exp_digits :: "nat \<Rightarrow> scan_prev \<Rightarrow> bool \<Rightarrow> bool \<Rightarrow> string \<Rightarrow> nat \<times> scan_prev \<times> bool \<times> bool \<times> string" where
  "scan_exp_digits acc prev inval dig [] = (acc, prev, inval, dig, [])"
| "scan_exp_digits acc prev inval dig (c # cs) =
     (let n = of_char c :: nat in
      if 48 \<le> n \<and> n \<le> 57 then scan_exp_digits (acc * 10 + (n - 48)) PrevDigit inval True cs
      else if c = CHR ''_'' then scan_exp_digits acc PrevSep (inval \<or> prev \<noteq> PrevDigit) dig cs
      else (acc, prev, inval, dig, c # cs))"

text \<open>\<open>scanExponent\<close> with both bases and separators allowed: exponent, its base, rest.\<close>

fun scan_exponent :: "string \<Rightarrow> (int \<times> nat \<times> string) option" where
  "scan_exponent [] = Some (0, 10, [])"
| "scan_exponent (c # cs) =
     (if c \<in> {CHR ''e'', CHR ''E'', CHR ''p'', CHR ''P''} then
        (case scan_sign cs of (neg, ds) \<Rightarrow>
         case scan_exp_digits 0 PrevDot False False ds of (n, prev, inval, dig, rest) \<Rightarrow>
           let e = (if neg then - int n else int n) in
           if \<not> dig \<or> e < - (2 ^ 63) \<or> 2 ^ 63 \<le> e \<or> inval \<or> prev = PrevSep then None
           else Some (e, (if c = CHR ''e'' \<or> c = CHR ''E'' then 10 else 2), rest))
      else Some (0, 10, c # cs))"

definition rat_pow :: "rat \<Rightarrow> int \<Rightarrow> rat" where
  "rat_pow b e = (if 0 \<le> e then b ^ nat e else 1 / b ^ nat (- e))"

text \<open>Mantissa, its base and fraction count, exponent and its base, to the value.\<close>

definition rat_assemble :: "bool \<Rightarrow> nat \<Rightarrow> nat \<Rightarrow> int \<Rightarrow> int \<Rightarrow> nat \<Rightarrow> rat option" where
  "rat_assemble neg m b fcount e eb =
     (if m = 0 then Some 0
      else
       (let d = (if fcount < 0 then fcount else 0);
            exp5 = (if b = 10 then d else 0) + (if eb = 10 then e else 0);
            exp2 = (if b = 16 then 4 * d else if b = 8 then 3 * d else d) + e
        in if \<bar>exp5\<bar> > 1000000 \<or> \<bar>exp2\<bar> > 10000000 then None
           else Some ((if neg then -1 else 1) * of_nat m * rat_pow 5 exp5 * rat_pow 2 exp2)))"

definition rat_set_string :: "string \<Rightarrow> rat option" where
  "rat_set_string s =
     (if s = [] then None
      else if CHR ''/'' \<in> set s then
        (case cut_char (CHR ''/'') s of (x, y, _) \<Rightarrow>
         case scan_sign x of (neg, x') \<Rightarrow>
         case nat_scan False x' of
           None \<Rightarrow> None
         | Some (a, _, _, restx) \<Rightarrow>
             (case nat_scan False y of
                None \<Rightarrow> None
              | Some (b, _, _, resty) \<Rightarrow>
                  if restx \<noteq> [] \<or> resty \<noteq> [] \<or> b = 0 then None
                  else Some ((if neg then -1 else 1) * of_nat a / of_nat b)))
      else
        (case scan_sign s of (neg, s') \<Rightarrow>
         case nat_scan True s' of
           None \<Rightarrow> None
         | Some (m, b, fcount, rest) \<Rightarrow>
             (case scan_exponent rest of
                None \<Rightarrow> None
              | Some (e, eb, unread) \<Rightarrow> if unread \<noteq> [] then None else rat_assemble neg m b fcount e eb)))"


section \<open>The decimal type\<close>

definition dec_is_empty :: "decimal \<Rightarrow> bool" where
  "dec_is_empty d \<longleftrightarrow> trim_space d = []"

definition dec_rat :: "decimal \<Rightarrow> go_error + rat" where
  "dec_rat d =
     (let value = trim_space d in
      if value = [] then Inl (ErrText ''decimal is required'')
      else case rat_set_string value of
        Some r \<Rightarrow>
          if set value \<inter> {CHR ''/'', CHR ''e'', CHR ''E''} \<noteq> {}
          then Inl (ErrText (''invalid base-10 decimal '' @ quoted value)) else Inr r
      | None \<Rightarrow> Inl (ErrText (''invalid base-10 decimal '' @ quoted value)))"

definition parse_decimal :: "string \<Rightarrow> go_error + decimal" where
  "parse_decimal v = (let d = trim_space v in case dec_rat d of Inl e \<Rightarrow> Inl e | Inr _ \<Rightarrow> Inr d)"

definition rat_sign :: "rat \<Rightarrow> int" where
  "rat_sign r = (if r < 0 then -1 else if r = 0 then 0 else 1)"

definition rat_cmp :: "rat \<Rightarrow> rat \<Rightarrow> int" where
  "rat_cmp a b = (if a < b then -1 else if a = b then 0 else 1)"

definition dec_sign :: "decimal \<Rightarrow> go_error + int" where
  "dec_sign d = (case dec_rat d of Inl e \<Rightarrow> Inl e | Inr r \<Rightarrow> Inr (rat_sign r))"

definition dec_compare :: "decimal \<Rightarrow> decimal \<Rightarrow> go_error + int" where
  "dec_compare d e =
     (case dec_rat d of Inl x \<Rightarrow> Inl x
      | Inr l \<Rightarrow> (case dec_rat e of Inl x \<Rightarrow> Inl x | Inr r \<Rightarrow> Inr (rat_cmp l r)))"

definition dec_multiply :: "decimal \<Rightarrow> decimal \<Rightarrow> go_error + rat" where
  "dec_multiply d e =
     (case dec_rat d of Inl x \<Rightarrow> Inl x
      | Inr l \<Rightarrow> (case dec_rat e of Inl x \<Rightarrow> Inl x | Inr r \<Rightarrow> Inr (l * r)))"

definition rat_is_int :: "rat \<Rightarrow> bool" where
  "rat_is_int r \<longleftrightarrow> snd (quotient_of r) = 1"

definition dec_is_multiple_of :: "decimal \<Rightarrow> decimal \<Rightarrow> go_error + bool" where
  "dec_is_multiple_of d step =
     (case dec_rat d of Inl x \<Rightarrow> Inl x
      | Inr v \<Rightarrow> (case dec_rat step of Inl x \<Rightarrow> Inl x
         | Inr st \<Rightarrow> if st \<le> 0 then Inl (ErrText ''decimal step must be positive'')
                      else Inr (rat_is_int (v / st))))"

definition dec_scale :: "decimal \<Rightarrow> nat" where
  "dec_scale d =
     (let text = trim_right_char (CHR ''0'') (trim_space d) in
      if CHR ''.'' \<in> set text then length text - length (takeWhile (\<lambda>x. x \<noteq> CHR ''.'') text) - 1 else 0)"

definition dec_canonical :: "decimal \<Rightarrow> decimal" where
  "dec_canonical d =
     (let text = trim_space d in
      if text = [] then []
      else
       (case (if has_prefix text ''+'' then (False, tl text)
              else if has_prefix text ''-'' then (True, tl text) else (False, text)) of
        (negative, text) \<Rightarrow>
        case cut_char (CHR ''.'') text of (integer, fraction, hasFraction) \<Rightarrow>
          let integer = trim_left_char (CHR ''0'') integer;
              integer = (if integer = [] then ''0'' else integer);
              fraction = (if hasFraction then trim_right_char (CHR ''0'') fraction else fraction)
          in if fraction = [] then
               (if integer = ''0'' then ''0'' else if negative then ''-'' @ integer else integer)
             else (let result = integer @ ''.'' @ fraction in if negative then ''-'' @ result else result)))"

definition dec_equal :: "decimal \<Rightarrow> decimal \<Rightarrow> bool" where
  "dec_equal d e =
     (if dec_is_empty d \<or> dec_is_empty e then dec_is_empty d \<and> dec_is_empty e
      else dec_compare d e = Inr 0)"

text \<open>The JSON form: \<open>None\<close> stands for \<open>null\<close>, \<open>Some\<close> for a JSON string.\<close>

definition dec_marshal_json :: "decimal \<Rightarrow> go_error + string option" where
  "dec_marshal_json d =
     (if dec_is_empty d then Inr None
      else case dec_rat d of Inl e \<Rightarrow> Inl e | Inr _ \<Rightarrow> Inr (Some d))"

definition dec_unmarshal_json :: "string option \<Rightarrow> go_error + decimal" where
  "dec_unmarshal_json j = (case j of None \<Rightarrow> Inr [] | Some v \<Rightarrow> parse_decimal v)"


section \<open>Plain decimals\<close>

text \<open>
  The strings that base-10 notation without prefix, separator or exponent allows: an optional sign,
  digits, and an optional point with digits after it.
\<close>

definition is_digit :: "char \<Rightarrow> bool" where
  "is_digit c \<longleftrightarrow> 48 \<le> (of_char c :: nat) \<and> (of_char c :: nat) \<le> 57"

definition digit_of :: "char \<Rightarrow> nat" where
  "digit_of c = of_char c - 48"

fun digits_val :: "nat \<Rightarrow> string \<Rightarrow> nat" where
  "digits_val acc [] = acc"
| "digits_val acc (c # cs) = digits_val (acc * 10 + digit_of c) cs"

definition plain_parts :: "decimal \<Rightarrow> bool \<times> string \<times> string" where
  "plain_parts d =
     (case scan_sign (trim_space d) of (neg, body) \<Rightarrow>
      case cut_char (CHR ''.'') body of (i, f, _) \<Rightarrow> (neg, i, f))"

definition plain_decimal :: "decimal \<Rightarrow> bool" where
  "plain_decimal d \<longleftrightarrow>
     (case plain_parts d of (neg, i, f) \<Rightarrow>
        list_all is_digit i \<and> list_all is_digit f \<and> i @ f \<noteq> [] \<and> int (length f) \<le> 1000000)"

definition parts_value :: "bool \<times> string \<times> string \<Rightarrow> rat" where
  "parts_value p = (case p of (neg, i, f) \<Rightarrow>
     (if neg then -1 else 1) * of_nat (digits_val 0 (i @ f)) / 10 ^ length f)"

lemma digit_value_digit: "is_digit c \<Longrightarrow> digit_value c = Some (digit_of c)"
  by (simp add: digit_value_def is_digit_def digit_of_def Let_def)

lemma digit_of_less: "is_digit c \<Longrightarrow> digit_of c < 10"
  by (auto simp: is_digit_def digit_of_def)

lemma digit_of_inj: "is_digit c \<Longrightarrow> is_digit d \<Longrightarrow> digit_of c = digit_of d \<Longrightarrow> c = d"
  by (metis digit_of_def diff_add_inverse2 is_digit_def le_add_diff_inverse2 of_char_eq_iff)

lemma digit_of_zero [simp]: "digit_of CHR ''0'' = 0"
  by (simp add: digit_of_def)

lemma is_digit_simps [simp]:
  "is_digit CHR ''0''" "\<not> is_digit CHR ''.''" "\<not> is_digit CHR ''_''" "\<not> is_digit CHR ''-''"
  "\<not> is_digit CHR ''+''" "\<not> is_digit CHR ''/''" "\<not> is_digit CHR ''e''" "\<not> is_digit CHR ''E''"
  "\<not> is_digit CHR ''b''" "\<not> is_digit CHR ''B''" "\<not> is_digit CHR ''o''" "\<not> is_digit CHR ''O''"
  "\<not> is_digit CHR ''x''" "\<not> is_digit CHR ''X''"
  by (simp_all add: is_digit_def)

lemma is_digit_not_space: "is_digit c \<Longrightarrow> \<not> is_space c"
  by (auto simp: is_digit_def is_space_def Let_def)

lemma digits_val_append: "digits_val a (xs @ ys) = digits_val (digits_val a xs) ys"
  by (induction xs arbitrary: a) auto

lemma digits_val_acc: "digits_val a xs = a * 10 ^ length xs + digits_val 0 xs"
proof (induction xs arbitrary: a)
  case (Cons c cs)
  show ?case using Cons.IH [of "a * 10 + digit_of c"] Cons.IH [of "digit_of c"] by (simp add: algebra_simps)
qed simp

lemma digits_val_zeros_left: "digits_val 0 (replicate n CHR ''0'' @ xs) = digits_val 0 xs"
  by (induction n) auto

lemma digits_val_zeros_right: "digits_val a (replicate n CHR ''0'') = a * 10 ^ n"
  by (induction n arbitrary: a) auto

lemma digits_val_bound: "list_all is_digit xs \<Longrightarrow> digits_val 0 xs < 10 ^ length xs"
proof (induction xs)
  case (Cons c cs)
  then have "digits_val 0 cs < 10 ^ length cs" and "digit_of c < 10" by (auto intro: digit_of_less)
  moreover have "digits_val 0 (c # cs) = digit_of c * 10 ^ length cs + digits_val 0 cs"
    using digits_val_acc [of "digit_of c" cs] by simp
  moreover have "digit_of c * 10 ^ length cs \<le> 9 * (10 ^ length cs :: nat)"
    using \<open>digit_of c < 10\<close> by (intro mult_right_mono) auto
  ultimately show ?case by (simp only: length_Cons power_Suc)
qed simp

lemma digits_val_inj:
  "length xs = length ys \<Longrightarrow> list_all is_digit xs \<Longrightarrow> list_all is_digit ys \<Longrightarrow>
   digits_val a xs = digits_val b ys \<Longrightarrow> a = b \<and> xs = ys"
proof (induction xs ys arbitrary: a b rule: list_induct2)
  case (Cons x xs y ys)
  then have eq: "a * 10 + digit_of x = b * 10 + digit_of y" and "xs = ys" by simp_all
  have "digit_of x < 10" "digit_of y < 10" using Cons.prems by (auto intro: digit_of_less)
  with eq have "a = b" by arith
  with eq \<open>xs = ys\<close> have "a = b" "digit_of x = digit_of y" "xs = ys" by simp_all
  with Cons.prems show ?case by (auto dest: digit_of_inj)
qed simp

lemma digits_val_lower:
  assumes "list_all is_digit xs" and "xs \<noteq> []" and "hd xs \<noteq> CHR ''0''"
  shows "10 ^ (length xs - 1) \<le> digits_val 0 xs"
proof -
  obtain c cs where xs: "xs = c # cs" using assms(2) by (cases xs) auto
  with assms have "is_digit c" and "c \<noteq> CHR ''0''" by auto
  then have "digit_of c \<noteq> 0" using digit_of_inj [of c "CHR ''0''"] by auto
  then have "1 * 10 ^ length cs \<le> digit_of c * (10 ^ length cs :: nat)" by (intro mult_right_mono) auto
  then have "10 ^ length cs \<le> digits_val (digit_of c) cs"
    using digits_val_acc [of "digit_of c" cs] by linarith
  then show ?thesis by (simp add: xs)
qed

text \<open>Digit strings without leading zero are determined by their value.\<close>

lemma digits_val_unique:
  assumes "list_all is_digit xs" "list_all is_digit ys"
    and "xs \<noteq> [] \<Longrightarrow> hd xs \<noteq> CHR ''0''" "ys \<noteq> [] \<Longrightarrow> hd ys \<noteq> CHR ''0''"
    and eq: "digits_val 0 xs = digits_val 0 ys"
  shows "xs = ys"
proof -
  have len: "length us \<le> length vs"
    if "list_all is_digit us" "list_all is_digit vs" "us \<noteq> [] \<Longrightarrow> hd us \<noteq> CHR ''0''"
      "digits_val 0 us = digits_val 0 vs" for us vs
  proof (cases "us = []")
    case False
    then have "(10::nat) ^ (length us - 1) < 10 ^ length vs"
      using digits_val_lower [OF that(1) False that(3) [OF False]] digits_val_bound [OF that(2)] that(4)
      by (simp add: order_le_less_trans)
    then have "length us - 1 < length vs" by simp
    then show ?thesis by simp
  qed simp
  have "length xs = length ys" using len [of xs ys] len [of ys xs] assms by fastforce
  then show ?thesis using digits_val_inj [of xs ys 0 0] assms by simp
qed


section \<open>The value of a plain decimal\<close>

lemma scan_loop_digits:
  "list_all is_digit xs \<Longrightarrow>
   scan_loop 10 fracok prev inval cnt dp acc (xs @ ys) =
   scan_loop 10 fracok (if xs = [] then prev else PrevDigit) inval (cnt + length xs) dp (digits_val acc xs) ys"
proof (induction xs arbitrary: prev cnt acc)
  case (Cons c cs)
  then have c: "is_digit c" "c \<noteq> CHR ''.''" "c \<noteq> CHR ''_''" "digit_of c < 10"
    by (auto intro: digit_of_less)
  have "scan_loop 10 fracok prev inval cnt dp acc ((c # cs) @ ys) =
      scan_loop 10 fracok PrevDigit inval (Suc cnt) dp (acc * 10 + digit_of c) (cs @ ys)"
    using c by (simp add: digit_value_digit)
  then show ?case using Cons by simp
qed simp

lemma nat_scan_plain_chars:
  assumes "\<forall>c \<in> set s. is_digit c \<or> c = CHR ''.''"
  shows "nat_scan True s =
    (case scan_loop 10 True PrevDot False 0 None 0 s of (acc, cnt, dp, prev, inval, rest) \<Rightarrow>
       if inval \<or> prev = PrevSep \<or> cnt = 0 then None
       else Some (acc, 10, (case dp of Some p \<Rightarrow> int p - int cnt | None \<Rightarrow> int cnt), rest))"
proof (cases "\<exists>t. s = CHR ''0'' # t")
  case True
  then obtain t where s: "s = CHR ''0'' # t" by blast
  have "scan_prefix True s = (10, False, 1, PrevDigit, t)"
    using assms by (auto simp: s split: list.splits)
  moreover have "scan_loop 10 True PrevDot False 0 None 0 s = scan_loop 10 True PrevDigit False 1 None 0 t"
    by (simp add: s digit_value_digit)
  ultimately show ?thesis by (simp add: nat_scan_def split: prod.splits)
next
  case False
  then have "scan_prefix True s = (10, False, 0, PrevDot, s)" by (cases s) auto
  then show ?thesis by (simp add: nat_scan_def split: prod.splits)
qed

lemma nat_scan_integer:
  assumes "list_all is_digit i" "i \<noteq> []"
  shows "nat_scan True i = Some (digits_val 0 i, 10, int (length i), [])"
proof -
  have "\<forall>c \<in> set i. is_digit c \<or> c = CHR ''.''" using assms by (simp add: list_all_iff)
  from nat_scan_plain_chars [OF this] show ?thesis
    using scan_loop_digits [OF assms(1), of True PrevDot False 0 None 0 "[]"] assms(2) by simp
qed

lemma nat_scan_fraction:
  assumes "list_all is_digit i" "list_all is_digit f" "i @ f \<noteq> []"
  shows "nat_scan True (i @ CHR ''.'' # f) = Some (digits_val 0 (i @ f), 10, - int (length f), [])"
proof -
  let ?s = "i @ CHR ''.'' # f"
  have chars: "\<forall>c \<in> set ?s. is_digit c \<or> c = CHR ''.''" using assms by (auto simp: list_all_iff)
  have "scan_loop 10 True PrevDot False 0 None 0 ?s =
      scan_loop 10 False PrevDot False (length i) (Some (length i)) (digits_val 0 i) f"
    using scan_loop_digits [OF assms(1), of True PrevDot False 0 None 0 "CHR ''.'' # f"] by simp
  also have "\<dots> = (digits_val 0 (i @ f), length i + length f, Some (length i),
      (if f = [] then PrevDot else PrevDigit), False, [])"
    using scan_loop_digits [OF assms(2), of False PrevDot False "length i" "Some (length i)" "digits_val 0 i" "[]"]
    by (simp add: digits_val_append)
  finally show ?thesis using nat_scan_plain_chars [OF chars] assms(3) by simp
qed

lemma rat_assemble_plain:
  assumes "k \<le> 1000000"
  shows "rat_assemble neg m 10 (- int k) 0 10 = Some ((if neg then -1 else 1) * of_nat m / 10 ^ k)"
proof -
  have "rat_pow 5 (- int k) * rat_pow 2 (- int k) = 1 / (10 ^ k :: rat)"
    by (auto simp: rat_pow_def power_mult_distrib [symmetric])
  moreover have "rat_pow 5 0 * rat_pow 2 0 = 1" by (simp add: rat_pow_def)
  ultimately show ?thesis using assms by (simp add: rat_assemble_def Let_def mult.assoc)
qed

lemma rat_assemble_integer:
  "rat_assemble neg m 10 (int k) 0 10 = Some ((if neg then -1 else 1) * of_nat m)"
  by (simp add: rat_assemble_def Let_def rat_pow_def)

lemma cut_char_cases:
  assumes "cut_char c s = (x, y, h)"
  shows "c \<notin> set x \<and> (if h then s = x @ c # y else s = x \<and> y = [])"
proof (cases "c \<in> set s")
  case True
  then have d: "dropWhile (\<lambda>x. x \<noteq> c) s = c # tl (dropWhile (\<lambda>x. x \<noteq> c) s)"
    by (metis (mono_tags, lifting) dropWhile_eq_Nil_conv hd_Cons_tl hd_dropWhile)
  have "s = takeWhile (\<lambda>x. x \<noteq> c) s @ dropWhile (\<lambda>x. x \<noteq> c) s" by simp
  with d True assms show ?thesis by (auto simp: cut_char_def dest: set_takeWhileD)
next
  case False
  with assms show ?thesis by (auto simp: cut_char_def)
qed

lemma cut_char_append [simp]: "c \<notin> set x \<Longrightarrow> cut_char c (x @ c # y) = (x, y, True)"
  by (auto simp: cut_char_def takeWhile_append dropWhile_append dest: set_takeWhileD)

lemma cut_char_none [simp]: "c \<notin> set x \<Longrightarrow> cut_char c x = (x, [], False)"
  by (simp add: cut_char_def)

text \<open>The body after the sign, with the digits of both parts.\<close>

lemma plain_body:
  assumes "plain_decimal d"
  obtains neg body i f h where "scan_sign (trim_space d) = (neg, body)"
    "cut_char (CHR ''.'') body = (i, f, h)" "plain_parts d = (neg, i, f)"
    "list_all is_digit i" "list_all is_digit f" "i @ f \<noteq> []" "length f \<le> 1000000"
    "body = (if h then i @ CHR ''.'' # f else i)" "h \<or> f = []"
proof -
  obtain neg body where 1: "scan_sign (trim_space d) = (neg, body)" by fastforce
  obtain i f h where 2: "cut_char (CHR ''.'') body = (i, f, h)" using prod_cases3 by blast
  from 1 2 have 3: "plain_parts d = (neg, i, f)" by (simp add: plain_parts_def)
  then show ?thesis using that [OF 1 2 3] assms cut_char_cases [OF 2]
    by (auto simp: plain_decimal_def split: if_splits)
qed

lemma scan_sign_chars: "scan_sign s = (neg, body) \<Longrightarrow> set s \<subseteq> insert (CHR ''+'') (insert (CHR ''-'') (set body))"
  by (cases s) (auto split: if_splits)

lemma dec_rat_plain: "plain_decimal d \<Longrightarrow> dec_rat d = Inr (parts_value (plain_parts d))"
proof -
  assume "plain_decimal d"
  then obtain neg body i f h where b: "scan_sign (trim_space d) = (neg, body)"
      "plain_parts d = (neg, i, f)" "list_all is_digit i" "list_all is_digit f" "i @ f \<noteq> []"
      "length f \<le> 1000000" "body = (if h then i @ CHR ''.'' # f else i)" "h \<or> f = []"
    by (rule plain_body)
  let ?t = "trim_space d"
  have body_ne: "body \<noteq> []" using b by auto
  then have ne: "?t \<noteq> []" using b(1) by auto
  have "set body \<subseteq> {c. is_digit c \<or> c = CHR ''.''}" using b by (auto simp: list_all_iff split: if_splits)
  then have no: "set ?t \<inter> {CHR ''/'', CHR ''e'', CHR ''E''} = {}" using scan_sign_chars [OF b(1)] by auto
  have "nat_scan True body = Some (digits_val 0 (i @ f), 10, (if h then - int (length f) else int (length i)), [])"
    using b nat_scan_integer nat_scan_fraction by auto
  then have "rat_set_string ?t = Some (parts_value (plain_parts d))"
    using b no ne by (auto simp: rat_set_string_def rat_assemble_plain rat_assemble_integer parts_value_def)
  then show ?thesis using no ne by (simp add: dec_rat_def Let_def)
qed


section \<open>Canonical form\<close>

text \<open>The parts that \<open>Canonical\<close> prints, and how it prints them.\<close>

definition norm_parts :: "bool \<times> string \<times> string \<Rightarrow> bool \<times> string \<times> string" where
  "norm_parts p = (case p of (neg, i, f) \<Rightarrow>
     let i' = trim_left_char (CHR ''0'') i; f' = trim_right_char (CHR ''0'') f
     in (neg \<and> (i' \<noteq> [] \<or> f' \<noteq> []), i', f'))"

definition render_parts :: "bool \<times> string \<times> string \<Rightarrow> string" where
  "render_parts p = (case p of (neg, i, f) \<Rightarrow>
     (if neg then ''-'' else []) @ (if i = [] then ''0'' else i) @ (if f = [] then [] else ''.'' @ f))"

lemma takeWhile_eq_replicate:
  "takeWhile (\<lambda>x. x = c) xs = replicate (length (takeWhile (\<lambda>x. x = c) xs)) c"
  by (intro replicate_eqI) (auto dest: set_takeWhileD)

lemma trim_left_zeros:
  "i = replicate (length (takeWhile (\<lambda>x. x = c) i)) c @ trim_left_char c i"
  using takeWhile_dropWhile_id [of "\<lambda>x. x = c" i] takeWhile_eq_replicate [of c i]
  by (simp add: trim_left_char_def)

lemma trim_right_zeros:
  "f = trim_right_char c f @ replicate (length (takeWhile (\<lambda>x. x = c) (rev f))) c"
  using arg_cong [OF trim_left_zeros [of "rev f" c], of rev]
  by (simp add: trim_left_char_def trim_right_char_def)

lemma digits_val_padding:
  "digits_val 0 ((replicate n CHR ''0'' @ a) @ b @ replicate m CHR ''0'') = digits_val 0 (a @ b) * 10 ^ m"
proof -
  have "digits_val 0 (replicate n CHR ''0'') = 0" using digits_val_zeros_right [of 0 n] by simp
  then show ?thesis by (simp add: digits_val_append digits_val_zeros_right)
qed

lemma norm_parts_value: "parts_value (norm_parts (neg, i, f)) = parts_value (neg, i, f)"
proof -
  let ?i = "trim_left_char (CHR ''0'') i" and ?f = "trim_right_char (CHR ''0'') f"
  define n where "n = length (takeWhile (\<lambda>x. x = CHR ''0'') i)"
  define m where "m = length (takeWhile (\<lambda>x. x = CHR ''0'') (rev f))"
  have i: "i = replicate n (CHR ''0'') @ ?i" unfolding n_def by (rule trim_left_zeros)
  have f: "f = ?f @ replicate m (CHR ''0'')" unfolding m_def by (rule trim_right_zeros)
  have val: "digits_val 0 (i @ f) = digits_val 0 (?i @ ?f) * 10 ^ m"
    using digits_val_padding [of n ?i ?f m] i f by simp
  have len: "length f = length ?f + m" using arg_cong [OF f, of length] by simp
  show ?thesis
    by (simp add: norm_parts_def parts_value_def Let_def val len power_add)
qed

lemma dec_canonical_plain:
  assumes "plain_decimal d" shows "dec_canonical d = render_parts (norm_parts (plain_parts d))"
proof -
  from assms obtain neg body i f h where b: "scan_sign (trim_space d) = (neg, body)"
      "cut_char (CHR ''.'') body = (i, f, h)" "plain_parts d = (neg, i, f)" "i @ f \<noteq> []"
      "h \<or> f = []" "body = (if h then i @ CHR ''.'' # f else i)"
    by (rule plain_body)
  let ?t = "trim_space d"
  have ne: "?t \<noteq> []" using b by auto
  have "(if has_prefix ?t ''+'' then (False, tl ?t)
      else if has_prefix ?t ''-'' then (True, tl ?t) else (False, ?t)) = (neg, body)"
    using b(1) ne by (cases "trim_space d") (auto simp: has_prefix_def split: if_splits)
  moreover have "\<not> h \<Longrightarrow> trim_right_char (CHR ''0'') f = f" using b(5) by (simp add: trim_right_char_def)
  moreover have "i' = ''0'' \<Longrightarrow> trim_left_char (CHR ''0'') i \<noteq> i'" for i'
    by (metis (mono_tags, lifting) hd_dropWhile list.sel(1) not_Cons_self2 trim_left_char_def)
  ultimately show ?thesis using b(2,3) ne
    by (auto simp: dec_canonical_def Let_def norm_parts_def render_parts_def)
qed

lemma punctuation_not_space: "\<not> is_space CHR ''-''" "\<not> is_space CHR ''.''" "\<not> is_space CHR ''0''"
  by (simp_all add: is_space_def Let_def)

lemma render_parts_plain:
  assumes "list_all is_digit i" "list_all is_digit f" "length f \<le> 1000000"
  shows "plain_decimal (render_parts (neg, i, f))" "parts_value (plain_parts (render_parts (neg, i, f))) = parts_value (neg, i, f)"
proof -
  let ?i = "if i = [] then ''0'' else i" and ?r = "render_parts (neg, i, f)"
  let ?b = "?i @ (if f = [] then [] else ''.'' @ f)"
  have digs: "list_all is_digit ?i" "CHR ''.'' \<notin> set ?i" "?i \<noteq> []" using assms by (auto simp: list_all_iff)
  have "\<forall>c \<in> set ?r. \<not> is_space c"
    using assms is_digit_not_space by (auto simp: render_parts_def list_all_iff punctuation_not_space)
  then have t: "trim_space ?r = ?r" by (rule trim_space_no_space)
  have "hd ?b \<noteq> CHR ''-'' \<and> hd ?b \<noteq> CHR ''+''" using digs by (cases ?i) auto
  then have s: "scan_sign ?r = (neg, ?b)" by (cases ?b) (auto simp: render_parts_def)
  have "cut_char (CHR ''.'') ?b = (?i, f, f \<noteq> [])"
    using cut_char_append [OF digs(2), of f] cut_char_none [OF digs(2)] by (cases "f = []") (simp_all only: if_True if_False append_Nil2 append.simps simp_thms)
  then have c: "plain_parts ?r = (neg, ?i, f)" by (simp add: plain_parts_def t s)
  show "plain_decimal ?r" using c digs assms by (simp add: plain_decimal_def)
  show "parts_value (plain_parts ?r) = parts_value (neg, i, f)" by (simp add: c parts_value_def)
qed

lemma list_all_trim [simp]:
  "list_all P xs \<Longrightarrow> list_all P (trim_left_char c xs)"
  "list_all P xs \<Longrightarrow> list_all P (trim_right_char c xs)"
  by (auto simp: list_all_iff trim_left_char_def trim_right_char_def dest: set_dropWhileD)

lemma length_trim_right: "length (trim_right_char c xs) \<le> length xs"
  by (simp add: trim_right_char_def) (metis length_dropWhile_le length_rev)


lemma canonical_parts:
  assumes "plain_decimal d" and "norm_parts (plain_parts d) = (neg, i, f)"
  shows "list_all is_digit i" "list_all is_digit f" "length f \<le> 1000000"
    "i \<noteq> [] \<Longrightarrow> hd i \<noteq> CHR ''0''" "f \<noteq> [] \<Longrightarrow> last f \<noteq> CHR ''0''" "neg \<Longrightarrow> i \<noteq> [] \<or> f \<noteq> []"
proof -
  obtain neg0 i0 f0 where p: "plain_parts d = (neg0, i0, f0)" using prod_cases3 by blast
  have 1: "list_all is_digit i0" "list_all is_digit f0" "length f0 \<le> 1000000"
    using assms(1) p by (auto simp: plain_decimal_def)
  have i: "i = trim_left_char (CHR ''0'') i0" and f: "f = trim_right_char (CHR ''0'') f0"
    using assms(2) p by (auto simp: norm_parts_def Let_def)
  show "list_all is_digit i" "list_all is_digit f" using 1 i f by simp_all
  show "length f \<le> 1000000" using 1(3) f length_trim_right [of "CHR ''0''" f0] by simp
  show "i \<noteq> [] \<Longrightarrow> hd i \<noteq> CHR ''0''"
    unfolding i trim_left_char_def using hd_dropWhile [of "\<lambda>x. x = CHR ''0''" i0] by simp
  show "f \<noteq> [] \<Longrightarrow> last f \<noteq> CHR ''0''"
    unfolding f trim_right_char_def using hd_dropWhile [of "\<lambda>x. x = CHR ''0''" "rev f0"] by (simp add: last_rev)
  show "neg \<Longrightarrow> i \<noteq> [] \<or> f \<noteq> []" using assms(2) p by (auto simp: norm_parts_def Let_def)
qed

lemma digits_val_mod: "f \<noteq> [] \<Longrightarrow> digits_val 0 (xs @ f) mod 10 = digit_of (last f) mod 10"
  by (cases f rule: rev_cases) (simp_all add: digits_val_append)

text \<open>With no trailing zero the number of fractional digits is determined by the value.\<close>

lemma scaled_eq_unique:
  assumes "(of_nat n :: rat) / 10 ^ k = of_nat m / 10 ^ j" and "0 < j \<Longrightarrow> m mod 10 \<noteq> 0"
  shows "j \<le> k"
proof (rule ccontr)
  assume "\<not> j \<le> k"
  then obtain l where j: "j = k + Suc l" using less_imp_Suc_add [of k j] by auto
  have "(of_nat (n * 10 ^ Suc l) :: rat) = of_nat m" using assms(1) by (simp add: j power_add field_simps)
  then have "m = n * 10 ^ Suc l" using of_nat_eq_iff by metis
  then have "m mod 10 = 0" by simp
  with assms(2) j show False by simp
qed

lemma norm_parts_unique:
  assumes d: "plain_decimal d" "norm_parts (plain_parts d) = (neg, i, f)"
    and e: "plain_decimal e" "norm_parts (plain_parts e) = (neg', i', f')"
    and eq: "parts_value (neg, i, f) = parts_value (neg', i', f')"
  shows "(neg, i, f) = (neg', i', f')"
proof -
  note cd = canonical_parts [OF d] and ce = canonical_parts [OF e]
  let ?n = "digits_val 0 (i @ f)" and ?m = "digits_val 0 (i' @ f')"
  have abs: "(of_nat ?n :: rat) / 10 ^ length f = of_nat ?m / 10 ^ length f'"
    using arg_cong [OF eq, of abs] by (simp add: parts_value_def split: if_splits)
  have last_nz: "xs \<noteq> [] \<Longrightarrow> list_all is_digit xs \<Longrightarrow> last xs \<noteq> CHR ''0'' \<Longrightarrow> digit_of (last xs) mod 10 \<noteq> 0" for xs
    using digit_of_inj [of "last xs" "CHR ''0''"] digit_of_less [of "last xs"] by (auto simp: list_all_iff)
  have len: "length f = length f'"
    using scaled_eq_unique [OF abs] scaled_eq_unique [OF abs [symmetric]]
      digits_val_mod [of f i] digits_val_mod [of f' i'] last_nz cd(2,5) ce(2,5) by (metis le_antisym length_greater_0_conv)
  with abs have "?n = ?m" by (simp add: of_nat_eq_iff)
  then have "digits_val (digits_val 0 i) f = digits_val (digits_val 0 i') f'" by (simp add: digits_val_append)
  then have "digits_val 0 i = digits_val 0 i'" and "f = f'" using digits_val_inj [OF len cd(2) ce(2)] by auto
  moreover from this(1) have "i = i'" using digits_val_unique cd(1,4) ce(1,4) by blast
  moreover have "neg = neg'"
  proof (rule ccontr)
    assume ne: "neg \<noteq> neg'"
    with eq \<open>?n = ?m\<close> len have "?n = 0" by (simp add: parts_value_def split: if_splits)
    then have z: "digits_val 0 i = 0" "f \<noteq> [] \<Longrightarrow> False"
      using digits_val_acc [of "digits_val 0 i" f] digits_val_mod [of f i] last_nz [of f] cd(2,5)
      by (auto simp: digits_val_append)
    then have "i = []" using digits_val_unique [of i "[]"] cd(1,4) by simp
    with z ne \<open>i = i'\<close> \<open>f = f'\<close> show False using cd(6) ce(6) by auto
  qed
  ultimately show ?thesis by simp
qed

lemma dec_canonical_rat: "plain_decimal d \<Longrightarrow> dec_rat (dec_canonical d) = dec_rat d"
proof -
  assume d: "plain_decimal d"
  obtain neg i f where p: "norm_parts (plain_parts d) = (neg, i, f)" using prod_cases3 by blast
  note c = canonical_parts(1,2,3) [OF d p]
  have "dec_rat (dec_canonical d) = Inr (parts_value (neg, i, f))"
    using dec_rat_plain [OF render_parts_plain(1) [OF c]] render_parts_plain(2) [OF c]
    by (simp add: dec_canonical_plain [OF d] p)
  also have "parts_value (neg, i, f) = parts_value (plain_parts d)"
    using norm_parts_value p by (metis prod_cases3)
  finally show ?thesis using dec_rat_plain [OF d] by simp
qed

lemma plain_not_empty: "plain_decimal d \<Longrightarrow> \<not> dec_is_empty d"
  using dec_rat_plain [of d] by (auto simp: dec_is_empty_def dec_rat_def)

lemma dec_equal_plain:
  "plain_decimal d \<Longrightarrow> plain_decimal e \<Longrightarrow> dec_equal d e \<longleftrightarrow> dec_rat d = dec_rat e"
  by (auto simp: dec_equal_def plain_not_empty dec_compare_def dec_rat_plain rat_cmp_def)


section \<open>Properties\<close>

text \<open>
  C35. On base-10 strings \<open>Canonical\<close> decides equality of values: two decimals compare equal exactly
  when their canonical forms are the same string, and the canonical form has the value of the
  original. Content identities built from canonical decimals therefore neither split one value nor
  merge two.
\<close>

theorem canonical_decides_equality:
  assumes "plain_decimal d" and "plain_decimal e"
  shows "dec_rat (dec_canonical d) = dec_rat d \<and>
    (dec_equal d e \<longleftrightarrow> dec_canonical d = dec_canonical e)"
proof (intro conjI)
  show "dec_rat (dec_canonical d) = dec_rat d" by (rule dec_canonical_rat [OF assms(1)])
  obtain neg i f where p: "norm_parts (plain_parts d) = (neg, i, f)" using prod_cases3 by blast
  obtain neg' i' f' where q: "norm_parts (plain_parts e) = (neg', i', f')" using prod_cases3 by blast
  show "dec_equal d e \<longleftrightarrow> dec_canonical d = dec_canonical e"
  proof
    assume "dec_equal d e"
    then have "parts_value (plain_parts d) = parts_value (plain_parts e)"
      using assms by (simp add: dec_equal_plain dec_rat_plain)
    then have "parts_value (neg, i, f) = parts_value (neg', i', f')"
      using norm_parts_value p q by (metis prod_cases3)
    then have "(neg, i, f) = (neg', i', f')" by (rule norm_parts_unique [OF assms(1) p assms(2) q])
    with p q show "dec_canonical d = dec_canonical e" using assms by (simp add: dec_canonical_plain)
  next
    assume "dec_canonical d = dec_canonical e"
    then show "dec_equal d e" using assms dec_canonical_rat by (metis dec_equal_plain)
  qed
qed

theorem canonical_decides_equality_witness:
  "dec_rat (dec_canonical '' +01.50'') = dec_rat '' +01.50'' \<and>
   dec_equal '' +01.50'' ''1.5'' \<and> dec_canonical '' +01.50'' = dec_canonical ''1.5''"
proof -
  have p: "plain_decimal '' +01.50''" "plain_decimal ''1.5''" by code_simp+
  have "dec_canonical '' +01.50'' = dec_canonical ''1.5''" by code_simp
  then show ?thesis using canonical_decides_equality [OF p] by simp
qed

text \<open>
  C36. JSON round trip: whatever \<open>MarshalJSON\<close> emits for a decimal, \<open>UnmarshalJSON\<close> accepts and reads
  back as the same text without surrounding white space, so the value survives transport.
\<close>

theorem decimal_json_roundtrip:
  assumes "dec_marshal_json d = Inr j"
  shows "dec_unmarshal_json j = Inr (trim_space d)"
  using assms
  by (auto simp: dec_marshal_json_def dec_unmarshal_json_def parse_decimal_def dec_is_empty_def dec_rat_def Let_def
      split: if_splits sum.splits option.splits)

theorem decimal_json_roundtrip_witness:
  "dec_marshal_json '' 0.25'' = Inr (Some '' 0.25'') \<and> dec_unmarshal_json (Some '' 0.25'') = Inr ''0.25''"
proof -
  have m: "dec_marshal_json '' 0.25'' = Inr (Some '' 0.25'')" by code_simp
  moreover have "trim_space '' 0.25'' = ''0.25''" by code_simp
  ultimately show ?thesis using decimal_json_roundtrip [OF m] by simp
qed

text \<open>
  \<open>ParseDecimal\<close> promises base-10 input but only rejects \<open>/\<close>, \<open>e\<close> and \<open>E\<close>: hexadecimal and binary
  prefixes, digit separators and binary exponents pass through \<open>big.Rat.SetString\<close>, and
  \<open>Canonical\<close> then turns an accepted value into a string the parser refuses.
\<close>

lemma non_base10_decimals_accepted:
  "parse_decimal ''0x10'' = Inr ''0x10'' \<and> dec_rat ''0x10'' = Inr 16 \<and>
   dec_rat ''1_000'' = Inr 1000 \<and> dec_rat ''1p3'' = Inr 8 \<and>
   dec_canonical ''0x10'' = ''x10'' \<and> isl (dec_rat ''x10'')"
  by (intro conjI; code_simp)

end
