(* ===== verification/Fees.thy ===== *)
theory Fees
  imports Decimal
begin

text \<open>
  \<open>src/internal/domain/fee_schedule.go\<close>: the fee buffer of a BUY reservation, derived from the fee
  curve \<open>rate * (p * (1 - p)) ^ exponent\<close> a venue publishes. The theorems show that the printed
  per-share buffer is never below the fee at any price the order may fill at, and that an
  unconfirmed schedule never yields a venue buffer.
\<close>

section \<open>Printing scaled integers\<close>

text \<open>Go's \<open>big.Int.QuoRem\<close> truncates towards zero.\<close>

definition int_quo :: "int \<Rightarrow> int \<Rightarrow> int" where
  "int_quo a b = sgn a * sgn b * (\<bar>a\<bar> div \<bar>b\<bar>)"

definition int_rem :: "int \<Rightarrow> int \<Rightarrow> int" where
  "int_rem a b = a - int_quo a b * b"

definition pad_zeros :: "nat \<Rightarrow> string \<Rightarrow> string" where
  "pad_zeros n s = replicate (n - length s) (CHR ''0'') @ s"

text \<open>The digits of a natural number with a point before the last \<open>k\<close> of them, trailing zeros cut.\<close>

definition print_scaled :: "nat \<Rightarrow> nat \<Rightarrow> string" where
  "print_scaled q k =
     (let text = pad_zeros (Suc k) (show_nat q);
          integerPart = take (length text - k) text;
          fractionPart = trim_right_char (CHR ''0'') (drop (length text - k) text)
      in integerPart @ (if fractionPart \<noteq> [] then ''.'' @ fractionPart else []))"

definition rat_decimal_rounded_up :: "rat \<Rightarrow> nat \<Rightarrow> decimal" where
  "rat_decimal_rounded_up value maxScale =
     (if value = 0 then ''0''
      else
       (case quotient_of (value * 10 ^ maxScale) of (numerator, denominator) \<Rightarrow>
        let quotient = int_quo numerator denominator;
            quotient = (if int_rem numerator denominator > 0 then quotient + 1 else quotient)
        in (if quotient < 0 then ''-'' else []) @ print_scaled (nat \<bar>quotient\<bar>) maxScale))"


section \<open>The fee schedule\<close>

record market_fee_schedule =
  fs_platform_fee_rate :: decimal
  fs_fee_exponent :: decimal
  fs_rounding_allowance :: decimal
  fs_taker_only :: bool
  fs_fetched_at :: gtime

definition BuyFeeReserveSourceVenueFeeSchedule :: string where
  "BuyFeeReserveSourceVenueFeeSchedule = ''VENUE_FEE_SCHEDULE''"

definition BuyFeeReserveSourceConfigCap :: string where
  "BuyFeeReserveSourceConfigCap = ''CONFIG_MAX_FEE_RATE_CAP''"

record buy_fee_reserve =
  br_source :: string
  br_platform_fee_rate :: decimal
  br_fee_exponent :: decimal
  br_max_fee_per_share :: decimal
  br_rounding_allowance :: decimal
  br_schedule_fetched_at :: "gtime option"
  br_reason :: string

definition negative_or_invalid :: "decimal \<Rightarrow> bool" where
  "negative_or_invalid d = (case dec_sign d of Inl _ \<Rightarrow> True | Inr s \<Rightarrow> s < 0)"

text \<open>The exponent must be an integer of at most 16 bits.\<close>

definition validate_fee_exponent :: "decimal \<Rightarrow> err" where
  "validate_fee_exponent d =
     (let bad = Some (ErrText ''fee_exponent must be a small non-negative integer'') in
      case dec_rat d of Inl _ \<Rightarrow> bad
      | Inr v \<Rightarrow> if v < 0 \<or> \<not> rat_is_int v \<or> 2 ^ 16 \<le> fst (quotient_of v) then bad else None)"

definition buy_fee_reserve_validate :: "buy_fee_reserve \<Rightarrow> err" where
  "buy_fee_reserve_validate r =
     (let source = trim_space (br_source r) in
      if source = BuyFeeReserveSourceVenueFeeSchedule then
        (if negative_or_invalid (br_max_fee_per_share r)
         then Some (ErrText ''venue fee schedule reserve requires a non-negative max_fee_per_share'')
         else if negative_or_invalid (br_platform_fee_rate r)
         then Some (ErrText ''venue fee schedule reserve requires a non-negative platform_fee_rate'')
         else case validate_fee_exponent (br_fee_exponent r) of
           Some e \<Rightarrow> Some e
         | None \<Rightarrow>
             if \<not> dec_is_empty (br_rounding_allowance r) \<and> negative_or_invalid (br_rounding_allowance r)
             then Some (ErrText ''venue fee schedule reserve requires a non-negative rounding_allowance_per_share'')
             else None)
      else if source = BuyFeeReserveSourceConfigCap then
        (if \<not> dec_is_empty (br_max_fee_per_share r)
         then Some (ErrText ''config cap fee reserve must not carry a venue max_fee_per_share'') else None)
      else Some (ErrText (''unsupported buy fee reserve source '' @ quoted (br_source r))))"

definition venue_max_fee_per_share :: "buy_fee_reserve option \<Rightarrow> decimal \<times> bool" where
  "venue_max_fee_per_share reserve =
     (case reserve of None \<Rightarrow> ([], False)
      | Some r \<Rightarrow>
          if trim_space (br_source r) \<noteq> BuyFeeReserveSourceVenueFeeSchedule \<or> dec_is_empty (br_max_fee_per_share r)
          then ([], False) else (br_max_fee_per_share r, True))"

fun pow_loop :: "nat \<Rightarrow> rat \<Rightarrow> rat \<Rightarrow> rat" where
  "pow_loop 0 curve powered = powered"
| "pow_loop (Suc n) curve powered = pow_loop n curve (powered * curve)"

definition max_buy_fee_per_share :: "decimal \<Rightarrow> market_fee_schedule \<Rightarrow> go_error + decimal" where
  "max_buy_fee_per_share worstPrice schedule =
     (case dec_rat worstPrice of Inl _ \<Rightarrow> Inl (ErrText ''worst_price must be a positive decimal'')
      | Inr price \<Rightarrow>
      if price \<le> 0 then Inl (ErrText ''worst_price must be a positive decimal'')
      else case dec_rat (fs_platform_fee_rate schedule) of
        Inl _ \<Rightarrow> Inl (ErrText ''platform_fee_rate must be a non-negative decimal'')
      | Inr rate \<Rightarrow>
      if rate < 0 then Inl (ErrText ''platform_fee_rate must be a non-negative decimal'')
      else case validate_fee_exponent (fs_fee_exponent schedule) of
        Some e \<Rightarrow> Inl e
      | None \<Rightarrow>
      (case dec_rat (fs_fee_exponent schedule) of Inl e \<Rightarrow> Inl e
       | Inr ex \<Rightarrow>
       let half = 1 / 2;
           price = (if price > half then half else price);
           curve = price * (1 - price);
           powered = pow_loop (nat (fst (quotient_of ex))) curve 1;
           fee = rate * powered
       in if dec_is_empty (fs_rounding_allowance schedule) then Inr (rat_decimal_rounded_up fee 18)
          else case dec_rat (fs_rounding_allowance schedule) of
            Inl _ \<Rightarrow> Inl (ErrText ''rounding_allowance_per_share must be a non-negative decimal'')
          | Inr allowance \<Rightarrow>
              if allowance < 0 then Inl (ErrText ''rounding_allowance_per_share must be a non-negative decimal'')
              else Inr (rat_decimal_rounded_up (fee + allowance) 18)))"

definition config_cap_reserve :: "go_error \<Rightarrow> buy_fee_reserve" where
  "config_cap_reserve e =
     \<lparr>br_source = BuyFeeReserveSourceConfigCap, br_platform_fee_rate = [], br_fee_exponent = [],
      br_max_fee_per_share = [], br_rounding_allowance = [], br_schedule_fetched_at = None, br_reason = error_text e\<rparr>"

definition resolve_buy_fee_reserve :: "decimal \<Rightarrow> market_fee_schedule \<Rightarrow> err \<Rightarrow> buy_fee_reserve" where
  "resolve_buy_fee_reserve worstPrice schedule scheduleErr =
     (case scheduleErr of
        Some e \<Rightarrow> config_cap_reserve e
      | None \<Rightarrow>
          (case max_buy_fee_per_share worstPrice schedule of
             Inl e \<Rightarrow> config_cap_reserve e
           | Inr maxFeePerShare \<Rightarrow>
               \<lparr>br_source = BuyFeeReserveSourceVenueFeeSchedule,
                br_platform_fee_rate = fs_platform_fee_rate schedule,
                br_fee_exponent = fs_fee_exponent schedule,
                br_max_fee_per_share = maxFeePerShare,
                br_rounding_allowance = fs_rounding_allowance schedule,
                br_schedule_fetched_at =
                  (if is_zero_time (fs_fetched_at schedule) then None else Some (fs_fetched_at schedule)),
                br_reason = []\<rparr>))"


section \<open>Printing is exact\<close>

lemma is_digit_char_of: "(n :: nat) < 10 \<Longrightarrow> is_digit (char_of (48 + n))"
  by (simp add: is_digit_def)

lemma show_nat_digits: "list_all is_digit (show_nat n)"
  by (induction n rule: show_nat.induct) (subst show_nat.simps, auto simp: is_digit_char_of)

lemma show_nat_value: "digits_val 0 (show_nat n) = n"
proof (induction n rule: show_nat.induct)
  case (1 n)
  show ?case
    by (subst show_nat.simps) (use 1 in \<open>auto simp: digits_val_append digit_of_def\<close>)
qed

lemma show_nat_nonempty [simp]: "show_nat n \<noteq> []"
  by (subst show_nat.simps) simp

lemma digits_val_pad: "digits_val 0 (pad_zeros n s) = digits_val 0 s"
  by (simp add: pad_zeros_def digits_val_zeros_left)

text \<open>A digit string with a point before its last \<open>k\<close> digits, trailing zeros cut.\<close>

lemma split_digits_plain:
  assumes "k \<le> 1000000" "list_all is_digit t" "length t \<ge> Suc k"
  defines "d \<equiv> render_parts (False, take (length t - k) t, trim_right_char (CHR ''0'') (drop (length t - k) t))"
  shows "plain_decimal d" "dec_rat d = Inr (of_nat (digits_val 0 t) / 10 ^ k)"
proof -
  let ?i = "take (length t - k) t" and ?g = "drop (length t - k) t"
  let ?f = "trim_right_char (CHR ''0'') ?g"
  have "list_all is_digit ?i" "list_all is_digit ?g" using assms(2) by (auto simp: list_all_iff dest: in_set_takeD in_set_dropD)
  then have digs: "list_all is_digit ?i" "list_all is_digit ?f" by simp_all
  have lenf: "length ?f \<le> 1000000" using length_trim_right [of "CHR ''0''" ?g] assms by simp
  have "parts_value (False, ?i, ?f) = parts_value (norm_parts (False, ?i, ?g))"
    using trim_left_zeros [of ?i "CHR ''0''"]
    by (simp add: norm_parts_def parts_value_def Let_def digits_val_append) (metis digits_val_zeros_left)
  also have "\<dots> = parts_value (False, ?i, ?g)" by (rule norm_parts_value)
  also have "\<dots> = of_nat (digits_val 0 t) / 10 ^ k" using assms(3) by (simp add: parts_value_def)
  finally show "dec_rat d = Inr (of_nat (digits_val 0 t) / 10 ^ k)"
    using render_parts_plain [OF digs lenf, of False] by (simp add: d_def dec_rat_plain)
  show "plain_decimal d" using render_parts_plain [OF digs lenf, of False] by (simp add: d_def)
qed

lemma pad_zeros_digits: "list_all is_digit s \<Longrightarrow> list_all is_digit (pad_zeros n s)"
  by (auto simp: pad_zeros_def list_all_iff)

lemma length_pad_zeros: "length (pad_zeros n s) = max n (length s)"
  by (simp add: pad_zeros_def)

lemma print_scaled_plain:
  assumes "k \<le> 1000000"
  shows "plain_decimal (print_scaled q k)" "dec_rat (print_scaled q k) = Inr (of_nat q / 10 ^ k)"
proof -
  let ?t = "pad_zeros (Suc k) (show_nat q)"
  have t: "list_all is_digit ?t" "length ?t \<ge> Suc k"
    using pad_zeros_digits [OF show_nat_digits] by (simp_all add: length_pad_zeros)
  then have "take (length ?t - k) ?t \<noteq> []" by auto
  then have r: "print_scaled q k =
      render_parts (False, take (length ?t - k) ?t, trim_right_char (CHR ''0'') (drop (length ?t - k) ?t))"
    by (simp add: print_scaled_def render_parts_def Let_def)
  show "plain_decimal (print_scaled q k)" "dec_rat (print_scaled q k) = Inr (of_nat q / 10 ^ k)"
    using split_digits_plain [OF assms t] unfolding r by (simp_all add: digits_val_pad show_nat_value)
qed

lemma dec_rat_zero: "dec_rat ''0'' = Inr 0"
  by code_simp

text \<open>Rounding up stays within one unit of the last place, from above.\<close>

lemma rounded_up_bounds:
  assumes "0 \<le> v" and "k \<le> 1000000"
  obtains r where "dec_rat (rat_decimal_rounded_up v k) = Inr r" "v \<le> r" "r < v + 1 / 10 ^ k"
proof (cases "v = 0")
  case True
  then show ?thesis using that [of 0] by (simp add: rat_decimal_rounded_up_def dec_rat_zero)
next
  case False
  obtain a b where ab: "quotient_of (v * 10 ^ k) = (a, b)" by fastforce
  then have b: "b > 0" and val: "v * 10 ^ k = of_int a / of_int b"
    by (auto simp: quotient_of_denom_pos quotient_of_div)
  have "0 < v * 10 ^ k" using assms False by simp
  with val b have a: "a > 0" by (simp add: zero_less_divide_iff)
  define q where "q = (if a mod b > 0 then a div b + 1 else a div b)"
  have qr: "int_quo a b = a div b" "int_rem a b = a mod b"
    using a b by (simp_all add: int_quo_def int_rem_def minus_div_mult_eq_mod)
  have q0: "0 \<le> q" using a b by (simp add: q_def pos_imp_zdiv_nonneg_iff)
  have e: "a = a div b * b + a mod b" by simp
  have qb: "q * b = a div b * b + (if a mod b > 0 then b else 0)" by (simp add: q_def distrib_right)
  have "x + y \<le> x + (if y > 0 then b else 0) \<and> x + (if y > 0 then b else 0) < x + y + b"
    if "y < b" "0 \<le> y" for x y :: int using that b by auto
  from this [OF pos_mod_bound [OF b, of a] pos_mod_sign [OF b, of a], of "a div b * b"]
  have "a \<le> q * b \<and> q * b < a + b" unfolding qb using e by simp
  then have "(of_int a :: rat) \<le> of_int (q * b)" "(of_int (q * b) :: rat) < of_int (a + b)"
    by (simp_all only: of_int_le_iff of_int_less_iff)
  then have c: "v * 10 ^ k \<le> of_int q" "of_int q < v * 10 ^ k + 1"
    using b by (simp_all add: val field_simps)
  have "rat_decimal_rounded_up v k = print_scaled (nat q) k"
    using False q0 by (auto simp: rat_decimal_rounded_up_def ab qr Let_def q_def)
  then have "dec_rat (rat_decimal_rounded_up v k) = Inr (of_int q / 10 ^ k)"
    using print_scaled_plain(2) [OF assms(2), of "nat q"] q0 by simp
  from that [OF this] c show ?thesis by (simp add: field_simps)
qed


section \<open>Properties\<close>

lemma pow_loop_power: "pow_loop n c p = p * c ^ n"
  by (induction n arbitrary: p) (simp_all add: mult.assoc mult.commute)

lemma fee_curve_peak:
  fixes p w :: rat
  assumes "0 < p" "p \<le> w" "p \<le> 1"
  shows "p * (1 - p) \<le> min w (1/2) * (1 - min w (1/2))"
proof (cases "w \<le> 1/2")
  case True
  have "0 \<le> (w - p) * (1 - w - p)" using assms True by (intro mult_nonneg_nonneg) auto
  then show ?thesis using True by (simp add: min_def algebra_simps)
next
  case False
  have "0 \<le> (p - 1/2) * (p - 1/2)" by simp
  then show ?thesis using False by (simp add: min_def algebra_simps)
qed

text \<open>The fee per share a venue charges at fill price \<open>p\<close> under a schedule, with its rounding.\<close>

definition schedule_fee :: "rat \<Rightarrow> nat \<Rightarrow> rat \<Rightarrow> rat \<Rightarrow> rat" where
  "schedule_fee rate ex allowance p = rate * (p * (1 - p)) ^ ex + allowance"

definition allowance_value :: "market_fee_schedule \<Rightarrow> rat" where
  "allowance_value s = (if dec_is_empty (fs_rounding_allowance s) then 0
     else case dec_rat (fs_rounding_allowance s) of Inl _ \<Rightarrow> 0 | Inr a \<Rightarrow> a)"

lemma max_buy_fee_cases:
  assumes "max_buy_fee_per_share worst s = Inr m"
  obtains w rate ex where "dec_rat worst = Inr w" "0 < w" "dec_rat (fs_platform_fee_rate s) = Inr rate" "0 \<le> rate"
    "dec_rat (fs_fee_exponent s) = Inr ex" "0 \<le> allowance_value s"
    "m = rat_decimal_rounded_up
       (schedule_fee rate (nat (fst (quotient_of ex))) (allowance_value s) (min w (1/2))) 18"
  using assms that
  by (fastforce simp: max_buy_fee_per_share_def allowance_value_def schedule_fee_def pow_loop_power min_def Let_def
      split: sum.splits option.splits if_splits)

lemma eighteen_small: "(18 :: nat) \<le> 1000000"
  by simp

lemma schedule_fee_nonneg:
  "0 \<le> rate \<Longrightarrow> 0 \<le> a \<Longrightarrow> 0 \<le> p \<Longrightarrow> p \<le> 1 \<Longrightarrow> 0 \<le> schedule_fee rate n a p"
  by (simp add: schedule_fee_def)

lemma max_buy_fee_valid:
  assumes "max_buy_fee_per_share worst s = Inr m"
  shows "\<not> dec_is_empty m" "\<not> negative_or_invalid m" "\<not> negative_or_invalid (fs_platform_fee_rate s)"
    "validate_fee_exponent (fs_fee_exponent s) = None"
    "dec_is_empty (fs_rounding_allowance s) \<or> \<not> negative_or_invalid (fs_rounding_allowance s)"
proof -
  obtain w rate ex where c: "0 < w" "dec_rat (fs_platform_fee_rate s) = Inr rate" "0 \<le> rate" "0 \<le> allowance_value s"
    and m: "m = rat_decimal_rounded_up
       (schedule_fee rate (nat (fst (quotient_of ex))) (allowance_value s) (min w (1/2))) 18"
    using assms by (elim max_buy_fee_cases)
  have "0 \<le> schedule_fee rate (nat (fst (quotient_of ex))) (allowance_value s) (min w (1/2))"
    using c by (intro schedule_fee_nonneg) auto
  then obtain r where r: "dec_rat m = Inr r" "0 \<le> r"
    unfolding m using rounded_up_bounds [of _ 18] by (metis eighteen_small order_trans)
  show "\<not> dec_is_empty m" using r by (auto simp: dec_is_empty_def dec_rat_def)
  show "\<not> negative_or_invalid m" "\<not> negative_or_invalid (fs_platform_fee_rate s)"
    using r c by (simp_all add: negative_or_invalid_def dec_sign_def rat_sign_def)
  show "validate_fee_exponent (fs_fee_exponent s) = None"
    "dec_is_empty (fs_rounding_allowance s) \<or> \<not> negative_or_invalid (fs_rounding_allowance s)"
    using assms by (auto simp: max_buy_fee_per_share_def Let_def negative_or_invalid_def dec_sign_def rat_sign_def
        split: sum.splits option.splits if_splits)
qed

text \<open>
  C34. The BUY fee reserve covers the worst fill: when \<open>MaxBuyFeePerShare\<close> yields a buffer, its decimal
  parses, is at least the schedule's fee at every price the protection price allows, and exceeds the
  worst such fee by less than one unit in the 18th decimal place.
\<close>

theorem buy_fee_reserve_covers_fill:
  assumes "max_buy_fee_per_share worst s = Inr m"
    and "dec_rat worst = Inr w" and "dec_rat (fs_platform_fee_rate s) = Inr rate"
    and "dec_rat (fs_fee_exponent s) = Inr ex"
    and "0 < p" and "p \<le> w" and "p \<le> 1"
  shows "\<exists>r. dec_rat m = Inr r \<and>
    schedule_fee rate (nat (fst (quotient_of ex))) (allowance_value s) p \<le> r \<and>
    r < schedule_fee rate (nat (fst (quotient_of ex))) (allowance_value s) (min w (1/2)) + 1 / 10 ^ 18"
proof -
  let ?fee = "schedule_fee rate (nat (fst (quotient_of ex))) (allowance_value s)"
  have m: "m = rat_decimal_rounded_up (?fee (min w (1/2))) 18" and nn: "0 < w" "0 \<le> rate" "0 \<le> allowance_value s"
    using assms(1-4) by (auto elim!: max_buy_fee_cases)
  have curve: "0 \<le> p * (1 - p)" "p * (1 - p) \<le> min w (1/2) * (1 - min w (1/2))"
    using assms(5-7) fee_curve_peak by auto
  then have "(p * (1 - p)) ^ n \<le> (min w (1/2) * (1 - min w (1/2))) ^ n" for n by (rule power_mono [rotated])
  then have le: "?fee p \<le> ?fee (min w (1/2))" using nn by (simp add: schedule_fee_def mult_left_mono)
  have "0 \<le> ?fee p" using nn curve by (simp add: schedule_fee_def)
  with le have "0 \<le> ?fee (min w (1/2))" by simp
  then obtain r where "dec_rat m = Inr r" "?fee (min w (1/2)) \<le> r" "r < ?fee (min w (1/2)) + 1 / 10 ^ 18"
    unfolding m by (rule rounded_up_bounds [where k = 18]) auto
  with le show ?thesis by auto
qed

definition sample_fee_schedule :: market_fee_schedule where
  "sample_fee_schedule =
     \<lparr>fs_platform_fee_rate = ''0.07'', fs_fee_exponent = ''1'', fs_rounding_allowance = [],
      fs_taker_only = True, fs_fetched_at = 5\<rparr>"

lemma sample_fee_rats:
  "dec_rat ''0.8'' = Inr (4/5)" "dec_rat (fs_platform_fee_rate sample_fee_schedule) = Inr (7/100)"
  "dec_rat (fs_fee_exponent sample_fee_schedule) = Inr 1" "allowance_value sample_fee_schedule = 0"
  by code_simp+

lemma sample_max_fee: "max_buy_fee_per_share ''0.8'' sample_fee_schedule = Inr ''0.0175''"
proof -
  have "quotient_of (7/400 * 10^18) = (17500000000000000, 1)" by code_simp
  moreover have "print_scaled 17500000000000000 18 = ''0.0175''" by code_simp
  ultimately have "rat_decimal_rounded_up (7/400) 18 = ''0.0175''"
    by (simp add: rat_decimal_rounded_up_def int_quo_def int_rem_def Let_def)
  moreover have "validate_fee_exponent (fs_fee_exponent sample_fee_schedule) = None" by code_simp
  moreover have "dec_is_empty (fs_rounding_allowance sample_fee_schedule)" by code_simp
  ultimately show ?thesis using sample_fee_rats
    by (simp add: max_buy_fee_per_share_def Let_def pow_loop_power)
qed

theorem buy_fee_reserve_covers_fill_witness:
  "max_buy_fee_per_share ''0.8'' sample_fee_schedule = Inr ''0.0175'' \<and>
   (\<exists>r. dec_rat ''0.0175'' = Inr r \<and> schedule_fee (7/100) (nat (fst (quotient_of 1))) 0 (7/10) \<le> r)"
  using buy_fee_reserve_covers_fill [OF sample_max_fee sample_fee_rats(1-3), of "7/10"] sample_max_fee sample_fee_rats(4)
  by auto

text \<open>
  Fees are never assumed to be zero: the resolved reserve always validates, and it offers a
  venue-confirmed buffer exactly when the schedule was read and its curve evaluated; in every other
  case the caller falls back to the configured cap and the reason is recorded.
\<close>

lemma resolve_buy_fee_reserve_safe:
  "buy_fee_reserve_validate (resolve_buy_fee_reserve worst s e) = None \<and>
   venue_max_fee_per_share (Some (resolve_buy_fee_reserve worst s e)) =
     (case e of Some x \<Rightarrow> ([], False)
      | None \<Rightarrow> (case max_buy_fee_per_share worst s of Inl x \<Rightarrow> ([], False) | Inr m \<Rightarrow> (m, True)))"
proof (intro conjI)
  have src: "trim_space BuyFeeReserveSourceVenueFeeSchedule = BuyFeeReserveSourceVenueFeeSchedule"
    "trim_space BuyFeeReserveSourceConfigCap = BuyFeeReserveSourceConfigCap"
    "BuyFeeReserveSourceConfigCap \<noteq> BuyFeeReserveSourceVenueFeeSchedule" by code_simp+
  have nil: "dec_is_empty []" by (simp add: dec_is_empty_def)
  show "buy_fee_reserve_validate (resolve_buy_fee_reserve worst s e) = None"
  proof (cases "e = None")
    case True
    show ?thesis
    proof (cases "max_buy_fee_per_share worst s")
      case (Inr m)
      note v = max_buy_fee_valid [OF Inr]
      show ?thesis
        using v by (simp add: True Inr resolve_buy_fee_reserve_def buy_fee_reserve_validate_def src)
    qed (simp add: True resolve_buy_fee_reserve_def config_cap_reserve_def buy_fee_reserve_validate_def src nil)
  qed (auto simp: resolve_buy_fee_reserve_def config_cap_reserve_def buy_fee_reserve_validate_def src nil)
  show "venue_max_fee_per_share (Some (resolve_buy_fee_reserve worst s e)) =
     (case e of Some x \<Rightarrow> ([], False)
      | None \<Rightarrow> (case max_buy_fee_per_share worst s of Inl x \<Rightarrow> ([], False) | Inr m \<Rightarrow> (m, True)))"
    using max_buy_fee_valid(1)
    by (auto simp: resolve_buy_fee_reserve_def config_cap_reserve_def venue_max_fee_per_share_def src nil
        split: option.splits sum.splits)
qed

end
