(* ===== verification/Orders.thy ===== *)
theory Orders
  imports Fees
begin

text \<open>
  \<open>src/internal/domain\<close>: \<open>market_source.go\<close>, \<open>order.go\<close>, \<open>order_lifecycle.go\<close>, the market evidence of
  \<open>market.go\<close> and the order builders of \<open>builders.go\<close>. Pointers to immutable values are options,
  string enumerations that come from outside stay strings, and the metadata map is an association list
  read through \<open>map_of\<close>. The lemmas describe normalisation, the identity of intents and the status graph.
\<close>

section \<open>Market sources\<close>

type_synonym market_source = string

definition MarketSourcePolymarket :: market_source where "MarketSourcePolymarket = ''POLYMARKET''"
definition MarketSourceKalshi :: market_source where "MarketSourceKalshi = ''KALSHI''"

definition market_source_normalize :: "market_source \<Rightarrow> market_source" where
  "market_source_normalize source =
     (let normalized = to_upper (trim_space source) in
      if normalized = [] then MarketSourcePolymarket else normalized)"

definition market_source_venue :: "market_source \<Rightarrow> string \<Rightarrow> go_error + string" where
  "market_source_venue source defaultVenue =
     (if market_source_normalize source = MarketSourcePolymarket then
        (let venue = to_lower (trim_space defaultVenue) in
         if venue = [] then Inl (ErrText ''Polymarket execution venue is required'') else Inr venue)
      else if market_source_normalize source = MarketSourceKalshi then Inr ''kalshi''
      else Inl (ErrText (''unsupported market_source '' @ quoted source)))"

definition canonical_instrument_id ::
    "market_source \<Rightarrow> string \<Rightarrow> string \<Rightarrow> string \<Rightarrow> string \<Rightarrow> go_error + string" where
  "canonical_instrument_id source marketID conditionID outcomeID tokenID =
     (let marketID = trim_space marketID; conditionID = trim_space conditionID;
          outcomeID = to_upper (trim_space outcomeID); tokenID = trim_space tokenID in
      if market_source_normalize source = MarketSourcePolymarket then
        (if marketID = [] \<or> tokenID = []
         then Inl (ErrText ''Polymarket market and token identifiers are required'') else Inr tokenID)
      else if market_source_normalize source = MarketSourceKalshi then
        (if marketID = [] \<or> conditionID \<noteq> ''kalshi:'' @ marketID
         then Inl (ErrText ''Kalshi market and condition identifiers are inconsistent'')
         else if outcomeID \<noteq> ''YES'' \<and> outcomeID \<noteq> ''NO''
         then Inl (ErrText ''Kalshi outcome_id must be YES or NO'')
         else (let expected = conditionID @ '':'' @ outcomeID in
               if tokenID \<noteq> [] \<and> tokenID \<noteq> expected
               then Inl (ErrText ''Kalshi token_id must be empty upstream or equal the canonical instrument id'')
               else Inr expected))
      else Inl (ErrText (''unsupported market_source '' @ quoted source)))"

definition inferred_market_source :: "market_source \<Rightarrow> string \<Rightarrow> market_source" where
  "inferred_market_source source conditionID =
     (if trim_space source = [] \<and> has_prefix (trim_space conditionID) ''kalshi:'' then MarketSourceKalshi
      else if market_source_normalize source = MarketSourcePolymarket then []
      else market_source_normalize source)"


section \<open>Order intents\<close>

type_synonym side = string
type_synonym order_type = string
type_synonym time_in_force = string
type_synonym metadata = "(string \<times> string) list"

definition SideBuy :: side where "SideBuy = ''BUY''"
definition SideSell :: side where "SideSell = ''SELL''"
definition OrderTypeLimit :: order_type where "OrderTypeLimit = ''LIMIT''"
definition OrderTypeMarket :: order_type where "OrderTypeMarket = ''MARKET''"
definition TimeInForceGTC :: time_in_force where "TimeInForceGTC = ''GTC''"
definition TimeInForceGTD :: time_in_force where "TimeInForceGTD = ''GTD''"
definition TimeInForceIOC :: time_in_force where "TimeInForceIOC = ''IOC''"
definition TimeInForceFOK :: time_in_force where "TimeInForceFOK = ''FOK''"
definition TimeInForceFAK :: time_in_force where "TimeInForceFAK = ''FAK''"

lemmas order_constants = SideBuy_def SideSell_def OrderTypeLimit_def OrderTypeMarket_def TimeInForceGTC_def
  TimeInForceGTD_def TimeInForceIOC_def TimeInForceFOK_def TimeInForceFAK_def

record order_decision_meta =
  dm_market_end_at :: "gtime option"
  dm_domains :: "string list"

record order_decision_quotes =
  dq_yes_bid :: decimal
  dq_yes_ask :: decimal
  dq_no_bid :: decimal
  dq_no_ask :: decimal
  dq_yes_probability :: decimal

record order_intent =
  oi_model_id :: string
  oi_strategy_id :: string
  oi_execution_account_id :: string
  oi_signal_id :: string
  oi_client_order_id :: string
  oi_venue :: string
  oi_market_source :: market_source
  oi_market_id :: string
  oi_condition_id :: string
  oi_outcome_index :: "int option"
  oi_outcome_name :: string
  oi_outcome_id :: string
  oi_token_id :: string
  oi_target_lot_id :: string
  oi_expected_neg_risk :: "bool option"
  oi_market_snapshot_at :: "gtime option"
  oi_signal_at :: "gtime option"
  oi_side :: side
  oi_type :: order_type
  oi_price :: decimal
  oi_worst_price :: decimal
  oi_size :: decimal
  oi_time_in_force :: time_in_force
  oi_expires_at :: "gtime option"
  oi_metadata :: metadata
  oi_decision_quotes :: "order_decision_quotes option"
  oi_decision_meta :: "order_decision_meta option"

definition decision_meta_is_empty :: "order_decision_meta \<Rightarrow> bool" where
  "decision_meta_is_empty meta \<longleftrightarrow> dm_market_end_at meta = None \<and> dm_domains meta = []"

definition normalize_quotes :: "order_decision_quotes \<Rightarrow> order_decision_quotes" where
  "normalize_quotes q =
     \<lparr>dq_yes_bid = trim_space (dq_yes_bid q), dq_yes_ask = trim_space (dq_yes_ask q),
      dq_no_bid = trim_space (dq_no_bid q), dq_no_ask = trim_space (dq_no_ask q),
      dq_yes_probability = trim_space (dq_yes_probability q)\<rparr>"

definition normalize_meta :: "order_decision_meta \<Rightarrow> order_decision_meta" where
  "normalize_meta m =
     \<lparr>dm_market_end_at = dm_market_end_at m,
      dm_domains = filter (\<lambda>x. x \<noteq> []) (map trim_space (dm_domains m))\<rparr>"

definition intent_normalize :: "order_intent \<Rightarrow> order_intent" where
  "intent_normalize i = i\<lparr>
     oi_model_id := trim_space (oi_model_id i),
     oi_strategy_id := trim_space (oi_strategy_id i),
     oi_execution_account_id := trim_space (oi_execution_account_id i),
     oi_signal_id := trim_space (oi_signal_id i),
     oi_client_order_id := trim_space (oi_client_order_id i),
     oi_venue := to_lower (trim_space (oi_venue i)),
     oi_market_source := inferred_market_source (oi_market_source i) (oi_condition_id i),
     oi_market_id := trim_space (oi_market_id i),
     oi_condition_id := trim_space (oi_condition_id i),
     oi_outcome_name := trim_space (oi_outcome_name i),
     oi_outcome_id := to_upper (trim_space (oi_outcome_id i)),
     oi_token_id := trim_space (oi_token_id i),
     oi_target_lot_id := trim_space (oi_target_lot_id i),
     oi_side := to_upper (trim_space (oi_side i)),
     oi_type := to_upper (trim_space (oi_type i)),
     oi_price := trim_space (oi_price i),
     oi_worst_price := trim_space (oi_worst_price i),
     oi_size := trim_space (oi_size i),
     oi_time_in_force := to_upper (trim_space (oi_time_in_force i)),
     oi_decision_quotes := map_option normalize_quotes (oi_decision_quotes i),
     oi_decision_meta := map_option normalize_meta (oi_decision_meta i)\<rparr>"

definition not_positive :: "decimal \<Rightarrow> bool" where
  "not_positive d = (case dec_sign d of Inl _ \<Rightarrow> True | Inr s \<Rightarrow> s \<le> 0)"

definition intent_validate :: "order_intent \<Rightarrow> err" where
  "intent_validate i0 =
     (let i = intent_normalize i0 in
      if oi_model_id i = [] \<or> oi_strategy_id i = [] \<or> oi_execution_account_id i = [] \<or> oi_signal_id i = [] \<or> oi_client_order_id i = []
      then Some (ErrText ''model_id, strategy_id, execution_account_id, signal_id, and client_order_id are required'')
      else if oi_venue i = [] \<or> oi_market_id i = [] \<or> oi_token_id i = []
      then Some (ErrText ''venue, market_id, and token_id are required'')
      else if market_source_venue (oi_market_source i) (oi_venue i) \<noteq> Inr (oi_venue i)
      then Some (ErrText ''venue does not match market_source'')
      else if canonical_instrument_id (oi_market_source i) (oi_market_id i) (oi_condition_id i) (oi_outcome_id i) (oi_token_id i)
              \<noteq> Inr (oi_token_id i)
      then Some (ErrText ''order instrument identity is invalid'')
      else if (case oi_outcome_index i of None \<Rightarrow> False | Some k \<Rightarrow> k \<noteq> 0 \<and> k \<noteq> 1)
      then Some (ErrText ''outcome_index must be 0 or 1'')
      else if oi_market_snapshot_at i = Some 0 then Some (ErrText ''market_snapshot_at must not be zero'')
      else if oi_signal_at i = Some 0 then Some (ErrText ''signal_at must not be zero'')
      else if \<not> dec_is_empty (oi_worst_price i) \<and> not_positive (oi_worst_price i)
      then Some (ErrText ''worst_price must be a positive decimal string'')
      else if oi_side i \<noteq> SideBuy \<and> oi_side i \<noteq> SideSell
      then Some (ErrText (''unsupported side '' @ quoted (oi_side i)))
      else if oi_side i = SideBuy \<and> oi_target_lot_id i \<noteq> []
      then Some (ErrText ''BUY order must not contain target_lot_id'')
      else if oi_side i = SideSell \<and> oi_target_lot_id i = []
      then Some (ErrText ''SELL order requires target_lot_id'')
      else if oi_type i \<noteq> OrderTypeLimit \<and> oi_type i \<noteq> OrderTypeMarket
      then Some (ErrText (''unsupported order type '' @ quoted (oi_type i)))
      else if not_positive (oi_size i) then Some (ErrText ''size must be a positive decimal string'')
      else if oi_type i = OrderTypeLimit \<and> not_positive (oi_price i)
      then Some (ErrText ''limit price must be a positive decimal string'')
      else if oi_type i \<noteq> OrderTypeLimit \<and> \<not> dec_is_empty (oi_price i)
      then Some (ErrText ''market order must not include price'')
      else if oi_time_in_force i \<notin> {TimeInForceGTC, TimeInForceGTD, TimeInForceIOC, TimeInForceFOK, TimeInForceFAK}
      then Some (ErrText (''unsupported time_in_force '' @ quoted (oi_time_in_force i)))
      else if oi_type i = OrderTypeMarket \<and> (oi_time_in_force i = TimeInForceGTC \<or> oi_time_in_force i = TimeInForceGTD)
      then Some (ErrText (''market order does not support '' @ oi_time_in_force i))
      else if oi_time_in_force i = TimeInForceGTD \<and> oi_expires_at i = None
      then Some (ErrText ''GTD order requires expires_at'')
      else if (\<exists>kv \<in> set (oi_metadata i). trim_space (fst kv) = [])
      then Some (ErrText ''metadata keys must not be empty'')
      else None)"

definition maps_equal :: "metadata \<Rightarrow> metadata \<Rightarrow> bool" where
  "maps_equal a b \<longleftrightarrow> (\<forall>k \<in> fst ` set (a @ b). map_of a k = map_of b k)"

definition intent_equivalent :: "order_intent \<Rightarrow> order_intent \<Rightarrow> bool" where
  "intent_equivalent intent other =
     (let l = intent_normalize intent; r = intent_normalize other in
      oi_model_id l = oi_model_id r \<and> oi_strategy_id l = oi_strategy_id r \<and>
      oi_execution_account_id l = oi_execution_account_id r \<and> oi_signal_id l = oi_signal_id r \<and>
      oi_client_order_id l = oi_client_order_id r \<and> oi_venue l = oi_venue r \<and>
      market_source_normalize (oi_market_source l) = market_source_normalize (oi_market_source r) \<and>
      oi_market_id l = oi_market_id r \<and> oi_condition_id l = oi_condition_id r \<and>
      oi_outcome_index l = oi_outcome_index r \<and> oi_outcome_name l = oi_outcome_name r \<and>
      oi_outcome_id l = oi_outcome_id r \<and> oi_token_id l = oi_token_id r \<and>
      oi_target_lot_id l = oi_target_lot_id r \<and> oi_expected_neg_risk l = oi_expected_neg_risk r \<and>
      oi_market_snapshot_at l = oi_market_snapshot_at r \<and> oi_signal_at l = oi_signal_at r \<and>
      oi_side l = oi_side r \<and> oi_type l = oi_type r \<and>
      dec_equal (oi_price l) (oi_price r) \<and> dec_equal (oi_worst_price l) (oi_worst_price r) \<and>
      dec_equal (oi_size l) (oi_size r) \<and> oi_time_in_force l = oi_time_in_force r \<and>
      oi_expires_at l = oi_expires_at r \<and> maps_equal (oi_metadata l) (oi_metadata r))"


section \<open>Orders, events and attempts\<close>

text \<open>\<open>OrderStatusOther\<close> stands for every string outside the lifecycle, the empty zero value included.\<close>

datatype order_status =
    OrderStatusReceived | OrderStatusValidating | OrderStatusReserved | OrderStatusSubmitting
  | OrderStatusAcknowledged | OrderStatusLive | OrderStatusPartiallyFilled | OrderStatusFilled
  | OrderStatusRejected | OrderStatusUnknown | OrderStatusCancelPending | OrderStatusCancelled
  | OrderStatusReconciling | OrderStatusManualReview | OrderStatusOther string

fun status_text :: "order_status \<Rightarrow> string" where
  "status_text OrderStatusReceived = ''RECEIVED''"
| "status_text OrderStatusValidating = ''VALIDATING''"
| "status_text OrderStatusReserved = ''RESERVED''"
| "status_text OrderStatusSubmitting = ''SUBMITTING''"
| "status_text OrderStatusAcknowledged = ''ACKNOWLEDGED''"
| "status_text OrderStatusLive = ''LIVE''"
| "status_text OrderStatusPartiallyFilled = ''PARTIALLY_FILLED''"
| "status_text OrderStatusFilled = ''FILLED''"
| "status_text OrderStatusRejected = ''REJECTED''"
| "status_text OrderStatusUnknown = ''UNKNOWN''"
| "status_text OrderStatusCancelPending = ''CANCEL_PENDING''"
| "status_text OrderStatusCancelled = ''CANCELLED''"
| "status_text OrderStatusReconciling = ''RECONCILING''"
| "status_text OrderStatusManualReview = ''MANUAL_REVIEW''"
| "status_text (OrderStatusOther s) = s"

text \<open>The execution-time evidence of \<open>market.go\<close>; the book status stays a string.\<close>

record market_validation =
  mv_mode :: string
  mv_validated_at :: gtime
  mv_market_observed_at :: gtime
  mv_strategy_snapshot_at :: gtime
  mv_latest_book_source_at :: gtime
  mv_latest_book_observed_at :: gtime
  mv_outcome_index :: int
  mv_outcome_name :: string
  mv_token_id :: string
  mv_neg_risk :: bool
  mv_tick_size :: decimal
  mv_min_order_size :: decimal
  mv_best_bid :: decimal
  mv_best_ask :: decimal
  mv_worst_price :: decimal
  mv_book_status :: string
  mv_executable_size :: decimal
  mv_buy_fee_reserve :: "buy_fee_reserve option"

record order =
  o_id :: string
  o_intent :: order_intent
  o_market_validation :: "market_validation option"
  o_venue_order_id :: string
  o_status :: order_status
  o_filled_size :: decimal
  o_filled_notional :: decimal
  o_total_fees :: decimal
  o_average_fill_price :: decimal
  o_failure_code :: string
  o_failure_reason :: string
  o_created_at :: gtime
  o_updated_at :: gtime
  o_venue_last_observed_at :: "gtime option"
  o_revision :: int

datatype order_transition_trigger =
    TransitionTriggerReceived | TransitionTriggerValidation | TransitionTriggerReservation
  | TransitionTriggerSubmit | TransitionTriggerVenueResponse | TransitionTriggerVenueObserve
  | TransitionTriggerFill | TransitionTriggerCancel | TransitionTriggerReconciliation
  | TransitionTriggerMaintenance | TransitionTriggerOperator

record order_event =
  ev_id :: string
  ev_order_id :: string
  ev_revision :: int
  ev_from_status :: order_status
  ev_to_status :: order_status
  ev_trigger :: order_transition_trigger
  ev_attempt_id :: string
  ev_fill_key :: string
  ev_reason_code :: string
  ev_reason :: string
  ev_venue_status :: string
  ev_venue_order_id :: string
  ev_filled_size :: decimal
  ev_filled_notional :: decimal
  ev_total_fees :: decimal
  ev_fill_price :: decimal
  ev_venue_observed_at :: "gtime option"
  ev_occurred_at :: gtime

datatype order_attempt_kind = OrderAttemptSubmit | OrderAttemptCancel | OrderAttemptReconcile | OrderAttemptOther string

datatype order_attempt_outcome =
  AttemptOutcomeStarted | AttemptOutcomeSucceeded | AttemptOutcomeRejected | AttemptOutcomeUnknown | AttemptOutcomeFailed

record order_attempt =
  at_id :: string
  at_order_id :: string
  at_sequence :: int
  at_kind :: order_attempt_kind
  at_outcome :: order_attempt_outcome
  at_request_fingerprint :: string
  at_venue_order_id :: string
  at_venue_status :: string
  at_http_status :: int
  at_error_code :: string
  at_error_message :: string
  at_started_at :: gtime
  at_completed_at :: "gtime option"
  at_venue_expires_at :: "gtime option"

definition awaiting_fill_evidence :: "order \<Rightarrow> bool" where
  "awaiting_fill_evidence o1 \<longleftrightarrow> o_status o1 = OrderStatusUnknown \<and>
     trim_space (o_failure_code o1) \<in> {''VENUE_FILL_EVIDENCE_PENDING'', ''CLOB_FILL_DETAILS_UNAVAILABLE''}"

definition allows_buy_share_price_improvement :: "order \<Rightarrow> bool" where
  "allows_buy_share_price_improvement o1 \<longleftrightarrow>
     equal_fold (trim_space (oi_venue (o_intent o1))) ''polymarket'' \<and> oi_side (o_intent o1) = SideBuy"

definition status_terminal :: "order_status \<Rightarrow> bool" where
  "status_terminal s \<longleftrightarrow> s \<in> {OrderStatusFilled, OrderStatusCancelled, OrderStatusRejected, OrderStatusManualReview}"

definition order_terminal :: "order \<Rightarrow> bool" where
  "order_terminal o1 = status_terminal (o_status o1)"

text \<open>The switch of \<open>CanTransitionTo\<close> on the current status.\<close>

fun status_successors :: "order_status \<Rightarrow> order_status list" where
  "status_successors OrderStatusReceived = [OrderStatusValidating]"
| "status_successors OrderStatusValidating = [OrderStatusReserved, OrderStatusRejected]"
| "status_successors OrderStatusReserved = [OrderStatusSubmitting, OrderStatusRejected]"
| "status_successors OrderStatusSubmitting = [OrderStatusAcknowledged, OrderStatusUnknown, OrderStatusRejected]"
| "status_successors OrderStatusAcknowledged =
     [OrderStatusLive, OrderStatusPartiallyFilled, OrderStatusFilled, OrderStatusCancelled,
      OrderStatusCancelPending, OrderStatusUnknown, OrderStatusReconciling]"
| "status_successors OrderStatusLive =
     [OrderStatusPartiallyFilled, OrderStatusFilled, OrderStatusCancelled, OrderStatusCancelPending,
      OrderStatusUnknown, OrderStatusReconciling]"
| "status_successors OrderStatusPartiallyFilled =
     [OrderStatusFilled, OrderStatusCancelled, OrderStatusCancelPending, OrderStatusUnknown, OrderStatusReconciling]"
| "status_successors OrderStatusCancelPending =
     [OrderStatusCancelled, OrderStatusLive, OrderStatusPartiallyFilled, OrderStatusFilled,
      OrderStatusUnknown, OrderStatusReconciling]"
| "status_successors OrderStatusUnknown = [OrderStatusReconciling]"
| "status_successors OrderStatusReconciling =
     [OrderStatusAcknowledged, OrderStatusLive, OrderStatusPartiallyFilled, OrderStatusFilled,
      OrderStatusCancelled, OrderStatusRejected, OrderStatusUnknown, OrderStatusManualReview]"
| "status_successors _ = []"

definition can_transition :: "order_status \<Rightarrow> order_status \<Rightarrow> bool" where
  "can_transition cur nxt =
     (if cur = OrderStatusCancelled then nxt = OrderStatusCancelled \<or> nxt = OrderStatusFilled
      else if cur = OrderStatusManualReview then nxt = OrderStatusManualReview \<or> nxt = OrderStatusFilled
      else if status_terminal cur then nxt = cur
      else if cur = nxt then True
      else List.member (status_successors cur) nxt)"

definition order_can_transition_to :: "order \<Rightarrow> order_status \<Rightarrow> bool" where
  "order_can_transition_to o1 nxt = can_transition (o_status o1) nxt"

definition order_can_apply_venue_status :: "order \<Rightarrow> order_status \<Rightarrow> bool" where
  "order_can_apply_venue_status o1 nxt = order_can_transition_to o1 nxt"

definition clone_order :: "order \<Rightarrow> order" where
  "clone_order o1 = o1\<lparr>o_intent := intent_normalize (o_intent o1)\<rparr>"


section \<open>Builders\<close>

definition build_intent :: "order_intent \<Rightarrow> go_error + order_intent" where
  "build_intent params =
     (let intent = intent_normalize params in
      case intent_validate intent of Some e \<Rightarrow> Inl e | None \<Rightarrow> Inr intent)"

definition build_order :: "string \<Rightarrow> order_intent \<Rightarrow> gtime \<Rightarrow> go_error + order" where
  "build_order orderID params createdAt =
     (let ident = trim_space orderID in
      if ident = [] then Inl (ErrText ''order id is required'')
      else case build_intent params of
        Inl e \<Rightarrow> Inl (wrap_error ''order intent'' e)
      | Inr intent \<Rightarrow>
          if is_zero_time createdAt then Inl (ErrText ''order created_at is required'')
          else Inr \<lparr>o_id = ident, o_intent = intent, o_market_validation = None, o_venue_order_id = [],
                    o_status = OrderStatusReceived, o_filled_size = ''0'', o_filled_notional = ''0'',
                    o_total_fees = ''0'', o_average_fill_price = [], o_failure_code = [], o_failure_reason = [],
                    o_created_at = createdAt, o_updated_at = createdAt, o_venue_last_observed_at = None,
                    o_revision = 1\<rparr>)"

fun attempt_kind_text :: "order_attempt_kind \<Rightarrow> string" where
  "attempt_kind_text OrderAttemptSubmit = ''SUBMIT''"
| "attempt_kind_text OrderAttemptCancel = ''CANCEL''"
| "attempt_kind_text OrderAttemptReconcile = ''RECONCILE''"
| "attempt_kind_text (OrderAttemptOther s) = s"

definition build_attempt ::
    "string \<Rightarrow> string \<Rightarrow> int \<Rightarrow> order_attempt_kind \<Rightarrow> string \<Rightarrow> string \<Rightarrow> gtime \<Rightarrow> gtime option \<Rightarrow> go_error + order_attempt" where
  "build_attempt ident0 orderID0 sequence kind fingerprint0 venueOrderID0 startedAt venueExpiresAt =
     (let ident = trim_space ident0; orderID = trim_space orderID0;
          fingerprint = trim_space fingerprint0; venueOrderID = trim_space venueOrderID0 in
      if ident = [] \<or> orderID = [] \<or> sequence < 1 \<or> is_zero_time startedAt
      then Inl (ErrText ''attempt id, order id, positive sequence, and started_at are required'')
      else if kind \<noteq> OrderAttemptSubmit \<and> kind \<noteq> OrderAttemptCancel \<and> kind \<noteq> OrderAttemptReconcile
      then Inl (ErrText (''unsupported order attempt kind '' @ quoted (attempt_kind_text kind)))
      else if (case venueExpiresAt of None \<Rightarrow> False | Some t \<Rightarrow> kind \<noteq> OrderAttemptSubmit \<or> is_zero_time t)
      then Inl (ErrText ''only a SUBMIT attempt may carry a non-zero venue expiry'')
      else Inr \<lparr>at_id = ident, at_order_id = orderID, at_sequence = sequence, at_kind = kind,
                at_outcome = AttemptOutcomeStarted, at_request_fingerprint = fingerprint,
                at_venue_order_id = venueOrderID, at_venue_status = [], at_http_status = 0,
                at_error_code = [], at_error_message = [], at_started_at = startedAt,
                at_completed_at = None, at_venue_expires_at = venueExpiresAt\<rparr>)"

section \<open>Normalisation\<close>

lemma market_source_constants [simp]:
  "market_source_normalize [] = MarketSourcePolymarket"
  "market_source_normalize MarketSourceKalshi = MarketSourceKalshi"
  "market_source_normalize MarketSourcePolymarket = MarketSourcePolymarket"
  "trim_space MarketSourceKalshi \<noteq> []" "MarketSourceKalshi \<noteq> MarketSourcePolymarket"
  by code_simp+

lemma market_source_normalize_idem [simp]:
  "market_source_normalize (market_source_normalize s) = market_source_normalize s"
  by (auto simp: market_source_normalize_def Let_def MarketSourcePolymarket_def) code_simp

lemma trim_market_source_normalize: "trim_space (market_source_normalize s) = market_source_normalize s"
  by (auto simp: market_source_normalize_def Let_def MarketSourcePolymarket_def) code_simp

lemma inferred_market_source_cases:
  "inferred_market_source s c = MarketSourceKalshi \<or> inferred_market_source s c = [] \<or>
   (inferred_market_source s c = market_source_normalize s \<and> market_source_normalize s \<noteq> MarketSourcePolymarket)"
  by (auto simp: inferred_market_source_def)

text \<open>
  A second pass of the inference can still move an explicitly labelled Polymarket source to Kalshi;
  a third pass changes nothing.
\<close>

lemma inferred_market_source_stable:
  "inferred_market_source (inferred_market_source (inferred_market_source s c) c) c =
   inferred_market_source (inferred_market_source s c) c"
proof -
  have nz: "market_source_normalize s \<noteq> []" by (auto simp: market_source_normalize_def Let_def MarketSourcePolymarket_def)
  then show ?thesis
    using inferred_market_source_cases [of s c]
    by (auto simp: inferred_market_source_def trim_market_source_normalize)
qed

lemma inferred_market_source_trim [simp]:
  "inferred_market_source s (trim_space c) = inferred_market_source s c"
  by (simp add: inferred_market_source_def)

lemma normalize_quotes_idem [simp]: "normalize_quotes (normalize_quotes q) = normalize_quotes q"
  by (simp add: normalize_quotes_def)

lemma normalize_meta_idem [simp]: "normalize_meta (normalize_meta m) = normalize_meta m"
  by (simp add: normalize_meta_def filter_map comp_def)

lemma normalize_option_idem [simp]:
  "map_option normalize_quotes (map_option normalize_quotes q) = map_option normalize_quotes q"
  "map_option normalize_meta (map_option normalize_meta m) = map_option normalize_meta m"
  by (cases q; simp) (cases m; simp)

lemma intent_normalize_twice:
  "intent_normalize (intent_normalize i) =
     intent_normalize i\<lparr>oi_market_source :=
       inferred_market_source (inferred_market_source (oi_market_source i) (oi_condition_id i)) (oi_condition_id i)\<rparr>"
  by (simp add: intent_normalize_def)

text \<open>The fields of a normalised intent that the state machine reads.\<close>

lemma intent_normalize_fields [simp]:
  "oi_size (intent_normalize i) = trim_space (oi_size i)"
  "oi_side (intent_normalize i) = to_upper (trim_space (oi_side i))"
  "oi_venue (intent_normalize i) = to_lower (trim_space (oi_venue i))"
  "oi_client_order_id (intent_normalize i) = trim_space (oi_client_order_id i)"
  "oi_execution_account_id (intent_normalize i) = trim_space (oi_execution_account_id i)"
  "oi_expires_at (intent_normalize i) = oi_expires_at i"
  "oi_market_source (intent_normalize i) = inferred_market_source (oi_market_source i) (oi_condition_id i)"
  "oi_time_in_force (intent_normalize i) = to_upper (trim_space (oi_time_in_force i))"
  by (simp_all add: intent_normalize_def)

lemma dec_rat_trim [simp]: "dec_rat (trim_space d) = dec_rat d"
  by (simp add: dec_rat_def)

lemma dec_trim_simps [simp]:
  "dec_is_empty (trim_space d) = dec_is_empty d"
  "dec_sign (trim_space d) = dec_sign d" "dec_compare (trim_space d) e = dec_compare d e"
  "dec_compare e (trim_space d) = dec_compare e d" "not_positive (trim_space d) = not_positive d"
  by (simp_all add: dec_is_empty_def dec_sign_def dec_compare_def not_positive_def split: sum.split)

lemma dec_rat_empty: "dec_is_empty d \<Longrightarrow> dec_rat d = Inl (ErrText ''decimal is required'')"
  by (simp add: dec_rat_def dec_is_empty_def)

lemma dec_equal_refl_iff: "dec_equal d d \<longleftrightarrow> dec_is_empty d \<or> \<not> isl (dec_rat d)"
  by (auto simp: dec_equal_def dec_compare_def rat_cmp_def split: sum.splits)

lemma dec_equal_iff:
  "dec_equal d e \<longleftrightarrow> (dec_is_empty d \<and> dec_is_empty e) \<or> (\<exists>r. dec_rat d = Inr r \<and> dec_rat e = Inr r)"
  by (auto simp: dec_equal_def dec_compare_def rat_cmp_def dec_rat_empty split: sum.splits if_splits)

lemma dec_equal_sym: "dec_equal d e = dec_equal e d"
  by (auto simp: dec_equal_iff)

lemma dec_equal_trans: "dec_equal d e \<Longrightarrow> dec_equal e f \<Longrightarrow> dec_equal d f"
  by (auto simp: dec_equal_iff dec_rat_empty)

lemma map_of_None_notin: "k \<notin> fst ` set a \<Longrightarrow> map_of a k = None"
  by (simp add: map_of_eq_None_iff)

lemma maps_equal_iff: "maps_equal a b \<longleftrightarrow> map_of a = map_of b"
proof
  assume eq: "maps_equal a b"
  show "map_of a = map_of b"
  proof
    fix k
    show "map_of a k = map_of b k"
      using eq map_of_None_notin [of k a] map_of_None_notin [of k b]
      by (cases "k \<in> fst ` set (a @ b)") (auto simp: maps_equal_def image_Un)
  qed
qed (simp add: maps_equal_def)

lemma intent_equivalent_sym: "intent_equivalent a b = intent_equivalent b a"
  unfolding intent_equivalent_def Let_def maps_equal_iff
  by (subst (1 2 3) dec_equal_sym) (auto simp only:)

lemma intent_equivalent_trans:
  assumes "intent_equivalent a b" "intent_equivalent b c"
  shows "intent_equivalent a c"
  using assms unfolding intent_equivalent_def Let_def maps_equal_iff
  by (auto simp only: elim: dec_equal_trans)

lemma intent_validate_decimals:
  assumes "intent_validate i = None"
  shows "\<not> not_positive (oi_size i)" "dec_is_empty (oi_price i) \<or> \<not> not_positive (oi_price i)"
    "dec_is_empty (oi_worst_price i) \<or> \<not> not_positive (oi_worst_price i)"
  using assms by (auto simp: intent_validate_def Let_def intent_normalize_def split: if_splits)

lemma not_positive_rat: "\<not> not_positive d \<Longrightarrow> \<exists>r. dec_rat d = Inr r \<and> 0 < r"
  by (auto simp: not_positive_def dec_sign_def rat_sign_def split: sum.splits if_splits)

lemma intent_equivalent_refl:
  assumes "intent_validate i = None"
  shows "intent_equivalent i i"
proof -
  have "dec_equal (oi_size i) (oi_size i)" "dec_equal (oi_price i) (oi_price i)"
    "dec_equal (oi_worst_price i) (oi_worst_price i)"
    using intent_validate_decimals [OF assms] not_positive_rat by (auto simp: dec_equal_iff)
  then show ?thesis
    by (simp add: intent_equivalent_def Let_def maps_equal_iff intent_normalize_def dec_equal_iff)
qed


section \<open>The status graph\<close>

lemma can_transition_successors:
  "can_transition a b \<longleftrightarrow> a = b \<or> b \<in> set (status_successors a) \<or>
     (b = OrderStatusFilled \<and> (a = OrderStatusCancelled \<or> a = OrderStatusManualReview))"
  by (cases a) (auto simp: can_transition_def status_terminal_def)

lemma can_transition_refl [simp]: "can_transition s s"
  by (simp add: can_transition_successors)

text \<open>The statuses an order can have before any request has left for the venue.\<close>

definition pre_submit :: "order_status set" where
  "pre_submit = {OrderStatusReceived, OrderStatusValidating, OrderStatusReserved, OrderStatusRejected}"

definition step_without_submit :: "order_status \<Rightarrow> order_status \<Rightarrow> bool" where
  "step_without_submit a b \<longleftrightarrow> can_transition a b \<and> b \<noteq> OrderStatusSubmitting"

lemma step_without_submit_closed: "step_without_submit a b \<Longrightarrow> a \<in> pre_submit \<Longrightarrow> b \<in> pre_submit"
  by (auto simp: step_without_submit_def can_transition_successors pre_submit_def)

lemma finality_step:
  "can_transition a b \<Longrightarrow> status_terminal a \<Longrightarrow>
   b = a \<or> (b = OrderStatusFilled \<and> (a = OrderStatusCancelled \<or> a = OrderStatusManualReview))"
  by (auto simp: can_transition_successors status_terminal_def)


section \<open>Properties\<close>

text \<open>
  Intent equivalence, on which idempotent submission rests, is an equivalence relation on valid
  intents: symmetric and transitive on all intents, reflexive on every intent that validates (an
  intent with an unreadable decimal is not even equivalent to itself).
\<close>

lemma intent_equivalence_relation:
  "intent_equivalent a b = intent_equivalent b a \<and>
   (intent_equivalent a b \<longrightarrow> intent_equivalent b c \<longrightarrow> intent_equivalent a c) \<and>
   (intent_validate a = None \<longrightarrow> intent_equivalent a a)"
  using intent_equivalent_sym intent_equivalent_trans intent_equivalent_refl by blast

definition sample_intent :: order_intent where
  "sample_intent =
     \<lparr>oi_model_id = ''m'', oi_strategy_id = ''s'', oi_execution_account_id = ''w1'', oi_signal_id = ''sig'',
      oi_client_order_id = ''c1'', oi_venue = ''polymarket'', oi_market_source = [], oi_market_id = ''mk'',
      oi_condition_id = ''cond'', oi_outcome_index = Some 0, oi_outcome_name = ''Yes'', oi_outcome_id = [],
      oi_token_id = ''tok'', oi_target_lot_id = [], oi_expected_neg_risk = None, oi_market_snapshot_at = None,
      oi_signal_at = None, oi_side = ''BUY'', oi_type = ''LIMIT'', oi_price = ''0.5'', oi_worst_price = ''0.6'',
      oi_size = ''10'', oi_time_in_force = ''GTC'', oi_expires_at = None, oi_metadata = [],
      oi_decision_quotes = None, oi_decision_meta = None\<rparr>"

text \<open>
  Nothing but SUBMITTING leads to the venue: on every legal path from RECEIVED that does not enter
  SUBMITTING the order is still RECEIVED, VALIDATING, RESERVED or REJECTED. Every other status is
  therefore evidence that a submission was recorded first.
\<close>

lemma venue_states_need_submitting:
  "step_without_submit\<^sup>*\<^sup>* OrderStatusReceived s \<Longrightarrow> s \<in> pre_submit"
proof (induction rule: rtranclp_induct)
  case base
  show ?case by (simp add: pre_submit_def)
next
  case (step y z)
  then show ?case by (blast intro: step_without_submit_closed)
qed

text \<open>
  Terminal statuses are final but for one correction: along any sequence of legal transitions an
  order that has reached FILLED or REJECTED keeps that status, and one that is CANCELLED or in
  MANUAL_REVIEW keeps it or becomes FILLED.
\<close>

lemma terminal_status_final:
  "can_transition\<^sup>*\<^sup>* a b \<Longrightarrow> status_terminal a \<Longrightarrow>
   b = a \<or> (b = OrderStatusFilled \<and> (a = OrderStatusCancelled \<or> a = OrderStatusManualReview))"
proof (induction rule: rtranclp_induct)
  case (step y z)
  then have "status_terminal y" by (auto simp: status_terminal_def)
  with step finality_step [of y z] show ?case by (auto simp: status_terminal_def)
qed simp

definition relabelled_intent :: order_intent where
  "relabelled_intent = sample_intent\<lparr>oi_market_source := ''POLYMARKET'', oi_venue := ''kalshi'', oi_market_id := ''T'',
     oi_condition_id := ''kalshi:T'', oi_outcome_id := ''YES'', oi_token_id := ''kalshi:T:YES''\<rparr>"

text \<open>
  \<open>Normalize\<close> is stable from the second pass on, but one pass is not enough: an intent labelled
  POLYMARKET whose condition id starts with \<open>kalshi:\<close> loses its label in the first pass and is inferred
  to be a KALSHI intent in the second. Such an intent validates under either reading, so the order that
  \<open>Submit\<close> stores carries a market source the strategy did not send.
\<close>

lemma intent_normalize_stabilises_after_two:
  "intent_normalize (intent_normalize (intent_normalize i)) = intent_normalize (intent_normalize i) \<and>
   market_source_normalize (oi_market_source relabelled_intent) = MarketSourcePolymarket \<and>
   oi_market_source (intent_normalize relabelled_intent) = [] \<and>
   oi_market_source (intent_normalize (intent_normalize relabelled_intent)) = MarketSourceKalshi \<and>
   intent_validate relabelled_intent = None \<and> intent_validate (intent_normalize relabelled_intent) = None"
proof (intro conjI)
  show "intent_normalize (intent_normalize (intent_normalize i)) = intent_normalize (intent_normalize i)"
    by (simp add: intent_normalize_def inferred_market_source_stable)
qed code_simp+

end
