(* ===== verification/Order_State.thy ===== *)
theory Order_State
  imports Orders
begin

text \<open>
  \<open>src/internal/domain/orderstate/machine.go\<close>: one audited transition of an order aggregate. The
  invariant \<open>order_fill_ok\<close> ties the cumulative fill to the requested size and to the status; the
  lemmas show that \<open>Apply\<close> keeps it, moves every cumulative amount and clock forward only, and links
  consecutive revisions by its event.
\<close>

section \<open>Definitions\<close>

record transition =
  tr_event_id :: string
  tr_to :: order_status
  tr_trigger :: order_transition_trigger
  tr_attempt_id :: string
  tr_fill_key :: string
  tr_reason_code :: string
  tr_reason :: string
  tr_venue_status :: string
  tr_venue_order_id :: string
  tr_filled_size :: decimal
  tr_filled_notional :: decimal
  tr_total_fees :: decimal
  tr_average_fill_price :: decimal
  tr_venue_observed_at :: "gtime option"
  tr_at :: gtime

definition invalid_observation :: "string \<Rightarrow> go_error" where
  "invalid_observation t = ErrWrap (sentinel_text ErrInvalidObservation @ '': '' @ t) [ErrSentinel ErrInvalidObservation]"

definition zero_if_empty :: "decimal \<Rightarrow> decimal" where
  "zero_if_empty d = (if dec_is_empty d then ''0'' else d)"

text \<open>\<open>err != nil || comparison < 0\<close> and its relatives, on \<open>Compare\<close> and \<open>Sign\<close>.\<close>

definition cmp_fails :: "go_error + int \<Rightarrow> (int \<Rightarrow> bool) \<Rightarrow> bool" where
  "cmp_fails c p = (case c of Inl _ \<Rightarrow> True | Inr k \<Rightarrow> p k)"

definition validate_cumulative_decimal :: "string \<Rightarrow> decimal \<Rightarrow> decimal \<Rightarrow> err" where
  "validate_cumulative_decimal name current nxt =
     (if cmp_fails (dec_sign nxt) (\<lambda>k. k < 0)
      then Some (invalid_observation (name @ '' must be non-negative''))
      else if cmp_fails (dec_compare nxt (zero_if_empty current)) (\<lambda>k. k < 0)
      then Some (invalid_observation (''cumulative '' @ name @ '' moved backward''))
      else None)"

definition validate_cumulative_fill :: "order \<Rightarrow> decimal \<Rightarrow> err" where
  "validate_cumulative_fill o1 filled =
     (if cmp_fails (dec_sign filled) (\<lambda>k. k < 0)
      then Some (invalid_observation ''filled size must be non-negative'')
      else if cmp_fails (dec_compare filled (zero_if_empty (o_filled_size o1))) (\<lambda>k. k < 0)
      then Some (invalid_observation ''cumulative filled size moved backward'')
      else if cmp_fails (dec_compare filled (oi_size (o_intent o1)))
                (\<lambda>k. k > 0 \<and> \<not> allows_buy_share_price_improvement o1)
      then Some (invalid_observation ''cumulative filled size exceeds requested size'')
      else None)"

text \<open>The venue order id: once known it may change only from a Kalshi client id to the venue's id.\<close>

definition observe_venue_order_id :: "order \<Rightarrow> string \<Rightarrow> go_error + order" where
  "observe_venue_order_id o1 raw =
     (let venueOrderID = trim_space raw in
      if venueOrderID = [] then Inr o1
      else if o_venue_order_id o1 \<noteq> [] \<and> o_venue_order_id o1 \<noteq> venueOrderID \<and>
        \<not> (let clientOrderID = trim_space (oi_client_order_id (o_intent o1)) in
            equal_fold (trim_space (oi_venue (o_intent o1))) ''kalshi'' \<and>
            clientOrderID \<noteq> [] \<and> o_venue_order_id o1 = clientOrderID)
      then Inl (invalid_observation (''venue order id changed from '' @ quoted (o_venue_order_id o1) @ '' to '' @ quoted venueOrderID))
      else Inr (o1\<lparr>o_venue_order_id := venueOrderID\<rparr>))"

definition observe_time :: "order \<Rightarrow> gtime option \<Rightarrow> go_error + order" where
  "observe_time o1 observed =
     (case observed of None \<Rightarrow> Inr o1
      | Some t \<Rightarrow>
          if is_zero_time t then Inl (invalid_observation ''venue observation time is zero'')
          else if (case o_venue_last_observed_at o1 of None \<Rightarrow> False | Some l \<Rightarrow> t < l)
          then Inl (invalid_observation ''venue observation moved backward'')
          else Inr (o1\<lparr>o_venue_last_observed_at := Some t\<rparr>))"

definition observe_filled_size :: "order \<Rightarrow> decimal \<Rightarrow> go_error + order" where
  "observe_filled_size o1 d =
     (if dec_is_empty d then Inr o1
      else case validate_cumulative_fill o1 d of Some e \<Rightarrow> Inl e | None \<Rightarrow> Inr (o1\<lparr>o_filled_size := d\<rparr>))"

definition observe_filled_notional :: "order \<Rightarrow> decimal \<Rightarrow> go_error + order" where
  "observe_filled_notional o1 d =
     (if dec_is_empty d then Inr o1
      else case validate_cumulative_decimal ''filled notional'' (o_filled_notional o1) d of
        Some e \<Rightarrow> Inl e | None \<Rightarrow> Inr (o1\<lparr>o_filled_notional := d\<rparr>))"

definition observe_total_fees :: "order \<Rightarrow> decimal \<Rightarrow> go_error + order" where
  "observe_total_fees o1 d =
     (if dec_is_empty d then Inr o1
      else case validate_cumulative_decimal ''total fees'' (o_total_fees o1) d of
        Some e \<Rightarrow> Inl e | None \<Rightarrow> Inr (o1\<lparr>o_total_fees := d\<rparr>))"

definition observe_average_price :: "order \<Rightarrow> decimal \<Rightarrow> go_error + order" where
  "observe_average_price o1 d =
     (if dec_is_empty d then Inr o1
      else if cmp_fails (dec_sign d) (\<lambda>k. k \<le> 0)
      then Inl (invalid_observation ''average fill price must be positive'')
      else Inr (o1\<lparr>o_average_fill_price := d\<rparr>))"

text \<open>Go's early return on error, for a chain of steps on one order.\<close>

definition and_then :: "go_error + 'a \<Rightarrow> ('a \<Rightarrow> go_error + 'b) \<Rightarrow> go_error + 'b" where
  "and_then r f = (case r of Inl e \<Rightarrow> Inl e | Inr x \<Rightarrow> f x)"

definition apply_venue_observation :: "order \<Rightarrow> transition \<Rightarrow> go_error + order" where
  "apply_venue_observation o1 t =
     and_then (observe_venue_order_id o1 (tr_venue_order_id t)) (\<lambda>o2.
     and_then (observe_time o2 (tr_venue_observed_at t)) (\<lambda>o3.
     and_then (observe_filled_size o3 (tr_filled_size t)) (\<lambda>o4.
     and_then (observe_filled_notional o4 (tr_filled_notional t)) (\<lambda>o5.
     and_then (observe_total_fees o5 (tr_total_fees t)) (\<lambda>o6.
     observe_average_price o6 (tr_average_fill_price t))))))"

definition validate_fill_state :: "order \<Rightarrow> order_status \<Rightarrow> err" where
  "validate_fill_state o1 status =
     (let filled = zero_if_empty (o_filled_size o1) in
      case dec_compare filled (oi_size (o_intent o1)) of
        Inl e \<Rightarrow> Some (invalid_observation (''compare filled and requested size: '' @ error_text e))
      | Inr comparison \<Rightarrow>
      (case dec_sign filled of
         Inl e \<Rightarrow> Some (invalid_observation (''parse filled size: '' @ error_text e))
       | Inr sign \<Rightarrow>
         if status = OrderStatusPartiallyFilled \<and> (sign \<le> 0 \<or> comparison \<ge> 0)
         then Some (invalid_observation ''PARTIALLY_FILLED requires 0 < filled_size < order size'')
         else if status = OrderStatusFilled \<and>
           (comparison < 0 \<or> (comparison > 0 \<and> \<not> allows_buy_share_price_improvement o1))
         then Some (invalid_observation ''FILLED requires filled_size to satisfy the order size'')
         else if status = OrderStatusRejected \<and> sign \<noteq> 0
         then Some (invalid_observation ''REJECTED cannot contain a fill'')
         else None))"

definition illegal_transition :: "order_status \<Rightarrow> order_status \<Rightarrow> go_error" where
  "illegal_transition a b =
     ErrWrap (sentinel_text ErrIllegalTransition @ '': '' @ status_text a @ '' -> '' @ status_text b)
       [ErrSentinel ErrIllegalTransition]"

definition order_after :: "order \<Rightarrow> transition \<Rightarrow> order" where
  "order_after observed t = observed\<lparr>
     o_status := tr_to t, o_failure_code := trim_space (tr_reason_code t),
     o_failure_reason := trim_space (tr_reason t), o_updated_at := tr_at t,
     o_revision := o_revision observed + 1\<rparr>"

definition event_after :: "order \<Rightarrow> order \<Rightarrow> transition \<Rightarrow> order_event" where
  "event_after current nxt t =
     \<lparr>ev_id = trim_space (tr_event_id t), ev_order_id = o_id nxt, ev_revision = o_revision nxt,
      ev_from_status = o_status current, ev_to_status = o_status nxt, ev_trigger = tr_trigger t,
      ev_attempt_id = trim_space (tr_attempt_id t), ev_fill_key = trim_space (tr_fill_key t),
      ev_reason_code = o_failure_code nxt, ev_reason = o_failure_reason nxt,
      ev_venue_status = trim_space (tr_venue_status t), ev_venue_order_id = o_venue_order_id nxt,
      ev_filled_size = o_filled_size nxt, ev_filled_notional = o_filled_notional nxt,
      ev_total_fees = o_total_fees nxt, ev_fill_price = o_average_fill_price nxt,
      ev_venue_observed_at = o_venue_last_observed_at nxt, ev_occurred_at = tr_at t\<rparr>"

definition apply_transition :: "order \<Rightarrow> transition \<Rightarrow> go_error + (order \<times> order_event)" where
  "apply_transition current t =
     (if \<not> order_can_transition_to current (tr_to t) then Inl (illegal_transition (o_status current) (tr_to t))
      else if trim_space (tr_event_id t) = [] then Inl (ErrText ''event_id is required'')
      else if is_zero_time (tr_at t) then Inl (ErrText ''transition time is required'')
      else if tr_at t < o_updated_at current then Inl (ErrText ''transition time moved backward'')
      else
        and_then (apply_venue_observation (clone_order current) t) (\<lambda>observed.
          case validate_fill_state observed (tr_to t) of
            Some e \<Rightarrow> Inl e
          | None \<Rightarrow> (let nxt = order_after observed t in Inr (nxt, event_after current nxt t))))"


section \<open>The fill invariant\<close>

definition filled_rat :: "order \<Rightarrow> rat option" where
  "filled_rat o1 = (case dec_rat (zero_if_empty (o_filled_size o1)) of Inl _ \<Rightarrow> None | Inr r \<Rightarrow> Some r)"

definition size_rat :: "order \<Rightarrow> rat option" where
  "size_rat o1 = (case dec_rat (oi_size (o_intent o1)) of Inl _ \<Rightarrow> None | Inr r \<Rightarrow> Some r)"

definition amount_rat :: "decimal \<Rightarrow> rat option" where
  "amount_rat d = (case dec_rat (zero_if_empty d) of Inl _ \<Rightarrow> None | Inr r \<Rightarrow> Some r)"

definition order_fill_ok :: "order \<Rightarrow> bool" where
  "order_fill_ok o1 =
     (case (filled_rat o1, size_rat o1) of
        (Some f, Some s) \<Rightarrow>
          0 \<le> f \<and> (f \<le> s \<or> allows_buy_share_price_improvement (clone_order o1)) \<and>
          (o_status o1 = OrderStatusPartiallyFilled \<longrightarrow> 0 < f \<and> f < s) \<and>
          (o_status o1 = OrderStatusFilled \<longrightarrow> s \<le> f) \<and>
          (o_status o1 = OrderStatusRejected \<longrightarrow> f = 0)
      | _ \<Rightarrow> False)"

lemma and_then_Inr: "and_then r f = Inr y \<longleftrightarrow> (\<exists>x. r = Inr x \<and> f x = Inr y)"
  by (auto simp: and_then_def split: sum.splits)

lemma dec_compare_Inr: "dec_compare d e = Inr k \<longleftrightarrow> (\<exists>l r. dec_rat d = Inr l \<and> dec_rat e = Inr r \<and> k = rat_cmp l r)"
  by (auto simp: dec_compare_def split: sum.splits)

lemma dec_sign_Inr: "dec_sign d = Inr k \<longleftrightarrow> (\<exists>r. dec_rat d = Inr r \<and> k = rat_sign r)"
  by (auto simp: dec_sign_def split: sum.splits)

lemma cmp_fails_False: "\<not> cmp_fails c p \<longleftrightarrow> (\<exists>k. c = Inr k \<and> \<not> p k)"
  by (auto simp: cmp_fails_def split: sum.splits)

lemma rat_sign_simps [simp]:
  "rat_sign r < 0 \<longleftrightarrow> r < 0" "rat_sign r \<le> 0 \<longleftrightarrow> r \<le> 0" "rat_sign r = 0 \<longleftrightarrow> r = 0" "0 < rat_sign r \<longleftrightarrow> 0 < r"
  by (auto simp: rat_sign_def)

lemma rat_cmp_simps [simp]:
  "rat_cmp a b < 0 \<longleftrightarrow> a < b" "rat_cmp a b > 0 \<longleftrightarrow> a > b" "rat_cmp a b = 0 \<longleftrightarrow> a = b" "0 \<le> rat_cmp a b \<longleftrightarrow> b \<le> a"
  by (auto simp: rat_cmp_def)

lemma zero_if_empty_simps [simp]:
  "\<not> dec_is_empty d \<Longrightarrow> zero_if_empty d = d" "dec_rat (zero_if_empty (zero_if_empty d)) = dec_rat (zero_if_empty d)"
  by (auto simp: zero_if_empty_def)

lemma allows_clone [simp]:
  "allows_buy_share_price_improvement (clone_order (clone_order o1)) = allows_buy_share_price_improvement (clone_order o1)"
  by (simp add: allows_buy_share_price_improvement_def clone_order_def)

lemma clone_order_fields [simp]:
  "o_id (clone_order o1) = o_id o1" "o_status (clone_order o1) = o_status o1" "o_revision (clone_order o1) = o_revision o1"
  "o_filled_size (clone_order o1) = o_filled_size o1" "o_filled_notional (clone_order o1) = o_filled_notional o1"
  "o_total_fees (clone_order o1) = o_total_fees o1" "o_venue_order_id (clone_order o1) = o_venue_order_id o1"
  "o_updated_at (clone_order o1) = o_updated_at o1" "o_created_at (clone_order o1) = o_created_at o1"
  "o_venue_last_observed_at (clone_order o1) = o_venue_last_observed_at o1"
  "o_intent (clone_order o1) = intent_normalize (o_intent o1)"
  "o_market_validation (clone_order o1) = o_market_validation o1"
  "o_failure_code (clone_order o1) = o_failure_code o1" "o_failure_reason (clone_order o1) = o_failure_reason o1"
  "o_average_fill_price (clone_order o1) = o_average_fill_price o1"
  by (simp_all add: clone_order_def)

lemma fill_rats_clone [simp]: "filled_rat (clone_order o1) = filled_rat o1" "size_rat (clone_order o1) = size_rat o1"
  by (simp_all add: filled_rat_def size_rat_def)

lemma order_fill_ok_clone [simp]: "order_fill_ok (clone_order o1) = order_fill_ok o1"
  by (simp add: order_fill_ok_def split: option.split)


section \<open>Single observations\<close>

lemma observe_venue_order_id_Inr:
  "observe_venue_order_id o1 d = Inr o2 \<Longrightarrow> o2 = o1 \<or> o2 = o1\<lparr>o_venue_order_id := trim_space d\<rparr>"
  by (auto simp: observe_venue_order_id_def Let_def split: if_splits)

lemma observe_time_Inr:
  "observe_time o1 d = Inr o2 \<Longrightarrow> o2 = o1 \<or>
   (\<exists>t. d = Some t \<and> o2 = o1\<lparr>o_venue_last_observed_at := Some t\<rparr> \<and> (\<forall>l. o_venue_last_observed_at o1 = Some l \<longrightarrow> l \<le> t))"
  by (auto simp: observe_time_def split: if_splits option.splits)

lemma validate_cumulative_fill_None:
  "validate_cumulative_fill o1 d = None \<Longrightarrow> \<exists>f c s. dec_rat d = Inr f \<and> 0 \<le> f \<and>
     filled_rat o1 = Some c \<and> c \<le> f \<and> size_rat o1 = Some s \<and> (f \<le> s \<or> allows_buy_share_price_improvement o1)"
  by (auto simp: validate_cumulative_fill_def cmp_fails_False dec_sign_Inr dec_compare_Inr filled_rat_def size_rat_def
      split: if_splits)

lemma observe_filled_size_Inr:
  assumes "observe_filled_size o1 d = Inr o2"
  shows "o2 = o1 \<or> (\<not> dec_is_empty d \<and> validate_cumulative_fill o1 d = None \<and> o2 = o1\<lparr>o_filled_size := d\<rparr>)"
  using assms by (auto simp: observe_filled_size_def split: if_splits option.splits)

lemma validate_cumulative_decimal_None:
  "validate_cumulative_decimal n cur d = None \<Longrightarrow>
   \<exists>f c. dec_rat d = Inr f \<and> 0 \<le> f \<and> amount_rat cur = Some c \<and> c \<le> f"
  by (auto simp: validate_cumulative_decimal_def cmp_fails_False dec_sign_Inr dec_compare_Inr amount_rat_def
      split: if_splits)

lemma observe_filled_notional_Inr:
  "observe_filled_notional o1 d = Inr o2 \<Longrightarrow> o2 = o1 \<or>
   (\<not> dec_is_empty d \<and> validate_cumulative_decimal ''filled notional'' (o_filled_notional o1) d = None \<and>
    o2 = o1\<lparr>o_filled_notional := d\<rparr>)"
  by (auto simp: observe_filled_notional_def split: if_splits option.splits)

lemma observe_total_fees_Inr:
  "observe_total_fees o1 d = Inr o2 \<Longrightarrow> o2 = o1 \<or>
   (\<not> dec_is_empty d \<and> validate_cumulative_decimal ''total fees'' (o_total_fees o1) d = None \<and>
    o2 = o1\<lparr>o_total_fees := d\<rparr>)"
  by (auto simp: observe_total_fees_def split: if_splits option.splits)

lemma observe_average_price_Inr:
  "observe_average_price o1 d = Inr o2 \<Longrightarrow> o2 = o1 \<or> o2 = o1\<lparr>o_average_fill_price := d\<rparr>"
  by (auto simp: observe_average_price_def split: if_splits)

lemmas observe_Inr = observe_venue_order_id_Inr observe_time_Inr observe_filled_size_Inr
  observe_filled_notional_Inr observe_total_fees_Inr observe_average_price_Inr

text \<open>\<open>d\<close> counts no less than \<open>c\<close>, where \<open>c\<close> is readable.\<close>

definition amount_grows :: "decimal \<Rightarrow> decimal \<Rightarrow> bool" where
  "amount_grows c d \<longleftrightarrow> (\<forall>x. amount_rat c = Some x \<longrightarrow> (\<exists>y. amount_rat d = Some y \<and> x \<le> y))"

lemma amount_grows_refl [simp]: "amount_grows c c"
  by (simp add: amount_grows_def)

lemma amount_grows_trans: "amount_grows a b \<Longrightarrow> amount_grows b c \<Longrightarrow> amount_grows a c"
  by (fastforce simp: amount_grows_def)

lemma filled_rat_amount: "filled_rat o1 = amount_rat (o_filled_size o1)"
  by (simp add: filled_rat_def amount_rat_def)

lemma validated_fill_grows:
  "validate_cumulative_fill o1 d = None \<Longrightarrow> \<not> dec_is_empty d \<Longrightarrow> amount_grows (o_filled_size o1) d"
  by (drule validate_cumulative_fill_None) (auto simp: amount_grows_def filled_rat_amount amount_rat_def)

lemma validated_decimal_grows:
  "validate_cumulative_decimal n c d = None \<Longrightarrow> \<not> dec_is_empty d \<Longrightarrow> amount_grows c d"
  by (drule validate_cumulative_decimal_None) (auto simp: amount_grows_def amount_rat_def)

text \<open>What the whole observation leaves alone, and how it moves what it touches.\<close>

definition observed_from :: "order \<Rightarrow> order \<Rightarrow> bool" where
  "observed_from a b \<longleftrightarrow>
     o_id b = o_id a \<and> o_intent b = o_intent a \<and> o_status b = o_status a \<and> o_revision b = o_revision a \<and>
     o_updated_at b = o_updated_at a \<and> o_created_at b = o_created_at a \<and>
     o_market_validation b = o_market_validation a \<and>
     amount_grows (o_filled_size a) (o_filled_size b) \<and> amount_grows (o_filled_notional a) (o_filled_notional b) \<and>
     amount_grows (o_total_fees a) (o_total_fees b) \<and>
     (\<forall>l. o_venue_last_observed_at a = Some l \<longrightarrow> (\<exists>l'. o_venue_last_observed_at b = Some l' \<and> l \<le> l'))"

lemma observed_from_trans: "observed_from a b \<Longrightarrow> observed_from b c \<Longrightarrow> observed_from a c"
  unfolding observed_from_def by (auto elim: amount_grows_trans)

lemma observe_steps_observed:
  "observe_venue_order_id a x1 = Inr b \<Longrightarrow> observed_from a b"
  "observe_time a x2 = Inr b \<Longrightarrow> observed_from a b"
  "observe_filled_size a x3 = Inr b \<Longrightarrow> observed_from a b"
  "observe_filled_notional a x3 = Inr b \<Longrightarrow> observed_from a b"
  "observe_total_fees a x3 = Inr b \<Longrightarrow> observed_from a b"
  "observe_average_price a x3 = Inr b \<Longrightarrow> observed_from a b"
  by (auto simp: observed_from_def dest!: observe_Inr intro: validated_fill_grows validated_decimal_grows)

lemma apply_venue_observation_observed:
  "apply_venue_observation a t = Inr b \<Longrightarrow> observed_from a b"
  unfolding apply_venue_observation_def and_then_Inr
  by (elim exE conjE) (meson observe_steps_observed observed_from_trans)

text \<open>The filled size after an observation is the old one or a validated new one.\<close>

definition fill_in_range :: "order \<Rightarrow> bool" where
  "fill_in_range o1 = (case (filled_rat o1, size_rat o1) of
     (Some f, Some s) \<Rightarrow> 0 \<le> f \<and> (f \<le> s \<or> allows_buy_share_price_improvement o1) | _ \<Rightarrow> False)"

lemma fill_in_range_cong:
  "o_filled_size b = o_filled_size a \<Longrightarrow> o_intent b = o_intent a \<Longrightarrow> fill_in_range b = fill_in_range a"
  by (simp add: fill_in_range_def filled_rat_def size_rat_def allows_buy_share_price_improvement_def split: option.split)

lemma observe_filled_size_in_range:
  assumes "observe_filled_size a d = Inr b" and "fill_in_range a" shows "fill_in_range b"
  using observe_filled_size_Inr [OF assms(1)]
proof
  assume "\<not> dec_is_empty d \<and> validate_cumulative_fill a d = None \<and> b = a\<lparr>o_filled_size := d\<rparr>"
  then show ?thesis
    using validate_cumulative_fill_None [of a d]
    by (auto simp: fill_in_range_def filled_rat_def size_rat_def allows_buy_share_price_improvement_def)
qed (use assms in simp)

lemma observed_same_fill_in_range:
  "observe_venue_order_id a x1 = Inr b \<Longrightarrow> fill_in_range b = fill_in_range a"
  "observe_time a x2 = Inr b \<Longrightarrow> fill_in_range b = fill_in_range a"
  "observe_filled_notional a x3 = Inr b \<Longrightarrow> fill_in_range b = fill_in_range a"
  "observe_total_fees a x3 = Inr b \<Longrightarrow> fill_in_range b = fill_in_range a"
  "observe_average_price a x3 = Inr b \<Longrightarrow> fill_in_range b = fill_in_range a"
  by (rule fill_in_range_cong; auto dest: observe_Inr)+

lemma apply_venue_observation_in_range:
  "apply_venue_observation a t = Inr b \<Longrightarrow> fill_in_range a \<Longrightarrow> fill_in_range b"
  unfolding apply_venue_observation_def and_then_Inr
  by (elim exE conjE) (meson observed_same_fill_in_range observe_filled_size_in_range)

lemma apply_transition_Inr:
  "apply_transition o1 t = Inr (o2, e) \<longleftrightarrow>
     can_transition (o_status o1) (tr_to t) \<and> trim_space (tr_event_id t) \<noteq> [] \<and> tr_at t \<noteq> 0 \<and> o_updated_at o1 \<le> tr_at t \<and>
     (\<exists>b. apply_venue_observation (clone_order o1) t = Inr b \<and> validate_fill_state b (tr_to t) = None \<and>
          o2 = order_after b t \<and> e = event_after o1 o2 t)"
  by (auto simp: apply_transition_def order_can_transition_to_def and_then_Inr is_zero_time_def Let_def
      split: if_splits option.splits)

lemma order_fill_ok_iff:
  "order_fill_ok o1 \<longleftrightarrow> fill_in_range (clone_order o1) \<and> validate_fill_state (clone_order o1) (o_status o1) = None"
proof -
  have "filled_rat o1 = Some f \<Longrightarrow> size_rat o1 = Some s \<Longrightarrow>
      validate_fill_state (clone_order o1) (o_status o1) = None \<longleftrightarrow>
      (o_status o1 = OrderStatusPartiallyFilled \<longrightarrow> 0 < f \<and> f < s) \<and>
      (o_status o1 = OrderStatusFilled \<longrightarrow> s \<le> f \<and> (f \<le> s \<or> allows_buy_share_price_improvement (clone_order o1))) \<and>
      (o_status o1 = OrderStatusRejected \<longrightarrow> f = 0)" for f s
    by (auto simp: validate_fill_state_def filled_rat_def size_rat_def dec_compare_def dec_sign_def Let_def split: sum.splits)
  then show ?thesis
    by (auto simp: order_fill_ok_def fill_in_range_def split: option.split)
qed

lemma allows_observed:
  "o_intent b = intent_normalize i \<Longrightarrow>
   allows_buy_share_price_improvement (clone_order (order_after b t)) = allows_buy_share_price_improvement b"
  by (simp add: allows_buy_share_price_improvement_def clone_order_def order_after_def)

lemma order_after_fields [simp]:
  "o_filled_size (order_after b t) = o_filled_size b" "o_intent (order_after b t) = o_intent b"
  "o_status (order_after b t) = tr_to t" "o_id (order_after b t) = o_id b"
  "o_revision (order_after b t) = o_revision b + 1" "o_updated_at (order_after b t) = tr_at t"
  "o_filled_notional (order_after b t) = o_filled_notional b" "o_total_fees (order_after b t) = o_total_fees b"
  "o_created_at (order_after b t) = o_created_at b" "o_market_validation (order_after b t) = o_market_validation b"
  "o_venue_last_observed_at (order_after b t) = o_venue_last_observed_at b"
  "o_failure_code (order_after b t) = trim_space (tr_reason_code t)"
  by (simp_all add: order_after_def)

lemma order_after_fill_ok:
  assumes "o_intent b = intent_normalize i" "fill_in_range b" "validate_fill_state b (tr_to t) = None"
  shows "order_fill_ok (order_after b t)"
proof -
  have c: "allows_buy_share_price_improvement (clone_order (order_after b t)) = allows_buy_share_price_improvement b"
    by (rule allows_observed [OF assms(1)])
  have "fill_in_range (clone_order (order_after b t)) = fill_in_range b"
    using c by (simp add: fill_in_range_def filled_rat_def size_rat_def split: option.split)
  moreover have "validate_fill_state (clone_order (order_after b t)) (tr_to t) = validate_fill_state b (tr_to t)"
    using c by (auto simp: validate_fill_state_def Let_def split: sum.split)
  ultimately show ?thesis using assms by (simp add: order_fill_ok_iff)
qed

lemma apply_transition_observed:
  "apply_transition o1 t = Inr (o2, e) \<Longrightarrow>
   \<exists>b. observed_from (clone_order o1) b \<and> o2 = order_after b t \<and> validate_fill_state b (tr_to t) = None \<and>
       (fill_in_range (clone_order o1) \<longrightarrow> fill_in_range b)"
  unfolding apply_transition_Inr using apply_venue_observation_observed apply_venue_observation_in_range by blast

lemma apply_transition_fields:
  assumes "apply_transition o1 t = Inr (o2, e)"
  shows "o_id o2 = o_id o1" "o_revision o2 = o_revision o1 + 1" "o_status o2 = tr_to t" "o_updated_at o2 = tr_at t"
    "o_created_at o2 = o_created_at o1" "o_market_validation o2 = o_market_validation o1"
    "o_intent o2 = intent_normalize (o_intent o1)" "o_failure_code o2 = trim_space (tr_reason_code t)"
  using apply_transition_observed [OF assms] by (auto simp: observed_from_def)

lemma apply_transition_event:
  assumes "apply_transition o1 t = Inr (o2, e)"
  shows "ev_order_id e = o_id o2" "ev_revision e = o_revision o2" "ev_from_status e = o_status o1"
    "ev_to_status e = o_status o2" "ev_occurred_at e = o_updated_at o2" "ev_trigger e = tr_trigger t"
    "ev_id e = trim_space (tr_event_id t)" "ev_filled_size e = o_filled_size o2"
  using assms by (auto simp: apply_transition_Inr event_after_def)

lemma apply_transition_fill_ok:
  assumes "apply_transition o1 t = Inr (o2, e)" "order_fill_ok o1"
  shows "order_fill_ok o2"
  using apply_transition_observed [OF assms(1)] assms(2)
  by (auto simp: observed_from_def order_fill_ok_iff [of o1] intro: order_after_fill_ok)

lemma build_order_fill_ok:
  assumes "build_order ident i created = Inr o1"
  shows "order_fill_ok o1"
proof -
  from assms have v: "intent_validate (intent_normalize i) = None"
    and o1: "o_intent o1 = intent_normalize i" "o_filled_size o1 = ''0''" "o_status o1 = OrderStatusReceived"
    by (auto simp: build_order_def build_intent_def Let_def split: if_splits sum.splits option.splits)
  obtain r where r: "dec_rat (oi_size (intent_normalize i)) = Inr r" "0 < r"
    using intent_validate_decimals(1) [OF v] not_positive_rat by blast
  have z: "dec_rat (zero_if_empty ''0'') = Inr 0" by code_simp
  show ?thesis using r z o1 by (simp add: order_fill_ok_def filled_rat_def size_rat_def)
qed


section \<open>Properties\<close>

text \<open>
  C32. \<open>Apply\<close> is sound: whenever it succeeds the move is an edge of the status graph, the order keeps its
  identity, creation time and market evidence, its revision grows by one, its clock does not go back, and
  the event records exactly this move (same order, same revision, the old and the new status).
\<close>

theorem apply_sound:
  assumes "apply_transition o1 t = Inr (o2, e)"
  shows "can_transition (o_status o1) (o_status o2) \<and> o_status o2 = tr_to t \<and> o_id o2 = o_id o1 \<and>
    o_created_at o2 = o_created_at o1 \<and> o_market_validation o2 = o_market_validation o1 \<and>
    o_revision o2 = o_revision o1 + 1 \<and> o_updated_at o1 \<le> o_updated_at o2 \<and>
    ev_order_id e = o_id o1 \<and> ev_revision e = o_revision o2 \<and> ev_from_status e = o_status o1 \<and>
    ev_to_status e = o_status o2 \<and> ev_occurred_at e = o_updated_at o2"
  using assms apply_transition_fields [OF assms] apply_transition_event [OF assms]
  by (simp add: apply_transition_Inr)

definition sample_order :: order where
  "sample_order =
     \<lparr>o_id = ''o1'', o_intent = sample_intent, o_market_validation = None, o_venue_order_id = ''v1'',
      o_status = OrderStatusLive, o_filled_size = ''2'', o_filled_notional = ''1'', o_total_fees = ''0'',
      o_average_fill_price = ''0.5'', o_failure_code = [], o_failure_reason = [], o_created_at = 10,
      o_updated_at = 20, o_venue_last_observed_at = Some 15, o_revision = 6\<rparr>"

definition sample_transition :: transition where
  "sample_transition =
     \<lparr>tr_event_id = ''e1'', tr_to = OrderStatusPartiallyFilled, tr_trigger = TransitionTriggerVenueObserve,
      tr_attempt_id = [], tr_fill_key = [], tr_reason_code = [], tr_reason = [], tr_venue_status = ''LIVE'',
      tr_venue_order_id = ''v1'', tr_filled_size = ''4.0'', tr_filled_notional = ''2'', tr_total_fees = [],
      tr_average_fill_price = ''0.5'', tr_venue_observed_at = Some 25, tr_at = 30\<rparr>"

definition sample_next :: "order \<times> order_event" where
  "sample_next = projr (apply_transition sample_order sample_transition)"

lemma sample_apply: "apply_transition sample_order sample_transition = Inr (fst sample_next, snd sample_next)"
  by code_simp

theorem apply_sound_witness:
  "o_status (fst sample_next) = OrderStatusPartiallyFilled \<and> o_revision (fst sample_next) = 7 \<and>
   ev_from_status (snd sample_next) = OrderStatusLive"
  using apply_sound [OF sample_apply] by (simp add: sample_order_def sample_transition_def)

text \<open>
  Cumulative evidence never moves backward: every accepted transition leaves the filled size, the
  filled notional, the total fees and the venue's observation clock at least as large as they were.
\<close>

lemma cumulative_evidence_monotone:
  assumes "apply_transition o1 t = Inr (o2, e)"
  shows "amount_grows (o_filled_size o1) (o_filled_size o2) \<and>
    amount_grows (o_filled_notional o1) (o_filled_notional o2) \<and>
    amount_grows (o_total_fees o1) (o_total_fees o2) \<and>
    (o_venue_last_observed_at o1 = Some l \<longrightarrow> (\<exists>l'. o_venue_last_observed_at o2 = Some l' \<and> l \<le> l'))"
  using apply_transition_observed [OF assms] by (auto simp: observed_from_def)

text \<open>
  C33. The fill invariant: a new order satisfies \<open>order_fill_ok\<close> and every accepted transition keeps it. So
  the filled size is a readable, non-negative amount within the requested size (a Polymarket BUY may
  exceed it by price improvement), PARTIALLY_FILLED means strictly between zero and the size, FILLED
  means the size is reached and REJECTED means nothing was filled.
\<close>

theorem order_fill_invariant:
  "(build_order ident i created = Inr o1 \<longrightarrow> order_fill_ok o1) \<and>
   (apply_transition o2 t = Inr (o3, e) \<longrightarrow> order_fill_ok o2 \<longrightarrow> order_fill_ok o3)"
  using build_order_fill_ok apply_transition_fill_ok by blast

theorem order_fill_invariant_witness:
  "(\<exists>o1. build_order ''o1'' sample_intent 5 = Inr o1 \<and> order_fill_ok o1) \<and> order_fill_ok (fst sample_next)"
proof
  have "\<exists>o1. build_order ''o1'' sample_intent 5 = Inr o1" by (rule exI) code_simp
  then show "\<exists>o1. build_order ''o1'' sample_intent 5 = Inr o1 \<and> order_fill_ok o1"
    using order_fill_invariant by blast
  have "order_fill_ok sample_order" by code_simp
  then show "order_fill_ok (fst sample_next)" using order_fill_invariant sample_apply by blast
qed

end
