(* ===== verification/Repository.thy ===== *)
theory Repository
  imports Order_State "HOL-Library.AList" "HOL-Library.Multiset" "HOL-Library.Product_Lexorder" "HOL-Library.List_Lexorder" "HOL-Library.Char_ord"
begin

text \<open>
  \<open>src/internal/adapter/memory/order_repository.go\<close>, the reference implementation of the
  \<open>OrderRepository\<close> port. Maps are association lists kept without duplicate keys; a method that only reads
  returns its result, one that writes returns the new repository beside it, and the mutex makes every
  method one atomic step. The lemmas establish the optimistic lock, the chain of audit events and the
  bookkeeping of attempts; the locale \<open>order_store\<close> is the contract the services rely on.
\<close>

section \<open>Definitions\<close>

record repo =
  r_by_id :: "(string \<times> order) list"
  r_by_client :: "(string \<times> string) list"
  r_events :: "(string \<times> order_event list) list"
  r_attempts :: "(string \<times> order_attempt list) list"
  r_submit_in_flight_grace :: duration

definition new_order_repository :: repo where
  "new_order_repository = \<lparr>r_by_id = [], r_by_client = [], r_events = [], r_attempts = [], r_submit_in_flight_grace = 0\<rparr>"

definition set_submit_in_flight_grace :: "repo \<Rightarrow> duration \<Rightarrow> repo" where
  "set_submit_in_flight_grace r grace = r\<lparr>r_submit_in_flight_grace := grace\<rparr>"

text \<open>Go's zero values, read from a map without the key.\<close>

definition zero_intent :: order_intent where
  "zero_intent =
     \<lparr>oi_model_id = [], oi_strategy_id = [], oi_execution_account_id = [], oi_signal_id = [],
      oi_client_order_id = [], oi_venue = [], oi_market_source = [], oi_market_id = [],
      oi_condition_id = [], oi_outcome_index = None, oi_outcome_name = [], oi_outcome_id = [],
      oi_token_id = [], oi_target_lot_id = [], oi_expected_neg_risk = None, oi_market_snapshot_at = None,
      oi_signal_at = None, oi_side = [], oi_type = [], oi_price = [], oi_worst_price = [],
      oi_size = [], oi_time_in_force = [], oi_expires_at = None, oi_metadata = [],
      oi_decision_quotes = None, oi_decision_meta = None\<rparr>"

definition zero_order :: order where
  "zero_order =
     \<lparr>o_id = [], o_intent = zero_intent, o_market_validation = None, o_venue_order_id = [],
      o_status = OrderStatusOther [], o_filled_size = [], o_filled_notional = [], o_total_fees = [],
      o_average_fill_price = [], o_failure_code = [], o_failure_reason = [], o_created_at = 0,
      o_updated_at = 0, o_venue_last_observed_at = None, o_revision = 0\<rparr>"

definition lookup_order :: "repo \<Rightarrow> string \<Rightarrow> order" where
  "lookup_order r k = (case map_of (r_by_id r) k of None \<Rightarrow> zero_order | Some o1 \<Rightarrow> o1)"

definition events_of :: "repo \<Rightarrow> string \<Rightarrow> order_event list" where
  "events_of r k = (case map_of (r_events r) k of None \<Rightarrow> [] | Some es \<Rightarrow> es)"

definition attempts_of :: "repo \<Rightarrow> string \<Rightarrow> order_attempt list" where
  "attempts_of r k = (case map_of (r_attempts r) k of None \<Rightarrow> [] | Some as \<Rightarrow> as)"

definition created_event :: "order \<Rightarrow> order_event" where
  "created_event stored =
     \<lparr>ev_id = ''event:'' @ o_id stored @ '':1'', ev_order_id = o_id stored, ev_revision = o_revision stored,
      ev_from_status = OrderStatusOther [], ev_to_status = o_status stored, ev_trigger = TransitionTriggerReceived,
      ev_attempt_id = [], ev_fill_key = [], ev_reason_code = [], ev_reason = [], ev_venue_status = [],
      ev_venue_order_id = [], ev_filled_size = o_filled_size stored, ev_filled_notional = o_filled_notional stored,
      ev_total_fees = o_total_fees stored, ev_fill_price = [], ev_venue_observed_at = None,
      ev_occurred_at = o_created_at stored\<rparr>"

definition repo_create :: "order \<Rightarrow> repo \<Rightarrow> (order \<times> bool) \<times> repo" where
  "repo_create order r =
     (case map_of (r_by_client r) (oi_client_order_id (o_intent order)) of
        Some orderID \<Rightarrow> ((clone_order (lookup_order r orderID), False), r)
      | None \<Rightarrow>
          (let stored = clone_order order in
           ((clone_order stored, True),
            r\<lparr>r_by_id := AList.update (o_id stored) stored (r_by_id r),
              r_by_client := AList.update (oi_client_order_id (o_intent stored)) (o_id stored) (r_by_client r),
              r_events := AList.update (o_id stored) [created_event stored] (r_events r)\<rparr>)))"

definition repo_get :: "repo \<Rightarrow> string \<Rightarrow> go_error + order" where
  "repo_get r orderID =
     (case map_of (r_by_id r) orderID of
        None \<Rightarrow> Inl (ErrSentinel ErrOrderNotFound) | Some o1 \<Rightarrow> Inr (clone_order o1))"

definition repo_get_by_client_order_id :: "repo \<Rightarrow> string \<Rightarrow> go_error + order" where
  "repo_get_by_client_order_id r clientOrderID =
     (case map_of (r_by_client r) clientOrderID of
        None \<Rightarrow> Inl (ErrSentinel ErrOrderNotFound)
      | Some orderID \<Rightarrow> Inr (clone_order (lookup_order r orderID)))"

text \<open>The checks on the event that \<open>Transition\<close>, \<open>StartAttempt\<close> and \<open>FinishAttempt\<close> share, and the write.\<close>

definition event_matches :: "order \<Rightarrow> order \<Rightarrow> order_event \<Rightarrow> bool" where
  "event_matches current order event \<longleftrightarrow>
     ev_order_id event = o_id order \<and> ev_revision event = o_revision order \<and>
     ev_from_status event = o_status current \<and> ev_to_status event = o_status order"

definition write_order :: "order \<Rightarrow> order_event \<Rightarrow> repo \<Rightarrow> repo" where
  "write_order order event r =
     r\<lparr>r_by_id := AList.update (o_id order) (clone_order order) (r_by_id r),
       r_events := AList.update (o_id order) (events_of r (o_id order) @ [event]) (r_events r)\<rparr>"

definition write_attempts :: "string \<Rightarrow> order_attempt list \<Rightarrow> repo \<Rightarrow> repo" where
  "write_attempts orderID attempts r = r\<lparr>r_attempts := AList.update orderID attempts (r_attempts r)\<rparr>"

definition repo_transition :: "order \<Rightarrow> order_event \<Rightarrow> repo \<Rightarrow> err \<times> repo" where
  "repo_transition order event r =
     (case map_of (r_by_id r) (o_id order) of
        None \<Rightarrow> (Some (ErrSentinel ErrOrderNotFound), r)
      | Some current \<Rightarrow>
          if o_revision order \<noteq> o_revision current + 1 then (Some (ErrSentinel ErrOrderRevisionConflict), r)
          else if \<not> event_matches current order event then (Some (ErrSentinel ErrOrderRevisionConflict), r)
          else (None, write_order order event r))"

definition repo_update :: "order \<Rightarrow> repo \<Rightarrow> err \<times> repo" where
  "repo_update order r =
     (case repo_get r (o_id order) of
        Inl e \<Rightarrow> (Some e, r)
      | Inr current \<Rightarrow>
          repo_transition order
            \<lparr>ev_id = ''event:'' @ o_id order @ '':legacy'', ev_order_id = o_id order, ev_revision = o_revision order,
             ev_from_status = o_status current, ev_to_status = o_status order, ev_trigger = TransitionTriggerOperator,
             ev_attempt_id = [], ev_fill_key = [], ev_reason_code = [], ev_reason = [], ev_venue_status = [],
             ev_venue_order_id = [], ev_filled_size = o_filled_size order, ev_filled_notional = [],
             ev_total_fees = [], ev_fill_price = [], ev_venue_observed_at = None,
             ev_occurred_at = o_updated_at order\<rparr> r)"

definition repo_start_attempt :: "order \<Rightarrow> order_event \<Rightarrow> order_attempt \<Rightarrow> repo \<Rightarrow> err \<times> repo" where
  "repo_start_attempt order event attempt r =
     (case map_of (r_by_id r) (at_order_id attempt) of
        None \<Rightarrow> (Some (ErrSentinel ErrOrderNotFound), r)
      | Some current \<Rightarrow>
          if o_id order \<noteq> at_order_id attempt \<or> o_revision order \<noteq> o_revision current + 1 \<or> \<not> event_matches current order event
          then (Some (ErrSentinel ErrOrderRevisionConflict), r)
          else if (\<exists>existing \<in> set (attempts_of r (at_order_id attempt)).
                     at_id existing = at_id attempt \<or> at_sequence existing = at_sequence attempt)
          then (Some (ErrSentinel ErrOrderRevisionConflict), r)
          else if at_outcome attempt \<noteq> AttemptOutcomeStarted \<or> at_completed_at attempt \<noteq> None
          then (Some (ErrSentinel ErrOrderRevisionConflict), r)
          else (None, write_attempts (at_order_id attempt) (attempts_of r (at_order_id attempt) @ [attempt])
                        (write_order order event r)))"

text \<open>The loop of \<open>FinishAttempt\<close>: the first attempt with the id is replaced if it is still open.\<close>

fun replace_attempt :: "order_attempt \<Rightarrow> order_attempt list \<Rightarrow> go_error + order_attempt list" where
  "replace_attempt attempt [] = Inl (ErrSentinel ErrOrderNotFound)"
| "replace_attempt attempt (a # as) =
     (if at_id a \<noteq> at_id attempt
      then (case replace_attempt attempt as of Inl e \<Rightarrow> Inl e | Inr bs \<Rightarrow> Inr (a # bs))
      else if at_outcome a \<noteq> AttemptOutcomeStarted \<or> at_completed_at attempt = None \<or> at_outcome attempt = AttemptOutcomeStarted
      then Inl (ErrSentinel ErrOrderRevisionConflict)
      else Inr (attempt # as))"

definition repo_finish_attempt :: "order \<Rightarrow> order_event \<Rightarrow> order_attempt \<Rightarrow> repo \<Rightarrow> err \<times> repo" where
  "repo_finish_attempt order event attempt r =
     (case map_of (r_by_id r) (at_order_id attempt) of
        None \<Rightarrow> (Some (ErrSentinel ErrOrderRevisionConflict), r)
      | Some current \<Rightarrow>
          if o_id order \<noteq> at_order_id attempt \<or> o_revision order \<noteq> o_revision current + 1 \<or> \<not> event_matches current order event
          then (Some (ErrSentinel ErrOrderRevisionConflict), r)
          else case replace_attempt attempt (attempts_of r (at_order_id attempt)) of
            Inl e \<Rightarrow> (Some e, r)
          | Inr attempts \<Rightarrow> (None, write_attempts (at_order_id attempt) attempts (write_order order event r)))"

definition repo_events :: "repo \<Rightarrow> string \<Rightarrow> go_error + order_event list" where
  "repo_events r orderID =
     (if map_of (r_by_id r) orderID = None then Inl (ErrSentinel ErrOrderNotFound) else Inr (events_of r orderID))"

definition repo_attempts :: "repo \<Rightarrow> string \<Rightarrow> go_error + order_attempt list" where
  "repo_attempts r orderID =
     (if map_of (r_by_id r) orderID = None then Inl (ErrSentinel ErrOrderNotFound) else Inr (attempts_of r orderID))"

definition is_kalshi_order :: "order \<Rightarrow> bool" where
  "is_kalshi_order o1 \<longleftrightarrow>
     market_source_normalize (oi_market_source (o_intent o1)) = MarketSourceKalshi \<or>
     equal_fold (trim_space (oi_venue (o_intent o1))) ''kalshi''"

definition coordinator_eligible :: "order \<Rightarrow> bool" where
  "coordinator_eligible o1 =
     (if o_status o1 = OrderStatusUnknown \<and> \<not> is_kalshi_order o1 \<and>
         o_failure_code o1 \<in> {''CLOB_FILL_DETAILS_UNAVAILABLE'', ''VENUE_FILL_EVIDENCE_PENDING''}
      then False
      else o_status o1 \<in> {OrderStatusReceived, OrderStatusValidating, OrderStatusReserved, OrderStatusSubmitting,
        OrderStatusAcknowledged, OrderStatusLive, OrderStatusPartiallyFilled, OrderStatusUnknown,
        OrderStatusCancelPending, OrderStatusReconciling, OrderStatusCancelled})"

fun normalize_pending_loop :: "int \<Rightarrow> string list \<Rightarrow> string list \<Rightarrow> go_error + string list" where
  "normalize_pending_loop index acc [] = Inr acc"
| "normalize_pending_loop index acc (raw # rest) =
     (let accountID = trim_space raw in
      if accountID = [] then Inl (ErrText (''active execution account '' @ show_int index @ '' is empty''))
      else if List.member acc accountID then Inl (ErrText (''active execution account '' @ quoted accountID @ '' is duplicated''))
      else normalize_pending_loop (index + 1) (acc @ [accountID]) rest)"

definition normalize_pending_accounts :: "string list \<Rightarrow> go_error + string list" where
  "normalize_pending_accounts accountIDs =
     (if accountIDs = [] then Inl (ErrText ''active execution accounts are required for pending-order selection'')
      else normalize_pending_loop 0 [] accountIDs)"

definition pending_selected :: "repo \<Rightarrow> gtime \<Rightarrow> string list option \<Rightarrow> order \<Rightarrow> bool" where
  "pending_selected r before accounts o1 =
     (if (case accounts of None \<Rightarrow> False | Some as \<Rightarrow> \<not> List.member as (oi_execution_account_id (o_intent o1))) then False
      else if o_status o1 = OrderStatusSubmitting \<and> r_submit_in_flight_grace r > 0 \<and>
              o_updated_at o1 > before - r_submit_in_flight_grace r then False
      else coordinator_eligible o1 \<and> \<not> o_updated_at o1 > before)"

definition repo_list_pending_filtered :: "repo \<Rightarrow> gtime \<Rightarrow> int \<Rightarrow> string list option \<Rightarrow> order list" where
  "repo_list_pending_filtered r before limit accounts =
     (let orders = map clone_order (filter (pending_selected r before accounts) (map snd (r_by_id r)));
          sorted_orders = sort_key (\<lambda>o1. (o_updated_at o1, o_id o1)) orders in
      if limit > 0 \<and> int (length sorted_orders) > limit then take (nat limit) sorted_orders else sorted_orders)"

definition repo_list_pending :: "repo \<Rightarrow> gtime \<Rightarrow> int \<Rightarrow> order list" where
  "repo_list_pending r before limit = repo_list_pending_filtered r before limit None"

definition repo_list_pending_for_accounts :: "repo \<Rightarrow> string list \<Rightarrow> gtime \<Rightarrow> int \<Rightarrow> go_error + order list" where
  "repo_list_pending_for_accounts r accountIDs before limit =
     (case normalize_pending_accounts accountIDs of
        Inl e \<Rightarrow> Inl e
      | Inr accounts \<Rightarrow> Inr (repo_list_pending_filtered r before limit (Some accounts)))"


section \<open>The repository invariant\<close>

text \<open>
  The events of an order form a chain: each starts in the status the one before it ended in and carries
  the next revision. \<open>chain_end\<close> is the status and the revision after the last event.
\<close>

fun chain_from :: "order_status \<Rightarrow> int \<Rightarrow> order_event list \<Rightarrow> bool" where
  "chain_from s n [] \<longleftrightarrow> True"
| "chain_from s n (e # es) \<longleftrightarrow>
     ev_from_status e = s \<and> ev_revision e = n + 1 \<and> chain_from (ev_to_status e) (ev_revision e) es"

fun chain_end :: "order_status \<Rightarrow> int \<Rightarrow> order_event list \<Rightarrow> order_status \<times> int" where
  "chain_end s n [] = (s, n)"
| "chain_end s n (e # es) = chain_end (ev_to_status e) (ev_revision e) es"

definition log_ok :: "order \<Rightarrow> order_event list \<Rightarrow> bool" where
  "log_ok o1 es \<longleftrightarrow>
     (case es of [] \<Rightarrow> False
      | e # rest \<Rightarrow> ev_from_status e = OrderStatusOther [] \<and>
          chain_from (ev_to_status e) (ev_revision e) rest \<and>
          chain_end (ev_to_status e) (ev_revision e) rest = (o_status o1, o_revision o1)) \<and>
     (\<forall>e \<in> set es. ev_order_id e = o_id o1)"

definition attempts_ok :: "string \<Rightarrow> order_attempt list \<Rightarrow> bool" where
  "attempts_ok k as \<longleftrightarrow> distinct (map at_id as) \<and> distinct (map at_sequence as) \<and>
     (\<forall>a \<in> set as. at_order_id a = k \<and> (at_outcome a = AttemptOutcomeStarted \<longleftrightarrow> at_completed_at a = None))"

abbreviation client_id :: "order \<Rightarrow> string" where
  "client_id o1 \<equiv> oi_client_order_id (o_intent o1)"

definition entry_ok :: "repo \<Rightarrow> string \<Rightarrow> order \<Rightarrow> bool" where
  "entry_ok r k o1 \<longleftrightarrow> o_id o1 = k \<and> log_ok o1 (events_of r k) \<and>
     map_of (r_by_client r) (client_id o1) = Some k \<and> trim_space (client_id o1) = client_id o1"

definition client_ok :: "repo \<Rightarrow> string \<Rightarrow> bool" where
  "client_ok r c = (case map_of (r_by_client r) c of None \<Rightarrow> False
     | Some k \<Rightarrow> (case map_of (r_by_id r) k of None \<Rightarrow> False | Some o1 \<Rightarrow> client_id o1 = c))"

definition repo_ok :: "repo \<Rightarrow> bool" where
  "repo_ok r \<longleftrightarrow> distinct (map fst (r_by_id r)) \<and>
     (\<forall>(k, o1) \<in> set (r_by_id r). entry_ok r k o1) \<and>
     (\<forall>c \<in> fst ` set (r_by_client r). client_ok r c) \<and>
     (\<forall>k \<in> fst ` set (r_attempts r). k \<in> fst ` set (r_by_id r) \<and> attempts_ok k (attempts_of r k))"

lemma chain_from_snoc [simp]:
  "chain_from s n (es @ [e]) \<longleftrightarrow> chain_from s n es \<and> chain_end s n es = (ev_from_status e, ev_revision e - 1)"
  by (induction s n es rule: chain_from.induct) auto

lemma chain_end_snoc [simp]: "chain_end s n (es @ [e]) = (ev_to_status e, ev_revision e)"
  by (induction s n es rule: chain_end.induct) auto

lemma chain_revisions: "chain_from s n es \<Longrightarrow> map ev_revision es = [n + 1..n + int (length es)]"
proof (induction s n es rule: chain_from.induct)
  case (2 s n e es)
  then have "map ev_revision (e # es) = (n + 1) # [n + 1 + 1..n + 1 + int (length es)]" by auto
  also have "\<dots> = [n + 1..n + 1 + int (length es)]" by (rule upto_rec1 [symmetric]) simp
  finally show ?case by (simp add: ac_simps)
qed simp

text \<open>The map form of the invariant, in which the proofs work.\<close>

lemma attempts_ok_Nil [simp]: "attempts_ok k []"
  by (simp add: attempts_ok_def)

lemma repo_ok_iff:
  "repo_ok r \<longleftrightarrow> distinct (map fst (r_by_id r)) \<and>
     (\<forall>k o1. map_of (r_by_id r) k = Some o1 \<longrightarrow> entry_ok r k o1) \<and>
     (\<forall>c k. map_of (r_by_client r) c = Some k \<longrightarrow> (\<exists>o1. map_of (r_by_id r) k = Some o1 \<and> client_id o1 = c)) \<and>
     (\<forall>k as. map_of (r_attempts r) k = Some as \<longrightarrow> map_of (r_by_id r) k \<noteq> None \<and> attempts_ok k as)"
proof (cases "distinct (map fst (r_by_id r))")
  case True
  have 1: "(\<forall>(k, o1) \<in> set (r_by_id r). entry_ok r k o1) \<longleftrightarrow> (\<forall>k o1. map_of (r_by_id r) k = Some o1 \<longrightarrow> entry_ok r k o1)"
    using True by (auto simp: map_of_eq_Some_iff)
  have dom: "c \<in> fst ` set xs \<longleftrightarrow> (\<exists>k. map_of xs c = Some k)" for c and xs :: "(string \<times> 'b) list"
    by (metis map_of_eq_None_iff not_None_eq)
  have 2: "(\<forall>c \<in> fst ` set (r_by_client r). client_ok r c) \<longleftrightarrow>
      (\<forall>c k. map_of (r_by_client r) c = Some k \<longrightarrow> (\<exists>o1. map_of (r_by_id r) k = Some o1 \<and> client_id o1 = c))"
    unfolding Ball_def dom client_ok_def by (fastforce split: option.splits)
  have 3: "(\<forall>k \<in> fst ` set (r_attempts r). k \<in> fst ` set (r_by_id r) \<and> attempts_ok k (attempts_of r k)) \<longleftrightarrow>
      (\<forall>k as. map_of (r_attempts r) k = Some as \<longrightarrow> map_of (r_by_id r) k \<noteq> None \<and> attempts_ok k as)"
    unfolding Ball_def dom by (auto simp: attempts_of_def)
  show ?thesis unfolding repo_ok_def 1 2 3 using True by simp
qed (simp add: repo_ok_def)


section \<open>Reading after writing\<close>

lemma map_of_update [simp]: "map_of (AList.update k v al) k' = (if k = k' then Some v else map_of al k')"
  by (simp add: update_conv')

lemma write_fields [simp]:
  "map_of (r_by_id (write_order order event r)) k =
     (if o_id order = k then Some (clone_order order) else map_of (r_by_id r) k)"
  "r_by_client (write_order order event r) = r_by_client r"
  "events_of (write_order order event r) k =
     (if o_id order = k then events_of r k @ [event] else events_of r k)"
  "r_attempts (write_order order event r) = r_attempts r"
  "attempts_of (write_order order event r) k = attempts_of r k"
  "r_by_id (write_attempts i as r) = r_by_id r" "r_by_client (write_attempts i as r) = r_by_client r"
  "r_events (write_attempts i as r) = r_events r" "events_of (write_attempts i as r) k = events_of r k"
  "attempts_of (write_attempts i as r) k = (if i = k then as else attempts_of r k)"
  "map_of (r_attempts (write_attempts i as r)) k = (if i = k then Some as else map_of (r_attempts r) k)"
  by (auto simp: write_order_def write_attempts_def events_of_def attempts_of_def)

lemma log_ok_clone [simp]: "log_ok (clone_order o1) es = log_ok o1 es"
  by (simp add: log_ok_def split: list.split)

text \<open>The log stays a chain when an event that matches the next revision is appended.\<close>

lemma log_ok_snoc:
  assumes "log_ok cur es" "event_matches cur nxt e" "o_revision nxt = o_revision cur + 1" "o_id nxt = o_id cur"
  shows "log_ok nxt (es @ [e])"
proof (cases es)
  case (Cons e0 rest)
  with assms show ?thesis by (auto simp: log_ok_def event_matches_def)
qed (use assms in \<open>simp add: log_ok_def\<close>)

lemma repo_okD:
  assumes "repo_ok r"
  shows "map_of (r_by_id r) k = Some o1 \<Longrightarrow> entry_ok r k o1"
    "map_of (r_by_client r) c = Some k' \<Longrightarrow> \<exists>o1. map_of (r_by_id r) k' = Some o1 \<and> client_id o1 = c"
    "attempts_ok k (attempts_of r k)"
    "map_of (r_by_id r) k = None \<Longrightarrow> attempts_of r k = []"
  using assms unfolding repo_ok_iff attempts_of_def
  by (blast, blast, auto split: option.split) force

lemma entry_okD:
  assumes "entry_ok r k o1"
  shows "o_id o1 = k" "log_ok o1 (events_of r k)" "map_of (r_by_client r) (client_id o1) = Some k"
    "trim_space (client_id o1) = client_id o1"
  using assms by (auto simp: entry_ok_def)

text \<open>One write keeps the invariant when it keeps the client order id.\<close>

lemma write_order_ok:
  assumes ok: "repo_ok r" and cur: "map_of (r_by_id r) (o_id nxt) = Some cur"
    and rev: "o_revision nxt = o_revision cur + 1" and ev: "event_matches cur nxt e"
    and client: "trim_space (client_id nxt) = client_id cur"
  shows "repo_ok (write_order nxt e r)"
proof -
  note ecur = repo_okD(1) [OF ok cur]
  have id: "o_id nxt = o_id cur" using entry_okD(1) [OF ecur] by simp
  have new: "entry_ok (write_order nxt e r) (o_id nxt) (clone_order nxt)"
    using entry_okD [OF ecur] log_ok_snoc [OF entry_okD(2) [OF ecur] ev rev id] client
    by (simp add: entry_ok_def)
  have old: "entry_ok (write_order nxt e r) k o1" if "map_of (r_by_id r) k = Some o1" "k \<noteq> o_id nxt" for k o1
    using repo_okD(1) [OF ok that(1)] that(2) by (simp add: entry_ok_def)
  have "distinct (map fst (r_by_id (write_order nxt e r)))"
    using ok by (simp add: repo_ok_def write_order_def distinct_update)
  moreover have "\<exists>o1. map_of (r_by_id (write_order nxt e r)) k = Some o1 \<and> client_id o1 = c"
    if "map_of (r_by_client r) c = Some k" for c k
    using repo_okD(2) [OF ok that] cur client by auto
  moreover have "map_of (r_by_id (write_order nxt e r)) k \<noteq> None \<and> attempts_ok k as"
    if "map_of (r_attempts r) k = Some as" for k as
    using ok that by (auto simp: repo_ok_iff)
  ultimately show ?thesis using new old by (auto simp: repo_ok_iff)
qed

lemma write_attempts_ok:
  assumes "repo_ok r" "map_of (r_by_id r) i \<noteq> None" "attempts_ok i as"
  shows "repo_ok (write_attempts i as r)"
  using assms by (auto simp: repo_ok_iff entry_ok_def)

lemma replace_attempt_Inr:
  "replace_attempt a as = Inr bs \<Longrightarrow>
   \<exists>xs b ys. as = xs @ b # ys \<and> bs = xs @ a # ys \<and> at_id b = at_id a \<and> at_outcome b = AttemptOutcomeStarted \<and>
     at_completed_at a \<noteq> None \<and> at_outcome a \<noteq> AttemptOutcomeStarted"
proof (induction a as arbitrary: bs rule: replace_attempt.induct)
  case (2 attempt a as)
  show ?case
  proof (cases "at_id a = at_id attempt")
    case True
    with 2 show ?thesis by (intro exI [of _ "[]"] exI [of _ a] exI [of _ as]) (auto split: if_splits)
  next
    case False
    with 2(2) obtain cs where cs: "replace_attempt attempt as = Inr cs" "bs = a # cs" by (auto split: sum.splits)
    with 2(1) [OF False cs(1)] show ?thesis by (metis append_Cons)
  qed
qed simp

lemma replace_attempt_ok:
  assumes "replace_attempt a as = Inr bs" "attempts_ok k as" "at_order_id a = k"
    and seq: "\<And>b. b \<in> set as \<Longrightarrow> at_id b = at_id a \<Longrightarrow> at_sequence b = at_sequence a"
  shows "attempts_ok k bs"
proof -
  obtain xs b ys where s: "as = xs @ b # ys" "bs = xs @ a # ys" "at_id b = at_id a"
    "at_completed_at a \<noteq> None" "at_outcome a \<noteq> AttemptOutcomeStarted"
    using replace_attempt_Inr [OF assms(1)] by blast
  moreover have "at_sequence b = at_sequence a" using seq s by simp
  ultimately show ?thesis using assms(2,3) by (auto simp: attempts_ok_def)
qed


section \<open>Every operation keeps the invariant\<close>

lemma new_repository_ok: "repo_ok new_order_repository"
  by code_simp

lemma repo_create_ok:
  assumes ok: "repo_ok r" and fresh: "map_of (r_by_id r) (o_id order) = None"
    and trimmed: "trim_space (client_id order) = client_id order"
  shows "repo_ok (snd (repo_create order r))"
proof (cases "map_of (r_by_client r) (client_id order)")
  case None
  let ?s = "clone_order order" and ?r = "snd (repo_create order r)"
  have r: "map_of (r_by_id ?r) k = (if k = o_id order then Some ?s else map_of (r_by_id r) k)"
    "map_of (r_by_client ?r) c = (if c = client_id order then Some (o_id order) else map_of (r_by_client r) c)"
    "events_of ?r k = (if k = o_id order then [created_event ?s] else events_of r k)"
    "r_attempts ?r = r_attempts r" for k c
    using None trimmed by (auto simp: repo_create_def Let_def events_of_def)
  have "distinct (map fst (r_by_id ?r))"
    using ok None by (simp add: repo_ok_def repo_create_def Let_def distinct_update)
  moreover have "entry_ok ?r (o_id order) ?s"
    using trimmed by (simp add: entry_ok_def r log_ok_def created_event_def)
  moreover have "entry_ok ?r k o1" if "map_of (r_by_id r) k = Some o1" for k o1
    using repo_okD(1) [OF ok that] that fresh None by (auto simp: entry_ok_def r)
  moreover have "map_of (r_attempts r) k = Some as \<Longrightarrow> map_of (r_by_id r) k \<noteq> None \<and> attempts_ok k as" for k as
    using ok by (auto simp: repo_ok_iff)
  ultimately show ?thesis
    using repo_okD(2) [OF ok] fresh trimmed by (fastforce simp: repo_ok_iff r)
qed (use ok in \<open>simp add: repo_create_def\<close>)

lemma repo_transition_cases:
  "repo_transition nxt e r = (None, r') \<Longrightarrow>
     \<exists>cur. map_of (r_by_id r) (o_id nxt) = Some cur \<and> o_revision nxt = o_revision cur + 1 \<and>
       event_matches cur nxt e \<and> r' = write_order nxt e r"
  "repo_transition nxt e r = (Some x, r') \<Longrightarrow> r' = r"
  by (auto simp: repo_transition_def split: option.splits if_splits)

lemma repo_start_attempt_cases:
  "repo_start_attempt nxt e a r = (None, r') \<Longrightarrow>
     \<exists>cur. map_of (r_by_id r) (o_id nxt) = Some cur \<and> o_revision nxt = o_revision cur + 1 \<and>
       event_matches cur nxt e \<and> at_order_id a = o_id nxt \<and>
       at_id a \<notin> at_id ` set (attempts_of r (o_id nxt)) \<and> at_sequence a \<notin> at_sequence ` set (attempts_of r (o_id nxt)) \<and>
       at_outcome a = AttemptOutcomeStarted \<and> at_completed_at a = None \<and>
       r' = write_attempts (o_id nxt) (attempts_of r (o_id nxt) @ [a]) (write_order nxt e r)"
  "repo_start_attempt nxt e a r = (Some x, r') \<Longrightarrow> r' = r"
  by (force simp: repo_start_attempt_def split: option.splits if_splits)
     (auto simp: repo_start_attempt_def split: option.splits if_splits)

lemma repo_finish_attempt_cases:
  "repo_finish_attempt nxt e a r = (None, r') \<Longrightarrow>
     \<exists>cur as. map_of (r_by_id r) (o_id nxt) = Some cur \<and> o_revision nxt = o_revision cur + 1 \<and>
       event_matches cur nxt e \<and> at_order_id a = o_id nxt \<and>
       replace_attempt a (attempts_of r (o_id nxt)) = Inr as \<and>
       r' = write_attempts (o_id nxt) as (write_order nxt e r)"
  "repo_finish_attempt nxt e a r = (Some x, r') \<Longrightarrow> r' = r"
  by (auto simp: repo_finish_attempt_def split: option.splits if_splits sum.splits)


section \<open>The contract of the repository\<close>

text \<open>
  What a client may rely on: \<open>get\<close> reads the last version written, \<open>put\<close> accepts exactly one successor of
  the version it replaces and leaves everything alone when it fails. \<open>admissible\<close> collects what the client
  owes in return. \<open>Transition\<close>, \<open>StartAttempt\<close> and \<open>FinishAttempt\<close> are three such writes.
\<close>

locale order_store =
  fixes inv :: "'r \<Rightarrow> bool"
    and get :: "'r \<Rightarrow> string \<Rightarrow> go_error + order"
    and put :: "order \<Rightarrow> order_event \<Rightarrow> 'r \<Rightarrow> err \<times> 'r"
    and admissible :: "order \<Rightarrow> order_event \<Rightarrow> 'r \<Rightarrow> bool"
  assumes put_guard: "inv r \<Longrightarrow> put nxt e r = (None, r') \<Longrightarrow>
      \<exists>cur. get r (o_id nxt) = Inr cur \<and> o_revision nxt = o_revision cur + 1 \<and> event_matches cur nxt e"
    and put_get: "inv r \<Longrightarrow> put nxt e r = (None, r') \<Longrightarrow> get r' (o_id nxt) = Inr (clone_order (clone_order nxt))"
    and put_frame: "inv r \<Longrightarrow> put nxt e r = (None, r') \<Longrightarrow> k \<noteq> o_id nxt \<Longrightarrow> get r' k = get r k"
    and put_error: "inv r \<Longrightarrow> put nxt e r = (Some x, r') \<Longrightarrow> r' = r"
    and put_inv: "inv r \<Longrightarrow> admissible nxt e r \<Longrightarrow> put nxt e r = (None, r') \<Longrightarrow> inv r'"
begin

text \<open>An audited step: the state machine proposes, the store decides.\<close>

definition audited :: "order \<Rightarrow> transition \<Rightarrow> 'r \<Rightarrow> err \<times> 'r" where
  "audited o1 t r = (case apply_transition o1 t of Inl e \<Rightarrow> (Some e, r) | Inr (nxt, e) \<Rightarrow> put nxt e r)"

lemma no_lost_update:
  assumes "inv r" "admissible a ea r" "put a ea r = (None, r')" "o_id b = o_id a" "o_revision b = o_revision a"
  shows "\<exists>x. put b eb r' = (Some x, r')"
proof (cases "put b eb r'")
  case (Pair res r'')
  have i: "inv r'" using put_inv [OF assms(1-3)] .
  show ?thesis
  proof (cases res)
    case None
    with Pair have "put b eb r' = (None, r'')" by simp
    from put_guard [OF i this] put_get [OF assms(1,3)] assms(4,5) show ?thesis by auto
  next
    case (Some x)
    with Pair put_error [OF i] show ?thesis by auto
  qed
qed

lemma audited_legal:
  assumes "inv r" "audited o1 t r = (None, r')"
  shows "\<exists>cur nxt. get r (o_id o1) = Inr cur \<and> get r' (o_id o1) = Inr nxt \<and>
    can_transition (o_status cur) (o_status nxt) \<and> o_status nxt = tr_to t \<and>
    o_revision cur = o_revision o1 \<and> o_revision nxt = o_revision cur + 1"
proof -
  obtain n e where ap: "apply_transition o1 t = Inr (n, e)" and w: "put n e r = (None, r')"
    using assms(2) by (auto simp: audited_def split: sum.splits)
  note f = apply_transition_fields [OF ap] and ev = apply_transition_event [OF ap]
  obtain cur where cur: "get r (o_id n) = Inr cur" "o_revision n = o_revision cur + 1" "event_matches cur n e"
    using put_guard [OF assms(1) w] by blast
  moreover have "can_transition (o_status cur) (o_status n)"
    using cur(3) ap ev(3) f(3) by (simp add: event_matches_def apply_transition_Inr)
  ultimately show ?thesis using put_get [OF assms(1) w] f by auto
qed

lemma audited_elsewhere:
  assumes "inv r" "audited o1 t r = (x, r')" "k \<noteq> o_id o1"
  shows "get r' k = get r k"
proof (cases "apply_transition o1 t")
  case (Inl e)
  then show ?thesis using assms(2) by (simp add: audited_def)
next
  case (Inr p)
  obtain n e where p: "p = (n, e)" by force
  have w: "put n e r = (x, r')" using assms(2) Inr p by (simp add: audited_def)
  have "o_id n = o_id o1" using apply_transition_fields(1) Inr p by blast
  then show ?thesis using put_frame [OF assms(1), of n e r' k] put_error [OF assms(1), of n e _ r'] w assms(3)
    by (cases x) auto
qed

end

definition keeps_client :: "order \<Rightarrow> order_event \<Rightarrow> repo \<Rightarrow> bool" where
  "keeps_client nxt e r \<longleftrightarrow>
     (\<forall>cur. map_of (r_by_id r) (o_id nxt) = Some cur \<longrightarrow> trim_space (client_id nxt) = client_id cur)"

definition keeps_sequence :: "order_attempt \<Rightarrow> repo \<Rightarrow> bool" where
  "keeps_sequence a r \<longleftrightarrow>
     (\<forall>b \<in> set (attempts_of r (at_order_id a)). at_id b = at_id a \<longrightarrow> at_sequence b = at_sequence a)"

lemma repo_transition_ok:
  assumes "repo_ok r" "keeps_client nxt e r" "repo_transition nxt e r = (x, r')"
  shows "repo_ok r'"
proof (cases x)
  case None
  then show ?thesis
    using repo_transition_cases(1) [of nxt e r r'] write_order_ok [OF assms(1)] assms(2,3) by (auto simp: keeps_client_def)
qed (use repo_transition_cases(2) assms in blast)

lemma repo_start_attempt_ok:
  assumes "repo_ok r" "keeps_client nxt e r" "repo_start_attempt nxt e a r = (x, r')"
  shows "repo_ok r'"
proof (cases x)
  case None
  then obtain cur where c: "map_of (r_by_id r) (o_id nxt) = Some cur" "o_revision nxt = o_revision cur + 1"
    "event_matches cur nxt e" "at_order_id a = o_id nxt" "at_id a \<notin> at_id ` set (attempts_of r (o_id nxt))"
    "at_sequence a \<notin> at_sequence ` set (attempts_of r (o_id nxt))" "at_outcome a = AttemptOutcomeStarted"
    "at_completed_at a = None" "r' = write_attempts (o_id nxt) (attempts_of r (o_id nxt) @ [a]) (write_order nxt e r)"
    using repo_start_attempt_cases(1) [of nxt e a r r'] assms(3) by auto
  have "attempts_ok (o_id nxt) (attempts_of r (o_id nxt) @ [a])"
    using repo_okD(3) [OF assms(1), of "o_id nxt"] c by (auto simp: attempts_ok_def)
  moreover have "repo_ok (write_order nxt e r)"
    using write_order_ok [OF assms(1) c(1-3)] assms(2) c(1) by (simp add: keeps_client_def)
  ultimately show ?thesis using c(9) by (simp add: write_attempts_ok)
qed (use repo_start_attempt_cases(2) assms in blast)

lemma repo_finish_attempt_ok:
  assumes "repo_ok r" "keeps_client nxt e r" "keeps_sequence a r" "repo_finish_attempt nxt e a r = (x, r')"
  shows "repo_ok r'"
proof (cases x)
  case None
  then obtain cur as where c: "map_of (r_by_id r) (o_id nxt) = Some cur" "o_revision nxt = o_revision cur + 1"
    "event_matches cur nxt e" "at_order_id a = o_id nxt" "replace_attempt a (attempts_of r (o_id nxt)) = Inr as"
    "r' = write_attempts (o_id nxt) as (write_order nxt e r)"
    using repo_finish_attempt_cases(1) [of nxt e a r r'] assms(4) by auto
  have "attempts_ok (o_id nxt) as"
    using replace_attempt_ok [OF c(5) repo_okD(3) [OF assms(1)] c(4)] assms(3) c(4) by (simp add: keeps_sequence_def)
  moreover have "repo_ok (write_order nxt e r)"
    using write_order_ok [OF assms(1) c(1-3)] assms(2) c(1) by (simp add: keeps_client_def)
  ultimately show ?thesis using c(6) by (simp add: write_attempts_ok)
qed (use repo_finish_attempt_cases(2) assms in blast)

lemma event_matches_clone [simp]: "event_matches (clone_order cur) nxt e = event_matches cur nxt e"
  by (simp add: event_matches_def)

lemma repo_get_fields:
  "repo_get (write_attempts i as r) k = repo_get r k"
  "repo_get (write_order nxt e r) k = (if k = o_id nxt then Inr (clone_order (clone_order nxt)) else repo_get r k)"
  by (auto simp: repo_get_def)

lemma repo_get_Some: "map_of (r_by_id r) k = Some o1 \<Longrightarrow> repo_get r k = Inr (clone_order o1)"
  by (simp add: repo_get_def)

interpretation mem_transition: order_store repo_ok repo_get repo_transition keeps_client
  by unfold_locales
    (fastforce dest: repo_transition_cases intro: repo_transition_ok simp: repo_get_fields repo_get_Some)+

interpretation mem_start: order_store repo_ok repo_get "\<lambda>nxt e. repo_start_attempt nxt e a" keeps_client for a
  by unfold_locales
    (fastforce dest: repo_start_attempt_cases intro: repo_start_attempt_ok simp: repo_get_fields repo_get_Some)+

interpretation mem_finish: order_store repo_ok repo_get "\<lambda>nxt e. repo_finish_attempt nxt e a"
  "\<lambda>nxt e r. keeps_client nxt e r \<and> keeps_sequence a r" for a
  by unfold_locales
    (fastforce dest: repo_finish_attempt_cases intro: repo_finish_attempt_ok simp: repo_get_fields repo_get_Some)+


section \<open>Selection of pending orders\<close>

lemma repo_ok_ids_distinct:
  assumes "repo_ok r"
  shows "inj_on o_id (set (map snd (r_by_id r)))"
proof (rule inj_onI)
  fix x y assume xy: "x \<in> set (map snd (r_by_id r))" "y \<in> set (map snd (r_by_id r))" "o_id x = o_id y"
  from xy(1,2) obtain kx ky where k: "(kx, x) \<in> set (r_by_id r)" "(ky, y) \<in> set (r_by_id r)" by auto
  with assms have "o_id x = kx" "o_id y = ky" by (auto simp: repo_ok_def entry_ok_def)
  with k xy(3) assms show "x = y" by (metis map_of_is_SomeI option.inject repo_ok_def)
qed

lemma pending_keys_inj:
  assumes "repo_ok r"
  shows "inj_on (\<lambda>o1. (o_updated_at o1, o_id o1)) (set (map clone_order (filter P (map snd (r_by_id r)))))"
proof (rule inj_onI)
  fix x y
  assume x: "x \<in> set (map clone_order (filter P (map snd (r_by_id r))))"
    and y: "y \<in> set (map clone_order (filter P (map snd (r_by_id r))))"
    and eq: "(o_updated_at x, o_id x) = (o_updated_at y, o_id y)"
  from x obtain x' where x': "x' \<in> set (map snd (r_by_id r))" "x = clone_order x'" by auto
  from y obtain y' where y': "y' \<in> set (map snd (r_by_id r))" "y = clone_order y'" by auto
  have "o_id x' = o_id y'" using eq x'(2) y'(2) by simp
  then have "x' = y'" using repo_ok_ids_distinct [OF assms] x'(1) y'(1) by (auto dest: inj_onD)
  with x' y' show "x = y" by simp
qed

lemma pending_prefix:
  "set (repo_list_pending_filtered r before limit accounts) \<subseteq>
     clone_order ` {o1 \<in> snd ` set (r_by_id r). pending_selected r before accounts o1}"
  by (auto simp: repo_list_pending_filtered_def Let_def dest: in_set_takeD)

lemma pending_selectedD:
  assumes "pending_selected r before accounts o1"
  shows "o_updated_at o1 \<le> before" "coordinator_eligible o1"
    "accounts = Some as \<Longrightarrow> oi_execution_account_id (o_intent o1) \<in> set as"
  using assms by (auto simp: pending_selected_def split: if_splits)

lemma coordinator_eligible_open:
  "coordinator_eligible o1 \<Longrightarrow> o_status o1 \<notin> {OrderStatusFilled, OrderStatusRejected, OrderStatusManualReview}"
  by (auto simp: coordinator_eligible_def split: if_splits)

lemma pending_sorted:
  "sorted (map (\<lambda>o1. (o_updated_at o1, o_id o1)) (repo_list_pending_filtered r before limit accounts))"
  by (auto simp: repo_list_pending_filtered_def Let_def take_map [symmetric] sorted_wrt_take)


section \<open>Properties\<close>

text \<open>
  C31. Audit integrity of the repository: \<open>repo_ok\<close> holds of a new repository and survives every write, whether it
  succeeds or fails, that keeps to what the repository leaves to its callers: \<open>Create\<close> of an order whose id is not stored
  yet and whose client order id is trimmed; \<open>Transition\<close>, \<open>StartAttempt\<close> and the legacy \<open>Update\<close> of an order that still
  has the client order id it is stored with (\<open>keeps_client\<close>); and \<open>FinishAttempt\<close> that, besides, keeps the sequence
  number of the attempt it finishes (\<open>keeps_sequence\<close>). The repository does not check these conditions itself; the execution
  service meets them, as \<open>Execution_Audit\<close> shows. Hence the events of every order form one unbroken
  chain of consecutive revisions that ends in the stored status and revision, the client-order-id index is exact, and an
  attempt is open exactly while it has no completion time.
\<close>

theorem repository_invariant:
  "repo_ok new_order_repository \<and>
   (repo_ok r \<and> map_of (r_by_id r) (o_id order) = None \<and> trim_space (client_id order) = client_id order \<longrightarrow>
     repo_ok (snd (repo_create order r))) \<and>
   (repo_ok r \<and> keeps_client nxt e r \<longrightarrow>
     repo_ok (snd (repo_transition nxt e r)) \<and> repo_ok (snd (repo_start_attempt nxt e a r)) \<and>
     (keeps_sequence a r \<longrightarrow> repo_ok (snd (repo_finish_attempt nxt e a r))) \<and> repo_ok (snd (repo_update nxt r)))"
proof -
  have "repo_ok r \<Longrightarrow> keeps_client nxt e r \<Longrightarrow> repo_ok (snd (repo_update nxt r))"
    by (auto simp: repo_update_def keeps_client_def split: sum.split intro!: repo_transition_ok [OF _ _ surjective_pairing])
  then show ?thesis
    using new_repository_ok repo_create_ok repo_transition_ok [OF _ _ surjective_pairing]
      repo_start_attempt_ok [OF _ _ surjective_pairing] repo_finish_attempt_ok [OF _ _ _ surjective_pairing] by blast
qed

definition sample_repo :: repo where
  "sample_repo = snd (repo_create (sample_order\<lparr>o_status := OrderStatusReceived, o_revision := 1\<rparr>) new_order_repository)"

theorem repository_invariant_witness: "repo_ok sample_repo \<and> repo_ok (snd (repo_update (sample_order\<lparr>o_revision := 2\<rparr>) sample_repo))"
proof
  show r: "repo_ok sample_repo"
  proof -
    let ?o = "sample_order\<lparr>o_status := OrderStatusReceived, o_revision := 1\<rparr>"
    have "map_of (r_by_id new_order_repository) (o_id ?o) = None" "trim_space (client_id ?o) = client_id ?o" by code_simp+
    then show ?thesis unfolding sample_repo_def using repository_invariant by blast
  qed
  have "keeps_client (sample_order\<lparr>o_revision := 2\<rparr>) (created_event sample_order) sample_repo"
    by (simp add: keeps_client_def sample_repo_def repo_create_def new_order_repository_def sample_order_def Let_def sample_intent_def)
  then show "repo_ok (snd (repo_update (sample_order\<lparr>o_revision := 2\<rparr>) sample_repo))"
    using repository_invariant r by blast
qed

text \<open>
  No lost update: when two writers prepare the next version of an order from the same revision, the
  first write that succeeds makes the other one fail and leave the repository as it was.
\<close>

lemma concurrent_writers_exclude:
  assumes "repo_ok r" "keeps_client a ea r" "repo_transition a ea r = (None, r')"
    and "o_id b = o_id a" "o_revision b = o_revision a"
  shows "\<exists>x. repo_transition b eb r' = (Some x, r')"
  using assms by (rule mem_transition.no_lost_update)

text \<open>
  Selection for the coordinator is deterministic although Go iterates the map in an arbitrary order: the
  result depends only on the entries of the map, is ordered by age and id, and contains only eligible
  orders that are old enough and, when an allowlist is given, belong to it.
\<close>

lemma pending_selection_deterministic:
  assumes "repo_ok r" "mset (r_by_id r') = mset (r_by_id r)"
    and "r_submit_in_flight_grace r' = r_submit_in_flight_grace r"
  shows "repo_list_pending_filtered r' before limit accounts = repo_list_pending_filtered r before limit accounts \<and>
    sorted (map (\<lambda>o1. (o_updated_at o1, o_id o1)) (repo_list_pending_filtered r before limit accounts)) \<and>
    (o1 \<in> set (repo_list_pending_filtered r before limit accounts) \<longrightarrow>
       o_updated_at o1 \<le> before \<and> o_status o1 \<notin> {OrderStatusFilled, OrderStatusRejected, OrderStatusManualReview}) \<and>
    (o1 \<in> set (repo_list_pending_filtered r before limit (Some as)) \<longrightarrow>
       (\<exists>o2. o1 = clone_order o2 \<and> oi_execution_account_id (o_intent o2) \<in> set as))"
proof (rule conjI [OF _ conjI [OF _ conjI [OF impI impI]]])
  have sel: "pending_selected r' = pending_selected r"
    using assms(3) by (intro ext) (simp add: pending_selected_def)
  let ?xs = "map clone_order (filter (pending_selected r before accounts) (map snd (r_by_id r)))"
    and ?ys = "map clone_order (filter (pending_selected r before accounts) (map snd (r_by_id r')))"
  have "mset ?xs = mset ?ys" using assms(2) by (simp add: mset_filter)
  from sort_key_eq_sort_key [OF this pending_keys_inj [OF assms(1)]]
  show "repo_list_pending_filtered r' before limit accounts = repo_list_pending_filtered r before limit accounts"
    by (simp only: repo_list_pending_filtered_def sel Let_def)
  show "sorted (map (\<lambda>o1. (o_updated_at o1, o_id o1)) (repo_list_pending_filtered r before limit accounts))"
    by (rule pending_sorted)
  show "o_updated_at o1 \<le> before \<and> o_status o1 \<notin> {OrderStatusFilled, OrderStatusRejected, OrderStatusManualReview}"
    if m: "o1 \<in> set (repo_list_pending_filtered r before limit accounts)"
  proof -
    obtain o2 where "o1 = clone_order o2" "pending_selected r before accounts o2"
      using m pending_prefix [of r before limit accounts] by blast
    then show ?thesis using pending_selectedD(1,2) coordinator_eligible_open [of o2] by force
  qed
  show "\<exists>o2. o1 = clone_order o2 \<and> oi_execution_account_id (o_intent o2) \<in> set as"
    if "o1 \<in> set (repo_list_pending_filtered r before limit (Some as))"
    using that pending_prefix [of r before limit "Some as"] pending_selectedD(3) by blast
qed

end
