(* ===== verification/Fills.thy ===== *)
theory Fills
  imports Order_State
begin

text \<open>
  \<open>src/internal/domain/fill.go\<close> and \<open>src/internal/domain/settlement_evidence.go\<close>: a fill, the settlement evidence
  behind it, and the checks a fill must pass before the ledger may book it. Integers of the evidence are
  natural numbers (they are only compared). A Go range over a map visits the keys in an arbitrary order,
  which decides only which of several error texts is reported; the model uses the order of the literal.
  The lemmas show that a fill which passes satisfies the exact accounting identities and agrees with the
  on-chain amounts.
\<close>

section \<open>Settlement evidence\<close>

definition FeeSourcePolygonV2OrderFilled :: string where
  "FeeSourcePolygonV2OrderFilled = ''POLYGON_V2_ORDER_FILLED''"

definition SettlementEvidenceSchemaV1 :: string where
  "SettlementEvidenceSchemaV1 = ''trading.settlement_evidence.v1''"

definition SettlementEvidenceZeroBuilder :: string where
  "SettlementEvidenceZeroBuilder = ''ORDER_FILLED_ZERO_BUILDER''"

definition settlementZeroBytes32 :: string where
  "settlementZeroBytes32 = ''0x'' @ replicate 64 (CHR ''0'')"

record settlement_evidence =
  se_schema_version :: string
  se_source :: string
  se_chain_id :: nat
  se_exchange_address :: string
  se_transaction_hash :: string
  se_block_number :: nat
  se_block_hash :: string
  se_log_index :: nat
  se_confirmations :: nat
  se_order_hash :: string
  se_maker_address :: string
  se_token_id :: string
  se_side :: side
  se_maker_amount_base_units :: string
  se_taker_amount_base_units :: string
  se_total_fee_base_units :: string
  se_builder_code :: string
  se_builder_fee_known :: bool
  se_builder_fee_base_units :: string
  se_builder_fee_source :: string
  se_collateral_decimals :: nat
  se_outcome_token_decimals :: nat

definition evidence_normalize :: "settlement_evidence \<Rightarrow> settlement_evidence" where
  "evidence_normalize ev = ev\<lparr>
     se_schema_version := trim_space (se_schema_version ev),
     se_source := to_upper (trim_space (se_source ev)),
     se_exchange_address := to_lower (trim_space (se_exchange_address ev)),
     se_transaction_hash := to_lower (trim_space (se_transaction_hash ev)),
     se_block_hash := to_lower (trim_space (se_block_hash ev)),
     se_order_hash := to_lower (trim_space (se_order_hash ev)),
     se_maker_address := to_lower (trim_space (se_maker_address ev)),
     se_token_id := trim_space (se_token_id ev),
     se_side := to_upper (trim_space (se_side ev)),
     se_maker_amount_base_units := trim_space (se_maker_amount_base_units ev),
     se_taker_amount_base_units := trim_space (se_taker_amount_base_units ev),
     se_total_fee_base_units := trim_space (se_total_fee_base_units ev),
     se_builder_code := to_lower (trim_space (se_builder_code ev)),
     se_builder_fee_base_units := trim_space (se_builder_fee_base_units ev),
     se_builder_fee_source := to_upper (trim_space (se_builder_fee_source ev))\<rparr>"

definition canonical_uint256 :: "string \<Rightarrow> bool" where
  "canonical_uint256 value \<longleftrightarrow>
     value \<noteq> [] \<and> value = trim_space value \<and> \<not> (length value > 1 \<and> hd value = CHR ''0'') \<and>
     list_all is_digit value \<and> digits_val 0 value < 2 ^ 256"

definition is_hex_digit :: "char \<Rightarrow> bool" where
  "is_hex_digit c \<longleftrightarrow> (let n = of_char c :: nat in 48 \<le> n \<and> n \<le> 57 \<or> 97 \<le> n \<and> n \<le> 102 \<or> 65 \<le> n \<and> n \<le> 70)"

definition canonical_fixed_hex :: "string \<Rightarrow> nat \<Rightarrow> bool" where
  "canonical_fixed_hex value bytes \<longleftrightarrow>
     length value = 2 + bytes * 2 \<and> has_prefix value ''0x'' \<and> value = to_lower value \<and> list_all is_hex_digit (drop 2 value)"

definition evidence_base_unit_decimal :: "string \<Rightarrow> nat \<Rightarrow> go_error + decimal" where
  "evidence_base_unit_decimal raw decimals =
     (if \<not> canonical_uint256 raw then Inl (ErrText ''amount must be a canonical uint256 decimal string'')
      else
        (let digits = pad_zeros (Suc decimals) raw;
             digits = (if decimals > 0
                       then (let cut = length digits - decimals in take cut digits @ ''.'' @ drop cut digits)
                       else digits);
             digits = trim_right_char (CHR ''.'') (trim_right_char (CHR ''0'') digits);
             digits = (if digits = [] then ''0'' else digits)
         in parse_decimal digits))"

text \<open>\<open>big.Rat.FloatString\<close>: rounds half away from zero at the given number of places.\<close>

definition rat_float_string :: "rat \<Rightarrow> nat \<Rightarrow> string" where
  "rat_float_string x prec =
     (case quotient_of x of (a, b) \<Rightarrow>
      if b = 1 then show_int a @ (if prec > 0 then ''.'' @ replicate prec (CHR ''0'') else [])
      else
       (let q = \<bar>a\<bar> div b; r = \<bar>a\<bar> mod b; p = 10 ^ prec;
            r1 = r * p div b; r2 = r * p mod b;
            r1' = (if b \<le> r2 + r2 then r1 + 1 else r1);
            (q', r1'') = (if b \<le> r2 + r2 \<and> p \<le> r1' then (q + 1, r1' - p) else (q, r1'))
        in (if a < 0 then ''-'' else []) @ show_nat (nat q') @
           (if prec > 0 then ''.'' @ pad_zeros prec (show_nat (nat r1'')) else [])))"

definition settlement_rat_decimal :: "rat \<Rightarrow> string" where
  "settlement_rat_decimal value =
     (let text = trim_right_char (CHR ''.'') (trim_right_char (CHR ''0'') (rat_float_string value 18))
      in if text = [] \<or> text = ''-0'' then ''0'' else text)"

definition rat_fails :: "go_error + rat \<Rightarrow> (rat \<Rightarrow> bool) \<Rightarrow> bool" where
  "rat_fails r p = (case r of Inl _ \<Rightarrow> True | Inr x \<Rightarrow> p x)"

text \<open>The value of a decimal the code has checked before; Go would dereference nil otherwise.\<close>

definition dec_value :: "decimal \<Rightarrow> rat" where
  "dec_value d = (case dec_rat d of Inl _ \<Rightarrow> 0 | Inr r \<Rightarrow> r)"

definition validate_settlement_event_gross ::
    "decimal \<Rightarrow> decimal \<Rightarrow> decimal \<Rightarrow> decimal \<Rightarrow> nat \<Rightarrow> err" where
  "validate_settlement_event_gross shares price gross tickSize collateralDecimals =
     (if rat_fails (dec_rat shares) (\<lambda>x. x \<le> 0) then Some (ErrText ''fill shares must be positive'')
      else if rat_fails (dec_rat price) (\<lambda>x. x \<le> 0) then Some (ErrText ''fill price must be positive'')
      else if rat_fails (dec_rat gross) (\<lambda>x. x < 0) then Some (ErrText ''settlement gross amount must be non-negative'')
      else if rat_fails (dec_rat tickSize) (\<lambda>x. x \<le> 0 \<or> x \<ge> 1)
      then Some (ErrText ''settlement price_tick_size must be positive and below 1'')
      else if collateralDecimals > 18 then Some (ErrText ''settlement collateral decimals exceed supported precision'')
      else
        (let computedGross = dec_value shares * dec_value price;
             difference = \<bar>computedGross - dec_value gross\<bar>;
             oneBaseUnit = 1 / 10 ^ collateralDecimals;
             tolerance = dec_value shares * (dec_value tickSize / 2) + oneBaseUnit
         in if difference > tolerance
            then Some (ErrText (''settlement gross differs from shares multiplied by display price beyond tick/precision tolerance: shares='' @ shares @
              '' price='' @ price @ '' gross='' @ gross @ '' computed_gross='' @ settlement_rat_decimal computedGross @
              '' difference='' @ settlement_rat_decimal difference @ '' tolerance='' @ settlement_rat_decimal tolerance @
              '' tick_size='' @ tickSize))
            else None))"

definition validate_legacy_settlement_gross :: "decimal \<Rightarrow> decimal \<Rightarrow> decimal \<Rightarrow> nat \<Rightarrow> err" where
  "validate_legacy_settlement_gross shares price gross collateralDecimals =
     (case dec_rat shares of Inl e \<Rightarrow> Some e | Inr s \<Rightarrow>
      case dec_rat price of Inl e \<Rightarrow> Some e | Inr p \<Rightarrow>
      case dec_rat gross of Inl e \<Rightarrow> Some e | Inr g \<Rightarrow>
      if \<bar>s * p - g\<bar> \<ge> 1 / 10 ^ collateralDecimals
      then Some (ErrText ''legacy settlement gross differs from shares multiplied by price by at least one collateral base unit'')
      else None)"


section \<open>Fills\<close>

type_synonym fill_status = string
type_synonym liquidity_role = string

definition FillStatusMatched :: fill_status where "FillStatusMatched = ''MATCHED''"
definition FillStatusMined :: fill_status where "FillStatusMined = ''MINED''"
definition FillStatusConfirmed :: fill_status where "FillStatusConfirmed = ''CONFIRMED''"
definition FillStatusRetrying :: fill_status where "FillStatusRetrying = ''RETRYING''"
definition FillStatusFailed :: fill_status where "FillStatusFailed = ''FAILED''"
definition LiquidityRoleMaker :: liquidity_role where "LiquidityRoleMaker = ''MAKER''"
definition LiquidityRoleTaker :: liquidity_role where "LiquidityRoleTaker = ''TAKER''"

lemmas fill_constants = FillStatusMatched_def FillStatusMined_def FillStatusConfirmed_def FillStatusRetrying_def
  FillStatusFailed_def LiquidityRoleMaker_def LiquidityRoleTaker_def

record fill =
  f_key :: string
  f_venue :: string
  f_venue_fill_id :: string
  f_order_id :: string
  f_venue_order_id :: string
  f_execution_account_id :: string
  f_market_id :: string
  f_condition_id :: string
  f_token_id :: string
  f_side :: side
  f_liquidity_role :: liquidity_role
  f_status :: fill_status
  f_shares :: decimal
  f_price :: decimal
  f_price_tick_size :: decimal
  f_gross_notional :: decimal
  f_fee_rate_bps :: decimal
  f_platform_fee_rate :: decimal
  f_fee_exponent :: decimal
  f_platform_fee :: decimal
  f_builder_fee_rate_bps :: decimal
  f_builder_fee :: decimal
  f_total_fee :: decimal
  f_net_cash_delta :: decimal
  f_transaction_hash :: string
  f_matched_at :: gtime
  f_venue_updated_at :: gtime
  f_observed_at :: gtime
  f_confirmed_at :: "gtime option"
  f_applied_at :: "gtime option"
  f_fee_source :: string
  f_raw_payload_sha256 :: string
  f_settlement_evidence :: "settlement_evidence option"

definition trim_prefix :: "string \<Rightarrow> string \<Rightarrow> string" where
  "trim_prefix s p = (if has_prefix s p then drop (length p) s else s)"

definition normalize_fill_status :: "fill_status \<Rightarrow> fill_status" where
  "normalize_fill_status status =
     (let value = trim_prefix (to_upper (trim_space status)) ''TRADE_STATUS_'' in
      if value = ''MATCHED_NOT_BROADCASTED'' then FillStatusMatched else value)"

definition fill_status_valid :: "fill_status \<Rightarrow> bool" where
  "fill_status_valid status \<longleftrightarrow> normalize_fill_status status \<in>
     {FillStatusMatched, FillStatusMined, FillStatusConfirmed, FillStatusRetrying, FillStatusFailed}"

definition fill_status_terminal :: "fill_status \<Rightarrow> bool" where
  "fill_status_terminal status \<longleftrightarrow>
     normalize_fill_status status = FillStatusConfirmed \<or> normalize_fill_status status = FillStatusFailed"

definition fill_can_transition_to :: "fill_status \<Rightarrow> fill_status \<Rightarrow> bool" where
  "fill_can_transition_to status0 nxt0 =
     (let status = normalize_fill_status status0; nxt = normalize_fill_status nxt0 in
      if status = nxt then True
      else if fill_status_terminal status then False
      else if status = FillStatusMatched
      then nxt = FillStatusMined \<or> nxt = FillStatusRetrying \<or> nxt = FillStatusConfirmed \<or> nxt = FillStatusFailed
      else if status = FillStatusMined
      then nxt = FillStatusRetrying \<or> nxt = FillStatusConfirmed \<or> nxt = FillStatusFailed
      else if status = FillStatusRetrying
      then nxt = FillStatusMatched \<or> nxt = FillStatusMined \<or> nxt = FillStatusConfirmed \<or> nxt = FillStatusFailed
      else False)"

definition fill_normalize :: "fill \<Rightarrow> fill" where
  "fill_normalize f = f\<lparr>
     f_key := trim_space (f_key f),
     f_venue := to_lower (trim_space (f_venue f)),
     f_venue_fill_id := trim_space (f_venue_fill_id f),
     f_order_id := trim_space (f_order_id f),
     f_venue_order_id := trim_space (f_venue_order_id f),
     f_execution_account_id := trim_space (f_execution_account_id f),
     f_market_id := trim_space (f_market_id f),
     f_condition_id := trim_space (f_condition_id f),
     f_token_id := trim_space (f_token_id f),
     f_side := to_upper (trim_space (f_side f)),
     f_liquidity_role := to_upper (trim_space (f_liquidity_role f)),
     f_status := normalize_fill_status (f_status f),
     f_transaction_hash := trim_space (f_transaction_hash f),
     f_fee_source := to_upper (trim_space (f_fee_source f)),
     f_price_tick_size := trim_space (f_price_tick_size f),
     f_raw_payload_sha256 := to_lower (trim_space (f_raw_payload_sha256 f)),
     f_settlement_evidence := map_option evidence_normalize (f_settlement_evidence f)\<rparr>"

definition fill_validate :: "fill \<Rightarrow> err" where
  "fill_validate f0 =
     (let f = fill_normalize f0 in
      if f_venue f = [] \<or> f_venue_fill_id f = [] \<or> f_order_id f = [] \<or> f_venue_order_id f = []
      then Some (ErrText ''venue, venue_fill_id, order_id, and venue_order_id are required'')
      else if f_execution_account_id f = [] \<or> f_market_id f = [] \<or> f_token_id f = []
      then Some (ErrText ''execution_account_id, market_id, and token_id are required'')
      else if f_side f \<noteq> SideBuy \<and> f_side f \<noteq> SideSell then Some (ErrText ''fill side must be BUY or SELL'')
      else if f_liquidity_role f \<noteq> LiquidityRoleMaker \<and> f_liquidity_role f \<noteq> LiquidityRoleTaker
      then Some (ErrText ''fill liquidity_role must be MAKER or TAKER'')
      else if \<not> fill_status_valid (f_status f)
      then Some (ErrText (''unsupported fill status '' @ quoted (f_status f)))
      else if cmp_fails (dec_sign (f_shares f)) (\<lambda>k. k \<le> 0) then Some (ErrText ''fill shares must be positive'')
      else if cmp_fails (dec_sign (f_price f)) (\<lambda>k. k \<le> 0) then Some (ErrText ''fill price must be positive'')
      else if cmp_fails (dec_compare (f_price f) ''1'') (\<lambda>k. k \<ge> 0) then Some (ErrText ''fill price must be below 1'')
      else if is_zero_time (f_matched_at f) \<or> is_zero_time (f_observed_at f)
      then Some (ErrText ''matched_at and observed_at are required'')
      else if f_status f = FillStatusConfirmed \<and> f_confirmed_at f = None
      then Some (ErrText ''confirmed fill requires confirmed_at'')
      else None)"

text \<open>\<open>SettlementEvidence.ValidateAgainst\<close>; the amounts are (shares, gross) by side.\<close>

definition evidence_validate_gross :: "settlement_evidence \<Rightarrow> fill \<Rightarrow> err" where
  "evidence_validate_gross ev f =
     (if dec_is_empty (f_price f) then None
      else if dec_is_empty (f_price_tick_size f)
      then validate_legacy_settlement_gross (f_shares f) (f_price f) (f_gross_notional f) (se_collateral_decimals ev)
      else validate_settlement_event_gross (f_shares f) (f_price f) (f_gross_notional f) (f_price_tick_size f)
             (se_collateral_decimals ev))"

definition evidence_validate_fees :: "settlement_evidence \<Rightarrow> fill \<Rightarrow> err" where
  "evidence_validate_fees ev f =
     (case evidence_base_unit_decimal (se_total_fee_base_units ev) (se_collateral_decimals ev) of
        Inl e \<Rightarrow> Some (wrap_error ''settlement total fee'' e)
      | Inr totalFee \<Rightarrow>
      if \<not> se_builder_fee_known ev then Some (ErrText ''settlement evidence builder allocation is unknown'')
      else
      case evidence_base_unit_decimal (se_builder_fee_base_units ev) (se_collateral_decimals ev) of
        Inl e \<Rightarrow> Some (wrap_error ''settlement builder fee'' e)
      | Inr builderFee \<Rightarrow>
      if \<not> dec_equal totalFee (f_total_fee f) \<or> \<not> dec_equal builderFee (f_builder_fee f)
      then Some (ErrText ''settlement evidence fees do not match the fill'')
      else if se_builder_code ev = settlementZeroBytes32 then
        (if se_builder_fee_source ev \<noteq> SettlementEvidenceZeroBuilder \<or> \<not> dec_equal builderFee ''0''
         then Some (ErrText ''zero builder evidence must prove a zero builder fee'') else None)
      else if se_builder_fee_source ev = []
      then Some (ErrText ''non-zero builder evidence requires an authoritative allocation source'')
      else None)"

definition evidence_validate_against :: "settlement_evidence \<Rightarrow> fill \<Rightarrow> err" where
  "evidence_validate_against ev0 f0 =
     (let ev = evidence_normalize ev0; f = fill_normalize f0 in
      if se_schema_version ev \<noteq> SettlementEvidenceSchemaV1 \<or> se_source ev \<noteq> FeeSourcePolygonV2OrderFilled
      then Some (ErrText ''settlement evidence schema or source is unsupported'')
      else if se_chain_id ev \<noteq> 137 then Some (ErrText ''settlement evidence chain_id must be 137'')
      else if \<not> canonical_fixed_hex (se_exchange_address ev) 20 \<or> \<not> canonical_fixed_hex (se_transaction_hash ev) 32 \<or>
              \<not> canonical_fixed_hex (se_block_hash ev) 32 \<or> \<not> canonical_fixed_hex (se_order_hash ev) 32 \<or>
              \<not> canonical_fixed_hex (se_maker_address ev) 20 \<or> \<not> canonical_fixed_hex (se_builder_code ev) 32
      then Some (ErrText ''settlement evidence contains a malformed address or bytes32 identity'')
      else if se_block_number ev = 0 \<or> se_confirmations ev = 0
      then Some (ErrText ''settlement evidence is not finalized'')
      else if se_transaction_hash ev \<noteq> to_lower (f_transaction_hash f) \<or> se_order_hash ev \<noteq> to_lower (f_venue_order_id f) \<or>
              se_token_id ev \<noteq> f_token_id f \<or> se_side ev \<noteq> f_side f \<or> se_source ev \<noteq> f_fee_source f
      then Some (ErrText ''settlement evidence does not match the fill identity'')
      else if se_collateral_decimals ev \<noteq> 6 \<or> se_outcome_token_decimals ev \<noteq> 6
      then Some (ErrText ''settlement evidence must use six-decimal pUSD and outcome-token units'')
      else
      case evidence_base_unit_decimal (se_maker_amount_base_units ev) (se_collateral_decimals ev) of
        Inl e \<Rightarrow> Some (wrap_error ''settlement maker amount'' e)
      | Inr makerAmount \<Rightarrow>
      (case evidence_base_unit_decimal (se_taker_amount_base_units ev) (se_outcome_token_decimals ev) of
        Inl e \<Rightarrow> Some (wrap_error ''settlement taker amount'' e)
      | Inr takerAmount \<Rightarrow>
      if f_side f \<noteq> SideBuy \<and> f_side f \<noteq> SideSell then Some (ErrText ''settlement evidence side is invalid'')
      else
        (let (shares, gross) = (if f_side f = SideBuy then (takerAmount, makerAmount) else (makerAmount, takerAmount)) in
         if \<not> dec_equal shares (f_shares f) \<or> \<not> dec_equal gross (f_gross_notional f)
         then Some (ErrText ''settlement evidence amounts do not match the fill'')
         else case evidence_validate_gross ev f of
           Some e \<Rightarrow> Some e
         | None \<Rightarrow> evidence_validate_fees ev f)))"

fun first_negative :: "(string \<times> decimal) list \<Rightarrow> err" where
  "first_negative [] = None"
| "first_negative ((name, value) # rest) =
     (if negative_or_invalid value then Some (ErrText (name @ '' must be a non-negative decimal'')) else first_negative rest)"

definition accounting_amounts :: "fill \<Rightarrow> (string \<times> decimal) list" where
  "accounting_amounts f =
     [(''gross_notional'', f_gross_notional f), (''platform_fee_rate'', f_platform_fee_rate f),
      (''fee_exponent'', f_fee_exponent f), (''platform_fee'', f_platform_fee f),
      (''builder_fee_rate_bps'', f_builder_fee_rate_bps f), (''builder_fee'', f_builder_fee f),
      (''total_fee'', f_total_fee f)]"

definition fill_validate_evidence :: "fill \<Rightarrow> err" where
  "fill_validate_evidence f =
     (if f_fee_source f = FeeSourcePolygonV2OrderFilled then
        (case f_settlement_evidence f of
           None \<Rightarrow> Some (ErrText ''Polygon V2 fill requires durable settlement evidence'')
         | Some ev \<Rightarrow> map_option (wrap_error ''settlement evidence'') (evidence_validate_against ev f))
      else if f_settlement_evidence f \<noteq> None
      then Some (ErrText ''settlement evidence is only supported for authoritative Polygon V2 fills'')
      else if dec_value (f_shares f) * dec_value (f_price f) \<noteq> dec_value (f_gross_notional f)
      then Some (ErrText ''gross_notional must equal shares multiplied by price'')
      else None)"

definition fill_validate_accounting :: "fill \<Rightarrow> err" where
  "fill_validate_accounting f =
     (case fill_validate f of
        Some e \<Rightarrow> Some e
      | None \<Rightarrow>
      if trim_space (f_key f) = [] then Some (ErrText ''fill_key is required at the ledger boundary'')
      else if trim_space (f_fee_source f) = [] then Some (ErrText ''fee_source is required even when total_fee is zero'')
      else case first_negative (accounting_amounts f) of
        Some e \<Rightarrow> Some e
      | None \<Rightarrow>
      if isl (dec_sign (f_net_cash_delta f)) then Some (ErrText ''net_cash_delta must be a decimal'')
      else if \<not> rat_is_int (dec_value (f_fee_exponent f)) then Some (ErrText ''fee_exponent must be an integer'')
      else case fill_validate_evidence f of
        Some e \<Rightarrow> Some e
      | None \<Rightarrow>
        (let gross = dec_value (f_gross_notional f); totalFee = dec_value (f_total_fee f);
             wantNet = (if f_side f = SideBuy then - (gross + totalFee) else gross - totalFee) in
         if dec_value (f_platform_fee f) + dec_value (f_builder_fee f) \<noteq> totalFee
         then Some (ErrText ''total_fee must equal platform_fee plus builder_fee'')
         else if wantNet \<noteq> dec_value (f_net_cash_delta f)
         then Some (ErrText ''net_cash_delta is inconsistent with side, gross_notional, and fees'')
         else None))"

text \<open>A ledger application; the position projection it may carry is not part of the model.\<close>

record fill_application =
  fa_fill :: fill
  fa_order :: order
  fa_applied :: bool
  fa_duplicate :: bool

record fill_sync_result =
  sr_order_id :: string
  sr_observed :: int
  sr_applied :: int
  sr_duplicates :: int
  sr_applications :: "fill_application list"


section \<open>Base units\<close>

lemma trim_right_char_snoc: "x \<noteq> c \<Longrightarrow> trim_right_char c (xs @ [x]) = xs @ [x]" "trim_right_char c (xs @ [c]) = trim_right_char c xs"
  by (simp_all add: trim_right_char_def)

lemma trim_right_char_append: "trim_right_char c ys \<noteq> [] \<Longrightarrow> trim_right_char c (xs @ ys) = xs @ trim_right_char c ys"
  by (simp add: trim_right_char_def dropWhile_append1 dropWhile_append split: if_splits)
     (metis dropWhile_append1 dropWhile_eq_Nil_conv rev_append rev_rev_ident)

lemma trim_right_char_append_Nil: "trim_right_char c ys = [] \<Longrightarrow> trim_right_char c (xs @ ys) = trim_right_char c xs"
  by (simp add: trim_right_char_def) (subst dropWhile_append2, auto)

lemma trim_point:
  assumes "list_all is_digit i" "i \<noteq> []" "list_all is_digit g"
  shows "trim_right_char (CHR ''.'') (trim_right_char (CHR ''0'') (i @ ''.'' @ g)) =
    render_parts (False, i, trim_right_char (CHR ''0'') g)"
proof -
  let ?f = "trim_right_char (CHR ''0'') g"
  have last: "xs \<noteq> [] \<Longrightarrow> list_all is_digit xs \<Longrightarrow> trim_right_char (CHR ''.'') (ys @ xs) = ys @ xs" for xs ys
    by (cases xs rule: rev_cases) (auto simp: trim_right_char_def)
  show ?thesis
  proof (cases "?f = []")
    case True
    have "trim_right_char (CHR ''0'') (i @ ''.'' @ g) = i @ ''.''"
      using trim_right_char_append_Nil [OF True, of "i @ ''.''"] trim_right_char_snoc(1) [of "CHR ''.''" "CHR ''0''" i] by simp
    then show ?thesis
      using True last [OF assms(2,1), of "[]"] assms(2) by (simp add: trim_right_char_snoc render_parts_def)
  next
    case False
    have "trim_right_char (CHR ''0'') (i @ ''.'' @ g) = (i @ ''.'') @ ?f"
      using trim_right_char_append [OF False, of "i @ ''.''"] by simp
    then show ?thesis
      using False last [OF False list_all_trim(2) [OF assms(3)], of "i @ ''.''"] assms(2) by (simp add: render_parts_def)
  qed
qed

lemma base_unit_value:
  assumes "evidence_base_unit_decimal raw k = Inr d" "0 < k" "k \<le> 1000000"
  shows "dec_rat d = Inr (of_nat (digits_val 0 raw) / 10 ^ k)"
proof -
  let ?t = "pad_zeros (Suc k) raw"
  have raw: "canonical_uint256 raw" using assms(1) by (auto simp: evidence_base_unit_decimal_def split: if_splits)
  then have t: "list_all is_digit ?t" "length ?t \<ge> Suc k"
    by (simp_all add: canonical_uint256_def pad_zeros_digits length_pad_zeros)
  let ?i = "take (length ?t - k) ?t" and ?g = "drop (length ?t - k) ?t"
  have ig: "list_all is_digit ?i" "?i \<noteq> []" "list_all is_digit ?g"
    using t by (auto simp: list_all_iff dest: in_set_takeD in_set_dropD)
  let ?r = "render_parts (False, ?i, trim_right_char (CHR ''0'') ?g)"
  have "?r \<noteq> []" using ig(2) by (simp add: render_parts_def)
  then have "parse_decimal ?r = Inr d"
    using assms(1,2) raw trim_point [OF ig] by (simp add: evidence_base_unit_decimal_def Let_def)
  then have "d = trim_space ?r" by (auto simp: parse_decimal_def Let_def split: sum.splits)
  then show ?thesis using split_digits_plain(2) [OF assms(3) t] by (simp add: digits_val_pad)
qed


section \<open>What a valid fill satisfies\<close>

lemma dec_value_Inr [simp]: "dec_rat d = Inr r \<Longrightarrow> dec_value d = r"
  by (simp add: dec_value_def)

lemma dec_equal_value:
  assumes "dec_equal d e" "dec_rat d = Inr r" shows "dec_rat e = Inr r"
  using assms by (auto simp: dec_equal_iff dec_rat_empty)

lemma fill_validate_amounts:
  assumes "fill_validate f = None"
  shows "\<exists>s p. dec_rat (f_shares f) = Inr s \<and> 0 < s \<and> dec_rat (f_price f) = Inr p \<and> 0 < p \<and> p < 1"
proof -
  have one: "dec_rat ''1'' = Inr 1" by code_simp
  from assms have "\<not> cmp_fails (dec_sign (f_shares f)) (\<lambda>k. k \<le> 0)" "\<not> cmp_fails (dec_sign (f_price f)) (\<lambda>k. k \<le> 0)"
    "\<not> cmp_fails (dec_compare (f_price f) ''1'') (\<lambda>k. k \<ge> 0)"
    by (auto simp: fill_validate_def Let_def fill_normalize_def split: if_splits)
  then show ?thesis by (auto simp: cmp_fails_False dec_sign_Inr dec_compare_Inr one)
qed

lemma accounting_amounts_valid:
  assumes "first_negative (accounting_amounts f) = None"
  shows "\<not> negative_or_invalid (f_gross_notional f)" "\<not> negative_or_invalid (f_platform_fee_rate f)"
    "\<not> negative_or_invalid (f_fee_exponent f)" "\<not> negative_or_invalid (f_platform_fee f)"
    "\<not> negative_or_invalid (f_builder_fee_rate_bps f)" "\<not> negative_or_invalid (f_builder_fee f)"
    "\<not> negative_or_invalid (f_total_fee f)"
  using assms by (simp_all add: accounting_amounts_def del: not_None_eq split: if_splits)

lemma nonnegative_value: "\<not> negative_or_invalid d \<longleftrightarrow> (\<exists>r. dec_rat d = Inr r \<and> 0 \<le> r)"
  by (auto simp: negative_or_invalid_def dec_sign_def split: sum.splits)

lemma fill_accounting_cases:
  assumes "fill_validate_accounting f = None"
  shows "fill_validate f = None" "first_negative (accounting_amounts f) = None" "fill_validate_evidence f = None"
    "\<not> isl (dec_rat (f_net_cash_delta f))"
    "dec_value (f_platform_fee f) + dec_value (f_builder_fee f) = dec_value (f_total_fee f)"
    "dec_value (f_net_cash_delta f) = (if f_side f = SideBuy
       then - (dec_value (f_gross_notional f) + dec_value (f_total_fee f))
       else dec_value (f_gross_notional f) - dec_value (f_total_fee f))"
  using assms
  by (auto simp: fill_validate_accounting_def Let_def dec_sign_def split: option.splits if_splits sum.splits)

lemma settlement_gross_bound:
  assumes "validate_settlement_event_gross s p g t k = None"
  shows "\<bar>dec_value s * dec_value p - dec_value g\<bar> \<le> dec_value s * (dec_value t / 2) + 1 / 10 ^ k"
  using assms by (simp add: validate_settlement_event_gross_def Let_def split: if_splits)

lemma legacy_gross_bound:
  assumes "validate_legacy_settlement_gross s p g k = None"
  shows "\<bar>dec_value s * dec_value p - dec_value g\<bar> < 1 / 10 ^ k"
  using assms by (auto simp: validate_legacy_settlement_gross_def dec_value_def split: if_splits sum.splits)

lemma fill_normalize_decimals [simp]:
  "f_shares (fill_normalize f) = f_shares f" "f_price (fill_normalize f) = f_price f"
  "f_gross_notional (fill_normalize f) = f_gross_notional f" "f_total_fee (fill_normalize f) = f_total_fee f"
  "f_builder_fee (fill_normalize f) = f_builder_fee f" "f_side (fill_normalize f) = to_upper (trim_space (f_side f))"
  "f_price_tick_size (fill_normalize f) = trim_space (f_price_tick_size f)"
  by (simp_all add: fill_normalize_def)

lemma evidence_amounts:
  assumes "evidence_validate_against ev f = None"
  shows "\<exists>maker taker. evidence_base_unit_decimal (trim_space (se_maker_amount_base_units ev)) 6 = Inr maker \<and>
    evidence_base_unit_decimal (trim_space (se_taker_amount_base_units ev)) 6 = Inr taker \<and>
    (if to_upper (trim_space (f_side f)) = SideBuy then dec_equal taker (f_shares f) \<and> dec_equal maker (f_gross_notional f)
     else dec_equal maker (f_shares f) \<and> dec_equal taker (f_gross_notional f)) \<and>
    evidence_validate_gross (evidence_normalize ev) (fill_normalize f) = None \<and>
    evidence_validate_fees (evidence_normalize ev) (fill_normalize f) = None \<and>
    se_collateral_decimals ev = 6"
  using assms
  by (auto simp: evidence_validate_against_def evidence_normalize_def [of ev] Let_def
      split: if_splits sum.splits option.splits prod.splits)


section \<open>Properties\<close>

text \<open>
  A fill that passes \<open>ValidateAccounting\<close> obeys the exact cash identities: shares and price are positive, the
  price is below one, every fee and the gross amount are non-negative, the total fee is the sum of its
  parts, and a normalised BUY costs gross plus fee while a SELL yields gross minus fee. Without Polygon
  evidence the gross amount is exactly shares times price.
\<close>

lemma fill_accounting_identity:
  assumes "fill_validate_accounting f = None"
  shows "\<exists>s p g pf bf tf n.
    dec_rat (f_shares f) = Inr s \<and> dec_rat (f_price f) = Inr p \<and> dec_rat (f_gross_notional f) = Inr g \<and>
    dec_rat (f_platform_fee f) = Inr pf \<and> dec_rat (f_builder_fee f) = Inr bf \<and> dec_rat (f_total_fee f) = Inr tf \<and>
    dec_rat (f_net_cash_delta f) = Inr n \<and>
    0 < s \<and> 0 < p \<and> p < 1 \<and> 0 \<le> g \<and> 0 \<le> pf \<and> 0 \<le> bf \<and> tf = pf + bf \<and>
    (f_side f = SideBuy \<longrightarrow> n = - (g + tf)) \<and> (f_side f = SideSell \<longrightarrow> n = g - tf) \<and>
    (f_fee_source f \<noteq> FeeSourcePolygonV2OrderFilled \<longrightarrow> g = s * p)"
proof -
  note c = fill_accounting_cases [OF assms]
  obtain s p where sp: "dec_rat (f_shares f) = Inr s" "dec_rat (f_price f) = Inr p" "0 < s" "0 < p" "p < 1"
    using fill_validate_amounts [OF c(1)] by blast
  note amounts = accounting_amounts_valid [OF c(2), unfolded nonnegative_value]
  obtain g where g: "dec_rat (f_gross_notional f) = Inr g" "0 \<le> g" using amounts(1) by blast
  obtain pf where pf: "dec_rat (f_platform_fee f) = Inr pf" "0 \<le> pf" using amounts(4) by blast
  obtain bf where bf: "dec_rat (f_builder_fee f) = Inr bf" "0 \<le> bf" using amounts(6) by blast
  obtain tf where tf: "dec_rat (f_total_fee f) = Inr tf" using amounts(7) by blast
  obtain n where n: "dec_rat (f_net_cash_delta f) = Inr n" using c(4) by (cases "dec_rat (f_net_cash_delta f)") auto
  have "SideSell \<noteq> SideBuy" by (simp add: order_constants)
  moreover have "f_fee_source f \<noteq> FeeSourcePolygonV2OrderFilled \<longrightarrow> g = s * p"
    using c(3) sp(1,2) g(1) by (auto simp: fill_validate_evidence_def split: if_splits)
  ultimately show ?thesis using sp g pf bf tf n c(5,6) by force
qed

definition sample_fill :: fill where
  "sample_fill =
     \<lparr>f_key = ''k'', f_venue = ''kalshi'', f_venue_fill_id = ''t1'', f_order_id = ''o1'', f_venue_order_id = ''v1'',
      f_execution_account_id = ''w1'', f_market_id = ''mk'', f_condition_id = [], f_token_id = ''tok'', f_side = ''BUY'',
      f_liquidity_role = ''TAKER'', f_status = ''CONFIRMED'', f_shares = ''10'', f_price = ''0.5'', f_price_tick_size = [],
      f_gross_notional = ''5'', f_fee_rate_bps = [], f_platform_fee_rate = ''0'', f_fee_exponent = ''1'',
      f_platform_fee = ''0.2'', f_builder_fee_rate_bps = ''0'', f_builder_fee = ''0'', f_total_fee = ''0.2'',
      f_net_cash_delta = ''-5.2'', f_transaction_hash = [], f_matched_at = 5, f_venue_updated_at = 6, f_observed_at = 7,
      f_confirmed_at = Some 7, f_applied_at = None, f_fee_source = ''KALSHI'', f_raw_payload_sha256 = [],
      f_settlement_evidence = None\<rparr>"

text \<open>
  C39. Settlement evidence pins the money to the chain: when the evidence of a BUY validates against a fill, the
  fill's shares are the taker amount and its gross the maker amount, in units of 10^-6 and without
  rounding (the other way round for a SELL); with a market tick the display price explains the gross up
  to half a tick per share plus one base unit.
\<close>

theorem settlement_evidence_exact:
  assumes "evidence_validate_against ev f = None"
  defines "amount \<equiv> \<lambda>raw. of_nat (digits_val 0 (trim_space raw)) / 10 ^ 6 :: rat"
  shows "(to_upper (trim_space (f_side f)) = SideBuy \<longrightarrow>
      dec_rat (f_shares f) = Inr (amount (se_taker_amount_base_units ev)) \<and>
      dec_rat (f_gross_notional f) = Inr (amount (se_maker_amount_base_units ev))) \<and>
    (to_upper (trim_space (f_side f)) = SideSell \<longrightarrow>
      dec_rat (f_shares f) = Inr (amount (se_maker_amount_base_units ev)) \<and>
      dec_rat (f_gross_notional f) = Inr (amount (se_taker_amount_base_units ev))) \<and>
    (\<not> dec_is_empty (f_price f) \<longrightarrow> \<not> dec_is_empty (f_price_tick_size f) \<longrightarrow>
      \<bar>dec_value (f_shares f) * dec_value (f_price f) - dec_value (f_gross_notional f)\<bar>
        \<le> dec_value (f_shares f) * (dec_value (f_price_tick_size f) / 2) + 1 / 10 ^ 6)"
proof (rule conjI [OF impI conjI [OF impI impI [OF impI]]])
  obtain maker taker where
    m: "evidence_base_unit_decimal (trim_space (se_maker_amount_base_units ev)) 6 = Inr maker"
       "evidence_base_unit_decimal (trim_space (se_taker_amount_base_units ev)) 6 = Inr taker"
    and eq: "if to_upper (trim_space (f_side f)) = SideBuy
       then dec_equal taker (f_shares f) \<and> dec_equal maker (f_gross_notional f)
       else dec_equal maker (f_shares f) \<and> dec_equal taker (f_gross_notional f)"
    and g: "evidence_validate_gross (evidence_normalize ev) (fill_normalize f) = None" "se_collateral_decimals ev = 6"
    using evidence_amounts [OF assms(1)] by blast
  have mr: "dec_rat maker = Inr (amount (se_maker_amount_base_units ev))"
    "dec_rat taker = Inr (amount (se_taker_amount_base_units ev))"
    using base_unit_value [OF m(1)] base_unit_value [OF m(2)] by (simp_all add: amount_def)
  have ne: "SideSell \<noteq> SideBuy" by (simp add: order_constants)
  show "to_upper (trim_space (f_side f)) = SideBuy \<Longrightarrow>
      dec_rat (f_shares f) = Inr (amount (se_taker_amount_base_units ev)) \<and>
      dec_rat (f_gross_notional f) = Inr (amount (se_maker_amount_base_units ev))"
    using eq mr dec_equal_value by auto
  show "to_upper (trim_space (f_side f)) = SideSell \<Longrightarrow>
      dec_rat (f_shares f) = Inr (amount (se_maker_amount_base_units ev)) \<and>
      dec_rat (f_gross_notional f) = Inr (amount (se_taker_amount_base_units ev))"
    using eq mr dec_equal_value ne by auto
  assume "\<not> dec_is_empty (f_price f)" "\<not> dec_is_empty (f_price_tick_size f)"
  then have "validate_settlement_event_gross (f_shares f) (f_price f) (f_gross_notional f) (trim_space (f_price_tick_size f)) 6 = None"
    using g by (simp add: evidence_validate_gross_def evidence_normalize_def)
  from settlement_gross_bound [OF this]
  show "\<bar>dec_value (f_shares f) * dec_value (f_price f) - dec_value (f_gross_notional f)\<bar>
        \<le> dec_value (f_shares f) * (dec_value (f_price_tick_size f) / 2) + 1 / 10 ^ 6"
    by (simp add: dec_value_def)
qed

definition chain_evidence :: settlement_evidence where
  "chain_evidence =
     \<lparr>se_schema_version = SettlementEvidenceSchemaV1, se_source = FeeSourcePolygonV2OrderFilled, se_chain_id = 137,
      se_exchange_address = ''0x'' @ replicate 40 (CHR ''a''), se_transaction_hash = ''0x'' @ replicate 64 (CHR ''b''), se_block_number = 9,
      se_block_hash = ''0x'' @ replicate 64 (CHR ''c''), se_log_index = 3, se_confirmations = 20,
      se_order_hash = ''0x'' @ replicate 64 (CHR ''d''), se_maker_address = ''0x'' @ replicate 40 (CHR ''e''), se_token_id = ''tok'',
      se_side = ''BUY'', se_maker_amount_base_units = ''5000000'', se_taker_amount_base_units = ''10000000'',
      se_total_fee_base_units = ''200000'', se_builder_code = settlementZeroBytes32, se_builder_fee_known = True,
      se_builder_fee_base_units = ''0'', se_builder_fee_source = SettlementEvidenceZeroBuilder, se_collateral_decimals = 6,
      se_outcome_token_decimals = 6\<rparr>"

definition chain_fill :: fill where
  "chain_fill = sample_fill\<lparr>f_venue := ''polymarket'', f_transaction_hash := ''0x'' @ replicate 64 (CHR ''b''),
     f_venue_order_id := ''0x'' @ replicate 64 (CHR ''d''), f_fee_source := FeeSourcePolygonV2OrderFilled, f_price_tick_size := ''0.01'',
     f_settlement_evidence := Some chain_evidence\<rparr>"

theorem settlement_evidence_exact_witness:
  "dec_rat (f_shares chain_fill) = Inr (of_nat (digits_val 0 (trim_space (se_taker_amount_base_units chain_evidence))) / 10 ^ 6) \<and>
   dec_rat (f_gross_notional chain_fill) = Inr (of_nat (digits_val 0 (trim_space (se_maker_amount_base_units chain_evidence))) / 10 ^ 6)"
proof -
  have v: "evidence_validate_against chain_evidence chain_fill = None" by code_simp
  have "to_upper (trim_space (f_side chain_fill)) = SideBuy" by code_simp
  then show ?thesis using settlement_evidence_exact [OF v] by blast
qed

text \<open>
  \<open>ValidateAccounting\<close> compares the raw side and the raw fee source although \<open>Validate\<close> accepts any spelling
  that normalises to a valid one. A fill whose side is written in lower case passes as a BUY and is then
  booked with the cash sign of a SELL; with the side in upper case the same amounts are refused. A fee
  source in lower case is accepted without the settlement evidence that the canonical spelling requires.
\<close>

lemma accounting_reads_raw_labels:
  defines "f \<equiv> sample_fill\<lparr>f_side := ''buy'', f_net_cash_delta := ''4.8''\<rparr>"
    and "g \<equiv> sample_fill\<lparr>f_fee_source := ''polygon_v2_order_filled''\<rparr>"
  shows "f_side (fill_normalize f) = SideBuy \<and> fill_validate_accounting f = None \<and>
    fill_validate_accounting (f\<lparr>f_side := SideBuy\<rparr>) \<noteq> None \<and>
    f_fee_source (fill_normalize g) = FeeSourcePolygonV2OrderFilled \<and> fill_validate_accounting g = None \<and>
    fill_validate_accounting (fill_normalize g) \<noteq> None"
  unfolding f_def g_def by (intro conjI; code_simp)

text \<open>
  CONFIRMED and FAILED are final for a fill: along any sequence of permitted status changes a fill that is
  confirmed stays confirmed and one that failed stays failed, whatever spelling the venue uses.
\<close>

lemma fill_status_final:
  assumes "fill_can_transition_to\<^sup>*\<^sup>* a b" "fill_status_terminal a"
  shows "normalize_fill_status b = normalize_fill_status a"
  using assms
proof (induction rule: rtranclp_induct)
  case (step y z)
  then have y: "normalize_fill_status y = normalize_fill_status a" by simp
  have i: "normalize_fill_status FillStatusConfirmed = FillStatusConfirmed" "normalize_fill_status FillStatusFailed = FillStatusFailed"
    by code_simp+
  have "fill_status_terminal (normalize_fill_status y)"
    using step.prems i y by (auto simp: fill_status_terminal_def)
  then show ?case using step.hyps(2) y by (auto simp: fill_can_transition_to_def Let_def split: if_splits)
qed simp

end
