(* ===== verification/Rounding.thy ===== *)
theory Rounding
  imports Fills
begin

text \<open>
  What \<open>big.Rat.FloatString\<close> prints: a base-10 decimal whose value is the rational rounded half away from zero to the
  given number of places. The fill processor and the market validation print sizes this way.
\<close>

lemma render_parts_rat:
  "list_all is_digit i \<Longrightarrow> list_all is_digit g \<Longrightarrow> length g \<le> 1000000 \<Longrightarrow> dec_rat (render_parts (neg, i, g)) = Inr (parts_value (neg, i, g))"
  using render_parts_plain [of i g neg] by (simp add: dec_rat_plain)

lemma length_show_nat: "n < 10 ^ Suc k \<Longrightarrow> length (show_nat n) \<le> Suc k"
proof (induction k arbitrary: n)
  case 0
  then show ?case by (subst show_nat.simps) simp
next
  case (Suc k)
  then show ?case by (cases "n < 10") (subst show_nat.simps, simp)+
qed

text \<open>The number of units of the last place \<open>FloatString\<close> prints for \<open>a / b\<close>, without its sign.\<close>

definition rounded_units :: "int \<Rightarrow> int \<Rightarrow> nat \<Rightarrow> int" where
  "rounded_units a b prec = (2 * (\<bar>a\<bar> * 10 ^ prec) + b) div (2 * b)"

lemma rounded_units_split:
  fixes a b :: int
  assumes b: "0 < b" and p: "p = (10 ^ prec :: int)"
  defines "r \<equiv> \<bar>a\<bar> mod b"
  shows "rounded_units a b prec = \<bar>a\<bar> div b * p + (if b \<le> 2 * (r * p mod b) then r * p div b + 1 else r * p div b)"
proof -
  let ?q = "\<bar>a\<bar> div b" and ?r1 = "r * p div b" and ?r2 = "r * p mod b"
  have "\<bar>a\<bar> = ?q * b + r" by (simp add: r_def)
  then have 1: "\<bar>a\<bar> * p = (?q * p) * b + r * p" by (metis distrib_right mult.assoc mult.commute)
  define x y where "x = ?r1" and "y = ?r2"
  have 2: "r * p = x * b + y" by (simp add: x_def y_def)
  have "2 * (\<bar>a\<bar> * p) + b = (2 * ?r2 + b) + (?q * p + ?r1) * (2 * b)"
    unfolding 1 x_def [symmetric] y_def [symmetric] unfolding 2 by (simp add: algebra_simps)
  then have "rounded_units a b prec = (2 * ?r2 + b) div (2 * b) + (?q * p + ?r1)"
    using b unfolding rounded_units_def p by (simp only: div_mult_self1 [of "2 * b"])
  moreover have "(2 * ?r2 + b) div (2 * b) = (if b \<le> 2 * ?r2 then 1 else 0)"
    using b pos_mod_bound [OF b, of "r * p"] pos_mod_sign [OF b, of "r * p"]
    by (cases "b \<le> 2 * ?r2") (auto intro!: div_pos_pos_trivial int_div_pos_eq [where r = "2 * ?r2 - b"])
  ultimately show ?thesis by (cases "b \<le> 2 * ?r2") simp_all
qed

text \<open>The shape of \<open>FloatString\<close>, and the number its digits spell.\<close>

lemma float_string_shape:
  obtains i g where "list_all is_digit i" "i \<noteq> []" "list_all is_digit g" "length g = prec"
    "rat_float_string v prec = (if v < 0 then ''-'' else []) @ i @ (if prec > 0 then ''.'' @ g else [])"
    "int (digits_val 0 (i @ g)) = rounded_units (fst (quotient_of v)) (snd (quotient_of v)) prec"
proof -
  obtain a b where ab: "quotient_of v = (a, b)" by force
  then have b: "0 < b" by (rule quotient_of_denom_pos)
  have neg: "v < 0 \<longleftrightarrow> a < 0" using quotient_of_div [OF ab] b by (simp add: divide_less_0_iff)
  show ?thesis
  proof (cases "b = 1")
    case True
    have "digits_val 0 (show_nat (nat \<bar>a\<bar>) @ replicate prec (CHR ''0'')) = nat \<bar>a\<bar> * 10 ^ prec"
      using digits_val_padding [of 0 "show_nat (nat \<bar>a\<bar>)" "[]" prec] by (simp add: show_nat_value)
    then show ?thesis using True
      using that [of "show_nat (nat \<bar>a\<bar>)" "replicate prec (CHR ''0'')"] show_nat_digits
      by (simp add: rat_float_string_def ab show_int_def list_all_iff abs_if neg rounded_units_def)
  next
    case False
    let ?r = "\<bar>a\<bar> mod b" and ?p = "10 ^ prec :: int"
    let ?r1 = "?r * ?p div b" and ?r2 = "?r * ?p mod b"
    let ?up = "b \<le> ?r2 + ?r2"
    let ?r1' = "if ?up then ?r1 + 1 else ?r1"
    let ?q' = "if ?up \<and> ?p \<le> ?r1' then \<bar>a\<bar> div b + 1 else \<bar>a\<bar> div b"
    let ?r1'' = "if ?up \<and> ?p \<le> ?r1' then ?r1' - ?p else ?r1'"
    have lt: "?r * ?p < b * ?p" using b by (intro mult_strict_right_mono) auto
    have "?r1 * b \<le> ?r * ?p" using b by (simp add: minus_mod_eq_div_mult [symmetric])
    from le_less_trans [OF this lt] have "?r1 * b < ?p * b" by (simp only: mult.commute)
    then have r1: "0 \<le> ?r1" "?r1 < ?p" using b by (simp_all add: pos_imp_zdiv_nonneg_iff)
    define m where "m = ?r1''"
    have m: "0 \<le> m" "m < ?p" using r1 by (auto simp: m_def not_le)
    then have "nat m < 10 ^ prec" by (simp add: nat_less_iff)
    then have len: "prec > 0 \<Longrightarrow> length (show_nat (nat m)) \<le> prec"
      using length_show_nat [of "nat m" "prec - 1"] by (cases prec) auto
    define q where "q = ?q'"
    have q: "0 \<le> q" using b by (simp add: q_def pos_imp_zdiv_nonneg_iff)
    have total: "q * ?p + m = rounded_units a b prec"
      unfolding q_def m_def rounded_units_split [OF b refl, of a] by (simp add: algebra_simps)
    have shape: "rat_float_string v prec = (if v < 0 then ''-'' else []) @ show_nat (nat q) @
        (if prec > 0 then ''.'' @ pad_zeros prec (show_nat (nat m)) else [])"
    proof (cases "?up \<and> ?p \<le> ?r1'")
      case True
      show ?thesis unfolding m_def q_def rat_float_string_def ab neg prod.case if_not_P [OF False] Let_def if_P [OF True] ..
    next
      case C: False
      show ?thesis unfolding m_def q_def rat_float_string_def ab neg prod.case if_not_P [OF False] Let_def if_not_P [OF C] ..
    qed
    let ?g = "if prec > 0 then pad_zeros prec (show_nat (nat m)) else []"
    have g: "list_all is_digit ?g" "length ?g = prec" "int (digits_val 0 ?g) = m"
      using len pad_zeros_digits [OF show_nat_digits, of prec] m by (auto simp: length_pad_zeros digits_val_pad show_nat_value)
    have "int (digits_val 0 (show_nat (nat q) @ ?g)) = rounded_units a b prec"
      using g q total by (simp only: digits_val_append digits_val_acc [of "digits_val 0 (show_nat (nat q))"]) (simp add: show_nat_value)
    then show ?thesis using that [of "show_nat (nat q)" ?g] shape g show_nat_digits ab by auto
  qed
qed

lemma rounded_units_floor:
  assumes "quotient_of v = (a, b)" "0 \<le> v"
  shows "rounded_units a b prec = \<lfloor>v * 10 ^ prec + 1 / 2\<rfloor>"
proof -
  have b: "0 < b" and v: "v = of_int a / of_int b" using assms(1) by (simp_all add: quotient_of_denom_pos quotient_of_div)
  then have "0 \<le> a" using assms(2) by (simp add: zero_le_divide_iff)
  have "\<lfloor>of_int (2 * (\<bar>a\<bar> * 10 ^ prec) + b) / of_int (2 * b) :: rat\<rfloor> = rounded_units a b prec"
    unfolding rounded_units_def by (rule floor_divide_of_int_eq)
  moreover have "of_int (2 * (\<bar>a\<bar> * 10 ^ prec) + b) / of_int (2 * b) = v * 10 ^ prec + (1 / 2 :: rat)"
    using b \<open>0 \<le> a\<close> by (simp add: v field_simps)
  ultimately show ?thesis by simp
qed

theorem float_string_value:
  assumes v: "0 \<le> v" and p: "prec \<le> 1000000"
  shows "plain_decimal (rat_float_string v prec)"
    "dec_rat (rat_float_string v prec) = Inr (of_int \<lfloor>v * 10 ^ prec + 1 / 2\<rfloor> / 10 ^ prec)"
proof -
  obtain i g where s: "list_all is_digit i" "i \<noteq> []" "list_all is_digit g" "length g = prec"
    "rat_float_string v prec = (if v < 0 then ''-'' else []) @ i @ (if prec > 0 then ''.'' @ g else [])"
    "int (digits_val 0 (i @ g)) = rounded_units (fst (quotient_of v)) (snd (quotient_of v)) prec" by (rule float_string_shape)
  have t: "rat_float_string v prec = render_parts (False, i, g)" using s(2,4,5) v by (auto simp: render_parts_def)
  have u: "int (digits_val 0 (i @ g)) = \<lfloor>v * 10 ^ prec + 1 / 2\<rfloor>" unfolding s(6) by (rule rounded_units_floor) (use v in auto)
  have "length g \<le> 1000000" using s(4) p by simp
  note r = render_parts_plain(1) [OF s(1,3) this, of False] render_parts_rat [OF s(1,3) this, of False]
  show "plain_decimal (rat_float_string v prec)" using r(1) by (simp add: t)
  have "parts_value (False, i, g) = of_int (int (digits_val 0 (i @ g))) / 10 ^ prec" using s(4) by (simp add: parts_value_def)
  then show "dec_rat (rat_float_string v prec) = Inr (of_int \<lfloor>v * 10 ^ prec + 1 / 2\<rfloor> / 10 ^ prec)" using r(2) u by (simp add: t)
qed

end
