(* ===== verification/Ports.thy ===== *)
theory Ports
  imports Repository Fills
begin

text \<open>
  The vocabulary of \<open>src/internal/port\<close> and \<open>src/internal/domain/reservation.go\<close> that the services share: venue
  orders, prepared placements, asset reservations, the account scope of \<open>src/internal/service/accountscope\<close>
  and the reservation turns of \<open>reservation_turn.go\<close>, together with the paper adapters of
  \<open>src/internal/adapter/paper\<close>. The locale \<open>reservation_manager\<close> is the contract of the
  \<open>AssetReservationManager\<close> port that the paper manager fulfils.
\<close>

section \<open>Venue orders\<close>

datatype venue_order_state =
    VenueOrderAcknowledged | VenueOrderLive | VenueOrderPartiallyFilled | VenueOrderFilled
  | VenueOrderCancelled | VenueOrderRejected | VenueOrderUnknown | VenueOrderOther string

record venue_order =
  vo_id :: string
  vo_state :: venue_order_state
  vo_raw_status :: string
  vo_filled_size :: decimal
  vo_average_fill_price :: decimal
  vo_observed_at :: gtime
  vo_trade_ids :: "string list"

definition zero_venue_order :: venue_order where
  "zero_venue_order =
     \<lparr>vo_id = [], vo_state = VenueOrderOther [], vo_raw_status = [], vo_filled_size = [],
      vo_average_fill_price = [], vo_observed_at = 0, vo_trade_ids = []\<rparr>"

text \<open>A prepared placement: its expected venue id, and the expiry when it is an \<open>ExpiringPreparedPlacement\<close>.\<close>

record prepared_placement =
  pp_expected_venue_order_id :: string
  pp_venue_expires_at :: "gtime option"

definition prepared_venue_expiry :: "prepared_placement \<Rightarrow> gtime option" where
  "prepared_venue_expiry p =
     (case pp_venue_expires_at p of None \<Rightarrow> None | Some t \<Rightarrow> if is_zero_time t then None else Some t)"


section \<open>Asset reservations\<close>

datatype reservation_status =
  ReservationStatusActive | ReservationStatusReleased | ReservationStatusSettled | ReservationStatusReconciliationRequired

record asset_reservation =
  rv_order_id :: string
  rv_client_order_id :: string
  rv_execution_account_id :: string
  rv_strategy_id :: string
  rv_market_id :: string
  rv_token_id :: string
  rv_target_lot_id :: string
  rv_side :: side
  rv_requested_shares :: decimal
  rv_reserve_unit_price :: decimal
  rv_initial_reserved_balance :: decimal
  rv_remaining_reserved_balance :: decimal
  rv_initial_reserved_shares :: decimal
  rv_remaining_reserved_shares :: decimal
  rv_settled_shares :: decimal
  rv_settled_notional :: decimal
  rv_settled_fees :: decimal
  rv_risk_policy_id :: string
  rv_risk_policy_version :: int
  rv_risk_day :: string
  rv_daily_risk_notional :: decimal
  rv_status :: reservation_status
  rv_uncertain_reason :: string
  rv_created_at :: gtime
  rv_updated_at :: gtime
  rv_released_at :: "gtime option"
  rv_revision :: int


section \<open>The account scope\<close>

record account_scope =
  sc_active :: "string list"
  sc_managed :: "string list"

fun scope_normalize_loop :: "string \<Rightarrow> int \<Rightarrow> string list \<Rightarrow> string list \<Rightarrow> go_error + string list" where
  "scope_normalize_loop label index acc [] = Inr acc"
| "scope_normalize_loop label index acc (raw # rest) =
     (let accountID = trim_space raw in
      if accountID = [] then Inl (ErrText (label @ '' execution account '' @ show_int index @ '' is empty''))
      else if List.member acc accountID
      then Inl (ErrText (label @ '' execution account '' @ quoted accountID @ '' is duplicated''))
      else scope_normalize_loop label (index + 1) (acc @ [accountID]) rest)"

definition scope_normalize :: "string \<Rightarrow> string list \<Rightarrow> go_error + string list" where
  "scope_normalize label accountIDs =
     (if accountIDs = [] then Inl (ErrText (''at least one '' @ label @ '' execution account is required''))
      else scope_normalize_loop label 0 [] accountIDs)"

definition scope_new :: "string list \<Rightarrow> string list \<Rightarrow> go_error + account_scope" where
  "scope_new activeAccountIDs managedAccountIDs =
     and_then (scope_normalize ''managed'' managedAccountIDs) (\<lambda>managed.
     and_then (scope_normalize ''active'' activeAccountIDs) (\<lambda>active.
       case filter (\<lambda>a. \<not> List.member managed a) active of
         a # _ \<Rightarrow> Inl (ErrText (''active execution account '' @ quoted a @ '' is not managed by this process''))
       | [] \<Rightarrow> Inr \<lparr>sc_active = active, sc_managed = managed\<rparr>))"

definition scope_is_active :: "account_scope \<Rightarrow> string \<Rightarrow> bool" where
  "scope_is_active sc accountID = List.member (sc_active sc) (trim_space accountID)"

definition scope_is_managed :: "account_scope \<Rightarrow> string \<Rightarrow> bool" where
  "scope_is_managed sc accountID = List.member (sc_managed sc) (trim_space accountID)"


section \<open>Reservation turns\<close>

text \<open>
  The channels of a \<open>ReservationSequence\<close>: position \<open>i\<close> is closed once its turn has been released.
  \<open>Wait\<close> returns at once when the context has ended or the previous turn is released; otherwise it blocks,
  which is the result \<open>None\<close>.
\<close>

record reservation_sequence =
  rs_done :: "bool list"

record reservation_turn =
  rt_index :: nat


definition turn_wait :: "reservation_sequence \<Rightarrow> reservation_turn \<Rightarrow> err \<Rightarrow> err option" where
  "turn_wait sq turn ctxErr =
     (if ctxErr \<noteq> None then Some ctxErr
      else if rt_index turn = 0 then Some None
      else if rs_done sq ! (rt_index turn - 1) then Some None
      else None)"

definition turn_release :: "reservation_turn \<Rightarrow> reservation_sequence \<Rightarrow> reservation_sequence" where
  "turn_release turn sq = sq\<lparr>rs_done := (rs_done sq)[rt_index turn := True]\<rparr>"


section \<open>The paper adapters\<close>

type_synonym paper_reservations = "(string \<times> asset_reservation) list"

definition paper_reservation_get :: "paper_reservations \<Rightarrow> string \<Rightarrow> asset_reservation option" where
  "paper_reservation_get rs orderID = map_of rs orderID"

definition paper_new_reservation :: "gtime \<Rightarrow> order \<Rightarrow> asset_reservation" where
  "paper_new_reservation now order =
     (let i = o_intent order; buy = (oi_side i = SideBuy) in
      \<lparr>rv_order_id = o_id order, rv_client_order_id = oi_client_order_id i,
       rv_execution_account_id = oi_execution_account_id i, rv_strategy_id = oi_strategy_id i,
       rv_market_id = oi_market_id i, rv_token_id = oi_token_id i, rv_target_lot_id = [], rv_side = oi_side i,
       rv_requested_shares = oi_size i,
       rv_reserve_unit_price = (if dec_is_empty (oi_worst_price i) then oi_price i else oi_worst_price i),
       rv_initial_reserved_balance = ''0'', rv_remaining_reserved_balance = ''0'',
       rv_initial_reserved_shares = (if buy then ''0'' else oi_size i),
       rv_remaining_reserved_shares = (if buy then ''0'' else oi_size i),
       rv_settled_shares = ''0'', rv_settled_notional = ''0'', rv_settled_fees = ''0'',
       rv_risk_policy_id = [], rv_risk_policy_version = 0, rv_risk_day = [], rv_daily_risk_notional = [],
       rv_status = ReservationStatusActive, rv_uncertain_reason = [], rv_created_at = now, rv_updated_at = now,
       rv_released_at = None, rv_revision = 1\<rparr>)"

definition paper_reserve :: "gtime \<Rightarrow> order \<Rightarrow> paper_reservations \<Rightarrow> (go_error + asset_reservation) \<times> paper_reservations" where
  "paper_reserve now order rs =
     (case map_of rs (o_id order) of
        Some existing \<Rightarrow>
          if rv_client_order_id existing \<noteq> oi_client_order_id (o_intent order) \<or>
             rv_execution_account_id existing \<noteq> oi_execution_account_id (o_intent order)
          then (Inl (ErrSentinel ErrReservationConflict), rs) else (Inr existing, rs)
      | None \<Rightarrow>
          (let reservation = paper_new_reservation now order
           in (Inr reservation, AList.update (o_id order) reservation rs)))"

definition paper_release :: "reservation_status \<Rightarrow> asset_reservation \<Rightarrow> asset_reservation" where
  "paper_release status r = r\<lparr>rv_status := status, rv_remaining_reserved_balance := ''0'',
     rv_remaining_reserved_shares := ''0'', rv_released_at := Some (rv_updated_at r)\<rparr>"

definition paper_reconcile :: "gtime \<Rightarrow> order \<Rightarrow> paper_reservations \<Rightarrow> (go_error + asset_reservation) \<times> paper_reservations" where
  "paper_reconcile now order rs =
     (case map_of rs (o_id order) of
        None \<Rightarrow> (Inl (ErrSentinel ErrReservationNotFound), rs)
      | Some r \<Rightarrow>
          (let r1 = r\<lparr>rv_settled_shares := zero_if_empty (o_filled_size order), rv_updated_at := now,
                      rv_revision := rv_revision r + 1\<rparr>;
               r2 = (if o_status order = OrderStatusFilled then paper_release ReservationStatusSettled r1
                     else if o_status order = OrderStatusCancelled \<or> o_status order = OrderStatusRejected
                     then paper_release ReservationStatusReleased r1
                     else r1\<lparr>rv_status := ReservationStatusActive\<rparr>)
           in (Inr r2, AList.update (o_id order) r2 rs)))"

definition paper_mark_uncertain :: "gtime \<Rightarrow> order \<Rightarrow> string \<Rightarrow> paper_reservations \<Rightarrow> err \<times> paper_reservations" where
  "paper_mark_uncertain now order reason rs =
     (case map_of rs (o_id order) of
        None \<Rightarrow> (Some (ErrWrap (sentinel_text ErrReservationNotFound @ '': '' @ o_id order) [ErrSentinel ErrReservationNotFound]), rs)
      | Some r \<Rightarrow>
          if rv_status r = ReservationStatusReleased \<or> rv_status r = ReservationStatusSettled then (None, rs)
          else (None, AList.update (o_id order)
                  (r\<lparr>rv_status := ReservationStatusReconciliationRequired, rv_uncertain_reason := reason,
                     rv_updated_at := now, rv_revision := rv_revision r + 1\<rparr>) rs))"

type_synonym paper_venue_orders = "(string \<times> venue_order) list"

definition paper_place :: "gtime \<Rightarrow> order \<Rightarrow> paper_venue_orders \<Rightarrow> (venue_order \<times> err) \<times> paper_venue_orders" where
  "paper_place now order vs =
     (let v = \<lparr>vo_id = ''paper-'' @ o_id order, vo_state = VenueOrderLive, vo_raw_status = ''paper-live'',
               vo_filled_size = ''0'', vo_average_fill_price = [], vo_observed_at = now, vo_trade_ids = []\<rparr>
      in ((v, None), AList.update (vo_id v) v vs))"

definition paper_restore :: "gtime \<Rightarrow> order \<Rightarrow> venue_order \<times> err" where
  "paper_restore now order =
     (let expectedID = ''paper-'' @ o_id order in
      if o_id order = [] \<or> o_venue_order_id order \<noteq> expectedID
      then (zero_venue_order, Some (ErrText (''paper venue order '' @ quoted (o_venue_order_id order) @ '' not found'')))
      else
        (let (state, rawStatus) =
           (if o_status order = OrderStatusFilled then (VenueOrderFilled, ''paper-filled'')
            else if o_status order = OrderStatusPartiallyFilled then (VenueOrderPartiallyFilled, ''paper-partially-filled'')
            else if o_status order = OrderStatusCancelled then (VenueOrderCancelled, ''paper-cancelled'')
            else if o_status order = OrderStatusRejected then (VenueOrderRejected, ''paper-rejected'')
            else (VenueOrderLive, ''paper-live''))
         in (\<lparr>vo_id = expectedID, vo_state = state, vo_raw_status = rawStatus, vo_filled_size = o_filled_size order,
              vo_average_fill_price = o_average_fill_price order, vo_observed_at = now, vo_trade_ids = []\<rparr>, None)))"

definition paper_cancel :: "gtime \<Rightarrow> order \<Rightarrow> paper_venue_orders \<Rightarrow> (venue_order \<times> err) \<times> paper_venue_orders" where
  "paper_cancel now order vs =
     (case (case map_of vs (o_venue_order_id order) of Some v \<Rightarrow> (v, None) | None \<Rightarrow> paper_restore now order) of
        (v, Some e) \<Rightarrow> ((zero_venue_order, Some e), vs)
      | (v, None) \<Rightarrow>
          (let v1 = (if vo_state v \<noteq> VenueOrderFilled
                     then v\<lparr>vo_state := VenueOrderCancelled, vo_raw_status := ''paper-cancelled''\<rparr> else v);
               v2 = v1\<lparr>vo_observed_at := now\<rparr>
           in ((v2, None), AList.update (vo_id v2) v2 vs)))"

definition paper_venue_get :: "gtime \<Rightarrow> order \<Rightarrow> paper_venue_orders \<Rightarrow> venue_order \<times> err" where
  "paper_venue_get now order vs =
     (case map_of vs (o_venue_order_id order) of Some v \<Rightarrow> (v, None) | None \<Rightarrow> paper_restore now order)"

definition paper_market_validation :: "gtime \<Rightarrow> order_intent \<Rightarrow> market_validation" where
  "paper_market_validation now intent =
     \<lparr>mv_mode = ''PAPER_BYPASS'', mv_validated_at = now, mv_market_observed_at = 0, mv_strategy_snapshot_at = 0,
      mv_latest_book_source_at = 0, mv_latest_book_observed_at = 0, mv_outcome_index = 0, mv_outcome_name = [],
      mv_token_id = [], mv_neg_risk = False, mv_tick_size = [], mv_min_order_size = [], mv_best_bid = [],
      mv_best_ask = [], mv_worst_price = oi_worst_price intent, mv_book_status = [], mv_executable_size = [],
      mv_buy_fee_reserve = None\<rparr>"


section \<open>The contract of a reservation manager\<close>

text \<open>
  What execution relies on: reserving is idempotent per order, an uncertain outcome never frees anything, and
  assets are freed only by reconciling an order that is FILLED, CANCELLED or REJECTED.
\<close>

definition reservation_closed :: "asset_reservation \<Rightarrow> bool" where
  "reservation_closed r \<longleftrightarrow> rv_status r = ReservationStatusReleased \<or> rv_status r = ReservationStatusSettled"

locale reservation_manager =
  fixes lookup :: "'s \<Rightarrow> string \<Rightarrow> asset_reservation option"
    and reserve :: "order \<Rightarrow> 's \<Rightarrow> (go_error + asset_reservation) \<times> 's"
    and reconcile :: "order \<Rightarrow> 's \<Rightarrow> (go_error + asset_reservation) \<times> 's"
    and mark_uncertain :: "order \<Rightarrow> string \<Rightarrow> 's \<Rightarrow> err \<times> 's"
  assumes reserve_stored: "reserve order s = (Inr r, s') \<Longrightarrow> lookup s' (o_id order) = Some r"
    and reserve_again: "reserve order s = (Inr r, s') \<Longrightarrow> reserve order s' = (Inr r, s')"
    and reserve_frame: "reserve order s = (x, s') \<Longrightarrow> lookup s k = Some r \<Longrightarrow> lookup s' k = Some r"
    and reconcile_frame: "reconcile order s = (x, s') \<Longrightarrow> k \<noteq> o_id order \<Longrightarrow> lookup s' k = lookup s k"
    and reconcile_open: "reconcile order s = (Inr r, s') \<Longrightarrow>
      o_status order \<notin> {OrderStatusFilled, OrderStatusCancelled, OrderStatusRejected} \<Longrightarrow>
      \<exists>r0. lookup s (o_id order) = Some r0 \<and> lookup s' (o_id order) = Some r \<and> \<not> reservation_closed r \<and>
        rv_remaining_reserved_shares r = rv_remaining_reserved_shares r0 \<and>
        rv_remaining_reserved_balance r = rv_remaining_reserved_balance r0"
    and reconcile_error: "reconcile order s = (Inl e, s') \<Longrightarrow> s' = s"
    and mark_frame: "mark_uncertain order reason s = (y, s') \<Longrightarrow> k \<noteq> o_id order \<Longrightarrow> lookup s' k = lookup s k"
    and mark_freezes: "mark_uncertain order reason s = (y, s') \<Longrightarrow> lookup s (o_id order) = Some r \<Longrightarrow>
      \<exists>r'. lookup s' (o_id order) = Some r' \<and>
        rv_remaining_reserved_shares r' = rv_remaining_reserved_shares r \<and>
        rv_remaining_reserved_balance r' = rv_remaining_reserved_balance r \<and>
        reservation_closed r' = reservation_closed r"
begin

text \<open>No sequence of uncertainty marks frees an asset or reopens a closed reservation.\<close>

fun marks :: "(order \<times> string) list \<Rightarrow> 's \<Rightarrow> 's" where
  "marks [] s = s"
| "marks ((o1, reason) # ms) s = marks ms (snd (mark_uncertain o1 reason s))"

lemma marks_keep_reserved:
  assumes "lookup s k = Some r"
  shows "\<exists>r'. lookup (marks ms s) k = Some r' \<and>
    rv_remaining_reserved_shares r' = rv_remaining_reserved_shares r \<and>
    rv_remaining_reserved_balance r' = rv_remaining_reserved_balance r \<and>
    reservation_closed r' = reservation_closed r"
  using assms
proof (induction ms s arbitrary: r rule: marks.induct)
  case (2 o1 reason ms s)
  obtain x s' where m: "mark_uncertain o1 reason s = (x, s')" by force
  have "\<exists>r1. lookup s' k = Some r1 \<and> rv_remaining_reserved_shares r1 = rv_remaining_reserved_shares r \<and>
      rv_remaining_reserved_balance r1 = rv_remaining_reserved_balance r \<and> reservation_closed r1 = reservation_closed r"
    using mark_frame [OF m, of k] mark_freezes [OF m, of r] 2(2) by (cases "k = o_id o1") auto
  then obtain r1 where r1: "lookup s' k = Some r1" "rv_remaining_reserved_shares r1 = rv_remaining_reserved_shares r"
    "rv_remaining_reserved_balance r1 = rv_remaining_reserved_balance r" "reservation_closed r1 = reservation_closed r"
    by blast
  from 2(1) [of r1] r1 m show ?case by simp
qed simp

text \<open>Closing needs a reconciliation of an order in a final status.\<close>

lemma closing_needs_final_order:
  assumes "reconcile order s = (x, s')" "lookup s k = Some r" "\<not> reservation_closed r"
    "lookup s' k = Some r'" "reservation_closed r'"
  shows "k = o_id order \<and> o_status order \<in> {OrderStatusFilled, OrderStatusCancelled, OrderStatusRejected}"
proof (cases x)
  case (Inl e)
  with assms(1) have "s' = s" using reconcile_error by blast
  then show ?thesis using assms by simp
next
  case (Inr q)
  with assms(1) have rec: "reconcile order s = (Inr q, s')" by simp
  have "k = o_id order" using reconcile_frame [OF assms(1), of k] assms by auto
  then show ?thesis using reconcile_open [OF rec] assms by auto
qed

end

lemma paper_mark_cases:
  "paper_mark_uncertain now order reason rs = (x, rs') \<Longrightarrow>
   rs' = rs \<or> (\<exists>r. map_of rs (o_id order) = Some r \<and> \<not> reservation_closed r \<and>
     rs' = AList.update (o_id order) (r\<lparr>rv_status := ReservationStatusReconciliationRequired, rv_uncertain_reason := reason,
             rv_updated_at := now, rv_revision := rv_revision r + 1\<rparr>) rs)"
  by (auto simp: paper_mark_uncertain_def reservation_closed_def split: option.splits if_splits)

lemma paper_reconcile_cases:
  "paper_reconcile now order rs = (Inl e, rs') \<Longrightarrow> rs' = rs"
  "paper_reconcile now order rs = (Inr r, rs') \<Longrightarrow> rs' = AList.update (o_id order) r rs \<and>
     (\<exists>r0. map_of rs (o_id order) = Some r0 \<and>
       (o_status order \<notin> {OrderStatusFilled, OrderStatusCancelled, OrderStatusRejected} \<longrightarrow>
          rv_status r = ReservationStatusActive \<and> rv_remaining_reserved_shares r = rv_remaining_reserved_shares r0 \<and>
          rv_remaining_reserved_balance r = rv_remaining_reserved_balance r0))"
  by (auto simp: paper_reconcile_def Let_def split: option.splits)

interpretation paper: reservation_manager paper_reservation_get "paper_reserve now" "paper_reconcile now" "paper_mark_uncertain now"
  for now
proof unfold_locales
  fix order :: order and s s' :: paper_reservations and r :: asset_reservation
    and x :: "go_error + asset_reservation" and y :: err and k reason :: string and e :: go_error
  show "paper_reserve now order s = (Inr r, s') \<Longrightarrow> paper_reservation_get s' (o_id order) = Some r"
    "paper_reserve now order s = (Inr r, s') \<Longrightarrow> paper_reserve now order s' = (Inr r, s')"
    "paper_reserve now order s = (x, s') \<Longrightarrow> paper_reservation_get s k = Some r \<Longrightarrow> paper_reservation_get s' k = Some r"
    by (auto simp: paper_reserve_def paper_reservation_get_def paper_new_reservation_def Let_def
        split: option.splits if_splits)
  show "paper_reconcile now order s = (x, s') \<Longrightarrow> k \<noteq> o_id order \<Longrightarrow> paper_reservation_get s' k = paper_reservation_get s k"
    by (cases x) (auto simp: paper_reservation_get_def dest!: paper_reconcile_cases)
  show "paper_reconcile now order s = (Inr r, s') \<Longrightarrow>
      o_status order \<notin> {OrderStatusFilled, OrderStatusCancelled, OrderStatusRejected} \<Longrightarrow>
      \<exists>r0. paper_reservation_get s (o_id order) = Some r0 \<and> paper_reservation_get s' (o_id order) = Some r \<and>
        \<not> reservation_closed r \<and> rv_remaining_reserved_shares r = rv_remaining_reserved_shares r0 \<and>
        rv_remaining_reserved_balance r = rv_remaining_reserved_balance r0"
    by (auto simp: paper_reservation_get_def reservation_closed_def dest!: paper_reconcile_cases)
  show "paper_reconcile now order s = (Inl e, s') \<Longrightarrow> s' = s" by (rule paper_reconcile_cases)
  show "paper_mark_uncertain now order reason s = (y, s') \<Longrightarrow> k \<noteq> o_id order \<Longrightarrow>
      paper_reservation_get s' k = paper_reservation_get s k"
    by (auto simp: paper_reservation_get_def dest!: paper_mark_cases)
  show "paper_mark_uncertain now order reason s = (y, s') \<Longrightarrow> paper_reservation_get s (o_id order) = Some r \<Longrightarrow>
      \<exists>r'. paper_reservation_get s' (o_id order) = Some r' \<and>
        rv_remaining_reserved_shares r' = rv_remaining_reserved_shares r \<and>
        rv_remaining_reserved_balance r' = rv_remaining_reserved_balance r \<and>
        reservation_closed r' = reservation_closed r"
    by (auto simp: paper_reservation_get_def reservation_closed_def dest!: paper_mark_cases)
qed


section \<open>The order of reservations in a batch\<close>

text \<open>
  The protocol the turns are made for, as a specification: one batch of submissions sharing a \<open>ReservationSequence\<close>. A worker that reserves has passed \<open>Wait\<close>; it releases
  its turn afterwards. A worker that leaves without reserving passes \<open>Wait\<close> as well before it releases its turn
  (\<open>exit_waited\<close>); \<open>Submit\<close> does not keep to that on every path, see \<open>replayed_submit_skips_its_turn\<close> in \<open>Execution_Replay\<close>.
\<close>

record batch =
  b_sequence :: reservation_sequence
  b_log :: "nat list"

definition turn_released :: "batch \<Rightarrow> nat \<Rightarrow> bool" where
  "turn_released b i = rs_done (b_sequence b) ! i"

definition release_turn :: "nat \<Rightarrow> batch \<Rightarrow> batch" where
  "release_turn i b = b\<lparr>b_sequence := turn_release \<lparr>rt_index = i\<rparr> (b_sequence b)\<rparr>"

definition may_reserve :: "batch \<Rightarrow> nat \<Rightarrow> bool" where
  "may_reserve b i \<longleftrightarrow> i < length (rs_done (b_sequence b)) \<and> \<not> turn_released b i \<and> i \<notin> set (b_log b) \<and>
     turn_wait (b_sequence b) \<lparr>rt_index = i\<rparr> None = Some None"

inductive batch_step :: "batch \<Rightarrow> batch \<Rightarrow> bool" where
  reserve: "may_reserve b i \<Longrightarrow> batch_step b (b\<lparr>b_log := b_log b @ [i]\<rparr>)"
| release: "i \<in> set (b_log b) \<Longrightarrow> batch_step b (release_turn i b)"
| exit_waited: "may_reserve b i \<Longrightarrow> batch_step b (release_turn i b)"

inductive_cases batch_step_cases: "batch_step b b'"



lemma release_turn_fields [simp]:
  "b_log (release_turn i b) = b_log b"
  "length (rs_done (b_sequence (release_turn i b))) = length (rs_done (b_sequence b))"
  by (simp_all add: release_turn_def turn_release_def)

lemma turn_released_release [simp]:
  "k < length (rs_done (b_sequence b)) \<Longrightarrow> turn_released (release_turn i b) k \<longleftrightarrow> k = i \<or> turn_released b k"
  by (cases "i = k") (simp_all add: release_turn_def turn_release_def turn_released_def)





section \<open>Properties\<close>

text \<open>
  Uncertainty keeps money frozen in the paper manager: no sequence of \<open>MarkUncertain\<close> calls, at any times and
  for any orders, changes the shares or the balance a reservation holds, releases it or reopens a closed
  one; and a reservation is closed by \<open>Reconcile\<close> only for its own order in FILLED, CANCELLED or REJECTED.
\<close>

lemma paper_uncertainty_keeps_reserved:
  assumes "paper_reservation_get rs k = Some r"
  shows "(\<exists>r'. paper_reservation_get (foldl (\<lambda>s (now, o1, reason). snd (paper_mark_uncertain now o1 reason s)) rs ms) k = Some r' \<and>
      rv_remaining_reserved_shares r' = rv_remaining_reserved_shares r \<and>
      rv_remaining_reserved_balance r' = rv_remaining_reserved_balance r \<and> reservation_closed r' = reservation_closed r) \<and>
    (paper_reconcile now order rs = (x, rs') \<and> \<not> reservation_closed r \<and>
      paper_reservation_get rs' k = Some r'' \<and> reservation_closed r'' \<longrightarrow>
      k = o_id order \<and> o_status order \<in> {OrderStatusFilled, OrderStatusCancelled, OrderStatusRejected})"
proof (intro conjI)
  show "\<exists>r'. paper_reservation_get (foldl (\<lambda>s (now, o1, reason). snd (paper_mark_uncertain now o1 reason s)) rs ms) k = Some r' \<and>
      rv_remaining_reserved_shares r' = rv_remaining_reserved_shares r \<and>
      rv_remaining_reserved_balance r' = rv_remaining_reserved_balance r \<and> reservation_closed r' = reservation_closed r"
    using assms
  proof (induction ms arbitrary: rs r)
    case (Cons m ms)
    obtain now o1 reason where m: "m = (now, o1, reason)" by (cases m)
    from paper.marks_keep_reserved [OF Cons(2), of now "[(o1, reason)]"] obtain r1 where
      r1: "paper_reservation_get (snd (paper_mark_uncertain now o1 reason rs)) k = Some r1"
        "rv_remaining_reserved_shares r1 = rv_remaining_reserved_shares r"
        "rv_remaining_reserved_balance r1 = rv_remaining_reserved_balance r" "reservation_closed r1 = reservation_closed r"
      by auto
    from Cons(1) [OF r1(1)] r1 m show ?case by simp
  qed simp
  show "paper_reconcile now order rs = (x, rs') \<and> \<not> reservation_closed r \<and>
      paper_reservation_get rs' k = Some r'' \<and> reservation_closed r'' \<longrightarrow>
      k = o_id order \<and> o_status order \<in> {OrderStatusFilled, OrderStatusCancelled, OrderStatusRejected}"
    using paper.closing_needs_final_order assms by blast
qed



text \<open>
  The account scope separates maintenance from trading: a constructed scope has at least one active account and
  every account that may trade is also managed, so the maintenance gate never refuses an active account.
\<close>

lemma active_accounts_are_managed:
  assumes "scope_new active managed = Inr sc"
  shows "(scope_is_active sc a \<longrightarrow> scope_is_managed sc a) \<and> sc_active sc \<noteq> [] \<and> distinct (sc_active sc)"
proof (intro conjI)
  have ne: "scope_normalize_loop l i acc (x # xs) = Inr ys \<Longrightarrow> ys \<noteq> []" for l i acc x xs ys
    by (induction xs arbitrary: i acc x) (auto simp: Let_def split: if_splits)
  have d: "scope_normalize_loop l i acc xs = Inr ys \<Longrightarrow> distinct acc \<Longrightarrow> distinct ys" for l i acc xs ys
    by (induction xs arbitrary: i acc) (auto simp: Let_def split: if_splits)
  obtain man act where n: "scope_normalize ''active'' active = Inr act"
    and c: "(case filter (\<lambda>a. \<not> List.member man a) act of
         a # _ \<Rightarrow> Inl (ErrText (''active execution account '' @ quoted a @ '' is not managed by this process''))
       | [] \<Rightarrow> Inr \<lparr>sc_active = act, sc_managed = man\<rparr>) = Inr sc"
    using assms unfolding scope_new_def and_then_Inr by blast
  have f: "filter (\<lambda>a. \<not> List.member man a) act = []"
  proof (cases "filter (\<lambda>a. \<not> List.member man a) act")
    case (Cons y ys)
    show ?thesis using c unfolding Cons by simp
  qed
  have sc: "sc = \<lparr>sc_active = act, sc_managed = man\<rparr>" using c unfolding f by simp
  have m: "scope_normalize ''active'' active = Inr (sc_active sc)" "sc_managed sc = man"
    "filter (\<lambda>a. \<not> List.member man a) (sc_active sc) = []"
    using n f by (simp_all add: sc)
  show "scope_is_active sc a \<longrightarrow> scope_is_managed sc a"
    using m(3) unfolding scope_is_active_def scope_is_managed_def m(2) filter_empty_conv by auto
  have l: "active \<noteq> []" "scope_normalize_loop ''active'' 0 [] active = Inr (sc_active sc)"
    using m(1) by (simp_all add: scope_normalize_def split: if_splits)
  show "distinct (sc_active sc)" using d [OF l(2)] by simp
  obtain x xs where "active = x # xs" using l(1) by (cases active) simp_all
  then show "sc_active sc \<noteq> []" using ne l(2) by blast
qed

end
