(* ===== verification/Execution.thy ===== *)
theory Execution
  imports Ports
begin

text \<open>
  \<open>src/internal/service/execution\<close>: the order execution service. Its repository is the memory repository of
  \<open>Repository.thy\<close>; every other port is a function in a record, acting on a world of arbitrary type. The
  fill synchroniser and the resolver of unaccepted orders may also write orders, as they do in the
  program, so they act on the repository and the world. A Go method that updates its order argument in
  place returns the order with its error; contexts and deadlines are not modelled, a venue may return any
  error at any time. The field \<open>sys_calls\<close> is a trace of the calls that leave the service and is read by
  no operation; a placement is recorded with the repository as it was at that moment.
\<close>

section \<open>State and ports\<close>

datatype reconciliation_trigger =
    ReconciliationTriggerStartup | ReconciliationTriggerScheduled | ReconciliationTriggerOrderUnknown
  | ReconciliationTriggerCancelUnknown | ReconciliationTriggerAssetDrift

datatype port_call =
    CallPlace order repo
  | CallCancel order
  | CallGet order
  | CallReserve order
  | CallReconcile order
  | CallMarkUncertain order string
  | CallTrigger string reconciliation_trigger string
  | CallSync string
  | CallResolve order

record 'w sys =
  sys_repo :: repo
  sys_world :: 'w
  sys_calls :: "port_call list"

record 'w prepared_venue =
  pv_prepare :: "order \<Rightarrow> ('w, go_error + prepared_placement option) state"
  pv_place :: "order \<Rightarrow> prepared_placement \<Rightarrow> ('w, venue_order \<times> err) state"

record 'w venue =
  v_name :: string
  v_place :: "order \<Rightarrow> ('w, venue_order \<times> err) state"
  v_cancel :: "order \<Rightarrow> ('w, venue_order \<times> err) state"
  v_get :: "order \<Rightarrow> ('w, venue_order \<times> err) state"
  v_prepared :: "'w prepared_venue option"
  v_supports_time_in_force :: "(time_in_force \<Rightarrow> bool) option"

record 'w reservations =
  rm_reserve :: "order \<Rightarrow> ('w, go_error + asset_reservation) state"
  rm_reconcile :: "order \<Rightarrow> ('w, go_error + asset_reservation) state"
  rm_mark_uncertain :: "order \<Rightarrow> string \<Rightarrow> ('w, err) state"
  rm_get_order_reservation :: "(string \<Rightarrow> ('w, go_error + asset_reservation) state) option"

type_synonym 'w fill_synchronizer = "string \<Rightarrow> (repo \<times> 'w, go_error + fill_sync_result) state"
type_synonym 'w unaccepted_resolver = "order \<Rightarrow> (repo \<times> 'w, go_error + order \<times> bool) state"

record 'w service =
  sv_venue :: "'w venue"
  sv_guard :: "order_intent \<Rightarrow> ('w, err) state"
  sv_market_validator :: "order_intent \<Rightarrow> ('w, go_error + market_validation) state"
  sv_reservations :: "'w reservations"
  sv_reconciliation :: "(string \<Rightarrow> reconciliation_trigger \<Rightarrow> string \<Rightarrow> ('w, unit) state) option"
  sv_fill_synchronizer :: "'w fill_synchronizer option"
  sv_authoritative_fills :: bool
  sv_cancel_fill_finality_grace :: duration
  sv_immediate_cancel_finality :: bool
  sv_max_reconcile_attempts :: int
  sv_account_scope :: "account_scope option"
  sv_entry_submission_disabled :: bool
  sv_entry_disabled_accounts :: "string list"
  sv_require_prepared_placement :: bool
  sv_submit_attempt_timeout :: duration
  sv_submit_in_flight_grace :: duration
  sv_unaccepted_resolver :: "'w unaccepted_resolver option"
  sv_process_started_at :: gtime
  sv_now :: "('w, gtime) state"
  sv_new_id :: "('w, string) state"
  sv_attempt_fingerprint :: "order_attempt_kind \<Rightarrow> order \<Rightarrow> string"

text \<open>Running an action of the world, of the repository, or of both inside the system.\<close>

definition in_world :: "('w, 'a) state \<Rightarrow> ('w sys, 'a) state" where
  "in_world m = State (\<lambda>s. case run_state m (sys_world s) of (x, w) \<Rightarrow> (x, s\<lparr>sys_world := w\<rparr>))"

definition in_repo :: "(repo \<Rightarrow> 'a \<times> repo) \<Rightarrow> ('w sys, 'a) state" where
  "in_repo f = State (\<lambda>s. case f (sys_repo s) of (x, r) \<Rightarrow> (x, s\<lparr>sys_repo := r\<rparr>))"

definition read_repo :: "(repo \<Rightarrow> 'a) \<Rightarrow> ('w sys, 'a) state" where
  "read_repo f = State (\<lambda>s. (f (sys_repo s), s))"

definition in_both :: "(repo \<times> 'w, 'a) state \<Rightarrow> ('w sys, 'a) state" where
  "in_both m = State (\<lambda>s. case run_state m (sys_repo s, sys_world s) of (x, r, w) \<Rightarrow> (x, s\<lparr>sys_repo := r, sys_world := w\<rparr>))"

definition log_call :: "port_call \<Rightarrow> ('w sys, unit) state" where
  "log_call c = State (\<lambda>s. ((), s\<lparr>sys_calls := sys_calls s @ [c]\<rparr>))"

definition log_place :: "order \<Rightarrow> ('w sys, unit) state" where
  "log_place o1 = State (\<lambda>s. ((), s\<lparr>sys_calls := sys_calls s @ [CallPlace o1 (sys_repo s)]\<rparr>))"

definition now_utc :: "'w service \<Rightarrow> ('w sys, gtime) state" where
  "now_utc svc = in_world (sv_now svc)"

definition reserve_assets :: "'w service \<Rightarrow> order \<Rightarrow> ('w sys, err) state" where
  "reserve_assets svc o1 = do {
     log_call (CallReserve o1);
     r \<leftarrow> in_world (rm_reserve (sv_reservations svc) o1);
     State_Monad.return (case r of Inl e \<Rightarrow> Some e | Inr _ \<Rightarrow> None) }"

definition reconcile_assets :: "'w service \<Rightarrow> order \<Rightarrow> ('w sys, err) state" where
  "reconcile_assets svc o1 = do {
     log_call (CallReconcile o1);
     r \<leftarrow> in_world (rm_reconcile (sv_reservations svc) o1);
     State_Monad.return (case r of Inl e \<Rightarrow> Some e | Inr _ \<Rightarrow> None) }"

definition mark_uncertain :: "'w service \<Rightarrow> order \<Rightarrow> string \<Rightarrow> ('w sys, err) state" where
  "mark_uncertain svc o1 reason = do {
     log_call (CallMarkUncertain o1 reason);
     in_world (rm_mark_uncertain (sv_reservations svc) o1 reason) }"

definition trigger_reconciliation :: "'w service \<Rightarrow> order \<Rightarrow> reconciliation_trigger \<Rightarrow> ('w sys, unit) state" where
  "trigger_reconciliation svc o1 trigger =
     (case sv_reconciliation svc of
        None \<Rightarrow> State_Monad.return ()
      | Some f \<Rightarrow> do {
          log_call (CallTrigger (oi_execution_account_id (o_intent o1)) trigger (o_id o1));
          in_world (f (oi_execution_account_id (o_intent o1)) trigger (o_id o1)) })"

text \<open>\<open>SyncOrder\<close> on a nil synchroniser would panic; \<open>New\<close> refuses authoritative fills without one.\<close>

definition sync_order :: "'w service \<Rightarrow> string \<Rightarrow> ('w sys, go_error + fill_sync_result) state" where
  "sync_order svc orderID = do {
     log_call (CallSync orderID);
     (case sv_fill_synchronizer svc of
        None \<Rightarrow> State_Monad.return (Inl (ErrText ''invalid memory address or nil pointer dereference''))
      | Some f \<Rightarrow> in_both (f orderID)) }"


section \<open>Error classification\<close>

definition error_code :: "go_error \<Rightarrow> string \<Rightarrow> string" where
  "error_code e fallback =
     (case errors_as_rejection e of
        Some (code, _) \<Rightarrow> if trim_space code \<noteq> [] then code
          else (case errors_as_venue e of Some (_, vcode, _) \<Rightarrow> if trim_space vcode \<noteq> [] then vcode else fallback | None \<Rightarrow> fallback)
      | None \<Rightarrow> (case errors_as_venue e of Some (_, vcode, _) \<Rightarrow> if trim_space vcode \<noteq> [] then vcode else fallback | None \<Rightarrow> fallback))"

definition venue_order_id_from_error :: "go_error \<Rightarrow> string" where
  "venue_order_id_from_error e = (case errors_as_venue e of Some (_, _, oid, _) \<Rightarrow> trim_space oid | None \<Rightarrow> [])"

definition is_definitive_rejection :: "go_error \<Rightarrow> bool" where
  "is_definitive_rejection e =
     (case errors_as_venue e of Some (kind, _) \<Rightarrow> kind = VenueErrorRejected \<or> kind = VenueErrorInvalid | None \<Rightarrow> False)"

definition is_fill_evidence_pending_error :: "go_error \<Rightarrow> bool" where
  "is_fill_evidence_pending_error e =
     (case errors_as_venue e of
        Some (_, code, _) \<Rightarrow> equal_fold (trim_space code) ''CLOB_FILL_DETAILS_UNAVAILABLE'' | None \<Rightarrow> False)"

definition non_budgeted_reconcile_code :: "string \<Rightarrow> bool" where
  "non_budgeted_reconcile_code code \<longleftrightarrow> to_upper (trim_space code) \<in>
     {''CLOB_FILL_DETAILS_UNAVAILABLE'', ''KALSHI_ORDER_VISIBILITY_PENDING'', ''KALSHI_RATE_LIMITED'',
      ''KALSHI_SERVER_ERROR'', ''KALSHI_TRANSPORT_FAILED'', ''KALSHI_RESPONSE_READ_FAILED'',
      ''KALSHI_INVALID_RESPONSE'', ''KALSHI_INVALID_ORDER_RESPONSE'', ''KALSHI_RESPONSE_TOO_LARGE''}"

definition non_budgeted_reconcile_error :: "go_error \<Rightarrow> string \<Rightarrow> bool" where
  "non_budgeted_reconcile_error e code \<longleftrightarrow>
     non_budgeted_reconcile_code code \<or>
     (case errors_as_venue e of Some (kind, _) \<Rightarrow> kind = VenueErrorUnavailable | None \<Rightarrow> False)"


section \<open>Venue observations\<close>

definition status_for_venue :: "venue_order_state \<Rightarrow> go_error + order_status" where
  "status_for_venue st = (case st of
       VenueOrderAcknowledged \<Rightarrow> Inr OrderStatusAcknowledged
     | VenueOrderLive \<Rightarrow> Inr OrderStatusLive
     | VenueOrderPartiallyFilled \<Rightarrow> Inr OrderStatusPartiallyFilled
     | VenueOrderFilled \<Rightarrow> Inr OrderStatusFilled
     | VenueOrderCancelled \<Rightarrow> Inr OrderStatusCancelled
     | VenueOrderRejected \<Rightarrow> Inr OrderStatusRejected
     | VenueOrderUnknown \<Rightarrow> Inr OrderStatusUnknown
     | VenueOrderOther s \<Rightarrow> Inl (ErrText (''unsupported venue order state '' @ quoted s)))"

definition validate_venue_order :: "venue_order \<Rightarrow> order \<Rightarrow> err" where
  "validate_venue_order observed o1 =
     (if trim_space (vo_id observed) = [] then Some (ErrText ''venue order id is required'')
      else case status_for_venue (vo_state observed) of
        Inl e \<Rightarrow> Some e
      | Inr _ \<Rightarrow>
        (let filled = zero_if_empty (vo_filled_size observed) in
         if cmp_fails (dec_sign filled) (\<lambda>k. k < 0) then Some (ErrText ''filled size must be non-negative'')
         else if cmp_fails (dec_compare filled (oi_size (o_intent o1)))
                   (\<lambda>k. k > 0 \<and> \<not> allows_buy_share_price_improvement o1)
         then Some (ErrText ''filled size exceeds requested size'')
         else None))"

definition status_for_venue_observation :: "'w service \<Rightarrow> order \<Rightarrow> venue_order_state \<Rightarrow> go_error + order_status" where
  "status_for_venue_observation svc o1 st =
     (case status_for_venue st of
        Inl e \<Rightarrow> Inl e
      | Inr target \<Rightarrow>
      if \<not> sv_authoritative_fills svc then Inr target
      else
      (let filled = zero_if_empty (o_filled_size o1) in
       case dec_sign filled of
         Inl e \<Rightarrow> Inl (wrap_error ''parse authoritative filled size'' e)
       | Inr sign \<Rightarrow>
       (case dec_compare filled (oi_size (o_intent o1)) of
          Inl _ \<Rightarrow> Inl (ErrText ''compare authoritative filled size with requested size'')
        | Inr comparison \<Rightarrow>
          if comparison > 0 \<and> \<not> allows_buy_share_price_improvement o1
          then Inl (ErrText ''compare authoritative filled size with requested size'')
          else if target = OrderStatusRejected \<and> sign > 0 then Inr OrderStatusUnknown
          else if target \<in> {OrderStatusAcknowledged, OrderStatusLive, OrderStatusPartiallyFilled, OrderStatusFilled}
          then (if comparison = 0 \<or> (comparison > 0 \<and> allows_buy_share_price_improvement o1) then Inr OrderStatusFilled
                else if sign > 0 then Inr OrderStatusPartiallyFilled
                else if target = OrderStatusAcknowledged then Inr OrderStatusAcknowledged
                else Inr OrderStatusLive)
          else Inr target)))"

definition venue_observation_needs_fill_sync :: "venue_order \<Rightarrow> bool" where
  "venue_observation_needs_fill_sync observed =
     (if vo_trade_ids observed \<noteq> [] then True
      else if vo_state observed \<in> {VenueOrderPartiallyFilled, VenueOrderFilled, VenueOrderCancelled} then True
      else if dec_is_empty (vo_filled_size observed) then False
      else cmp_fails (dec_sign (vo_filled_size observed)) (\<lambda>k. k > 0))"

definition authoritative_fill_evidence_pending :: "venue_order \<Rightarrow> order \<Rightarrow> bool" where
  "authoritative_fill_evidence_pending observed o1 =
     (let venueFilled = zero_if_empty (vo_filled_size observed); confirmedFilled = zero_if_empty (o_filled_size o1) in
      if cmp_fails (dec_compare venueFilled confirmedFilled) (\<lambda>k. k > 0) then True
      else case dec_sign confirmedFilled of
        Inl _ \<Rightarrow> True
      | Inr confirmedSign \<Rightarrow>
          if confirmedSign = 0 \<and> vo_trade_ids observed \<noteq> [] then True
          else if vo_state observed = VenueOrderFilled then o_status o1 \<noteq> OrderStatusFilled
          else if vo_state observed = VenueOrderPartiallyFilled
          then confirmedSign \<le> 0 \<or> (o_status o1 \<noteq> OrderStatusPartiallyFilled \<and> o_status o1 \<noteq> OrderStatusFilled \<and>
                                      o_status o1 \<noteq> OrderStatusCancelled)
          else False)"

definition resting_venue_state :: "venue_order_state \<Rightarrow> bool" where
  "resting_venue_state st \<longleftrightarrow> st = VenueOrderAcknowledged \<or> st = VenueOrderLive \<or> st = VenueOrderPartiallyFilled"

definition emulates_immediate_or_cancel :: "'w service \<Rightarrow> order \<Rightarrow> bool" where
  "emulates_immediate_or_cancel svc o1 =
     (if oi_time_in_force (o_intent o1) \<noteq> TimeInForceIOC then False
      else case v_supports_time_in_force (sv_venue svc) of None \<Rightarrow> False | Some f \<Rightarrow> \<not> f TimeInForceIOC)"


section \<open>Audited writes\<close>

record transition_details =
  td_attempt_id :: string
  td_reason_code :: string
  td_reason :: string
  td_venue_order :: venue_order
  td_include_venue_data :: bool

definition no_details :: transition_details where
  "no_details = \<lparr>td_attempt_id = [], td_reason_code = [], td_reason = [], td_venue_order = zero_venue_order,
     td_include_venue_data = False\<rparr>"

definition transition_for ::
    "'w service \<Rightarrow> order \<Rightarrow> order_status \<Rightarrow> order_transition_trigger \<Rightarrow> transition_details \<Rightarrow> gtime \<Rightarrow> transition" where
  "transition_for svc o1 target trigger details now =
     (let v = td_venue_order details; venue_data = td_include_venue_data details in
      \<lparr>tr_event_id = ''event:'' @ o_id o1 @ '':'' @ show_int (o_revision o1 + 1), tr_to = target, tr_trigger = trigger,
       tr_attempt_id = td_attempt_id details, tr_fill_key = [], tr_reason_code = td_reason_code details,
       tr_reason = td_reason details,
       tr_venue_status = (if venue_data then vo_raw_status v else []),
       tr_venue_order_id = (if venue_data then vo_id v else []),
       tr_filled_size = (if \<not> venue_data then [] else if sv_authoritative_fills svc then o_filled_size o1 else vo_filled_size v),
       tr_filled_notional = [], tr_total_fees = [],
       tr_average_fill_price = (if \<not> venue_data then []
          else if sv_authoritative_fills svc then o_average_fill_price o1 else vo_average_fill_price v),
       tr_venue_observed_at = (if venue_data \<and> \<not> is_zero_time (vo_observed_at v) then Some (vo_observed_at v) else None),
       tr_at = now\<rparr>)"

definition build_transition ::
    "'w service \<Rightarrow> order \<Rightarrow> order_status \<Rightarrow> order_transition_trigger \<Rightarrow> transition_details \<Rightarrow> ('w sys, transition) state" where
  "build_transition svc o1 target trigger details = do {
     now \<leftarrow> now_utc svc;
     State_Monad.return (transition_for svc o1 target trigger details now) }"

definition service_transition ::
    "'w service \<Rightarrow> order \<Rightarrow> order_status \<Rightarrow> order_transition_trigger \<Rightarrow> transition_details \<Rightarrow> ('w sys, order \<times> err) state" where
  "service_transition svc o1 target trigger details = do {
     t \<leftarrow> build_transition svc o1 target trigger details;
     (case apply_transition o1 t of
        Inl e \<Rightarrow> State_Monad.return (o1, Some e)
      | Inr (nxt, event) \<Rightarrow> do {
          e \<leftarrow> in_repo (repo_transition nxt event);
          (case e of Some x \<Rightarrow> State_Monad.return (o1, Some x) | None \<Rightarrow> State_Monad.return (nxt, None)) }) }"

definition start_attempt_with_expiry ::
    "'w service \<Rightarrow> order \<Rightarrow> order_status \<Rightarrow> order_attempt_kind \<Rightarrow> order_transition_trigger \<Rightarrow> gtime option \<Rightarrow>
     ('w sys, order \<times> (go_error + order_attempt)) state" where
  "start_attempt_with_expiry svc o1 target kind trigger venueExpiresAt = do {
     existing \<leftarrow> read_repo (\<lambda>r. repo_attempts r (o_id o1));
     (case existing of
        Inl e \<Rightarrow> State_Monad.return (o1, Inl e)
      | Inr attempts \<Rightarrow> do {
          let sequence = int (length attempts) + 1;
          startedAt \<leftarrow> now_utc svc;
          (case build_attempt (''attempt:'' @ o_id o1 @ '':'' @ show_int sequence) (o_id o1) sequence kind
                  (sv_attempt_fingerprint svc kind o1) (o_venue_order_id o1) startedAt venueExpiresAt of
             Inl e \<Rightarrow> State_Monad.return (o1, Inl e)
           | Inr attempt \<Rightarrow> do {
               t \<leftarrow> build_transition svc o1 target trigger (no_details\<lparr>td_attempt_id := at_id attempt\<rparr>);
               (case apply_transition o1 (t\<lparr>tr_at := startedAt\<rparr>) of
                  Inl e \<Rightarrow> State_Monad.return (o1, Inl e)
                | Inr (nxt, event) \<Rightarrow> do {
                    e \<leftarrow> in_repo (repo_start_attempt nxt event attempt);
                    (case e of Some x \<Rightarrow> State_Monad.return (o1, Inl x) | None \<Rightarrow> State_Monad.return (nxt, Inr attempt)) }) }) }) }"

definition start_attempt ::
    "'w service \<Rightarrow> order \<Rightarrow> order_status \<Rightarrow> order_attempt_kind \<Rightarrow> order_transition_trigger \<Rightarrow>
     ('w sys, order \<times> (go_error + order_attempt)) state" where
  "start_attempt svc o1 target kind trigger = start_attempt_with_expiry svc o1 target kind trigger None"

definition finished_attempt ::
    "order_attempt \<Rightarrow> order_attempt_outcome \<Rightarrow> gtime \<Rightarrow> venue_order \<Rightarrow> string \<Rightarrow> err \<Rightarrow> order_attempt" where
  "finished_attempt attempt outcome completedAt venueOrder reasonCode cause =
     attempt\<lparr>at_outcome := outcome, at_completed_at := Some completedAt,
       at_venue_order_id := first_non_empty [vo_id venueOrder, at_venue_order_id attempt],
       at_venue_status := vo_raw_status venueOrder, at_error_code := reasonCode,
       at_error_message := (case cause of None \<Rightarrow> [] | Some c \<Rightarrow> error_text c),
       at_http_status := (case cause of None \<Rightarrow> at_http_status attempt
         | Some c \<Rightarrow> (case errors_as_venue c of Some (_, _, _, http) \<Rightarrow> http | None \<Rightarrow> at_http_status attempt))\<rparr>"

definition finish_attempt_with_outcome ::
    "'w service \<Rightarrow> order \<Rightarrow> order_attempt \<Rightarrow> order_status \<Rightarrow> order_transition_trigger \<Rightarrow> venue_order \<Rightarrow> string \<Rightarrow> err \<Rightarrow>
     order_attempt_outcome \<Rightarrow> ('w sys, order \<times> err) state" where
  "finish_attempt_with_outcome svc o1 attempt target trigger venueOrder reasonCode cause outcome = do {
     t \<leftarrow> build_transition svc o1 target trigger
       \<lparr>td_attempt_id = at_id attempt, td_reason_code = reasonCode,
        td_reason = (case cause of None \<Rightarrow> [] | Some c \<Rightarrow> error_text c),
        td_venue_order = venueOrder, td_include_venue_data = True\<rparr>;
     (case apply_transition o1 t of
        Inl e \<Rightarrow> State_Monad.return (o1, Some e)
      | Inr (nxt, event) \<Rightarrow> do {
          e \<leftarrow> in_repo (repo_finish_attempt nxt event
                 (finished_attempt attempt outcome (tr_at t) venueOrder reasonCode cause));
          (case e of Some x \<Rightarrow> State_Monad.return (o1, Some x) | None \<Rightarrow> State_Monad.return (nxt, None)) }) }"

definition finish_attempt ::
    "'w service \<Rightarrow> order \<Rightarrow> order_attempt \<Rightarrow> order_status \<Rightarrow> order_transition_trigger \<Rightarrow> venue_order \<Rightarrow> string \<Rightarrow> err \<Rightarrow>
     ('w sys, order \<times> err) state" where
  "finish_attempt svc o1 attempt target trigger venueOrder reasonCode cause =
     finish_attempt_with_outcome svc o1 attempt target trigger venueOrder reasonCode cause
       (if target = OrderStatusRejected then AttemptOutcomeRejected
        else if target = OrderStatusUnknown \<or> target = OrderStatusManualReview then AttemptOutcomeUnknown
        else AttemptOutcomeSucceeded)"

definition apply_venue_state ::
    "'w service \<Rightarrow> order \<Rightarrow> venue_order \<Rightarrow> order_transition_trigger \<Rightarrow> string \<Rightarrow> ('w sys, order \<times> err) state" where
  "apply_venue_state svc o1 venueOrder trigger attemptID =
     (case status_for_venue_observation svc o1 (vo_state venueOrder) of
        Inl e \<Rightarrow> State_Monad.return (o1, Some e)
      | Inr target \<Rightarrow> service_transition svc o1 target trigger
          (no_details\<lparr>td_attempt_id := attemptID, td_venue_order := venueOrder, td_include_venue_data := True\<rparr>))"

definition reject :: "'w service \<Rightarrow> order \<Rightarrow> string \<Rightarrow> go_error \<Rightarrow> ('w sys, order \<times> err) state" where
  "reject svc o1 code cause =
     service_transition svc o1 OrderStatusRejected TransitionTriggerValidation
       (no_details\<lparr>td_reason_code := code, td_reason := error_text cause\<rparr>)"

definition force_unknown :: "'w service \<Rightarrow> order \<Rightarrow> string \<Rightarrow> go_error \<Rightarrow> string \<Rightarrow> ('w sys, order \<times> err) state" where
  "force_unknown svc o1 code cause venueOrderID = do {
     observedAt \<leftarrow> now_utc svc;
     service_transition svc o1 OrderStatusUnknown TransitionTriggerVenueResponse
       \<lparr>td_attempt_id = [], td_reason_code = code, td_reason = error_text cause,
        td_venue_order = zero_venue_order\<lparr>vo_id := first_non_empty [venueOrderID, o_venue_order_id o1],
          vo_state := VenueOrderUnknown, vo_raw_status := code, vo_filled_size := o_filled_size o1,
          vo_observed_at := observedAt\<rparr>,
        td_include_venue_data = True\<rparr> }"

text \<open>The last SUBMIT attempt decides; an unreadable list counts as in flight.\<close>

definition submit_in_flight :: "'w service \<Rightarrow> order \<Rightarrow> ('w sys, bool) state" where
  "submit_in_flight svc o1 = do {
     attempts \<leftarrow> read_repo (\<lambda>r. repo_attempts r (o_id o1));
     (case attempts of
        Inl _ \<Rightarrow> State_Monad.return True
      | Inr as \<Rightarrow>
          (case rev (filter (\<lambda>a. at_kind a = OrderAttemptSubmit) as) of
             [] \<Rightarrow> State_Monad.return False
           | latest # _ \<Rightarrow>
               if at_outcome latest \<noteq> AttemptOutcomeStarted then State_Monad.return False
               else if at_started_at latest < sv_process_started_at svc then State_Monad.return False
               else do {
                 now \<leftarrow> now_utc svc;
                 State_Monad.return (now - at_started_at latest < sv_submit_in_flight_grace svc) })) }"

definition reconcile_attempt_count :: "string \<Rightarrow> ('w sys, int) state" where
  "reconcile_attempt_count orderID = do {
     attempts \<leftarrow> read_repo (\<lambda>r. repo_attempts r orderID);
     State_Monad.return (case attempts of
        Inl _ \<Rightarrow> 0
      | Inr as \<Rightarrow> int (length (filter (\<lambda>a. at_kind a = OrderAttemptReconcile \<and> \<not> non_budgeted_reconcile_code (at_error_code a)) as))) }"


section \<open>Gates\<close>

definition require_active_account :: "'w service \<Rightarrow> string \<Rightarrow> err" where
  "require_active_account svc accountID =
     (case sv_account_scope svc of
        None \<Rightarrow> None
      | Some sc \<Rightarrow> if scope_is_active sc accountID then None
          else Some (ErrRejection ''EXECUTION_ACCOUNT_NOT_ACTIVE''
            (''execution account '' @ quoted (trim_space accountID) @ '' is not active in this process'')))"

definition require_managed_account :: "'w service \<Rightarrow> string \<Rightarrow> err" where
  "require_managed_account svc accountID =
     (case sv_account_scope svc of
        None \<Rightarrow> None
      | Some sc \<Rightarrow> if scope_is_managed sc accountID then None
          else Some (ErrRejection ''EXECUTION_ACCOUNT_NOT_MANAGED''
            (''execution account '' @ quoted (trim_space accountID) @ '' is not managed by this process'')))"

fun entry_disabled_loop :: "int \<Rightarrow> string list \<Rightarrow> string list \<Rightarrow> go_error + string list" where
  "entry_disabled_loop index acc [] = Inr acc"
| "entry_disabled_loop index acc (raw # rest) =
     (let accountID = trim_space raw in
      if accountID = [] then Inl (ErrText (''entry-disabled execution account '' @ show_int index @ '' is empty''))
      else if List.member acc accountID
      then Inl (ErrText (''entry-disabled execution account '' @ quoted accountID @ '' is duplicated''))
      else entry_disabled_loop (index + 1) (acc @ [accountID]) rest)"

definition normalize_entry_disabled_accounts :: "string list \<Rightarrow> go_error + string list" where
  "normalize_entry_disabled_accounts accounts = entry_disabled_loop 0 [] accounts"

definition entry_submission_blocked :: "'w service \<Rightarrow> string \<Rightarrow> side \<Rightarrow> bool" where
  "entry_submission_blocked svc accountID sd =
     (if sd \<noteq> SideBuy then False
      else if sv_entry_submission_disabled svc then True
      else List.member (sv_entry_disabled_accounts svc) (trim_space accountID))"

definition entry_submission_disabled_error :: go_error where
  "entry_submission_disabled_error = ErrRejection ''ENTRY_SUBMISSION_DISABLED''
     ''BUY submission is disabled while the operator-owned sell-only gate is active''"

definition metadata_delete :: "string \<Rightarrow> metadata \<Rightarrow> metadata" where
  "metadata_delete k m = filter (\<lambda>kv. fst kv \<noteq> k) m"

definition execution_intent_replay_equivalent :: "order_intent \<Rightarrow> order_intent \<Rightarrow> bool" where
  "execution_intent_replay_equivalent stored0 proposed0 =
     (if intent_equivalent stored0 proposed0 then True
      else
        (let stored = intent_normalize stored0; proposed = intent_normalize proposed0 in
         if market_source_normalize (oi_market_source stored) \<noteq> market_source_normalize (oi_market_source proposed) \<or>
            oi_venue stored = [] \<or> oi_venue stored \<noteq> oi_venue proposed \<or>
            oi_type stored \<noteq> OrderTypeLimit \<or> oi_type proposed \<noteq> OrderTypeLimit \<or>
            oi_time_in_force stored \<noteq> TimeInForceFOK \<or> oi_time_in_force proposed \<noteq> TimeInForceIOC \<or>
            map_of (oi_metadata proposed) ''strategy_time_in_force'' \<noteq> Some TimeInForceFOK \<or>
            map_of (oi_metadata proposed) ''execution_time_in_force'' \<noteq> Some TimeInForceIOC
         then False
         else intent_equivalent stored
           (proposed\<lparr>oi_time_in_force := TimeInForceFOK,
              oi_metadata := metadata_delete ''execution_time_in_force''
                (metadata_delete ''strategy_time_in_force'' (oi_metadata proposed))\<rparr>)))"


section \<open>Fill evidence and cancel finality\<close>

definition hold_cancellation_finality :: "'w service \<Rightarrow> order \<Rightarrow> bool \<Rightarrow> ('w sys, err) state" where
  "hold_cancellation_finality svc o1 enqueue =
     (if sv_immediate_cancel_finality svc then do {
        e \<leftarrow> reconcile_assets svc o1;
        (case e of
           None \<Rightarrow> State_Monad.return None
         | Some x \<Rightarrow> do {
             uncertainErr \<leftarrow> mark_uncertain svc o1 (''IMMEDIATE_CANCEL_RECONCILIATION_FAILED: '' @ error_text x);
             State_Monad.return (errors_join [Some (wrap_error ''release immediately cancelled reservation'' x), uncertainErr]) }) }
      else do {
        e \<leftarrow> mark_uncertain svc o1 ''CANCEL_FILL_FINALITY_PENDING'';
        (if enqueue then trigger_reconciliation svc o1 ReconciliationTriggerCancelUnknown else State_Monad.return ());
        State_Monad.return e })"

definition sync_observed_fills :: "'w service \<Rightarrow> order \<Rightarrow> venue_order \<Rightarrow> ('w sys, order \<times> bool \<times> err) state" where
  "sync_observed_fills svc o1 observed =
     (if \<not> sv_authoritative_fills svc \<or> \<not> venue_observation_needs_fill_sync observed
      then State_Monad.return (o1, False, None)
      else do {
        res \<leftarrow> sync_order svc (o_id o1);
        let syncErr0 = (case res of Inl e \<Rightarrow> Some e | Inr _ \<Rightarrow> None);
        let fillEvidencePending = (case syncErr0 of None \<Rightarrow> False | Some e \<Rightarrow> is_fill_evidence_pending_error e);
        let syncErr = (if fillEvidencePending then None else syncErr0);
        refreshed \<leftarrow> read_repo (\<lambda>r. repo_get r (o_id o1));
        let o2 = (case refreshed of Inl _ \<Rightarrow> o1 | Inr x \<Rightarrow> x);
        State_Monad.return (o2,
          fillEvidencePending \<or> authoritative_fill_evidence_pending observed o2,
          errors_join
            [map_option (wrap_error (''sync authoritative fills for order '' @ o_id o2)) syncErr,
             (case refreshed of Inl e \<Rightarrow> Some (wrap_error (''reload order '' @ o_id o2 @ '' after authoritative fill sync'') e)
              | Inr _ \<Rightarrow> None)]) })"

definition fill_evidence_details :: transition_details where
  "fill_evidence_details = no_details\<lparr>td_reason_code := ''VENUE_FILL_EVIDENCE_PENDING'',
     td_reason := ''venue-reported execution is awaiting confirmation by the authoritative fill ledger''\<rparr>"

definition mark_fill_evidence_pending ::
    "'w service \<Rightarrow> order \<Rightarrow> reconciliation_trigger \<Rightarrow> bool \<Rightarrow> ('w sys, order \<times> err) state" where
  "mark_fill_evidence_pending svc o1 trigger enqueue = do {
     (o2, transitionErr) \<leftarrow> service_transition svc o1 OrderStatusUnknown TransitionTriggerReconciliation fill_evidence_details;
     uncertainErr \<leftarrow> mark_uncertain svc o2 ''VENUE_FILL_EVIDENCE_PENDING'';
     (if enqueue then trigger_reconciliation svc o2 trigger else State_Monad.return ());
     State_Monad.return (o2, errors_join [transitionErr,
       map_option (wrap_error ''retain reservation while confirmed fill evidence is pending'') uncertainErr]) }"

definition defer_cancellation_finality :: "'w service \<Rightarrow> order \<Rightarrow> string \<Rightarrow> string \<Rightarrow> ('w sys, order \<times> err) state" where
  "defer_cancellation_finality svc o1 code reason =
     (if o_status o1 = OrderStatusCancelled \<and> o_failure_code o1 = trim_space code \<and> o_failure_reason o1 = trim_space reason
      then State_Monad.return (o1, None)
      else service_transition svc o1 OrderStatusCancelled TransitionTriggerReconciliation
        (no_details\<lparr>td_reason_code := trim_space code, td_reason := trim_space reason\<rparr>))"


section \<open>Cancel\<close>

definition service_get :: "string \<Rightarrow> ('w sys, go_error + order) state" where
  "service_get orderID = read_repo (\<lambda>r. repo_get r (trim_space orderID))"

definition cancel_observed :: "'w service \<Rightarrow> order \<Rightarrow> venue_order \<Rightarrow> ('w sys, order \<times> err) state" where
  "cancel_observed svc o2 venueOrder = do {
     (o3, pendingFillEvidence, syncErr) \<leftarrow> sync_observed_fills svc o2 venueOrder;
     (case syncErr of
        Some e \<Rightarrow>
          if o_status o3 = OrderStatusCancelled then do {
            h \<leftarrow> hold_cancellation_finality svc o3 True;
            State_Monad.return (o3, errors_join [Some e, h]) }
          else do {
            u \<leftarrow> mark_uncertain svc o3 (''AUTHORITATIVE_FILL_SYNC_FAILED: '' @ error_text e);
            trigger_reconciliation svc o3 ReconciliationTriggerCancelUnknown;
            State_Monad.return (o3, errors_join [Some e, u]) }
      | None \<Rightarrow>
          if pendingFillEvidence \<and> o_status o3 \<noteq> OrderStatusCancelled
          then mark_fill_evidence_pending svc o3 ReconciliationTriggerCancelUnknown True
          else if o_status o3 = OrderStatusUnknown then do {
            _ \<leftarrow> mark_uncertain svc o3 ''CANCEL_RESULT_UNKNOWN'';
            trigger_reconciliation svc o3 ReconciliationTriggerCancelUnknown;
            State_Monad.return (o3, None) }
          else if o_status o3 = OrderStatusCancelled then do {
            h \<leftarrow> hold_cancellation_finality svc o3 True;
            State_Monad.return (o3, h) }
          else if sv_authoritative_fills svc then State_Monad.return (o3, None)
          else do {
            r \<leftarrow> reconcile_assets svc o3;
            (case r of
               None \<Rightarrow> State_Monad.return (o3, None)
             | Some e \<Rightarrow> do {
                 u \<leftarrow> mark_uncertain svc o3 (''CANCEL_RECONCILIATION_FAILED: '' @ error_text e);
                 State_Monad.return (o3, errors_join [Some (wrap_error ''reconcile canceled asset reservation'' e), u]) }) }) }"

definition cancel_started :: "'w service \<Rightarrow> order \<Rightarrow> order_attempt \<Rightarrow> ('w sys, order \<times> err) state" where
  "cancel_started svc o1 attempt = do {
     log_call (CallCancel o1);
     (venueOrder, cancelErr) \<leftarrow> in_world (v_cancel (sv_venue svc) o1);
     (case cancelErr of
        Some e \<Rightarrow> do {
          observedAt \<leftarrow> now_utc svc;
          let code = error_code e ''VENUE_CANCEL_OUTCOME_UNKNOWN'';
          (o2, finishErr) \<leftarrow> finish_attempt_with_outcome svc o1 attempt OrderStatusUnknown TransitionTriggerCancel
            (zero_venue_order\<lparr>vo_id := first_non_empty [venue_order_id_from_error e, o_venue_order_id o1],
               vo_state := VenueOrderUnknown, vo_raw_status := code, vo_filled_size := o_filled_size o1,
               vo_observed_at := observedAt\<rparr>) code (Some e) AttemptOutcomeUnknown;
          (case finishErr of
             Some fe \<Rightarrow> State_Monad.return (o2, errors_join [Some (wrap_error ''cancel venue order'' e), Some fe])
           | None \<Rightarrow> do {
               u \<leftarrow> mark_uncertain svc o2 (''VENUE_CANCEL_OUTCOME_UNKNOWN: '' @ error_text e);
               trigger_reconciliation svc o2 ReconciliationTriggerCancelUnknown;
               State_Monad.return (o2, errors_join [Some (wrap_error ''cancel venue order'' e), u]) }) }
      | None \<Rightarrow> do {
          let target = (case status_for_venue_observation svc o1 (vo_state venueOrder) of
              Inl _ \<Rightarrow> OrderStatusUnknown
            | Inr s \<Rightarrow> if vo_state venueOrder = VenueOrderAcknowledged \<or> vo_state venueOrder = VenueOrderRejected
                then OrderStatusUnknown else s);
          (o2, finishErr) \<leftarrow> finish_attempt svc o1 attempt target TransitionTriggerCancel venueOrder [] None;
          (case finishErr of
             Some fe \<Rightarrow> do {
               _ \<leftarrow> mark_uncertain svc o2 (''CANCEL_RESULT_PERSIST_FAILED: '' @ error_text fe);
               State_Monad.return (o2, Some fe) }
           | None \<Rightarrow> cancel_observed svc o2 venueOrder) }) }"

definition service_cancel :: "'w service \<Rightarrow> string \<Rightarrow> ('w sys, order \<times> err) state" where
  "service_cancel svc orderID = do {
     found \<leftarrow> service_get orderID;
     (case found of
        Inl e \<Rightarrow> State_Monad.return (zero_order, Some e)
      | Inr o1 \<Rightarrow>
      (case require_managed_account svc (oi_execution_account_id (o_intent o1)) of
         Some e \<Rightarrow> State_Monad.return (o1, Some e)
       | None \<Rightarrow>
         if order_terminal o1 then State_Monad.return (o1, None)
         else if o_status o1 \<noteq> OrderStatusAcknowledged \<and> o_status o1 \<noteq> OrderStatusLive \<and> o_status o1 \<noteq> OrderStatusPartiallyFilled
         then State_Monad.return (o1, Some (ErrWrap (sentinel_text ErrOrderNotCancelable @ '': '' @ status_text (o_status o1))
                [ErrSentinel ErrOrderNotCancelable]))
         else do {
           (o2, started) \<leftarrow> start_attempt svc o1 OrderStatusCancelPending OrderAttemptCancel TransitionTriggerCancel;
           (case started of
              Inl e \<Rightarrow> State_Monad.return (o2, Some (wrap_error ''start cancel attempt'' e))
            | Inr attempt \<Rightarrow> cancel_started svc o2 attempt) })) }"

definition complete_emulated_ioc :: "'w service \<Rightarrow> order \<Rightarrow> venue_order \<Rightarrow> ('w sys, order \<times> bool \<times> err) state" where
  "complete_emulated_ioc svc o1 observed =
     (if \<not> emulates_immediate_or_cancel svc o1 \<or> \<not> resting_venue_state (vo_state observed)
      then State_Monad.return (o1, False, None)
      else if o_status o1 \<noteq> OrderStatusAcknowledged \<and> o_status o1 \<noteq> OrderStatusLive \<and> o_status o1 \<noteq> OrderStatusPartiallyFilled
      then State_Monad.return (o1, False, None)
      else do {
        (cancelled, e) \<leftarrow> service_cancel svc (o_id o1);
        State_Monad.return (cancelled, True, map_option (wrap_error ''cancel emulated IOC remainder'') e) })"


section \<open>Submit\<close>

record submit_result =
  sb_order :: order
  sb_created :: bool

definition submit_with :: "order \<Rightarrow> bool \<Rightarrow> err \<Rightarrow> ('w sys, submit_result \<times> err) state" where
  "submit_with o1 created e = State_Monad.return (\<lparr>sb_order = o1, sb_created = created\<rparr>, e)"

definition finish_prepare_error :: "'w service \<Rightarrow> order \<Rightarrow> go_error \<Rightarrow> bool \<Rightarrow> ('w sys, submit_result \<times> err) state" where
  "finish_prepare_error svc o1 cause created = do {
     (o2, rejectErr) \<leftarrow> reject svc o1 (error_code cause ''VENUE_PREPARE_FAILED'') cause;
     (case rejectErr of
        Some e \<Rightarrow> do {
          u \<leftarrow> mark_uncertain svc o2 (''PREPARE_REJECTION_PERSIST_FAILED: '' @ error_text e);
          submit_with o2 created (errors_join [Some (wrap_error ''prepare venue order'' cause), Some e, u]) }
      | None \<Rightarrow> do {
          releaseErr \<leftarrow> reconcile_assets svc o2;
          submit_with o2 created (errors_join [Some (wrap_error ''prepare venue order'' cause), releaseErr]) }) }"

definition finish_submit_error ::
    "'w service \<Rightarrow> order \<Rightarrow> order_attempt \<Rightarrow> go_error \<Rightarrow> bool \<Rightarrow> ('w sys, submit_result \<times> err) state" where
  "finish_submit_error svc o1 attempt cause created = do {
     let code = error_code cause ''VENUE_PLACE_OUTCOME_UNKNOWN'';
     let target = (if is_definitive_rejection cause then OrderStatusRejected else OrderStatusUnknown);
     let outcome = (if is_definitive_rejection cause then AttemptOutcomeRejected else AttemptOutcomeUnknown);
     observedAt \<leftarrow> now_utc svc;
     (o2, finishErr) \<leftarrow> finish_attempt_with_outcome svc o1 (attempt\<lparr>at_outcome := outcome\<rparr>) target TransitionTriggerVenueResponse
       (zero_venue_order\<lparr>vo_id := venue_order_id_from_error cause, vo_state := VenueOrderUnknown, vo_raw_status := code,
          vo_filled_size := ''0'', vo_observed_at := observedAt\<rparr>) code (Some cause) outcome;
     (case finishErr of
        Some e \<Rightarrow> submit_with o2 created (errors_join [Some (wrap_error ''place venue order'' cause), Some e])
      | None \<Rightarrow>
          if target = OrderStatusUnknown then do {
            u \<leftarrow> mark_uncertain svc o2 (code @ '': '' @ error_text cause);
            trigger_reconciliation svc o2 ReconciliationTriggerOrderUnknown;
            submit_with o2 created (errors_join [Some (wrap_error ''place venue order'' cause), u]) }
          else do {
            r \<leftarrow> reconcile_assets svc o2;
            (if code = ''CLOB_INSUFFICIENT_BALANCE_ALLOWANCE''
             then trigger_reconciliation svc o2 ReconciliationTriggerAssetDrift else State_Monad.return ());
            submit_with o2 created (errors_join [Some (wrap_error ''place venue order'' cause), r]) }) }"

text \<open>\<open>submitReserved\<close> in the order of the source: gates, preparation, durable start, placement, outcome, fills.\<close>

definition submit_fills :: "'w service \<Rightarrow> order \<Rightarrow> venue_order \<Rightarrow> bool \<Rightarrow> ('w sys, submit_result \<times> err) state" where
  "submit_fills svc stored venueOrder created = do {
     (o2, pendingFillEvidence, syncErr) \<leftarrow> sync_observed_fills svc stored venueOrder;
     (case syncErr of
        Some e \<Rightarrow>
          if o_status o2 = OrderStatusCancelled then do {
            h \<leftarrow> hold_cancellation_finality svc o2 True;
            submit_with o2 created (errors_join [Some e, h]) }
          else do {
            u \<leftarrow> mark_uncertain svc o2 (''AUTHORITATIVE_FILL_SYNC_FAILED: '' @ error_text e);
            trigger_reconciliation svc o2 ReconciliationTriggerOrderUnknown;
            submit_with o2 created (errors_join [Some e, u]) }
      | None \<Rightarrow>
          if pendingFillEvidence \<and> o_status o2 \<noteq> OrderStatusCancelled then do {
            (o3, e) \<leftarrow> mark_fill_evidence_pending svc o2 ReconciliationTriggerOrderUnknown True;
            submit_with o3 created e }
          else if o_status o2 = OrderStatusUnknown then do {
            _ \<leftarrow> mark_uncertain svc o2 ''VENUE_RESPONSE_UNKNOWN'';
            trigger_reconciliation svc o2 ReconciliationTriggerOrderUnknown;
            submit_with o2 created None }
          else if o_status o2 = OrderStatusCancelled then do {
            h \<leftarrow> hold_cancellation_finality svc o2 True;
            submit_with o2 created h }
          else if o_status o2 \<noteq> OrderStatusAcknowledged \<and> \<not> sv_authoritative_fills svc then do {
            r \<leftarrow> reconcile_assets svc o2;
            (case r of
               None \<Rightarrow> submit_with o2 created None
             | Some e \<Rightarrow> do {
                 u \<leftarrow> mark_uncertain svc o2 (''INITIAL_RECONCILIATION_FAILED: '' @ error_text e);
                 submit_with o2 created (errors_join [Some (wrap_error ''reconcile initial asset reservation'' e), u]) }) }
          else submit_with o2 created None) }"

definition submit_acknowledged ::
    "'w service \<Rightarrow> order \<Rightarrow> order_attempt \<Rightarrow> venue_order \<Rightarrow> bool \<Rightarrow> ('w sys, submit_result \<times> err) state" where
  "submit_acknowledged svc stored attempt venueOrder created = do {
     (o2, ackErr) \<leftarrow> finish_attempt svc stored attempt OrderStatusAcknowledged TransitionTriggerVenueResponse
       (venueOrder\<lparr>vo_filled_size := o_filled_size stored, vo_average_fill_price := []\<rparr>) [] None;
     (case ackErr of
        Some e \<Rightarrow> do {
          u \<leftarrow> mark_uncertain svc o2 (''SUBMIT_ACK_PERSIST_FAILED: '' @ error_text e);
          submit_with o2 created (errors_join [Some e, u]) }
      | None \<Rightarrow> do {
          (o3, applyErr) \<leftarrow> (if vo_state venueOrder \<noteq> VenueOrderAcknowledged
             then apply_venue_state svc o2 venueOrder TransitionTriggerVenueResponse (at_id attempt)
             else State_Monad.return (o2, None));
          (case applyErr of
             Some e \<Rightarrow> do {
               (o4, unknownErr) \<leftarrow> force_unknown svc o3 ''INVALID_VENUE_RESPONSE'' e (vo_id venueOrder);
               u \<leftarrow> mark_uncertain svc o4 (''INVALID_VENUE_RESPONSE: '' @ error_text e);
               submit_with o4 created (errors_join [Some e, unknownErr, u]) }
           | None \<Rightarrow> do {
               (completed, acted, e) \<leftarrow> complete_emulated_ioc svc o3 venueOrder;
               (if acted then submit_with completed created e else submit_fills svc o3 venueOrder created) }) }) }"

definition submit_placed ::
    "'w service \<Rightarrow> order \<Rightarrow> order_attempt \<Rightarrow> venue_order \<Rightarrow> err \<Rightarrow> bool \<Rightarrow> ('w sys, submit_result \<times> err) state" where
  "submit_placed svc stored attempt venueOrder placeErr created =
     (case placeErr of
        Some e \<Rightarrow> finish_submit_error svc stored attempt e created
      | None \<Rightarrow>
        if trim_space (vo_id venueOrder) = []
        then finish_submit_error svc stored attempt
          (ErrVenue VenueErrorAmbiguous ''INVALID_VENUE_RESPONSE'' ''successful venue response omitted order id'' [] 0 0 None) created
        else case validate_venue_order venueOrder stored of
          Some e \<Rightarrow> finish_submit_error svc stored attempt
            (ErrVenue VenueErrorAmbiguous ''INVALID_VENUE_RESPONSE'' (error_text e) (vo_id venueOrder) 0 0 None) created
        | None \<Rightarrow>
          if vo_state venueOrder = VenueOrderRejected
          then finish_submit_error svc stored attempt
            (ErrVenue VenueErrorRejected ''CLOB_REJECTED'' (vo_raw_status venueOrder) [] 0 0 None) created
          else submit_acknowledged svc stored attempt venueOrder created)"

definition submit_start_failed :: "'w service \<Rightarrow> order \<Rightarrow> go_error \<Rightarrow> bool \<Rightarrow> ('w sys, submit_result \<times> err) state" where
  "submit_start_failed svc stored e created =
     (case errors_as_rejection e of
        Some (code, reason) \<Rightarrow> do {
          (o2, rejectErr) \<leftarrow> reject svc stored code (ErrRejection code reason);
          (case rejectErr of
             Some re \<Rightarrow> do {
               u \<leftarrow> mark_uncertain svc o2 (''LOCAL_SUBMIT_REJECTION_PERSIST_FAILED: '' @ error_text re);
               submit_with o2 created (errors_join [Some (wrap_error ''start submit attempt'' e), Some re, u]) }
           | None \<Rightarrow> do {
               r \<leftarrow> reconcile_assets svc o2;
               submit_with o2 created (errors_join [Some (wrap_error ''start submit attempt'' e), r]) }) }
      | None \<Rightarrow> do {
          u \<leftarrow> mark_uncertain svc stored (''SUBMIT_ATTEMPT_PERSIST_FAILED: '' @ error_text e);
          submit_with stored created (errors_join [Some (wrap_error ''start submit attempt'' e), u]) })"

text \<open>The durable start and the placement; \<open>prepared\<close> is the signed placement of a prepared venue.\<close>

definition submit_start ::
    "'w service \<Rightarrow> order \<Rightarrow> ('w prepared_venue \<times> prepared_placement) option \<Rightarrow> gtime option \<Rightarrow> bool \<Rightarrow>
     ('w sys, submit_result \<times> err) state" where
  "submit_start svc o1 prepared venueExpiresAt created = do {
     (o2, started) \<leftarrow> start_attempt_with_expiry svc o1 OrderStatusSubmitting OrderAttemptSubmit TransitionTriggerSubmit venueExpiresAt;
     (case started of
        Inl e \<Rightarrow> submit_start_failed svc o2 e created
      | Inr attempt \<Rightarrow> do {
          log_place o2;
          (venueOrder, placeErr) \<leftarrow> in_world (case prepared of
              Some (pv, p) \<Rightarrow> pv_place pv o2 p | None \<Rightarrow> v_place (sv_venue svc) o2);
          submit_placed svc o2 attempt venueOrder placeErr created }) }"

definition submit_reserved :: "'w service \<Rightarrow> order \<Rightarrow> bool \<Rightarrow> ('w sys, submit_result \<times> err) state" where
  "submit_reserved svc stored created =
     (case require_active_account svc (oi_execution_account_id (o_intent stored)) of
        Some e \<Rightarrow> submit_with stored created (Some e)
      | None \<Rightarrow>
      if entry_submission_blocked svc (oi_execution_account_id (o_intent stored)) (oi_side (o_intent stored)) then do {
        (o2, rejectErr) \<leftarrow> reject svc stored ''ENTRY_SUBMISSION_DISABLED'' entry_submission_disabled_error;
        (case rejectErr of
           Some e \<Rightarrow> do {
             u \<leftarrow> mark_uncertain svc o2 (''ENTRY_SUBMISSION_DISABLED_REJECTION_PERSIST_FAILED: '' @ error_text e);
             submit_with o2 created (errors_join [Some entry_submission_disabled_error, Some e, u]) }
         | None \<Rightarrow> do {
             r \<leftarrow> reconcile_assets svc o2;
             submit_with o2 created (errors_join [Some entry_submission_disabled_error, r]) }) }
      else
      (case v_prepared (sv_venue svc) of
         None \<Rightarrow>
           if sv_require_prepared_placement svc
           then submit_with stored created (Some (ErrText ''live execution venue does not support prepared placement''))
           else submit_start svc stored None None created
       | Some pv \<Rightarrow> do {
           prep \<leftarrow> in_world (pv_prepare pv stored);
           (case prep of
              Inl e \<Rightarrow> finish_prepare_error svc stored e created
            | Inr None \<Rightarrow> finish_prepare_error svc stored (ErrText ''prepared placement omitted expected venue order id'') created
            | Inr (Some p) \<Rightarrow>
                (let expected = trim_space (pp_expected_venue_order_id p) in
                 if expected = []
                 then finish_prepare_error svc stored (ErrText ''prepared placement omitted expected venue order id'') created
                 else if o_venue_order_id stored \<noteq> [] \<and> o_venue_order_id stored \<noteq> expected
                 then finish_prepare_error svc stored (ErrText (''prepared venue order id changed from '' @
                   quoted (o_venue_order_id stored) @ '' to '' @ quoted expected)) created
                 else submit_start svc (stored\<lparr>o_venue_order_id := expected\<rparr>) (Some (pv, p)) (prepared_venue_expiry p) created)) }))"


text \<open>The reservation turn a batched caller attaches to its context; waiting may end with the context's error.\<close>

record 'w turn_port =
  tp_wait :: "('w, err) state"
  tp_release :: "('w, unit) state"

definition release_turn_port :: "'w turn_port option \<Rightarrow> ('w sys, unit) state" where
  "release_turn_port turn = (case turn of None \<Rightarrow> State_Monad.return () | Some tp \<Rightarrow> in_world (tp_release tp))"

definition expired_at :: "gtime option \<Rightarrow> gtime \<Rightarrow> bool" where
  "expired_at expiresAt now = (case expiresAt of None \<Rightarrow> False | Some t \<Rightarrow> \<not> t > now)"

definition submit_reserve ::
    "'w service \<Rightarrow> 'w turn_port option \<Rightarrow> order \<Rightarrow> ('w sys, submit_result \<times> err) state" where
  "submit_reserve svc turn stored = do {
     waitErr \<leftarrow> (case turn of None \<Rightarrow> State_Monad.return None | Some tp \<Rightarrow> in_world (tp_wait tp));
     reserveErr \<leftarrow> (case waitErr of Some e \<Rightarrow> State_Monad.return (Some e) | None \<Rightarrow> reserve_assets svc stored);
     release_turn_port turn;
     (case reserveErr of
        Some e \<Rightarrow> do {
          (o2, rejectErr) \<leftarrow> reject svc stored (error_code e ''ASSET_RESERVATION_FAILED'') e;
          submit_with o2 True (errors_join [Some (wrap_error ''reserve order assets'' e), rejectErr]) }
      | None \<Rightarrow> do {
          (o2, persistErr) \<leftarrow> service_transition svc stored OrderStatusReserved TransitionTriggerReservation no_details;
          (case persistErr of
             Some e \<Rightarrow> do {
               u \<leftarrow> mark_uncertain svc o2 (''RESERVATION_STATUS_PERSIST_FAILED: '' @ error_text e);
               submit_with o2 True (errors_join [Some (wrap_error ''persist reserved order'' e), u]) }
           | None \<Rightarrow> submit_reserved svc o2 True) }) }"

definition submit_created ::
    "'w service \<Rightarrow> 'w turn_port option \<Rightarrow> order_intent \<Rightarrow> order \<Rightarrow> ('w sys, submit_result \<times> err) state" where
  "submit_created svc turn intent stored = do {
     (o2, beginErr) \<leftarrow> service_transition svc stored OrderStatusValidating TransitionTriggerValidation no_details;
     (case beginErr of
        Some e \<Rightarrow> submit_with o2 True (Some (wrap_error ''begin validation'' e))
      | None \<Rightarrow> do {
          expired \<leftarrow> (case oi_expires_at intent of None \<Rightarrow> State_Monad.return False
            | Some t \<Rightarrow> do { now \<leftarrow> now_utc svc; State_Monad.return (expired_at (Some t) now) });
          (if expired then do {
             (o3, rejectErr) \<leftarrow> reject svc o2 ''INTENT_EXPIRED'' (ErrSentinel ErrIntentExpired);
             submit_with o3 True (errors_join [Some (ErrSentinel ErrIntentExpired), rejectErr]) }
           else do {
             guardErr \<leftarrow> in_world (sv_guard svc intent);
             (case guardErr of
                Some e \<Rightarrow> do {
                  (o3, rejectErr) \<leftarrow> reject svc o2 (error_code e ''HARD_RISK_REJECTED'') e;
                  submit_with o3 True (errors_join [Some e, rejectErr]) }
              | None \<Rightarrow> do {
                  validation \<leftarrow> in_world (sv_market_validator svc intent);
                  (case validation of
                     Inl e \<Rightarrow> do {
                       (o3, rejectErr) \<leftarrow> reject svc o2 (error_code e ''MARKET_VALIDATION_FAILED'') e;
                       submit_with o3 True (errors_join [Some e, rejectErr]) }
                   | Inr v \<Rightarrow> submit_reserve svc turn (o2\<lparr>o_market_validation := Some v\<rparr>)) }) }) }) }"

definition submit_admitted ::
    "'w service \<Rightarrow> 'w turn_port option \<Rightarrow> order_intent \<Rightarrow> ('w sys, submit_result \<times> err) state" where
  "submit_admitted svc turn intent = do {
     existing \<leftarrow> read_repo (\<lambda>r. repo_get_by_client_order_id r (oi_client_order_id intent));
     (case existing of
        Inr o1 \<Rightarrow>
          if \<not> execution_intent_replay_equivalent (o_intent o1) intent
          then submit_with zero_order False (Some (ErrSentinel ErrIdempotencyConflict))
          else submit_with o1 False None
      | Inl e \<Rightarrow>
          if \<not> errors_is e ErrOrderNotFound then submit_with zero_order False (Some (wrap_error ''look up order intent'' e))
          else if entry_submission_blocked svc (oi_execution_account_id intent) (oi_side intent)
          then submit_with zero_order False (Some entry_submission_disabled_error)
          else do {
            now \<leftarrow> now_utc svc;
            ident \<leftarrow> in_world (sv_new_id svc);
            (case build_order ident intent now of
               Inl be \<Rightarrow> submit_with zero_order False (Some (wrap_error ''build order'' be))
             | Inr order \<Rightarrow> do {
                 (stored, created) \<leftarrow> in_repo (repo_create order);
                 (if \<not> created then
                    (if \<not> execution_intent_replay_equivalent (o_intent stored) intent
                     then submit_with zero_order False (Some (ErrSentinel ErrIdempotencyConflict))
                     else submit_with stored False None)
                  else submit_created svc turn intent stored) }) }) }"

definition service_submit ::
    "'w service \<Rightarrow> 'w turn_port option \<Rightarrow> order_intent \<Rightarrow> ('w sys, submit_result \<times> err) state" where
  "service_submit svc turn intent0 =
     (let intent = intent_normalize intent0 in
      case intent_validate intent of
        Some e \<Rightarrow> submit_with zero_order False
          (Some (ErrWrap (sentinel_text ErrInvalidIntent @ '': '' @ error_text e) [ErrSentinel ErrInvalidIntent]))
      | None \<Rightarrow>
        if oi_venue intent \<noteq> to_lower (trim_space (v_name (sv_venue svc)))
        then submit_with zero_order False
          (Some (ErrWrap (sentinel_text ErrInvalidIntent @ '': venue '' @ quoted (oi_venue intent) @ '' is not served by '' @
             quoted (v_name (sv_venue svc))) [ErrSentinel ErrInvalidIntent]))
        else case require_active_account svc (oi_execution_account_id intent) of
          Some e \<Rightarrow> submit_with zero_order False (Some e)
        | None \<Rightarrow> do {
            res \<leftarrow> submit_admitted svc turn intent;
            release_turn_port turn;
            State_Monad.return res })"


section \<open>Resume\<close>

definition resume_reserved :: "'w service \<Rightarrow> order \<Rightarrow> ('w sys, order \<times> err) state" where
  "resume_reserved svc o1 = do {
     expired \<leftarrow> (case oi_expires_at (o_intent o1) of None \<Rightarrow> State_Monad.return False
       | Some t \<Rightarrow> do { now \<leftarrow> now_utc svc; State_Monad.return (expired_at (Some t) now) });
     (if expired then do {
        (o2, rejectErr) \<leftarrow> reject svc o1 ''INTENT_EXPIRED'' (ErrSentinel ErrIntentExpired);
        (case rejectErr of
           Some e \<Rightarrow> State_Monad.return (o2, Some e)
         | None \<Rightarrow> do {
             r \<leftarrow> reconcile_assets svc o2;
             State_Monad.return (o2, errors_join [Some (ErrSentinel ErrIntentExpired), r]) }) }
      else do {
        validation \<leftarrow> in_world (sv_market_validator svc (o_intent o1));
        (case validation of
           Inl e \<Rightarrow> do {
             (o2, rejectErr) \<leftarrow> reject svc o1 (error_code e ''MARKET_REVALIDATION_FAILED'') e;
             (case rejectErr of
                Some re \<Rightarrow> State_Monad.return (o2, errors_join [Some e, Some re])
              | None \<Rightarrow> do {
                  r \<leftarrow> reconcile_assets svc o2;
                  State_Monad.return (o2, errors_join [Some e, r]) }) }
         | Inr v \<Rightarrow> do {
             (o2, persistErr) \<leftarrow> service_transition svc (o1\<lparr>o_market_validation := Some v\<rparr>)
               OrderStatusReserved TransitionTriggerValidation no_details;
             (case persistErr of
                Some e \<Rightarrow> State_Monad.return (o2, Some e)
              | None \<Rightarrow> do {
                  (res, e) \<leftarrow> submit_reserved svc o2 False;
                  State_Monad.return (sb_order res, e) }) }) }) }"

text \<open>The \<open>VALIDATING\<close> block of \<open>Resume\<close>; the boolean says whether the caller returns at once.\<close>

definition resume_validating :: "'w service \<Rightarrow> order \<Rightarrow> ('w sys, order \<times> bool \<times> err) state" where
  "resume_validating svc o1 = do {
     expired \<leftarrow> (case oi_expires_at (o_intent o1) of None \<Rightarrow> State_Monad.return False
       | Some t \<Rightarrow> do { now \<leftarrow> now_utc svc; State_Monad.return (expired_at (Some t) now) });
     (if expired then do {
        (o2, rejectErr) \<leftarrow> reject svc o1 ''INTENT_EXPIRED'' (ErrSentinel ErrIntentExpired);
        State_Monad.return (o2, True, errors_join [Some (ErrSentinel ErrIntentExpired), rejectErr]) }
      else do {
        guardErr \<leftarrow> in_world (sv_guard svc (o_intent o1));
        (case guardErr of
           Some e \<Rightarrow> do {
             (o2, rejectErr) \<leftarrow> reject svc o1 (error_code e ''HARD_RISK_REJECTED'') e;
             State_Monad.return (o2, True, errors_join [Some e, rejectErr]) }
         | None \<Rightarrow> do {
             validation \<leftarrow> in_world (sv_market_validator svc (o_intent o1));
             (case validation of
                Inl e \<Rightarrow> do {
                  (o2, rejectErr) \<leftarrow> reject svc o1 (error_code e ''MARKET_VALIDATION_FAILED'') e;
                  State_Monad.return (o2, True, errors_join [Some e, rejectErr]) }
              | Inr v \<Rightarrow> do {
                  let o2 = o1\<lparr>o_market_validation := Some v\<rparr>;
                  reserveErr \<leftarrow> reserve_assets svc o2;
                  (case reserveErr of
                     Some e \<Rightarrow> do {
                       (o3, rejectErr) \<leftarrow> reject svc o2 (error_code e ''ASSET_RESERVATION_FAILED'') e;
                       State_Monad.return (o3, True, errors_join [Some e, rejectErr]) }
                   | None \<Rightarrow> do {
                       (o3, persistErr) \<leftarrow> service_transition svc o2 OrderStatusReserved TransitionTriggerReservation no_details;
                       (case persistErr of
                          Some e \<Rightarrow> do {
                            _ \<leftarrow> mark_uncertain svc o3 (''RESUME_RESERVATION_STATUS_FAILED: '' @ error_text e);
                            State_Monad.return (o3, True, Some e) }
                        | None \<Rightarrow> State_Monad.return (o3, False, None)) }) }) }) }) }"

definition service_resume :: "'w service \<Rightarrow> string \<Rightarrow> ('w sys, order \<times> err) state" where
  "service_resume svc orderID = do {
     found \<leftarrow> service_get orderID;
     (case found of
        Inl e \<Rightarrow> State_Monad.return (zero_order, Some e)
      | Inr o1 \<Rightarrow>
      (case require_active_account svc (oi_execution_account_id (o_intent o1)) of
         Some e \<Rightarrow> State_Monad.return (o1, Some e)
       | None \<Rightarrow>
         if order_terminal o1 then State_Monad.return (o1, None)
         else do {
           (o2, beginErr) \<leftarrow> (if o_status o1 = OrderStatusReceived
             then service_transition svc o1 OrderStatusValidating TransitionTriggerValidation no_details
             else State_Monad.return (o1, None));
           (case beginErr of
              Some e \<Rightarrow> State_Monad.return (o2, Some e)
            | None \<Rightarrow> do {
                (o3, stop, e) \<leftarrow> (if o_status o2 = OrderStatusValidating then resume_validating svc o2
                  else State_Monad.return (o2, False, None));
                (if stop then State_Monad.return (o3, e)
                 else if o_status o3 \<noteq> OrderStatusReserved
                 then State_Monad.return (o3, Some (ErrText (''order status '' @ status_text (o_status o3) @
                        '' cannot be resumed before submit'')))
                 else resume_reserved svc o3) }) })) }"


section \<open>Refresh\<close>

text \<open>After a failed venue read: evidence pending, order not found, and the ordinary case.\<close>

definition refresh_evidence_pending :: "'w service \<Rightarrow> order \<Rightarrow> venue_order \<Rightarrow> ('w sys, order \<times> err) state" where
  "refresh_evidence_pending svc o1 venueOrder = do {
     (o2, stillPending, syncErr) \<leftarrow> sync_observed_fills svc o1 venueOrder;
     (o3, transitionErr) \<leftarrow> (if stillPending \<and> o_status o2 \<noteq> OrderStatusUnknown
       then service_transition svc o2 OrderStatusUnknown TransitionTriggerReconciliation fill_evidence_details
       else State_Monad.return (o2, None));
     pendingErr \<leftarrow> (if stillPending \<or> syncErr \<noteq> None then mark_uncertain svc o3 ''VENUE_FILL_EVIDENCE_PENDING''
       else State_Monad.return None);
     State_Monad.return (o3, errors_join [syncErr, transitionErr,
       map_option (wrap_error ''retain reservation while confirmed fill evidence is pending'') pendingErr]) }"

definition refresh_order_not_found :: "'w service \<Rightarrow> order \<Rightarrow> go_error \<Rightarrow> ('w sys, order \<times> err) state" where
  "refresh_order_not_found svc o1 getErr = do {
     res \<leftarrow> sync_order svc (o_id o1);
     let syncErr = (case res of Inl e \<Rightarrow> Some e | Inr _ \<Rightarrow> None);
     refreshed \<leftarrow> read_repo (\<lambda>r. repo_get r (o_id o1));
     let reloadErr = (case refreshed of Inl e \<Rightarrow> Some e | Inr _ \<Rightarrow> None);
     let o2 = (case refreshed of Inl _ \<Rightarrow> o1 | Inr x \<Rightarrow> x);
     (if syncErr = None \<and> reloadErr = None \<and> o_status o2 = OrderStatusFilled then State_Monad.return (o2, None)
      else do {
        resolved \<leftarrow> (if syncErr = None \<and> reloadErr = None \<and> o_status o2 = OrderStatusUnknown
          then (case sv_unaccepted_resolver svc of
                  None \<Rightarrow> State_Monad.return None
                | Some f \<Rightarrow> do {
                    log_call (CallResolve o2);
                    answer \<leftarrow> in_both (f o2);
                    State_Monad.return (case answer of Inr (o3, True) \<Rightarrow> Some o3 | _ \<Rightarrow> None) })
          else State_Monad.return None);
        (case resolved of
           Some o3 \<Rightarrow> do {
             trigger_reconciliation svc o3 ReconciliationTriggerAssetDrift;
             State_Monad.return (o3, None) }
         | None \<Rightarrow> do {
             _ \<leftarrow> mark_uncertain svc o2 (''RECONCILE_FAILED: '' @ error_text getErr);
             State_Monad.return (o2, errors_join [Some (wrap_error ''get venue order'' getErr), syncErr, reloadErr]) }) }) }"

definition refresh_read_failed ::
    "'w service \<Rightarrow> order \<Rightarrow> order_attempt \<Rightarrow> venue_order \<Rightarrow> go_error \<Rightarrow> ('w sys, order \<times> err) state" where
  "refresh_read_failed svc o1 attempt venueOrder getErr = do {
     let code = error_code getErr ''RECONCILE_FAILED'';
     let fillEvidencePending = equal_fold (trim_space code) ''CLOB_FILL_DETAILS_UNAVAILABLE'';
     exhausted \<leftarrow> (if non_budgeted_reconcile_error getErr code then State_Monad.return False
       else do { n \<leftarrow> reconcile_attempt_count (o_id o1); State_Monad.return (n \<ge> sv_max_reconcile_attempts svc) });
     let target = (if exhausted then OrderStatusManualReview else OrderStatusUnknown);
     let outcome = (if exhausted then AttemptOutcomeFailed else AttemptOutcomeUnknown);
     readAt \<leftarrow> now_utc svc;
     placeholder \<leftarrow> (if fillEvidencePending then do {
         observedAt \<leftarrow> (if is_zero_time (vo_observed_at venueOrder) then now_utc svc
           else State_Monad.return (vo_observed_at venueOrder));
         State_Monad.return (venueOrder\<lparr>vo_state := VenueOrderUnknown,
           vo_id := first_non_empty [vo_id venueOrder, o_venue_order_id o1],
           vo_raw_status := first_non_empty [vo_raw_status venueOrder, code],
           vo_filled_size := (if dec_is_empty (vo_filled_size venueOrder) then o_filled_size o1 else vo_filled_size venueOrder),
           vo_observed_at := observedAt\<rparr>) }
       else State_Monad.return (zero_venue_order\<lparr>vo_id := o_venue_order_id o1, vo_state := VenueOrderUnknown,
           vo_raw_status := code, vo_filled_size := o_filled_size o1, vo_observed_at := readAt\<rparr>));
     (o2, finishErr) \<leftarrow> finish_attempt_with_outcome svc o1 attempt target TransitionTriggerReconciliation placeholder code
       (Some getErr) outcome;
     (case finishErr of
        Some e \<Rightarrow> State_Monad.return (o2, errors_join [Some (wrap_error ''get venue order'' getErr), Some e])
      | None \<Rightarrow>
          if target = OrderStatusUnknown then
            (if fillEvidencePending then refresh_evidence_pending svc o2 venueOrder
             else if code = ''CLOB_ORDER_NOT_FOUND'' \<and> sv_authoritative_fills svc then refresh_order_not_found svc o2 getErr
             else do {
               _ \<leftarrow> mark_uncertain svc o2 (''RECONCILE_FAILED: '' @ error_text getErr);
               State_Monad.return (o2, Some (wrap_error ''get venue order'' getErr)) })
          else State_Monad.return (o2, Some (wrap_error ''get venue order'' getErr))) }"

definition refresh_settled :: "'w service \<Rightarrow> order \<Rightarrow> ('w sys, order \<times> err) state" where
  "refresh_settled svc o1 =
     (if o_status o1 = OrderStatusUnknown \<or> o_status o1 = OrderStatusAcknowledged then do {
        _ \<leftarrow> mark_uncertain svc o1 ''RECONCILIATION_NOT_FINAL'';
        State_Monad.return (o1, None) }
      else if o_status o1 = OrderStatusCancelled then do {
        h \<leftarrow> hold_cancellation_finality svc o1 False;
        State_Monad.return (o1, h) }
      else if sv_authoritative_fills svc \<and> o_status o1 \<noteq> OrderStatusRejected then State_Monad.return (o1, None)
      else do {
        r \<leftarrow> reconcile_assets svc o1;
        (case r of
           None \<Rightarrow> State_Monad.return (o1, None)
         | Some e \<Rightarrow> do {
             u \<leftarrow> mark_uncertain svc o1 (''REFRESH_RESERVATION_RECONCILIATION_FAILED: '' @ error_text e);
             State_Monad.return (o1, errors_join [Some (wrap_error ''reconcile refreshed asset reservation'' e), u]) }) })"

definition refresh_observed :: "'w service \<Rightarrow> order \<Rightarrow> order_attempt \<Rightarrow> venue_order \<Rightarrow> ('w sys, order \<times> err) state" where
  "refresh_observed svc o1 attempt venueOrder = do {
     let target = (case status_for_venue_observation svc o1 (vo_state venueOrder) of Inl _ \<Rightarrow> OrderStatusUnknown | Inr s \<Rightarrow> s);
     (o2, finishErr) \<leftarrow> finish_attempt svc o1 attempt target TransitionTriggerReconciliation venueOrder [] None;
     (case finishErr of
        Some e \<Rightarrow> do {
          _ \<leftarrow> mark_uncertain svc o2 (''RECONCILE_PERSIST_FAILED: '' @ error_text e);
          State_Monad.return (o2, Some e) }
      | None \<Rightarrow> do {
          (completed, acted, iocErr) \<leftarrow> complete_emulated_ioc svc o2 venueOrder;
          (if acted then State_Monad.return (completed, iocErr)
           else do {
             (o3, pendingFillEvidence, syncErr) \<leftarrow> sync_observed_fills svc o2 venueOrder;
             (case syncErr of
                Some e \<Rightarrow>
                  if o_status o3 = OrderStatusCancelled then do {
                    h \<leftarrow> hold_cancellation_finality svc o3 False;
                    State_Monad.return (o3, errors_join [Some e, h]) }
                  else do {
                    (o4, pendingErr) \<leftarrow> mark_fill_evidence_pending svc o3 ReconciliationTriggerOrderUnknown False;
                    State_Monad.return (o4, errors_join [Some e, pendingErr]) }
              | None \<Rightarrow>
                  if pendingFillEvidence \<and> o_status o3 \<noteq> OrderStatusCancelled
                  then mark_fill_evidence_pending svc o3 ReconciliationTriggerOrderUnknown False
                  else refresh_settled svc o3) }) }) }"

definition refresh_reconcile :: "'w service \<Rightarrow> order \<Rightarrow> ('w sys, order \<times> err) state" where
  "refresh_reconcile svc o1 =
     (if o_status o1 \<notin> {OrderStatusUnknown, OrderStatusAcknowledged, OrderStatusLive, OrderStatusPartiallyFilled, OrderStatusCancelPending}
      then State_Monad.return (o1, Some (ErrText (''order status '' @ status_text (o_status o1) @ '' cannot be reconciled'')))
      else do {
        (o2, started) \<leftarrow> start_attempt svc o1 OrderStatusReconciling OrderAttemptReconcile TransitionTriggerReconciliation;
        (case started of
           Inl e \<Rightarrow> State_Monad.return (o2, Some (wrap_error ''start reconciliation attempt'' e))
         | Inr attempt \<Rightarrow> do {
             log_call (CallGet o2);
             (venueOrder, getErr) \<leftarrow> in_world (v_get (sv_venue svc) o2);
             (case getErr of
                Some e \<Rightarrow> refresh_read_failed svc o2 attempt venueOrder e
              | None \<Rightarrow> refresh_observed svc o2 attempt venueOrder) }) })"

definition service_refresh :: "'w service \<Rightarrow> string \<Rightarrow> ('w sys, order \<times> err) state" where
  "service_refresh svc orderID = do {
     found \<leftarrow> service_get orderID;
     (case found of
        Inl e \<Rightarrow> State_Monad.return (zero_order, Some e)
      | Inr o1 \<Rightarrow>
      (case require_managed_account svc (oi_execution_account_id (o_intent o1)) of
         Some e \<Rightarrow> State_Monad.return (o1, Some e)
       | None \<Rightarrow>
         if order_terminal o1 then State_Monad.return (o1, None)
         else do {
           inFlight \<leftarrow> (if o_status o1 = OrderStatusSubmitting then submit_in_flight svc o1 else State_Monad.return False);
           (if inFlight then State_Monad.return (o1, Some (ErrSentinel ErrSubmitInFlight))
            else do {
              (o2, forceErr) \<leftarrow> (if o_status o1 = OrderStatusSubmitting \<or> o_status o1 = OrderStatusReconciling
                then force_unknown svc o1 ''INCOMPLETE_SUBMIT_ATTEMPT''
                  (ErrText ''process recovered while submit attempt was still STARTED'') (o_venue_order_id o1)
                else State_Monad.return (o1, None));
              (case forceErr of
                 Some e \<Rightarrow> State_Monad.return (o2, Some e)
               | None \<Rightarrow> refresh_reconcile svc o2) }) })) }"


section \<open>Cancel finality\<close>

definition released_cancellation_matches :: "order \<Rightarrow> asset_reservation \<Rightarrow> bool" where
  "released_cancellation_matches o1 r \<longleftrightarrow>
     o_status o1 = OrderStatusCancelled \<and> rv_status r = ReservationStatusReleased \<and> rv_released_at r \<noteq> None \<and>
     rv_order_id r = o_id o1 \<and> rv_client_order_id r = oi_client_order_id (o_intent o1) \<and>
     rv_execution_account_id r = oi_execution_account_id (o_intent o1) \<and>
     rv_strategy_id r = oi_strategy_id (o_intent o1) \<and> rv_market_id r = oi_market_id (o_intent o1) \<and>
     rv_token_id r = oi_token_id (o_intent o1) \<and> rv_target_lot_id r = oi_target_lot_id (o_intent o1) \<and>
     rv_side r = oi_side (o_intent o1) \<and>
     dec_equal (rv_requested_shares r) (oi_size (o_intent o1)) \<and>
     dec_equal (rv_remaining_reserved_balance r) ''0'' \<and> dec_equal (rv_remaining_reserved_shares r) ''0'' \<and>
     dec_equal (rv_settled_shares r) (o_filled_size o1) \<and> dec_equal (rv_settled_notional r) (o_filled_notional o1) \<and>
     dec_equal (rv_settled_fees r) (o_total_fees o1)"

definition already_finalized_cancellation :: "'w service \<Rightarrow> order \<Rightarrow> ('w sys, bool \<times> order \<times> err) state" where
  "already_finalized_cancellation svc o1 =
     (case rm_get_order_reservation (sv_reservations svc) of
        None \<Rightarrow> State_Monad.return (False, o1, None)
      | Some reader \<Rightarrow> do {
          found \<leftarrow> in_world (reader (o_id o1));
          (case found of
             Inl e \<Rightarrow> State_Monad.return (False, o1, Some (wrap_error ''read cancellation reservation'' e))
           | Inr r \<Rightarrow>
             if rv_status r \<noteq> ReservationStatusReleased then State_Monad.return (False, o1, None)
             else if \<not> released_cancellation_matches o1 r
             then State_Monad.return (False, o1, Some (ErrText ''released cancellation reservation does not match order accounting''))
             else if \<not> sv_authoritative_fills svc then State_Monad.return (True, o1, None)
             else do {
               res \<leftarrow> sync_order svc (o_id o1);
               (case res of
                  Inl e \<Rightarrow> State_Monad.return (False, o1, Some (wrap_error ''sync finalized cancellation trades'' e))
                | Inr result \<Rightarrow>
                  if (\<exists>a \<in> set (sr_applications result). f_status (fa_fill a) \<noteq> FillStatusConfirmed)
                  then State_Monad.return (False, o1, Some (ErrSentinel ErrCancelFinalityPending))
                  else do {
                    reloaded \<leftarrow> read_repo (\<lambda>rp. repo_get rp (o_id o1));
                    (case reloaded of
                       Inl e \<Rightarrow> State_Monad.return (False, zero_order, Some (wrap_error ''reload finalized cancellation'' e))
                     | Inr o2 \<Rightarrow>
                       if o_status o2 = OrderStatusFilled then State_Monad.return (True, o2, None)
                       else do {
                         again \<leftarrow> in_world (reader (o_id o2));
                         (case again of
                            Inl e \<Rightarrow> State_Monad.return (False, o2, Some (wrap_error ''reload released reservation'' e))
                          | Inr r2 \<Rightarrow>
                            if \<not> released_cancellation_matches o2 r2
                            then State_Monad.return (False, o2, Some (ErrText ''finalized cancellation changed during trade synchronization''))
                            else State_Monad.return (True, o2, None)) }) }) }) })"

text \<open>Keep the reservation frozen, record why, and report \<open>errs\<close> with the outcome of both.\<close>

definition finality_held :: "'w service \<Rightarrow> order \<Rightarrow> string \<Rightarrow> string \<Rightarrow> string \<Rightarrow> go_error \<Rightarrow> bool \<Rightarrow> ('w sys, order \<times> err) state" where
  "finality_held svc o1 mark code reason e reportMark = do {
     u \<leftarrow> mark_uncertain svc o1 mark;
     (o2, deferErr) \<leftarrow> defer_cancellation_finality svc o1 code reason;
     State_Monad.return (o2, errors_join (if reportMark then [Some e, u, deferErr] else [Some e, deferErr])) }"

definition finality_release :: "'w service \<Rightarrow> order \<Rightarrow> ('w sys, order \<times> err) state" where
  "finality_release svc o1 = do {
     r \<leftarrow> reconcile_assets svc o1;
     (case r of
        None \<Rightarrow> State_Monad.return (o1, None)
      | Some e \<Rightarrow> finality_held svc o1 (''CANCEL_FINALITY_RECONCILIATION_FAILED: '' @ error_text e)
          ''CANCEL_FINALITY_RECONCILIATION_FAILED'' (error_text e) (wrap_error ''finalize cancelled reservation'' e) True) }"

definition grace_pending :: "gtime \<Rightarrow> order \<Rightarrow> duration \<Rightarrow> bool" where
  "grace_pending now o1 grace = (case o_venue_last_observed_at o1 of None \<Rightarrow> True | Some l \<Rightarrow> now - l < grace)"

definition retired_cancellation_min_age :: duration where
  "retired_cancellation_min_age = 10 * minute"

text \<open>The loop over the applications of the trade feed: the running total, or the reason to wait.\<close>

fun retired_total :: "rat \<Rightarrow> fill_application list \<Rightarrow> string + rat" where
  "retired_total acc [] = Inr acc"
| "retired_total acc (a # as) =
     (if f_status (fa_fill a) \<noteq> FillStatusConfirmed \<or> \<not> fa_duplicate a
      then Inl ''trade feed contains a fill that is not confirmed and already applied''
      else case rat_set_string (f_shares (fa_fill a)) of
        None \<Rightarrow> Inl ''trade feed fill size is not a decimal''
      | Some shares \<Rightarrow> retired_total (acc + shares) as)"

definition retired_pending :: "'w service \<Rightarrow> order \<Rightarrow> string \<Rightarrow> ('w sys, order \<times> err) state" where
  "retired_pending svc o1 reason =
     finality_held svc o1 (''CANCEL_FINALITY_RETIRED_ORDER_EVIDENCE_PENDING: '' @ reason)
       ''CANCEL_FINALITY_RETIRED_ORDER_EVIDENCE_PENDING'' reason (ErrSentinel ErrCancelFinalityPending) False"

definition retired_synced :: "'w service \<Rightarrow> order \<Rightarrow> fill_sync_result \<Rightarrow> ('w sys, order \<times> err) state" where
  "retired_synced svc o1 result = do {
     refreshed \<leftarrow> read_repo (\<lambda>r. repo_get r (o_id o1));
     (case refreshed of
        Inl e \<Rightarrow> State_Monad.return (o1, Some (wrap_error (''reload order '' @ o_id o1 @ '' after retired-order fill sync'') e))
      | Inr o2 \<Rightarrow>
        if o_status o2 = OrderStatusFilled then State_Monad.return (o2, None)
        else if o_status o2 \<noteq> OrderStatusCancelled
        then retired_pending svc o2 ''order left the cancelled state during fill synchronization''
        else if sr_observed result = 0 \<or> sr_applied result \<noteq> 0 \<or> int (length (sr_applications result)) \<noteq> sr_observed result
        then retired_pending svc o2 ''trade feed has not shown a stable, fully applied fill set''
        else case retired_total 0 (sr_applications result) of
          Inl reason \<Rightarrow> retired_pending svc o2 reason
        | Inr acc \<Rightarrow>
          if rat_set_string (o_filled_size o2) \<noteq> Some acc
          then finality_held svc o2 ''CANCEL_FINALITY_FILL_TOTAL_MISMATCH'' ''CANCEL_FINALITY_FILL_TOTAL_MISMATCH''
            ''trade feed and local cumulative fill totals do not match'' (ErrSentinel ErrCancelFinalityPending) False
          else finality_release svc o2) }"

definition finalize_retired_cancellation :: "'w service \<Rightarrow> order \<Rightarrow> go_error \<Rightarrow> ('w sys, order \<times> err) state" where
  "finalize_retired_cancellation svc o1 getErr = do {
     let readFailed = finality_held svc o1 (''CANCEL_FINALITY_ORDER_READ_FAILED: '' @ error_text getErr)
       ''CANCEL_FINALITY_ORDER_READ_FAILED'' (error_text getErr)
       (wrap_error ''read cancelled venue order before finality'' getErr) True;
     (if cmp_fails (dec_sign (o_filled_size o1)) (\<lambda>k. k \<le> 0) \<or> o_venue_last_observed_at o1 = None then readFailed
      else do {
        now \<leftarrow> now_utc svc;
        (if grace_pending now o1 (max (sv_cancel_fill_finality_grace svc) retired_cancellation_min_age) then readFailed
         else do {
           res \<leftarrow> sync_order svc (o_id o1);
           (case res of
              Inl syncErr \<Rightarrow> do {
                refreshed \<leftarrow> read_repo (\<lambda>r. repo_get r (o_id o1));
                let o2 = (case refreshed of Inl _ \<Rightarrow> o1 | Inr x \<Rightarrow> x);
                (if is_fill_evidence_pending_error syncErr
                 then retired_pending svc o2 ''authoritative fill details are not visible yet''
                 else finality_held svc o2 (''CANCEL_FINALITY_FILL_SYNC_FAILED: '' @ error_text syncErr)
                   ''CANCEL_FINALITY_FILL_SYNC_FAILED'' (error_text syncErr)
                   (wrap_error ''sync retired cancelled order fills'' syncErr) True) }
            | Inr result \<Rightarrow> retired_synced svc o1 result) }) }) }"

definition finalize_after_sync :: "'w service \<Rightarrow> order \<Rightarrow> venue_order \<Rightarrow> bool \<Rightarrow> err \<Rightarrow> ('w sys, order \<times> err) state" where
  "finalize_after_sync svc o1 observed pending syncErr =
     (case syncErr of
        Some e \<Rightarrow> finality_held svc o1 (''CANCEL_FINALITY_FILL_SYNC_FAILED: '' @ error_text e)
          ''CANCEL_FINALITY_FILL_SYNC_FAILED'' (error_text e) (wrap_error ''sync cancelled venue order fills'' e) True
      | None \<Rightarrow>
        if pending
        then finality_held svc o1 ''VENUE_FILL_EVIDENCE_PENDING'' ''VENUE_FILL_EVIDENCE_PENDING''
          ''authoritative fill details are not visible yet'' (ErrSentinel ErrCancelFinalityPending) False
        else if cmp_fails (dec_compare (zero_if_empty (vo_filled_size observed)) (zero_if_empty (o_filled_size o1))) (\<lambda>k. k \<noteq> 0)
        then finality_held svc o1 ''CANCEL_FINALITY_FILL_TOTAL_MISMATCH'' ''CANCEL_FINALITY_FILL_TOTAL_MISMATCH''
          ''venue and local cumulative fill totals do not match'' (ErrSentinel ErrCancelFinalityPending) False
        else if o_status o1 = OrderStatusFilled then State_Monad.return (o1, None)
        else do {
          pendingGrace \<leftarrow> (if o_status o1 \<noteq> OrderStatusCancelled \<or> o_venue_last_observed_at o1 = None then State_Monad.return True
            else do { now \<leftarrow> now_utc svc; State_Monad.return (grace_pending now o1 (sv_cancel_fill_finality_grace svc)) });
          (if pendingGrace then do {
             (o2, deferErr) \<leftarrow> defer_cancellation_finality svc o1 ''CANCEL_FINALITY_GRACE_PENDING''
               ''authoritative venue observation is still inside the fill-finality grace period'';
             State_Monad.return (o2, errors_join [Some (ErrSentinel ErrCancelFinalityPending), deferErr]) }
           else finality_release svc o1) })"

definition finalize_authoritative :: "'w service \<Rightarrow> order \<Rightarrow> ('w sys, order \<times> err) state" where
  "finalize_authoritative svc o1 = do {
     log_call (CallGet o1);
     (observed, getErr) \<leftarrow> in_world (v_get (sv_venue svc) o1);
     (case getErr of
        Some e \<Rightarrow>
          if error_code e [] = ''CLOB_ORDER_NOT_FOUND'' then finalize_retired_cancellation svc o1 e
          else finality_held svc o1 (''CANCEL_FINALITY_ORDER_READ_FAILED: '' @ error_text e)
            ''CANCEL_FINALITY_ORDER_READ_FAILED'' (error_text e) (wrap_error ''read cancelled venue order before finality'' e) True
      | None \<Rightarrow>
        (case validate_venue_order observed o1 of
           Some e \<Rightarrow> finality_held svc o1 (''CANCEL_FINALITY_INVALID_ORDER_EVIDENCE: '' @ error_text e)
             ''CANCEL_FINALITY_INVALID_ORDER_EVIDENCE'' (error_text e)
             (wrap_error ''validate cancelled venue order before finality'' e) True
         | None \<Rightarrow>
           if vo_state observed \<noteq> VenueOrderCancelled \<and> vo_state observed \<noteq> VenueOrderFilled
           then finality_held svc o1 ''CANCEL_FINALITY_VENUE_NOT_TERMINAL'' ''CANCEL_FINALITY_VENUE_NOT_TERMINAL''
             ''venue order has not reached a terminal state'' (ErrSentinel ErrCancelFinalityPending) False
           else do {
             (o2, pending, syncErr) \<leftarrow> sync_observed_fills svc o1 observed;
             finalize_after_sync svc o2 observed pending syncErr })) }"

definition service_finalize_cancellation :: "'w service \<Rightarrow> string \<Rightarrow> ('w sys, order \<times> err) state" where
  "service_finalize_cancellation svc orderID = do {
     found \<leftarrow> service_get orderID;
     (case found of
        Inl e \<Rightarrow> State_Monad.return (zero_order, Some e)
      | Inr o1 \<Rightarrow>
      (case require_managed_account svc (oi_execution_account_id (o_intent o1)) of
         Some e \<Rightarrow> State_Monad.return (o1, Some e)
       | None \<Rightarrow>
         if o_status o1 = OrderStatusFilled then State_Monad.return (o1, None)
         else if o_status o1 \<noteq> OrderStatusCancelled
         then State_Monad.return (o1, Some (ErrText (''order status '' @ status_text (o_status o1) @ '' is not awaiting cancel finality'')))
         else do {
           (finalized, current, e) \<leftarrow> already_finalized_cancellation svc o1;
           (if e \<noteq> None \<or> finalized then State_Monad.return (current, e)
            else if sv_authoritative_fills svc then finalize_authoritative svc o1
            else do {
              pendingGrace \<leftarrow> (if o_venue_last_observed_at o1 = None then State_Monad.return True
                else do { now \<leftarrow> now_utc svc; State_Monad.return (grace_pending now o1 (sv_cancel_fill_finality_grace svc)) });
              (if pendingGrace then do {
                 (o2, deferErr) \<leftarrow> defer_cancellation_finality svc o1 ''CANCEL_FINALITY_GRACE_PENDING''
                   ''cancellation fill-finality grace period has not elapsed'';
                 State_Monad.return (o2, errors_join [Some (ErrSentinel ErrCancelFinalityPending), deferErr]) }
               else finality_release svc o1) }) })) }"


section \<open>Construction\<close>

text \<open>
  \<open>Params\<close> with its optional dependencies. \<open>Now\<close> and \<open>NewID\<close> default to the system clock and to random ids,
  which are part of the world: the parameters \<open>system_now\<close> and \<open>system_new_id\<close>.
\<close>

record 'w params =
  pr_has_repository :: bool
  pr_venue :: "'w venue option"
  pr_guard :: "(order_intent \<Rightarrow> ('w, err) state) option"
  pr_market_validator :: "(order_intent \<Rightarrow> ('w, go_error + market_validation) state) option"
  pr_reservations :: "'w reservations option"
  pr_reconciliation :: "(string \<Rightarrow> reconciliation_trigger \<Rightarrow> string \<Rightarrow> ('w, unit) state) option"
  pr_fill_synchronizer :: "'w fill_synchronizer option"
  pr_authoritative_fills :: bool
  pr_cancel_fill_finality_grace :: duration
  pr_immediate_cancel_finality :: bool
  pr_max_reconcile_attempts :: int
  pr_account_scope :: "account_scope option"
  pr_entry_submission_disabled :: bool
  pr_entry_disabled_accounts :: "string list"
  pr_require_prepared_placement :: bool
  pr_submit_attempt_timeout :: duration
  pr_submit_in_flight_grace :: duration
  pr_unaccepted_resolver :: "'w unaccepted_resolver option"
  pr_now :: "('w, gtime) state option"
  pr_new_id :: "('w, string) state option"

definition default_if_zero :: "int \<Rightarrow> int \<Rightarrow> int" where
  "default_if_zero value d = (if value = 0 then d else value)"

definition validate_params :: "'w params \<Rightarrow> 'w venue \<Rightarrow> err" where
  "validate_params p venue =
     (let grace = default_if_zero (pr_cancel_fill_finality_grace p) (30 * second);
          attempts = default_if_zero (pr_max_reconcile_attempts p) 5;
          timeout = default_if_zero (pr_submit_attempt_timeout p) (60 * second);
          inFlight = default_if_zero (pr_submit_in_flight_grace p) (90 * second) in
      if trim_space (v_name venue) = [] then Some (ErrText ''execution venue name is required'')
      else if pr_require_prepared_placement p \<and> v_prepared venue = None
      then Some (ErrText ''live execution venue must support prepared placement'')
      else if pr_require_prepared_placement p \<and> pr_account_scope p = None
      then Some (ErrText ''live execution requires an explicit account scope'')
      else if pr_authoritative_fills p \<and> pr_fill_synchronizer p = None
      then Some (ErrText ''authoritative fills require a fill synchronizer'')
      else if pr_authoritative_fills p \<and> pr_immediate_cancel_finality p
      then Some (ErrText ''authoritative fills cannot use immediate cancel finality'')
      else if grace < second \<or> grace > 24 * hour
      then Some (ErrText ''cancel fill finality grace must be between one second and 24 hours'')
      else if attempts < 1 \<or> attempts > 100 then Some (ErrText ''max reconcile attempts must be between 1 and 100'')
      else if timeout < second \<or> timeout > 10 * minute
      then Some (ErrText ''submit attempt timeout must be between one second and 10 minutes'')
      else if inFlight \<le> timeout \<or> inFlight > 10 * minute
      then Some (ErrText ''submit in-flight grace must exceed the submit attempt timeout and be at most 10 minutes'')
      else None)"

definition new_service ::
    "('w, gtime) state \<Rightarrow> ('w, string) state \<Rightarrow> (order_attempt_kind \<Rightarrow> order \<Rightarrow> string) \<Rightarrow> 'w params \<Rightarrow>
     ('w, go_error + 'w service) state" where
  "new_service system_now system_new_id fingerprint p =
     (case (pr_venue p, pr_guard p, pr_market_validator p, pr_reservations p) of
        (Some venue, Some guard, Some validator, Some reservations) \<Rightarrow>
          if \<not> pr_has_repository p
          then State_Monad.return (Inl (ErrText ''execution repository, venue, guard, market validator, and asset reservations are required''))
          else (case validate_params p venue of
             Some e \<Rightarrow> State_Monad.return (Inl e)
           | None \<Rightarrow>
             (case normalize_entry_disabled_accounts (pr_entry_disabled_accounts p) of
                Inl e \<Rightarrow> State_Monad.return (Inl e)
              | Inr accounts \<Rightarrow> do {
                  let now = (case pr_now p of None \<Rightarrow> system_now | Some f \<Rightarrow> f);
                  startedAt \<leftarrow> now;
                  State_Monad.return (Inr
                    \<lparr>sv_venue = venue, sv_guard = guard, sv_market_validator = validator, sv_reservations = reservations,
                     sv_reconciliation = pr_reconciliation p, sv_fill_synchronizer = pr_fill_synchronizer p,
                     sv_authoritative_fills = pr_authoritative_fills p,
                     sv_cancel_fill_finality_grace = default_if_zero (pr_cancel_fill_finality_grace p) (30 * second),
                     sv_immediate_cancel_finality = pr_immediate_cancel_finality p,
                     sv_max_reconcile_attempts = default_if_zero (pr_max_reconcile_attempts p) 5,
                     sv_account_scope = pr_account_scope p,
                     sv_entry_submission_disabled = pr_entry_submission_disabled p,
                     sv_entry_disabled_accounts = accounts,
                     sv_require_prepared_placement = pr_require_prepared_placement p,
                     sv_submit_attempt_timeout = default_if_zero (pr_submit_attempt_timeout p) (60 * second),
                     sv_submit_in_flight_grace = default_if_zero (pr_submit_in_flight_grace p) (90 * second),
                     sv_unaccepted_resolver = pr_unaccepted_resolver p, sv_process_started_at = startedAt,
                     sv_now = now, sv_new_id = (case pr_new_id p of None \<Rightarrow> system_new_id | Some f \<Rightarrow> f),
                     sv_attempt_fingerprint = fingerprint\<rparr>) }))
      | _ \<Rightarrow> State_Monad.return (Inl (ErrText ''execution repository, venue, guard, market validator, and asset reservations are required'')))"

end
