(* ===== verification/Execution_Logic.thy ===== *)
theory Execution_Logic
  imports Execution
begin

text \<open>
  Reasoning about the execution service once and for all. The locales list what an invariant \<open>I\<close> of the
  system, together with a condition \<open>T\<close> on the local copy of an order, must satisfy at the points where the
  service touches the repository, the trace or another component; inside them one rule per definition
  carries \<open>I\<close> and \<open>T\<close> through every operation. The theories of properties interpret the locales for the
  invariants they need.
\<close>

section \<open>What the service establishes before a critical call\<close>

text \<open>The order has been written in its current version together with an open attempt of the given kind.\<close>

definition durable :: "order_attempt_kind \<Rightarrow> order \<Rightarrow> repo \<Rightarrow> bool" where
  "durable kind o1 r \<longleftrightarrow>
     (case map_of (r_by_id r) (o_id o1) of
        None \<Rightarrow> False
      | Some cur \<Rightarrow> o_status cur = o_status o1 \<and> o_revision cur = o_revision o1) \<and>
     (\<exists>a \<in> set (attempts_of r (o_id o1)). at_kind a = kind \<and> at_outcome a = AttemptOutcomeStarted \<and>
        at_completed_at a = None \<and> at_venue_order_id a = trim_space (o_venue_order_id o1))"

definition gates_open :: "'w service \<Rightarrow> order \<Rightarrow> bool" where
  "gates_open svc o1 \<longleftrightarrow>
     require_active_account svc (oi_execution_account_id (o_intent o1)) = None \<and>
     \<not> entry_submission_blocked svc (oi_execution_account_id (o_intent o1)) (oi_side (o_intent o1))"

text \<open>When a reservation may be settled or released.\<close>

definition may_reconcile :: "'w service \<Rightarrow> order \<Rightarrow> bool" where
  "may_reconcile svc o1 \<longleftrightarrow> o_status o1 \<noteq> OrderStatusUnknown \<and>
     (sv_authoritative_fills svc \<longrightarrow> o_status o1 = OrderStatusCancelled \<or> o_status o1 = OrderStatusRejected)"

definition attempt_of :: "order \<Rightarrow> order_attempt \<Rightarrow> bool" where
  "attempt_of o1 a \<longleftrightarrow> at_id a = trim_space (''attempt:'' @ o_id o1 @ '':'' @ show_int (at_sequence a)) \<and>
     at_order_id a = trim_space (o_id o1) \<and> 1 \<le> at_sequence a"

definition side_normal :: "order \<Rightarrow> bool" where
  "side_normal o1 \<longleftrightarrow> to_upper (trim_space (oi_side (o_intent o1))) = oi_side (o_intent o1)"

lemma side_normal_applied: "apply_transition o1 t = Inr (o2, e) \<Longrightarrow> side_normal o2"
  by (drule apply_transition_fields) (simp add: side_normal_def)

lemma gates_open_applied:
  assumes "apply_transition o1 t = Inr (o2, e)" "side_normal o1"
  shows "gates_open svc o2 = gates_open svc o1"
  using apply_transition_fields(7) [OF assms(1)] assms(2)
  by (simp add: gates_open_def side_normal_def require_active_account_def entry_submission_blocked_def scope_is_active_def
      split: option.split)

lemma observation_without_data:
  assumes "apply_venue_observation o1 t = Inr o2" "tr_venue_order_id t = []"
  shows "o_venue_order_id o2 = o_venue_order_id o1"
  using assms unfolding apply_venue_observation_def and_then_Inr
  by (auto simp: observe_venue_order_id_def Let_def dest!: observe_time_Inr observe_filled_size_Inr
      observe_filled_notional_Inr observe_total_fees_Inr observe_average_price_Inr)

lemma apply_keeps_venue_id:
  assumes "apply_transition o1 t = Inr (o2, e)" "tr_venue_order_id t = []"
  shows "o_venue_order_id o2 = o_venue_order_id o1"
  using assms observation_without_data [of "clone_order o1" t] by (auto simp: apply_transition_Inr order_after_def)

lemma build_attempt_Inr:
  assumes "build_attempt i k n kind fp v st ex = Inr a"
  shows "at_id a = trim_space i" "at_order_id a = trim_space k" "at_sequence a = n" "1 \<le> n" "at_kind a = kind"
    "at_outcome a = AttemptOutcomeStarted" "at_completed_at a = None" "at_venue_order_id a = trim_space v"
  using assms by (auto simp: build_attempt_def Let_def split: if_splits)

lemma start_durable:
  assumes "repo_start_attempt nxt e a r = (None, r')" "at_outcome a = AttemptOutcomeStarted"
    "at_completed_at a = None" "at_venue_order_id a = trim_space (o_venue_order_id nxt)"
  shows "durable (at_kind a) nxt r'"
  using repo_start_attempt_cases(1) [OF assms(1)] assms(2-) by (auto simp: durable_def)

lemma attempt_of_cong: "o_id o2 = o_id o1 \<Longrightarrow> attempt_of o2 a = attempt_of o1 a"
  by (simp add: attempt_of_def)

lemma attempt_of_finished [simp]: "attempt_of o1 (finished_attempt a x c v rc ca) = attempt_of o1 a"
  "attempt_of o1 (a\<lparr>at_outcome := x\<rparr>) = attempt_of o1 a"
  by (simp_all add: attempt_of_def finished_attempt_def)


section \<open>Writes and harmless calls\<close>

text \<open>
  \<open>I\<close> is kept by every audited write and by every call other than a placement or a settlement; \<open>T\<close> holds of
  orders read from the repository and of their accepted successors.
\<close>

locale service_writes =
  fixes svc :: "'w service"
    and I :: "'w sys \<Rightarrow> bool"
    and T :: "order \<Rightarrow> repo \<Rightarrow> bool"
  assumes inv_world: "I s \<Longrightarrow> I (s\<lparr>sys_world := w\<rparr>)"
    and inv_log: "I s \<Longrightarrow> (\<And>o1. c \<noteq> CallReconcile o1) \<Longrightarrow> (\<And>o1 r. c \<noteq> CallPlace o1 r) \<Longrightarrow>
      I (s\<lparr>sys_calls := sys_calls s @ [c]\<rparr>)"
    and inv_sync: "I s \<Longrightarrow> sv_fill_synchronizer svc = Some f \<Longrightarrow>
      run_state (f k) (sys_repo s, w) = (x, r', w') \<Longrightarrow>
      I (s\<lparr>sys_repo := r', sys_world := w'\<rparr>) \<and> (\<forall>o1. T o1 (sys_repo s) \<longrightarrow> T o1 r')"
    and inv_resolve: "I s \<Longrightarrow> sv_unaccepted_resolver svc = Some g \<Longrightarrow> T o2 (sys_repo s) \<Longrightarrow>
      run_state (g o2) (sys_repo s, w) = (y, r', w') \<Longrightarrow>
      I (s\<lparr>sys_repo := r', sys_world := w'\<rparr>) \<and> (\<forall>o1. T o1 (sys_repo s) \<longrightarrow> T o1 r')"
    and inv_get: "I s \<Longrightarrow> repo_get (sys_repo s) k = Inr o1 \<Longrightarrow> T o1 (sys_repo s)"
    and inv_transition: "I s \<Longrightarrow> T o1 (sys_repo s) \<Longrightarrow> apply_transition o1 t = Inr (nxt, ev) \<Longrightarrow>
      repo_transition nxt ev (sys_repo s) = (None, r') \<Longrightarrow> I (s\<lparr>sys_repo := r'\<rparr>) \<and> T nxt r'"
    and inv_start: "I s \<Longrightarrow> T o1 (sys_repo s) \<Longrightarrow> apply_transition o1 t = Inr (nxt, ev) \<Longrightarrow> attempt_of o1 a \<Longrightarrow>
      repo_start_attempt nxt ev a (sys_repo s) = (None, r') \<Longrightarrow> I (s\<lparr>sys_repo := r'\<rparr>) \<and> T nxt r'"
    and inv_finish: "I s \<Longrightarrow> T o1 (sys_repo s) \<Longrightarrow> apply_transition o1 t = Inr (nxt, ev) \<Longrightarrow> attempt_of o1 a \<Longrightarrow>
      repo_finish_attempt nxt ev a (sys_repo s) = (None, r') \<Longrightarrow> I (s\<lparr>sys_repo := r'\<rparr>) \<and> T nxt r'"
    and T_fields: "T (o1\<lparr>o_market_validation := mv\<rparr>) r = T o1 r" "T (o1\<lparr>o_venue_order_id := vid\<rparr>) r = T o1 r"
begin

lemma wp_in_world: "I s \<Longrightarrow> (\<And>x s'. I s' \<Longrightarrow> sys_repo s' = sys_repo s \<Longrightarrow> Q x s') \<Longrightarrow> wp (in_world m) Q s"
  by (auto simp: wp_def in_world_def inv_world split: prod.split)

lemma wp_now: "I s \<Longrightarrow> (\<And>x s'. I s' \<Longrightarrow> sys_repo s' = sys_repo s \<Longrightarrow> Q x s') \<Longrightarrow> wp (now_utc svc) Q s"
  unfolding now_utc_def by (rule wp_in_world)

lemma wp_read_repo: "Q (f (sys_repo s)) s \<Longrightarrow> wp (read_repo f) Q s"
  by (simp add: wp_def read_repo_def)

lemma wp_log_call:
  "I s \<Longrightarrow> (\<And>o1. c \<noteq> CallReconcile o1) \<Longrightarrow> (\<And>o1 r. c \<noteq> CallPlace o1 r) \<Longrightarrow>
   (\<And>s'. I s' \<Longrightarrow> sys_repo s' = sys_repo s \<Longrightarrow> Q () s') \<Longrightarrow> wp (log_call c) Q s"
  by (auto simp: wp_def log_call_def inv_log)

lemma wp_reserve: "I s \<Longrightarrow> (\<And>x s'. I s' \<Longrightarrow> sys_repo s' = sys_repo s \<Longrightarrow> Q x s') \<Longrightarrow> wp (reserve_assets svc o1) Q s"
  unfolding reserve_assets_def by (intro wp_rules wp_log_call wp_in_world) simp_all

lemma wp_mark: "I s \<Longrightarrow> (\<And>x s'. I s' \<Longrightarrow> sys_repo s' = sys_repo s \<Longrightarrow> Q x s') \<Longrightarrow> wp (mark_uncertain svc o1 r) Q s"
  unfolding mark_uncertain_def by (intro wp_rules wp_log_call wp_in_world) simp_all

lemma wp_trigger:
  "I s \<Longrightarrow> (\<And>s'. I s' \<Longrightarrow> sys_repo s' = sys_repo s \<Longrightarrow> Q () s') \<Longrightarrow> wp (trigger_reconciliation svc o1 t) Q s"
  unfolding trigger_reconciliation_def by (intro wp_rules wp_log_call wp_in_world) simp_all

lemma wp_sync:
  assumes "I s" "\<And>x s'. I s' \<Longrightarrow> (\<And>o1. T o1 (sys_repo s) \<Longrightarrow> T o1 (sys_repo s')) \<Longrightarrow> Q x s'"
  shows "wp (sync_order svc k) Q s"
  unfolding sync_order_def
proof (intro wp_rules wp_log_call)
  fix s' f assume s': "I s'" "sys_repo s' = sys_repo s" and f: "sv_fill_synchronizer svc = Some f"
  obtain x r w where r: "run_state (f k) (sys_repo s, sys_world s') = (x, r, w)" by (metis prod_cases3)
  show "wp (in_both (f k)) Q s'"
    using inv_sync [OF s'(1) f r [folded s'(2)]] assms(2) s'(2) by (simp add: wp_def in_both_def r)
qed (use assms in simp_all)

lemma wp_resolve:
  assumes "I s" "sv_unaccepted_resolver svc = Some g" "T o2 (sys_repo s)"
    "\<And>x s'. I s' \<Longrightarrow> (\<And>o1. T o1 (sys_repo s) \<Longrightarrow> T o1 (sys_repo s')) \<Longrightarrow> Q x s'"
  shows "wp (in_both (g o2)) Q s"
proof -
  obtain x r w where r: "run_state (g o2) (sys_repo s, sys_world s) = (x, r, w)" by (metis prod_cases3)
  show ?thesis using inv_resolve [OF assms(1-3) r] assms(4) by (simp add: wp_def in_both_def r)
qed

text \<open>Audited writes either fail and change nothing, or install the next version.\<close>

lemma wp_write_transition:
  assumes "I s" "T o1 (sys_repo s)" "apply_transition o1 t = Inr (nxt, ev)"
    and "\<And>e. Q (Some e) s" "\<And>s'. I s' \<Longrightarrow> T nxt (sys_repo s') \<Longrightarrow> Q None s'"
  shows "wp (in_repo (repo_transition nxt ev)) Q s"
proof (cases "repo_transition nxt ev (sys_repo s)")
  case (Pair e r')
  show ?thesis
  proof (cases e)
    case None
    with Pair inv_transition [OF assms(1-3)] assms(5) show ?thesis by (simp add: wp_def in_repo_def)
  next
    case (Some x)
    with Pair repo_transition_cases(2) [of nxt ev "sys_repo s" x r'] assms(4) show ?thesis by (simp add: wp_def in_repo_def)
  qed
qed

lemma wp_service_transition:
  assumes "I s" "T o1 (sys_repo s)"
    and "\<And>e s'. I s' \<Longrightarrow> sys_repo s' = sys_repo s \<Longrightarrow> Q (o1, Some e) s'"
    and "\<And>o2 s'. I s' \<Longrightarrow> T o2 (sys_repo s') \<Longrightarrow> o_status o2 = target \<Longrightarrow> side_normal o2 \<Longrightarrow> Q (o2, None) s'"
  shows "wp (service_transition svc o1 target trigger d) Q s"
  unfolding service_transition_def build_transition_def
proof (intro wp_rules wp_now)
  fix now s' nxt ev z assume s': "I s'" "sys_repo s' = sys_repo s"
    and ap: "apply_transition o1 (transition_for svc o1 target trigger d now) = Inr z" "z = (nxt, ev)"
  have f: "o_status nxt = target" "side_normal nxt"
    using apply_transition_fields(3) side_normal_applied ap by (auto simp: transition_for_def Let_def)
  show "wp (in_repo (repo_transition nxt ev)) (\<lambda>x. wp (case x of None \<Rightarrow> State_Monad.return (nxt, None)
     | Some x \<Rightarrow> State_Monad.return (o1, Some x)) Q) s'"
    by (rule wp_write_transition [OF s'(1) _ ap(1) [unfolded ap(2)]])
       (use assms s' f in \<open>auto intro!: wp_return\<close>)
qed (use assms in simp_all)

lemma wp_write_start:
  assumes "I s" "T o1 (sys_repo s)" "apply_transition o1 t = Inr (nxt, ev)" "attempt_of o1 a"
    and "\<And>e. Q (Some e) s"
    and "\<And>s'. I s' \<Longrightarrow> T nxt (sys_repo s') \<Longrightarrow> repo_start_attempt nxt ev a (sys_repo s) = (None, sys_repo s') \<Longrightarrow> Q None s'"
  shows "wp (in_repo (repo_start_attempt nxt ev a)) Q s"
proof (cases "repo_start_attempt nxt ev a (sys_repo s)")
  case (Pair e r')
  show ?thesis
  proof (cases e)
    case None
    with Pair inv_start [OF assms(1-4)] assms(6) show ?thesis by (simp add: wp_def in_repo_def)
  next
    case (Some x)
    with Pair repo_start_attempt_cases(2) [of nxt ev a "sys_repo s" x r'] assms(5) show ?thesis by (simp add: wp_def in_repo_def)
  qed
qed

lemma wp_start_attempt:
  assumes "I s" "T o1 (sys_repo s)"
    and "\<And>e s'. I s' \<Longrightarrow> sys_repo s' = sys_repo s \<Longrightarrow> Q (o1, Inl e) s'"
    and "\<And>o2 a s'. I s' \<Longrightarrow> T o2 (sys_repo s') \<Longrightarrow> o_status o2 = target \<Longrightarrow> side_normal o2 \<Longrightarrow> attempt_of o2 a \<Longrightarrow>
      durable kind o2 (sys_repo s') \<Longrightarrow> (side_normal o1 \<Longrightarrow> gates_open svc o2 = gates_open svc o1) \<Longrightarrow> Q (o2, Inr a) s'"
  shows "wp (start_attempt_with_expiry svc o1 target kind trigger ex) Q s"
  unfolding start_attempt_with_expiry_def build_transition_def
proof (intro wp_rules wp_now wp_read_repo)
  fix as st a now s' s'' nxt ev z
  assume s': "I s'" "sys_repo s' = sys_repo s" "I s''" "sys_repo s'' = sys_repo s'"
    and b: "build_attempt (''attempt:'' @ o_id o1 @ '':'' @ show_int (int (length as) + 1)) (o_id o1) (int (length as) + 1)
      kind (sv_attempt_fingerprint svc kind o1) (o_venue_order_id o1) st ex = Inr a"
    and ap: "apply_transition o1 (transition_for svc o1 target trigger (no_details\<lparr>td_attempt_id := at_id a\<rparr>) now\<lparr>tr_at := st\<rparr>) = Inr z"
      "z = (nxt, ev)"
  note bf = build_attempt_Inr [OF b]
  have ao: "attempt_of o1 a" using bf by (simp add: attempt_of_def)
  have vid: "o_venue_order_id nxt = o_venue_order_id o1"
    by (rule apply_keeps_venue_id [OF ap(1) [unfolded ap(2)]]) (simp add: transition_for_def no_details_def Let_def)
  have f: "o_status nxt = target" "side_normal nxt" "attempt_of nxt a" "side_normal o1 \<Longrightarrow> gates_open svc nxt = gates_open svc o1"
    using apply_transition_fields(1,3) [OF ap(1) [unfolded ap(2)]] side_normal_applied [OF ap(1) [unfolded ap(2)]]
      gates_open_applied [OF ap(1) [unfolded ap(2)]] ao
    by (auto simp: transition_for_def Let_def attempt_of_def)
  show "wp (in_repo (repo_start_attempt nxt ev a)) (\<lambda>x. wp (case x of None \<Rightarrow> State_Monad.return (nxt, Inr a)
     | Some x \<Rightarrow> State_Monad.return (o1, Inl x)) Q) s''"
  proof (rule wp_write_start [OF s'(3) _ ap(1) [unfolded ap(2)] ao])
    fix s3 assume s3: "I s3" "T nxt (sys_repo s3)" "repo_start_attempt nxt ev a (sys_repo s'') = (None, sys_repo s3)"
    have "durable kind nxt (sys_repo s3)" using start_durable [OF s3(3)] bf vid by simp
    then show "wp (case None of None \<Rightarrow> State_Monad.return (nxt, Inr a) | Some x \<Rightarrow> State_Monad.return (o1, Inl x)) Q s3"
      using assms(4) s3 f by (auto intro!: wp_return)
  qed (use assms s' in \<open>auto intro!: wp_return\<close>)
qed (use assms in simp_all)

lemma wp_start_attempt_plain:
  assumes "I s" "T o1 (sys_repo s)"
    and "\<And>e s'. I s' \<Longrightarrow> sys_repo s' = sys_repo s \<Longrightarrow> Q (o1, Inl e) s'"
    and "\<And>o2 a s'. I s' \<Longrightarrow> T o2 (sys_repo s') \<Longrightarrow> o_status o2 = target \<Longrightarrow> attempt_of o2 a \<Longrightarrow> Q (o2, Inr a) s'"
  shows "wp (start_attempt svc o1 target kind trigger) Q s"
  unfolding start_attempt_def by (rule wp_start_attempt) (use assms in auto)

lemma wp_write_finish:
  assumes "I s" "T o1 (sys_repo s)" "apply_transition o1 t = Inr (nxt, ev)" "attempt_of o1 a"
    and "\<And>e. Q (Some e) s" "\<And>s'. I s' \<Longrightarrow> T nxt (sys_repo s') \<Longrightarrow> Q None s'"
  shows "wp (in_repo (repo_finish_attempt nxt ev a)) Q s"
proof (cases "repo_finish_attempt nxt ev a (sys_repo s)")
  case (Pair e r')
  show ?thesis
  proof (cases e)
    case None
    with Pair inv_finish [OF assms(1-4)] assms(6) show ?thesis by (simp add: wp_def in_repo_def)
  next
    case (Some x)
    with Pair repo_finish_attempt_cases(2) [of nxt ev a "sys_repo s" x r'] assms(5) show ?thesis by (simp add: wp_def in_repo_def)
  qed
qed

lemma wp_finish_with_outcome:
  assumes "I s" "T o1 (sys_repo s)" "attempt_of o1 a"
    and "\<And>e s'. I s' \<Longrightarrow> sys_repo s' = sys_repo s \<Longrightarrow> Q (o1, Some e) s'"
    and "\<And>o2 s'. I s' \<Longrightarrow> T o2 (sys_repo s') \<Longrightarrow> o_status o2 = target \<Longrightarrow> Q (o2, None) s'"
  shows "wp (finish_attempt_with_outcome svc o1 a target trigger v code cause outcome) Q s"
  unfolding finish_attempt_with_outcome_def build_transition_def
proof (intro wp_rules wp_now)
  fix now s' nxt ev z
  let ?t = "transition_for svc o1 target trigger \<lparr>td_attempt_id = at_id a, td_reason_code = code,
    td_reason = case cause of None \<Rightarrow> [] | Some x \<Rightarrow> error_text x, td_venue_order = v, td_include_venue_data = True\<rparr> now"
  let ?a = "finished_attempt a outcome (tr_at ?t) v code cause"
  assume s': "I s'" "sys_repo s' = sys_repo s" and ap: "apply_transition o1 ?t = Inr z" "z = (nxt, ev)"
  have f: "o_status nxt = target"
    using apply_transition_fields(3) ap by (auto simp: transition_for_def Let_def)
  show "wp (in_repo (repo_finish_attempt nxt ev ?a)) (\<lambda>x. wp (case x of None \<Rightarrow> State_Monad.return (nxt, None)
     | Some x \<Rightarrow> State_Monad.return (o1, Some x)) Q) s'"
    by (rule wp_write_finish [OF s'(1) _ ap(1) [unfolded ap(2)]])
       (use assms s' f in \<open>auto intro!: wp_return\<close>)
qed (use assms in simp_all)

lemma wp_finish:
  assumes "I s" "T o1 (sys_repo s)" "attempt_of o1 a"
    and "\<And>e s'. I s' \<Longrightarrow> sys_repo s' = sys_repo s \<Longrightarrow> Q (o1, Some e) s'"
    and "\<And>o2 s'. I s' \<Longrightarrow> T o2 (sys_repo s') \<Longrightarrow> o_status o2 = target \<Longrightarrow> Q (o2, None) s'"
  shows "wp (finish_attempt svc o1 a target trigger v code cause) Q s"
  unfolding finish_attempt_def by (rule wp_finish_with_outcome) (use assms in auto)

lemmas basic_calls = wp_in_world wp_now wp_read_repo wp_log_call wp_mark wp_trigger

lemma wp_reject:
  assumes "I s" "T o1 (sys_repo s)"
    and "\<And>e s'. I s' \<Longrightarrow> sys_repo s' = sys_repo s \<Longrightarrow> Q (o1, Some e) s'"
    and "\<And>o2 s'. I s' \<Longrightarrow> T o2 (sys_repo s') \<Longrightarrow> o_status o2 = OrderStatusRejected \<Longrightarrow> Q (o2, None) s'"
  shows "wp (reject svc o1 code cause) Q s"
  unfolding reject_def by (rule wp_service_transition) (use assms in auto)

lemma wp_force_unknown:
  assumes "I s" "T o1 (sys_repo s)"
    and "\<And>e s'. I s' \<Longrightarrow> sys_repo s' = sys_repo s \<Longrightarrow> Q (o1, Some e) s'"
    and "\<And>o2 s'. I s' \<Longrightarrow> T o2 (sys_repo s') \<Longrightarrow> o_status o2 = OrderStatusUnknown \<Longrightarrow> Q (o2, None) s'"
  shows "wp (force_unknown svc o1 code cause v) Q s"
  unfolding force_unknown_def by (intro wp_rules wp_now wp_service_transition) (use assms in auto)

lemma wp_apply_venue_state:
  assumes "I s" "T o1 (sys_repo s)"
    and K: "\<And>o2 e s'. I s' \<Longrightarrow> T o2 (sys_repo s') \<Longrightarrow> Q (o2, e) s'"
  shows "wp (apply_venue_state svc o1 v trigger i) Q s"
  unfolding apply_venue_state_def by (intro wp_rules wp_service_transition K) (use assms in auto)

lemma wp_sync_observed:
  assumes "I s" "T o1 (sys_repo s)"
    and same: "\<not> sv_authoritative_fills svc \<or> \<not> venue_observation_needs_fill_sync v \<Longrightarrow> Q (o1, False, None) s"
    and K: "\<And>o2 p e s'. I s' \<Longrightarrow> T o2 (sys_repo s') \<Longrightarrow> sv_authoritative_fills svc \<Longrightarrow>
      o2 = o1 \<or> repo_get (sys_repo s') (o_id o1) = Inr o2 \<Longrightarrow> Q (o2, p, e) s'"
  shows "wp (sync_observed_fills svc o1 v) Q s"
  unfolding sync_observed_fills_def
proof (intro wp_rules wp_sync wp_read_repo, goal_cases)
  case (3 r s')
  then show ?case using inv_get [of s' "o_id o1"] assms(2) by (intro K) (auto split: sum.split)
qed (use assms in auto)

lemma wp_mark_pending:
  assumes "I s" "T o1 (sys_repo s)"
    and K: "\<And>o2 e s'. I s' \<Longrightarrow> T o2 (sys_repo s') \<Longrightarrow> Q (o2, e) s'"
  shows "wp (mark_fill_evidence_pending svc o1 trigger enqueue) Q s"
  unfolding mark_fill_evidence_pending_def by (intro wp_rules wp_service_transition basic_calls K) (use assms in \<open>auto\<close>)

lemma wp_defer:
  assumes "I s" "T o1 (sys_repo s)"
    and K: "\<And>o2 e s'. I s' \<Longrightarrow> T o2 (sys_repo s') \<Longrightarrow> Q (o2, e) s'"
  shows "wp (defer_cancellation_finality svc o1 code reason) Q s"
  unfolding defer_cancellation_finality_def by (intro wp_rules wp_service_transition K) (use assms in \<open>auto\<close>)

lemma wp_get:
  assumes "I s" "\<And>e. Q (Inl e) s" "\<And>o1. T o1 (sys_repo s) \<Longrightarrow> Q (Inr o1) s"
  shows "wp (service_get k) Q s"
  unfolding service_get_def
  by (rule wp_read_repo) (cases "repo_get (sys_repo s) (trim_space k)"; use assms inv_get in auto)

lemma wp_submit_with: "Q (\<lparr>sb_order = o1, sb_created = c\<rparr>, e) s \<Longrightarrow> wp (submit_with o1 c e) Q s"
  unfolding submit_with_def by (rule wp_return)

lemma wp_expired:
  assumes "I s" "\<And>b s'. I s' \<Longrightarrow> sys_repo s' = sys_repo s \<Longrightarrow> Q b s'"
  shows "wp (case x of None \<Rightarrow> State_Monad.return False
    | Some t \<Rightarrow> State_Monad.bind (now_utc svc) (\<lambda>now. State_Monad.return (expired_at (Some t) now))) Q s"
  by (intro wp_rules wp_now) (use assms in auto)

lemma wp_release_turn: "I s \<Longrightarrow> (\<And>x s'. I s' \<Longrightarrow> sys_repo s' = sys_repo s \<Longrightarrow> Q x s') \<Longrightarrow> wp (release_turn_port turn) Q s"
  unfolding release_turn_port_def by (intro wp_rules wp_in_world) auto

lemma wp_reconcile_count:
  assumes "\<And>n. Q n s" shows "wp (reconcile_attempt_count k) Q s"
  unfolding reconcile_attempt_count_def by (intro wp_rules wp_read_repo) (use assms in auto)

lemma wp_in_flight:
  assumes "I s" "\<And>b s'. I s' \<Longrightarrow> sys_repo s' = sys_repo s \<Longrightarrow> Q b s'"
  shows "wp (submit_in_flight svc o1) Q s"
proof -
  have list: "wp (case xs of [] \<Rightarrow> m | a # _ \<Rightarrow> f a) Q s"
    if "wp m Q s" "\<And>a. wp (f a) Q s" for xs :: "order_attempt list" and m f
    using that by (cases xs) auto
  show ?thesis unfolding submit_in_flight_def by (intro wp_rules list basic_calls) (use assms in auto)
qed

lemma wp_finality_held:
  assumes "I s" "T o1 (sys_repo s)"
    and K: "\<And>x s'. I s' \<Longrightarrow> Q x s'"
  shows "wp (finality_held svc o1 m code reason e report) Q s"
  unfolding finality_held_def by (intro wp_rules wp_defer basic_calls K) (use assms in auto)

lemma wp_already_finalized:
  assumes "I s"
    and K: "\<And>b o2 e s'. I s' \<Longrightarrow> (\<And>o1. T o1 (sys_repo s) \<Longrightarrow> T o1 (sys_repo s')) \<Longrightarrow> Q (b, o2, e) s'"
  shows "wp (already_finalized_cancellation svc o1) Q s"
  unfolding already_finalized_cancellation_def
  by (intro wp_rules wp_sync basic_calls K) (use assms in auto)

end


section \<open>Whole operations\<close>

text \<open>
  In addition \<open>I\<close> survives the two critical calls when the service has established what they need, and the
  creation of an order; \<open>F\<close> is what a repository must satisfy for new orders to be created in it.
\<close>

locale service_invariant = service_writes svc I T
  for svc :: "'w service" and I T +
  fixes F :: "repo \<Rightarrow> bool"
  assumes inv_reconcile: "I s \<Longrightarrow> may_reconcile svc o1 \<Longrightarrow> I (s\<lparr>sys_calls := sys_calls s @ [CallReconcile o1]\<rparr>)"
    and inv_place: "I s \<Longrightarrow> durable OrderAttemptSubmit o1 (sys_repo s) \<Longrightarrow> o_status o1 = OrderStatusSubmitting \<Longrightarrow>
      gates_open svc o1 \<Longrightarrow> I (s\<lparr>sys_calls := sys_calls s @ [CallPlace o1 (sys_repo s)]\<rparr>)"
    and inv_create: "I s \<Longrightarrow> F (sys_repo s) \<Longrightarrow> build_order (fst (run_state (sv_new_id svc) w)) i now = Inr o1 \<Longrightarrow>
      repo_create o1 (sys_repo s) = ((stored, created), r') \<Longrightarrow> I (s\<lparr>sys_repo := r'\<rparr>) \<and> (created \<longrightarrow> T stored r')"
begin

lemma wp_log_place:
  "I s \<Longrightarrow> durable OrderAttemptSubmit o1 (sys_repo s) \<Longrightarrow> o_status o1 = OrderStatusSubmitting \<Longrightarrow> gates_open svc o1 \<Longrightarrow>
   (\<And>s'. I s' \<Longrightarrow> sys_repo s' = sys_repo s \<Longrightarrow> Q () s') \<Longrightarrow> wp (log_place o1) Q s"
  by (auto simp: wp_def log_place_def inv_place)

lemma wp_reconcile:
  "I s \<Longrightarrow> may_reconcile svc o1 \<Longrightarrow> (\<And>x s'. I s' \<Longrightarrow> sys_repo s' = sys_repo s \<Longrightarrow> Q x s') \<Longrightarrow>
   wp (reconcile_assets svc o1) Q s"
  unfolding reconcile_assets_def
  by (intro wp_rules) (auto simp: wp_def log_call_def in_world_def inv_reconcile inv_world split: prod.splits)

lemma cancelled_may_reconcile: "o_status o1 = OrderStatusCancelled \<Longrightarrow> may_reconcile svc o1"
  "o_status o1 = OrderStatusRejected \<Longrightarrow> may_reconcile svc o1"
  by (simp_all add: may_reconcile_def)

lemma wp_hold:
  assumes "I s" "o_status o1 = OrderStatusCancelled"
    and "\<And>e s'. I s' \<Longrightarrow> sys_repo s' = sys_repo s \<Longrightarrow> Q e s'"
  shows "wp (hold_cancellation_finality svc o1 enqueue) Q s"
  unfolding hold_cancellation_finality_def
  by (intro wp_rules wp_reconcile basic_calls) (use assms cancelled_may_reconcile in auto)

lemma wp_cancel_observed:
  assumes "I s" "T o1 (sys_repo s)"
    and K: "\<And>o2 e s'. I s' \<Longrightarrow> T o2 (sys_repo s') \<Longrightarrow> Q (o2, e) s'"
  shows "wp (cancel_observed svc o1 v) Q s"
  unfolding cancel_observed_def by (intro wp_rules wp_sync_observed wp_hold wp_mark_pending wp_reconcile basic_calls K) (use assms in \<open>auto simp: may_reconcile_def\<close>)

lemma wp_cancel_started:
  assumes "I s" "T o1 (sys_repo s)" "attempt_of o1 a"
    and K: "\<And>o2 e s'. I s' \<Longrightarrow> T o2 (sys_repo s') \<Longrightarrow> Q (o2, e) s'"
  shows "wp (cancel_started svc o1 a) Q s"
  unfolding cancel_started_def by (intro wp_rules wp_finish_with_outcome wp_finish wp_cancel_observed basic_calls K) (use assms in \<open>auto\<close>)

lemma wp_cancel:
  assumes "I s"
    and K: "\<And>x s'. I s' \<Longrightarrow> Q x s'"
  shows "wp (service_cancel svc k) Q s"
  unfolding service_cancel_def by (intro wp_rules wp_get wp_start_attempt_plain wp_cancel_started K) (use assms in \<open>auto\<close>)

lemma wp_ioc:
  assumes "I s" "T o1 (sys_repo s)" "Q (o1, False, None) s" "\<And>o2 e s'. I s' \<Longrightarrow> Q (o2, True, e) s'"
  shows "wp (complete_emulated_ioc svc o1 v) Q s"
  unfolding complete_emulated_ioc_def by (intro wp_rules wp_cancel) (use assms in auto)

lemma wp_prepare_error:
  assumes "I s" "T o1 (sys_repo s)"
    and K: "\<And>x s'. I s' \<Longrightarrow> Q x s'"
  shows "wp (finish_prepare_error svc o1 cause c) Q s"
  unfolding finish_prepare_error_def by (intro wp_rules wp_reject wp_reconcile wp_submit_with basic_calls K) (use assms in \<open>auto simp: cancelled_may_reconcile\<close>)

lemma wp_submit_error:
  assumes "I s" "T o1 (sys_repo s)" "attempt_of o1 a"
    and K: "\<And>x s'. I s' \<Longrightarrow> Q x s'"
  shows "wp (finish_submit_error svc o1 a cause c) Q s"
  unfolding finish_submit_error_def by (intro wp_rules wp_finish_with_outcome wp_reconcile wp_submit_with basic_calls K) (use assms in \<open>auto simp: cancelled_may_reconcile split: if_splits\<close>)

lemma wp_submit_fills:
  assumes "I s" "T o1 (sys_repo s)"
    and K: "\<And>x s'. I s' \<Longrightarrow> Q x s'"
  shows "wp (submit_fills svc o1 v c) Q s"
  unfolding submit_fills_def by (intro wp_rules wp_sync_observed wp_hold wp_mark_pending wp_reconcile wp_submit_with basic_calls K) (use assms in \<open>auto simp: may_reconcile_def\<close>)

lemma wp_submit_acknowledged:
  assumes "I s" "T o1 (sys_repo s)" "attempt_of o1 a"
    and K: "\<And>x s'. I s' \<Longrightarrow> Q x s'"
  shows "wp (submit_acknowledged svc o1 a v c) Q s"
  unfolding submit_acknowledged_def by (intro wp_rules wp_finish wp_apply_venue_state wp_force_unknown wp_ioc wp_submit_fills wp_submit_with basic_calls K) (use assms in \<open>auto\<close>)

lemma wp_submit_placed:
  assumes "I s" "T o1 (sys_repo s)" "attempt_of o1 a"
    and K: "\<And>x s'. I s' \<Longrightarrow> Q x s'"
  shows "wp (submit_placed svc o1 a v pe c) Q s"
  unfolding submit_placed_def by (intro wp_rules wp_submit_error wp_submit_acknowledged K) (use assms in \<open>auto\<close>)

lemma wp_start_failed:
  assumes "I s" "T o1 (sys_repo s)"
    and K: "\<And>x s'. I s' \<Longrightarrow> Q x s'"
  shows "wp (submit_start_failed svc o1 e c) Q s"
  unfolding submit_start_failed_def by (intro wp_rules wp_reject wp_reconcile wp_submit_with basic_calls K) (use assms in \<open>auto simp: cancelled_may_reconcile\<close>)

lemma wp_submit_start:
  assumes "I s" "T o1 (sys_repo s)" "side_normal o1" "gates_open svc o1"
    and K: "\<And>x s'. I s' \<Longrightarrow> Q x s'"
  shows "wp (submit_start svc o1 prep ex c) Q s"
  unfolding submit_start_def by (intro wp_rules wp_start_attempt wp_start_failed wp_log_place wp_submit_placed basic_calls K) (use assms in \<open>auto\<close>)

lemma gates_open_venue_id: "gates_open svc (o1\<lparr>o_venue_order_id := x\<rparr>) = gates_open svc o1"
  "side_normal (o1\<lparr>o_venue_order_id := x\<rparr>) = side_normal o1"
  by (simp_all add: gates_open_def side_normal_def)

lemma wp_submit_reserved:
  assumes "I s" "T o1 (sys_repo s)" "side_normal o1"
    and K: "\<And>x s'. I s' \<Longrightarrow> Q x s'"
  shows "wp (submit_reserved svc o1 c) Q s"
  unfolding submit_reserved_def by (intro wp_rules wp_reject wp_reconcile wp_prepare_error wp_submit_start wp_submit_with basic_calls K) (use assms in \<open>auto simp: T_fields cancelled_may_reconcile gates_open_venue_id gates_open_def side_normal_def\<close>)

lemma wp_submit_reserve:
  assumes "I s" "T o1 (sys_repo s)"
    and K: "\<And>x s'. I s' \<Longrightarrow> Q x s'"
  shows "wp (submit_reserve svc turn o1) Q s"
  unfolding submit_reserve_def by (intro wp_rules wp_reserve wp_release_turn wp_reject wp_service_transition wp_submit_reserved wp_submit_with basic_calls K) (use assms in \<open>auto\<close>)

lemma wp_submit_created:
  assumes "I s" "T o1 (sys_repo s)"
    and K: "\<And>x s'. I s' \<Longrightarrow> Q x s'"
  shows "wp (submit_created svc turn i o1) Q s"
  unfolding submit_created_def by (intro wp_rules wp_expired wp_service_transition wp_reject wp_submit_reserve wp_submit_with basic_calls K) (use assms in \<open>auto simp: T_fields\<close>)

lemma wp_resume_reserved:
  assumes "I s" "T o1 (sys_repo s)"
    and K: "\<And>x s'. I s' \<Longrightarrow> Q x s'"
  shows "wp (resume_reserved svc o1) Q s"
  unfolding resume_reserved_def by (intro wp_rules wp_expired wp_service_transition wp_reject wp_reconcile wp_submit_reserved basic_calls K) (use assms in \<open>auto simp: T_fields cancelled_may_reconcile\<close>)

lemma wp_resume_validating:
  assumes "I s" "T o1 (sys_repo s)"
    and "\<And>o2 e s'. I s' \<Longrightarrow> Q (o2, True, e) s'" "\<And>o2 e s'. I s' \<Longrightarrow> T o2 (sys_repo s') \<Longrightarrow> Q (o2, False, e) s'"
  shows "wp (resume_validating svc o1) Q s"
  unfolding resume_validating_def
  by (intro wp_rules wp_expired wp_service_transition wp_reject wp_reserve basic_calls) (use assms in \<open>auto simp: T_fields\<close>)

lemma wp_resume:
  assumes "I s"
    and K: "\<And>x s'. I s' \<Longrightarrow> Q x s'"
  shows "wp (service_resume svc k) Q s"
  unfolding service_resume_def by (intro wp_rules wp_get wp_service_transition wp_resume_validating wp_resume_reserved K) (use assms in \<open>auto\<close>)

lemma wp_evidence_pending:
  assumes "I s" "T o1 (sys_repo s)"
    and K: "\<And>x s'. I s' \<Longrightarrow> Q x s'"
  shows "wp (refresh_evidence_pending svc o1 v) Q s"
  unfolding refresh_evidence_pending_def by (intro wp_rules wp_sync_observed wp_service_transition basic_calls K) (use assms in \<open>auto\<close>)

lemma wp_refresh_settled:
  assumes "I s" "T o1 (sys_repo s)"
    and K: "\<And>x s'. I s' \<Longrightarrow> Q x s'"
  shows "wp (refresh_settled svc o1) Q s"
  unfolding refresh_settled_def by (intro wp_rules wp_hold wp_reconcile basic_calls K) (use assms in \<open>auto simp: may_reconcile_def\<close>)

lemma wp_refresh_observed:
  assumes "I s" "T o1 (sys_repo s)" "attempt_of o1 a"
    and K: "\<And>x s'. I s' \<Longrightarrow> Q x s'"
  shows "wp (refresh_observed svc o1 a v) Q s"
  unfolding refresh_observed_def by (intro wp_rules wp_finish wp_ioc wp_sync_observed wp_hold wp_mark_pending wp_refresh_settled basic_calls K) (use assms in \<open>auto\<close>)

lemma wp_order_not_found:
  assumes "I s" "T o1 (sys_repo s)"
    and K: "\<And>x s'. I s' \<Longrightarrow> Q x s'"
  shows "wp (refresh_order_not_found svc o1 e) Q s"
  unfolding refresh_order_not_found_def
  by (intro wp_rules wp_sync wp_read_repo wp_resolve basic_calls K) (use assms inv_get in \<open>auto split: sum.splits\<close>)

lemma wp_read_failed:
  assumes "I s" "T o1 (sys_repo s)" "attempt_of o1 a"
    and K: "\<And>x s'. I s' \<Longrightarrow> Q x s'"
  shows "wp (refresh_read_failed svc o1 a v e) Q s"
  unfolding refresh_read_failed_def
  by (intro wp_rules wp_reconcile_count wp_finish_with_outcome wp_evidence_pending wp_order_not_found basic_calls K)
     (use assms in auto)

lemma wp_refresh_reconcile:
  assumes "I s" "T o1 (sys_repo s)"
    and K: "\<And>x s'. I s' \<Longrightarrow> Q x s'"
  shows "wp (refresh_reconcile svc o1) Q s"
  unfolding refresh_reconcile_def
  by (intro wp_rules wp_start_attempt_plain wp_read_failed wp_refresh_observed basic_calls K) (use assms in auto)

lemma wp_refresh:
  assumes "I s" and K: "\<And>x s'. I s' \<Longrightarrow> Q x s'"
  shows "wp (service_refresh svc k) Q s"
  unfolding service_refresh_def
  by (intro wp_rules wp_get wp_in_flight wp_force_unknown wp_refresh_reconcile K) (use assms in auto)

lemma wp_finality_release:
  assumes "I s" "T o1 (sys_repo s)" "o_status o1 = OrderStatusCancelled"
    and K: "\<And>x s'. I s' \<Longrightarrow> Q x s'"
  shows "wp (finality_release svc o1) Q s"
  unfolding finality_release_def
  by (intro wp_rules wp_reconcile wp_finality_held K) (use assms in \<open>auto simp: cancelled_may_reconcile\<close>)

lemma wp_retired_synced:
  assumes "I s" "T o1 (sys_repo s)"
    and K: "\<And>x s'. I s' \<Longrightarrow> Q x s'"
  shows "wp (retired_synced svc o1 result) Q s"
  unfolding retired_synced_def retired_pending_def
  by (intro wp_rules wp_finality_held wp_finality_release wp_read_repo K) (use assms inv_get in auto)

lemma wp_finalize_retired:
  assumes "I s" "T o1 (sys_repo s)"
    and K: "\<And>x s'. I s' \<Longrightarrow> Q x s'"
  shows "wp (finalize_retired_cancellation svc o1 e) Q s"
  unfolding finalize_retired_cancellation_def retired_pending_def
  by (intro wp_rules wp_sync wp_finality_held wp_retired_synced basic_calls K)
     (use assms inv_get in \<open>auto split: sum.splits\<close>)

lemma wp_finalize_after_sync:
  assumes "I s" "T o1 (sys_repo s)"
    and K: "\<And>x s'. I s' \<Longrightarrow> Q x s'"
  shows "wp (finalize_after_sync svc o1 v p e) Q s"
  unfolding finalize_after_sync_def
  by (intro wp_rules wp_finality_held wp_finality_release wp_defer basic_calls K) (use assms in auto)

lemma wp_finalize_authoritative:
  assumes "I s" "T o1 (sys_repo s)"
    and K: "\<And>x s'. I s' \<Longrightarrow> Q x s'"
  shows "wp (finalize_authoritative svc o1) Q s"
  unfolding finalize_authoritative_def
  by (intro wp_rules wp_finalize_retired wp_finality_held wp_sync_observed wp_finalize_after_sync basic_calls K)
     (use assms in auto)

lemma wp_finalize:
  assumes "I s" and K: "\<And>x s'. I s' \<Longrightarrow> Q x s'"
  shows "wp (service_finalize_cancellation svc k) Q s"
  unfolding service_finalize_cancellation_def
  by (intro wp_rules wp_get wp_already_finalized wp_finalize_authoritative wp_finality_release wp_defer basic_calls K)
     (use assms in auto)

lemma wp_submit_admitted:
  assumes "I s" "F (sys_repo s)"
    and K: "\<And>x s'. I s' \<Longrightarrow> Q x s'"
  shows "wp (submit_admitted svc turn i) Q s"
proof -
  have create: "wp (in_repo (repo_create o1)) P s'"
    if "I s'" "F (sys_repo s')" "build_order ident i now = Inr o1" "ident = fst (run_state (sv_new_id svc) w)"
      "\<And>stored c s3. I s3 \<Longrightarrow> (c \<Longrightarrow> T stored (sys_repo s3)) \<Longrightarrow> P (stored, c) s3" for s' o1 P ident now w
  proof -
    obtain stored c r where r: "repo_create o1 (sys_repo s') = ((stored, c), r)" by (metis prod.exhaust)
    have "I (s'\<lparr>sys_repo := r\<rparr>) \<and> (c \<longrightarrow> T stored r)"
      using inv_create [OF that(1,2) _ r] that(3,4) by blast
    then show ?thesis using that(5) by (simp add: wp_def in_repo_def r)
  qed
  have new_id: "wp (in_world (sv_new_id svc)) P s'"
    if "I s'" "\<And>s3 w. I s3 \<Longrightarrow> sys_repo s3 = sys_repo s' \<Longrightarrow> P (fst (run_state (sv_new_id svc) w)) s3" for s' P
    using that inv_world [of s'] by (auto simp: wp_def in_world_def split: prod.split) (metis fst_conv sys.select_convs(1) sys.surjective sys.update_convs(2))
  show ?thesis unfolding submit_admitted_def
    by (intro wp_rules new_id create wp_submit_created wp_submit_with wp_now wp_read_repo K) (use assms in auto)
qed

lemma wp_submit:
  assumes "I s" "F (sys_repo s)"
    and K: "\<And>x s'. I s' \<Longrightarrow> Q x s'"
  shows "wp (service_submit svc turn i) Q s"
  unfolding service_submit_def Let_def
  by (intro wp_rules wp_submit_admitted wp_release_turn wp_submit_with K) (use assms in auto)

end

end
