(* ===== verification/Paper_Runtime.thy ===== *)
theory Paper_Runtime
  imports Execution
begin

text \<open>
  The paper runtime of \<open>src/cmd/server/main.go\<close> without a database: the memory repository, the paper venue,
  validator and reservation manager, and the static guard of \<open>src/internal/adapter/risk\<close>. The world holds
  what these keep, a clock that advances with every reading and a counter for the random order ids.
\<close>

section \<open>The static guard\<close>

definition static_guard_check :: "bool \<Rightarrow> order_intent \<Rightarrow> err" where
  "static_guard_check allowMarketOrders intent =
     (if oi_type intent = OrderTypeMarket \<and> \<not> allowMarketOrders
      then Some (ErrRejection ''MARKET_ORDERS_DISABLED'' ''market orders are disabled by execution policy'')
      else if oi_type intent = OrderTypeMarket \<and> dec_is_empty (oi_worst_price intent)
      then Some (ErrRejection ''MARKET_PRICE_PROTECTION_REQUIRED''
        ''market order requires worst_price for execution notional protection'')
      else None)"

section \<open>The runtime\<close>

record paper_world =
  pw_clock :: gtime
  pw_ids :: nat
  pw_reservations :: paper_reservations
  pw_orders :: paper_venue_orders

definition pw_now :: "(paper_world, gtime) state" where
  "pw_now = State (\<lambda>w. (pw_clock w, w\<lparr>pw_clock := pw_clock w + 1\<rparr>))"

definition pw_new_id :: "(paper_world, string) state" where
  "pw_new_id = State (\<lambda>w. (''order-'' @ show_nat (pw_ids w), w\<lparr>pw_ids := pw_ids w + 1\<rparr>))"

definition with_reservations :: "(gtime \<Rightarrow> paper_reservations \<Rightarrow> 'a \<times> paper_reservations) \<Rightarrow> (paper_world, 'a) state" where
  "with_reservations f = do {
     now \<leftarrow> pw_now;
     State (\<lambda>w. case f now (pw_reservations w) of (x, rs) \<Rightarrow> (x, w\<lparr>pw_reservations := rs\<rparr>)) }"

definition with_orders :: "(gtime \<Rightarrow> paper_venue_orders \<Rightarrow> 'a \<times> paper_venue_orders) \<Rightarrow> (paper_world, 'a) state" where
  "with_orders f = do {
     now \<leftarrow> pw_now;
     State (\<lambda>w. case f now (pw_orders w) of (x, vs) \<Rightarrow> (x, w\<lparr>pw_orders := vs\<rparr>)) }"

definition paper_venue :: "string \<Rightarrow> paper_world venue" where
  "paper_venue name =
     \<lparr>v_name = name,
      v_place = (\<lambda>o1. with_orders (\<lambda>now. paper_place now o1)),
      v_cancel = (\<lambda>o1. with_orders (\<lambda>now. paper_cancel now o1)),
      v_get = (\<lambda>o1. with_orders (\<lambda>now vs. (paper_venue_get now o1 vs, vs))),
      v_prepared = None, v_supports_time_in_force = None\<rparr>"

definition paper_reservation_manager :: "paper_world reservations" where
  "paper_reservation_manager =
     \<lparr>rm_reserve = (\<lambda>o1. with_reservations (\<lambda>now. paper_reserve now o1)),
      rm_reconcile = (\<lambda>o1. with_reservations (\<lambda>now. paper_reconcile now o1)),
      rm_mark_uncertain = (\<lambda>o1 reason. with_reservations (\<lambda>now. paper_mark_uncertain now o1 reason)),
      rm_get_order_reservation = None\<rparr>"

record paper_config =
  cfg_venue :: string
  cfg_allow_market_orders :: bool
  cfg_entry_submission_disabled :: bool
  cfg_entry_disabled_accounts :: "string list"
  cfg_submit_attempt_timeout :: duration
  cfg_submit_in_flight_grace :: duration

definition build_paper_runtime ::
    "(order_attempt_kind \<Rightarrow> order \<Rightarrow> string) \<Rightarrow> paper_config \<Rightarrow> (paper_world, go_error + repo \<times> paper_world service) state" where
  "build_paper_runtime fingerprint cfg = do {
     built \<leftarrow> new_service pw_now pw_new_id fingerprint
       \<lparr>pr_has_repository = True, pr_venue = Some (paper_venue (cfg_venue cfg)),
        pr_guard = Some (\<lambda>i. State_Monad.return (static_guard_check (cfg_allow_market_orders cfg) i)),
        pr_market_validator = Some (\<lambda>i. do { now \<leftarrow> pw_now; State_Monad.return (Inr (paper_market_validation now i)) }),
        pr_reservations = Some paper_reservation_manager, pr_reconciliation = None, pr_fill_synchronizer = None,
        pr_authoritative_fills = False, pr_cancel_fill_finality_grace = 0, pr_immediate_cancel_finality = True,
        pr_max_reconcile_attempts = 0, pr_account_scope = None,
        pr_entry_submission_disabled = cfg_entry_submission_disabled cfg,
        pr_entry_disabled_accounts = cfg_entry_disabled_accounts cfg, pr_require_prepared_placement = False,
        pr_submit_attempt_timeout = cfg_submit_attempt_timeout cfg,
        pr_submit_in_flight_grace = cfg_submit_in_flight_grace cfg, pr_unaccepted_resolver = None,
        pr_now = None, pr_new_id = None\<rparr>;
     State_Monad.return (case built of
        Inl e \<Rightarrow> Inl e
      | Inr svc \<Rightarrow> Inr (set_submit_in_flight_grace new_order_repository (cfg_submit_in_flight_grace cfg), svc)) }"

definition sample_config :: paper_config where
  "sample_config = \<lparr>cfg_venue = ''Polymarket'', cfg_allow_market_orders = False, cfg_entry_submission_disabled = False,
     cfg_entry_disabled_accounts = [''w9''], cfg_submit_attempt_timeout = 60 * second, cfg_submit_in_flight_grace = 90 * second\<rparr>"

definition sample_world :: paper_world where
  "sample_world = \<lparr>pw_clock = 1000, pw_ids = 1, pw_reservations = [], pw_orders = []\<rparr>"

definition sample_runtime :: "repo \<times> paper_world service" where
  "sample_runtime = projr (fst (run_state (build_paper_runtime (\<lambda>_ o1. o_id o1) sample_config) sample_world))"

definition sample_service :: "paper_world service" where
  "sample_service = snd sample_runtime"

definition sample_sys :: "paper_world sys" where
  "sample_sys = \<lparr>sys_repo = fst sample_runtime, sys_world = sample_world, sys_calls = []\<rparr>"

definition after_submit :: "(submit_result \<times> err) \<times> paper_world sys" where
  "after_submit = run_state (service_submit sample_service None sample_intent) sample_sys"

text \<open>The placements and settlements of a trace, to read a concrete run.\<close>

definition placements :: "port_call list \<Rightarrow> (order \<times> repo) list" where
  "placements cs = concat (map (\<lambda>c. case c of CallPlace o1 r \<Rightarrow> [(o1, r)] | _ \<Rightarrow> []) cs)"

definition settlements :: "port_call list \<Rightarrow> order list" where
  "settlements cs = concat (map (\<lambda>c. case c of CallReconcile o1 \<Rightarrow> [o1] | _ \<Rightarrow> []) cs)"

lemma placements_iff [simp]: "(o1, r) \<in> set (placements cs) \<longleftrightarrow> CallPlace o1 r \<in> set cs"
  unfolding placements_def by (induction cs) (simp_all split: port_call.split)

lemma settlements_iff [simp]: "o1 \<in> set (settlements cs) \<longleftrightarrow> CallReconcile o1 \<in> set cs"
  unfolding settlements_def by (induction cs) (simp_all split: port_call.split)


section \<open>What construction guarantees\<close>

lemma entry_disabled_loop_Inr:
  "entry_disabled_loop n acc xs = Inr ys \<Longrightarrow> distinct acc \<Longrightarrow> [] \<notin> set acc \<Longrightarrow>
   distinct ys \<and> [] \<notin> set ys \<and> set ys = set acc \<union> trim_space ` set xs"
proof (induction n acc xs rule: entry_disabled_loop.induct)
  case (2 n acc raw rest)
  let ?a = "trim_space raw"
  have a: "?a \<noteq> []" "?a \<notin> set acc" and r: "entry_disabled_loop (n + 1) (acc @ [?a]) rest = Inr ys"
    using 2(2) by (simp_all add: Let_def split: if_splits)
  have "distinct (acc @ [?a])" "[] \<notin> set (acc @ [?a])" using 2(3,4) a by auto
  from 2(1) [OF refl a(1) _ r this] a(2) show ?case by auto
qed simp

lemma new_service_Inr:
  assumes "run_state (new_service system_now system_new_id fp p) w = (Inr svc, w')"
  shows "\<exists>v. pr_venue p = Some v \<and> validate_params p v = None \<and> sv_venue svc = v \<and>
     normalize_entry_disabled_accounts (pr_entry_disabled_accounts p) = Inr (sv_entry_disabled_accounts svc) \<and>
     sv_cancel_fill_finality_grace svc = default_if_zero (pr_cancel_fill_finality_grace p) (30 * second) \<and>
     sv_max_reconcile_attempts svc = default_if_zero (pr_max_reconcile_attempts p) 5 \<and>
     sv_submit_attempt_timeout svc = default_if_zero (pr_submit_attempt_timeout p) (60 * second) \<and>
     sv_submit_in_flight_grace svc = default_if_zero (pr_submit_in_flight_grace p) (90 * second) \<and>
     sv_authoritative_fills svc = pr_authoritative_fills p \<and> sv_fill_synchronizer svc = pr_fill_synchronizer p \<and>
     sv_immediate_cancel_finality svc = pr_immediate_cancel_finality p \<and> sv_account_scope svc = pr_account_scope p \<and>
     sv_require_prepared_placement svc = pr_require_prepared_placement p"
  using assms by (auto simp: new_service_def Let_def split: option.splits if_splits sum.splits prod.splits)

text \<open>
  C25. A constructed service is safe to run: its grace period, retry budget and timeouts are within their bounds, the
  in-flight grace exceeds the submit timeout, so that recovery cannot overtake a placement that may still succeed,
  authoritative fills come with a ledger and never with immediate finality, live placement comes with a prepared venue
  and an account scope, and the sell-only accounts are exactly the trimmed configured ones, non-empty and without duplicates.
\<close>

theorem constructed_service_is_safe:
  assumes "run_state (new_service system_now system_new_id fp p) w = (Inr svc, w')"
  shows "second \<le> sv_cancel_fill_finality_grace svc \<and> sv_cancel_fill_finality_grace svc \<le> 24 * hour \<and>
    1 \<le> sv_max_reconcile_attempts svc \<and> sv_max_reconcile_attempts svc \<le> 100 \<and>
    second \<le> sv_submit_attempt_timeout svc \<and> sv_submit_attempt_timeout svc < sv_submit_in_flight_grace svc \<and>
    sv_submit_in_flight_grace svc \<le> 10 * minute \<and> trim_space (v_name (sv_venue svc)) \<noteq> [] \<and>
    (sv_authoritative_fills svc \<longrightarrow> sv_fill_synchronizer svc \<noteq> None \<and> \<not> sv_immediate_cancel_finality svc) \<and>
    (sv_require_prepared_placement svc \<longrightarrow> v_prepared (sv_venue svc) \<noteq> None \<and> sv_account_scope svc \<noteq> None) \<and>
    distinct (sv_entry_disabled_accounts svc) \<and>
    [] \<notin> set (sv_entry_disabled_accounts svc) \<and>
    set (sv_entry_disabled_accounts svc) = trim_space ` set (pr_entry_disabled_accounts p)"
proof -
  obtain v where v: "validate_params p v = None" "sv_venue svc = v"
    and e: "entry_disabled_loop 0 [] (pr_entry_disabled_accounts p) = Inr (sv_entry_disabled_accounts svc)"
    and f: "sv_cancel_fill_finality_grace svc = default_if_zero (pr_cancel_fill_finality_grace p) (30 * second)"
     "sv_max_reconcile_attempts svc = default_if_zero (pr_max_reconcile_attempts p) 5"
     "sv_submit_attempt_timeout svc = default_if_zero (pr_submit_attempt_timeout p) (60 * second)"
     "sv_submit_in_flight_grace svc = default_if_zero (pr_submit_in_flight_grace p) (90 * second)"
     "sv_authoritative_fills svc = pr_authoritative_fills p" "sv_fill_synchronizer svc = pr_fill_synchronizer p"
     "sv_immediate_cancel_finality svc = pr_immediate_cancel_finality p" "sv_account_scope svc = pr_account_scope p"
     "sv_require_prepared_placement svc = pr_require_prepared_placement p"
    using new_service_Inr [OF assms] unfolding normalize_entry_disabled_accounts_def by blast
  from entry_disabled_loop_Inr [OF e, simplified] have "distinct (sv_entry_disabled_accounts svc) \<and>
      [] \<notin> set (sv_entry_disabled_accounts svc) \<and>
      set (sv_entry_disabled_accounts svc) = trim_space ` set (pr_entry_disabled_accounts p)" by blast
  then show ?thesis using v unfolding f
    by (intro conjI) (simp_all add: validate_params_def Let_def split: if_splits)
qed

theorem constructed_service_is_safe_witness:
  "sv_submit_attempt_timeout sample_service < sv_submit_in_flight_grace sample_service \<and>
   distinct (sv_entry_disabled_accounts sample_service)"
proof -
  have "\<not> isl (fst (run_state (build_paper_runtime (\<lambda>_ o1. o_id o1) sample_config) sample_world))" by code_simp
  then obtain r w where "run_state (build_paper_runtime (\<lambda>_ o1. o_id o1) sample_config) sample_world = (Inr (r, sample_service), w)"
    unfolding sample_service_def sample_runtime_def by (metis prod.collapse sum.collapse(2))
  then show ?thesis
    using constructed_service_is_safe [of pw_now pw_new_id "\<lambda>_ o1. o_id o1"]
    by (fastforce simp: build_paper_runtime_def split: prod.splits sum.splits)
qed

end
