(* ===== verification/Execution_Safety.thy ===== *)
theory Execution_Safety
  imports Execution_Logic Paper_Runtime
begin

text \<open>
  What the execution service guarantees in every reachable state: which calls may leave it, and that the
  repository stays auditable. Both are interpretations of the locale of \<open>Execution_Logic.thy\<close>. A run is a
  sequence of whole operations; between two of them any other component may change the world and, as far
  as \<open>ext\<close> allows, the repository. \<open>adm\<close> restricts the repositories in which \<open>Submit\<close> is called.
\<close>

section \<open>Runs of the service\<close>

inductive service_reach ::
    "'w service \<Rightarrow> (repo \<Rightarrow> bool) \<Rightarrow> (repo \<Rightarrow> repo \<Rightarrow> bool) \<Rightarrow> 'w sys \<Rightarrow> 'w sys \<Rightarrow> bool"
  for svc :: "'w service" and adm :: "repo \<Rightarrow> bool" and ext :: "repo \<Rightarrow> repo \<Rightarrow> bool" and s0 :: "'w sys" where
  start: "service_reach svc adm ext s0 s0"
| submit: "service_reach svc adm ext s0 s \<Longrightarrow> adm (sys_repo s) \<Longrightarrow> run_state (service_submit svc turn i) s = (x, s') \<Longrightarrow> service_reach svc adm ext s0 s'"
| resume: "service_reach svc adm ext s0 s \<Longrightarrow> run_state (service_resume svc k) s = (y, s') \<Longrightarrow> service_reach svc adm ext s0 s'"
| refresh: "service_reach svc adm ext s0 s \<Longrightarrow> run_state (service_refresh svc k) s = (y, s') \<Longrightarrow> service_reach svc adm ext s0 s'"
| cancel: "service_reach svc adm ext s0 s \<Longrightarrow> run_state (service_cancel svc k) s = (y, s') \<Longrightarrow> service_reach svc adm ext s0 s'"
| finalize: "service_reach svc adm ext s0 s \<Longrightarrow> run_state (service_finalize_cancellation svc k) s = (y, s') \<Longrightarrow>
    service_reach svc adm ext s0 s'"
| environment: "service_reach svc adm ext s0 s \<Longrightarrow> ext (sys_repo s) r \<Longrightarrow>
    service_reach svc adm ext s0 (s\<lparr>sys_repo := r, sys_world := w\<rparr>)"

context service_invariant
begin

lemma reach_invariant:
  assumes "service_reach svc adm ext s0 s" "I s0" "\<And>r. adm r \<Longrightarrow> F r"
    and env: "\<And>s r w. I s \<Longrightarrow> ext (sys_repo s) r \<Longrightarrow> I (s\<lparr>sys_repo := r, sys_world := w\<rparr>)"
  shows "I s"
  using assms(1)
proof (induction rule: service_reach.induct)
  case (submit s turn i x s')
  show ?case by (rule wpD [OF wp_submit [OF submit.IH assms(3) [OF submit.hyps(2)]] submit.hyps(3)])
next
  case (resume s k y s')
  show ?case by (rule wpD [OF wp_resume [OF resume.IH] resume.hyps(2)])
next
  case (refresh s k y s')
  show ?case by (rule wpD [OF wp_refresh [OF refresh.IH] refresh.hyps(2)])
next
  case (cancel s k y s')
  show ?case by (rule wpD [OF wp_cancel [OF cancel.IH] cancel.hyps(2)])
next
  case (finalize s k y s')
  show ?case by (rule wpD [OF wp_finalize [OF finalize.IH] finalize.hyps(2)])
qed (simp_all add: assms(2) env)

end


section \<open>A run of the paper service\<close>

lemma sample_reached: "service_reach sample_service (\<lambda>_. True) (\<lambda>_ _. True) sample_sys (snd after_submit)"
  by (rule service_reach.submit [OF service_reach.start TrueI]) (unfold after_submit_def, rule prod.collapse [symmetric])

lemma sample_calls: "sys_calls sample_sys = []"
  by (simp add: sample_sys_def)

lemma sample_places: "\<exists>o1 r. CallPlace o1 r \<in> set (sys_calls (snd after_submit)) \<and> oi_side (o_intent o1) = SideBuy"
proof -
  have "map (\<lambda>(o1, r). oi_side (o_intent o1)) (placements (sys_calls (snd after_submit))) = [SideBuy]" by code_simp
  then show ?thesis by (metis (no_types, lifting) case_prod_beta list.set_intros(1) map_eq_Cons_conv placements_iff prod.collapse)
qed

lemma sample_settles: "\<exists>o1. CallReconcile o1 \<in> set (sys_calls (snd after_submit))"
proof -
  have "map o_status (settlements (sys_calls (snd after_submit))) = [OrderStatusLive]" by code_simp
  then show ?thesis by (metis list.set_intros(1) map_eq_Cons_conv settlements_iff)
qed


section \<open>Calls that leave the service\<close>

definition call_ok :: "'w service \<Rightarrow> port_call \<Rightarrow> bool" where
  "call_ok svc c = (case c of
       CallPlace o1 r \<Rightarrow> durable OrderAttemptSubmit o1 r \<and> o_status o1 = OrderStatusSubmitting \<and> gates_open svc o1
     | CallReconcile o1 \<Rightarrow> may_reconcile svc o1
     | _ \<Rightarrow> True)"

definition calls_ok :: "'w service \<Rightarrow> 'w sys \<Rightarrow> bool" where
  "calls_ok svc s \<longleftrightarrow> (\<forall>c \<in> set (sys_calls s). call_ok svc c)"

interpretation calls: service_invariant svc "calls_ok svc" "\<lambda>_ _. True" "\<lambda>_. True" for svc
proof unfold_locales
  fix s :: "'a sys" and c
  assume "calls_ok svc s" "\<And>o1. c \<noteq> CallReconcile o1" "\<And>o1 r. c \<noteq> CallPlace o1 r"
  then show "calls_ok svc (s\<lparr>sys_calls := sys_calls s @ [c]\<rparr>)"
    by (cases c) (auto simp: calls_ok_def call_ok_def)
qed (auto simp: calls_ok_def call_ok_def)

lemma reachable_call_ok:
  assumes "service_reach svc adm ext s0 s" "sys_calls s0 = []" "c \<in> set (sys_calls s)"
  shows "call_ok svc c"
proof -
  have "calls_ok svc s" by (rule calls.reach_invariant [OF assms(1)]) (simp_all add: calls_ok_def assms(2))
  then show ?thesis using assms(3) by (simp add: calls_ok_def)
qed

text \<open>
  C1. Durable before the wire: in every run of the service, whatever the venue, the other ports and other
  writers of the repository do, an order is handed to \<open>Place\<close> or \<open>PlacePrepared\<close> only when the repository already
  holds it as SUBMITTING in exactly that revision together with an open SUBMIT attempt that carries the
  expected venue order id.
\<close>

theorem placement_is_durable:
  assumes "service_reach svc adm ext s0 s" "sys_calls s0 = []" "CallPlace o1 r \<in> set (sys_calls s)"
  shows "o_status o1 = OrderStatusSubmitting \<and>
    (\<exists>cur. map_of (r_by_id r) (o_id o1) = Some cur \<and> o_status cur = OrderStatusSubmitting \<and> o_revision cur = o_revision o1) \<and>
    (\<exists>a \<in> set (attempts_of r (o_id o1)). at_kind a = OrderAttemptSubmit \<and> at_outcome a = AttemptOutcomeStarted \<and>
       at_completed_at a = None \<and> at_venue_order_id a = trim_space (o_venue_order_id o1))"
  using reachable_call_ok [OF assms] by (auto simp: call_ok_def durable_def split: option.splits)

theorem placement_is_durable_witness:
  "\<exists>o1 r. CallPlace o1 r \<in> set (sys_calls (snd after_submit)) \<and> o_status o1 = OrderStatusSubmitting \<and>
     (\<exists>cur. map_of (r_by_id r) (o_id o1) = Some cur \<and> o_status cur = OrderStatusSubmitting)"
proof -
  obtain o1 r where p: "CallPlace o1 r \<in> set (sys_calls (snd after_submit))" using sample_places by blast
  from placement_is_durable [OF sample_reached sample_calls this] p show ?thesis by blast
qed

text \<open>
  C2. The gates hold at the wire: no order of an account that is inactive in this process, and no BUY while the
  sell-only gate is closed for the process or for its account, is ever handed to the venue, by \<open>Submit\<close> or by
  \<open>Resume\<close>.
\<close>

theorem gated_orders_never_placed:
  assumes "service_reach svc adm ext s0 s" "sys_calls s0 = []" "CallPlace o1 r \<in> set (sys_calls s)"
  shows "(\<forall>sc. sv_account_scope svc = Some sc \<longrightarrow> scope_is_active sc (oi_execution_account_id (o_intent o1))) \<and>
    (oi_side (o_intent o1) = SideBuy \<longrightarrow> \<not> sv_entry_submission_disabled svc \<and>
       trim_space (oi_execution_account_id (o_intent o1)) \<notin> set (sv_entry_disabled_accounts svc))"
  using reachable_call_ok [OF assms]
  by (auto simp: call_ok_def gates_open_def require_active_account_def entry_submission_blocked_def split: if_splits)

theorem gated_orders_never_placed_witness:
  "\<exists>o1 r. CallPlace o1 r \<in> set (sys_calls (snd after_submit)) \<and> oi_side (o_intent o1) = SideBuy \<and>
     trim_space (oi_execution_account_id (o_intent o1)) \<notin> {''w9''}"
proof -
  obtain o1 r where p: "CallPlace o1 r \<in> set (sys_calls (snd after_submit))" "oi_side (o_intent o1) = SideBuy"
    using sample_places by blast
  have d: "set (sv_entry_disabled_accounts sample_service) = {''w9''}" by code_simp
  from gated_orders_never_placed [OF sample_reached sample_calls p(1)] p d show ?thesis by auto
qed

text \<open>
  C3. No release under uncertainty: the service never settles or releases the reservation of an order whose
  outcome is UNKNOWN, and with authoritative fills it does so only for orders that are CANCELLED or REJECTED.
\<close>

theorem reservation_settled_only_when_certain:
  assumes "service_reach svc adm ext s0 s" "sys_calls s0 = []" "CallReconcile o1 \<in> set (sys_calls s)"
  shows "o_status o1 \<noteq> OrderStatusUnknown \<and>
    (sv_authoritative_fills svc \<longrightarrow> o_status o1 \<in> {OrderStatusCancelled, OrderStatusRejected})"
  using reachable_call_ok [OF assms] by (simp add: call_ok_def may_reconcile_def)

theorem reservation_settled_only_when_certain_witness:
  "\<exists>o1. CallReconcile o1 \<in> set (sys_calls (snd after_submit)) \<and> o_status o1 \<noteq> OrderStatusUnknown"
proof -
  obtain o1 where c: "CallReconcile o1 \<in> set (sys_calls (snd after_submit))" using sample_settles by blast
  from reservation_settled_only_when_certain [OF sample_reached sample_calls this] c show ?thesis by blast
qed

end
