(* ===== verification/Execution_Audit.thy ===== *)
theory Execution_Audit
  imports Execution_Safety
begin

text \<open>
  The repository stays auditable under the whole service: besides \<open>repo_ok\<close>, every event after the first is a
  legal status change, every stored order has a fill state that matches its status, and the attempts of an
  order are numbered and named canonically.
\<close>

section \<open>Canonical attempt ids\<close>

definition attempt_id :: "string \<Rightarrow> int \<Rightarrow> string" where
  "attempt_id k n = ''attempt:'' @ k @ '':'' @ show_int n"

lemma show_nat_last: "show_nat n = butlast (show_nat n) @ [char_of (48 + n mod 10)]"
  by (subst (1 2) show_nat.simps) simp

lemma show_nat_inj: "show_nat m = show_nat n \<Longrightarrow> m = n"
proof (induction m arbitrary: n rule: show_nat.induct)
  case (1 m)
  have c: "m mod 10 = n mod 10"
  proof -
    have "char_of (48 + m mod 10) = (char_of (48 + n mod 10) :: char)"
      using 1(2) show_nat_last [of m] show_nat_last [of n] by (metis last_snoc)
    then have "of_char (char_of (48 + m mod 10) :: char) = (of_char (char_of (48 + n mod 10) :: char) :: nat)" by simp
    then have "(48 + m mod 10) mod 256 = (48 + n mod 10) mod (256 :: nat)" unfolding of_char_of .
    then show ?thesis by (simp add: mod_less)
  qed
  have ne: "show_nat k \<noteq> []" for k using show_nat_last [of k] by (metis append_is_Nil_conv list.distinct(1))
  show ?case
  proof (cases "m < 10")
    case True
    have "n < 10"
    proof (rule ccontr)
      assume "\<not> n < 10"
      then have "length (show_nat n) > 1" using ne [of "n div 10"] by (subst show_nat.simps) simp
      moreover have "length (show_nat m) = 1" using True by (subst show_nat.simps) simp
      ultimately show False using 1(2) by simp
    qed
    with True c show ?thesis by simp
  next
    case False
    have n: "\<not> n < 10"
    proof
      assume "n < 10"
      then have "length (show_nat n) = 1" by (subst show_nat.simps) simp
      moreover have "length (show_nat m) > 1" using False ne [of "m div 10"] by (subst show_nat.simps) simp
      ultimately show False using 1(2) by simp
    qed
    have "show_nat (m div 10) = show_nat (n div 10)" using 1(2) False n by (subst (asm) (1 2) show_nat.simps) simp
    then have "m div 10 = n div 10" by (rule 1(1) [OF False])
    with c show ?thesis by (metis div_mult_mod_eq)
  qed
qed

lemma trim_space_edges: "s \<noteq> [] \<Longrightarrow> \<not> is_space (hd s) \<Longrightarrow> \<not> is_space (last s) \<Longrightarrow> trim_space s = s"
proof -
  assume s: "s \<noteq> []" "\<not> is_space (hd s)" "\<not> is_space (last s)"
  have "dropWhile is_space s = s" "dropWhile is_space (rev s) = rev s"
    using s by (simp_all add: dropWhile_eq_self_iff hd_rev)
  then show ?thesis by (simp add: trim_space_def)
qed

lemma attempt_id_trim [simp]: "0 \<le> n \<Longrightarrow> trim_space (attempt_id k n) = attempt_id k n"
proof -
  assume n: "0 \<le> n"
  have "\<forall>i \<in> set [0..<10]. \<not> is_space (char_of (48 + i :: nat))" by code_simp
  then have "\<not> is_space (char_of (48 + nat n mod 10))" by simp
  moreover have "last (attempt_id k n) = char_of (48 + nat n mod 10)"
    using n show_nat_last [of "nat n"] by (simp add: attempt_id_def show_int_def) (metis append_is_Nil_conv last_snoc list.distinct(1))
  ultimately show ?thesis by (intro trim_space_edges) (auto simp: attempt_id_def is_space_def)
qed

lemma attempt_id_inj: "attempt_id k m = attempt_id k n \<Longrightarrow> 0 \<le> m \<Longrightarrow> 0 \<le> n \<Longrightarrow> m = n"
  by (simp add: attempt_id_def show_int_def) (metis int_nat_eq show_nat_inj)


section \<open>The audit invariant\<close>

definition legal_log :: "order_event list \<Rightarrow> bool" where
  "legal_log es \<longleftrightarrow> (\<forall>e \<in> set (tl es). can_transition (ev_from_status e) (ev_to_status e))"

definition canonical_attempts :: "string \<Rightarrow> order_attempt list \<Rightarrow> bool" where
  "canonical_attempts k as \<longleftrightarrow> (\<forall>a \<in> set as. at_id a = attempt_id k (at_sequence a) \<and> 1 \<le> at_sequence a)"

definition audit_entry :: "repo \<Rightarrow> string \<Rightarrow> order \<Rightarrow> bool" where
  "audit_entry r k o1 \<longleftrightarrow> order_fill_ok o1 \<and> legal_log (events_of r k) \<and> canonical_attempts k (attempts_of r k)"

definition audit_ok :: "repo \<Rightarrow> bool" where
  "audit_ok r \<longleftrightarrow> repo_ok r \<and> (\<forall>(k, o1) \<in> set (r_by_id r). audit_entry r k o1)"

lemma audit_ok_iff:
  "audit_ok r \<longleftrightarrow> repo_ok r \<and> (\<forall>k o1. map_of (r_by_id r) k = Some o1 \<longrightarrow> audit_entry r k o1)"
  by (auto simp: audit_ok_def repo_ok_def map_of_eq_Some_iff)

text \<open>A local copy that may be written back: its fill state is consistent and it keeps the client order id.\<close>

definition writable :: "order \<Rightarrow> repo \<Rightarrow> bool" where
  "writable o1 r \<longleftrightarrow> order_fill_ok o1 \<and>
     (\<forall>cur. map_of (r_by_id r) (o_id o1) = Some cur \<longrightarrow> trim_space (client_id o1) = client_id cur)"

text \<open>What the service expects of the components that write orders behind its back.\<close>

definition keeps_audit :: "(repo \<times> 'w, 'a) state \<Rightarrow> bool" where
  "keeps_audit m \<longleftrightarrow> (\<forall>r w x r' w'. audit_ok r \<longrightarrow> run_state m (r, w) = (x, r', w') \<longrightarrow> audit_ok r' \<and>
     (\<forall>k o2. map_of (r_by_id r') k = Some o2 \<longrightarrow> (\<exists>o1. map_of (r_by_id r) k = Some o1 \<and> client_id o2 = client_id o1)))"

definition ports_keep_audit :: "'w service \<Rightarrow> bool" where
  "ports_keep_audit svc \<longleftrightarrow> (\<forall>f k. sv_fill_synchronizer svc = Some f \<longrightarrow> keeps_audit (f k)) \<and>
     (\<forall>g o1. sv_unaccepted_resolver svc = Some g \<longrightarrow> keeps_audit (g o1))"

definition fresh_ids :: "'w service \<Rightarrow> repo \<Rightarrow> bool" where
  "fresh_ids svc r \<longleftrightarrow> (\<forall>w. map_of (r_by_id r) (trim_space (fst (run_state (sv_new_id svc) w))) = None)"

lemma writable_keeps_client:
  assumes "writable o1 r" "apply_transition o1 t = Inr (nxt, ev)"
  shows "keeps_client nxt ev r" "order_fill_ok nxt"
proof -
  have "trim_space (client_id nxt) = trim_space (client_id o1)" "o_id nxt = o_id o1"
    using apply_transition_fields(1,7) [OF assms(2)] by simp_all
  then show "keeps_client nxt ev r" using assms(1) by (simp add: writable_def keeps_client_def)
  show "order_fill_ok nxt" using apply_transition_fill_ok [OF assms(2)] assms(1) by (simp add: writable_def)
qed

lemma legal_log_snoc:
  assumes "repo_ok r" "map_of (r_by_id r) k = Some cur" "legal_log (events_of r k)"
    "can_transition (ev_from_status e) (ev_to_status e)"
  shows "legal_log (events_of r k @ [e])"
  using entry_okD(2) [OF repo_okD(1) [OF assms(1,2)]] assms(3,4)
  by (cases "events_of r k") (auto simp: legal_log_def log_ok_def)

text \<open>Writing a successor of an audited order keeps the other entries and extends this one.\<close>

lemma audit_write:
  assumes ok: "audit_ok r" and w: "writable o1 r" and ap: "apply_transition o1 t = Inr (nxt, ev)"
    and cur: "map_of (r_by_id r) (o_id nxt) = Some cur" "event_matches cur nxt ev"
    and r': "repo_ok r'" "\<And>k. map_of (r_by_id r') k = map_of (r_by_id (write_order nxt ev r)) k"
      "\<And>k. events_of r' k = events_of (write_order nxt ev r) k"
      "\<And>k. k \<noteq> o_id nxt \<Longrightarrow> attempts_of r' k = attempts_of r k"
      "canonical_attempts (o_id nxt) (attempts_of r' (o_id nxt))"
  shows "audit_ok r' \<and> writable nxt r'"
proof
  have legal: "can_transition (ev_from_status ev) (ev_to_status ev)"
    using ap apply_transition_event(3,4) [OF ap] apply_transition_fields(3) [OF ap] by (simp add: apply_transition_Inr)
  have e: "audit_entry r (o_id nxt) cur" using ok cur(1) by (simp add: audit_ok_iff)
  have "audit_entry r' (o_id nxt) (clone_order nxt)"
    using writable_keeps_client(2) [OF w ap] r'(5) legal_log_snoc [of r "o_id nxt" cur ev] legal ok cur(1) e
    by (simp add: audit_entry_def r'(3) audit_ok_iff)
  moreover have "audit_entry r' k o2" if "map_of (r_by_id r) k = Some o2" "k \<noteq> o_id nxt" for k o2
    using ok that r'(4) by (auto simp: audit_ok_iff audit_entry_def r'(3))
  ultimately show "audit_ok r'" using r'(1) by (auto simp: audit_ok_iff r'(2))
  show "writable nxt r'"
    using writable_keeps_client(2) [OF w ap] apply_transition_fields(7) [OF ap]
    by (simp add: writable_def r'(2))
qed

lemma audit_transition:
  assumes "audit_ok r" "writable o1 r" "apply_transition o1 t = Inr (nxt, ev)" "repo_transition nxt ev r = (None, r')"
  shows "audit_ok r' \<and> writable nxt r'"
proof -
  obtain cur where c: "map_of (r_by_id r) (o_id nxt) = Some cur" "event_matches cur nxt ev" "r' = write_order nxt ev r"
    using repo_transition_cases(1) [OF assms(4)] by blast
  have "repo_ok r'"
    using repo_transition_ok [OF _ writable_keeps_client(1) [OF assms(2,3)] assms(4)] assms(1) by (simp add: audit_ok_iff)
  then show ?thesis
    using audit_write [OF assms(1-3) c(1,2)] assms(1) c by (auto simp: audit_ok_iff audit_entry_def)
qed

lemma audit_start:
  assumes "audit_ok r" "writable o1 r" "apply_transition o1 t = Inr (nxt, ev)" "attempt_of o1 a"
    "repo_start_attempt nxt ev a r = (None, r')"
  shows "audit_ok r' \<and> writable nxt r'"
proof -
  obtain cur where c: "map_of (r_by_id r) (o_id nxt) = Some cur" "event_matches cur nxt ev"
      "r' = write_attempts (o_id nxt) (attempts_of r (o_id nxt) @ [a]) (write_order nxt ev r)"
    using repo_start_attempt_cases(1) [OF assms(5)] by blast
  have id: "o_id nxt = o_id o1" by (rule apply_transition_fields(1) [OF assms(3)])
  have "at_id a = attempt_id (o_id nxt) (at_sequence a) \<and> 1 \<le> at_sequence a"
    using assms(4) attempt_id_trim [of "at_sequence a" "o_id o1"] by (simp add: attempt_of_def id attempt_id_def)
  then have "canonical_attempts (o_id nxt) (attempts_of r (o_id nxt) @ [a])"
    using assms(1) c(1) by (auto simp: audit_ok_iff audit_entry_def canonical_attempts_def)
  moreover have "repo_ok r'"
    using repo_start_attempt_ok [OF _ writable_keeps_client(1) [OF assms(2,3)] assms(5)] assms(1) by (simp add: audit_ok_iff)
  ultimately show ?thesis using audit_write [OF assms(1-3) c(1,2)] c(3) by simp
qed

lemma audit_finish:
  assumes "audit_ok r" "writable o1 r" "apply_transition o1 t = Inr (nxt, ev)" "attempt_of o1 a"
    "repo_finish_attempt nxt ev a r = (None, r')"
  shows "audit_ok r' \<and> writable nxt r'"
proof -
  obtain cur as where c: "map_of (r_by_id r) (o_id nxt) = Some cur" "event_matches cur nxt ev" "at_order_id a = o_id nxt"
      "replace_attempt a (attempts_of r (o_id nxt)) = Inr as" "r' = write_attempts (o_id nxt) as (write_order nxt ev r)"
    using repo_finish_attempt_cases(1) [OF assms(5)] by blast
  have id: "o_id nxt = o_id o1" by (rule apply_transition_fields(1) [OF assms(3)])
  have a: "at_id a = attempt_id (o_id nxt) (at_sequence a)" "1 \<le> at_sequence a"
    using assms(4) attempt_id_trim [of "at_sequence a" "o_id o1"] by (simp_all add: attempt_of_def id attempt_id_def)
  have old: "canonical_attempts (o_id nxt) (attempts_of r (o_id nxt))"
    using assms(1) c(1) by (simp add: audit_ok_iff audit_entry_def)
  have "at_sequence b = at_sequence a" if "b \<in> set (attempts_of r (o_id nxt))" "at_id b = at_id a" for b
    using old that a attempt_id_inj [of "o_id nxt" "at_sequence b" "at_sequence a"] by (auto simp: canonical_attempts_def)
  then have "keeps_sequence a r" by (simp add: keeps_sequence_def c(3))
  then have "repo_ok r'"
    using repo_finish_attempt_ok [OF _ writable_keeps_client(1) [OF assms(2,3)] _ assms(5)] assms(1) by (simp add: audit_ok_iff)
  moreover have "canonical_attempts (o_id nxt) as"
    using replace_attempt_Inr [OF c(4)] old a by (auto simp: canonical_attempts_def)
  ultimately show ?thesis using audit_write [OF assms(1-3) c(1,2)] c(5) by simp
qed

lemma audit_create:
  assumes ok: "audit_ok r" and fresh: "fresh_ids svc r"
    and b: "build_order (fst (run_state (sv_new_id svc) w)) i now = Inr o1"
    and c: "repo_create o1 r = ((stored, created), r')"
  shows "audit_ok r' \<and> (created \<longrightarrow> writable stored r')"
proof -
  from b have id: "o_id o1 = trim_space (fst (run_state (sv_new_id svc) w))"
    and cl: "trim_space (client_id o1) = client_id o1"
    by (auto simp: build_order_def build_intent_def Let_def intent_normalize_def split: if_splits sum.splits option.splits)
  have new: "map_of (r_by_id r) (o_id o1) = None" using fresh id by (simp add: fresh_ids_def)
  have rok: "repo_ok r'" using repo_create_ok [OF _ new cl] ok c by (simp add: audit_ok_iff)
  show ?thesis
  proof (cases "map_of (r_by_client r) (client_id o1)")
    case None
    have r': "map_of (r_by_id r') k = (if k = o_id o1 then Some (clone_order o1) else map_of (r_by_id r) k)"
      "events_of r' k = (if k = o_id o1 then [created_event (clone_order o1)] else events_of r k)"
      "attempts_of r' k = attempts_of r k" "stored = clone_order o1 \<or> stored = clone_order (clone_order o1)" for k
      using c None cl by (auto simp: repo_create_def Let_def events_of_def attempts_of_def)
    have "attempts_of r (o_id o1) = []" using repo_okD(4) ok new by (simp add: audit_ok_iff)
    then have "audit_entry r' (o_id o1) (clone_order o1)"
      using build_order_fill_ok [OF b] by (simp add: audit_entry_def r' legal_log_def canonical_attempts_def)
    moreover have "audit_entry r' k o2" if "map_of (r_by_id r) k = Some o2" "k \<noteq> o_id o1" for k o2
      using ok that by (simp add: audit_ok_iff audit_entry_def r')
    ultimately show ?thesis
      using rok r'(4) build_order_fill_ok [OF b] cl by (auto simp: audit_ok_iff r'(1) writable_def)
  next
    case (Some k)
    then have "created = False" "r' = r" using c cl by (auto simp: repo_create_def Let_def split: option.splits prod.splits)
    with ok show ?thesis by simp
  qed
qed

lemma audit_get:
  assumes "audit_ok r" "repo_get r k = Inr o1"
  shows "writable o1 r"
proof -
  obtain cur where cur: "map_of (r_by_id r) k = Some cur" "o1 = clone_order cur"
    using assms(2) by (auto simp: repo_get_def split: option.splits)
  note e = entry_okD [OF repo_okD(1) [OF _ cur(1)]]
  have "repo_ok r" "order_fill_ok cur" using assms(1) cur(1) by (auto simp: audit_ok_iff audit_entry_def)
  with e [of] cur show ?thesis by (simp add: writable_def)
qed

lemma keeps_auditD:
  assumes "keeps_audit m" "audit_ok r" "run_state m (r, w) = (x, r', w')"
  shows "audit_ok r' \<and> (\<forall>o1. writable o1 r \<longrightarrow> writable o1 r')"
proof -
  have k: "audit_ok r' \<and> (\<forall>k o2. map_of (r_by_id r') k = Some o2 \<longrightarrow>
      (\<exists>o1. map_of (r_by_id r) k = Some o1 \<and> client_id o2 = client_id o1))"
    using assms unfolding keeps_audit_def by blast
  then show ?thesis unfolding writable_def by metis
qed

lemma writable_fields:
  "writable (o1\<lparr>o_market_validation := mv\<rparr>) r = writable o1 r" "writable (o1\<lparr>o_venue_order_id := vid\<rparr>) r = writable o1 r"
  by (simp_all add: writable_def order_fill_ok_def filled_rat_def size_rat_def clone_order_def
      allows_buy_share_price_improvement_def split: option.split)

text \<open>
  The laws of the locale hold for every service: for one whose other writers break the invariant there is
  nothing to show.
\<close>

definition audit_inv :: "'w service \<Rightarrow> 'w sys \<Rightarrow> bool" where
  "audit_inv svc s \<longleftrightarrow> (ports_keep_audit svc \<longrightarrow> audit_ok (sys_repo s))"

definition audit_local :: "'w service \<Rightarrow> order \<Rightarrow> repo \<Rightarrow> bool" where
  "audit_local svc o1 r \<longleftrightarrow> (ports_keep_audit svc \<longrightarrow> writable o1 r)"

interpretation audit: service_invariant svc "audit_inv svc" "audit_local svc" "fresh_ids svc" for svc
proof unfold_locales
  fix s :: "'a sys" and f k w x r' w'
  assume "audit_inv svc s" "sv_fill_synchronizer svc = Some f" "run_state (f k) (sys_repo s, w) = (x, r', w')"
  then show "audit_inv svc (s\<lparr>sys_repo := r', sys_world := w'\<rparr>) \<and> (\<forall>o1. audit_local svc o1 (sys_repo s) \<longrightarrow> audit_local svc o1 r')"
    using keeps_auditD [of "f k"] by (auto simp: audit_inv_def audit_local_def ports_keep_audit_def)
next
  fix s :: "'a sys" and g o2 w y r' w'
  assume "audit_inv svc s" "sv_unaccepted_resolver svc = Some g" "run_state (g o2) (sys_repo s, w) = (y, r', w')"
  then show "audit_inv svc (s\<lparr>sys_repo := r', sys_world := w'\<rparr>) \<and> (\<forall>o1. audit_local svc o1 (sys_repo s) \<longrightarrow> audit_local svc o1 r')"
    using keeps_auditD [of "g o2"] by (auto simp: audit_inv_def audit_local_def ports_keep_audit_def)
qed (auto simp: audit_inv_def audit_local_def writable_fields dest: audit_get audit_transition audit_start audit_finish audit_create)

text \<open>
  C4. The ledger of orders stays auditable under the whole service. In every run whose submissions draw fresh
  order ids, and as long as the fill ledger, the no-fill resolver and the other writers keep the invariant
  themselves, whatever the ports answer, each order has an unbroken chain of events that are all legal
  status changes, a fill state that matches its status, and attempts with unique canonical ids.
\<close>

theorem service_keeps_audit:
  assumes "service_reach svc (fresh_ids svc) ext s0 s" "ports_keep_audit svc" "audit_ok (sys_repo s0)"
    and ext: "\<And>r r'. audit_ok r \<Longrightarrow> ext r r' \<Longrightarrow> audit_ok r'"
  shows "audit_ok (sys_repo s)"
proof -
  have "audit_inv svc s"
    by (rule audit.reach_invariant [OF assms(1)]) (use assms(3) ext in \<open>auto simp: audit_inv_def\<close>)
  then show ?thesis using assms(2) by (simp add: audit_inv_def)
qed

text \<open>The paper service with a ledger that reports no fills.\<close>

definition synced_service :: "paper_world service" where
  "synced_service = sample_service\<lparr>sv_fill_synchronizer := Some (\<lambda>k. State_Monad.return
     (Inr \<lparr>sr_order_id = k, sr_observed = 0, sr_applied = 0, sr_duplicates = 0, sr_applications = []\<rparr>))\<rparr>"

theorem service_keeps_audit_witness:
  "ports_keep_audit synced_service \<and>
   audit_ok (sys_repo (snd (run_state (service_submit synced_service None sample_intent) sample_sys)))"
proof
  have r: "sv_unaccepted_resolver sample_service = None" by code_simp
  show p: "ports_keep_audit synced_service"
    by (auto simp: ports_keep_audit_def synced_service_def keeps_audit_def r)
  have "r_by_id (sys_repo sample_sys) = []" and ok: "audit_ok (sys_repo sample_sys)" by code_simp+
  then have f: "fresh_ids synced_service (sys_repo sample_sys)" by (simp add: fresh_ids_def)
  have reach: "service_reach synced_service (fresh_ids synced_service) (=) sample_sys
      (snd (run_state (service_submit synced_service None sample_intent) sample_sys))"
    using service_reach.submit [where adm = "fresh_ids synced_service", OF service_reach.start f] by (metis prod.collapse)
  show "audit_ok (sys_repo (snd (run_state (service_submit synced_service None sample_intent) sample_sys)))"
    by (rule service_keeps_audit [OF reach p ok]) simp
qed

end
