(* ===== verification/Execution_Replay.thy ===== *)
theory Execution_Replay
  imports Execution_Audit
begin

text \<open>
  Idempotent submission: once an intent has been claimed under its client order id, every later submission of
  it, after any sequence of operations, returns the claimed order and does nothing else.
\<close>

section \<open>Claims\<close>

text \<open>Cloning normalises an intent again each time; from the second pass on nothing changes any more.\<close>

definition stable_intent :: "order_intent \<Rightarrow> order_intent" where
  "stable_intent i = intent_normalize (intent_normalize i)"

lemma stable_normalize [simp]: "stable_intent (intent_normalize i) = stable_intent i"
  unfolding stable_intent_def by (simp add: intent_normalize_def inferred_market_source_stable)

lemma stable_equivalent:
  assumes "stable_intent a = stable_intent b" "intent_validate (intent_normalize b) = None"
  shows "intent_equivalent (intent_normalize a) (intent_normalize b)"
  using intent_equivalent_refl [OF assms(2)] assms(1) by (simp add: intent_equivalent_def stable_intent_def)

definition claimed :: "string \<Rightarrow> order_intent \<Rightarrow> repo \<Rightarrow> bool" where
  "claimed c n r \<longleftrightarrow>
     (case map_of (r_by_client r) c of None \<Rightarrow> False
      | Some k \<Rightarrow> (case map_of (r_by_id r) k of None \<Rightarrow> False | Some o1 \<Rightarrow> stable_intent (o_intent o1) = n))"

lemma claimed_iff: "claimed c n r \<longleftrightarrow>
  (\<exists>k o1. map_of (r_by_client r) c = Some k \<and> map_of (r_by_id r) k = Some o1 \<and> stable_intent (o_intent o1) = n)"
  by (auto simp: claimed_def split: option.splits)

text \<open>A local copy of the claimed order still carries the claimed intent.\<close>

definition same_claim :: "string \<Rightarrow> order_intent \<Rightarrow> order \<Rightarrow> repo \<Rightarrow> bool" where
  "same_claim c n o1 r \<longleftrightarrow> (map_of (r_by_client r) c = Some (o_id o1) \<longrightarrow> stable_intent (o_intent o1) = n)"

definition keeps_claims :: "(repo \<times> 'w, 'a) state \<Rightarrow> bool" where
  "keeps_claims m \<longleftrightarrow> (\<forall>r w x r' w'. run_state m (r, w) = (x, r', w') \<longrightarrow> (\<forall>c n. claimed c n r \<longrightarrow>
     claimed c n r' \<and> map_of (r_by_client r') c = map_of (r_by_client r) c))"

definition ports_keep_claims :: "'w service \<Rightarrow> bool" where
  "ports_keep_claims svc \<longleftrightarrow> ports_keep_audit svc \<and>
     (\<forall>f k. sv_fill_synchronizer svc = Some f \<longrightarrow> keeps_claims (f k)) \<and>
     (\<forall>g o1. sv_unaccepted_resolver svc = Some g \<longrightarrow> keeps_claims (g o1))"

definition claim_inv :: "'w service \<Rightarrow> string \<Rightarrow> order_intent \<Rightarrow> 'w sys \<Rightarrow> bool" where
  "claim_inv svc c n s \<longleftrightarrow> (ports_keep_claims svc \<longrightarrow> audit_ok (sys_repo s) \<and> claimed c n (sys_repo s))"

definition claim_local :: "'w service \<Rightarrow> string \<Rightarrow> order_intent \<Rightarrow> order \<Rightarrow> repo \<Rightarrow> bool" where
  "claim_local svc c n o1 r \<longleftrightarrow> (ports_keep_claims svc \<longrightarrow> writable o1 r \<and> same_claim c n o1 r)"

text \<open>Every audited write keeps the claim.\<close>

lemma claim_write:
  assumes "claimed c n r" "same_claim c n o1 r" "apply_transition o1 t = Inr (nxt, ev)"
    and "r_by_client r' = r_by_client r" "\<And>k. map_of (r_by_id r') k = map_of (r_by_id (write_order nxt ev r)) k"
  shows "claimed c n r' \<and> same_claim c n nxt r'"
proof -
  have f: "o_id nxt = o_id o1" "o_intent nxt = intent_normalize (o_intent o1)"
    using apply_transition_fields(1,7) [OF assms(3)] by auto
  then show ?thesis using assms(1,2,4,5) by (auto simp: claimed_iff same_claim_def)
qed

lemma claim_transition:
  assumes "claimed c n r" "same_claim c n o1 r" "apply_transition o1 t = Inr (nxt, ev)"
    "repo_transition nxt ev r = (None, r')"
  shows "claimed c n r' \<and> same_claim c n nxt r'"
proof -
  have "r' = write_order nxt ev r" using repo_transition_cases(1) [OF assms(4)] by blast
  then show ?thesis using claim_write [OF assms(1-3)] by simp
qed

lemma claim_start:
  assumes "claimed c n r" "same_claim c n o1 r" "apply_transition o1 t = Inr (nxt, ev)"
    "repo_start_attempt nxt ev a r = (None, r')"
  shows "claimed c n r' \<and> same_claim c n nxt r'"
proof -
  have "r' = write_attempts (o_id nxt) (attempts_of r (o_id nxt) @ [a]) (write_order nxt ev r)"
    using repo_start_attempt_cases(1) [OF assms(4)] by blast
  then show ?thesis using claim_write [OF assms(1-3)] by simp
qed

lemma claim_finish:
  assumes "claimed c n r" "same_claim c n o1 r" "apply_transition o1 t = Inr (nxt, ev)"
    "repo_finish_attempt nxt ev a r = (None, r')"
  shows "claimed c n r' \<and> same_claim c n nxt r'"
proof -
  obtain as where "r' = write_attempts (o_id nxt) as (write_order nxt ev r)"
    using repo_finish_attempt_cases(1) [OF assms(4)] by blast
  then show ?thesis using claim_write [OF assms(1-3)] by simp
qed

lemma claim_get:
  assumes "audit_ok r" "claimed c n r" "repo_get r k = Inr o1"
  shows "same_claim c n o1 r"
proof -
  obtain cur where cur: "map_of (r_by_id r) k = Some cur" "o1 = clone_order cur"
    using assms(3) by (auto simp: repo_get_def split: option.splits)
  have "o_id cur = k" using entry_okD(1) [OF repo_okD(1) [OF _ cur(1)]] assms(1) by (simp add: audit_ok_iff)
  then show ?thesis using assms(2) cur by (auto simp: claimed_iff same_claim_def)
qed

lemma built_order:
  assumes "build_order ident i now = Inr o1"
  shows "o_id o1 = trim_space ident" "o_intent o1 = intent_normalize i" "intent_validate (intent_normalize i) = None"
  using assms by (auto simp: build_order_def build_intent_def Let_def split: if_splits sum.splits option.splits)

text \<open>Creating another order keeps a claim, and creating this one makes it.\<close>

lemma create_fields:
  assumes "repo_create o1 r = ((stored, True), r')" "trim_space (client_id o1) = client_id o1"
  shows "map_of (r_by_client r) (client_id o1) = None"
    "map_of (r_by_client r') c = (if c = client_id o1 then Some (o_id o1) else map_of (r_by_client r) c)"
    "map_of (r_by_id r') k = (if k = o_id o1 then Some (clone_order o1) else map_of (r_by_id r) k)"
    "stored = clone_order (clone_order o1)"
  using assms by (auto simp: repo_create_def Let_def split: option.splits)

lemma create_not_created: "repo_create o1 r = ((stored, False), r') \<Longrightarrow> r' = r"
  by (auto simp: repo_create_def Let_def split: option.splits)

lemma claim_create_other:
  assumes "claimed c n r" "fresh_ids svc r" "build_order (fst (run_state (sv_new_id svc) w)) i now = Inr o1"
    "repo_create o1 r = ((stored, created), r')"
  shows "claimed c n r' \<and> (created \<longrightarrow> same_claim c n stored r')"
proof (cases created)
  case True
  have cl: "trim_space (client_id o1) = client_id o1" using built_order(2) [OF assms(3)] by simp
  have "repo_create o1 r = ((stored, True), r')" using assms(4) True by simp
  note f = create_fields [OF this cl]
  have "map_of (r_by_id r) (o_id o1) = None" using assms(2) built_order(1) [OF assms(3)] by (simp add: fresh_ids_def)
  then show ?thesis using assms(1) f by (auto simp: claimed_iff same_claim_def)
qed (use assms create_not_created in auto)

lemma claim_create_self:
  assumes "build_order ident i now = Inr o1" "repo_create o1 r = ((stored, True), r')"
  shows "claimed (oi_client_order_id (intent_normalize i)) (stable_intent i) r'"
    "same_claim (oi_client_order_id (intent_normalize i)) (stable_intent i) stored r'"
proof -
  have cl: "trim_space (client_id o1) = client_id o1" using built_order(2) [OF assms(1)] by simp
  note f = create_fields [OF assms(2) cl] built_order(2) [OF assms(1)]
  show "claimed (oi_client_order_id (intent_normalize i)) (stable_intent i) r'"
    "same_claim (oi_client_order_id (intent_normalize i)) (stable_intent i) stored r'"
    using f by (auto simp: claimed_iff same_claim_def)
qed

lemma claim_port:
  assumes "keeps_audit m" "keeps_claims m" "audit_ok r" "claimed c n r" "run_state m (r, w) = (x, r', w')"
  shows "audit_ok r' \<and> claimed c n r' \<and>
    (\<forall>o1. writable o1 r \<and> same_claim c n o1 r \<longrightarrow> writable o1 r' \<and> same_claim c n o1 r')"
proof -
  have "claimed c n r' \<and> map_of (r_by_client r') c = map_of (r_by_client r) c"
    using assms(2,4,5) unfolding keeps_claims_def by blast
  then show ?thesis using keeps_auditD [OF assms(1,3,5)] by (simp add: same_claim_def)
qed

lemma same_claim_fields:
  "same_claim c n (o1\<lparr>o_market_validation := mv\<rparr>) r = same_claim c n o1 r"
  "same_claim c n (o1\<lparr>o_venue_order_id := vid\<rparr>) r = same_claim c n o1 r"
  by (simp_all add: same_claim_def)

interpretation claims: service_invariant svc "claim_inv svc c n" "claim_local svc c n" "fresh_ids svc" for svc c n
proof unfold_locales
  fix s :: "'a sys" and f k w x r' w'
  assume a: "claim_inv svc c n s" "sv_fill_synchronizer svc = Some f" "run_state (f k) (sys_repo s, w) = (x, r', w')"
  then show "claim_inv svc c n (s\<lparr>sys_repo := r', sys_world := w'\<rparr>) \<and>
      (\<forall>o1. claim_local svc c n o1 (sys_repo s) \<longrightarrow> claim_local svc c n o1 r')"
    using claim_port [of "f k" "sys_repo s" c n w x r' w']
    by (simp add: claim_inv_def claim_local_def ports_keep_claims_def ports_keep_audit_def)
next
  fix s :: "'a sys" and g o2 w y r' w'
  assume a: "claim_inv svc c n s" "sv_unaccepted_resolver svc = Some g" "run_state (g o2) (sys_repo s, w) = (y, r', w')"
  then show "claim_inv svc c n (s\<lparr>sys_repo := r', sys_world := w'\<rparr>) \<and>
      (\<forall>o1. claim_local svc c n o1 (sys_repo s) \<longrightarrow> claim_local svc c n o1 r')"
    using claim_port [of "g o2" "sys_repo s" c n w y r' w']
    by (simp add: claim_inv_def claim_local_def ports_keep_claims_def ports_keep_audit_def)
next
  fix s :: "'a sys" and o1 t nxt ev r'
  assume "claim_inv svc c n s" "claim_local svc c n o1 (sys_repo s)" "apply_transition o1 t = Inr (nxt, ev)"
    "repo_transition nxt ev (sys_repo s) = (None, r')"
  then show "claim_inv svc c n (s\<lparr>sys_repo := r'\<rparr>) \<and> claim_local svc c n nxt r'"
    using audit_transition [of "sys_repo s" o1 t nxt ev r'] claim_transition [of c n "sys_repo s" o1 t nxt ev r']
    by (simp add: claim_inv_def claim_local_def)
next
  fix s :: "'a sys" and o1 t nxt ev a r'
  assume a: "claim_inv svc c n s" "claim_local svc c n o1 (sys_repo s)" "apply_transition o1 t = Inr (nxt, ev)" "attempt_of o1 a"
  show "repo_start_attempt nxt ev a (sys_repo s) = (None, r') \<Longrightarrow> claim_inv svc c n (s\<lparr>sys_repo := r'\<rparr>) \<and> claim_local svc c n nxt r'"
    using audit_start [of "sys_repo s" o1 t nxt ev a r'] claim_start [of c n "sys_repo s" o1 t nxt ev a r'] a
    by (simp add: claim_inv_def claim_local_def)
  show "repo_finish_attempt nxt ev a (sys_repo s) = (None, r') \<Longrightarrow> claim_inv svc c n (s\<lparr>sys_repo := r'\<rparr>) \<and> claim_local svc c n nxt r'"
    using audit_finish [of "sys_repo s" o1 t nxt ev a r'] claim_finish [of c n "sys_repo s" o1 t nxt ev a r'] a
    by (simp add: claim_inv_def claim_local_def)
next
  fix s :: "'a sys" and w i now o1 stored created r'
  assume "claim_inv svc c n s" "fresh_ids svc (sys_repo s)" "build_order (fst (run_state (sv_new_id svc) w)) i now = Inr o1"
    "repo_create o1 (sys_repo s) = ((stored, created), r')"
  then show "claim_inv svc c n (s\<lparr>sys_repo := r'\<rparr>) \<and> (created \<longrightarrow> claim_local svc c n stored r')"
    using audit_create [of "sys_repo s" svc w i now o1 stored created r']
      claim_create_other [of c n "sys_repo s" svc w i now o1 stored created r']
    by (simp add: claim_inv_def claim_local_def)
next
  fix s :: "'a sys" and k o1
  assume "claim_inv svc c n s" "repo_get (sys_repo s) k = Inr o1"
  then show "claim_local svc c n o1 (sys_repo s)"
    using audit_get [of "sys_repo s" k o1] claim_get [of "sys_repo s" c n k o1] by (simp add: claim_inv_def claim_local_def)
qed (simp_all add: claim_inv_def claim_local_def writable_fields same_claim_fields)


section \<open>The first submission claims, later ones replay\<close>

lemma claims_made:
  assumes "ports_keep_claims svc" "audit_ok (sys_repo s)" "fresh_ids svc (sys_repo s)"
  shows "wp (submit_admitted svc turn i)
    (\<lambda>x s'. sb_created (fst x) \<longrightarrow> claim_inv svc (oi_client_order_id (intent_normalize i)) (stable_intent i) s') s"
    (is "wp _ ?Q s")
proof -
  have ports: "ports_keep_audit svc" using assms(1) by (simp add: ports_keep_claims_def)
  have a: "audit_inv svc s" using assms(2) by (simp add: audit_inv_def)
  have new_id: "wp (in_world (sv_new_id svc)) P s1"
    if "audit_inv svc s1" "sys_repo s1 = sys_repo s"
      "\<And>s2 w. sys_repo s2 = sys_repo s \<Longrightarrow> P (fst (run_state (sv_new_id svc) w)) s2" for s1 P
    using that(2) that(3) [of "s1\<lparr>sys_world := snd (run_state (sv_new_id svc) (sys_world s1))\<rparr>" "sys_world s1"]
    by (simp add: wp_def in_world_def case_prod_beta)
  have create: "wp (in_repo (repo_create o1)) P s2"
    if "sys_repo s2 = sys_repo s" "build_order (fst (run_state (sv_new_id svc) w)) i now = Inr o1"
      "\<And>stored s3. P (stored, False) s3"
      "\<And>stored s3. claim_inv svc (oi_client_order_id (intent_normalize i)) (stable_intent i) s3 \<Longrightarrow>
         claim_local svc (oi_client_order_id (intent_normalize i)) (stable_intent i) stored (sys_repo s3) \<Longrightarrow> P (stored, True) s3"
    for s2 w now o1 P
  proof -
    obtain stored c r where r: "repo_create o1 (sys_repo s2) = ((stored, c), r)" by (metis prod.exhaust)
    have ok: "audit_ok r \<and> (c \<longrightarrow> writable stored r)"
      using audit_create [OF _ _ that(2) r] assms(2,3) that(1) by simp
    show ?thesis
    proof (cases c)
      case True
      then have r': "repo_create o1 (sys_repo s2) = ((stored, True), r)" using r by simp
      show ?thesis using that(4) claim_create_self [OF that(2) r'] ok True
        by (simp add: wp_def in_repo_def r claim_inv_def claim_local_def)
    qed (use that(3) in \<open>simp add: wp_def in_repo_def r\<close>)
  qed
  have finished: "wp (submit_with o1 False e) ?Q s1" for o1 e s1
    by (simp add: submit_with_def wp_def)
  show ?thesis unfolding submit_admitted_def
    by (intro wp_rules audit.wp_now audit.wp_read_repo new_id create finished)
       (auto simp: a finished intro!: claims.wp_submit_created)
qed

lemma replay_result:
  assumes "claimed (oi_client_order_id (intent_normalize i)) (stable_intent i) (sys_repo s)"
    and "intent_validate (intent_normalize i) = None"
    and "oi_venue (intent_normalize i) = to_lower (trim_space (v_name (sv_venue svc)))"
    and "require_active_account svc (oi_execution_account_id (intent_normalize i)) = None"
  shows "\<exists>o1. run_state (service_submit svc None i) s = ((\<lparr>sb_order = o1, sb_created = False\<rparr>, None), s) \<and>
    repo_get_by_client_order_id (sys_repo s) (oi_client_order_id (intent_normalize i)) = Inr o1"
proof -
  obtain k cur where c: "map_of (r_by_client (sys_repo s)) (oi_client_order_id (intent_normalize i)) = Some k"
    "map_of (r_by_id (sys_repo s)) k = Some cur" "stable_intent (o_intent cur) = stable_intent i"
    using assms(1) by (auto simp: claimed_iff)
  have g: "repo_get_by_client_order_id (sys_repo s) (oi_client_order_id (intent_normalize i)) = Inr (clone_order cur)"
    using c by (simp add: repo_get_by_client_order_id_def lookup_order_def)
  have "execution_intent_replay_equivalent (o_intent (clone_order cur)) (intent_normalize i)"
    using stable_equivalent [OF c(3) assms(2)] by (simp add: execution_intent_replay_equivalent_def)
  then show ?thesis
    using g assms(2-4) by (simp add: service_submit_def submit_admitted_def read_repo_def release_turn_port_def
        submit_with_def Let_def)
qed

lemma created_admitted:
  assumes "run_state (service_submit svc turn i) s = ((res, e), s1)" "sb_created res"
  shows "intent_validate (intent_normalize i) = None"
    "oi_venue (intent_normalize i) = to_lower (trim_space (v_name (sv_venue svc)))"
    "require_active_account svc (oi_execution_account_id (intent_normalize i)) = None"
  using assms by (auto simp: service_submit_def submit_with_def Let_def split: option.splits if_splits)

lemma created_claims:
  assumes "ports_keep_claims svc" "audit_ok (sys_repo s)" "fresh_ids svc (sys_repo s)"
    and run: "run_state (service_submit svc turn i) s = ((res, e), s1)" "sb_created res"
  shows "claim_inv svc (oi_client_order_id (intent_normalize i)) (stable_intent i) s1"
proof -
  note adm = created_admitted [OF run]
  let ?P = "\<lambda>x s'. sb_created (fst x) \<longrightarrow> claim_inv svc (oi_client_order_id (intent_normalize i)) (stable_intent i) s'"
  have release: "wp (State_Monad.bind (release_turn_port turn) (\<lambda>_. State_Monad.return x)) ?P s'" if "?P x s'" for x s'
    using that by (auto simp: wp_def release_turn_port_def in_world_def claim_inv_def split: option.split prod.split)
  have "wp (submit_admitted svc turn (intent_normalize i)) ?P s"
    using claims_made [OF assms(1-3), of turn "intent_normalize i"] by simp
  then have "wp (State_Monad.bind (submit_admitted svc turn (intent_normalize i))
      (\<lambda>x. State_Monad.bind (release_turn_port turn) (\<lambda>_. State_Monad.return x))) ?P s"
    by (rule wp_bind [OF wp_mono]) (rule release)
  then have "wp (service_submit svc turn i) ?P s" using adm by (simp add: service_submit_def Let_def)
  from wpD [OF this run(1)] run(2) show ?thesis by simp
qed

text \<open>
  C5. Exactly once: after a submission that created an order, and after any further operations of the service
  and of the other writers, submitting the same intent again returns the stored order with that client order
  id, reports no error and changes nothing: no write, no call to the venue, no reservation.
\<close>

theorem submit_exactly_once:
  assumes "ports_keep_claims svc" "audit_ok (sys_repo s)" "fresh_ids svc (sys_repo s)"
    and run: "run_state (service_submit svc turn i) s = ((res, e), s1)" "sb_created res"
    and reach: "service_reach svc (fresh_ids svc) ext s1 s2"
    and ext: "\<And>r r' c n. audit_ok r \<Longrightarrow> ext r r' \<Longrightarrow> audit_ok r' \<and> (claimed c n r \<longrightarrow> claimed c n r')"
  shows "\<exists>o1. run_state (service_submit svc None i) s2 = ((\<lparr>sb_order = o1, sb_created = False\<rparr>, None), s2) \<and>
    client_id o1 = trim_space (oi_client_order_id i)"
proof -
  let ?c = "oi_client_order_id (intent_normalize i)" and ?n = "stable_intent i"
  have "claim_inv svc ?c ?n s2"
    by (rule claims.reach_invariant [OF reach created_claims [OF assms(1-3) run]])
       (use ext in \<open>auto simp: claim_inv_def\<close>)
  then have c: "audit_ok (sys_repo s2)" "claimed ?c ?n (sys_repo s2)" using assms(1) by (auto simp: claim_inv_def)
  obtain o1 where o1: "run_state (service_submit svc None i) s2 = ((\<lparr>sb_order = o1, sb_created = False\<rparr>, None), s2)"
      "repo_get_by_client_order_id (sys_repo s2) ?c = Inr o1"
    using replay_result [OF c(2) created_admitted [OF run]] by blast
  have "client_id o1 = ?c"
    using o1(2) c repo_okD(2) [of "sys_repo s2" ?c]
    by (auto simp: repo_get_by_client_order_id_def lookup_order_def claimed_iff audit_ok_iff split: option.splits)
  with o1(1) show ?thesis by auto
qed

theorem submit_exactly_once_witness:
  "\<exists>o1. run_state (service_submit sample_service None sample_intent) (snd after_submit) =
     ((\<lparr>sb_order = o1, sb_created = False\<rparr>, None), snd after_submit) \<and> client_id o1 = ''c1''"
proof -
  have p: "ports_keep_claims sample_service"
  proof -
    have "sv_fill_synchronizer sample_service = None" "sv_unaccepted_resolver sample_service = None" by code_simp+
    then show ?thesis by (simp add: ports_keep_claims_def ports_keep_audit_def)
  qed
  have "r_by_id (sys_repo sample_sys) = []" and ok: "audit_ok (sys_repo sample_sys)" by code_simp+
  then have f: "fresh_ids sample_service (sys_repo sample_sys)" by (simp add: fresh_ids_def)
  have run: "run_state (service_submit sample_service None sample_intent) sample_sys = (fst after_submit, snd after_submit)"
    by (simp add: after_submit_def)
  have created: "sb_created (fst (fst after_submit))" by code_simp
  have "trim_space (oi_client_order_id sample_intent) = ''c1''" by code_simp
  then show ?thesis
    using submit_exactly_once [where ext = "(=)", OF p ok f _ created service_reach.start] run by (metis prod.collapse)
qed

section \<open>A replay and its reservation turn\<close>

text \<open>
  A submission that is answered from the stored order never waits for its turn, yet its deferred \<open>Release\<close> opens the next
  one: with a turn \<open>k\<close> of a sequence held in the world, turn \<open>k + 1\<close> may reserve afterwards although no turn before
  \<open>k\<close> has been released.
\<close>

lemma replayed_submit_skips_its_turn:
  assumes i: "intent_validate (intent_normalize i) = None"
      "oi_venue (intent_normalize i) = to_lower (trim_space (v_name (sv_venue svc)))"
      "require_active_account svc (oi_execution_account_id (intent_normalize i)) = None"
    and stored: "repo_get_by_client_order_id (sys_repo s) (oi_client_order_id (intent_normalize i)) = Inr o1"
    and turn: "\<And>w. sequence (snd (run_state (tp_release tp) w)) = turn_release \<lparr>rt_index = k\<rparr> (sequence w)"
      "Suc k < length (rs_done (sequence (sys_world s)))"
    and run: "run_state (service_submit svc (Some tp) i) s = (x, s')"
  shows "turn_wait (sequence (sys_world s')) \<lparr>rt_index = Suc k\<rparr> None = Some None \<and>
    (\<forall>j < k. rs_done (sequence (sys_world s')) ! j = rs_done (sequence (sys_world s)) ! j)"
proof -
  have "sys_world s' = snd (run_state (tp_release tp) (sys_world s))"
    using run i stored
    by (auto simp: service_submit_def submit_admitted_def read_repo_def submit_with_def release_turn_port_def in_world_def split_def Let_def
        split: if_splits)
  then show ?thesis using turn by (simp add: turn_wait_def turn_release_def)
qed

end
