(* ===== verification/Execution_Finality.thy ===== *)
theory Execution_Finality
  imports Execution_Audit
begin

text \<open>
  The two places where the service waits: a submission that may still be in flight is not taken over, and the
  reservation of a cancelled order is released only with complete evidence.
\<close>

section \<open>Evidence for the release of a cancelled order\<close>

text \<open>
  What the ports of the service answer when they are asked one after the other, from the repository and the world
  in which the run starts. Every answer is pinned by the state in which its port is called: a different answer
  is a different run.
\<close>

definition grace_passed :: "gtime \<Rightarrow> duration \<Rightarrow> order \<Rightarrow> bool" where
  "grace_passed now grace o1 \<longleftrightarrow> (\<exists>l. o_venue_last_observed_at o1 = Some l \<and> grace \<le> now - l)"

text \<open>The reservation of the order, where it can be read at all, is not released yet; reading it leads to the world \<open>w'\<close>.\<close>

definition reservation_open :: "'w service \<Rightarrow> order \<Rightarrow> 'w \<Rightarrow> 'w \<Rightarrow> bool" where
  "reservation_open svc o0 w w' \<longleftrightarrow>
     (case rm_get_order_reservation (sv_reservations svc) of
        None \<Rightarrow> w' = w
      | Some reader \<Rightarrow> \<exists>rv. run_state (reader (o_id o0)) w = (Inr rv, w') \<and> rv_status rv \<noteq> ReservationStatusReleased)"

text \<open>The version of the order the service goes on with after the venue has answered \<open>v\<close>, and the world it finds then.\<close>

definition fills_brought_in :: "'w service \<Rightarrow> order \<Rightarrow> venue_order \<Rightarrow> repo \<Rightarrow> 'w \<Rightarrow> order \<Rightarrow> 'w \<Rightarrow> bool" where
  "fills_brought_in svc o0 v r w o1 w' \<longleftrightarrow>
     (if venue_observation_needs_fill_sync v
      then \<exists>f res r'. sv_fill_synchronizer svc = Some f \<and> run_state (f (o_id o0)) (r, w) = (Inr res, r', w') \<and>
        repo_get r' (o_id o0) = Inr o1 \<and> \<not> authoritative_fill_evidence_pending v o1
      else o1 = o0 \<and> w' = w)"

text \<open>
  The venue has answered with a terminal order whose filled size is exactly that of the ledger after the
  synchronisation of the fills, and the clock read after that is past the grace period.
\<close>

definition venue_evidence :: "'w service \<Rightarrow> order \<Rightarrow> repo \<Rightarrow> 'w \<Rightarrow> order \<Rightarrow> bool" where
  "venue_evidence svc o0 r w o1 \<longleftrightarrow>
     (\<exists>v w1 w2. run_state (v_get (sv_venue svc) o0) w = ((v, None), w1) \<and> validate_venue_order v o0 = None \<and>
        vo_state v \<in> {VenueOrderCancelled, VenueOrderFilled} \<and> fills_brought_in svc o0 v r w1 o1 w2 \<and>
        dec_compare (zero_if_empty (vo_filled_size v)) (zero_if_empty (o_filled_size o1)) = Inr 0 \<and>
        grace_passed (fst (run_state (sv_now svc) w2)) (sv_cancel_fill_finality_grace svc) o1)"

text \<open>
  The venue has answered that it does not know the partly filled order any more, the clock read then is at least
  ten minutes past the last observation, and the trade feed asked next consists of confirmed fills that were
  all applied before and add up to the filled size.
\<close>

definition trade_evidence :: "'w service \<Rightarrow> order \<Rightarrow> repo \<Rightarrow> 'w \<Rightarrow> order \<Rightarrow> bool" where
  "trade_evidence svc o0 r w o1 \<longleftrightarrow>
     (\<exists>v e w1 now w2 f res r' w3. run_state (v_get (sv_venue svc) o0) w = ((v, Some e), w1) \<and>
        error_code e [] = ''CLOB_ORDER_NOT_FOUND'' \<and> (\<exists>k > 0. dec_sign (o_filled_size o0) = Inr k) \<and>
        run_state (sv_now svc) w1 = (now, w2) \<and>
        grace_passed now (max (sv_cancel_fill_finality_grace svc) retired_cancellation_min_age) o0 \<and>
        sv_fill_synchronizer svc = Some f \<and> run_state (f (o_id o0)) (r, w2) = (Inr res, r', w3) \<and>
        repo_get r' (o_id o0) = Inr o1 \<and>
        sr_observed res \<noteq> 0 \<and> sr_applied res = 0 \<and> int (length (sr_applications res)) = sr_observed res \<and>
        (\<forall>a \<in> set (sr_applications res). f_status (fa_fill a) = FillStatusConfirmed \<and> fa_duplicate a) \<and>
        rat_set_string (o_filled_size o1) =
          Some (sum_list (map (\<lambda>a. the (rat_set_string (f_shares (fa_fill a)))) (sr_applications res))))"

definition release_evidence :: "'w service \<Rightarrow> order \<Rightarrow> repo \<Rightarrow> 'w \<Rightarrow> order \<Rightarrow> bool" where
  "release_evidence svc o0 r w o1 \<longleftrightarrow> o_status o1 = OrderStatusCancelled \<and>
     (if sv_authoritative_fills svc then venue_evidence svc o0 r w o1 \<or> trade_evidence svc o0 r w o1
      else o1 = o0 \<and> grace_passed (fst (run_state (sv_now svc) w)) (sv_cancel_fill_finality_grace svc) o0)"

lemma retired_total_sum:
  "retired_total acc as = Inr q \<Longrightarrow> q = acc + sum_list (map (\<lambda>a. the (rat_set_string (f_shares (fa_fill a)))) as) \<and>
     (\<forall>a \<in> set as. f_status (fa_fill a) = FillStatusConfirmed \<and> fa_duplicate a)"
proof (induction acc as rule: retired_total.induct)
  case (2 acc a as)
  from 2(2) obtain x where x: "f_status (fa_fill a) = FillStatusConfirmed" "fa_duplicate a"
    "rat_set_string (f_shares (fa_fill a)) = Some x" "retired_total (acc + x) as = Inr q"
    by (auto split: if_splits option.splits)
  with 2(1) [of x] show ?case by (simp add: ac_simps)
qed simp

lemma not_pending_passed: "\<not> grace_pending now o1 g \<Longrightarrow> grace_passed now g o1"
  by (auto simp: grace_pending_def grace_passed_def not_less split: option.splits)

text \<open>Relative to the calls \<open>earlier\<close> made before, only orders in \<open>Ev\<close> have been settled.\<close>

definition settled_within :: "(order \<Rightarrow> bool) \<Rightarrow> port_call list \<Rightarrow> 'w sys \<Rightarrow> bool" where
  "settled_within Ev earlier s \<longleftrightarrow> (\<exists>cs. sys_calls s = earlier @ cs \<and> (\<forall>o1. CallReconcile o1 \<in> set cs \<longrightarrow> Ev o1))"

lemma settled_snoc:
  assumes "settled_within Ev earlier s" "\<And>o1. c = CallReconcile o1 \<Longrightarrow> Ev o1"
  shows "settled_within Ev earlier (s\<lparr>sys_calls := sys_calls s @ [c]\<rparr>)"
proof -
  obtain cs where "sys_calls s = earlier @ cs" "\<forall>o1. CallReconcile o1 \<in> set cs \<longrightarrow> Ev o1"
    using assms(1) by (auto simp: settled_within_def)
  then show ?thesis using assms(2) by (auto simp: settled_within_def intro!: exI [of _ "cs @ [c]"])
qed

lemma settled_fields [simp]:
  "settled_within Ev earlier (s\<lparr>sys_world := w\<rparr>) = settled_within Ev earlier s"
  "settled_within Ev earlier (s\<lparr>sys_repo := r\<rparr>) = settled_within Ev earlier s"
  by (simp_all add: settled_within_def)

interpretation evidence: service_writes svc "settled_within Ev earlier" "\<lambda>_ _. True" for svc :: "'w service" and Ev earlier
proof unfold_locales
  fix s :: "'w sys" and c
  assume "settled_within Ev earlier s" "\<And>o1. c \<noteq> CallReconcile o1"
  then show "settled_within Ev earlier (s\<lparr>sys_calls := sys_calls s @ [c]\<rparr>)" by (blast intro: settled_snoc)
qed simp_all

text \<open>The reads whose answers count, with the state they leave.\<close>

lemma ev_world:
  assumes "settled_within Ev earlier s"
    and "\<And>x w. run_state m (sys_world s) = (x, w) \<Longrightarrow> settled_within Ev earlier (s\<lparr>sys_world := w\<rparr>) \<Longrightarrow> Q x (s\<lparr>sys_world := w\<rparr>)"
  shows "wp (in_world m) Q s"
  using assms by (simp add: wp_def in_world_def split: prod.split)

lemma ev_now:
  assumes "settled_within Ev earlier s"
    and "\<And>now w. run_state (sv_now svc) (sys_world s) = (now, w) \<Longrightarrow> settled_within Ev earlier (s\<lparr>sys_world := w\<rparr>) \<Longrightarrow>
      Q now (s\<lparr>sys_world := w\<rparr>)"
  shows "wp (now_utc svc) Q s"
  unfolding now_utc_def using assms by (rule ev_world)

lemma ev_sync:
  assumes s: "settled_within Ev earlier s"
    and err: "\<And>e s'. settled_within Ev earlier s' \<Longrightarrow> Q (Inl e) s'"
    and ok: "\<And>f res r w s'. sv_fill_synchronizer svc = Some f \<Longrightarrow>
      run_state (f k) (sys_repo s, sys_world s) = (Inr res, r, w) \<Longrightarrow> settled_within Ev earlier s' \<Longrightarrow>
      sys_repo s' = r \<Longrightarrow> sys_world s' = w \<Longrightarrow> Q (Inr res) s'"
  shows "wp (sync_order svc k) Q s"
proof -
  let ?s = "s\<lparr>sys_calls := sys_calls s @ [CallSync k]\<rparr>"
  have i: "settled_within Ev earlier ?s" by (rule settled_snoc [OF s]) simp
  have "wp (case sv_fill_synchronizer svc of None \<Rightarrow> State_Monad.return (Inl e) | Some f \<Rightarrow> in_both (f k)) Q ?s" for e
  proof (intro wp_rules err i)
    fix f assume f: "sv_fill_synchronizer svc = Some f"
    obtain x r w where run: "run_state (f k) (sys_repo s, sys_world s) = (x, r, w)" by (metis prod_cases3)
    have i': "settled_within Ev earlier (?s\<lparr>sys_repo := r, sys_world := w\<rparr>)" using i by simp
    show "wp (in_both (f k)) Q ?s"
    proof (cases x)
      case (Inl e)
      then show ?thesis using run err [OF i'] by (simp add: wp_def in_both_def)
    next
      case (Inr res)
      then show ?thesis using run ok [OF f _ i'] by (simp add: wp_def in_both_def)
    qed
  qed
  then show ?thesis by (simp add: sync_order_def log_call_def wp_def)
qed

lemma ev_release:
  assumes "settled_within Ev earlier s" "Ev o1"
    and K: "\<And>x s'. settled_within Ev earlier s' \<Longrightarrow> Q x s'"
  shows "wp (finality_release svc o1) Q s"
proof -
  have reconcile: "wp (log_call (CallReconcile o1)) P s" if "\<And>s'. settled_within Ev earlier s' \<Longrightarrow> P () s'" for P
    using that [OF settled_snoc [OF assms(1), of "CallReconcile o1"]] assms(2) by (simp add: log_call_def wp_def)
  show ?thesis unfolding finality_release_def reconcile_assets_def
    by (intro wp_rules reconcile evidence.wp_in_world evidence.wp_finality_held K) (use assms(2) in auto)
qed

lemma ev_after_sync:
  assumes s: "settled_within Ev earlier s"
    and ev: "e = None \<Longrightarrow> \<not> p \<Longrightarrow> o_status o1 = OrderStatusCancelled \<Longrightarrow>
      dec_compare (zero_if_empty (vo_filled_size v)) (zero_if_empty (o_filled_size o1)) = Inr 0 \<Longrightarrow>
      grace_passed (fst (run_state (sv_now svc) (sys_world s))) (sv_cancel_fill_finality_grace svc) o1 \<Longrightarrow> Ev o1"
    and K: "\<And>x s'. settled_within Ev earlier s' \<Longrightarrow> Q x s'"
  shows "wp (finalize_after_sync svc o1 v p e) Q s"
proof -
  have "Ev o1" if "e = None" "\<not> p" "o_status o1 = OrderStatusCancelled"
      "\<not> cmp_fails (dec_compare (zero_if_empty (vo_filled_size v)) (zero_if_empty (o_filled_size o1))) (\<lambda>k. k \<noteq> 0)"
      "run_state (sv_now svc) (sys_world s) = (now, w)" "\<not> grace_pending now o1 (sv_cancel_fill_finality_grace svc)" for now w
    using that ev not_pending_passed [OF that(6)] by (simp add: cmp_fails_False)
  then show ?thesis unfolding finalize_after_sync_def
    by (intro wp_rules evidence.wp_finality_held ev_release evidence.wp_defer ev_now K) (use s in auto)
qed

lemma ev_retired_synced:
  assumes s: "settled_within Ev earlier s"
    and ev: "\<And>o1. repo_get (sys_repo s) (o_id o0) = Inr o1 \<Longrightarrow> o_status o1 = OrderStatusCancelled \<Longrightarrow>
      sr_observed res \<noteq> 0 \<Longrightarrow> sr_applied res = 0 \<Longrightarrow> int (length (sr_applications res)) = sr_observed res \<Longrightarrow>
      \<forall>a \<in> set (sr_applications res). f_status (fa_fill a) = FillStatusConfirmed \<and> fa_duplicate a \<Longrightarrow>
      rat_set_string (o_filled_size o1) =
        Some (sum_list (map (\<lambda>a. the (rat_set_string (f_shares (fa_fill a)))) (sr_applications res))) \<Longrightarrow> Ev o1"
    and K: "\<And>x s'. settled_within Ev earlier s' \<Longrightarrow> Q x s'"
  shows "wp (retired_synced svc o0 res) Q s"
proof -
  have "Ev o1" if "repo_get (sys_repo s) (o_id o0) = Inr o1" "o_status o1 = OrderStatusCancelled"
      "\<not> (sr_observed res = 0 \<or> sr_applied res \<noteq> 0 \<or> int (length (sr_applications res)) \<noteq> sr_observed res)"
      "retired_total 0 (sr_applications res) = Inr acc" "\<not> rat_set_string (o_filled_size o1) \<noteq> Some acc" for o1 acc
    using that ev retired_total_sum [OF that(4)] by simp
  then show ?thesis unfolding retired_synced_def retired_pending_def
    by (intro wp_rules evidence.wp_finality_held ev_release evidence.wp_read_repo K) (use s in auto)
qed

lemma ev_retired:
  assumes s: "settled_within Ev earlier s" and "sv_authoritative_fills svc"
    and get: "run_state (v_get (sv_venue svc) o0) w = ((v, Some e), sys_world s)" "error_code e [] = ''CLOB_ORDER_NOT_FOUND''"
    and ev: "\<And>o1. release_evidence svc o0 (sys_repo s) w o1 \<Longrightarrow> Ev o1"
    and K: "\<And>x s'. settled_within Ev earlier s' \<Longrightarrow> Q x s'"
  shows "wp (finalize_retired_cancellation svc o0 e) Q s"
proof -
  have synced: "wp (retired_synced svc o0 res) Q s3"
    if "\<not> (cmp_fails (dec_sign (o_filled_size o0)) (\<lambda>k. k \<le> 0) \<or> o_venue_last_observed_at o0 = None)"
      "run_state (sv_now svc) (sys_world s) = (now, w2)"
      "\<not> grace_pending now o0 (max (sv_cancel_fill_finality_grace svc) retired_cancellation_min_age)"
      "sv_fill_synchronizer svc = Some f" "run_state (f (o_id o0)) (sys_repo s, w2) = (Inr res, r, w3)"
      "settled_within Ev earlier s3" "sys_repo s3 = r" for now w2 f res r w3 s3
  proof (rule ev_retired_synced [OF that(6)])
    fix o1
    assume o1: "repo_get (sys_repo s3) (o_id o0) = Inr o1" "o_status o1 = OrderStatusCancelled"
      "sr_observed res \<noteq> 0" "sr_applied res = 0" "int (length (sr_applications res)) = sr_observed res"
      "\<forall>a \<in> set (sr_applications res). f_status (fa_fill a) = FillStatusConfirmed \<and> fa_duplicate a"
      "rat_set_string (o_filled_size o1) =
        Some (sum_list (map (\<lambda>a. the (rat_set_string (f_shares (fa_fill a)))) (sr_applications res)))"
    have "\<exists>k > 0. dec_sign (o_filled_size o0) = Inr k" using that(1) by (auto simp: cmp_fails_False not_le)
    then have "trade_evidence svc o0 (sys_repo s) w o1"
      unfolding trade_evidence_def using get that(2,4,5) not_pending_passed [OF that(3)] o1 that(7) by blast
    then show "Ev o1" using ev o1(2) assms(2) by (simp add: release_evidence_def)
  qed (rule K)
  show ?thesis unfolding finalize_retired_cancellation_def retired_pending_def
    by (intro wp_rules ev_now ev_sync evidence.wp_finality_held synced evidence.wp_read_repo K) (use s in auto)
qed

lemma ev_sync_observed:
  assumes s: "settled_within Ev earlier s" and "sv_authoritative_fills svc"
    and K: "\<And>o1 p e s'. settled_within Ev earlier s' \<Longrightarrow>
      (e = None \<Longrightarrow> \<not> p \<Longrightarrow> fills_brought_in svc o0 v (sys_repo s) (sys_world s) o1 (sys_world s')) \<Longrightarrow> Q (o1, p, e) s'"
  shows "wp (sync_observed_fills svc o0 v) Q s"
  unfolding sync_observed_fills_def
proof (intro wp_rules ev_sync [OF s] evidence.wp_read_repo, goal_cases)
  case 1
  then show ?case using assms by (auto intro!: K simp: fills_brought_in_def)
next
  case (2 e s')
  then show ?case by (intro K) (auto split: if_splits sum.splits)
next
  case (3 f res r w s')
  then show ?case by (intro K) (auto simp: fills_brought_in_def split: if_splits sum.splits)
qed

lemma ev_authoritative:
  assumes s: "settled_within Ev earlier s" and "sv_authoritative_fills svc"
    and ev: "\<And>o1. release_evidence svc o0 (sys_repo s) (sys_world s) o1 \<Longrightarrow> Ev o1"
    and K: "\<And>x s'. settled_within Ev earlier s' \<Longrightarrow> Q x s'"
  shows "wp (finalize_authoritative svc o0) Q s"
proof -
  let ?s = "s\<lparr>sys_calls := sys_calls s @ [CallGet o0]\<rparr>"
  have i: "settled_within Ev earlier ?s" by (rule settled_snoc [OF s]) simp
  have get: "wp (log_call (CallGet o0)) P s" if "P () ?s" for P using that by (simp add: log_call_def wp_def)
  have after: "wp (finalize_after_sync svc o1 v p e) Q s2"
    if "run_state (v_get (sv_venue svc) o0) (sys_world s) = ((v, None), w1)" "validate_venue_order v o0 = None"
      "vo_state v \<in> {VenueOrderCancelled, VenueOrderFilled}"
      "e = None \<Longrightarrow> \<not> p \<Longrightarrow> fills_brought_in svc o0 v (sys_repo s) w1 o1 (sys_world s2)"
      "settled_within Ev earlier s2" for v w1 o1 p e s2
  proof (rule ev_after_sync [OF that(5)])
    assume o1: "e = None" "\<not> p" "o_status o1 = OrderStatusCancelled"
      "dec_compare (zero_if_empty (vo_filled_size v)) (zero_if_empty (o_filled_size o1)) = Inr 0"
      "grace_passed (fst (run_state (sv_now svc) (sys_world s2))) (sv_cancel_fill_finality_grace svc) o1"
    then have "venue_evidence svc o0 (sys_repo s) (sys_world s) o1"
      unfolding venue_evidence_def using that(1-3) that(4) [OF o1(1,2)] by blast
    then show "Ev o1" using ev assms(2) o1(3) by (simp add: release_evidence_def)
  qed (rule K)
  have observed: "wp (sync_observed_fills svc o0 v) (\<lambda>x. wp (case x of (o1, p, e) \<Rightarrow> finalize_after_sync svc o1 v p e) Q) (?s\<lparr>sys_world := w1\<rparr>)"
    if "run_state (v_get (sv_venue svc) o0) (sys_world s) = ((v, None), w1)" "validate_venue_order v o0 = None"
      "vo_state v \<in> {VenueOrderCancelled, VenueOrderFilled}" for v w1
    by (rule ev_sync_observed [where Ev = Ev and earlier = earlier]) (use i assms(2) after [OF that] in auto)
  have retired: "wp (finalize_retired_cancellation svc o0 e) Q (?s\<lparr>sys_world := w1\<rparr>)"
    if "run_state (v_get (sv_venue svc) o0) (sys_world s) = ((v, Some e), w1)" "error_code e [] = ''CLOB_ORDER_NOT_FOUND''" for v e w1
    by (rule ev_retired [where Ev = Ev and earlier = earlier and w = "sys_world s"]) (use i assms(2) that ev K in auto)
  show ?thesis unfolding finalize_authoritative_def
    by (intro wp_rules get ev_world [OF i] observed retired evidence.wp_finality_held K) (use i in auto)
qed

lemma ev_not_finalized:
  assumes s: "settled_within Ev earlier s"
    and stop: "\<And>finalized o1 e s'. settled_within Ev earlier s' \<Longrightarrow> finalized \<or> e \<noteq> None \<Longrightarrow> Q (finalized, o1, e) s'"
    and go: "\<And>w. reservation_open svc o0 (sys_world s) w \<Longrightarrow> settled_within Ev earlier (s\<lparr>sys_world := w\<rparr>) \<Longrightarrow>
      Q (False, o0, None) (s\<lparr>sys_world := w\<rparr>)"
  shows "wp (already_finalized_cancellation svc o0) Q s"
proof -
  have absent: "Q (False, o0, None) s" if "rm_get_order_reservation (sv_reservations svc) = None"
    using go [of "sys_world s"] that s by (simp add: reservation_open_def)
  show ?thesis unfolding already_finalized_cancellation_def
  proof (intro wp_rules ev_world [OF s] evidence.wp_in_world evidence.wp_sync evidence.wp_read_repo, goal_cases)
    case 1 then show ?case by (rule absent)
  next
    case (3 reader found w rv)
    then show ?case by (intro go) (auto simp: reservation_open_def)
  qed (use s stop in auto)
qed

lemma ev_finalize:
  assumes s: "settled_within Ev earlier s"
    and ev: "\<And>o0 w o1. repo_get (sys_repo s) (trim_space k) = Inr o0 \<Longrightarrow> o_status o0 = OrderStatusCancelled \<Longrightarrow>
      require_managed_account svc (oi_execution_account_id (o_intent o0)) = None \<Longrightarrow>
      reservation_open svc o0 (sys_world s) w \<Longrightarrow> release_evidence svc o0 (sys_repo s) w o1 \<Longrightarrow> Ev o1"
    and K: "\<And>x s'. settled_within Ev earlier s' \<Longrightarrow> Q x s'"
  shows "wp (service_finalize_cancellation svc k) Q s"
proof -
  have grace: "Ev o0"
    if "repo_get (sys_repo s) (trim_space k) = Inr o0" "o_status o0 = OrderStatusCancelled"
      "require_managed_account svc (oi_execution_account_id (o_intent o0)) = None"
      "reservation_open svc o0 (sys_world s) w" "\<not> sv_authoritative_fills svc"
      "run_state (sv_now svc) w = (now, w')" "\<not> grace_pending now o0 (sv_cancel_fill_finality_grace svc)" for o0 w now w'
    using ev [OF that(1-4)] that(2,5,6) not_pending_passed [OF that(7)] by (simp add: release_evidence_def)
  have authoritative: "wp (finalize_authoritative svc o0) Q (s\<lparr>sys_world := w\<rparr>)"
    if "repo_get (sys_repo s) (trim_space k) = Inr o0" "o_status o0 = OrderStatusCancelled"
      "require_managed_account svc (oi_execution_account_id (o_intent o0)) = None"
      "reservation_open svc o0 (sys_world s) w" "sv_authoritative_fills svc" for o0 w
    by (rule ev_authoritative [where Ev = Ev and earlier = earlier]) (use s that(5) ev [OF that(1-4)] K in auto)
  show ?thesis unfolding service_finalize_cancellation_def service_get_def
    by (intro wp_rules evidence.wp_read_repo ev_not_finalized [OF s] authoritative ev_release ev_now evidence.wp_defer K)
       (use s grace in auto)
qed

text \<open>
  C6. Cancel finality: whatever the ports answer, \<open>FinalizeCancellation\<close> settles a reservation only for an order
  that was CANCELLED when the call began, belongs to a managed account and has a reservation that is not released, and only on the
  answers its ports gave in this very run. Without authoritative fills the clock it read is past the grace
  period since the last venue observation of that order. With them, either the venue answered with a valid terminal order,
  the fill synchronisation it asks for succeeded, the stored order is still CANCELLED with exactly the
  filled size of that answer, and the clock read after that is past the grace period; or the venue answered that it no
  longer knows the partly filled order, the clock read then is past the grace period and at least ten minutes
  after the last observation, and the trade feed then synchronised consists of confirmed, already applied
  fills that add up to the filled size of the stored order.
\<close>

theorem finality_needs_evidence:
  assumes "run_state (service_finalize_cancellation svc k) s = (x, s')"
  shows "\<exists>cs. sys_calls s' = sys_calls s @ cs \<and>
    (\<forall>o1. CallReconcile o1 \<in> set cs \<longrightarrow>
       (\<exists>o0 w. repo_get (sys_repo s) (trim_space k) = Inr o0 \<and> o_status o0 = OrderStatusCancelled \<and>
          require_managed_account svc (oi_execution_account_id (o_intent o0)) = None \<and>
          reservation_open svc o0 (sys_world s) w \<and> release_evidence svc o0 (sys_repo s) w o1))"
proof -
  let ?Ev = "\<lambda>o1. \<exists>o0 w. repo_get (sys_repo s) (trim_space k) = Inr o0 \<and> o_status o0 = OrderStatusCancelled \<and>
     require_managed_account svc (oi_execution_account_id (o_intent o0)) = None \<and>
     reservation_open svc o0 (sys_world s) w \<and> release_evidence svc o0 (sys_repo s) w o1"
  have "settled_within ?Ev (sys_calls s) s" by (simp add: settled_within_def)
  then have "wp (service_finalize_cancellation svc k) (\<lambda>_. settled_within ?Ev (sys_calls s)) s"
    by (rule ev_finalize) blast+
  from wpD [OF this assms] show ?thesis by (simp only: settled_within_def)
qed

text \<open>The sample order cancelled, and the clock moved beyond the grace period.\<close>

definition cancelled_sys :: "paper_world sys" where
  "cancelled_sys = (let s = snd (run_state (service_cancel sample_service ''order-1'') (snd after_submit))
     in s\<lparr>sys_world := (sys_world s)\<lparr>pw_clock := 1000 * second\<rparr>\<rparr>)"

theorem finality_needs_evidence_witness:
  "\<exists>o1 o0 w. CallReconcile o1 \<in> set (drop (length (sys_calls cancelled_sys))
       (sys_calls (snd (run_state (service_finalize_cancellation sample_service ''order-1'') cancelled_sys)))) \<and>
     repo_get (sys_repo cancelled_sys) ''order-1'' = Inr o0 \<and> o_status o0 = OrderStatusCancelled \<and>
     reservation_open sample_service o0 (sys_world cancelled_sys) w \<and>
     release_evidence sample_service o0 (sys_repo cancelled_sys) w o1"
proof -
  let ?s = "snd (run_state (service_finalize_cancellation sample_service ''order-1'') cancelled_sys)"
  have run: "run_state (service_finalize_cancellation sample_service ''order-1'') cancelled_sys =
     (fst (run_state (service_finalize_cancellation sample_service ''order-1'') cancelled_sys), ?s)" by simp
  have trim: "trim_space ''order-1'' = ''order-1''" by code_simp
  have "map o_status (settlements (drop (length (sys_calls cancelled_sys)) (sys_calls ?s))) = [OrderStatusCancelled]" by code_simp
  then have "settlements (drop (length (sys_calls cancelled_sys)) (sys_calls ?s)) \<noteq> []" by (metis list.map_disc_iff list.discI)
  then obtain o1 where "o1 \<in> set (settlements (drop (length (sys_calls cancelled_sys)) (sys_calls ?s)))" using last_in_set by blast
  then have o1: "CallReconcile o1 \<in> set (drop (length (sys_calls cancelled_sys)) (sys_calls ?s))" by (simp only: settlements_iff)
  obtain cs where cs: "sys_calls ?s = sys_calls cancelled_sys @ cs"
      "\<forall>o1. CallReconcile o1 \<in> set cs \<longrightarrow>
         (\<exists>o0 w. repo_get (sys_repo cancelled_sys) (trim_space ''order-1'') = Inr o0 \<and> o_status o0 = OrderStatusCancelled \<and>
          require_managed_account sample_service (oi_execution_account_id (o_intent o0)) = None \<and>
          reservation_open sample_service o0 (sys_world cancelled_sys) w \<and> release_evidence sample_service o0 (sys_repo cancelled_sys) w o1)"
    using finality_needs_evidence [OF run] by blast
  have "CallReconcile o1 \<in> set cs" using o1 cs(1) by simp
  with cs(2) o1 show ?thesis unfolding trim by blast
qed


section \<open>Submissions in flight\<close>

text \<open>
  A running submission is not seized: while the last SUBMIT attempt of a SUBMITTING order is STARTED, was started
  by this process and is younger than the in-flight grace, \<open>Refresh\<close> answers \<open>ErrSubmitInFlight\<close> and leaves the
  repository and every other component alone; it only reads the clock.
\<close>

lemma refresh_spares_in_flight_submit:
  assumes "repo_get (sys_repo s) (trim_space k) = Inr o1" "o_status o1 = OrderStatusSubmitting"
    and "require_managed_account svc (oi_execution_account_id (o_intent o1)) = None"
    and "filter (\<lambda>a. at_kind a = OrderAttemptSubmit) (attempts_of (sys_repo s) (o_id o1)) = earlier @ [a]"
    and "at_outcome a = AttemptOutcomeStarted" "sv_process_started_at svc \<le> at_started_at a"
    and "fst (run_state (sv_now svc) (sys_world s)) - at_started_at a < sv_submit_in_flight_grace svc"
  shows "\<exists>w. run_state (service_refresh svc k) s = ((o1, Some (ErrSentinel ErrSubmitInFlight)), s\<lparr>sys_world := w\<rparr>)"
proof -
  obtain now w where now: "run_state (sv_now svc) (sys_world s) = (now, w)" by force
  show ?thesis
  proof (cases "repo_attempts (sys_repo s) (o_id o1)")
    case (Inl e)
    then have "run_state (service_refresh svc k) s = ((o1, Some (ErrSentinel ErrSubmitInFlight)), s\<lparr>sys_world := sys_world s\<rparr>)"
      using assms by (simp add: service_refresh_def service_get_def read_repo_def submit_in_flight_def order_terminal_def status_terminal_def)
    then show ?thesis by blast
  next
    case (Inr as)
    then have "as = attempts_of (sys_repo s) (o_id o1)" by (simp add: repo_attempts_def split: if_splits)
    then have "run_state (service_refresh svc k) s = ((o1, Some (ErrSentinel ErrSubmitInFlight)), s\<lparr>sys_world := w\<rparr>)"
      using Inr assms now
      by (simp add: service_refresh_def service_get_def read_repo_def submit_in_flight_def now_utc_def in_world_def
          order_terminal_def status_terminal_def)
    then show ?thesis by blast
  qed
qed

text \<open>The sample service at the moment of the placement.\<close>

definition in_flight_sys :: "paper_world sys" where
  "in_flight_sys = (snd after_submit)\<lparr>sys_repo := snd (hd (placements (sys_calls (snd after_submit))))\<rparr>"

end
