(* ===== verification/Execution_Outcome.thy ===== *)
theory Execution_Outcome
  imports Execution_Finality
begin

text \<open>
  The outcome of a placement: which venue errors are definitive, what is persisted for the others, and what
  happens to the reservation.
\<close>

lemma finish_outcome_cases:
  assumes "run_state (finish_attempt_with_outcome svc o1 a target trigger v code cause outcome) s = ((o2, err), s')"
  shows "sys_calls s' = sys_calls s \<and>
    (case err of
       Some x \<Rightarrow> o2 = o1 \<and> sys_repo s' = sys_repo s
     | None \<Rightarrow> o_status o2 = target \<and> o_id o2 = o_id o1 \<and>
         (\<exists>ev now. repo_finish_attempt o2 ev (finished_attempt a outcome now v code cause) (sys_repo s) = (None, sys_repo s')))"
proof -
  let ?d = "\<lparr>td_attempt_id = at_id a, td_reason_code = code, td_reason = (case cause of None \<Rightarrow> [] | Some c \<Rightarrow> error_text c),
    td_venue_order = v, td_include_venue_data = True\<rparr>"
  obtain now w where now: "run_state (sv_now svc) (sys_world s) = (now, w)" by force
  let ?t = "transition_for svc o1 target trigger ?d now"
  show ?thesis
  proof (cases "apply_transition o1 ?t")
    case (Inl e)
    then show ?thesis using assms
      by (auto simp: finish_attempt_with_outcome_def build_transition_def now_utc_def in_world_def now)
  next
    case (Inr z)
    obtain nxt ev where z: "z = (nxt, ev)" by force
    note f = apply_transition_fields(1,3) [OF Inr [unfolded z]]
    obtain x r where r: "repo_finish_attempt nxt ev (finished_attempt a outcome (tr_at ?t) v code cause) (sys_repo s) = (x, r)"
      by force
    show ?thesis using assms Inr z f r repo_finish_attempt_cases(2) [of nxt ev _ "sys_repo s"]
      by (cases x) (auto simp: finish_attempt_with_outcome_def build_transition_def now_utc_def in_world_def now in_repo_def
          transition_for_def Let_def intro!: exI [of _ ev] exI [of _ now])
  qed
qed

lemma errors_join_first: "\<exists>y. errors_join (Some e # es) = Some y"
  by (simp add: errors_join_def)

text \<open>The tail of \<open>finishSubmitError\<close> once the outcome is persisted.\<close>

lemma mark_uncertain_calls:
  "run_state (mark_uncertain svc o1 reason) s = (u, s') \<Longrightarrow>
   sys_repo s' = sys_repo s \<and> sys_calls s' = sys_calls s @ [CallMarkUncertain o1 reason]"
  by (auto simp: mark_uncertain_def log_call_def in_world_def split: prod.splits)

lemma reconcile_calls:
  "run_state (reconcile_assets svc o1) s = (u, s') \<Longrightarrow>
   sys_repo s' = sys_repo s \<and> sys_calls s' = sys_calls s @ [CallReconcile o1]"
  by (auto simp: reconcile_assets_def log_call_def in_world_def split: prod.splits)

lemma trigger_calls:
  "run_state (trigger_reconciliation svc o1 t) s = (u, s') \<Longrightarrow>
   sys_repo s' = sys_repo s \<and> (\<exists>cs. sys_calls s' = sys_calls s @ cs \<and> (\<forall>c \<in> set cs. \<exists>x y z. c = CallTrigger x y z))"
  by (auto simp: trigger_reconciliation_def log_call_def in_world_def split: prod.splits option.splits)

lemma finished_attempt_fields [simp]:
  "at_id (finished_attempt a x c v rc ca) = at_id a" "at_outcome (finished_attempt a x c v rc ca) = x"
  "at_error_code (finished_attempt a x c v rc ca) = rc" "at_completed_at (finished_attempt a x c v rc ca) = Some c"
  by (simp_all add: finished_attempt_def)

lemma finish_stored:
  assumes "repo_finish_attempt nxt ev b r = (None, r')"
  shows "repo_get r' (o_id nxt) = Inr (clone_order (clone_order nxt)) \<and> b \<in> set (attempts_of r' (o_id nxt))"
proof -
  obtain as where r': "r' = write_attempts (o_id nxt) as (write_order nxt ev r)"
    and as: "replace_attempt b (attempts_of r (o_id nxt)) = Inr as"
    using repo_finish_attempt_cases(1) [OF assms] by blast
  have "b \<in> set as" using replace_attempt_Inr [OF as] by auto
  then show ?thesis by (simp add: r' repo_get_fields)
qed

text \<open>
  C24. A failed placement is classified safely. \<open>finishSubmitError\<close> always reports an error. Either nothing could be
  persisted, and then the order, the repository and the reservation are as before; or the order is stored as
  REJECTED exactly when the venue has proved that it did not accept it, and as UNKNOWN otherwise, with the attempt
  closed accordingly. Only in the REJECTED case is the reservation settled; an UNKNOWN outcome marks it uncertain
  first, so that it stays frozen.
\<close>

theorem place_error_outcome:
  assumes "run_state (finish_submit_error svc o1 a cause created) s = ((res, e), s')"
  defines "definitive \<equiv> is_definitive_rejection cause"
  shows "e \<noteq> None \<and> sb_created res = created \<and>
    (sb_order res = o1 \<and> sys_repo s' = sys_repo s \<and> sys_calls s' = sys_calls s \<or>
     o_status (sb_order res) = (if definitive then OrderStatusRejected else OrderStatusUnknown) \<and>
     repo_get (sys_repo s') (o_id o1) = Inr (clone_order (clone_order (sb_order res))) \<and>
     (\<exists>b. b \<in> set (attempts_of (sys_repo s') (o_id o1)) \<and> at_id b = at_id a \<and> at_completed_at b \<noteq> None \<and>
        at_outcome b = (if definitive then AttemptOutcomeRejected else AttemptOutcomeUnknown)) \<and>
     (\<exists>c cs. sys_calls s' = sys_calls s @ c # cs \<and> (\<forall>o2. CallReconcile o2 \<notin> set cs) \<and>
        (if definitive then c = CallReconcile (sb_order res) else \<exists>reason. c = CallMarkUncertain (sb_order res) reason)))"
proof -
  let ?code = "error_code cause ''VENUE_PLACE_OUTCOME_UNKNOWN''"
    and ?target = "if definitive then OrderStatusRejected else OrderStatusUnknown"
    and ?outcome = "if definitive then AttemptOutcomeRejected else AttemptOutcomeUnknown"
  obtain now w where now: "run_state (sv_now svc) (sys_world s) = (now, w)" by force
  let ?v = "zero_venue_order\<lparr>vo_id := venue_order_id_from_error cause, vo_state := VenueOrderUnknown, vo_raw_status := ?code,
    vo_filled_size := ''0'', vo_observed_at := now\<rparr>" and ?a = "a\<lparr>at_outcome := ?outcome\<rparr>" and ?s = "s\<lparr>sys_world := w\<rparr>"
  obtain o2 err s2 where fin: "run_state (finish_attempt_with_outcome svc o1 ?a ?target TransitionTriggerVenueResponse ?v ?code
      (Some cause) ?outcome) ?s = ((o2, err), s2)" by (metis prod_cases3 prod.exhaust)
  note fc = finish_outcome_cases [OF fin]
  show ?thesis
  proof (cases err)
    case (Some x)
    with assms(1) fin fc show ?thesis
      by (auto simp: finish_submit_error_def now_utc_def in_world_def now Let_def submit_with_def definitive_def
          intro: errors_join_first)
  next
    case None
    then obtain ev t where f: "o_status o2 = ?target" "o_id o2 = o_id o1"
      "repo_finish_attempt o2 ev (finished_attempt ?a ?outcome t ?v ?code (Some cause)) (sys_repo s) = (None, sys_repo s2)"
      using fc by auto
    note st = finish_stored [OF f(3)]
    obtain u s3 where u: "run_state (mark_uncertain svc o2 (?code @ '': '' @ error_text cause)) s2 = (u, s3)" by force
    obtain x s4 where x: "run_state (trigger_reconciliation svc o2 ReconciliationTriggerOrderUnknown) s3 = (x, s4)" by (metis surj_pair)
    obtain u' s5 where u': "run_state (reconcile_assets svc o2) s2 = (u', s5)" by force
    obtain x' s6 where x': "run_state (trigger_reconciliation svc o2 ReconciliationTriggerAssetDrift) s5 = (x', s6)" by (metis surj_pair)
    note calls = mark_uncertain_calls [OF u] trigger_calls [OF x] reconcile_calls [OF u'] trigger_calls [OF x']
    have run: "run_state (finish_submit_error svc o1 a cause created) s =
      (if definitive
       then ((\<lparr>sb_order = o2, sb_created = created\<rparr>, errors_join [Some (wrap_error ''place venue order'' cause), u']),
             if ?code = ''CLOB_INSUFFICIENT_BALANCE_ALLOWANCE'' then s6 else s5)
       else ((\<lparr>sb_order = o2, sb_created = created\<rparr>, errors_join [Some (wrap_error ''place venue order'' cause), u]), s4))"
      using fin None u x u' x' by (simp add: finish_submit_error_def now_utc_def in_world_def now Let_def submit_with_def definitive_def)
    have b: "\<exists>b. b \<in> set (attempts_of (sys_repo s2) (o_id o1)) \<and> at_id b = at_id a \<and> at_completed_at b \<noteq> None \<and> at_outcome b = ?outcome"
      using st f(2) by (intro exI [of _ "finished_attempt ?a ?outcome t ?v ?code (Some cause)"]) simp
    show ?thesis
      using assms(1) run calls st f fc b errors_join_first [of "wrap_error ''place venue order'' cause"]
      by (cases definitive) (auto split: if_splits)
  qed
qed

text \<open>A timeout of the placement of the sample order.\<close>

definition timed_out :: "(submit_result \<times> err) \<times> paper_world sys" where
  "timed_out = run_state (finish_submit_error sample_service (projr (repo_get (sys_repo in_flight_sys) ''order-1''))
     (hd (attempts_of (sys_repo in_flight_sys) ''order-1''))
     (ErrVenue VenueErrorAmbiguous ''TIMEOUT'' [] [] 0 0 None) True) in_flight_sys"

theorem place_error_outcome_witness:
  "snd (fst timed_out) \<noteq> None \<and> o_status (sb_order (fst (fst timed_out))) = OrderStatusUnknown"
proof -
  have st: "o_status (sb_order (fst (fst timed_out))) = OrderStatusUnknown" by code_simp
  have "run_state (finish_submit_error sample_service (projr (repo_get (sys_repo in_flight_sys) ''order-1''))
     (hd (attempts_of (sys_repo in_flight_sys) ''order-1''))
     (ErrVenue VenueErrorAmbiguous ''TIMEOUT'' [] [] 0 0 None) True) in_flight_sys =
     ((fst (fst timed_out), snd (fst timed_out)), snd timed_out)" by (simp add: timed_out_def)
  from place_error_outcome [OF this] st show ?thesis by blast
qed

end
