(* ===== verification/Fill_Processor.thy ===== *)
theory Fill_Processor
  imports Execution Rounding
begin

text \<open>
  \<open>src/internal/service/fillprocessor/service.go\<close>: venue fills are completed from their order, their money is
  checked against the settlement amounts, and they are handed to the ledger in the order in which they were
  matched. The venue source, the ledger, the clock and SHA-256 are parameters; \<open>orders.Get\<close> reads the repository.
  The lemmas show what a prepared fill satisfies and what a successful synchronisation means.
\<close>

section \<open>Exact decimals\<close>

definition fp_decimal_rat :: "decimal \<Rightarrow> go_error + rat" where
  "fp_decimal_rat value =
     (let text = trim_space value in
      case rat_set_string text of
        Some r \<Rightarrow>
          if text = [] \<or> set text \<inter> {CHR ''/'', CHR ''e'', CHR ''E''} \<noteq> {}
          then Inl (ErrText (''invalid decimal '' @ quoted text)) else Inr r
      | None \<Rightarrow> Inl (ErrText (''invalid decimal '' @ quoted text)))"

definition fp_canonical :: "string \<Rightarrow> string" where
  "fp_canonical value =
     (let value = (if CHR ''.'' \<in> set value
                   then trim_right_char (CHR ''.'') (trim_right_char (CHR ''0'') value) else value)
      in if value = ''-0'' \<or> value = [] then ''0'' else value)"

definition exact_decimal :: "rat \<Rightarrow> nat \<Rightarrow> go_error + decimal" where
  "exact_decimal value maxScale =
     (case List.find (\<lambda>scale. rat_set_string (rat_float_string value scale) = Some value) [0..<Suc maxScale] of
        Some scale \<Rightarrow> Inr (fp_canonical (rat_float_string value scale))
      | None \<Rightarrow> Inl (ErrText (''value cannot be represented exactly within '' @ show_nat maxScale @ '' decimals'')))"

definition truncated_decimal :: "rat \<Rightarrow> nat \<Rightarrow> decimal" where
  "truncated_decimal value scale =
     (case quotient_of value of (num, den) \<Rightarrow>
      let quotient = int_quo (num * 10 ^ scale) den;
          digits = pad_zeros (Suc scale) (show_nat (nat \<bar>quotient\<bar>));
          digits = (if scale > 0 then take (length digits - scale) digits @ ''.'' @ drop (length digits - scale) digits
                    else digits);
          digits = (if quotient < 0 then ''-'' @ digits else digits)
      in fp_canonical digits)"


section \<open>The money of a fill\<close>

definition feeScale :: nat where "feeScale = 5"

definition expected_v2_platform_fee :: "rat \<Rightarrow> rat \<Rightarrow> decimal \<Rightarrow> decimal \<Rightarrow> go_error + decimal" where
  "expected_v2_platform_fee shares price platformFeeRate feeExponent =
     (if rat_fails (fp_decimal_rat platformFeeRate) (\<lambda>r. r < 0) then Inl (ErrText ''platform_fee_rate must be non-negative'')
      else if rat_fails (fp_decimal_rat feeExponent) (\<lambda>x. x < 0 \<or> \<not> rat_is_int x \<or> 2 ^ 16 \<le> fst (quotient_of x))
      then Inl (ErrText ''fee_exponent must be a non-negative integer'')
      else
        (let rate = projr (fp_decimal_rat platformFeeRate);
             exponent = projr (fp_decimal_rat feeExponent);
             curve = price * (1 - price);
             powered = pow_loop (nat (fst (quotient_of exponent))) curve 1;
             fee = shares * rate * powered
         in Inr (truncated_decimal fee feeScale)))"

definition validate_gross_evidence :: "fill \<Rightarrow> rat \<Rightarrow> rat \<Rightarrow> rat \<Rightarrow> err" where
  "validate_gross_evidence f shares price gross =
     (let difference = \<bar>shares * price - gross\<bar> in
      if f_fee_source f = FeeSourcePolygonV2OrderFilled then
        (case f_settlement_evidence f of
           Some ev \<Rightarrow>
             if \<not> dec_is_empty (f_price_tick_size f)
             then validate_settlement_event_gross (f_shares f) (f_price f) (f_gross_notional f) (f_price_tick_size f)
                    (se_collateral_decimals ev)
             else if difference \<ge> 1 / 1000000
             then Some (ErrText ''OrderFilled gross_notional differs from shares multiplied by price by at least one pUSD base unit'')
             else None
         | None \<Rightarrow>
             if difference \<ge> 1 / 1000000
             then Some (ErrText ''OrderFilled gross_notional differs from shares multiplied by price by at least one pUSD base unit'')
             else None)
      else if difference \<noteq> 0 then Some (ErrText ''gross_notional must equal shares multiplied by price'')
      else None)"

text \<open>The range over a map of amounts visits them in any order; it decides only which error is reported.\<close>

fun first_unproved :: "(string \<times> decimal) list \<Rightarrow> err" where
  "first_unproved [] = None"
| "first_unproved ((name, value) # rest) =
     (if dec_is_empty value then Some (ErrText (''authoritative fee evidence omitted '' @ name))
      else if negative_or_invalid value then Some (ErrText (name @ '' must be a non-negative decimal''))
      else first_unproved rest)"

definition check_platform_fee :: "fill \<Rightarrow> rat \<Rightarrow> rat \<Rightarrow> err" where
  "check_platform_fee f shares price =
     (if equal_fold (f_venue f) ''polymarket'' \<and> f_liquidity_role f = LiquidityRoleMaker then
        (if projr (fp_decimal_rat (f_platform_fee f)) \<noteq> 0
         then Some (ErrText ''V2 maker fill cannot contain a platform fee'') else None)
      else if f_fee_source f = FeeSourcePolygonV2OrderFilled then
        (case expected_v2_platform_fee shares price (f_platform_fee_rate f) (f_fee_exponent f) of
           Inl e \<Rightarrow> Some e
         | Inr expected \<Rightarrow>
             if \<not> dec_equal (f_platform_fee f) expected
             then Some (ErrText (''authoritative platform_fee '' @ f_platform_fee f @ '' does not match V2 fee curve '' @ expected))
             else None)
      else None)"

definition cash_change :: "fill \<Rightarrow> rat \<Rightarrow> rat \<Rightarrow> go_error + rat" where
  "cash_change f gross totalFee =
     (if f_side f = SideBuy then Inr (- (gross + totalFee))
      else if f_side f = SideSell then
        (if gross - totalFee < 0 then Inl (ErrText ''sell fees exceed gross proceeds'') else Inr (gross - totalFee))
      else Inl (ErrText (''unsupported fill side '' @ quoted (f_side f))))"

definition calculate_money :: "fill \<Rightarrow> go_error + fill" where
  "calculate_money f0 =
     (case first_unproved (accounting_amounts f0) of
        Some e \<Rightarrow> Inl e
      | None \<Rightarrow>
      let f = f0\<lparr>f_fee_source := to_upper (trim_space (f_fee_source f0))\<rparr> in
      if f_fee_source f = [] then Inl (ErrText ''authoritative fee_source is required even when total_fee is zero'')
      else if equal_fold (f_venue f) ''polymarket'' \<and> f_fee_source f \<noteq> FeeSourcePolygonV2OrderFilled
      then Inl (ErrText ''Polymarket fill requires finalized V2 OrderFilled fee evidence'')
      else case fp_decimal_rat (f_shares f) of
        Inl e \<Rightarrow> Inl e
      | Inr shares \<Rightarrow>
      (case fp_decimal_rat (f_price f) of
        Inl e \<Rightarrow> Inl e
      | Inr price \<Rightarrow>
      (case fp_decimal_rat (f_gross_notional f) of
        Inl e \<Rightarrow> Inl e
      | Inr gross \<Rightarrow>
      (case validate_gross_evidence f shares price gross of
        Some e \<Rightarrow> Inl e
      | None \<Rightarrow>
      let platformFee = projr (fp_decimal_rat (f_platform_fee f));
          builderFee = projr (fp_decimal_rat (f_builder_fee f));
          totalFee = projr (fp_decimal_rat (f_total_fee f)) in
      if platformFee + builderFee \<noteq> totalFee
      then Inl (ErrText ''authoritative total_fee must equal platform_fee plus builder_fee'')
      else case check_platform_fee f shares price of
        Some e \<Rightarrow> Inl e
      | None \<Rightarrow>
      (case cash_change f gross totalFee of
        Inl e \<Rightarrow> Inl e
      | Inr change \<Rightarrow>
      (case exact_decimal change 18 of
        Inl e \<Rightarrow> Inl e
      | Inr net \<Rightarrow> Inr (fill_normalize (f\<lparr>f_net_cash_delta := net\<rparr>))))))))"


section \<open>Preparing a fill\<close>

definition fill_key :: "(string \<Rightarrow> string) \<Rightarrow> string \<Rightarrow> string \<Rightarrow> string \<Rightarrow> string" where
  "fill_key sha256_hex venue venueFillID orderID =
     ''fill-'' @ sha256_hex (to_lower (trim_space venue) @ CHR 0x00 # trim_space venueFillID @ CHR 0x00 # trim_space orderID)"

definition default_string :: "string \<Rightarrow> string \<Rightarrow> string" where
  "default_string value fallback = (if value = [] then fallback else value)"

definition complete_fill :: "(string \<Rightarrow> string) \<Rightarrow> order \<Rightarrow> fill \<Rightarrow> gtime \<Rightarrow> fill" where
  "complete_fill sha256_hex o1 raw now =
     (let i = o_intent o1;
          f = fill_normalize raw;
          f = f\<lparr>f_order_id := default_string (f_order_id f) (o_id o1),
                f_venue := default_string (f_venue f) (oi_venue i),
                f_venue_order_id := default_string (f_venue_order_id f) (o_venue_order_id o1),
                f_execution_account_id := default_string (f_execution_account_id f) (oi_execution_account_id i),
                f_market_id := default_string (f_market_id f) (oi_market_id i),
                f_condition_id := default_string (f_condition_id f) (oi_condition_id i),
                f_token_id := default_string (f_token_id f) (oi_token_id i),
                f_side := default_string (f_side f) (oi_side i),
                f_observed_at := (if is_zero_time (f_observed_at f) then now else f_observed_at f)\<rparr>;
          f = (if f_status f = FillStatusConfirmed \<and> f_confirmed_at f = None
               then f\<lparr>f_confirmed_at := Some (if is_zero_time (f_venue_updated_at f) then f_observed_at f else f_venue_updated_at f)\<rparr>
               else f)
      in if f_key f = [] then f\<lparr>f_key := fill_key sha256_hex (f_venue f) (f_venue_fill_id f) (f_order_id f)\<rparr> else f)"

definition fill_belongs_to :: "fill \<Rightarrow> order \<Rightarrow> bool" where
  "fill_belongs_to f o1 \<longleftrightarrow>
     f_order_id f = o_id o1 \<and> f_execution_account_id f = oi_execution_account_id (o_intent o1) \<and>
     f_market_id f = oi_market_id (o_intent o1) \<and> f_token_id f = oi_token_id (o_intent o1) \<and>
     f_side f = oi_side (o_intent o1) \<and> equal_fold (f_venue_order_id f) (o_venue_order_id o1)"

definition prepare_fill :: "(string \<Rightarrow> string) \<Rightarrow> order \<Rightarrow> fill \<Rightarrow> gtime \<Rightarrow> go_error + fill" where
  "prepare_fill sha256_hex o1 raw now =
     (let f = complete_fill sha256_hex o1 raw now in
      if \<not> fill_belongs_to f o1 then Inl (ErrSentinel ErrFillConflict)
      else case fill_validate f of
        Some e \<Rightarrow> Inl e
      | None \<Rightarrow> calculate_money f)"


section \<open>Synchronising an order\<close>

record 'w fill_processor =
  fp_source :: "order \<Rightarrow> ('w, go_error + fill list) state"
  fp_ledger :: "order \<Rightarrow> fill \<Rightarrow> (repo \<times> 'w, fill_application \<times> err) state"
  fp_now :: "('w, gtime) state"
  fp_sha256_hex :: "string \<Rightarrow> string"

definition on_world :: "('w, 'a) state \<Rightarrow> (repo \<times> 'w, 'a) state" where
  "on_world m = State (\<lambda>(r, w). case run_state m w of (x, w') \<Rightarrow> (x, (r, w')))"

definition get_order :: "string \<Rightarrow> (repo \<times> 'w, go_error + order) state" where
  "get_order k = State (\<lambda>(r, w). (repo_get r k, (r, w)))"

definition zero_fill :: fill where
  "zero_fill =
     \<lparr>f_key = [], f_venue = [], f_venue_fill_id = [], f_order_id = [], f_venue_order_id = [],
      f_execution_account_id = [], f_market_id = [], f_condition_id = [], f_token_id = [], f_side = [],
      f_liquidity_role = [], f_status = [], f_shares = [], f_price = [], f_price_tick_size = [],
      f_gross_notional = [], f_fee_rate_bps = [], f_platform_fee_rate = [], f_fee_exponent = [],
      f_platform_fee = [], f_builder_fee_rate_bps = [], f_builder_fee = [], f_total_fee = [],
      f_net_cash_delta = [], f_transaction_hash = [], f_matched_at = 0, f_venue_updated_at = 0, f_observed_at = 0,
      f_confirmed_at = None, f_applied_at = None, f_fee_source = [], f_raw_payload_sha256 = [],
      f_settlement_evidence = None\<rparr>"

definition zero_application :: fill_application where
  "zero_application = \<lparr>fa_fill = zero_fill, fa_order = zero_order, fa_applied = False, fa_duplicate = False\<rparr>"

definition process_fill :: "'w fill_processor \<Rightarrow> order \<Rightarrow> fill \<Rightarrow> (repo \<times> 'w, fill_application \<times> err) state" where
  "process_fill fp o1 raw = do {
     now \<leftarrow> on_world (fp_now fp);
     (case prepare_fill (fp_sha256_hex fp) o1 raw now of
        Inl e \<Rightarrow> State_Monad.return (zero_application, Some e)
      | Inr f \<Rightarrow> fp_ledger fp o1 f) }"

text \<open>
  The loop over \<open>revisionAttempt\<close>, with the variables \<open>application\<close>, \<open>order\<close> and \<open>err\<close> it leaves behind. On a
  revision conflict the order is read again and \<open>err\<close> becomes the error of that read.
\<close>

fun process_with_retry ::
    "nat \<Rightarrow> 'w fill_processor \<Rightarrow> order \<Rightarrow> fill \<Rightarrow> fill_application \<Rightarrow> err \<Rightarrow> (repo \<times> 'w, fill_application \<times> order \<times> err) state" where
  "process_with_retry 0 fp o1 raw app e = State_Monad.return (app, o1, e)"
| "process_with_retry (Suc n) fp o1 raw app e = do {
     (app', e') \<leftarrow> process_fill fp o1 raw;
     if \<not> err_is e' ErrOrderRevisionConflict then State_Monad.return (app', o1, e')
     else do {
       got \<leftarrow> get_order (o_id o1);
       (case got of
          Inl e2 \<Rightarrow> State_Monad.return (app', zero_order, Some e2)
        | Inr o2 \<Rightarrow> process_with_retry n fp o2 raw app' None) } }"

definition record_application :: "fill_sync_result \<Rightarrow> fill_application \<Rightarrow> fill_sync_result" where
  "record_application res app = res\<lparr>
     sr_applications := sr_applications res @ [app],
     sr_applied := (if fa_applied app then sr_applied res + 1 else sr_applied res),
     sr_duplicates := (if fa_duplicate app then sr_duplicates res + 1 else sr_duplicates res)\<rparr>"

fun sync_fills ::
    "'w fill_processor \<Rightarrow> order \<Rightarrow> fill list \<Rightarrow> fill_sync_result \<Rightarrow> (repo \<times> 'w, fill_sync_result \<times> err) state" where
  "sync_fills fp o1 [] res = State_Monad.return (res, None)"
| "sync_fills fp o1 (raw # rest) res = do {
     (app, o2, e) \<leftarrow> process_with_retry 3 fp o1 raw zero_application None;
     (case e of
        Some e1 \<Rightarrow> State_Monad.return (res, Some (wrap_error (''process fill '' @ f_venue_fill_id raw) e1))
      | None \<Rightarrow> sync_fills fp (fa_order app) rest (record_application res app)) }"

definition empty_sync :: "string \<Rightarrow> int \<Rightarrow> fill_sync_result" where
  "empty_sync k n = \<lparr>sr_order_id = k, sr_observed = n, sr_applied = 0, sr_duplicates = 0, sr_applications = []\<rparr>"

text \<open>
  \<open>sort.Slice\<close> leaves the order of equal keys open. Fills of one order with the same match time and the same venue fill
  id are the same trade; here they keep the order of the feed.
\<close>

definition matched_order :: "fill list \<Rightarrow> fill list" where
  "matched_order = sort_key (\<lambda>f. (f_matched_at f, f_venue_fill_id f))"

definition fill_sync_order :: "'w fill_processor \<Rightarrow> string \<Rightarrow> (repo \<times> 'w, fill_sync_result \<times> err) state" where
  "fill_sync_order fp orderID = do {
     got \<leftarrow> get_order (trim_space orderID);
     (case got of
        Inl e \<Rightarrow> State_Monad.return (empty_sync [] 0, Some e)
      | Inr o1 \<Rightarrow> do {
          listed \<leftarrow> on_world (fp_source fp o1);
          (case listed of
             Inl e \<Rightarrow> State_Monad.return (empty_sync (o_id o1) 0, Some (wrap_error ''list real fills'' e))
           | Inr fills \<Rightarrow> sync_fills fp o1 (matched_order fills) (empty_sync (o_id o1) (int (length fills)))) }) }"

text \<open>The processor as the \<open>FillSynchronizer\<close> of the execution service.\<close>

definition fill_synchronizer_of :: "'w fill_processor \<Rightarrow> 'w fill_synchronizer" where
  "fill_synchronizer_of fp orderID = do {
     (res, e) \<leftarrow> fill_sync_order fp orderID;
     State_Monad.return (case e of Some x \<Rightarrow> Inl x | None \<Rightarrow> Inr res) }"


section \<open>Exact decimals are exact\<close>

lemma fp_decimal_rat_iff: "fp_decimal_rat d = Inr r \<longleftrightarrow> dec_rat d = Inr r"
proof -
  have "rat_set_string [] = None" by (simp add: rat_set_string_def)
  then show ?thesis
    by (auto simp: fp_decimal_rat_def dec_rat_def Let_def split: option.splits if_splits)
qed

lemma fp_value: "dec_rat d = Inr r \<Longrightarrow> projr (fp_decimal_rat d) = dec_value d"
  using fp_decimal_rat_iff [of d r] by simp

lemma trim_right_char_idem [simp]: "trim_right_char c (trim_right_char c xs) = trim_right_char c xs"
  by (simp add: trim_right_char_def)

lemma parts_value_trim: "parts_value (neg, i, trim_right_char (CHR ''0'') g) = parts_value (neg, i, g)"
  using norm_parts_value [of neg i "trim_right_char (CHR ''0'') g"] norm_parts_value [of neg i g]
  by (simp add: norm_parts_def Let_def)

lemma dec_rat_minus_zero: "dec_rat ''-0'' = Inr 0"
  by code_simp

lemma trim_point_sign:
  assumes "list_all is_digit i" "i \<noteq> []" "list_all is_digit g"
  shows "trim_right_char (CHR ''.'') (trim_right_char (CHR ''0'') ((if neg then ''-'' else []) @ i @ ''.'' @ g)) =
    render_parts (neg, i, trim_right_char (CHR ''0'') g)"
proof -
  let ?s = "if neg then ''-'' else []" and ?r = "render_parts (False, i, trim_right_char (CHR ''0'') g)"
  have t: "trim_right_char (CHR ''.'') (trim_right_char (CHR ''0'') (i @ ''.'' @ g)) = ?r"
    by (rule trim_point [OF assms])
  have r: "?r \<noteq> []" using assms(2) by (simp add: render_parts_def)
  then have "trim_right_char (CHR ''0'') (i @ ''.'' @ g) \<noteq> []" using t by (auto simp: trim_right_char_def)
  from trim_right_char_append [OF this, of ?s] trim_right_char_append [of "CHR ''.''" "trim_right_char (CHR ''0'') (i @ ''.'' @ g)" ?s] r t
  show ?thesis by (simp add: render_parts_def)
qed

lemma fp_canonical_point:
  assumes "list_all is_digit i" "i \<noteq> []" "list_all is_digit g" "length g \<le> 1000000"
  shows "dec_rat (fp_canonical ((if neg then ''-'' else []) @ i @ ''.'' @ g)) = Inr (parts_value (neg, i, g))"
proof -
  let ?r = "render_parts (neg, i, trim_right_char (CHR ''0'') g)"
  have "length (trim_right_char (CHR ''0'') g) \<le> 1000000" using length_trim_right [of "CHR ''0''" g] assms(4) by simp
  then have v: "dec_rat ?r = Inr (parts_value (neg, i, g))"
    using render_parts_rat [of i "trim_right_char (CHR ''0'') g" neg] assms by (simp add: parts_value_trim)
  have "?r \<noteq> []" using assms(2) by (simp add: render_parts_def)
  then show ?thesis using trim_point_sign [OF assms(1-3), of neg] v dec_rat_minus_zero dec_rat_zero
    by (auto simp: fp_canonical_def Let_def)
qed

lemma fp_canonical_integer:
  assumes "list_all is_digit i" "i \<noteq> []"
  shows "dec_rat (fp_canonical ((if neg then ''-'' else []) @ i)) = Inr (parts_value (neg, i, []))"
proof -
  have r: "(if neg then ''-'' else []) @ i = render_parts (neg, i, [])" using assms(2) by (simp add: render_parts_def)
  have "CHR ''.'' \<notin> set (render_parts (neg, i, []))" using assms by (auto simp: render_parts_def list_all_iff)
  then show ?thesis
    using render_parts_rat [OF assms(1), of "[]" neg] assms(2) dec_rat_minus_zero dec_rat_zero
    unfolding r by (auto simp: fp_canonical_def render_parts_def)
qed

lemma rat_set_string_value: "rat_set_string t = Some r \<Longrightarrow> dec_rat t = Inr x \<Longrightarrow> trim_space t = t \<Longrightarrow> x = r"
  by (auto simp: dec_rat_def Let_def split: if_splits)

lemma exact_decimal_value:
  assumes "exact_decimal v n = Inr d" "n \<le> 1000000"
  shows "dec_rat d = Inr v"
proof -
  obtain k where k: "rat_set_string (rat_float_string v k) = Some v" "k \<le> n" "d = fp_canonical (rat_float_string v k)"
    using assms(1) by (auto simp: exact_decimal_def find_Some_iff simp del: upt_Suc split: option.splits)
  obtain i g where s: "list_all is_digit i" "i \<noteq> []" "list_all is_digit g" "length g = k"
    "rat_float_string v k = (if v < 0 then ''-'' else []) @ i @ (if k > 0 then ''.'' @ g else [])" by (rule float_string_shape)
  let ?t = "rat_float_string v k"
  have t: "?t = render_parts (v < 0, i, g)" using s by (auto simp: render_parts_def)
  have "length g \<le> 1000000" using s(4) k(2) assms(2) by simp
  note v = render_parts_rat [OF s(1,3) this, of "v < 0", folded t] fp_canonical_point [OF s(1-3) this, of "v < 0"]
    fp_canonical_integer [OF s(1,2), of "v < 0"]
  have "\<forall>c \<in> set ?t. \<not> is_space c"
    using s is_digit_not_space punctuation_not_space by (auto simp: list_all_iff split: if_splits)
  then have "trim_space ?t = ?t" by (rule trim_space_no_space)
  from rat_set_string_value [OF k(1) v(1) this] have "parts_value (v < 0, i, g) = v" .
  then show ?thesis using v(2,3) s(4,5) k(3) by (cases "k > 0") auto
qed


lemma truncated_bounds:
  assumes "0 \<le> v" "0 < k" "k \<le> 1000000"
  obtains r where "dec_rat (truncated_decimal v k) = Inr r" "0 \<le> r" "r \<le> v" "v < r + 1 / 10 ^ k"
proof -
  obtain a b where ab: "quotient_of v = (a, b)" by force
  then have b: "0 < b" and v: "v = of_int a / of_int b" by (simp_all add: quotient_of_denom_pos quotient_of_div)
  with assms(1) have a: "0 \<le> a" by (simp add: zero_le_divide_iff)
  define q where "q = a * 10 ^ k div b"
  have q: "0 \<le> q" "int_quo (a * 10 ^ k) b = q" using a b by (auto simp: q_def int_quo_def pos_imp_zdiv_nonneg_iff sgn_if)
  let ?t = "pad_zeros (Suc k) (show_nat (nat q))"
  have t: "list_all is_digit ?t" "length ?t \<ge> Suc k"
    using pad_zeros_digits [OF show_nat_digits] by (simp_all add: length_pad_zeros)
  let ?i = "take (length ?t - k) ?t" and ?g = "drop (length ?t - k) ?t"
  have ig: "list_all is_digit ?i" "?i \<noteq> []" "list_all is_digit ?g" "length ?g \<le> 1000000"
    using t assms(3) by (auto simp: list_all_iff dest: in_set_takeD in_set_dropD)
  have "truncated_decimal v k = fp_canonical ((if False then ''-'' else []) @ ?i @ ''.'' @ ?g)"
    using q assms(2) by (simp add: truncated_decimal_def ab Let_def)
  moreover have "parts_value (False, ?i, ?g) = of_int q / 10 ^ k"
    using t(2) q(1) by (simp add: parts_value_def digits_val_pad show_nat_value)
  ultimately have d: "dec_rat (truncated_decimal v k) = Inr (of_int q / 10 ^ k)"
    using fp_canonical_point [OF ig, of False] by simp
  have "q * b \<le> a * 10 ^ k" "a * 10 ^ k < q * b + b"
    using b pos_mod_bound [OF b, of "a * 10 ^ k"] by (simp_all add: q_def minus_mod_eq_div_mult [symmetric])
  then have "(of_int (q * b) :: rat) \<le> of_int (a * 10 ^ k)" "(of_int (a * 10 ^ k) :: rat) < of_int (q * b + b)"
    by (simp_all only: of_int_le_iff of_int_less_iff)
  then show ?thesis using that [OF d] b q(1) by (simp add: v field_simps)
qed


section \<open>What a prepared fill satisfies\<close>

lemma first_unproved_negative: "first_unproved xs = None \<Longrightarrow> first_negative xs = None"
  by (induction xs rule: first_unproved.induct) (simp_all del: not_None_eq split: if_splits)

text \<open>Inversion of \<open>calculateMoney\<close>.\<close>

lemma calculate_money_cases:
  assumes "calculate_money f0 = Inr f"
  shows "\<exists>s p g change net. first_unproved (accounting_amounts f0) = None \<and>
    to_upper (trim_space (f_fee_source f0)) \<noteq> [] \<and>
    (equal_fold (f_venue f0) ''polymarket'' \<longrightarrow> to_upper (trim_space (f_fee_source f0)) = FeeSourcePolygonV2OrderFilled) \<and>
    dec_rat (f_shares f0) = Inr s \<and> dec_rat (f_price f0) = Inr p \<and> dec_rat (f_gross_notional f0) = Inr g \<and>
    validate_gross_evidence (f0\<lparr>f_fee_source := to_upper (trim_space (f_fee_source f0))\<rparr>) s p g = None \<and>
    dec_value (f_platform_fee f0) + dec_value (f_builder_fee f0) = dec_value (f_total_fee f0) \<and>
    check_platform_fee (f0\<lparr>f_fee_source := to_upper (trim_space (f_fee_source f0))\<rparr>) s p = None \<and>
    cash_change f0 g (dec_value (f_total_fee f0)) = Inr change \<and>
    dec_rat (f_net_cash_delta f) = Inr change \<and>
    f = fill_normalize (f0\<lparr>f_fee_source := to_upper (trim_space (f_fee_source f0)), f_net_cash_delta := net\<rparr>)"
proof -
  let ?f = "f0\<lparr>f_fee_source := to_upper (trim_space (f_fee_source f0))\<rparr>"
  have u: "first_unproved (accounting_amounts f0) = None" using assms by (simp add: calculate_money_def split: option.splits)
  note amounts = accounting_amounts_valid [OF first_unproved_negative [OF u], unfolded nonnegative_value]
  have v: "projr (fp_decimal_rat (f_platform_fee f0)) = dec_value (f_platform_fee f0)"
    "projr (fp_decimal_rat (f_builder_fee f0)) = dec_value (f_builder_fee f0)"
    "projr (fp_decimal_rat (f_total_fee f0)) = dec_value (f_total_fee f0)"
    using amounts(4,6,7) fp_value by blast+
  obtain s p g change net where c: "to_upper (trim_space (f_fee_source f0)) \<noteq> []"
    "equal_fold (f_venue f0) ''polymarket'' \<longrightarrow> to_upper (trim_space (f_fee_source f0)) = FeeSourcePolygonV2OrderFilled"
    "fp_decimal_rat (f_shares f0) = Inr s" "fp_decimal_rat (f_price f0) = Inr p" "fp_decimal_rat (f_gross_notional f0) = Inr g"
    "validate_gross_evidence ?f s p g = None" "dec_value (f_platform_fee f0) + dec_value (f_builder_fee f0) = dec_value (f_total_fee f0)"
    "check_platform_fee ?f s p = None" "cash_change f0 g (dec_value (f_total_fee f0)) = Inr change"
    "exact_decimal change 18 = Inr net" "f = fill_normalize (?f\<lparr>f_net_cash_delta := net\<rparr>)"
    using assms u v
    by (auto simp: calculate_money_def Let_def cash_change_def split: option.splits if_splits sum.splits)
  have "dec_rat net = Inr change" using exact_decimal_value [OF c(10)] by simp
  moreover have "f_net_cash_delta f = net" using c(11) by (simp add: fill_normalize_def)
  ultimately show ?thesis using u c by (auto simp: fp_decimal_rat_iff)
qed

lemma prepare_fill_cases:
  assumes "prepare_fill h o1 raw now = Inr f"
  shows "fill_belongs_to (complete_fill h o1 raw now) o1" "fill_validate (complete_fill h o1 raw now) = None"
    "calculate_money (complete_fill h o1 raw now) = Inr f"
  using assms by (auto simp: prepare_fill_def Let_def split: if_splits option.splits)


lemma evidence_normalize_idem [simp]: "evidence_normalize (evidence_normalize ev) = evidence_normalize ev"
  by (simp add: evidence_normalize_def)

lemma fill_normalize_idem:
  "normalize_fill_status (f_status (fill_normalize f)) = f_status (fill_normalize f) \<Longrightarrow>
   fill_normalize (fill_normalize f) = fill_normalize f"
  by (simp add: fill_normalize_def option.map_comp comp_def)

lemma fill_validate_same:
  "fill_normalize f = (fill_normalize g)\<lparr>f_fee_source := x, f_net_cash_delta := y\<rparr> \<Longrightarrow> fill_validate f = fill_validate g"
  by (simp add: fill_validate_def Let_def del: fill_normalize_decimals)

lemma trim_space_nonblank: "\<not> is_space c \<Longrightarrow> trim_space (c # s) \<noteq> []"
  by (auto simp: trim_space_def)

lemma complete_fill_key: "trim_space (f_key (complete_fill h o1 raw now)) \<noteq> []"
proof -
  have "\<not> is_space (CHR ''f'')" by (simp add: is_space_def)
  then have "trim_space (fill_key h v k i) \<noteq> []" for v k i unfolding fill_key_def by (simp add: trim_space_nonblank)
  moreover have "f_key (fill_normalize raw) = trim_space (f_key raw)" by (simp add: fill_normalize_def)
  ultimately show ?thesis by (auto simp: complete_fill_def Let_def)
qed

lemma side_canonical [simp]: "to_upper (trim_space SideBuy) = SideBuy" "to_upper (trim_space SideSell) = SideSell" "SideSell \<noteq> SideBuy"
  by code_simp+

text \<open>
  Preparation and the ledger boundary agree: a fill that \<open>prepareFill\<close> returns with a canonical status passes
  \<open>ValidateAccounting\<close> exactly when its fee exponent is an integer and its settlement evidence validates. Identity,
  amounts, fees and the cash delta can no longer be the reason for a refusal.
\<close>

lemma prepared_fill_books:
  assumes "prepare_fill h o1 raw now = Inr f" and "normalize_fill_status (f_status f) = f_status f"
  shows "fill_validate_accounting f = None \<longleftrightarrow>
    rat_is_int (dec_value (f_fee_exponent f)) \<and> fill_validate_evidence f = None"
proof -
  let ?g = "complete_fill h o1 raw now"
  note p = prepare_fill_cases [OF assms(1)]
  obtain gross change net where m: "first_unproved (accounting_amounts ?g) = None" "to_upper (trim_space (f_fee_source ?g)) \<noteq> []"
    "dec_rat (f_gross_notional ?g) = Inr gross"
    "dec_value (f_platform_fee ?g) + dec_value (f_builder_fee ?g) = dec_value (f_total_fee ?g)"
    "cash_change ?g gross (dec_value (f_total_fee ?g)) = Inr change" "dec_rat (f_net_cash_delta f) = Inr change"
    and f: "f = fill_normalize (?g\<lparr>f_fee_source := to_upper (trim_space (f_fee_source ?g)), f_net_cash_delta := net\<rparr>)"
    using calculate_money_cases [OF p(3)] by blast
  have idem: "fill_normalize f = f" using fill_normalize_idem f assms(2) by metis
  have "f = (fill_normalize ?g)\<lparr>f_fee_source := f_fee_source f, f_net_cash_delta := f_net_cash_delta f\<rparr>"
    by (simp add: f fill_normalize_def)
  then have "fill_normalize f = (fill_normalize ?g)\<lparr>f_fee_source := f_fee_source f, f_net_cash_delta := f_net_cash_delta f\<rparr>"
    unfolding idem .
  then have v: "fill_validate f = None" using fill_validate_same p(2) by metis
  have fields: "f_key f = trim_space (f_key ?g)" "f_fee_source f = to_upper (trim_space (f_fee_source ?g))"
    "f_side f = to_upper (trim_space (f_side ?g))" "accounting_amounts f = accounting_amounts ?g"
    "f_platform_fee f = f_platform_fee ?g" "f_builder_fee f = f_builder_fee ?g" "f_total_fee f = f_total_fee ?g"
    "f_gross_notional f = f_gross_notional ?g"
    by (simp_all add: f fill_normalize_def accounting_amounts_def)
  have "first_negative (accounting_amounts f) = None" using fields(4) first_unproved_negative [OF m(1)] by simp
  moreover have "\<not> isl (dec_sign (f_net_cash_delta f))" using m(6) by (simp add: dec_sign_def)
  moreover have "trim_space (f_key f) \<noteq> []" "trim_space (f_fee_source f) \<noteq> []"
    using complete_fill_key m(2) unfolding fields by simp_all
  moreover have "(if f_side f = SideBuy then - (gross + dec_value (f_total_fee f)) else gross - dec_value (f_total_fee f)) =
      dec_value (f_net_cash_delta f)"
    using m(5,6) fields(3,7) by (auto simp: cash_change_def split: if_splits)
  ultimately show ?thesis
    using v m(3,4) fields(5-8) by (cases "fill_validate_evidence f") (auto simp: fill_validate_accounting_def Let_def)
qed

text \<open>The V2 fee curve of a taker.\<close>

lemma taker_fee_curve:
  assumes "check_platform_fee f s p = None" and pf: "dec_rat (f_platform_fee f) = Inr pf" and sp: "0 < s" "0 < p" "p < 1"
    and "f_fee_source f = FeeSourcePolygonV2OrderFilled" "f_liquidity_role f \<noteq> LiquidityRoleMaker"
  shows "\<exists>rate e. dec_rat (f_platform_fee_rate f) = Inr rate \<and> dec_rat (f_fee_exponent f) = Inr (of_nat e) \<and>
      pf \<le> s * rate * (p * (1 - p)) ^ e \<and> s * rate * (p * (1 - p)) ^ e < pf + 1 / 10 ^ 5"
proof -
  obtain expected where ex: "expected_v2_platform_fee s p (f_platform_fee_rate f) (f_fee_exponent f) = Inr expected"
    and eq: "dec_equal (f_platform_fee f) expected"
    using assms(1,6,7) by (auto simp: check_platform_fee_def split: if_splits sum.splits)
  obtain rate x where r: "dec_rat (f_platform_fee_rate f) = Inr rate" "0 \<le> rate"
    and x: "dec_rat (f_fee_exponent f) = Inr x" "0 \<le> x" "rat_is_int x"
    and t: "expected = truncated_decimal (s * rate * pow_loop (nat (fst (quotient_of x))) (p * (1 - p)) 1) feeScale"
    using ex by (auto simp: expected_v2_platform_fee_def Let_def rat_fails_def fp_decimal_rat_iff split: if_splits sum.splits)
  define e where "e = nat (fst (quotient_of x))"
  have "quotient_of x = (fst (quotient_of x), 1)" using x(3) by (simp add: rat_is_int_def prod_eq_iff)
  from quotient_of_div [OF this] have "x = of_int (fst (quotient_of x))" by simp
  with x(2) have e: "x = of_nat e" unfolding e_def by (metis of_int_0_le_iff of_int_of_nat_eq int_nat_eq)
  let ?fee = "s * rate * (p * (1 - p)) ^ e"
  have "0 \<le> ?fee" using sp r(2) by simp
  then obtain q where q: "dec_rat (truncated_decimal ?fee 5) = Inr q" "q \<le> ?fee" "?fee < q + 1 / 10 ^ 5"
    by (rule truncated_bounds [of _ 5]) simp_all
  have "expected = truncated_decimal ?fee 5" by (simp add: t pow_loop_power feeScale_def e_def)
  then have "pf = q" using dec_equal_value [OF eq pf] q(1) by simp
  with q r(1) x(1) e show ?thesis by auto
qed

text \<open>
  C30. Money is exact and never invented: a prepared fill belongs to its order, its total fee is the sum of the
  platform and builder fees, a BUY costs gross plus fees and a SELL yields gross minus fees and never less than zero,
  a Polymarket fill carries finalised settlement evidence as its fee source, makers pay no platform fee there, and the
  fee of a V2 taker is the published curve truncated at five decimals.
\<close>

theorem prepared_fill_money:
  assumes "prepare_fill h o1 raw now = Inr f" and "trim_space (oi_venue (o_intent o1)) = oi_venue (o_intent o1)"
  shows "\<exists>s p g pf bf tf n.
    dec_rat (f_shares f) = Inr s \<and> dec_rat (f_price f) = Inr p \<and> dec_rat (f_gross_notional f) = Inr g \<and>
    dec_rat (f_platform_fee f) = Inr pf \<and> dec_rat (f_builder_fee f) = Inr bf \<and> dec_rat (f_total_fee f) = Inr tf \<and>
    dec_rat (f_net_cash_delta f) = Inr n \<and> f_side f = oi_side (o_intent o1) \<and> tf = pf + bf \<and> 0 \<le> pf \<and> 0 \<le> bf \<and>
    (f_side f = SideBuy \<and> n = - (g + tf) \<or> f_side f = SideSell \<and> n = g - tf \<and> 0 \<le> n) \<and>
    (equal_fold (f_venue f) ''polymarket'' \<longrightarrow> f_fee_source f = FeeSourcePolygonV2OrderFilled) \<and>
    (equal_fold (f_venue f) ''polymarket'' \<and> f_liquidity_role f = LiquidityRoleMaker \<longrightarrow> pf = 0) \<and>
    (f_fee_source f = FeeSourcePolygonV2OrderFilled \<and> f_liquidity_role f = LiquidityRoleTaker \<longrightarrow>
       (\<exists>rate e. dec_rat (f_platform_fee_rate f) = Inr rate \<and> dec_rat (f_fee_exponent f) = Inr (of_nat e) \<and>
          pf \<le> s * rate * (p * (1 - p)) ^ e \<and> s * rate * (p * (1 - p)) ^ e < pf + 1 / 10 ^ 5))"
proof -
  let ?g = "complete_fill h o1 raw now" and ?src = "to_upper (trim_space (f_fee_source (complete_fill h o1 raw now)))"
  note pr = prepare_fill_cases [OF assms(1)]
  obtain s p g change net where m: "first_unproved (accounting_amounts ?g) = None"
    "equal_fold (f_venue ?g) ''polymarket'' \<longrightarrow> ?src = FeeSourcePolygonV2OrderFilled"
    "dec_rat (f_shares ?g) = Inr s" "dec_rat (f_price ?g) = Inr p" "dec_rat (f_gross_notional ?g) = Inr g"
    "dec_value (f_platform_fee ?g) + dec_value (f_builder_fee ?g) = dec_value (f_total_fee ?g)"
    "check_platform_fee (?g\<lparr>f_fee_source := ?src\<rparr>) s p = None"
    "cash_change ?g g (dec_value (f_total_fee ?g)) = Inr change" "dec_rat (f_net_cash_delta f) = Inr change"
    and f: "f = fill_normalize (?g\<lparr>f_fee_source := ?src, f_net_cash_delta := net\<rparr>)"
    using calculate_money_cases [OF pr(3)] by blast
  note amounts = accounting_amounts_valid [OF first_unproved_negative [OF m(1)], unfolded nonnegative_value]
  obtain pf where pf: "dec_rat (f_platform_fee ?g) = Inr pf" "0 \<le> pf" using amounts(4) by blast
  obtain bf where bf: "dec_rat (f_builder_fee ?g) = Inr bf" "0 \<le> bf" using amounts(6) by blast
  obtain tf where tf: "dec_rat (f_total_fee ?g) = Inr tf" using amounts(7) by blast
  have sp: "0 < s" "0 < p" "p < 1" using fill_validate_amounts [OF pr(2)] m(3,4) by auto
  have fields: "f_shares f = f_shares ?g" "f_price f = f_price ?g" "f_gross_notional f = f_gross_notional ?g"
    "f_platform_fee f = f_platform_fee ?g" "f_builder_fee f = f_builder_fee ?g" "f_total_fee f = f_total_fee ?g"
    "f_fee_source f = ?src" "f_side f = to_upper (trim_space (f_side ?g))" "f_platform_fee_rate f = f_platform_fee_rate ?g"
    "f_fee_exponent f = f_fee_exponent ?g" "f_liquidity_role f = to_upper (trim_space (f_liquidity_role ?g))"
    "f_venue f = to_lower (trim_space (f_venue ?g))"
    by (simp_all add: f fill_normalize_def)
  have g: "to_upper (trim_space (f_liquidity_role ?g)) = f_liquidity_role ?g" "trim_space (f_venue ?g) = f_venue ?g"
    using assms(2) by (simp_all add: complete_fill_def Let_def fill_normalize_def default_string_def)
  have side: "f_side f = oi_side (o_intent o1) \<and>
      (f_side f = SideBuy \<and> change = - (g + tf) \<or> f_side f = SideSell \<and> change = g - tf \<and> 0 \<le> change)"
    using m(8) tf pr(1) unfolding fields by (auto simp: cash_change_def fill_belongs_to_def split: if_splits)
  have venue: "equal_fold (f_venue f) ''polymarket'' = equal_fold (f_venue ?g) ''polymarket''"
    unfolding fields g by (simp add: equal_fold_def)
  have maker: "equal_fold (f_venue ?g) ''polymarket'' \<Longrightarrow> f_liquidity_role ?g = LiquidityRoleMaker \<Longrightarrow> pf = 0"
    using m(7) pf(1) fp_value [OF pf(1)] by (simp add: check_platform_fee_def split: if_splits)
  have taker: "\<exists>rate e. dec_rat (f_platform_fee_rate ?g) = Inr rate \<and> dec_rat (f_fee_exponent ?g) = Inr (of_nat e) \<and>
      pf \<le> s * rate * (p * (1 - p)) ^ e \<and> s * rate * (p * (1 - p)) ^ e < pf + 1 / 10 ^ 5"
    if "?src = FeeSourcePolygonV2OrderFilled" "f_liquidity_role ?g = LiquidityRoleTaker"
    using taker_fee_curve [of "?g\<lparr>f_fee_source := ?src\<rparr>" s p pf] m(7) pf(1) sp that by (simp add: fill_constants)
  show ?thesis unfolding fields(1-7,9,10) venue
    using m(2-6) pf bf tf m(9) side maker taker unfolding fields(11) g by auto
qed


section \<open>What a synchronisation means\<close>

lemma first_unproved_error: "first_unproved xs = Some e \<Longrightarrow> \<not> errors_is e c"
  by (induction xs rule: first_unproved.induct) (auto split: if_splits)

lemma gross_error: "validate_gross_evidence f s p g = Some e \<Longrightarrow> \<not> errors_is e c"
  unfolding validate_gross_evidence_def validate_settlement_event_gross_def Let_def by (auto split: if_splits option.splits)

lemma platform_fee_error: "check_platform_fee f s p = Some e \<Longrightarrow> \<not> errors_is e c"
  unfolding check_platform_fee_def expected_v2_platform_fee_def Let_def by (auto split: if_splits sum.splits)

lemma exactness_errors:
  "fp_decimal_rat d = Inl e \<Longrightarrow> \<not> errors_is e c"
  "exact_decimal v n = Inl e \<Longrightarrow> \<not> errors_is e c"
  "cash_change f g t = Inl e \<Longrightarrow> \<not> errors_is e c"
  unfolding fp_decimal_rat_def exact_decimal_def cash_change_def Let_def by (auto split: if_splits option.splits)

lemmas money_errors = first_unproved_error gross_error platform_fee_error exactness_errors

lemma calculate_money_error: "calculate_money f = Inl e \<Longrightarrow> \<not> errors_is e c"
  unfolding calculate_money_def Let_def
  by (auto dest: money_errors split: option.splits if_splits sum.splits)

lemma prepare_fill_error: "prepare_fill h o1 raw now = Inl e \<Longrightarrow> \<not> errors_is e ErrOrderRevisionConflict"
  by (auto simp: prepare_fill_def fill_validate_def Let_def calculate_money_error split: if_splits option.splits)

text \<open>A fill that reached the ledger, and what the ledger answered.\<close>

definition recorded :: "'w fill_processor \<Rightarrow> fill \<Rightarrow> fill_application \<Rightarrow> bool" where
  "recorded fp raw app \<longleftrightarrow> (\<exists>o1 now f s s'. prepare_fill (fp_sha256_hex fp) o1 raw now = Inr f \<and>
     run_state (fp_ledger fp o1 f) s = ((app, None), s'))"

definition ledger_serial :: "'w fill_processor \<Rightarrow> bool" where
  "ledger_serial fp \<longleftrightarrow> (\<forall>o1 f s. \<not> err_is (snd (fst (run_state (fp_ledger fp o1 f) s))) ErrOrderRevisionConflict)"

lemma process_fill_cases:
  assumes "run_state (process_fill fp o1 raw) s = ((app, e), s')" "ledger_serial fp"
  shows "\<not> err_is e ErrOrderRevisionConflict \<and> (e = None \<longrightarrow> recorded fp raw app)"
proof -
  obtain now s1 where "run_state (on_world (fp_now fp)) s = (now, s1)" by (metis surj_pair)
  note run = this
  show ?thesis
  proof (cases "prepare_fill (fp_sha256_hex fp) o1 raw now")
    case (Inl x)
    then show ?thesis using assms(1) run prepare_fill_error [OF Inl] by (auto simp: process_fill_def)
  next
    case (Inr f)
    then have l: "run_state (fp_ledger fp o1 f) s1 = ((app, e), s')" using assms(1) run by (simp add: process_fill_def)
    have "\<not> err_is (snd (fst (run_state (fp_ledger fp o1 f) s1))) ErrOrderRevisionConflict"
      using assms(2) unfolding ledger_serial_def by blast
    with l have "\<not> err_is e ErrOrderRevisionConflict" by simp
    moreover have "e = None \<longrightarrow> recorded fp raw app" using l Inr unfolding recorded_def by blast
    ultimately show ?thesis by blast
  qed
qed

lemma process_with_retry_cases:
  assumes "run_state (process_with_retry (Suc n) fp o1 raw app0 e0) s = ((app, o2, e), s')" "ledger_serial fp"
  shows "e = None \<longrightarrow> recorded fp raw app"
proof -
  obtain app1 e1 s1 where p: "run_state (process_fill fp o1 raw) s = ((app1, e1), s1)" by (metis prod_cases3 prod.exhaust)
  show ?thesis using assms(1) p process_fill_cases [OF p assms(2)] by auto
qed

definition tally :: "fill_sync_result \<Rightarrow> bool" where
  "tally res \<longleftrightarrow> sr_applied res = int (length (filter fa_applied (sr_applications res))) \<and>
     sr_duplicates res = int (length (filter fa_duplicate (sr_applications res)))"

lemma tally_record: "tally res \<Longrightarrow> tally (record_application res app)"
  by (simp add: tally_def record_application_def)

lemma sync_fills_cases:
  assumes "run_state (sync_fills fp o1 fs res0) s = ((res, None), s')" "ledger_serial fp" "tally res0"
  shows "\<exists>apps. sr_applications res = sr_applications res0 @ apps \<and> list_all2 (recorded fp) fs apps \<and> tally res \<and>
    sr_observed res = sr_observed res0 \<and> sr_order_id res = sr_order_id res0"
  using assms
proof (induction fs arbitrary: o1 res0 s)
  case (Cons raw rest)
  obtain app o2 e s1 where p: "run_state (process_with_retry 3 fp o1 raw zero_application None) s = ((app, o2, e), s1)"
    by (metis prod_cases4 prod.exhaust)
  have e: "e = None" and r: "run_state (sync_fills fp (fa_order app) rest (record_application res0 app)) s1 = ((res, None), s')"
    using Cons.prems(1) p by (auto split: option.splits)
  have "recorded fp raw app" using process_with_retry_cases [of 2 fp o1 raw] p e Cons.prems(2) by (simp add: eval_nat_numeral)
  with Cons.IH [OF r Cons.prems(2) tally_record [OF Cons.prems(3)]] show ?case
    by (auto simp: record_application_def)
qed simp

text \<open>
  C29. With a serial ledger a successful synchronisation is complete: when the ledger reports no revision conflicts and
  \<open>SyncOrder\<close> returns no error, every fill the venue listed was prepared and recorded, in the order in which the fills were
  matched, and the counters of the result are the numbers of applied and duplicate fills.
\<close>

theorem synced_fills_recorded:
  assumes "run_state (fill_sync_order fp k) (r, w) = ((res, None), s')" and "ledger_serial fp"
  shows "\<exists>o1 fills w1. repo_get r (trim_space k) = Inr o1 \<and> run_state (fp_source fp o1) w = (Inr fills, w1) \<and>
    list_all2 (recorded fp) (matched_order fills) (sr_applications res) \<and>
    sorted (map (\<lambda>f. (f_matched_at f, f_venue_fill_id f)) (matched_order fills)) \<and> mset (matched_order fills) = mset fills \<and>
    sr_order_id res = o_id o1 \<and> sr_observed res = int (length fills) \<and>
    sr_applied res = int (length (filter fa_applied (sr_applications res))) \<and>
    sr_duplicates res = int (length (filter fa_duplicate (sr_applications res)))"
proof -
  obtain o1 where o1: "repo_get r (trim_space k) = Inr o1"
    using assms(1) by (cases "repo_get r (trim_space k)") (auto simp: fill_sync_order_def get_order_def)
  obtain fills w1 where l: "run_state (fp_source fp o1) w = (Inr fills, w1)"
    using assms(1) o1 by (cases "run_state (fp_source fp o1) w")
      (auto simp: fill_sync_order_def get_order_def on_world_def split: sum.splits)
  let ?res = "empty_sync (o_id o1) (int (length fills))"
  have "run_state (sync_fills fp o1 (matched_order fills) ?res) (r, w1) = ((res, None), s')"
    using assms(1) o1 l by (simp add: fill_sync_order_def get_order_def on_world_def)
  from sync_fills_cases [OF this assms(2)] have "list_all2 (recorded fp) (matched_order fills) (sr_applications res) \<and> tally res \<and>
      sr_observed res = int (length fills) \<and> sr_order_id res = o_id o1"
    by (auto simp: empty_sync_def tally_def)
  with o1 l show ?thesis by (simp add: tally_def matched_order_def)
qed

text \<open>
  C40. Without that hypothesis the last conflict is swallowed: when the ledger answers all three attempts with a revision
  conflict, the error of the last attempt is overwritten by the successful re-read of the order, and \<open>SyncOrder\<close> reports
  success for a fill that was neither applied nor recognised as a duplicate.
\<close>

theorem conflicting_fill_dropped:
  assumes "\<forall>o2 f s. run_state (fp_ledger fp o2 f) s = ((zero_application, Some (ErrSentinel ErrOrderRevisionConflict)), s)"
    and "repo_get r (trim_space k) = Inr o1" "repo_get r (o_id o1) = Inr o1"
    and "run_state (fp_source fp o1) w = (Inr [raw], w1)" "\<forall>w. \<not> isl (prepare_fill (fp_sha256_hex fp) o1 raw (fst (run_state (fp_now fp) w)))"
  shows "\<exists>res s'. run_state (fill_sync_order fp k) (r, w) = ((res, None), s') \<and>
    sr_observed res = 1 \<and> sr_applied res = 0 \<and> sr_duplicates res = 0"
proof -
  have p: "\<exists>w2. run_state (process_fill fp o1 raw) (r, w) = ((zero_application, Some (ErrSentinel ErrOrderRevisionConflict)), (r, w2))" for w
  proof -
    obtain now w2 where now: "run_state (fp_now fp) w = (now, w2)" by (metis surj_pair)
    then show ?thesis using assms(1) spec [OF assms(5), of w]
      by (cases "prepare_fill (fp_sha256_hex fp) o1 raw now") (auto simp: process_fill_def on_world_def)
  qed
  have "\<exists>w2. run_state (process_with_retry n fp o1 raw zero_application None) (r, w) = ((zero_application, o1, None), (r, w2))" for n w
  proof (induction n arbitrary: w)
    case (Suc n)
    obtain w2 where "run_state (process_fill fp o1 raw) (r, w) = ((zero_application, Some (ErrSentinel ErrOrderRevisionConflict)), (r, w2))"
      using p by blast
    then show ?case using Suc [of w2] assms(3) by (simp add: get_order_def)
  qed simp
  from this [of 3 w1] obtain w2 where
    "run_state (process_with_retry 3 fp o1 raw zero_application None) (r, w1) = ((zero_application, o1, None), (r, w2))" by blast
  then show ?thesis using assms(2,4)
    by (simp add: fill_sync_order_def get_order_def on_world_def matched_order_def empty_sync_def record_application_def zero_application_def)
qed


section \<open>A concrete run\<close>

definition fill_order :: order where
  "fill_order = zero_order\<lparr>o_id := ''o1'', o_intent := sample_intent, o_venue_order_id := ''0xV1'', o_status := OrderStatusLive\<rparr>"

definition v2_fill :: fill where
  "v2_fill = zero_fill\<lparr>f_venue_fill_id := ''t1'', f_liquidity_role := ''taker'', f_status := ''TRADE_STATUS_CONFIRMED'',
     f_shares := ''10'', f_price := ''0.5'', f_gross_notional := ''5'', f_platform_fee_rate := ''0.02'', f_fee_exponent := ''1'',
     f_platform_fee := ''0.05'', f_builder_fee_rate_bps := ''0'', f_builder_fee := ''0'', f_total_fee := ''0.05'',
     f_matched_at := 5, f_fee_source := ''polygon_v2_order_filled''\<rparr>"

definition v2_prepared :: fill where
  "v2_prepared = v2_fill\<lparr>f_key := ''fill-00'', f_venue := ''polymarket'', f_order_id := ''o1'', f_venue_order_id := ''0xV1'',
     f_execution_account_id := ''w1'', f_market_id := ''mk'', f_condition_id := ''cond'', f_token_id := ''tok'', f_side := ''BUY'',
     f_liquidity_role := ''TAKER'', f_status := ''CONFIRMED'', f_net_cash_delta := ''-5.05'', f_observed_at := 9,
     f_confirmed_at := Some 9, f_fee_source := ''POLYGON_V2_ORDER_FILLED''\<rparr>"

lemma v2_prepared: "prepare_fill (\<lambda>_. ''00'') fill_order v2_fill 9 = Inr v2_prepared"
  by code_simp

lemma v2_fields:
  "f_status v2_prepared = ''CONFIRMED''" "f_side v2_prepared = SideBuy" "f_fee_source v2_prepared = FeeSourcePolygonV2OrderFilled"
  "f_settlement_evidence v2_prepared = None" "f_fee_exponent v2_prepared = ''1''" "f_net_cash_delta v2_prepared = ''-5.05''"
  by (simp_all add: v2_prepared_def v2_fill_def zero_fill_def order_constants FeeSourcePolygonV2OrderFilled_def)

theorem prepared_fill_money_witness:
  "f_net_cash_delta v2_prepared = ''-5.05'' \<and>
   (\<exists>g tf n. dec_rat (f_gross_notional v2_prepared) = Inr g \<and> dec_rat (f_total_fee v2_prepared) = Inr tf \<and>
      dec_rat (f_net_cash_delta v2_prepared) = Inr n \<and> n = - (g + tf))"
proof -
  have "trim_space (oi_venue (o_intent fill_order)) = oi_venue (o_intent fill_order)" by code_simp
  from prepared_fill_money [OF v2_prepared this] v2_fields(2,6) side_canonical(3) show ?thesis by metis
qed

text \<open>A source with one fill, a ledger that applies it, and a ledger that always loses the race.\<close>

definition fill_repo :: repo where
  "fill_repo = new_order_repository\<lparr>r_by_id := [(''o1'', fill_order)]\<rparr>"

definition ledger_processor :: "unit fill_processor" where
  "ledger_processor = \<lparr>fp_source = (\<lambda>_. State_Monad.return (Inr [v2_fill])),
     fp_ledger = (\<lambda>o1 f. State_Monad.return (\<lparr>fa_fill = f, fa_order = o1, fa_applied = True, fa_duplicate = False\<rparr>, None)),
     fp_now = State_Monad.return 9, fp_sha256_hex = (\<lambda>_. ''00'')\<rparr>"

definition stale_processor :: "unit fill_processor" where
  "stale_processor = ledger_processor\<lparr>fp_ledger :=
     (\<lambda>_ _. State_Monad.return (zero_application, Some (ErrSentinel ErrOrderRevisionConflict)))\<rparr>"

theorem synced_fills_recorded_witness:
  "sr_applied (fst (fst (run_state (fill_sync_order ledger_processor '' o1'') (fill_repo, ())))) = 1 \<and>
   length (sr_applications (fst (fst (run_state (fill_sync_order ledger_processor '' o1'') (fill_repo, ()))))) = 1"
proof -
  let ?run = "run_state (fill_sync_order ledger_processor '' o1'') (fill_repo, ())"
  have k: "repo_get fill_repo (trim_space '' o1'') = Inr fill_order" by code_simp
  have r: "?run = ((record_application (empty_sync ''o1'' 1) \<lparr>fa_fill = v2_prepared, fa_order = fill_order, fa_applied = True, fa_duplicate = False\<rparr>, None), (fill_repo, ()))"
    by (simp add: fill_sync_order_def get_order_def on_world_def k ledger_processor_def matched_order_def eval_nat_numeral process_fill_def v2_prepared)
       (simp add: fill_order_def)
  have e: "snd (fst ?run) = None" and a: "sr_applied (fst (fst ?run)) = 1"
    unfolding r by (simp_all add: record_application_def empty_sync_def)
  have s: "ledger_serial ledger_processor" by (simp add: ledger_serial_def ledger_processor_def)
  have run: "?run = ((fst (fst ?run), None), snd ?run)" using e by (metis prod.collapse)
  obtain o1 fills w1 where "run_state (fp_source ledger_processor o1) () = (Inr fills, w1)"
    "list_all2 (recorded ledger_processor) (matched_order fills) (sr_applications (fst (fst ?run)))"
    using synced_fills_recorded [OF run s] by blast
  then have "length (sr_applications (fst (fst ?run))) = 1"
    by (auto simp: ledger_processor_def matched_order_def dest: list_all2_lengthD)
  with a show ?thesis by blast
qed

theorem conflicting_fill_dropped_witness:
  "\<exists>res s'. run_state (fill_sync_order stale_processor ''o1'') (fill_repo, ()) = ((res, None), s') \<and>
     sr_observed res = 1 \<and> sr_applied res = 0 \<and> sr_duplicates res = 0"
proof -
  have g: "repo_get fill_repo (trim_space ''o1'') = Inr fill_order" "repo_get fill_repo (o_id fill_order) = Inr fill_order"
    by code_simp+
  have l: "\<forall>o2 f s. run_state (fp_ledger stale_processor o2 f) s =
      ((zero_application, Some (ErrSentinel ErrOrderRevisionConflict)), s)" by (simp add: stale_processor_def)
  have src: "run_state (fp_source stale_processor fill_order) () = (Inr [v2_fill], ())"
    by (simp add: stale_processor_def ledger_processor_def)
  have "\<not> isl (prepare_fill (\<lambda>_. ''00'') fill_order v2_fill 9)" using v2_prepared by simp
  then have "\<forall>w. \<not> isl (prepare_fill (fp_sha256_hex stale_processor) fill_order v2_fill (fst (run_state (fp_now stale_processor) w)))"
    by (simp add: stale_processor_def ledger_processor_def)
  from conflicting_fill_dropped [OF l g src this] show ?thesis .
qed

end
