(* ===== verification/Order_Recovery.thy ===== *)
theory Order_Recovery
  imports Repository "HOL-Library.Word"
begin

text \<open>
  \<open>src/internal/domain/order_recovery.go\<close>, \<open>src/internal/adapter/memory/order_recovery_lease.go\<close> and
  \<open>src/internal/service/orderrecovery/guard.go\<close>: the lease that lets one worker at a time recover an order, the retry
  schedule it carries, and the guard that runs one attempt under it. The mutex of the store makes each of its
  operations one function on the map of leases. The guard is written over any lease store, clock and context, which
  are the fields of its record. \<open>Guard.alert\<close> only logs and is left out.
\<close>

section \<open>Leases\<close>

datatype recovery_outcome_kind =
    OrderRecoveryOutcomeResolved | OrderRecoveryOutcomeWaiting | OrderRecoveryOutcomeFailed
  | OrderRecoveryOutcomeOther string

record order_recovery_lease =
  rl_order_id :: string
  rl_execution_account_id :: string
  rl_holder :: string
  rl_order_revision :: int
  rl_acquired_at :: "gtime option"
  rl_expires_at :: "gtime option"
  rl_attempts :: int
  rl_first_pending_at :: "gtime option"
  rl_last_attempt_at :: "gtime option"
  rl_next_retry_at :: "gtime option"
  rl_last_error :: string
  rl_escalated_at :: "gtime option"
  rl_updated_at :: gtime

definition zero_lease :: order_recovery_lease where
  "zero_lease = \<lparr>rl_order_id = [], rl_execution_account_id = [], rl_holder = [], rl_order_revision = 0,
     rl_acquired_at = None, rl_expires_at = None, rl_attempts = 0, rl_first_pending_at = None, rl_last_attempt_at = None,
     rl_next_retry_at = None, rl_last_error = [], rl_escalated_at = None, rl_updated_at = 0\<rparr>"

definition lease_held_at :: "order_recovery_lease \<Rightarrow> gtime \<Rightarrow> string \<Rightarrow> bool" where
  "lease_held_at l now holder =
     (if trim_space (rl_holder l) = [] then False
      else case rl_expires_at l of None \<Rightarrow> False | Some t \<Rightarrow> now < t)"

definition retry_due_at :: "order_recovery_lease \<Rightarrow> gtime \<Rightarrow> bool" where
  "retry_due_at l now = (case rl_next_retry_at l of None \<Rightarrow> True | Some t \<Rightarrow> \<not> now < t)"

definition pending_since :: "order_recovery_lease \<Rightarrow> gtime \<Rightarrow> duration" where
  "pending_since l now =
     (case rl_first_pending_at l of None \<Rightarrow> 0 | Some t \<Rightarrow> if now < t then 0 else now - t)"

definition lease_escalated :: "order_recovery_lease \<Rightarrow> bool" where
  "lease_escalated l = (case rl_escalated_at l of None \<Rightarrow> False | Some t \<Rightarrow> \<not> is_zero_time t)"

record order_recovery_lease_request =
  lq_order_id :: string
  lq_execution_account_id :: string
  lq_holder :: string
  lq_order_revision :: int
  lq_now :: gtime
  lq_ttl :: duration
  lq_bypass_backoff :: bool

record order_recovery_release =
  lr_order_id :: string
  lr_holder :: string
  lr_now :: gtime
  lr_kind :: recovery_outcome_kind
  lr_error :: string
  lr_next_retry_at :: gtime
  lr_escalate :: bool

definition is_order_recovery_status :: "order_status \<Rightarrow> bool" where
  "is_order_recovery_status status \<longleftrightarrow>
     status \<in> {OrderStatusSubmitting, OrderStatusUnknown, OrderStatusReconciling, OrderStatusCancelPending}"


section \<open>The lease store in memory\<close>

type_synonym lease_store = "string \<rightharpoonup> order_recovery_lease"

definition new_lease_store :: lease_store where
  "new_lease_store = Map.empty"

text \<open>\<open>clock\<close> is the wall clock, read only when a request carries no time.\<close>

definition acquire_lease ::
    "gtime \<Rightarrow> order_recovery_lease_request \<Rightarrow> lease_store \<Rightarrow> (order_recovery_lease \<times> err) \<times> lease_store" where
  "acquire_lease clock q st =
     (let orderID = trim_space (lq_order_id q);
          account = trim_space (lq_execution_account_id q);
          holder = trim_space (lq_holder q) in
      if orderID = [] \<or> account = [] \<or> holder = []
      then ((zero_lease, Some (ErrText ''order id, execution account id, and holder are required'')), st)
      else if lq_ttl q \<le> 0 then ((zero_lease, Some (ErrText ''order recovery lease ttl must be positive'')), st)
      else
        (let now = (if is_zero_time (lq_now q) then clock else lq_now q);
             refusal = (case st orderID of
                 None \<Rightarrow> None
               | Some current \<Rightarrow>
                   if lease_held_at current now holder then Some ErrOrderRecoveryLeaseHeld
                   else if rl_execution_account_id current \<noteq> account \<or> lq_order_revision q < rl_order_revision current
                   then Some ErrOrderRecoveryStaleView
                   else if \<not> retry_due_at current now then Some ErrOrderRecoveryBackoff
                   else None);
             current = (case st orderID of
                 None \<Rightarrow> zero_lease\<lparr>rl_order_id := orderID, rl_execution_account_id := account\<rparr>
               | Some current \<Rightarrow> current) in
         case refusal of
           Some e \<Rightarrow> ((current, Some (ErrSentinel e)), st)
         | None \<Rightarrow>
             (let lease = current\<lparr>rl_holder := holder, rl_order_revision := lq_order_revision q, rl_acquired_at := Some now,
                    rl_expires_at := Some (now + lq_ttl q), rl_updated_at := now\<rparr>
              in ((lease, None), st(orderID \<mapsto> lease)))))"

definition released_lease :: "gtime \<Rightarrow> order_recovery_release \<Rightarrow> order_recovery_lease \<Rightarrow> order_recovery_lease" where
  "released_lease now rel current = current\<lparr>
     rl_holder := [], rl_acquired_at := None, rl_expires_at := None,
     rl_attempts := (if lr_kind rel = OrderRecoveryOutcomeFailed then rl_attempts current + 1 else rl_attempts current),
     rl_first_pending_at := (case rl_first_pending_at current of None \<Rightarrow> Some now | Some t \<Rightarrow> Some t),
     rl_last_attempt_at := Some now,
     rl_next_retry_at := (if is_zero_time (lr_next_retry_at rel) then None else Some (lr_next_retry_at rel)),
     rl_last_error := trim_space (lr_error rel),
     rl_escalated_at := (if lr_escalate rel \<and> rl_escalated_at current = None then Some now else rl_escalated_at current),
     rl_updated_at := now\<rparr>"

definition release_lease ::
    "gtime \<Rightarrow> order_recovery_release \<Rightarrow> lease_store \<Rightarrow> (order_recovery_lease \<times> err) \<times> lease_store" where
  "release_lease clock rel st =
     (let orderID = trim_space (lr_order_id rel); holder = trim_space (lr_holder rel) in
      if orderID = [] \<or> holder = [] then ((zero_lease, Some (ErrText ''order id and holder are required'')), st)
      else
        (let now = (if is_zero_time (lr_now rel) then clock else lr_now rel) in
         case st orderID of
           None \<Rightarrow> ((zero_lease, Some (wrap_error (''order recovery lease '' @ orderID) (ErrSentinel ErrOrderNotFound))), st)
         | Some current \<Rightarrow>
             if rl_holder current \<noteq> holder then ((current, Some (ErrSentinel ErrOrderRecoveryLeaseHeld)), st)
             else (case lr_kind rel of
                 OrderRecoveryOutcomeResolved \<Rightarrow>
                   ((zero_lease\<lparr>rl_order_id := rl_order_id current, rl_execution_account_id := rl_execution_account_id current,
                       rl_order_revision := rl_order_revision current, rl_updated_at := now\<rparr>, None), st(orderID := None))
               | OrderRecoveryOutcomeOther k \<Rightarrow>
                   ((current, Some (ErrText (''unsupported order recovery outcome '' @ quoted k))), st)
               | _ \<Rightarrow> ((released_lease now rel current, None), st(orderID \<mapsto> released_lease now rel current)))))"


section \<open>The retry policy\<close>

record recovery_policy =
  rp_lease_ttl :: duration
  rp_timeout :: duration
  rp_base_backoff :: duration
  rp_max_backoff :: duration
  rp_escalate_after :: duration

definition or_default :: "duration \<Rightarrow> duration \<Rightarrow> duration" where
  "or_default value fallback = (if value = 0 then fallback else value)"

definition recovery_policy_normalize :: "recovery_policy \<Rightarrow> go_error + recovery_policy" where
  "recovery_policy_normalize p0 =
     (let p = \<lparr>rp_lease_ttl = or_default (rp_lease_ttl p0) (2 * minute), rp_timeout = or_default (rp_timeout p0) (30 * second),
            rp_base_backoff = or_default (rp_base_backoff p0) (30 * second),
            rp_max_backoff = or_default (rp_max_backoff p0) (10 * minute),
            rp_escalate_after = or_default (rp_escalate_after p0) (30 * minute)\<rparr> in
      if rp_timeout p < second then Inl (ErrText ''order recovery timeout must be at least one second'')
      else if rp_lease_ttl p \<le> rp_timeout p then Inl (ErrText ''order recovery lease ttl must exceed the per-order timeout'')
      else if rp_base_backoff p < second then Inl (ErrText ''order recovery base backoff must be at least one second'')
      else if rp_max_backoff p < rp_base_backoff p
      then Inl (ErrText ''order recovery max backoff must not be below the base backoff'')
      else if rp_escalate_after p < minute then Inl (ErrText ''order recovery escalation window must be at least one minute'')
      else Inr p)"

text \<open>\<open>time.Duration\<close> is an \<open>int64\<close>; doubling it wraps around.\<close>

definition wrap64 :: "int \<Rightarrow> int" where
  "wrap64 x = sint (word_of_int x :: 64 word)"

fun backoff_loop :: "nat \<Rightarrow> duration \<Rightarrow> duration \<Rightarrow> duration" where
  "backoff_loop 0 maxBackoff backoff = (if backoff > maxBackoff then maxBackoff else backoff)"
| "backoff_loop (Suc n) maxBackoff backoff =
     (let backoff = wrap64 (backoff * 2) in
      if backoff \<ge> maxBackoff \<or> backoff \<le> 0 then maxBackoff else backoff_loop n maxBackoff backoff)"

definition policy_backoff :: "recovery_policy \<Rightarrow> int \<Rightarrow> duration" where
  "policy_backoff p attempts0 =
     (let attempts = (if attempts0 < 1 then 1 else attempts0)
      in backoff_loop (nat (attempts - 1)) (rp_max_backoff p) (rp_base_backoff p))"


section \<open>The guard\<close>

datatype skip_reason =
  NoSkipReason | SkipReasonHeld | SkipReasonBackoff | SkipReasonStaleView | SkipReasonLeaseUnavailable

record outcome =
  oc_skipped :: bool
  oc_skip_reason :: skip_reason
  oc_lease :: order_recovery_lease
  oc_kind :: recovery_outcome_kind
  oc_timed_out :: bool
  oc_escalated :: bool
  oc_err :: err
  oc_store_err :: err

definition outcome_resolved :: "outcome \<Rightarrow> bool" where
  "outcome_resolved oc \<longleftrightarrow> \<not> oc_skipped oc \<and> oc_store_err oc = None \<and> oc_err oc = None \<and> oc_kind oc = OrderRecoveryOutcomeResolved"

definition outcome_unresolved :: "outcome \<Rightarrow> bool" where
  "outcome_unresolved oc \<longleftrightarrow> \<not> outcome_resolved oc"

definition skipped :: "skip_reason \<Rightarrow> order_recovery_lease \<Rightarrow> bool \<Rightarrow> err \<Rightarrow> outcome" where
  "skipped reason lease escalated storeErr =
     \<lparr>oc_skipped = True, oc_skip_reason = reason, oc_lease = lease, oc_kind = OrderRecoveryOutcomeOther [],
      oc_timed_out = False, oc_escalated = escalated, oc_err = None, oc_store_err = storeErr\<rparr>"

text \<open>
  The ports of the guard: the lease store, the clock, 16 random bytes in hexadecimal, and whether the context of the
  caller and the context of the attempt have ended.
\<close>

record 's guard =
  gd_acquire :: "order_recovery_lease_request \<Rightarrow> ('s, order_recovery_lease \<times> err) state"
  gd_release :: "order_recovery_release \<Rightarrow> ('s, order_recovery_lease \<times> err) state"
  gd_policy :: recovery_policy
  gd_now :: "('s, gtime) state"
  gd_nonce :: "('s, go_error + string) state"
  gd_ctx_ended :: "('s, bool) state"
  gd_work_ctx_ended :: "('s, bool) state"

definition attempt_error :: "recovery_policy \<Rightarrow> bool \<Rightarrow> err \<Rightarrow> err" where
  "attempt_error p timedOut workErr =
     (if timedOut
      then Some (wrap_error (''order recovery attempt exceeded '' @ seconds_text (nat (rp_timeout p)))
             (case workErr of None \<Rightarrow> ErrSentinel DeadlineExceeded | Some e \<Rightarrow> e))
      else workErr)"

definition final_kind :: "err \<Rightarrow> bool \<Rightarrow> recovery_outcome_kind \<Rightarrow> recovery_outcome_kind" where
  "final_kind workErr ctxEnded kind0 =
     (let kind = (if workErr \<noteq> None then OrderRecoveryOutcomeFailed else kind0);
          kind = (if ctxEnded \<and> kind = OrderRecoveryOutcomeFailed then OrderRecoveryOutcomeWaiting else kind)
      in if kind = OrderRecoveryOutcomeOther [] then OrderRecoveryOutcomeWaiting else kind)"

definition should_escalate :: "recovery_policy \<Rightarrow> order_recovery_lease \<Rightarrow> recovery_outcome_kind \<Rightarrow> gtime \<Rightarrow> bool" where
  "should_escalate p lease kind finished \<longleftrightarrow>
     kind \<noteq> OrderRecoveryOutcomeResolved \<and> (lease_escalated lease \<or> pending_since lease finished \<ge> rp_escalate_after p)"

definition next_retry :: "recovery_policy \<Rightarrow> order_recovery_lease \<Rightarrow> recovery_outcome_kind \<Rightarrow> gtime \<Rightarrow> gtime" where
  "next_retry p lease kind finished =
     (if should_escalate p lease kind finished then finished + rp_max_backoff p
      else case kind of
          OrderRecoveryOutcomeFailed \<Rightarrow> finished + policy_backoff p (rl_attempts lease + 1)
        | OrderRecoveryOutcomeWaiting \<Rightarrow> finished + rp_base_backoff p
        | _ \<Rightarrow> 0)"

definition guard_finish ::
    "'s guard \<Rightarrow> order \<Rightarrow> string \<Rightarrow> order_recovery_lease \<Rightarrow> bool \<Rightarrow> recovery_outcome_kind \<Rightarrow> err \<Rightarrow> ('s, outcome) state" where
  "guard_finish g o1 holder lease timedOut kind workErr = do {
     finished \<leftarrow> gd_now g;
     ctxEnded \<leftarrow> gd_ctx_ended g;
     (released, releaseErr) \<leftarrow> gd_release g
       \<lparr>lr_order_id = o_id o1, lr_holder = holder, lr_now = finished, lr_kind = kind,
        lr_error = (case workErr of None \<Rightarrow> [] | Some e \<Rightarrow> error_text e),
        lr_next_retry_at = (if ctxEnded then finished else next_retry (gd_policy g) lease kind finished),
        lr_escalate = should_escalate (gd_policy g) lease kind finished\<rparr>;
     State_Monad.return
       \<lparr>oc_skipped = False, oc_skip_reason = NoSkipReason, oc_lease = (if releaseErr \<noteq> None then lease else released),
        oc_kind = kind, oc_timed_out = timedOut, oc_escalated = lease_escalated released, oc_err = workErr,
        oc_store_err = releaseErr\<rparr> }"

definition guard_attempt ::
    "'s guard \<Rightarrow> order \<Rightarrow> string \<Rightarrow> order_recovery_lease \<Rightarrow> ('s, recovery_outcome_kind \<times> err) state \<Rightarrow> ('s, outcome) state" where
  "guard_attempt g o1 holder lease work = do {
     (kind0, workErr0) \<leftarrow> work;
     workEnded \<leftarrow> gd_work_ctx_ended g;
     ctxEnded \<leftarrow> (if workEnded then gd_ctx_ended g else State_Monad.return False);
     let timedOut = (workEnded \<and> \<not> ctxEnded);
     let workErr = attempt_error (gd_policy g) timedOut workErr0;
     ctxEnded2 \<leftarrow> gd_ctx_ended g;
     guard_finish g o1 holder lease timedOut (final_kind workErr ctxEnded2 kind0) workErr }"

definition guard_run ::
    "'s guard \<Rightarrow> order \<Rightarrow> string \<Rightarrow> bool \<Rightarrow> ('s, recovery_outcome_kind \<times> err) state option \<Rightarrow> ('s, outcome) state" where
  "guard_run g o1 holder0 bypass work0 =
     (case (trim_space holder0, work0) of
        ([], _) \<Rightarrow> State_Monad.return (skipped SkipReasonLeaseUnavailable zero_lease False
                     (Some (ErrText ''order recovery holder and work are required'')))
      | (_, None) \<Rightarrow> State_Monad.return (skipped SkipReasonLeaseUnavailable zero_lease False
                     (Some (ErrText ''order recovery holder and work are required'')))
      | (label, Some work) \<Rightarrow> do {
          nonce \<leftarrow> gd_nonce g;
          (case nonce of
             Inl e \<Rightarrow> State_Monad.return (skipped SkipReasonLeaseUnavailable zero_lease False (Some e))
           | Inr hex \<Rightarrow> do {
               let holder = label @ '':'' @ hex;
               now \<leftarrow> gd_now g;
               (lease, acquireErr) \<leftarrow> gd_acquire g
                 \<lparr>lq_order_id = o_id o1, lq_execution_account_id = oi_execution_account_id (o_intent o1), lq_holder = holder,
                  lq_order_revision = o_revision o1, lq_now = now, lq_ttl = rp_lease_ttl (gd_policy g), lq_bypass_backoff = bypass\<rparr>;
               if err_is acquireErr ErrOrderRecoveryLeaseHeld then State_Monad.return (skipped SkipReasonHeld lease False None)
               else if err_is acquireErr ErrOrderRecoveryBackoff
               then State_Monad.return (skipped SkipReasonBackoff lease (lease_escalated lease) None)
               else if err_is acquireErr ErrOrderRecoveryStaleView then State_Monad.return (skipped SkipReasonStaleView lease False None)
               else if acquireErr \<noteq> None then State_Monad.return (skipped SkipReasonLeaseUnavailable zero_lease False acquireErr)
               else guard_attempt g o1 holder lease work }) })"

definition new_guard :: "'s guard \<Rightarrow> go_error + 's guard" where
  "new_guard g =
     (case recovery_policy_normalize (gd_policy g) of Inl e \<Rightarrow> Inl e | Inr p \<Rightarrow> Inr (g\<lparr>gd_policy := p\<rparr>))"

text \<open>The guard over the store in memory, beside a world of its own for clock, randomness and contexts.\<close>

definition with_store :: "(lease_store \<Rightarrow> 'a \<times> lease_store) \<Rightarrow> (lease_store \<times> 'w, 'a) state" where
  "with_store f = State (\<lambda>(st, w). case f st of (x, st') \<Rightarrow> (x, (st', w)))"

definition beside_store :: "('w, 'a) state \<Rightarrow> (lease_store \<times> 'w, 'a) state" where
  "beside_store m = State (\<lambda>(st, w). case run_state m w of (x, w') \<Rightarrow> (x, (st, w')))"

record 'w guard_env =
  ge_now :: "('w, gtime) state"
  ge_nonce :: "('w, go_error + string) state"
  ge_ctx_ended :: "('w, bool) state"
  ge_work_ctx_ended :: "('w, bool) state"

definition memory_guard :: "recovery_policy \<Rightarrow> gtime \<Rightarrow> 'w guard_env \<Rightarrow> (lease_store \<times> 'w) guard" where
  "memory_guard p clock ge =
     \<lparr>gd_acquire = (\<lambda>q. with_store (acquire_lease clock q)), gd_release = (\<lambda>rel. with_store (release_lease clock rel)),
      gd_policy = p, gd_now = beside_store (ge_now ge), gd_nonce = beside_store (ge_nonce ge),
      gd_ctx_ended = beside_store (ge_ctx_ended ge), gd_work_ctx_ended = beside_store (ge_work_ctx_ended ge)\<rparr>"


section \<open>Backoff\<close>

lemma wrap64_eq: "wrap64 x = (x + 2 ^ 63) mod 2 ^ 64 - 2 ^ 63"
  by (simp add: wrap64_def sint_sbintrunc' signed_take_bit_eq_take_bit_shift take_bit_eq_mod)

lemma wrap64_small: "0 \<le> x \<Longrightarrow> x < 2 ^ 63 \<Longrightarrow> wrap64 x = x"
  by (simp add: wrap64_eq)

lemma wrap64_big: "2 ^ 63 \<le> x \<Longrightarrow> x < 2 ^ 64 \<Longrightarrow> wrap64 x \<le> 0"
proof -
  assume x: "2 ^ 63 \<le> x" "x < 2 ^ 64"
  then have "(x + 2 ^ 63) mod 2 ^ 64 = x + 2 ^ 63 - 2 ^ 64"
    using mod_pos_pos_trivial [of "x + 2 ^ 63 - 2 ^ 64" "2 ^ 64"] minus_mod_self2 [of "x + 2 ^ 63" "2 ^ 64"] by simp
  with x show ?thesis by (simp add: wrap64_eq)
qed

lemma backoff_loop_min:
  "0 < b \<Longrightarrow> b \<le> m \<Longrightarrow> m < 2 ^ 63 \<Longrightarrow> backoff_loop n m b = min m (b * 2 ^ n)"
proof (induction n arbitrary: b)
  case (Suc n)
  have two: "b * 2 \<le> b * 2 ^ Suc n" using Suc.prems(1) by simp
  show ?case
  proof (cases "b * 2 < 2 ^ 63")
    case True
    then have w: "wrap64 (b * 2) = b * 2" using Suc.prems(1) by (simp add: wrap64_small)
    show ?thesis
    proof (cases "m \<le> b * 2")
      case True
      with two w show ?thesis by (simp add: min_def)
    next
      case False
      then show ?thesis using Suc.IH [of "b * 2"] Suc.prems w by (simp add: Let_def mult.assoc)
    qed
  next
    case False
    then have "wrap64 (b * 2) \<le> 0" using Suc.prems by (intro wrap64_big) auto
    moreover have "m \<le> b * 2 ^ Suc n" using two False Suc.prems(3) by linarith
    ultimately show ?thesis by (simp add: min_def)
  qed
qed (simp add: min_def)

lemma policy_normalized:
  assumes "recovery_policy_normalize p0 = Inr p"
  shows "second \<le> rp_timeout p" "rp_timeout p < rp_lease_ttl p" "second \<le> rp_base_backoff p"
    "rp_base_backoff p \<le> rp_max_backoff p" "minute \<le> rp_escalate_after p"
  using assms by (auto simp: recovery_policy_normalize_def Let_def split: if_splits)

text \<open>
  C38. The retry schedule is capped doubling, overflow included: with a normalised policy whose maximum is a Go duration,
  the wait before the \<open>n\<close>-th retry is \<open>min max (base * 2 ^ (n - 1))\<close>, although the loop doubles a 64-bit integer that may
  wrap around. It is therefore never below the base and never above the maximum.
\<close>

theorem backoff_is_capped_doubling:
  assumes "recovery_policy_normalize p0 = Inr p" and "rp_max_backoff p < 2 ^ 63" and "1 \<le> n"
  shows "policy_backoff p n = min (rp_max_backoff p) (rp_base_backoff p * 2 ^ nat (n - 1)) \<and>
    rp_base_backoff p \<le> policy_backoff p n \<and> policy_backoff p n \<le> rp_max_backoff p"
proof -
  note v = policy_normalized [OF assms(1)]
  then have "0 < rp_base_backoff p" by (simp add: duration_defs)
  with backoff_loop_min [OF this v(4) assms(2), of "nat (n - 1)"] assms(3) v(4) show ?thesis
    by (simp add: policy_backoff_def mult_le_cancel_left1)
qed

definition huge_policy :: recovery_policy where
  "huge_policy = \<lparr>rp_lease_ttl = 0, rp_timeout = 0, rp_base_backoff = 2 ^ 61, rp_max_backoff = 2 ^ 63 - 1, rp_escalate_after = 0\<rparr>"

theorem backoff_is_capped_doubling_witness:
  "\<exists>p. recovery_policy_normalize huge_policy = Inr p \<and> wrap64 (rp_base_backoff p * 2 * 2) < 0 \<and> policy_backoff p 3 = 2 ^ 63 - 1"
proof -
  let ?p = "\<lparr>rp_lease_ttl = 2 * minute, rp_timeout = 30 * second, rp_base_backoff = 2 ^ 61, rp_max_backoff = 2 ^ 63 - 1, rp_escalate_after = 30 * minute\<rparr>"
  have n: "recovery_policy_normalize huge_policy = Inr ?p"
    by (simp add: recovery_policy_normalize_def huge_policy_def or_default_def duration_defs)
  have "wrap64 (rp_base_backoff ?p * 2 * 2) < 0" by (simp add: wrap64_eq)
  moreover have "policy_backoff ?p 3 = 2 ^ 63 - 1"
    using backoff_is_capped_doubling [OF n, of 3] by (simp add: min_def)
  ultimately show ?thesis using n by blast
qed


section \<open>Exclusion\<close>

datatype lease_op = Acquire order_recovery_lease_request | Release order_recovery_release

definition request_time :: "gtime \<Rightarrow> order_recovery_lease_request \<Rightarrow> gtime" where
  "request_time clock q = (if is_zero_time (lq_now q) then clock else lq_now q)"

definition lease_perform ::
    "(order_recovery_lease_request \<Rightarrow> 's \<Rightarrow> (order_recovery_lease \<times> err) \<times> 's) \<Rightarrow>
     (order_recovery_release \<Rightarrow> 's \<Rightarrow> (order_recovery_lease \<times> err) \<times> 's) \<Rightarrow> lease_op \<Rightarrow> 's \<Rightarrow> (order_recovery_lease \<times> err) \<times> 's" where
  "lease_perform acquire release op = (case op of Acquire q \<Rightarrow> acquire q | Release rel \<Rightarrow> release rel)"

fun run_ops :: "('op \<Rightarrow> 's \<Rightarrow> 'a \<times> 's) \<Rightarrow> 'op list \<Rightarrow> 's \<Rightarrow> 'a list \<times> 's" where
  "run_ops step [] s = ([], s)"
| "run_ops step (op # ops) s = (let (x, s') = step op s; (xs, s'') = run_ops step ops s' in (x # xs, s''))"

text \<open>An operation of another worker: a request before the expiry, or a release under another holder.\<close>

definition intruding :: "(order_recovery_lease_request \<Rightarrow> gtime) \<Rightarrow> string \<Rightarrow> string \<Rightarrow> gtime \<Rightarrow> lease_op \<Rightarrow> bool" where
  "intruding time_of k holder t op = (case op of
      Acquire q \<Rightarrow> trim_space (lq_order_id q) = k \<longrightarrow> time_of q < t
    | Release rel \<Rightarrow> trim_space (lr_order_id rel) = k \<longrightarrow> trim_space (lr_holder rel) \<noteq> holder)"

text \<open>
  What a lease store promises its workers: the lease of an order, once held and not yet expired, withstands every request
  of another worker and every release by another holder, and operations on other orders leave it alone.
\<close>

locale lease_manager =
  fixes acquire :: "order_recovery_lease_request \<Rightarrow> 's \<Rightarrow> (order_recovery_lease \<times> err) \<times> 's"
    and release :: "order_recovery_release \<Rightarrow> 's \<Rightarrow> (order_recovery_lease \<times> err) \<times> 's"
    and lease_of :: "'s \<Rightarrow> string \<Rightarrow> order_recovery_lease option"
    and time_of :: "order_recovery_lease_request \<Rightarrow> gtime"
  assumes acquire_other: "trim_space (lq_order_id q) \<noteq> k \<Longrightarrow> lease_of (snd (acquire q s)) k = lease_of s k"
    and acquire_held: "lease_of s (trim_space (lq_order_id q)) = Some l \<Longrightarrow> trim_space (rl_holder l) \<noteq> [] \<Longrightarrow>
      rl_expires_at l = Some t \<Longrightarrow> time_of q < t \<Longrightarrow> acquire q s = (x, s') \<Longrightarrow> s' = s \<and> snd x \<noteq> None"
    and release_other: "trim_space (lr_order_id rel) \<noteq> k \<Longrightarrow> lease_of (snd (release rel s)) k = lease_of s k"
    and release_foreign: "lease_of s (trim_space (lr_order_id rel)) = Some l \<Longrightarrow> trim_space (lr_holder rel) \<noteq> rl_holder l \<Longrightarrow>
      release rel s = (x, s') \<Longrightarrow> s' = s"
begin

lemma perform_held:
  assumes "lease_of s k = Some l" "trim_space (rl_holder l) \<noteq> []" "rl_expires_at l = Some t" "intruding time_of k (rl_holder l) t op"
  shows "lease_of (snd (lease_perform acquire release op s)) k = Some l"
    "op = Acquire q \<Longrightarrow> trim_space (lq_order_id q) = k \<Longrightarrow> snd (fst (lease_perform acquire release op s)) \<noteq> None"
proof -
  show "lease_of (snd (lease_perform acquire release op s)) k = Some l"
  proof (cases op)
    case (Acquire q)
    then show ?thesis using assms acquire_other [of q k s] acquire_held [of s q l t]
      by (cases "trim_space (lq_order_id q) = k"; cases "acquire q s") (auto simp: lease_perform_def intruding_def)
  next
    case (Release rel)
    then show ?thesis using assms release_other [of rel k s] release_foreign [of s rel l]
      by (cases "trim_space (lr_order_id rel) = k"; cases "release rel s") (auto simp: lease_perform_def intruding_def)
  qed
  show "op = Acquire q \<Longrightarrow> trim_space (lq_order_id q) = k \<Longrightarrow> snd (fst (lease_perform acquire release op s)) \<noteq> None"
    using assms acquire_held [of s q l t] by (cases "acquire q s") (auto simp: lease_perform_def intruding_def)
qed

lemma run_held:
  assumes "lease_of s k = Some l" "trim_space (rl_holder l) \<noteq> []" "rl_expires_at l = Some t"
    and "\<forall>op \<in> set ops. intruding time_of k (rl_holder l) t op"
    and "run_ops (lease_perform acquire release) ops s = (answers, s')"
  shows "lease_of s' k = Some l \<and>
    list_all2 (\<lambda>op x. \<forall>q. op = Acquire q \<and> trim_space (lq_order_id q) = k \<longrightarrow> snd x \<noteq> None) ops answers"
  using assms(1,4,5)
proof (induction ops arbitrary: s answers)
  case (Cons op ops)
  obtain x s1 where x: "lease_perform acquire release op s = (x, s1)" by (metis surj_pair)
  obtain xs s2 where xs: "run_ops (lease_perform acquire release) ops s1 = (xs, s2)" by (metis surj_pair)
  have a: "answers = x # xs" "s' = s2" using Cons.prems(3) x xs by auto
  have op: "intruding time_of k (rl_holder l) t op" using Cons.prems(2) by simp
  note h = perform_held [OF Cons.prems(1) assms(2,3) op, unfolded x, simplified]
  from Cons.IH [OF h(1) _ xs [folded a(2)]] Cons.prems(2) a h(2) show ?case by auto
qed simp

end

lemma acquire_other_order:
  "trim_space (lq_order_id q) \<noteq> k \<Longrightarrow> snd (acquire_lease clock q st) k = st k"
  by (auto simp: acquire_lease_def Let_def split: option.split)

lemma release_other_order: "trim_space (lr_order_id rel) \<noteq> k \<Longrightarrow> snd (release_lease clock rel st) k = st k"
  by (auto simp: release_lease_def Let_def split: option.split recovery_outcome_kind.split)

lemma acquire_held_lease:
  assumes "st (trim_space (lq_order_id q)) = Some l" "trim_space (rl_holder l) \<noteq> []" "rl_expires_at l = Some t"
    "request_time clock q < t" "acquire_lease clock q st = (x, st')"
  shows "st' = st \<and> snd x \<noteq> None"
proof -
  have "lease_held_at l (request_time clock q) h" for h using assms by (simp add: lease_held_at_def)
  then show ?thesis using assms(1,5)
    by (auto simp: acquire_lease_def Let_def request_time_def split: if_splits)
qed

interpretation mem_leases: lease_manager "acquire_lease clock" "release_lease clock" "\<lambda>st. st" "request_time clock" for clock
proof unfold_locales
  fix q k and s :: lease_store
  show "trim_space (lq_order_id q) \<noteq> k \<Longrightarrow> snd (acquire_lease clock q s) k = s k" by (rule acquire_other_order)
next
  fix rel k and s :: lease_store
  show "trim_space (lr_order_id rel) \<noteq> k \<Longrightarrow> snd (release_lease clock rel s) k = s k" by (rule release_other_order)
next
  fix rel l x and s s' :: lease_store
  show "s (trim_space (lr_order_id rel)) = Some l \<Longrightarrow> trim_space (lr_holder rel) \<noteq> rl_holder l \<Longrightarrow>
      release_lease clock rel s = (x, s') \<Longrightarrow> s' = s"
    by (auto simp: release_lease_def Let_def split: if_splits)
qed (rule acquire_held_lease)


lemma acquire_success:
  assumes "acquire_lease clock q st = ((l, None), st')"
  shows "st' = st(trim_space (lq_order_id q) \<mapsto> l)" "rl_holder l = trim_space (lq_holder q)" "trim_space (lq_holder q) \<noteq> []"
    "rl_expires_at l = Some (request_time clock q + lq_ttl q)" "0 < lq_ttl q" "rl_order_revision l = lq_order_revision q"
    "trim_space (lq_order_id q) \<noteq> []"
  using assms by (auto simp: acquire_lease_def Let_def request_time_def split: if_splits option.splits)

lemma acquire_keeps:
  assumes "acquire_lease clock q st = ((l, None), st')"
  shows "rl_attempts l = (case st (trim_space (lq_order_id q)) of None \<Rightarrow> 0 | Some x \<Rightarrow> rl_attempts x)"
    "rl_execution_account_id l = (case st (trim_space (lq_order_id q)) of
       None \<Rightarrow> trim_space (lq_execution_account_id q) | Some x \<Rightarrow> rl_execution_account_id x)"
  using assms by (auto simp: acquire_lease_def Let_def zero_lease_def split: if_splits option.splits)

lemma acquire_account: "acquire_lease clock q st = ((l, None), st') \<Longrightarrow> trim_space (lq_execution_account_id q) \<noteq> []"
  by (auto simp: acquire_lease_def Let_def split: if_splits)

text \<open>
  C27. At most one worker recovers an order: once a request has been granted, every sequence of requests and releases by
  other holders, in any order and for any orders, leaves the lease in place and is refused the order, as long as the
  requests are made before the lease expires.
\<close>

theorem lease_excludes_other_workers:
  assumes "acquire_lease clock q st = ((l, None), st1)"
    and "\<forall>op \<in> set ops. intruding (request_time clock) (trim_space (lq_order_id q)) (trim_space (lq_holder q))
           (request_time clock q + lq_ttl q) op"
    and "run_ops (lease_perform (acquire_lease clock) (release_lease clock)) ops st1 = (answers, st2)"
  shows "st2 (trim_space (lq_order_id q)) = Some l \<and>
    list_all2 (\<lambda>op x. \<forall>q2. op = Acquire q2 \<and> trim_space (lq_order_id q2) = trim_space (lq_order_id q) \<longrightarrow> snd x \<noteq> None) ops answers"
proof (rule mem_leases.run_held [OF _ _ _ _ assms(3)])
  note a = acquire_success [OF assms(1)]
  show "st1 (trim_space (lq_order_id q)) = Some l" by (simp add: a(1))
  show "trim_space (rl_holder l) \<noteq> []" using a(2,3) by simp
  show "rl_expires_at l = Some (request_time clock q + lq_ttl q)" by (rule a(4))
  show "\<forall>op \<in> set ops. intruding (request_time clock) (trim_space (lq_order_id q)) (rl_holder l) (request_time clock q + lq_ttl q) op"
    using assms(2) a(2) by simp
qed

definition sample_request :: "string \<Rightarrow> gtime \<Rightarrow> order_recovery_lease_request" where
  "sample_request holder now = \<lparr>lq_order_id = ''o1'', lq_execution_account_id = ''w1'', lq_holder = holder, lq_order_revision = 3,
     lq_now = now, lq_ttl = 100, lq_bypass_backoff = False\<rparr>"

definition sample_release :: "string \<Rightarrow> order_recovery_release" where
  "sample_release holder = \<lparr>lr_order_id = ''o1'', lr_holder = holder, lr_now = 30, lr_kind = OrderRecoveryOutcomeResolved,
     lr_error = [], lr_next_retry_at = 0, lr_escalate = False\<rparr>"

theorem lease_excludes_other_workers_witness:
  "\<exists>answers st2. run_ops (lease_perform (acquire_lease 7) (release_lease 7))
      [Acquire (sample_request ''b'' 50), Release (sample_release ''b'')]
      (snd (acquire_lease 7 (sample_request ''a'' 10) new_lease_store)) = (answers, st2) \<and>
    snd (hd answers) \<noteq> None \<and> map_option rl_holder (st2 ''o1'') = Some ''a''"
proof -
  let ?q = "sample_request ''a'' 10" and ?ops = "[Acquire (sample_request ''b'' 50), Release (sample_release ''b'')]"
  obtain l e st1 where a: "acquire_lease 7 ?q new_lease_store = ((l, e), st1)" by (metis prod.collapse)
  have "snd (fst (acquire_lease 7 ?q new_lease_store)) = None" "rl_holder (fst (fst (acquire_lease 7 ?q new_lease_store))) = ''a''"
    by code_simp+
  with a have e: "e = None" and h: "rl_holder l = ''a''" by auto
  have t: "trim_space ''o1'' = ''o1''" "trim_space ''a'' = ''a''" "trim_space ''b'' = ''b''" by code_simp+
  have ops: "\<forall>op \<in> set ?ops. intruding (request_time 7) (trim_space (lq_order_id ?q)) (trim_space (lq_holder ?q)) (request_time 7 ?q + lq_ttl ?q) op"
    by (simp add: intruding_def sample_request_def sample_release_def request_time_def is_zero_time_def t)
  obtain answers st2 where r: "run_ops (lease_perform (acquire_lease 7) (release_lease 7)) ?ops st1 = (answers, st2)" by force
  from lease_excludes_other_workers [OF a [unfolded e] ops r] h
  have "st2 ''o1'' = Some l" "\<exists>x xs. answers = x # xs \<and> snd x \<noteq> None"
    by (auto simp: sample_request_def t list_all2_Cons1)
  with r h a show ?thesis by auto
qed


section \<open>Progress\<close>

lemma acquire_when_due:
  assumes "st (trim_space (lq_order_id q)) = Some l" "rl_execution_account_id l = trim_space (lq_execution_account_id q)"
    and "trim_space (lq_order_id q) \<noteq> []" "trim_space (lq_execution_account_id q) \<noteq> []" "trim_space (lq_holder q) \<noteq> []" "0 < lq_ttl q"
    and "rl_order_revision l \<le> lq_order_revision q" "rl_holder l = []" "\<forall>t. rl_next_retry_at l = Some t \<longrightarrow> t \<le> request_time clock q"
  shows "snd (fst (acquire_lease clock q st)) = None"
  using assms by (auto simp: acquire_lease_def Let_def lease_held_at_def retry_due_at_def request_time_def split: option.splits)

lemma wp_beside: "(\<And>x w'. run_state m w = (x, w') \<Longrightarrow> Q x (st, w')) \<Longrightarrow> wp (beside_store m) Q (st, w)"
  by (simp add: wp_def beside_store_def split: prod.split)

lemma wp_with_store: "(\<And>x st'. f st = (x, st') \<Longrightarrow> Q x (st', w)) \<Longrightarrow> wp (with_store f) Q (st, w)"
  by (simp add: wp_def with_store_def split: prod.split)

lemma memory_guard_fields [simp]:
  "gd_acquire (memory_guard p clock ge) q = with_store (acquire_lease clock q)"
  "gd_release (memory_guard p clock ge) rel = with_store (release_lease clock rel)"
  "gd_policy (memory_guard p clock ge) = p" "gd_now (memory_guard p clock ge) = beside_store (ge_now ge)"
  "gd_nonce (memory_guard p clock ge) = beside_store (ge_nonce ge)"
  "gd_ctx_ended (memory_guard p clock ge) = beside_store (ge_ctx_ended ge)"
  "gd_work_ctx_ended (memory_guard p clock ge) = beside_store (ge_work_ctx_ended ge)"
  by (simp_all add: memory_guard_def)

text \<open>The release that ends an attempt.\<close>

definition ends_with ::
    "recovery_policy \<Rightarrow> gtime \<Rightarrow> order \<Rightarrow> string \<Rightarrow> order_recovery_lease \<Rightarrow> lease_store \<Rightarrow> outcome \<Rightarrow> lease_store \<Rightarrow> bool" where
  "ends_with p clock o1 holder lease st oc st' \<longleftrightarrow>
     (\<exists>finished ctxEnded msg released.
        release_lease clock \<lparr>lr_order_id = o_id o1, lr_holder = holder, lr_now = finished, lr_kind = oc_kind oc, lr_error = msg,
          lr_next_retry_at = (if ctxEnded then finished else next_retry p lease (oc_kind oc) finished),
          lr_escalate = should_escalate p lease (oc_kind oc) finished\<rparr> st = ((released, oc_store_err oc), st'))"

lemma ends_withI:
  "release_lease clock \<lparr>lr_order_id = o_id o1, lr_holder = holder, lr_now = finished, lr_kind = oc_kind oc, lr_error = msg,
     lr_next_retry_at = (if ctxEnded then finished else next_retry p lease (oc_kind oc) finished),
     lr_escalate = should_escalate p lease (oc_kind oc) finished\<rparr> st = ((released, oc_store_err oc), st') \<Longrightarrow>
   ends_with p clock o1 holder lease st oc st'"
  unfolding ends_with_def by blast

lemma wp_guard_finish:
  "wp (guard_finish (memory_guard p clock ge) o1 holder lease timedOut kind workErr)
     (\<lambda>oc (st', w'). \<not> oc_skipped oc \<and> oc_kind oc = kind \<and> ends_with p clock o1 holder lease st oc st') (st, w)"
  unfolding guard_finish_def memory_guard_fields
  apply (intro wp_rules wp_beside wp_with_store)
  subgoal for finished w1 ctxEnded w2 x st' released releaseErr
    unfolding prod.case
    by (intro conjI ends_withI [where finished = finished and ctxEnded = ctxEnded and released = released
          and msg = "case workErr of None \<Rightarrow> [] | Some e \<Rightarrow> error_text e"]) (simp_all split del: if_split cong: if_cong)
  done

lemma wp_guard_attempt:
  "wp (guard_attempt (memory_guard p clock ge) o1 holder lease (beside_store work))
     (\<lambda>oc (st', w'). \<not> oc_skipped oc \<and> ends_with p clock o1 holder lease st oc st') (st, w)"
  unfolding guard_attempt_def memory_guard_fields
  by (intro wp_rules wp_beside wp_mono [OF wp_guard_finish]) auto

text \<open>One run of the guard: it is skipped and leaves the store alone, or it acquires, works and releases.\<close>

definition guarded ::
    "recovery_policy \<Rightarrow> gtime \<Rightarrow> order \<Rightarrow> lease_store \<Rightarrow> outcome \<Rightarrow> lease_store \<Rightarrow> bool" where
  "guarded p clock o1 st oc st' \<longleftrightarrow>
     (if oc_skipped oc then st' = st
      else \<exists>q lease st1. acquire_lease clock q st = ((lease, None), st1) \<and> lq_order_id q = o_id o1 \<and>
        lq_execution_account_id q = oi_execution_account_id (o_intent o1) \<and> ends_with p clock o1 (lq_holder q) lease st1 oc st')"

lemma guarded_skipped [simp]: "guarded p clock o1 st (skipped r l b e) st' \<longleftrightarrow> st' = st"
  by (simp add: guarded_def skipped_def)

lemma acquire_refused:
  "acquire_lease clock q st = ((l, Some e), st') \<Longrightarrow> st' = st"
  "acquire_lease clock q st = ((l, x), st') \<Longrightarrow> err_is x c \<Longrightarrow> st' = st"
  by (auto simp: acquire_lease_def Let_def split: if_splits option.splits)

lemma guarded_attempt:
  assumes "acquire_lease clock q st = ((lease, None), st1)" "lq_order_id q = o_id o1"
    "lq_execution_account_id q = oi_execution_account_id (o_intent o1)" "lq_holder q = holder"
  shows "wp (guard_attempt (memory_guard p clock ge) o1 holder lease (beside_store work)) (\<lambda>oc (st', w'). guarded p clock o1 st oc st') (st1, w)"
proof (rule wp_mono [OF wp_guard_attempt], clarify)
  fix oc st' w'
  assume "\<not> oc_skipped oc" "ends_with p clock o1 holder lease st1 oc st'"
  then show "guarded p clock o1 st oc st'" unfolding guarded_def using assms by auto
qed

lemma wp_guard_run:
  "wp (guard_run (memory_guard p clock ge) o1 h bypass (Some (beside_store work))) (\<lambda>oc (st', w'). guarded p clock o1 st oc st') (st, w)"
proof (cases "trim_space h")
  case (Cons c label)
  show ?thesis
    unfolding guard_run_def memory_guard_fields Cons
    apply (simp only: prod.case list.case option.case)
    apply (intro wp_rules wp_beside wp_with_store)
    by (auto dest: acquire_refused intro: guarded_attempt)
qed (simp add: guard_run_def wp_return)


lemma release_pending:
  assumes "release_lease clock rel st = ((l, None), st')" "st (trim_space (lr_order_id rel)) = Some current"
    "lr_kind rel \<noteq> OrderRecoveryOutcomeResolved"
  shows "l = released_lease (if is_zero_time (lr_now rel) then clock else lr_now rel) rel current"
    "st' = st(trim_space (lr_order_id rel) \<mapsto> l)"
  using assms by (auto simp: release_lease_def Let_def split: if_splits recovery_outcome_kind.splits)

lemma next_retry_bound:
  assumes "recovery_policy_normalize p0 = Inr p" "rp_max_backoff p < 2 ^ 63" "0 \<le> rl_attempts lease"
  shows "next_retry p lease kind finished = 0 \<or> next_retry p lease kind finished \<le> finished + rp_max_backoff p"
proof -
  note v = policy_normalized [OF assms(1)]
  have "0 < rp_base_backoff p" using v(3) by (simp add: duration_defs)
  then have "policy_backoff p (rl_attempts lease + 1) \<le> rp_max_backoff p"
    using backoff_loop_min [OF _ v(4) assms(2)] assms(3) by (simp add: policy_backoff_def)
  then show ?thesis using v(4) by (auto simp: next_retry_def split: recovery_outcome_kind.split)
qed

text \<open>The lease an unresolved attempt releases: who may acquire it again, and when.\<close>

definition reacquirable :: "recovery_policy \<Rightarrow> gtime \<Rightarrow> order \<Rightarrow> lease_store \<Rightarrow> order_recovery_lease \<Rightarrow> bool" where
  "reacquirable p clock o1 st l \<longleftrightarrow>
     (\<forall>q. lq_order_id q = o_id o1 \<and> lq_execution_account_id q = oi_execution_account_id (o_intent o1) \<and>
        trim_space (lq_holder q) \<noteq> [] \<and> 0 < lq_ttl q \<and> rl_order_revision l \<le> lq_order_revision q \<and>
        rl_updated_at l + rp_max_backoff p \<le> request_time clock q \<longrightarrow>
        snd (fst (acquire_lease clock q st)) = None)"

lemma pending_release_due:
  assumes p: "recovery_policy_normalize p0 = Inr p" "rp_max_backoff p < 2 ^ 63" "0 \<le> clock"
    and q: "acquire_lease clock q st = ((lease, None), st1)" "lq_order_id q = o_id o1"
      "lq_execution_account_id q = oi_execution_account_id (o_intent o1)" "ends_with p clock o1 (lq_holder q) lease st1 oc st'"
    and st: "\<forall>l. st (trim_space (o_id o1)) = Some l \<longrightarrow> 0 \<le> rl_attempts l \<and>
           rl_execution_account_id l = trim_space (oi_execution_account_id (o_intent o1))"
    and ok: "oc_store_err oc = None \<and> oc_kind oc \<noteq> OrderRecoveryOutcomeResolved"
  shows "\<exists>l. st' (trim_space (o_id o1)) = Some l \<and> rl_holder l = [] \<and> reacquirable p clock o1 st' l"
proof -
  let ?k = "trim_space (o_id o1)"
  note a = acquire_success [OF q(1), unfolded q(2)] acquire_keeps [OF q(1), unfolded q(2,3)]
  obtain finished ctxEnded msg l where l: "release_lease clock \<lparr>lr_order_id = o_id o1, lr_holder = lq_holder q, lr_now = finished,
      lr_kind = oc_kind oc, lr_error = msg,
      lr_next_retry_at = (if ctxEnded then finished else next_retry p lease (oc_kind oc) finished),
      lr_escalate = should_escalate p lease (oc_kind oc) finished\<rparr> st1 = ((l, None), st')"
    using q(4) ok unfolding ends_with_def by auto
  let ?next = "if ctxEnded then finished else next_retry p lease (oc_kind oc) finished"
  have s1: "st1 ?k = Some lease" by (simp add: a(1))
  note r = release_pending [OF l, simplified, OF s1 conjunct2 [OF ok]]
  have l_fields: "rl_holder l = []" "rl_execution_account_id l = rl_execution_account_id lease"
    "rl_next_retry_at l = (if is_zero_time ?next then None else Some ?next)"
    "rl_updated_at l = (if is_zero_time finished then clock else finished)"
    by (simp_all add: r(1) released_lease_def)
  have attempts: "0 \<le> rl_attempts lease" and account: "rl_execution_account_id lease = trim_space (oi_execution_account_id (o_intent o1))"
    using a(8,9) st by (auto split: option.splits)
  have bound: "t \<le> rl_updated_at l + rp_max_backoff p" if "rl_next_retry_at l = Some t" for t
    using next_retry_bound [OF p(1,2) attempts, of "oc_kind oc" finished] policy_normalized(3,4) [OF p(1)] that p(3)
    by (auto simp: l_fields is_zero_time_def duration_defs split: if_splits)
  have "reacquirable p clock o1 st' l"
    unfolding reacquirable_def
    by (intro allI impI, rule acquire_when_due [of st' _ l])
      (use a(7) acquire_account [OF q(1)] q(3) bound l_fields(1,2) r(2) in \<open>auto simp: account intro: order_trans\<close>)
  then show ?thesis using r(2) l_fields(1) by auto
qed

text \<open>
  C28. Recovery makes progress: after an attempt of the guard that ended without resolving the order, its lease is free
  again and the order is due at the latest one maximal backoff later. From then on the request of any worker that has
  seen the order at least as recently is granted. A skipped run leaves the store untouched.
\<close>

theorem recovery_retry_becomes_due:
  assumes "recovery_policy_normalize p0 = Inr p" "rp_max_backoff p < 2 ^ 63" "0 \<le> clock"
    and "run_state (guard_run (memory_guard p clock ge) o1 h bypass (Some (beside_store work))) (st, w) = (oc, (st', w'))"
    and "\<forall>l. st (trim_space (o_id o1)) = Some l \<longrightarrow> 0 \<le> rl_attempts l \<and>
           rl_execution_account_id l = trim_space (oi_execution_account_id (o_intent o1))"
  shows "if oc_skipped oc then st' = st
    else oc_store_err oc = None \<and> oc_kind oc \<noteq> OrderRecoveryOutcomeResolved \<longrightarrow>
      (\<exists>l. st' (trim_space (o_id o1)) = Some l \<and> rl_holder l = [] \<and> reacquirable p clock o1 st' l)"
proof (cases "oc_skipped oc")
  case True
  then show ?thesis using wpD [OF wp_guard_run assms(4)] by (simp add: guarded_def)
next
  case False
  then obtain q lease st1 where q: "acquire_lease clock q st = ((lease, None), st1)" "lq_order_id q = o_id o1"
    "lq_execution_account_id q = oi_execution_account_id (o_intent o1)" "ends_with p clock o1 (lq_holder q) lease st1 oc st'"
    using wpD [OF wp_guard_run assms(4)] by (auto simp: guarded_def)
  show ?thesis using pending_release_due [OF assms(1-3) q assms(5)] False by simp
qed


definition still_env :: "unit guard_env" where
  "still_env = \<lparr>ge_now = State_Monad.return 10, ge_nonce = State_Monad.return (Inr ''ab''),
     ge_ctx_ended = State_Monad.return False, ge_work_ctx_ended = State_Monad.return False\<rparr>"

definition recovered_order :: order where
  "recovered_order = zero_order\<lparr>o_id := ''o1'', o_intent := sample_intent, o_revision := 3, o_status := OrderStatusUnknown\<rparr>"

definition failed_run :: "outcome \<times> lease_store \<times> unit" where
  "failed_run = run_state (guard_run (memory_guard
       \<lparr>rp_lease_ttl = 2 * minute, rp_timeout = 30 * second, rp_base_backoff = 30 * second, rp_max_backoff = 10 * minute,
        rp_escalate_after = 30 * minute\<rparr> 7 still_env) recovered_order ''worker'' False
       (Some (beside_store (State_Monad.return (OrderRecoveryOutcomeFailed, Some (ErrText ''venue down'')))))) (new_lease_store, ())"

theorem recovery_retry_becomes_due_witness:
  "\<exists>l. fst (snd failed_run) ''o1'' = Some l \<and> rl_attempts l = 1 \<and> rl_holder l = []"
proof -
  let ?p = "\<lparr>rp_lease_ttl = 2 * minute, rp_timeout = 30 * second, rp_base_backoff = 30 * second, rp_max_backoff = 10 * minute,
        rp_escalate_after = 30 * minute\<rparr>"
  have n: "recovery_policy_normalize ?p = Inr ?p" by code_simp
  have m: "rp_max_backoff ?p < 2 ^ 63" by (simp add: duration_defs)
  have f: "\<not> oc_skipped (fst failed_run)" "oc_store_err (fst failed_run) = None" "oc_kind (fst failed_run) = OrderRecoveryOutcomeFailed"
    "map_option rl_attempts (fst (snd failed_run) ''o1'') = Some 1" by code_simp+
  have t: "trim_space (o_id recovered_order) = ''o1''" by code_simp
  have r: "run_state (guard_run (memory_guard ?p 7 still_env) recovered_order ''worker'' False
       (Some (beside_store (State_Monad.return (OrderRecoveryOutcomeFailed, Some (ErrText ''venue down''))))) ) (new_lease_store, ())
     = (fst failed_run, (fst (snd failed_run), ()))" by (simp add: failed_run_def prod_eq_iff)
  from recovery_retry_becomes_due [OF n m _ r] f(1-3)
  have "\<exists>l. fst (snd failed_run) ''o1'' = Some l \<and> rl_holder l = []"
    by (auto simp: new_lease_store_def t)
  with f(4) show ?thesis by auto
qed

end
