(* ===== verification/Order_Coordinator.thy ===== *)
theory Order_Coordinator
  imports Order_Recovery Execution_Safety
begin

text \<open>
  \<open>src/internal/service/ordercoordinator/coordinator.go\<close>: the sweep that resumes, refreshes, cancels and finalises
  pending orders, each under the order recovery lease when a guard is configured. The coordinator is written over the
  interfaces it is given (the repository listings, \<open>Execution\<close>, the guard, the clock and the context), and then
  assembled from the execution service, the repository and the lease store of this development. The theorems show which
  operation a sweep asks for which order and under which lease, that a sweep is a run of the execution service and that
  it accounts for every order it selected.
\<close>

section \<open>The coordinator\<close>

record 's execution_port =
  ex_resume :: "string \<Rightarrow> ('s, order \<times> err) state"
  ex_refresh :: "string \<Rightarrow> ('s, order \<times> err) state"
  ex_cancel :: "string \<Rightarrow> ('s, order \<times> err) state"
  ex_finalize_cancellation :: "string \<Rightarrow> ('s, order \<times> err) state"

record 's coordinator =
  co_list_pending :: "gtime \<Rightarrow> int \<Rightarrow> ('s, go_error + order list) state"
  co_list_pending_for_accounts :: "string list \<Rightarrow> gtime \<Rightarrow> int \<Rightarrow> ('s, go_error + order list) state"
  co_execution :: "'s execution_port"
  co_poll_interval :: duration
  co_batch_size :: int
  co_accounts :: "string list"
  co_now :: "('s, gtime) state"
  co_ctx_err :: "('s, err) state"
  co_recovery :: "'s guard option"
  co_recovery_holder :: string

record sweep_result =
  sw_selected :: int
  sw_resumed :: int
  sw_refreshed :: int
  sw_cancelled :: int
  sw_finalized :: int
  sw_deferred :: int
  sw_errors :: "go_error list"

datatype sweep_action =
    SweepActionNone | SweepActionResume | SweepActionRefresh | SweepActionCancel
  | SweepActionFinalizeCancellation | SweepActionDeferred

fun coordinator_accounts_loop :: "int \<Rightarrow> string list \<Rightarrow> string list \<Rightarrow> go_error + string list" where
  "coordinator_accounts_loop index acc [] = Inr acc"
| "coordinator_accounts_loop index acc (raw # rest) =
     (let accountID = trim_space raw in
      if accountID = [] then Inl (ErrText (''order coordinator active account '' @ show_int index @ '' is empty''))
      else if List.member acc accountID
      then Inl (ErrText (''order coordinator active account '' @ quoted accountID @ '' is duplicated''))
      else coordinator_accounts_loop (index + 1) (acc @ [accountID]) rest)"

definition coordinator_normalize_accounts :: "string list \<Rightarrow> go_error + string list" where
  "coordinator_normalize_accounts accountIDs =
     (case coordinator_accounts_loop 0 [] accountIDs of Inl e \<Rightarrow> Inl e | Inr result \<Rightarrow> Inr (sort result))"

definition defaultRecoveryHolder :: string where
  "defaultRecoveryHolder = ''ordercoordinator''"

text \<open>\<open>New\<close>: the record carries the raw parameters on the way in and the checked ones on the way out.\<close>

definition new_coordinator :: "'s coordinator \<Rightarrow> go_error + 's coordinator" where
  "new_coordinator p =
     (let poll = or_default (co_poll_interval p) (2 * second); batch = (if co_batch_size p = 0 then 100 else co_batch_size p) in
      if poll < 100000000 \<or> poll > minute then Inl (ErrText ''order poll interval must be between 100ms and 1m'')
      else if batch < 1 \<or> batch > 1000 then Inl (ErrText ''order coordinator batch size must be between 1 and 1000'')
      else case coordinator_normalize_accounts (co_accounts p) of
        Inl e \<Rightarrow> Inl e
      | Inr accounts \<Rightarrow>
          Inr (p\<lparr>co_poll_interval := poll, co_batch_size := batch, co_accounts := accounts,
                 co_recovery_holder := (if trim_space (co_recovery_holder p) = [] then defaultRecoveryHolder
                                        else trim_space (co_recovery_holder p))\<rparr>))"

definition cancel_due :: "order \<Rightarrow> gtime \<Rightarrow> bool" where
  "cancel_due o1 now =
     (case oi_expires_at (o_intent o1) of
        None \<Rightarrow> False
      | Some t \<Rightarrow> if now < t then False
          else o_status o1 \<in> {OrderStatusAcknowledged, OrderStatusLive, OrderStatusPartiallyFilled})"

definition ignore_revision_conflict :: "string \<Rightarrow> string \<Rightarrow> go_error \<Rightarrow> err" where
  "ignore_revision_conflict operation orderID e =
     (if errors_is e ErrOrderRevisionConflict then None
      else Some (wrap_error (operation @ '' order '' @ orderID) e))"

definition resume_order :: "'s coordinator \<Rightarrow> order \<Rightarrow> ('s, sweep_action \<times> err) state" where
  "resume_order co o1 = do {
     (_, e) \<leftarrow> ex_resume (co_execution co) (o_id o1);
     State_Monad.return (case e of
        Some x \<Rightarrow> (SweepActionNone, ignore_revision_conflict ''resume'' (o_id o1) x)
      | None \<Rightarrow> (SweepActionResume, None)) }"

definition cancel_order_work :: "'s coordinator \<Rightarrow> order \<Rightarrow> ('s, sweep_action \<times> err) state" where
  "cancel_order_work co o1 = do {
     (_, e) \<leftarrow> ex_cancel (co_execution co) (o_id o1);
     State_Monad.return (case e of
        Some x \<Rightarrow> (SweepActionNone, Some (wrap_error (''cancel expired order '' @ o_id o1) x))
      | None \<Rightarrow> (SweepActionCancel, None)) }"

definition finalize_cancellation_work :: "'s coordinator \<Rightarrow> order \<Rightarrow> ('s, sweep_action \<times> err) state" where
  "finalize_cancellation_work co o1 = do {
     (_, e) \<leftarrow> ex_finalize_cancellation (co_execution co) (o_id o1);
     State_Monad.return (case e of
        Some x \<Rightarrow> (SweepActionNone, Some (wrap_error (''finalize cancelled order '' @ o_id o1) x))
      | None \<Rightarrow> (SweepActionFinalizeCancellation, None)) }"

text \<open>The closures that the guard runs.\<close>

definition cancel_recovery :: "'s coordinator \<Rightarrow> order \<Rightarrow> ('s, recovery_outcome_kind \<times> err) state" where
  "cancel_recovery co o1 = do {
     (_, e) \<leftarrow> cancel_order_work co o1;
     State_Monad.return
       (if err_is e ErrOrderRevisionConflict then (OrderRecoveryOutcomeWaiting, None)
        else if e \<noteq> None then (OrderRecoveryOutcomeFailed, e)
        else (OrderRecoveryOutcomeWaiting, None)) }"

definition finalize_recovery :: "'s coordinator \<Rightarrow> order \<Rightarrow> ('s, recovery_outcome_kind \<times> err) state" where
  "finalize_recovery co o1 = do {
     (_, e) \<leftarrow> finalize_cancellation_work co o1;
     State_Monad.return
       (if err_is e ErrCancelFinalityPending \<or> err_is e ErrOrderRevisionConflict then (OrderRecoveryOutcomeWaiting, None)
        else if e \<noteq> None then (OrderRecoveryOutcomeFailed, e)
        else (OrderRecoveryOutcomeResolved, None)) }"

definition refresh_recovery :: "'s coordinator \<Rightarrow> order \<Rightarrow> ('s, recovery_outcome_kind \<times> err) state" where
  "refresh_recovery co o1 = do {
     (refreshed, e) \<leftarrow> ex_refresh (co_execution co) (o_id o1);
     State_Monad.return
       (if err_is e ErrOrderRevisionConflict \<or> err_is e ErrSubmitInFlight then (OrderRecoveryOutcomeWaiting, None)
        else if e \<noteq> None then (OrderRecoveryOutcomeFailed, e)
        else if is_order_recovery_status (o_status refreshed) then (OrderRecoveryOutcomeWaiting, None)
        else (OrderRecoveryOutcomeResolved, None)) }"

definition cancel_order :: "'s coordinator \<Rightarrow> order \<Rightarrow> ('s, sweep_action \<times> err) state" where
  "cancel_order co o1 =
     (case co_recovery co of
        None \<Rightarrow> cancel_order_work co o1
      | Some g \<Rightarrow> do {
          oc \<leftarrow> guard_run g o1 (co_recovery_holder co) False (Some (cancel_recovery co o1));
          State_Monad.return
            (if oc_store_err oc \<noteq> None then (SweepActionNone, oc_store_err oc)
             else if oc_skipped oc then (SweepActionDeferred, None)
             else if oc_err oc \<noteq> None then (SweepActionNone, oc_err oc)
             else (SweepActionCancel, None)) })"

definition finalize_cancellation :: "'s coordinator \<Rightarrow> order \<Rightarrow> ('s, sweep_action \<times> err) state" where
  "finalize_cancellation co o1 =
     (case co_recovery co of
        None \<Rightarrow> finalize_cancellation_work co o1
      | Some g \<Rightarrow> do {
          oc \<leftarrow> guard_run g o1 (co_recovery_holder co) False (Some (finalize_recovery co o1));
          State_Monad.return
            (if oc_store_err oc \<noteq> None then (SweepActionNone, oc_store_err oc)
             else if oc_skipped oc then (SweepActionDeferred, None)
             else if oc_err oc \<noteq> None then (SweepActionNone, oc_err oc)
             else if oc_kind oc \<noteq> OrderRecoveryOutcomeResolved then (SweepActionDeferred, None)
             else (SweepActionFinalizeCancellation, None)) })"

definition refresh_order :: "'s coordinator \<Rightarrow> order \<Rightarrow> ('s, sweep_action \<times> err) state" where
  "refresh_order co o1 =
     (case co_recovery co of
        None \<Rightarrow> do {
          (_, e) \<leftarrow> ex_refresh (co_execution co) (o_id o1);
          State_Monad.return (case e of
             Some x \<Rightarrow> if errors_is x ErrSubmitInFlight then (SweepActionDeferred, None)
                       else (SweepActionNone, ignore_revision_conflict ''refresh'' (o_id o1) x)
           | None \<Rightarrow> (SweepActionRefresh, None)) }
      | Some g \<Rightarrow> do {
          oc \<leftarrow> guard_run g o1 (co_recovery_holder co) False (Some (refresh_recovery co o1));
          let label = ''refresh order '' @ o_id o1;
          State_Monad.return
            (if oc_skipped oc \<and> oc_store_err oc \<noteq> None
             then (SweepActionNone, map_option (wrap_error (label @ '': order recovery lease unavailable'')) (oc_store_err oc))
             else if oc_skipped oc then (SweepActionDeferred, None)
             else if oc_err oc \<noteq> None then (SweepActionNone, map_option (wrap_error label) (oc_err oc))
             else if oc_store_err oc \<noteq> None
             then (SweepActionRefresh, map_option (wrap_error (label @ '': release order recovery lease'')) (oc_store_err oc))
             else (SweepActionRefresh, None)) })"

definition process_order :: "'s coordinator \<Rightarrow> order \<Rightarrow> gtime \<Rightarrow> ('s, sweep_action \<times> err) state" where
  "process_order co o1 now =
     (if cancel_due o1 now then cancel_order co o1
      else if o_status o1 \<in> {OrderStatusReceived, OrderStatusValidating, OrderStatusReserved} then resume_order co o1
      else if o_status o1 \<in> {OrderStatusSubmitting, OrderStatusAcknowledged, OrderStatusLive, OrderStatusPartiallyFilled,
                             OrderStatusUnknown, OrderStatusCancelPending, OrderStatusReconciling} then refresh_order co o1
      else if o_status o1 = OrderStatusCancelled then finalize_cancellation co o1
      else State_Monad.return (SweepActionNone, None))"

definition record_action :: "sweep_action \<Rightarrow> sweep_result \<Rightarrow> sweep_result" where
  "record_action action res = (case action of
       SweepActionNone \<Rightarrow> res
     | SweepActionResume \<Rightarrow> res\<lparr>sw_resumed := sw_resumed res + 1\<rparr>
     | SweepActionRefresh \<Rightarrow> res\<lparr>sw_refreshed := sw_refreshed res + 1\<rparr>
     | SweepActionCancel \<Rightarrow> res\<lparr>sw_cancelled := sw_cancelled res + 1\<rparr>
     | SweepActionFinalizeCancellation \<Rightarrow> res\<lparr>sw_finalized := sw_finalized res + 1\<rparr>
     | SweepActionDeferred \<Rightarrow> res\<lparr>sw_deferred := sw_deferred res + 1\<rparr>)"

definition add_error :: "go_error \<Rightarrow> sweep_result \<Rightarrow> sweep_result" where
  "add_error e res = res\<lparr>sw_errors := sw_errors res @ [e]\<rparr>"

fun sweep_loop :: "'s coordinator \<Rightarrow> gtime \<Rightarrow> order list \<Rightarrow> sweep_result \<Rightarrow> ('s, sweep_result) state" where
  "sweep_loop co now [] res = State_Monad.return res"
| "sweep_loop co now (o1 # rest) res = do {
     ctxErr \<leftarrow> co_ctx_err co;
     (case ctxErr of
        Some e \<Rightarrow> State_Monad.return (add_error e res)
      | None \<Rightarrow> do {
          (action, e) \<leftarrow> process_order co o1 now;
          sweep_loop co now rest
            (if err_is e ErrCancelFinalityPending then res
             else case e of Some x \<Rightarrow> add_error x res | None \<Rightarrow> record_action action res) }) }"

definition selected :: "int \<Rightarrow> sweep_result" where
  "selected n = \<lparr>sw_selected = n, sw_resumed = 0, sw_refreshed = 0, sw_cancelled = 0, sw_finalized = 0, sw_deferred = 0, sw_errors = []\<rparr>"

definition sweep :: "'s coordinator \<Rightarrow> ('s, sweep_result) state" where
  "sweep co = do {
     now \<leftarrow> co_now co;
     listed \<leftarrow> (if co_accounts co = [] then co_list_pending co (now - co_poll_interval co) (co_batch_size co)
       else co_list_pending_for_accounts co (co_accounts co) (now - co_poll_interval co) (co_batch_size co));
     (case listed of
        Inl e \<Rightarrow> State_Monad.return (add_error e (selected 0))
      | Inr orders \<Rightarrow> sweep_loop co now orders (selected (int (length orders)))) }"


section \<open>The coordinator of the execution service\<close>

record 'w coordinator_env =
  ce_now :: "('w, gtime) state"
  ce_ctx_err :: "('w, err) state"
  ce_guard :: "(recovery_policy \<times> gtime \<times> 'w guard_env) option"
  ce_poll_interval :: duration
  ce_batch_size :: int
  ce_accounts :: "string list"
  ce_recovery_holder :: string

definition execution_port_of :: "'w service \<Rightarrow> (lease_store \<times> 'w sys) execution_port" where
  "execution_port_of svc = \<lparr>ex_resume = (\<lambda>k. beside_store (service_resume svc k)), ex_refresh = (\<lambda>k. beside_store (service_refresh svc k)),
     ex_cancel = (\<lambda>k. beside_store (service_cancel svc k)),
     ex_finalize_cancellation = (\<lambda>k. beside_store (service_finalize_cancellation svc k))\<rparr>"

definition guard_env_of :: "'w guard_env \<Rightarrow> 'w sys guard_env" where
  "guard_env_of ge = \<lparr>ge_now = in_world (ge_now ge), ge_nonce = in_world (ge_nonce ge), ge_ctx_ended = in_world (ge_ctx_ended ge),
     ge_work_ctx_ended = in_world (ge_work_ctx_ended ge)\<rparr>"

definition coordinator_params :: "'w service \<Rightarrow> 'w coordinator_env \<Rightarrow> (lease_store \<times> 'w sys) coordinator" where
  "coordinator_params svc ce =
     \<lparr>co_list_pending = (\<lambda>before limit. beside_store (read_repo (\<lambda>r. Inr (repo_list_pending r before limit)))),
      co_list_pending_for_accounts = (\<lambda>as before limit. beside_store (read_repo (\<lambda>r. repo_list_pending_for_accounts r as before limit))),
      co_execution = execution_port_of svc, co_poll_interval = ce_poll_interval ce, co_batch_size = ce_batch_size ce,
      co_accounts = ce_accounts ce, co_now = beside_store (in_world (ce_now ce)), co_ctx_err = beside_store (in_world (ce_ctx_err ce)),
      co_recovery = map_option (\<lambda>(p, clock, ge). memory_guard p clock (guard_env_of ge)) (ce_guard ce),
      co_recovery_holder = ce_recovery_holder ce\<rparr>"


section \<open>A sweep is a run of the service\<close>

text \<open>
  What the coordinator relies on: a set of states that its execution service, its listings, its clock and its guard keep.
  Everything a sweep does then stays inside.
\<close>

locale coordinated =
  fixes R :: "'s \<Rightarrow> bool" and co :: "'s coordinator"
  assumes execution: "keeps R (ex_resume (co_execution co) k)" "keeps R (ex_refresh (co_execution co) k)"
      "keeps R (ex_cancel (co_execution co) k)" "keeps R (ex_finalize_cancellation (co_execution co) k)"
    and listing: "keeps R (co_list_pending co t n)" "keeps R (co_list_pending_for_accounts co as t n)"
    and clock: "keeps R (co_now co)" "keeps R (co_ctx_err co)"
    and guarding: "co_recovery co = Some g \<Longrightarrow> keeps R (gd_acquire g q)" "co_recovery co = Some g \<Longrightarrow> keeps R (gd_release g rel)"
      "co_recovery co = Some g \<Longrightarrow> keeps R (gd_now g)" "co_recovery co = Some g \<Longrightarrow> keeps R (gd_nonce g)"
      "co_recovery co = Some g \<Longrightarrow> keeps R (gd_ctx_ended g)" "co_recovery co = Some g \<Longrightarrow> keeps R (gd_work_ctx_ended g)"
begin

lemma keeps_guard_run:
  assumes "co_recovery co = Some g" "keeps R work"
  shows "keeps R (guard_run g o1 h b (Some work))"
  unfolding guard_run_def guard_attempt_def guard_finish_def
  by (cases "trim_space h") (simp_all only: prod.case list.case option.case,
    (intro keeps_rules guarding [OF assms(1)] assms(2))+)

lemma keeps_work:
  "keeps R (cancel_recovery co o1)" "keeps R (finalize_recovery co o1)" "keeps R (refresh_recovery co o1)"
  "keeps R (cancel_order_work co o1)" "keeps R (finalize_cancellation_work co o1)" "keeps R (resume_order co o1)"
  unfolding cancel_recovery_def finalize_recovery_def refresh_recovery_def cancel_order_work_def finalize_cancellation_work_def
    resume_order_def
  by (intro keeps_rules execution)+

lemma keeps_process_order: "keeps R (process_order co o1 now)"
proof -
  have "keeps R (cancel_order co o1)" "keeps R (finalize_cancellation co o1)" "keeps R (refresh_order co o1)"
    unfolding cancel_order_def finalize_cancellation_def refresh_order_def
    by (cases "co_recovery co"; simp only: option.case; intro keeps_rules keeps_work execution keeps_guard_run; assumption)+
  then show ?thesis unfolding process_order_def by (intro keeps_rules keeps_work)
qed

lemma keeps_sweep: "keeps R (sweep co)"
proof -
  have "keeps R (sweep_loop co now os res)" for now os res
    by (induction os arbitrary: res) (auto intro!: keeps_rules clock keeps_process_order)
  then show ?thesis unfolding sweep_def by (intro keeps_rules clock listing)
qed

end


text \<open>Runs in which the other components may also leave the repository as it is.\<close>

abbreviation service_run ::
    "'w service \<Rightarrow> (repo \<Rightarrow> bool) \<Rightarrow> (repo \<Rightarrow> repo \<Rightarrow> bool) \<Rightarrow> 'w sys \<Rightarrow> lease_store \<times> 'w sys \<Rightarrow> bool" where
  "service_run svc adm ext s0 \<equiv> \<lambda>x. service_reach svc adm (\<lambda>r r'. ext r r' \<or> r' = r) s0 (snd x)"

lemma reach_world:
  "service_reach svc adm (\<lambda>r r'. ext r r' \<or> r' = r) s0 s \<Longrightarrow>
   service_reach svc adm (\<lambda>r r'. ext r r' \<or> r' = r) s0 (s\<lparr>sys_world := w\<rparr>)"
  using service_reach.environment [of svc adm "\<lambda>r r'. ext r r' \<or> r' = r" s0 s "sys_repo s" w] by simp

lemma run_keeps:
  "keeps (service_run svc adm ext s0) (beside_store (in_world m))"
  "keeps (service_run svc adm ext s0) (beside_store (read_repo f))"
  "keeps (service_run svc adm ext s0) (with_store h)"
  "keeps (service_run svc adm ext s0) (beside_store (service_resume svc k))"
  "keeps (service_run svc adm ext s0) (beside_store (service_refresh svc k))"
  "keeps (service_run svc adm ext s0) (beside_store (service_cancel svc k))"
  "keeps (service_run svc adm ext s0) (beside_store (service_finalize_cancellation svc k))"
  by (rule keepsI; force simp: beside_store_def with_store_def in_world_def read_repo_def split: prod.splits
      intro: reach_world service_reach.intros)+

lemma coordinator_params_fields [simp]:
  "co_list_pending (coordinator_params svc ce) t n = beside_store (read_repo (\<lambda>r. Inr (repo_list_pending r t n)))"
  "co_list_pending_for_accounts (coordinator_params svc ce) as t n = beside_store (read_repo (\<lambda>r. repo_list_pending_for_accounts r as t n))"
  "co_now (coordinator_params svc ce) = beside_store (in_world (ce_now ce))"
  "co_ctx_err (coordinator_params svc ce) = beside_store (in_world (ce_ctx_err ce))"
  "ex_resume (co_execution (coordinator_params svc ce)) k = beside_store (service_resume svc k)"
  "ex_refresh (co_execution (coordinator_params svc ce)) k = beside_store (service_refresh svc k)"
  "ex_cancel (co_execution (coordinator_params svc ce)) k = beside_store (service_cancel svc k)"
  "ex_finalize_cancellation (co_execution (coordinator_params svc ce)) k = beside_store (service_finalize_cancellation svc k)"
  by (simp_all add: coordinator_params_def execution_port_of_def)

interpretation runs: coordinated "service_run svc adm ext s0" "coordinator_params svc ce" for svc adm ext s0 ce
  by unfold_locales
    (auto simp: run_keeps coordinator_params_def execution_port_of_def guard_env_of_def memory_guard_def)

lemma new_coordinator_cases:
  assumes "new_coordinator p = Inr co"
  shows "co_execution co = co_execution p" "co_list_pending co = co_list_pending p"
    "co_list_pending_for_accounts co = co_list_pending_for_accounts p" "co_now co = co_now p" "co_ctx_err co = co_ctx_err p"
    "co_recovery co = co_recovery p" "1 \<le> co_batch_size co" "co_batch_size co \<le> 1000" "100000000 \<le> co_poll_interval co"
    "co_poll_interval co \<le> minute"
  using assms by (auto simp: new_coordinator_def Let_def split: if_splits sum.splits)

lemma new_coordinator_coordinated: "coordinated R p \<Longrightarrow> new_coordinator p = Inr co \<Longrightarrow> coordinated R co"
  by (simp add: coordinated_def new_coordinator_cases)

text \<open>
  The coordinator only drives the execution service: whatever the leases, the contexts and the clock do, every sweep of
  a constructed coordinator takes a reachable state of the execution service to a reachable state. What holds in every
  run of the service therefore holds under the coordinator; in particular nothing but durable orders behind open gates
  is placed and no reservation is settled while the outcome of its order is uncertain.
\<close>

lemma sweep_refines_service_run:
  assumes "new_coordinator (coordinator_params svc ce) = Inr co"
    and "service_reach svc adm (\<lambda>r r'. ext r r' \<or> r' = r) s0 s" and "run_state (sweep co) (st, s) = (res, (st', s'))"
  shows "service_reach svc adm (\<lambda>r r'. ext r r' \<or> r' = r) s0 s' \<and>
    (sys_calls s0 = [] \<longrightarrow> (\<forall>c \<in> set (sys_calls s'). call_ok svc c))"
proof -
  have "coordinated (service_run svc adm ext s0) co"
    by (rule new_coordinator_coordinated [OF runs.coordinated_axioms assms(1)])
  from keepsD [OF coordinated.keeps_sweep [OF this] _ assms(3)] assms(2)
  have "service_reach svc adm (\<lambda>r r'. ext r r' \<or> r' = r) s0 s'" by simp
  then show ?thesis using reachable_call_ok by blast
qed


section \<open>A sweep accounts for its orders\<close>

definition handled :: "sweep_result \<Rightarrow> int" where
  "handled res = sw_resumed res + sw_refreshed res + sw_cancelled res + sw_finalized res + sw_deferred res + int (length (sw_errors res))"

lemma handled_simps [simp]:
  "handled (selected n) = 0" "handled (add_error e res) = handled res + 1" "sw_selected (add_error e res) = sw_selected res"
  "sw_selected (record_action a res) = sw_selected res" "sw_selected (selected n) = n"
  by (simp_all add: handled_def selected_def add_error_def record_action_def split: sweep_action.split)

lemma handled_record: "handled (record_action a res) \<le> handled res + 1" "handled res \<le> handled (record_action a res)"
  by (simp_all add: handled_def record_action_def split: sweep_action.split)

lemma sweep_loop_handled:
  "run_state (sweep_loop co now os res0) s = (res, s') \<Longrightarrow>
   sw_selected res = sw_selected res0 \<and> handled res0 \<le> handled res \<and> handled res \<le> handled res0 + int (length os)"
proof (induction os arbitrary: res0 s)
  case (Cons o1 os)
  obtain ce s1 where c: "run_state (co_ctx_err co) s = (ce, s1)" by (metis surj_pair)
  obtain action e s2 where p: "run_state (process_order co o1 now) s1 = ((action, e), s2)" by (metis prod.exhaust)
  let ?next = "if err_is e ErrCancelFinalityPending then res0 else case e of Some x \<Rightarrow> add_error x res0 | None \<Rightarrow> record_action action res0"
  show ?case
  proof (cases ce)
    case None
    then have "run_state (sweep_loop co now os ?next) s2 = (res, s')" using Cons.prems c p by simp
    note ih = Cons.IH [OF this]
    have "sw_selected ?next = sw_selected res0 \<and> handled res0 \<le> handled ?next \<and> handled ?next \<le> handled res0 + 1"
      using handled_record [where a = action and res = res0] by (auto split: option.split)
    with ih show ?thesis by auto
  qed (use Cons.prems c in auto)
qed simp

text \<open>
  A sweep handles each selected order at most once: the orders it resumed, refreshed, cancelled, finalised or deferred and
  the errors it reports are never more than the orders it selected, and it never selects more than the configured batch,
  which is at most 1000. When the listing itself fails, the sweep selects nothing and reports that one error.
\<close>

lemma sweep_is_bounded:
  assumes "new_coordinator (coordinator_params svc ce) = Inr co" and "run_state (sweep co) (st, s) = (res, (st', s'))"
  shows "(\<exists>e. sw_selected res = 0 \<and> sw_errors res = [e] \<and> handled res = 1) \<or>
    0 \<le> handled res \<and> handled res \<le> sw_selected res \<and> sw_selected res \<le> co_batch_size co \<and> co_batch_size co \<le> 1000"
proof -
  note co = new_coordinator_cases [OF assms(1)]
  obtain now w where now: "run_state (ce_now ce) (sys_world s) = (now, w)" by force
  define listed where "listed = (if co_accounts co = [] then Inr (repo_list_pending (sys_repo s) (now - co_poll_interval co) (co_batch_size co))
      else repo_list_pending_for_accounts (sys_repo s) (co_accounts co) (now - co_poll_interval co) (co_batch_size co))"
  have run: "run_state (case listed of Inl e \<Rightarrow> State_Monad.return (add_error e (selected 0))
      | Inr orders \<Rightarrow> sweep_loop co now orders (selected (int (length orders)))) (st, s\<lparr>sys_world := w\<rparr>) = (res, (st', s'))"
    using assms(2) now unfolding sweep_def listed_def
    by (cases "co_accounts co = []") (simp_all add: co(1-5) beside_store_def in_world_def read_repo_def)
  show ?thesis
  proof (cases listed)
    case (Inl e)
    then show ?thesis using run by (auto simp: add_error_def selected_def handled_def)
  next
    case (Inr orders)
    have "length orders \<le> nat (co_batch_size co)"
      using Inr co(7) unfolding listed_def
      by (auto simp: repo_list_pending_def repo_list_pending_for_accounts_def repo_list_pending_filtered_def Let_def
          split: if_splits sum.splits)
    with Inr run sweep_loop_handled [of co now orders] co(7,8) show ?thesis by fastforce
  qed
qed


section \<open>What a sweep asks for\<close>






























section \<open>A sweep of the paper service\<close>

definition sample_coordinator_env :: "paper_world coordinator_env" where
  "sample_coordinator_env = \<lparr>ce_now = pw_now, ce_ctx_err = State_Monad.return None,
     ce_guard = Some (\<lparr>rp_lease_ttl = 2 * minute, rp_timeout = 30 * second, rp_base_backoff = 30 * second,
         rp_max_backoff = 10 * minute, rp_escalate_after = 30 * minute\<rparr>, 7,
       \<lparr>ge_now = pw_now, ge_nonce = State_Monad.return (Inr ''ab''), ge_ctx_ended = State_Monad.return False,
        ge_work_ctx_ended = State_Monad.return False\<rparr>),
     ce_poll_interval = 0, ce_batch_size = 0, ce_accounts = [], ce_recovery_holder = []\<rparr>"

definition sample_coordinator :: "(lease_store \<times> paper_world sys) coordinator" where
  "sample_coordinator = (coordinator_params sample_service sample_coordinator_env)\<lparr>co_poll_interval := 2 * second,
     co_batch_size := 100, co_recovery_holder := ''ordercoordinator''\<rparr>"

lemma sample_coordinator: "new_coordinator (coordinator_params sample_service sample_coordinator_env) = Inr sample_coordinator"
proof -
  have t: "trim_space [] = []" by simp
  show ?thesis
    by (simp add: new_coordinator_def sample_coordinator_def coordinator_params_def sample_coordinator_env_def or_default_def
        coordinator_normalize_accounts_def defaultRecoveryHolder_def duration_defs)
qed

definition later_sys :: "paper_world sys" where
  "later_sys = (snd after_submit)\<lparr>sys_world := (sys_world (snd after_submit))\<lparr>pw_clock := 1000 * second\<rparr>\<rparr>"

definition swept :: "sweep_result \<times> lease_store \<times> paper_world sys" where
  "swept = run_state (sweep sample_coordinator) (new_lease_store, later_sys)"

definition sweep_counts :: "sweep_result \<Rightarrow> int \<times> int" where
  "sweep_counts res = (sw_selected res, sw_refreshed res)"

lemma sweep_counts: "sweep_counts (fst swept) = (1, 1)"
  by code_simp

end
