(* ===== verification/No_Fill_Release.thy ===== *)
theory No_Fill_Release
  imports Fills Ports
begin

text \<open>
  \<open>src/internal/domain/no_fill_release.go\<close> and \<open>src/internal/service/nofillrelease/\<close>: when may an order whose placement
  ended UNKNOWN be cancelled and its reservation be released because the venue never accepted it? The ledger store, the
  venue reader, the chain scanner, the clock, the context, SHA-256 and the JSON encoder are parameters. Log calls are
  left out. The theorems show that a release happens only with complete evidence.
\<close>

section \<open>Facts and evidence\<close>

record no_fill_issue_ref =
  ni_issue_id :: string
  ni_type :: string
  ni_source :: string
  ni_resolution :: string

record no_fill_local_facts =
  nf_order :: order
  nf_attempts :: "order_attempt list"
  nf_event_statuses :: "order_status list"
  nf_fill_count :: int
  nf_fill_event_count :: int
  nf_reservation :: "asset_reservation option"
  nf_open_issues :: "no_fill_issue_ref list"
  nf_lease_held :: bool

definition NoFillReleaseSourceOrder :: string where "NoFillReleaseSourceOrder = ''CLOB_ORDER''"

definition no_fill_releasable_issue :: "no_fill_issue_ref \<Rightarrow> bool" where
  "no_fill_releasable_issue i =
     (if ni_type i = ''SOURCE_UNAVAILABLE'' then ni_source i = NoFillReleaseSourceOrder
      else ni_type i = ''ORDER_RECOVERY_PENDING'' \<or> ni_type i = ''ORDER_RECOVERY_STALLED'')"

record no_fill_order_read =
  nr_not_found :: bool
  nr_code :: string
  nr_read_at :: gtime

record no_fill_trade_reference =
  nt_trade_id :: string
  nt_status :: string
  nt_role :: string

record no_fill_trade_scan =
  ts_market :: string
  ts_after :: gtime
  ts_scanned :: int
  ts_references :: "no_fill_trade_reference list"
  ts_read_at :: gtime

record no_fill_open_order_scan =
  os_market :: string
  os_token_id :: string
  os_returned :: int
  os_contains :: bool
  os_read_at :: gtime

record no_fill_chain_scan_request =
  cq_order_hash :: string
  cq_from_not_after :: gtime
  cq_to_not_before :: gtime
  cq_max_chunks :: int

record no_fill_chain_match =
  cm_transaction_hash :: string
  cm_log_index :: nat
  cm_block_number :: nat
  cm_exchange :: string

record no_fill_chain_control =
  cc_block_number :: nat
  cc_logs :: int

record no_fill_chain_evidence =
  ch_chain_id :: nat
  ch_exchanges :: "string list"
  ch_topic0 :: string
  ch_topic1 :: string
  ch_from_block :: nat
  ch_from_block_time :: gtime
  ch_to_block :: nat
  ch_to_block_time :: gtime
  ch_to_block_hash_before :: string
  ch_to_block_hash_after :: string
  ch_head_before :: nat
  ch_head_after :: nat
  ch_confirmations :: nat
  ch_chunk_blocks :: nat
  ch_chunks :: int
  ch_matches :: "no_fill_chain_match list"
  ch_controls :: "no_fill_chain_control list"
  ch_rpc_host :: string
  ch_read_at :: gtime

datatype no_fill_resolution_mode = NoFillModeShadow | NoFillModeAuto | NoFillModeOperator

fun no_fill_mode_text :: "no_fill_resolution_mode \<Rightarrow> string" where
  "no_fill_mode_text NoFillModeShadow = ''SHADOW''"
| "no_fill_mode_text NoFillModeAuto = ''AUTO''"
| "no_fill_mode_text NoFillModeOperator = ''OPERATOR''"

record no_fill_resolution =
  nres_mode :: no_fill_resolution_mode
  nres_order_id :: string
  nres_execution_account_id :: string
  nres_actor :: string
  nres_reason :: string
  nres_reason_code :: string
  nres_expected_order_revision :: int
  nres_expected_reservation_revision :: int
  nres_evidence :: string
  nres_evidence_sha256 :: string
  nres_summary :: string
  nres_resolved_at :: gtime
  nres_require_lease_free :: bool
  nres_allow_read_only_progress :: bool
  nres_expected_release_balance :: decimal
  nres_expected_release_shares :: decimal

definition no_fill_history_statuses :: "order_status list" where
  "no_fill_history_statuses = [OrderStatusReceived, OrderStatusValidating, OrderStatusReserved, OrderStatusSubmitting,
     OrderStatusUnknown, OrderStatusReconciling]"

definition no_fill_read_failure_codes :: "string list" where
  "no_fill_read_failure_codes = [''CLOB_ORDER_NOT_FOUND'', ''CLOB_TRANSPORT_UNAVAILABLE'', ''CLOB_SERVER_ERROR'',
     ''CLOB_RATE_LIMITED'', ''CLOB_RESPONSE_UNAVAILABLE'']"

definition no_fill_accepted_submit_codes :: "string list" where
  "no_fill_accepted_submit_codes = [''CLOB_ORDER_ID_MISSING'', ''CLOB_ORDER_ID_MISMATCH'', ''CLOB_INVALID_POST_RESPONSE'',
     ''INVALID_VENUE_RESPONSE'']"

definition no_fill_read_failure_code :: "string \<Rightarrow> bool" where
  "no_fill_read_failure_code code = List.member no_fill_read_failure_codes (to_upper (trim_space code))"

fun attempt_outcome_text :: "order_attempt_outcome \<Rightarrow> string" where
  "attempt_outcome_text AttemptOutcomeStarted = ''STARTED''"
| "attempt_outcome_text AttemptOutcomeSucceeded = ''SUCCEEDED''"
| "attempt_outcome_text AttemptOutcomeRejected = ''REJECTED''"
| "attempt_outcome_text AttemptOutcomeUnknown = ''UNKNOWN''"
| "attempt_outcome_text AttemptOutcomeFailed = ''FAILED''"

definition no_fill_submit_error :: "order_attempt \<Rightarrow> err" where
  "no_fill_submit_error a =
     (if at_outcome a \<noteq> AttemptOutcomeUnknown \<and> at_outcome a \<noteq> AttemptOutcomeStarted
      then Some (ErrText (''submit attempt outcome is '' @ attempt_outcome_text (at_outcome a)))
      else if List.member no_fill_accepted_submit_codes (to_upper (trim_space (at_error_code a))) \<or>
              (200 \<le> at_http_status a \<and> at_http_status a < 300)
      then Some (ErrText (''submit attempt ended with a venue success response ('' @ at_error_code a @ '')''))
      else None)"

definition no_fill_reconcile_error :: "order_attempt \<Rightarrow> err" where
  "no_fill_reconcile_error a =
     (if at_outcome a = AttemptOutcomeStarted then None
      else if at_outcome a = AttemptOutcomeSucceeded then Some (ErrText ''a reconciliation read observed the order'')
      else if \<not> no_fill_read_failure_code (at_error_code a)
      then Some (ErrText (''reconciliation read '' @ at_id a @ '' ended with '' @ quoted (at_error_code a)))
      else None)"

fun no_fill_attempts_error :: "int \<Rightarrow> order_attempt list \<Rightarrow> err" where
  "no_fill_attempts_error submits [] =
     (if submits \<noteq> 1 then Some (ErrText (''order has '' @ show_int submits @ '' submit attempts'')) else None)"
| "no_fill_attempts_error submits (a # rest) =
     (case at_kind a of
        OrderAttemptSubmit \<Rightarrow>
          (case no_fill_submit_error a of Some e \<Rightarrow> Some e | None \<Rightarrow> no_fill_attempts_error (submits + 1) rest)
      | OrderAttemptCancel \<Rightarrow> Some (ErrText ''order has a cancel attempt'')
      | OrderAttemptReconcile \<Rightarrow>
          (case no_fill_reconcile_error a of Some e \<Rightarrow> Some e | None \<Rightarrow> no_fill_attempts_error submits rest)
      | OrderAttemptOther k \<Rightarrow> Some (ErrText (''unknown attempt kind '' @ quoted k)))"

definition no_fill_history_error :: "order_attempt list \<Rightarrow> order_status list \<Rightarrow> err" where
  "no_fill_history_error attempts eventStatuses =
     (case filter (\<lambda>st. \<not> List.member no_fill_history_statuses st) eventStatuses of
        st # _ \<Rightarrow> Some (ErrText (''order history contains '' @ status_text st))
      | [] \<Rightarrow> no_fill_attempts_error 0 attempts)"

record evidence_release =
  er_side :: side
  er_balance :: decimal
  er_shares :: decimal

definition release_of :: "no_fill_local_facts \<Rightarrow> evidence_release" where
  "release_of facts =
     (case nf_reservation facts of
        None \<Rightarrow> \<lparr>er_side = oi_side (o_intent (nf_order facts)), er_balance = ''0'', er_shares = ''0''\<rparr>
      | Some r \<Rightarrow>
          if rv_side r = SideBuy
          then \<lparr>er_side = rv_side r, er_balance = rv_remaining_reserved_balance r, er_shares = ''0''\<rparr>
          else \<lparr>er_side = rv_side r, er_balance = ''0'', er_shares = rv_remaining_reserved_shares r\<rparr>)"

definition confirm_id :: "(string \<Rightarrow> string) \<Rightarrow> no_fill_local_facts \<Rightarrow> string" where
  "confirm_id sha256_hex facts =
     (let released = release_of facts;
          submits = filter (\<lambda>a. at_kind a = OrderAttemptSubmit) (nf_attempts facts);
          submitAttempt = (if submits = [] then [] else at_id (last submits));
          o1 = nf_order facts
      in sha256_hex (o_id o1 @ ''|'' @ oi_execution_account_id (o_intent o1) @ ''|'' @
           to_lower (trim_space (o_venue_order_id o1)) @ ''|'' @ submitAttempt @ ''|'' @ er_side released @ ''|'' @
           er_balance released @ ''|'' @ er_shares released))"

record evidence_time_gate =
  tg_now :: gtime
  tg_rule :: string
  tg_expires_at :: "gtime option"
  tg_grace :: duration
  tg_deadline :: gtime
  tg_scan_from :: gtime
  tg_scan_to_at_least :: gtime

record evidence_order_reads =
  rd_reconciles :: int
  rd_interrupted :: int
  rd_error_codes :: "(string \<times> int) list"

record evidence_order =
  eo_order_id :: string
  eo_execution_account_id :: string
  eo_venue_order_id :: string
  eo_side :: side
  eo_token_id :: string
  eo_condition_id :: string
  eo_size :: decimal
  eo_worst_price :: decimal
  eo_created_at :: gtime
  eo_revision :: int
  eo_reservation_revision :: int

record evidence_submit =
  es_attempt_id :: string
  es_started_at :: gtime
  es_completed_at :: "gtime option"
  es_outcome :: string
  es_http_status :: int
  es_error_code :: string
  es_error_message :: string
  es_venue_expires_at :: "gtime option"

record evidence_local =
  el_filled_size :: decimal
  el_fills :: int
  el_fill_events :: int
  el_event_statuses :: "order_status list"
  el_reservation_state :: reservation_status
  el_open_issues :: "no_fill_issue_ref list"

record evidence =
  evd_version :: int
  evd_mode :: string
  evd_actor :: string
  evd_note :: string
  evd_resolved_at :: gtime
  evd_binary_commit :: string
  evd_order :: evidence_order
  evd_submit :: evidence_submit
  evd_time_gate :: evidence_time_gate
  evd_venue_order_reads :: evidence_order_reads
  evd_venue_order :: no_fill_order_read
  evd_venue_trades :: no_fill_trade_scan
  evd_venue_open_orders :: no_fill_open_order_scan
  evd_chain :: no_fill_chain_evidence
  evd_local :: evidence_local
  evd_issues_resolved :: "string list"
  evd_release :: evidence_release

definition bool_count :: "bool \<Rightarrow> int" where
  "bool_count value = (if value then 1 else 0)"

definition evidence_summary :: "evidence \<Rightarrow> string \<Rightarrow> string" where
  "evidence_summary ev digest =
     (let expires = (case tg_expires_at (evd_time_gate ev) of None \<Rightarrow> ''none'' | Some t \<Rightarrow> format_rfc3339 t) in
      ''expires_at='' @ expires @ '' grace='' @ seconds_text (nat (tg_grace (evd_time_gate ev))) @
      '' trades='' @ show_nat (length (ts_references (evd_venue_trades ev))) @
      '' open='' @ show_int (bool_count (os_contains (evd_venue_open_orders ev))) @
      '' chain['' @ show_nat (ch_from_block (evd_chain ev)) @ ''..'' @ show_nat (ch_to_block (evd_chain ev)) @ '']='' @
      show_nat (length (ch_matches (evd_chain ev))) @ '' digest='' @ digest)"


section \<open>The decision\<close>

datatype decision_kind =
  DecisionNotEligible | DecisionNotYet | DecisionInconclusive | DecisionFillObserved | DecisionResolve

record decision =
  dn_kind :: decision_kind
  dn_reason :: string
  dn_routine :: bool

definition decide :: "decision_kind \<Rightarrow> string \<Rightarrow> decision" where
  "decide kind reason = \<lparr>dn_kind = kind, dn_reason = reason, dn_routine = False\<rparr>"

record release_policy =
  pl_grace :: duration
  pl_before_submit_margin :: duration
  pl_after_expiry_chain_margin :: duration
  pl_max_chunks :: int
  pl_allow_legacy_no_expiry :: bool
  pl_legacy_min_age :: duration
  pl_require_lease_free :: bool

definition release_policy_normalize :: "release_policy \<Rightarrow> go_error + release_policy" where
  "release_policy_normalize p0 =
     (let p = p0\<lparr>pl_grace := (if pl_grace p0 = 0 then 30 * minute else pl_grace p0),
            pl_before_submit_margin := (if pl_before_submit_margin p0 = 0 then 10 * minute else pl_before_submit_margin p0),
            pl_after_expiry_chain_margin := (if pl_after_expiry_chain_margin p0 = 0 then 10 * minute else pl_after_expiry_chain_margin p0),
            pl_max_chunks := (if pl_max_chunks p0 = 0 then 30 else pl_max_chunks p0),
            pl_legacy_min_age := (if pl_legacy_min_age p0 = 0 then hour else pl_legacy_min_age p0)\<rparr> in
      if pl_grace p < 15 * minute \<or> pl_grace p > 24 * hour then Inl (ErrText ''no-fill release grace must be between 15m and 24h'')
      else if pl_after_expiry_chain_margin p \<ge> pl_grace p then Inl (ErrText ''no-fill chain margin must be shorter than the grace'')
      else if pl_before_submit_margin p < minute \<or> pl_after_expiry_chain_margin p < minute
      then Inl (ErrText ''no-fill scan margins must be at least one minute'')
      else if pl_max_chunks p < 1 \<or> pl_max_chunks p > 100000
      then Inl (ErrText ''no-fill chain chunk budget must be between 1 and 100000'')
      else if pl_legacy_min_age p < 30 * minute then Inl (ErrText ''legacy no-expiry minimum age must be at least 30m'')
      else Inr p)"

record local_gate =
  lg_submit :: "order_attempt option"
  lg_reads :: evidence_order_reads
  lg_time_gate :: evidence_time_gate
  lg_scan_request :: no_fill_chain_scan_request
  lg_trades_after :: gtime
  lg_releasable :: "string list"
  lg_release :: evidence_release
  lg_reservation :: "asset_reservation option"

definition zero_gate :: local_gate where
  "zero_gate = \<lparr>lg_submit = None, lg_reads = \<lparr>rd_reconciles = 0, rd_interrupted = 0, rd_error_codes = []\<rparr>,
     lg_time_gate = \<lparr>tg_now = 0, tg_rule = [], tg_expires_at = None, tg_grace = 0, tg_deadline = 0, tg_scan_from = 0, tg_scan_to_at_least = 0\<rparr>,
     lg_scan_request = \<lparr>cq_order_hash = [], cq_from_not_after = 0, cq_to_not_before = 0, cq_max_chunks = 0\<rparr>,
     lg_trades_after = 0, lg_releasable = [], lg_release = \<lparr>er_side = [], er_balance = [], er_shares = []\<rparr>, lg_reservation = None\<rparr>"

definition is_order_hash :: "string \<Rightarrow> bool" where
  "is_order_hash value0 =
     (let value = trim_space value0 in
      has_prefix value ''0x'' \<and> length value = 66 \<and> list_all is_hex_digit (drop 2 value))"

definition zero_amount :: "decimal \<Rightarrow> bool" where
  "zero_amount d = (if dec_is_empty d then True else dec_sign d = Inr 0)"

definition count_code :: "string \<Rightarrow> (string \<times> int) list \<Rightarrow> (string \<times> int) list" where
  "count_code code m = (case map_of m code of None \<Rightarrow> m @ [(code, 1)] | Some n \<Rightarrow> map (\<lambda>(k, v). if k = code then (k, v + 1) else (k, v)) m)"

definition collect_read :: "order_attempt \<Rightarrow> evidence_order_reads \<Rightarrow> evidence_order_reads" where
  "collect_read a reads =
     (if at_kind a \<noteq> OrderAttemptReconcile then reads
      else
        (let reads = reads\<lparr>rd_reconciles := rd_reconciles reads + 1\<rparr> in
         if at_outcome a = AttemptOutcomeStarted then reads\<lparr>rd_interrupted := rd_interrupted reads + 1\<rparr>
         else reads\<lparr>rd_error_codes := count_code (to_upper (trim_space (at_error_code a))) (rd_error_codes reads)\<rparr>))"

fun reservation_status_text :: "reservation_status \<Rightarrow> string" where
  "reservation_status_text ReservationStatusActive = ''ACTIVE''"
| "reservation_status_text ReservationStatusReleased = ''RELEASED''"
| "reservation_status_text ReservationStatusSettled = ''SETTLED''"
| "reservation_status_text ReservationStatusReconciliationRequired = ''RECONCILIATION_REQUIRED''"

text \<open>The checks of \<open>checkLocal\<close> before the clock is consulted: \<open>None\<close> when all of them pass.\<close>

definition local_refusal :: "no_fill_local_facts \<Rightarrow> release_policy \<Rightarrow> order_attempt option \<Rightarrow> decision option" where
  "local_refusal facts policy submit =
     (let o1 = nf_order facts in
      if \<not> equal_fold (trim_space (oi_venue (o_intent o1))) ''polymarket''
      then Some (decide DecisionNotEligible (''venue '' @ quoted (oi_venue (o_intent o1)) @ '' is not Polymarket''))
      else if o_status o1 \<noteq> OrderStatusUnknown
      then Some (decide DecisionNotEligible (''order status is '' @ status_text (o_status o1) @ '', not UNKNOWN''))
      else if \<not> is_order_hash (o_venue_order_id o1)
      then Some (decide DecisionNotEligible ''venue order id is not a 32-byte order hash'')
      else if \<not> zero_amount (o_filled_size o1) \<or> \<not> zero_amount (o_filled_notional o1) \<or> \<not> zero_amount (o_total_fees o1)
      then Some (decide DecisionNotEligible ''order has a recorded fill'')
      else if nf_fill_count facts \<noteq> 0 \<or> nf_fill_event_count facts \<noteq> 0
      then Some (decide DecisionNotEligible (''order has '' @ show_int (nf_fill_count facts) @ '' fill(s) and '' @
        show_int (nf_fill_event_count facts) @ '' fill event(s)''))
      else case no_fill_history_error (nf_attempts facts) (nf_event_statuses facts) of
        Some e \<Rightarrow> Some (decide DecisionNotEligible (error_text e))
      | None \<Rightarrow>
      let submitID = (case submit of None \<Rightarrow> [] | Some a \<Rightarrow> trim_space (at_venue_order_id a)) in
      if \<not> equal_fold submitID (trim_space (o_venue_order_id o1)) \<and> submitID \<noteq> []
      then Some (decide DecisionNotEligible ''submit attempt venue order id differs from the order'')
      else case nf_reservation facts of
        None \<Rightarrow> Some (decide DecisionNotEligible ''order has no reservation'')
      | Some r \<Rightarrow>
      if rv_status r \<noteq> ReservationStatusActive \<and> rv_status r \<noteq> ReservationStatusReconciliationRequired
      then Some (decide DecisionNotEligible (''reservation is '' @ reservation_status_text (rv_status r)))
      else if \<not> zero_amount (rv_settled_shares r) \<or> \<not> zero_amount (rv_settled_notional r) \<or> \<not> zero_amount (rv_settled_fees r)
      then Some (decide DecisionNotEligible ''reservation has settled amounts'')
      else case filter (\<lambda>i. \<not> no_fill_releasable_issue i) (nf_open_issues facts) of
        i # _ \<Rightarrow> Some (decide DecisionNotEligible (''order has an OPEN '' @ ni_type i @ '' issue from '' @ ni_source i))
      | [] \<Rightarrow>
      if pl_require_lease_free policy \<and> nf_lease_held facts
      then Some (decide DecisionNotYet ''another worker holds the order recovery lease'') else None)"

definition time_gate_of :: "release_policy \<Rightarrow> gtime \<Rightarrow> gtime \<Rightarrow> gtime \<Rightarrow> gtime option \<Rightarrow> evidence_time_gate" where
  "time_gate_of policy now submitStart scanFrom expiry =
     (case expiry of
        Some expiresAt \<Rightarrow>
          \<lparr>tg_now = now, tg_rule = ''VENUE_EXPIRY'', tg_expires_at = Some expiresAt, tg_grace = pl_grace policy,
           tg_deadline = expiresAt + pl_grace policy, tg_scan_from = scanFrom,
           tg_scan_to_at_least = expiresAt + pl_after_expiry_chain_margin policy\<rparr>
      | None \<Rightarrow>
          (let reach = pl_legacy_min_age policy - pl_after_expiry_chain_margin policy;
               reach = (if reach < pl_after_expiry_chain_margin policy then pl_after_expiry_chain_margin policy else reach) in
           \<lparr>tg_now = now, tg_rule = ''LEGACY_NO_EXPIRY_MIN_AGE'', tg_expires_at = None, tg_grace = pl_legacy_min_age policy,
            tg_deadline = submitStart + pl_legacy_min_age policy, tg_scan_from = scanFrom, tg_scan_to_at_least = submitStart + reach\<rparr>))"

definition check_local :: "no_fill_local_facts \<Rightarrow> release_policy \<Rightarrow> gtime \<Rightarrow> local_gate \<times> decision" where
  "check_local facts policy now =
     (let o1 = nf_order facts;
          submits = filter (\<lambda>a. at_kind a = OrderAttemptSubmit) (nf_attempts facts);
          submit = (if submits = [] then None else Some (last submits)) in
      case local_refusal facts policy submit of
        Some d \<Rightarrow> (zero_gate, d)
      | None \<Rightarrow>
      let submitStart = (case submit of None \<Rightarrow> 0 | Some a \<Rightarrow> at_started_at a);
          scanFrom = (if \<not> is_zero_time (o_created_at o1) \<and> o_created_at o1 < submitStart then o_created_at o1 else submitStart)
                     - pl_before_submit_margin policy;
          expiry = (case submit of None \<Rightarrow> None | Some a \<Rightarrow> at_venue_expires_at a) in
      if expiry = None \<and> \<not> pl_allow_legacy_no_expiry policy
      then (zero_gate, (decide DecisionNotEligible
             ''order has no venue expiry; only the operator tool with --legacy-no-expiration may release it'')\<lparr>dn_routine := True\<rparr>)
      else
        (let gate = \<lparr>lg_submit = submit, lg_reads = fold collect_read (nf_attempts facts) \<lparr>rd_reconciles = 0, rd_interrupted = 0, rd_error_codes = []\<rparr>,
               lg_time_gate = time_gate_of policy now submitStart scanFrom expiry, lg_scan_request = lg_scan_request zero_gate,
               lg_trades_after = scanFrom, lg_releasable = map ni_issue_id (nf_open_issues facts), lg_release = release_of facts,
               lg_reservation = nf_reservation facts\<rparr> in
         if now < tg_deadline (lg_time_gate gate)
         then (gate, decide DecisionNotYet (''time gate opens at '' @ format_rfc3339 (tg_deadline (lg_time_gate gate))))
         else (gate\<lparr>lg_scan_request := \<lparr>cq_order_hash = o_venue_order_id o1, cq_from_not_after = scanFrom,
                      cq_to_not_before = tg_scan_to_at_least (lg_time_gate gate), cq_max_chunks = pl_max_chunks policy\<rparr>\<rparr>,
               decide DecisionResolve ''local evidence complete'')))"

record remote_result =
  rr_order :: "go_error + no_fill_order_read"
  rr_trades :: "go_error + no_fill_trade_scan"
  rr_open :: "go_error + no_fill_open_order_scan"
  rr_chain :: "go_error + no_fill_chain_evidence"
  rr_window_not_reached :: bool

definition decide_venue :: "remote_result \<Rightarrow> decision" where
  "decide_venue r =
     (case rr_order r of
        Inl e \<Rightarrow> decide DecisionInconclusive (''order read failed: '' @ error_text e)
      | Inr read \<Rightarrow>
      if \<not> nr_not_found read then decide DecisionNotEligible ''the venue returns the order''
      else case rr_trades r of
        Inl e \<Rightarrow> decide DecisionInconclusive (''trade listing failed: '' @ error_text e)
      | Inr trades \<Rightarrow>
      (case ts_references trades of
        ref # _ \<Rightarrow> decide DecisionFillObserved (''venue trade '' @ nt_trade_id ref @ '' ('' @ nt_status ref @ '', '' @ nt_role ref @ '') names the order'')
      | [] \<Rightarrow>
      (case rr_open r of
        Inl e \<Rightarrow> decide DecisionInconclusive (''open-order listing failed: '' @ error_text e)
      | Inr opened \<Rightarrow>
          if os_contains opened then decide DecisionNotEligible ''the order is listed as open at the venue''
          else decide DecisionResolve ''venue evidence complete'')))"

definition decide_chain :: "remote_result \<Rightarrow> decision" where
  "decide_chain r =
     (case rr_chain r of
        Inl e \<Rightarrow>
          if rr_window_not_reached r then decide DecisionNotYet (''chain window not reached: '' @ error_text e)
          else decide DecisionInconclusive (''OrderFilled scan failed: '' @ error_text e)
      | Inr ch \<Rightarrow>
      (case ch_matches ch of
        m # _ \<Rightarrow> decide DecisionFillObserved (''OrderFilled '' @ cm_transaction_hash m @ '':'' @ show_nat (cm_log_index m) @
          '' in block '' @ show_nat (cm_block_number m) @ '' names the order'')
      | [] \<Rightarrow>
      if length (ch_controls ch) < 3
      then decide DecisionInconclusive (''OrderFilled scan has '' @ show_nat (length (ch_controls ch)) @ '' control block(s); 3 are required'')
      else case filter (\<lambda>c. cc_logs c < 1) (ch_controls ch) of
        c # _ \<Rightarrow> decide DecisionInconclusive (''control block '' @ show_nat (cc_block_number c) @ '' returned no OrderFilled log'')
      | [] \<Rightarrow>
          if ch_to_block_hash_before ch = [] \<or> ch_to_block_hash_before ch \<noteq> ch_to_block_hash_after ch
          then decide DecisionInconclusive ''scanned range was not stable''
          else decide DecisionResolve ''chain evidence complete''))"


section \<open>The resolver\<close>

definition ModeOff :: string where "ModeOff = ''off''"
definition ModeShadow :: string where "ModeShadow = ''shadow''"
definition ModeOn :: string where "ModeOn = ''on''"

definition parse_mode :: "string \<Rightarrow> go_error + string" where
  "parse_mode value =
     (let v = to_lower (trim_space value) in
      if v = ModeOff then Inr ModeOff else if v = ModeShadow then Inr ModeShadow else if v = ModeOn then Inr ModeOn
      else Inl (ErrText ''no-fill release mode must be off, shadow or on''))"

record 's resolver =
  rz_facts :: "string \<Rightarrow> ('s, go_error + no_fill_local_facts) state"
  rz_apply :: "no_fill_resolution \<Rightarrow> ('s, go_error + order) state"
  rz_record_shadow :: "no_fill_resolution \<Rightarrow> ('s, go_error + bool) state"
  rz_has_shadow :: "string \<Rightarrow> ('s, go_error + bool) state"
  rz_read_order :: "order \<Rightarrow> ('s, go_error + no_fill_order_read) state"
  rz_trade_references :: "order \<Rightarrow> gtime \<Rightarrow> ('s, go_error + no_fill_trade_scan) state"
  rz_open_orders :: "order \<Rightarrow> ('s, go_error + no_fill_open_order_scan) state"
  rz_scan_order_filled :: "no_fill_chain_scan_request \<Rightarrow> ('s, go_error + no_fill_chain_evidence) state"
  rz_ctx_err :: "('s, err) state"
  rz_clock :: "('s, gtime) state"
  rz_policy :: release_policy
  rz_mode :: string
  rz_actor :: string
  rz_sha256_hex :: "string \<Rightarrow> string"
  rz_marshal :: "evidence \<Rightarrow> go_error + string"
  rz_binary_commit :: string

text \<open>
  \<open>New\<close>: the argument holds the raw parameters. The mode is validated in its lower-cased form and kept as it was given,
  so a mode such as \<open>OFF\<close> passes and then differs from every mode the resolver compares with.
\<close>

definition new_resolver :: "'s resolver \<Rightarrow> go_error + 's resolver" where
  "new_resolver p =
     (case release_policy_normalize (rz_policy p) of
        Inl e \<Rightarrow> Inl e
      | Inr policy \<Rightarrow>
      let mode = (if rz_mode p = [] then ModeShadow else rz_mode p) in
      case parse_mode mode of
        Inl e \<Rightarrow> Inl e
      | Inr _ \<Rightarrow>
          Inr (p\<lparr>rz_policy := policy, rz_mode := mode,
                 rz_actor := trim_space (if trim_space (rz_actor p) = [] then ''trading_execution'' else rz_actor p)\<rparr>))"

record evaluation =
  ea_decision :: decision
  ea_facts :: no_fill_local_facts
  ea_confirm_id :: string
  ea_evidence :: "evidence option"
  ea_evidence_json :: string
  ea_digest :: string
  ea_mode :: no_fill_resolution_mode
  ea_reason :: string

definition build_evidence ::
    "string \<Rightarrow> no_fill_local_facts \<Rightarrow> local_gate \<Rightarrow> no_fill_order_read \<Rightarrow> no_fill_trade_scan \<Rightarrow> no_fill_open_order_scan \<Rightarrow>
     no_fill_chain_evidence \<Rightarrow> order_attempt \<Rightarrow> asset_reservation \<Rightarrow> no_fill_resolution_mode \<Rightarrow> string \<Rightarrow> string \<Rightarrow> gtime \<Rightarrow> evidence" where
  "build_evidence commit facts gate read trades opened chain submit reservation mode actor reason now =
     (let o1 = nf_order facts; i = o_intent o1 in
      \<lparr>evd_version = 1, evd_mode = no_fill_mode_text mode, evd_actor = actor, evd_note = reason, evd_resolved_at = now, evd_binary_commit = commit,
       evd_order = \<lparr>eo_order_id = o_id o1, eo_execution_account_id = oi_execution_account_id i, eo_venue_order_id = o_venue_order_id o1,
         eo_side = oi_side i, eo_token_id = oi_token_id i, eo_condition_id = oi_condition_id i, eo_size = oi_size i,
         eo_worst_price = oi_worst_price i, eo_created_at = o_created_at o1, eo_revision = o_revision o1,
         eo_reservation_revision = rv_revision reservation\<rparr>,
       evd_submit = \<lparr>es_attempt_id = at_id submit, es_started_at = at_started_at submit, es_completed_at = at_completed_at submit,
         es_outcome = attempt_outcome_text (at_outcome submit), es_http_status = at_http_status submit, es_error_code = at_error_code submit,
         es_error_message = at_error_message submit, es_venue_expires_at = at_venue_expires_at submit\<rparr>,
       evd_time_gate = lg_time_gate gate, evd_venue_order_reads = lg_reads gate, evd_venue_order = read, evd_venue_trades = trades,
       evd_venue_open_orders = opened, evd_chain = chain,
       evd_local = \<lparr>el_filled_size = o_filled_size o1, el_fills = nf_fill_count facts, el_fill_events = nf_fill_event_count facts,
         el_event_statuses = nf_event_statuses facts, el_reservation_state = rv_status reservation, el_open_issues = nf_open_issues facts\<rparr>,
       evd_issues_resolved = lg_releasable gate, evd_release = lg_release gate\<rparr>)"

definition encode_evidence :: "'s resolver \<Rightarrow> evidence \<Rightarrow> go_error + string \<times> string" where
  "encode_evidence rz evd =
     (case rz_marshal rz evd of
        Inl e \<Rightarrow> Inl (wrap_error ''encode no-fill evidence'' e)
      | Inr encoded \<Rightarrow> Inr (encoded, rz_sha256_hex rz encoded))"

text \<open>The three venue reads of \<open>Evaluate\<close>; a read that is not made leaves the zero value, which the decision never looks at.\<close>

definition zero_order_read :: no_fill_order_read where "zero_order_read = \<lparr>nr_not_found = False, nr_code = [], nr_read_at = 0\<rparr>"
definition zero_trade_scan :: no_fill_trade_scan where
  "zero_trade_scan = \<lparr>ts_market = [], ts_after = 0, ts_scanned = 0, ts_references = [], ts_read_at = 0\<rparr>"
definition zero_open_scan :: no_fill_open_order_scan where
  "zero_open_scan = \<lparr>os_market = [], os_token_id = [], os_returned = 0, os_contains = False, os_read_at = 0\<rparr>"
definition zero_chain :: no_fill_chain_evidence where
  "zero_chain = \<lparr>ch_chain_id = 0, ch_exchanges = [], ch_topic0 = [], ch_topic1 = [], ch_from_block = 0, ch_from_block_time = 0,
     ch_to_block = 0, ch_to_block_time = 0, ch_to_block_hash_before = [], ch_to_block_hash_after = [], ch_head_before = 0,
     ch_head_after = 0, ch_confirmations = 0, ch_chunk_blocks = 0, ch_chunks = 0, ch_matches = [], ch_controls = [],
     ch_rpc_host = [], ch_read_at = 0\<rparr>"

definition read_venue :: "'s resolver \<Rightarrow> order \<Rightarrow> gtime \<Rightarrow> ('s, remote_result) state" where
  "read_venue rz o1 tradesAfter = do {
     let remote = \<lparr>rr_order = Inr zero_order_read, rr_trades = Inr zero_trade_scan, rr_open = Inr zero_open_scan,
                   rr_chain = Inr zero_chain, rr_window_not_reached = False\<rparr>;
     read \<leftarrow> rz_read_order rz o1;
     let remote = remote\<lparr>rr_order := read\<rparr>;
     (case read of
        Inr r \<Rightarrow>
          if nr_not_found r
          then do {
            trades \<leftarrow> rz_trade_references rz o1 tradesAfter;
            let remote = remote\<lparr>rr_trades := trades\<rparr>;
            (case trades of
               Inr ts \<Rightarrow>
                 if ts_references ts = []
                 then do { opened \<leftarrow> rz_open_orders rz o1; State_Monad.return (remote\<lparr>rr_open := opened\<rparr>) }
                 else State_Monad.return remote
             | Inl _ \<Rightarrow> State_Monad.return remote) }
          else State_Monad.return remote
      | Inl _ \<Rightarrow> State_Monad.return remote) }"

definition finish_evaluation ::
    "'s resolver \<Rightarrow> evaluation \<Rightarrow> local_gate \<Rightarrow> remote_result \<Rightarrow> string \<Rightarrow> gtime \<Rightarrow> go_error + evaluation" where
  "finish_evaluation rz evaluation gate remote actor0 now =
     (let actor = (if trim_space actor0 = [] then rz_actor rz else trim_space actor0) in
      case (lg_submit gate, lg_reservation gate, rr_order remote, rr_trades remote, rr_open remote, rr_chain remote) of
        (Some submit, Some reservation, Inr read, Inr trades, Inr opened, Inr chain) \<Rightarrow>
          (let evd = build_evidence (rz_binary_commit rz) (ea_facts evaluation) gate read trades opened chain submit reservation
                       (ea_mode evaluation) actor (ea_reason evaluation) now in
           case encode_evidence rz evd of
             Inl e \<Rightarrow> Inl e
           | Inr (encoded, digest) \<Rightarrow>
               Inr (evaluation\<lparr>ea_decision := decide DecisionResolve ''every no-fill evidence source agrees'',
                      ea_evidence := Some evd, ea_evidence_json := encoded, ea_digest := digest\<rparr>))
      | _ \<Rightarrow> Inr evaluation)"

definition evaluate ::
    "'s resolver \<Rightarrow> string \<Rightarrow> no_fill_resolution_mode \<Rightarrow> string \<Rightarrow> string \<Rightarrow> ('s, go_error + evaluation) state" where
  "evaluate rz orderID mode actor reason = do {
     found \<leftarrow> rz_facts rz orderID;
     (case found of
        Inl e \<Rightarrow> State_Monad.return (Inl (wrap_error ''read local no-fill facts'' e))
      | Inr facts \<Rightarrow> do {
          let evaluation = (\<lambda>d. \<lparr>ea_decision = d, ea_facts = facts, ea_confirm_id = confirm_id (rz_sha256_hex rz) facts,
                             ea_evidence = None, ea_evidence_json = [], ea_digest = [], ea_mode = mode, ea_reason = trim_space reason\<rparr>);
          now \<leftarrow> rz_clock rz;
          let (gate, local) = check_local facts (rz_policy rz) now;
          if dn_kind local \<noteq> DecisionResolve then State_Monad.return (Inr (evaluation local))
          else do {
            remote \<leftarrow> read_venue rz (nf_order facts) (lg_trades_after gate);
            if dn_kind (decide_venue remote) \<noteq> DecisionResolve then State_Monad.return (Inr (evaluation (decide_venue remote)))
            else do {
              chain \<leftarrow> rz_scan_order_filled rz (lg_scan_request gate);
              let remote = remote\<lparr>rr_chain := chain,
                    rr_window_not_reached := (case chain of Inl e \<Rightarrow> errors_is e ErrNoFillChainWindowNotReached | Inr _ \<Rightarrow> False)\<rparr>;
              if dn_kind (decide_chain remote) \<noteq> DecisionResolve then State_Monad.return (Inr (evaluation (decide_chain remote)))
              else do {
                interrupted \<leftarrow> rz_ctx_err rz;
                State_Monad.return
                  (case interrupted of
                     Some e \<Rightarrow> Inr (evaluation (decide DecisionInconclusive (''evaluation interrupted: '' @ error_text e)))
                   | None \<Rightarrow> finish_evaluation rz (evaluation (decide_chain remote)) gate remote actor now) } } } }) }"

definition resolution :: "evaluation \<Rightarrow> evidence \<Rightarrow> no_fill_resolution" where
  "resolution evaluation evd =
     (let operator = (ea_mode evaluation = NoFillModeOperator); o1 = nf_order (ea_facts evaluation) in
      \<lparr>nres_mode = ea_mode evaluation, nres_order_id = o_id o1, nres_execution_account_id = oi_execution_account_id (o_intent o1),
       nres_actor = evd_actor evd, nres_reason = ea_reason evaluation,
       nres_reason_code = (if operator then ''OPERATOR_NO_FILL_RELEASE'' else ''VENUE_UNACCEPTED_NO_FILL_RELEASE''),
       nres_expected_order_revision = o_revision o1,
       nres_expected_reservation_revision = (case nf_reservation (ea_facts evaluation) of None \<Rightarrow> 0 | Some r \<Rightarrow> rv_revision r),
       nres_evidence = ea_evidence_json evaluation, nres_evidence_sha256 = ea_digest evaluation,
       nres_summary = evidence_summary evd (ea_digest evaluation), nres_resolved_at = evd_resolved_at evd,
       nres_require_lease_free = operator, nres_allow_read_only_progress = operator,
       nres_expected_release_balance = er_balance (evd_release evd), nres_expected_release_shares = er_shares (evd_release evd)\<rparr>)"

definition decision_kind_text :: "decision_kind \<Rightarrow> string" where
  "decision_kind_text k =
     (case k of DecisionNotEligible \<Rightarrow> ''NOT_ELIGIBLE'' | DecisionNotYet \<Rightarrow> ''NOT_YET'' | DecisionInconclusive \<Rightarrow> ''INCONCLUSIVE''
      | DecisionFillObserved \<Rightarrow> ''FILL_OBSERVED'' | DecisionResolve \<Rightarrow> ''RESOLVE'')"

definition release :: "'s resolver \<Rightarrow> evaluation \<Rightarrow> ('s, go_error + order) state" where
  "release rz evaluation =
     (case ea_evidence evaluation of
        Some evd \<Rightarrow>
          if dn_kind (ea_decision evaluation) \<noteq> DecisionResolve
          then State_Monad.return (Inl (ErrText (''no-fill release requires complete evidence (decision '' @
                 decision_kind_text (dn_kind (ea_decision evaluation)) @ '')'')))
          else if ea_mode evaluation \<noteq> NoFillModeAuto \<and> ea_mode evaluation \<noteq> NoFillModeOperator
          then State_Monad.return (Inl (ErrText ''no-fill release requires mode AUTO or OPERATOR''))
          else rz_apply rz (resolution evaluation evd)
      | None \<Rightarrow> State_Monad.return (Inl (ErrText (''no-fill release requires complete evidence (decision '' @
                 decision_kind_text (dn_kind (ea_decision evaluation)) @ '')''))))"

definition settle_resolution ::
    "'s resolver \<Rightarrow> order \<Rightarrow> no_fill_resolution_mode \<Rightarrow> no_fill_resolution \<Rightarrow> ('s, order \<times> bool \<times> err) state" where
  "settle_resolution rz o1 mode res =
     (if mode = NoFillModeShadow
      then do {
        recorded \<leftarrow> rz_record_shadow rz res;
        State_Monad.return (o1, False, (case recorded of Inl e \<Rightarrow> Some e | Inr _ \<Rightarrow> None)) }
      else do {
        applied \<leftarrow> rz_apply rz res;
        State_Monad.return (case applied of Inl e \<Rightarrow> (o1, False, Some e) | Inr released \<Rightarrow> (released, True, None)) })"

definition evaluate_and_settle :: "'s resolver \<Rightarrow> order \<Rightarrow> no_fill_resolution_mode \<Rightarrow> ('s, order \<times> bool \<times> err) state" where
  "evaluate_and_settle rz o1 mode = do {
     evaluated \<leftarrow> evaluate rz (o_id o1) mode (rz_actor rz) [];
     (case evaluated of
        Inl e \<Rightarrow> State_Monad.return (o1, False, Some e)
      | Inr evaluation \<Rightarrow>
          (case (dn_kind (ea_decision evaluation), ea_evidence evaluation) of
             (DecisionResolve, Some evd) \<Rightarrow> settle_resolution rz o1 mode (resolution evaluation evd)
           | _ \<Rightarrow> State_Monad.return (o1, False, None))) }"

definition resolve_unaccepted :: "'s resolver \<Rightarrow> order \<Rightarrow> ('s, order \<times> bool \<times> err) state" where
  "resolve_unaccepted rz o1 =
     (if rz_mode rz = ModeOff then State_Monad.return (o1, False, None)
      else if rz_mode rz = ModeShadow
      then do {
        recorded \<leftarrow> rz_has_shadow rz (o_id o1);
        (case recorded of
           Inl e \<Rightarrow> State_Monad.return (o1, False, Some e)
         | Inr True \<Rightarrow> State_Monad.return (o1, False, None)
         | Inr False \<Rightarrow> evaluate_and_settle rz o1 NoFillModeShadow) }
      else evaluate_and_settle rz o1 NoFillModeAuto)"



section \<open>What a release rests on\<close>

text \<open>
  The evidence the comment of \<open>nofillrelease\<close> asks for, stated of the facts, the clock and the answers of venue and
  chain: an UNKNOWN order without any fill, whose only submit attempt has no known outcome, whose recorded reads never
  revealed it, whose time gate has passed, and which venue and chain do not know. \<open>evidence_answered\<close> ties each part
  to the port that answered it, called in the state its predecessor left.
\<close>

definition silent_submit :: "order_attempt \<Rightarrow> bool" where
  "silent_submit a \<longleftrightarrow>
     (at_outcome a = AttemptOutcomeUnknown \<or> at_outcome a = AttemptOutcomeStarted) \<and>
     \<not> (200 \<le> at_http_status a \<and> at_http_status a < 300) \<and>
     to_upper (trim_space (at_error_code a)) \<notin> set no_fill_accepted_submit_codes"

definition silent_attempts :: "order_attempt list \<Rightarrow> bool" where
  "silent_attempts as \<longleftrightarrow>
     (\<forall>a \<in> set as. at_kind a = OrderAttemptSubmit \<and> silent_submit a \<or>
        at_kind a = OrderAttemptReconcile \<and> (at_outcome a = AttemptOutcomeStarted \<or>
          at_outcome a \<noteq> AttemptOutcomeSucceeded \<and> no_fill_read_failure_code (at_error_code a)))"

definition gate_open :: "release_policy \<Rightarrow> order_attempt \<Rightarrow> gtime \<Rightarrow> bool" where
  "gate_open policy submit now \<longleftrightarrow>
     (case at_venue_expires_at submit of
        Some t \<Rightarrow> t + 15 * minute \<le> now
      | None \<Rightarrow> pl_allow_legacy_no_expiry policy \<and> at_started_at submit + 30 * minute \<le> now)"

definition untouched_reservation :: "asset_reservation \<Rightarrow> bool" where
  "untouched_reservation r \<longleftrightarrow> \<not> reservation_closed r \<and> zero_amount (rv_settled_shares r) \<and>
     zero_amount (rv_settled_notional r) \<and> zero_amount (rv_settled_fees r)"

definition local_silence :: "release_policy \<Rightarrow> no_fill_local_facts \<Rightarrow> gtime \<Rightarrow> bool" where
  "local_silence policy facts now \<longleftrightarrow>
     (let o1 = nf_order facts in
      o_status o1 = OrderStatusUnknown \<and> equal_fold (trim_space (oi_venue (o_intent o1))) ''polymarket'' \<and>
      is_order_hash (o_venue_order_id o1) \<and>
      zero_amount (o_filled_size o1) \<and> zero_amount (o_filled_notional o1) \<and> zero_amount (o_total_fees o1)) \<and>
     nf_fill_count facts = 0 \<and> nf_fill_event_count facts = 0 \<and>
     set (nf_event_statuses facts) \<subseteq> set no_fill_history_statuses \<and> silent_attempts (nf_attempts facts) \<and>
     (\<exists>submit r. filter (\<lambda>a. at_kind a = OrderAttemptSubmit) (nf_attempts facts) = [submit] \<and> gate_open policy submit now \<and>
        nf_reservation facts = Some r \<and> untouched_reservation r) \<and>
     (\<forall>i \<in> set (nf_open_issues facts). no_fill_releasable_issue i) \<and>
     (pl_require_lease_free policy \<longrightarrow> \<not> nf_lease_held facts)"

definition remote_silence :: "evidence \<Rightarrow> bool" where
  "remote_silence evd \<longleftrightarrow>
     nr_not_found (evd_venue_order evd) \<and> ts_references (evd_venue_trades evd) = [] \<and>
     \<not> os_contains (evd_venue_open_orders evd) \<and> ch_matches (evd_chain evd) = [] \<and>
     3 \<le> length (ch_controls (evd_chain evd)) \<and> (\<forall>c \<in> set (ch_controls (evd_chain evd)). 1 \<le> cc_logs c) \<and>
     ch_to_block_hash_before (evd_chain evd) \<noteq> [] \<and>
     ch_to_block_hash_before (evd_chain evd) = ch_to_block_hash_after (evd_chain evd)"

definition complete_evidence :: "release_policy \<Rightarrow> no_fill_local_facts \<Rightarrow> evidence \<Rightarrow> bool" where
  "complete_evidence policy facts evd \<longleftrightarrow> local_silence policy facts (evd_resolved_at evd) \<and> remote_silence evd"

text \<open>
  The trade listing reaches back to a minute before the submission at least, and the chain scan asks for the hash of the
  order from there to a minute after its expiry (or, without an expiry, after the submission) at least.
\<close>

definition scan_covers :: "no_fill_local_facts \<Rightarrow> gtime \<Rightarrow> no_fill_chain_scan_request \<Rightarrow> bool" where
  "scan_covers facts tradesAfter req \<longleftrightarrow>
     cq_order_hash req = o_venue_order_id (nf_order facts) \<and> cq_from_not_after req = tradesAfter \<and>
     (\<forall>submit. filter (\<lambda>a. at_kind a = OrderAttemptSubmit) (nf_attempts facts) = [submit] \<longrightarrow>
        tradesAfter + minute \<le> at_started_at submit \<and>
        (case at_venue_expires_at submit of Some t \<Rightarrow> t | None \<Rightarrow> at_started_at submit) + minute \<le> cq_to_not_before req)"

definition evidence_answered :: "'s resolver \<Rightarrow> string \<Rightarrow> 's \<Rightarrow> no_fill_local_facts \<Rightarrow> evidence \<Rightarrow> 's \<Rightarrow> bool" where
  "evidence_answered rz oid s facts evd s1 \<longleftrightarrow>
     (\<exists>sa sb sc sd se sf tradesAfter req.
        run_state (rz_facts rz oid) s = (Inr facts, sa) \<and>
        run_state (rz_clock rz) sa = (evd_resolved_at evd, sb) \<and>
        run_state (rz_read_order rz (nf_order facts)) sb = (Inr (evd_venue_order evd), sc) \<and>
        run_state (rz_trade_references rz (nf_order facts) tradesAfter) sc = (Inr (evd_venue_trades evd), sd) \<and>
        run_state (rz_open_orders rz (nf_order facts)) sd = (Inr (evd_venue_open_orders evd), se) \<and>
        run_state (rz_scan_order_filled rz req) se = (Inr (evd_chain evd), sf) \<and>
        run_state (rz_ctx_err rz) sf = (None, s1) \<and> scan_covers facts tradesAfter req)"

text \<open>
  What \<open>Apply\<close> is told: which order and which versions of the order and its reservation may be changed, the exact
  amounts to give back, and the encoded evidence with its digest.
\<close>

definition resolution_of :: "'s resolver \<Rightarrow> no_fill_local_facts \<Rightarrow> evidence \<Rightarrow> no_fill_resolution \<Rightarrow> bool" where
  "resolution_of rz facts evd res \<longleftrightarrow>
     nres_mode res = NoFillModeAuto \<and> nres_order_id res = o_id (nf_order facts) \<and>
     nres_execution_account_id res = oi_execution_account_id (o_intent (nf_order facts)) \<and>
     nres_expected_order_revision res = o_revision (nf_order facts) \<and>
     (\<exists>r. nf_reservation facts = Some r \<and> nres_expected_reservation_revision res = rv_revision r) \<and>
     nres_expected_release_balance res = er_balance (release_of facts) \<and>
     nres_expected_release_shares res = er_shares (release_of facts) \<and>
     nres_resolved_at res = evd_resolved_at evd \<and> rz_marshal rz evd = Inr (nres_evidence res) \<and>
     nres_evidence_sha256 res = rz_sha256_hex rz (nres_evidence res)"

lemma decide_simps [simp]: "dn_kind (decide k t) = k" "dn_reason (decide k t) = t"
  by (simp_all add: decide_def)

lemma no_fill_attempts_sound:
  "no_fill_attempts_error n as = None \<Longrightarrow>
   silent_attempts as \<and> n + int (length (filter (\<lambda>a. at_kind a = OrderAttemptSubmit) as)) = 1"
proof (induction as arbitrary: n)
  case (Cons a as)
  show ?case
  proof (cases "at_kind a")
    case OrderAttemptSubmit
    then have "no_fill_submit_error a = None" "no_fill_attempts_error (n + 1) as = None"
      using Cons.prems by (auto split: option.splits)
    then show ?thesis using Cons.IH [of "n + 1"] OrderAttemptSubmit
      by (auto simp: silent_attempts_def silent_submit_def no_fill_submit_error_def List.member_iff split: if_splits)
  next
    case OrderAttemptReconcile
    then have "no_fill_reconcile_error a = None" "no_fill_attempts_error n as = None"
      using Cons.prems by (auto split: option.splits)
    then show ?thesis using Cons.IH [of n] OrderAttemptReconcile
      by (auto simp: silent_attempts_def no_fill_reconcile_error_def split: if_splits)
  qed (use Cons.prems in auto)
qed (auto simp: silent_attempts_def split: if_splits)

lemma no_fill_history_sound:
  assumes "no_fill_history_error as statuses = None"
  shows "silent_attempts as" "set statuses \<subseteq> set no_fill_history_statuses"
    "\<exists>submit. filter (\<lambda>a. at_kind a = OrderAttemptSubmit) as = [submit]"
proof -
  have f: "filter (\<lambda>st. \<not> List.member no_fill_history_statuses st) statuses = []"
    using assms by (auto simp: no_fill_history_error_def split: list.splits)
  then show "set statuses \<subseteq> set no_fill_history_statuses" by (auto simp: filter_empty_conv List.member_iff)
  have "no_fill_attempts_error 0 as = None" using assms f by (simp add: no_fill_history_error_def)
  note n = no_fill_attempts_sound [OF this]
  then show "silent_attempts as" by simp
  have "length (filter (\<lambda>a. at_kind a = OrderAttemptSubmit) as) = 1" using n by simp
  then show "\<exists>submit. filter (\<lambda>a. at_kind a = OrderAttemptSubmit) as = [submit]" by (simp add: length_Suc_conv)
qed

lemma policy_normalize_bounds:
  assumes "release_policy_normalize p0 = Inr p"
  shows "15 * minute \<le> pl_grace p" "30 * minute \<le> pl_legacy_min_age p"
    "pl_after_expiry_chain_margin p < pl_grace p" "minute \<le> pl_after_expiry_chain_margin p"
    "minute \<le> pl_before_submit_margin p"
  using assms by (auto simp: release_policy_normalize_def Let_def split: if_splits)

lemma local_refusal_sound:
  assumes "local_refusal facts policy submit = None"
  shows "o_status (nf_order facts) = OrderStatusUnknown" "equal_fold (trim_space (oi_venue (o_intent (nf_order facts)))) ''polymarket''"
    "is_order_hash (o_venue_order_id (nf_order facts))" "zero_amount (o_filled_size (nf_order facts))"
    "zero_amount (o_filled_notional (nf_order facts))" "zero_amount (o_total_fees (nf_order facts))"
    "nf_fill_count facts = 0" "nf_fill_event_count facts = 0"
    "no_fill_history_error (nf_attempts facts) (nf_event_statuses facts) = None"
    "\<exists>r. nf_reservation facts = Some r \<and> untouched_reservation r"
    "\<forall>i \<in> set (nf_open_issues facts). no_fill_releasable_issue i"
    "pl_require_lease_free policy \<longrightarrow> \<not> nf_lease_held facts"
  using assms
  by (auto simp: local_refusal_def Let_def untouched_reservation_def reservation_closed_def filter_empty_conv
      split: if_splits option.splits list.splits)

lemma local_refusal_kind: "local_refusal facts policy submit = Some d \<Longrightarrow> dn_kind d \<noteq> DecisionResolve"
  by (auto simp: local_refusal_def Let_def split: option.splits if_splits list.splits)

lemma check_local_sound:
  assumes r: "check_local facts policy now = (gate, d)" "dn_kind d = DecisionResolve"
    and p: "release_policy_normalize p0 = Inr policy"
  shows "local_silence policy facts now" "lg_release gate = release_of facts" "lg_submit gate \<noteq> None"
    "lg_reservation gate = nf_reservation facts" "nf_reservation facts \<noteq> None"
    "scan_covers facts (lg_trades_after gate) (lg_scan_request gate)"
proof -
  note b = policy_normalize_bounds [OF p]
  let ?subs = "filter (\<lambda>a. at_kind a = OrderAttemptSubmit) (nf_attempts facts)"
  have n: "local_refusal facts policy (if ?subs = [] then None else Some (last ?subs)) = None"
    using r local_refusal_kind by (cases "local_refusal facts policy (if ?subs = [] then None else Some (last ?subs))")
      (auto simp: check_local_def Let_def)
  note l = local_refusal_sound [OF n]
  note h = no_fill_history_sound [OF l(9)]
  obtain a where a: "?subs = [a]" using h(3) by blast
  obtain rv where rv: "nf_reservation facts = Some rv" "untouched_reservation rv" using l(10) by blast
  have n': "local_refusal facts policy (Some a) = None" using n a by simp
  have "gate_open policy a now" using r b n' a
    by (auto simp: check_local_def Let_def time_gate_of_def gate_open_def split: option.splits if_splits)
  then show "local_silence policy facts now" using l h a rv by (auto simp: local_silence_def Let_def)
  show "lg_release gate = release_of facts" "lg_submit gate \<noteq> None" "lg_reservation gate = nf_reservation facts"
    using r n' a by (auto simp: check_local_def Let_def split: option.splits if_splits)
  show "nf_reservation facts \<noteq> None" using rv(1) by simp
  show "scan_covers facts (lg_trades_after gate) (lg_scan_request gate)" using r b n' a
    by (auto simp: scan_covers_def check_local_def Let_def time_gate_of_def split: option.splits if_splits)
qed

lemma decide_venue_sound:
  assumes "dn_kind (decide_venue r) = DecisionResolve"
  shows "\<exists>read trades opened. rr_order r = Inr read \<and> nr_not_found read \<and> rr_trades r = Inr trades \<and> ts_references trades = [] \<and>
    rr_open r = Inr opened \<and> \<not> os_contains opened"
  using assms by (auto simp: decide_venue_def split: sum.splits if_splits list.splits)

lemma decide_chain_sound:
  assumes "dn_kind (decide_chain r) = DecisionResolve"
  shows "\<exists>ch. rr_chain r = Inr ch \<and> ch_matches ch = [] \<and> 3 \<le> length (ch_controls ch) \<and> (\<forall>c \<in> set (ch_controls ch). 1 \<le> cc_logs c) \<and>
    ch_to_block_hash_before ch \<noteq> [] \<and> ch_to_block_hash_before ch = ch_to_block_hash_after ch"
  using assms by (auto simp: decide_chain_def filter_empty_conv not_less split: sum.splits if_splits list.splits)

text \<open>The document that is built holds the answers, and the resolution made of it is the one for these facts.\<close>

lemma finish_evaluation_sound:
  assumes f: "finish_evaluation rz evaluation gate remote actor now = Inr result"
    and v: "rr_order remote = Inr read" "rr_trades remote = Inr trades" "rr_open remote = Inr opened" "rr_chain remote = Inr ch"
    and g: "lg_release gate = release_of (ea_facts evaluation)" "lg_submit gate \<noteq> None"
      "lg_reservation gate = nf_reservation (ea_facts evaluation)" "nf_reservation (ea_facts evaluation) \<noteq> None"
  shows "\<exists>evd. ea_evidence result = Some evd \<and> evd_resolved_at evd = now \<and> evd_venue_order evd = read \<and>
    evd_venue_trades evd = trades \<and> evd_venue_open_orders evd = opened \<and> evd_chain evd = ch \<and>
    (ea_mode evaluation = NoFillModeAuto \<longrightarrow> resolution_of rz (ea_facts evaluation) evd (resolution result evd))"
proof -
  obtain submit rv where o: "lg_submit gate = Some submit" "lg_reservation gate = Some rv" "nf_reservation (ea_facts evaluation) = Some rv"
    using g(2-4) by auto
  define evd where "evd = build_evidence (rz_binary_commit rz) (ea_facts evaluation) gate read trades opened ch submit rv
      (ea_mode evaluation) (if trim_space actor = [] then rz_actor rz else trim_space actor) (ea_reason evaluation) now"
  have e: "evd_venue_order evd = read" "evd_venue_trades evd = trades" "evd_venue_open_orders evd = opened" "evd_chain evd = ch"
    "evd_resolved_at evd = now" "evd_release evd = release_of (ea_facts evaluation)"
    by (simp_all add: evd_def build_evidence_def Let_def g(1))
  have r: "ea_evidence result = Some evd" "ea_facts result = ea_facts evaluation" "ea_mode result = ea_mode evaluation"
      "rz_marshal rz evd = Inr (ea_evidence_json result)" "ea_digest result = rz_sha256_hex rz (ea_evidence_json result)"
    using f by (auto simp: finish_evaluation_def Let_def o v encode_evidence_def evd_def [symmetric] split: sum.splits)
  have "resolution_of rz (ea_facts evaluation) evd (resolution result evd)" if "ea_mode evaluation = NoFillModeAuto"
    using that by (simp add: resolution_of_def resolution_def Let_def r e o(3))
  then show ?thesis using r(1) e by blast
qed

text \<open>Every call of the resolver except \<open>Apply\<close> keeps \<open>R\<close>.\<close>

definition reads_keep :: "('s \<Rightarrow> bool) \<Rightarrow> 's resolver \<Rightarrow> bool" where
  "reads_keep R rz \<longleftrightarrow>
     (\<forall>oid. keeps R (rz_facts rz oid)) \<and> (\<forall>res. keeps R (rz_record_shadow rz res)) \<and> (\<forall>oid. keeps R (rz_has_shadow rz oid)) \<and>
     (\<forall>o1. keeps R (rz_read_order rz o1)) \<and> (\<forall>o1 t. keeps R (rz_trade_references rz o1 t)) \<and> (\<forall>o1. keeps R (rz_open_orders rz o1)) \<and>
     (\<forall>req. keeps R (rz_scan_order_filled rz req)) \<and> keeps R (rz_ctx_err rz) \<and> keeps R (rz_clock rz)"

lemma reads_keepD:
  assumes "reads_keep R rz"
  shows "keeps R (rz_facts rz oid)" "keeps R (rz_record_shadow rz res)" "keeps R (rz_has_shadow rz oid)"
    "keeps R (rz_read_order rz o1)" "keeps R (rz_trade_references rz o1 t)" "keeps R (rz_open_orders rz o1)"
    "keeps R (rz_scan_order_filled rz req)" "keeps R (rz_ctx_err rz)" "keeps R (rz_clock rz)"
  using assms by (auto simp: reads_keep_def)

lemma wp_keeps:
  "keeps R m \<Longrightarrow> R s \<Longrightarrow> (\<And>x s'. run_state m s = (x, s') \<Longrightarrow> R s' \<Longrightarrow> Q x s') \<Longrightarrow> wp m Q s"
  by (rule wpI) (blast dest: keepsD)

lemma read_venue_keeps: "reads_keep R rz \<Longrightarrow> keeps R (read_venue rz o1 t)"
  unfolding read_venue_def by (intro keeps_rules reads_keepD)

lemma finish_evaluation_mode:
  "finish_evaluation rz evaluation gate remote actor now = Inr result \<Longrightarrow> ea_mode result = ea_mode evaluation"
  unfolding finish_evaluation_def Let_def by (auto split: option.splits sum.splits)

lemma decide_venue_chain [simp]: "decide_venue (r\<lparr>rr_chain := c, rr_window_not_reached := w\<rparr>) = decide_venue r"
  by (simp add: decide_venue_def cong: sum.case_cong list.case_cong if_cong)

lemma read_venue_answers:
  assumes "run_state (read_venue rz o1 t) s = (remote, s')" "dn_kind (decide_venue remote) = DecisionResolve"
  shows "\<exists>read trades opened s2 s3. run_state (rz_read_order rz o1) s = (Inr read, s2) \<and>
    run_state (rz_trade_references rz o1 t) s2 = (Inr trades, s3) \<and> run_state (rz_open_orders rz o1) s3 = (Inr opened, s') \<and>
    rr_order remote = Inr read \<and> rr_trades remote = Inr trades \<and> rr_open remote = Inr opened \<and>
    nr_not_found read \<and> ts_references trades = [] \<and> \<not> os_contains opened"
  using assms
  by (auto simp: read_venue_def Let_def decide_venue_def split: sum.splits if_splits list.splits prod.splits)

lemma evaluate_sound:
  assumes k: "reads_keep R rz" and s: "R s" and p: "release_policy_normalize p0 = Inr (rz_policy rz)"
  shows "wp (evaluate rz oid mode actor reason)
    (\<lambda>res s'. R s' \<and> (case res of Inl _ \<Rightarrow> True | Inr evaluation \<Rightarrow>
       dn_kind (ea_decision evaluation) = DecisionResolve \<longrightarrow>
         (\<exists>facts evd. ea_evidence evaluation = Some evd \<and> evidence_answered rz oid s facts evd s' \<and>
            complete_evidence (rz_policy rz) facts evd \<and>
            (mode = NoFillModeAuto \<longrightarrow> resolution_of rz facts evd (resolution evaluation evd))))) s"
proof -
  have final: "\<exists>facts evd. ea_evidence result = Some evd \<and> evidence_answered rz oid s facts evd s1 \<and>
       complete_evidence (rz_policy rz) facts evd \<and> (mode = NoFillModeAuto \<longrightarrow> resolution_of rz facts evd (resolution result evd))"
    if runs: "run_state (rz_facts rz oid) s = (Inr facts, sa)" "run_state (rz_clock rz) sa = (now, sb)"
        "check_local facts (rz_policy rz) now = (gate, d)" "dn_kind d = DecisionResolve"
        "run_state (read_venue rz (nf_order facts) (lg_trades_after gate)) sb = (remote, se)" "dn_kind (decide_venue remote) = DecisionResolve"
        "run_state (rz_scan_order_filled rz (lg_scan_request gate)) se = (chain, sf)" "run_state (rz_ctx_err rz) sf = (None, s1)"
      and remote': "remote' = remote\<lparr>rr_chain := chain, rr_window_not_reached := b\<rparr>" "dn_kind (decide_chain remote') = DecisionResolve"
      and fin: "finish_evaluation rz e gate remote' actor now = Inr result" "ea_facts e = facts" "ea_mode e = mode"
    for facts sa now sb gate d remote se chain sf s1 remote' b e result
  proof -
    note l = check_local_sound [OF runs(3,4) p]
    obtain read trades opened s2 s3
      where v: "run_state (rz_read_order rz (nf_order facts)) sb = (Inr read, s2)"
        "run_state (rz_trade_references rz (nf_order facts) (lg_trades_after gate)) s2 = (Inr trades, s3)"
        "run_state (rz_open_orders rz (nf_order facts)) s3 = (Inr opened, se)"
        "rr_order remote = Inr read" "rr_trades remote = Inr trades" "rr_open remote = Inr opened"
        "nr_not_found read" "ts_references trades = []" "\<not> os_contains opened"
      using read_venue_answers [OF runs(5,6)] by blast
    obtain ch where ch: "chain = Inr ch" "ch_matches ch = []" "3 \<le> length (ch_controls ch)" "\<forall>c \<in> set (ch_controls ch). 1 \<le> cc_logs c"
        "ch_to_block_hash_before ch \<noteq> []" "ch_to_block_hash_before ch = ch_to_block_hash_after ch"
      using decide_chain_sound [OF remote'(2)] remote'(1) by auto
    obtain evd where evd: "ea_evidence result = Some evd" "evd_resolved_at evd = now" "evd_venue_order evd = read"
        "evd_venue_trades evd = trades" "evd_venue_open_orders evd = opened" "evd_chain evd = ch"
        "mode = NoFillModeAuto \<longrightarrow> resolution_of rz facts evd (resolution result evd)"
      using finish_evaluation_sound [OF fin(1), of read trades opened ch] remote'(1) v(4-6) ch(1) l(2-5) fin(2,3) by auto
    have "evidence_answered rz oid s facts evd s1"
      unfolding evidence_answered_def evd(2-6) using runs(1,2,7,8) v(1-3) ch(1) l(6) by blast
    moreover have "complete_evidence (rz_policy rz) facts evd"
      using l(1) v(7-9) ch(2-6) by (simp add: complete_evidence_def remote_silence_def evd(2-6))
    ultimately show ?thesis using evd(1,7) by blast
  qed
  show ?thesis
    unfolding evaluate_def
    apply (intro wp_rules wp_keeps [OF reads_keepD(1) [OF k]] wp_keeps [OF reads_keepD(9) [OF k]] wp_keeps [OF read_venue_keeps [OF k]]
        wp_keeps [OF reads_keepD(7) [OF k]] wp_keeps [OF reads_keepD(8) [OF k]] s conjI; assumption?; (simp; fail)?)
    apply (split option.split, intro conjI impI allI; (simp; fail)?)
    apply (split sum.split, intro conjI impI allI; (simp; fail)?)
    by (hypsubst, rule final, (assumption | rule refl | (simp; fail))+)
qed

lemma evaluate_and_settle_sound:
  assumes k: "reads_keep R rz" and s: "R s" and p: "release_policy_normalize p0 = Inr (rz_policy rz)"
    and r: "run_state (evaluate_and_settle rz o1 mode) s = ((o', released, e), s')" and m: "mode \<noteq> NoFillModeOperator"
  shows "R s' \<and> \<not> released \<or> mode \<noteq> NoFillModeShadow \<and>
    (\<exists>facts evd res s1 applied. R s1 \<and> evidence_answered rz (o_id o1) s facts evd s1 \<and> complete_evidence (rz_policy rz) facts evd \<and>
       resolution_of rz facts evd res \<and> run_state (rz_apply rz res) s1 = (applied, s') \<and>
       (o', released, e) = (case applied of Inl x \<Rightarrow> (o1, False, Some x) | Inr o2 \<Rightarrow> (o2, True, None)))"
proof -
  obtain res s1 where ev: "run_state (evaluate rz (o_id o1) mode (rz_actor rz) []) s = (res, s1)" by (metis surj_pair)
  note w = wpD [OF evaluate_sound [OF k s p] ev]
  show ?thesis
  proof (cases "\<exists>evaluation evd. res = Inr evaluation \<and> dn_kind (ea_decision evaluation) = DecisionResolve \<and> ea_evidence evaluation = Some evd")
    case False
    then have "run_state (evaluate_and_settle rz o1 mode) s = ((o', released, e), s') \<Longrightarrow> \<not> released \<and> s' = s1"
      by (auto simp: evaluate_and_settle_def ev split: sum.splits decision_kind.splits option.splits)
    then show ?thesis using r w by simp
  next
    case True
    then obtain evaluation evd where t: "res = Inr evaluation" "dn_kind (ea_decision evaluation) = DecisionResolve"
        "ea_evidence evaluation = Some evd" by blast
    then obtain facts where c: "evidence_answered rz (o_id o1) s facts evd s1" "complete_evidence (rz_policy rz) facts evd"
        "mode = NoFillModeAuto \<longrightarrow> resolution_of rz facts evd (resolution evaluation evd)" and R1: "R s1"
      using w by auto
    have q: "run_state (settle_resolution rz o1 mode (resolution evaluation evd)) s1 = ((o', released, e), s')"
      using r by (simp add: evaluate_and_settle_def ev t)
    show ?thesis
    proof (cases "mode = NoFillModeShadow")
      case True
      then show ?thesis using q keepsD [OF reads_keepD(2) [OF k] R1]
        by (auto simp: settle_resolution_def split_def) (metis prod.collapse)
    next
      case False
      then have auto: "mode = NoFillModeAuto" using m by (cases mode) auto
      obtain applied s2 where a: "run_state (rz_apply rz (resolution evaluation evd)) s1 = (applied, s2)" by (metis surj_pair)
      have "s2 = s'" "(o', released, e) = (case applied of Inl x \<Rightarrow> (o1, False, Some x) | Inr o2 \<Rightarrow> (o2, True, None))"
        using q False by (auto simp: settle_resolution_def a split: sum.splits)
      then show ?thesis using a c auto R1 False by blast
    qed
  qed
qed

lemma new_resolver_fields:
  assumes "new_resolver p = Inr rz"
  shows "release_policy_normalize (rz_policy p) = Inr (rz_policy rz)"
    "rz_mode rz = (if rz_mode p = [] then ModeShadow else rz_mode p)"
  using assms by (auto simp: new_resolver_def Let_def split: sum.splits)

text \<open>
  C7. A no-fill release rests on what the reads of this very run answered. Let \<open>R\<close> be any property of the world that
  the reads and the shadow record keep. After \<open>ResolveUnaccepted\<close> of a resolver built by \<open>New\<close>, either \<open>R\<close> still holds
  and nothing is reported as released, or the resolver is neither off nor in shadow mode, and its one last call was
  \<open>Apply\<close>, after it had asked, one after the other, the ledger for the facts, the clock, the venue for the order, its trades and
  its open orders, and the chain: the ledger answered with an UNKNOWN Polymarket order without fills, one submit
  attempt of unknown outcome, recorded reads that never revealed the order and an untouched reservation; the clock answered past the time gate; the venue answered
  that it has no such order, no trade and no open order of it; and the chain scan, from before the submission to
  after the expiry, answered with no match, with working control blocks and a stable range. \<open>Apply\<close> was told exactly that order, its revision and
  that of the reservation, the amounts that were reserved, and the encoding of these answers, and the outcome reported is its answer.
\<close>

theorem no_fill_release_needs_evidence:
  assumes n: "new_resolver p = Inr rz" and k: "reads_keep R rz" and s: "R s"
    and r: "run_state (resolve_unaccepted rz o1) s = ((o', released, e), s')"
  shows "R s' \<and> \<not> released \<or> rz_mode rz \<notin> {ModeOff, ModeShadow} \<and>
    (\<exists>facts evd res s1 applied. R s1 \<and> evidence_answered rz (o_id o1) s facts evd s1 \<and> complete_evidence (rz_policy rz) facts evd \<and>
       resolution_of rz facts evd res \<and> run_state (rz_apply rz res) s1 = (applied, s') \<and>
       (o', released, e) = (case applied of Inl x \<Rightarrow> (o1, False, Some x) | Inr o2 \<Rightarrow> (o2, True, None)))"
proof -
  note settled = evaluate_and_settle_sound [OF k _ new_resolver_fields(1) [OF n]]
  consider "rz_mode rz = ModeOff" | "rz_mode rz = ModeShadow" | "rz_mode rz \<notin> {ModeOff, ModeShadow}" by blast
  then show ?thesis
  proof cases
    case 1
    then show ?thesis using r s by (auto simp: resolve_unaccepted_def)
  next
    case 2
    obtain b s1 where h: "run_state (rz_has_shadow rz (o_id o1)) s = (b, s1)" by (metis surj_pair)
    have R1: "R s1" by (rule keepsD [OF reads_keepD(3) [OF k] s h])
    show ?thesis
    proof (cases "b = Inr False")
      case True
      then have "run_state (evaluate_and_settle rz o1 NoFillModeShadow) s1 = ((o', released, e), s')"
        using r 2 by (simp add: resolve_unaccepted_def h ModeOff_def ModeShadow_def)
      from settled [OF R1 this] show ?thesis by simp
    next
      case False
      then show ?thesis using r 2 R1
        by (cases b) (auto simp: resolve_unaccepted_def h ModeOff_def ModeShadow_def split: bool.splits)
    qed
  next
    case 3
    then have "run_state (evaluate_and_settle rz o1 NoFillModeAuto) s = ((o', released, e), s')"
      using r by (simp add: resolve_unaccepted_def)
    from settled [OF s this] 3 show ?thesis by auto
  qed
qed

text \<open>A stuck order, a venue and a chain that never saw it, and a ledger that counts the applied releases.\<close>

definition stuck_order :: order where
  "stuck_order = sample_order\<lparr>o_intent := (o_intent sample_order)\<lparr>oi_venue := ''polymarket''\<rparr>, o_status := OrderStatusUnknown,
     o_venue_order_id := ''0x'' @ replicate 64 (CHR ''a''), o_filled_size := ''0'', o_filled_notional := ''0'', o_total_fees := ''0'',
     o_created_at := 100 * hour\<rparr>"

definition stuck_submit :: order_attempt where
  "stuck_submit = \<lparr>at_id = ''a1'', at_order_id = o_id stuck_order, at_sequence = 1, at_kind = OrderAttemptSubmit,
     at_outcome = AttemptOutcomeUnknown, at_request_fingerprint = [], at_venue_order_id = [], at_venue_status = [],
     at_http_status = 0, at_error_code = ''CLOB_TRANSPORT_UNAVAILABLE'', at_error_message = [], at_started_at = 100 * hour,
     at_completed_at = None, at_venue_expires_at = Some (101 * hour)\<rparr>"

definition stuck_facts :: no_fill_local_facts where
  "stuck_facts = \<lparr>nf_order = stuck_order, nf_attempts = [stuck_submit], nf_event_statuses = [OrderStatusReceived, OrderStatusUnknown],
     nf_fill_count = 0, nf_fill_event_count = 0, nf_reservation = Some (paper_new_reservation 1 stuck_order),
     nf_open_issues = [], nf_lease_held = False\<rparr>"

definition silent_chain :: no_fill_chain_evidence where
  "silent_chain = zero_chain\<lparr>ch_to_block_hash_before := ''0x1'', ch_to_block_hash_after := ''0x1'',
     ch_controls := replicate 3 \<lparr>cc_block_number = 7, cc_logs = 2\<rparr>\<rparr>"

definition stuck_params :: "nat resolver" where
  "stuck_params = \<lparr>rz_facts = (\<lambda>_. State_Monad.return (Inr stuck_facts)),
     rz_apply = (\<lambda>res. do { State_Monad.update Suc; State_Monad.return (Inr (stuck_order\<lparr>o_status := OrderStatusCancelled\<rparr>)) }),
     rz_record_shadow = (\<lambda>_. State_Monad.return (Inr True)), rz_has_shadow = (\<lambda>_. State_Monad.return (Inr False)),
     rz_read_order = (\<lambda>_. State_Monad.return (Inr (zero_order_read\<lparr>nr_not_found := True\<rparr>))),
     rz_trade_references = (\<lambda>_ _. State_Monad.return (Inr zero_trade_scan)), rz_open_orders = (\<lambda>_. State_Monad.return (Inr zero_open_scan)),
     rz_scan_order_filled = (\<lambda>_. State_Monad.return (Inr silent_chain)), rz_ctx_err = State_Monad.return None,
     rz_clock = State_Monad.return (102 * hour),
     rz_policy = \<lparr>pl_grace = 0, pl_before_submit_margin = 0, pl_after_expiry_chain_margin = 0, pl_max_chunks = 0,
       pl_allow_legacy_no_expiry = False, pl_legacy_min_age = 0, pl_require_lease_free = False\<rparr>,
     rz_mode = ''on'', rz_actor = [], rz_sha256_hex = (\<lambda>s. s), rz_marshal = (\<lambda>_. Inr ''{}''), rz_binary_commit = []\<rparr>"

definition stuck_resolver :: "nat resolver" where
  "stuck_resolver = projr (new_resolver stuck_params)"

lemma stuck_resolver_built: "new_resolver stuck_params = Inr stuck_resolver"
proof -
  have "\<not> isl (new_resolver stuck_params)" by code_simp
  then show ?thesis by (simp add: stuck_resolver_def)
qed

lemma stuck_run: "run_state (resolve_unaccepted stuck_resolver stuck_order) 0 = ((stuck_order\<lparr>o_status := OrderStatusCancelled\<rparr>, True, None), 1)"
  by code_simp

lemma stuck_reads_keep: "reads_keep (\<lambda>n. n = 0) stuck_resolver"
proof -
  obtain a b c where eq: "stuck_resolver = stuck_params\<lparr>rz_policy := a, rz_mode := b, rz_actor := c\<rparr>"
    using stuck_resolver_built unfolding new_resolver_def Let_def by (clarsimp split: sum.splits) (metis)
  show ?thesis unfolding eq by (simp add: reads_keep_def stuck_params_def keeps_return)
qed

theorem no_fill_release_needs_evidence_witness:
  "\<exists>facts evd res applied. evidence_answered stuck_resolver (o_id stuck_order) 0 facts evd 0 \<and>
     complete_evidence (rz_policy stuck_resolver) facts evd \<and> resolution_of stuck_resolver facts evd res \<and>
     run_state (rz_apply stuck_resolver res) 0 = (applied, 1)"
  using no_fill_release_needs_evidence [OF stuck_resolver_built stuck_reads_keep refl stuck_run] by auto

text \<open>
  \<open>New\<close> accepts a mode in any spelling and keeps the spelling, so a resolver configured with \<open>OFF\<close> is not off: its
  automatic path may release.
\<close>

lemma mode_spelling_is_kept:
  assumes "new_resolver p = Inr rz" "rz_mode p = ''OFF''"
  shows "resolve_unaccepted rz o1 = evaluate_and_settle rz o1 NoFillModeAuto"
  using new_resolver_fields(2) [OF assms(1)] assms(2) by (simp add: resolve_unaccepted_def ModeOff_def ModeShadow_def)

lemma off_is_accepted_in_capitals: "parse_mode ''OFF'' = Inr ModeOff"
  by code_simp

end
