(* ===== verification/Market_Validation.thy ===== *)
theory Market_Validation
  imports Ports Rounding
begin

text \<open>
  \<open>src/internal/service/marketvalidation/service.go\<close> with the market and order book types of \<open>market.go\<close>,
  \<open>decision.go\<close> and \<open>builders.go\<close>: the live check of an intent against the market's metadata and its latest order book.
  The market universe, the order books, the fee schedules and the clock are parameters. A check that passes is \<open>None\<close>.
  The theorems say what a passed BUY check guarantees and that the quantity of an IOC never exceeds what the book shows.
\<close>

section \<open>Markets and order books\<close>

record market_outcome =
  mo_index :: int
  mo_name :: string
  mo_token_id :: string

record market_snapshot =
  ms_market_id :: string
  ms_condition_id :: string
  ms_active :: bool
  ms_closed :: bool
  ms_resolved :: bool
  ms_closed_at :: "gtime option"
  ms_paused :: bool
  ms_accepting_orders :: bool
  ms_neg_risk :: bool
  ms_tick_size :: decimal
  ms_outcomes :: "market_outcome list"
  ms_observed_at :: gtime

record price_level =
  pv_price :: decimal
  pv_size :: decimal

definition OrderBookStatusOK :: string where "OrderBookStatusOK = ''OK''"
definition OrderBookStatusEmpty :: string where "OrderBookStatusEmpty = ''EMPTY''"
definition OrderBookStatusMissing :: string where "OrderBookStatusMissing = ''MISSING''"
definition OrderBookStatusError :: string where "OrderBookStatusError = ''ERROR''"

lemmas book_status_defs = OrderBookStatusOK_def OrderBookStatusEmpty_def OrderBookStatusMissing_def OrderBookStatusError_def

record order_book =
  ob_market_source :: market_source
  ob_market_id :: string
  ob_condition_id :: string
  ob_outcome_index :: int
  ob_token_id :: string
  ob_outcome_id :: string
  ob_status :: string
  ob_source_at :: gtime
  ob_observed_at :: gtime
  ob_tick_size :: decimal
  ob_min_order_size :: decimal
  ob_depth_limit :: int
  ob_best_bid :: decimal
  ob_best_ask :: decimal
  ob_bids :: "price_level list"
  ob_asks :: "price_level list"
  ob_error_code :: string

definition compare_fails :: "decimal \<Rightarrow> decimal \<Rightarrow> (int \<Rightarrow> bool) \<Rightarrow> bool" where
  "compare_fails a b p = (case dec_compare a b of Inl _ \<Rightarrow> True | Inr c \<Rightarrow> p c)"

fun validate_levels_from :: "nat \<Rightarrow> decimal option \<Rightarrow> price_level list \<Rightarrow> bool \<Rightarrow> err" where
  "validate_levels_from index previous [] descending = None"
| "validate_levels_from index previous (level # levels) descending =
     (if not_positive (pv_price level) then Some (ErrText (''level '' @ show_nat index @ '' price must be positive''))
      else if not_positive (pv_size level) then Some (ErrText (''level '' @ show_nat index @ '' size must be positive''))
      else if (case previous of None \<Rightarrow> False
               | Some p \<Rightarrow> compare_fails p (pv_price level) (\<lambda>c. descending \<and> c < 0 \<or> \<not> descending \<and> c > 0))
      then Some (ErrText ''levels are not sorted'')
      else validate_levels_from (Suc index) (Some (pv_price level)) levels descending)"

definition validate_levels :: "price_level list \<Rightarrow> bool \<Rightarrow> err" where
  "validate_levels levels descending = validate_levels_from 0 None levels descending"

definition book_validate :: "order_book \<Rightarrow> err" where
  "book_validate book =
     (if trim_space (ob_market_id book) = [] \<or> trim_space (ob_condition_id book) = [] \<or> trim_space (ob_token_id book) = []
      then Some (ErrText ''orderbook market, condition, and token identifiers are required'')
      else if canonical_instrument_id (ob_market_source book) (ob_market_id book) (ob_condition_id book) (ob_outcome_id book) (ob_token_id book)
              \<noteq> Inr (trim_space (ob_token_id book))
      then Some (ErrText ''orderbook venue identity is invalid'')
      else if ob_outcome_index book \<noteq> 0 \<and> ob_outcome_index book \<noteq> 1 then Some (ErrText ''orderbook outcome index must be 0 or 1'')
      else if is_zero_time (ob_observed_at book) then Some (ErrText ''orderbook observed_at is required'')
      else if ob_depth_limit book < 0 \<or> ob_depth_limit book > 15 then Some (ErrText ''orderbook depth_limit must be between 0 and 15'')
      else if \<not> dec_is_empty (ob_tick_size book) \<and> not_positive (ob_tick_size book)
      then Some (ErrText ''orderbook tick_size must be positive'')
      else if \<not> dec_is_empty (ob_min_order_size book) \<and> not_positive (ob_min_order_size book)
      then Some (ErrText ''orderbook min_order_size must be positive'')
      else if ob_status book = OrderBookStatusOK \<and>
              (is_zero_time (ob_source_at book) \<or> ob_bids book = [] \<or> ob_asks book = [])
      then Some (ErrText ''OK orderbook requires source time and both sides'')
      else if ob_status book \<notin> {OrderBookStatusOK, OrderBookStatusEmpty, OrderBookStatusMissing, OrderBookStatusError}
      then Some (ErrText (''unsupported orderbook status '' @ quoted (ob_status book)))
      else if length (ob_bids book) > 15 \<or> length (ob_asks book) > 15 then Some (ErrText ''orderbook cannot exceed 15 levels per side'')
      else case validate_levels (ob_bids book) True of
        Some e \<Rightarrow> Some (wrap_error ''invalid bids'' e)
      | None \<Rightarrow>
      (case validate_levels (ob_asks book) False of
        Some e \<Rightarrow> Some (wrap_error ''invalid asks'' e)
      | None \<Rightarrow>
      if \<not> dec_is_empty (ob_best_bid book) \<and> (ob_bids book = [] \<or> \<not> dec_equal (ob_best_bid book) (pv_price (hd (ob_bids book))))
      then Some (ErrText ''best_bid must equal bids[0].price'')
      else if \<not> dec_is_empty (ob_best_ask book) \<and> (ob_asks book = [] \<or> \<not> dec_equal (ob_best_ask book) (pv_price (hd (ob_asks book))))
      then Some (ErrText ''best_ask must equal asks[0].price'') else None))"

record book_target =
  bt_market_source :: market_source
  bt_market_id :: string
  bt_condition_id :: string
  bt_outcome_index :: int
  bt_token_id :: string
  bt_outcome_id :: string

definition book_target_build :: "book_target \<Rightarrow> go_error + book_target" where
  "book_target_build p =
     (let target = \<lparr>bt_market_source = inferred_market_source (bt_market_source p) (bt_condition_id p),
            bt_market_id = trim_space (bt_market_id p), bt_condition_id = trim_space (bt_condition_id p),
            bt_outcome_index = bt_outcome_index p, bt_token_id = trim_space (bt_token_id p),
            bt_outcome_id = to_upper (trim_space (bt_outcome_id p))\<rparr> in
      if canonical_instrument_id (bt_market_source target) (bt_market_id target) (bt_condition_id target) (bt_outcome_id target) (bt_token_id target)
         \<noteq> Inr (bt_token_id target)
      then Inl (ErrText ''book target venue identity is invalid'')
      else if bt_outcome_index target \<noteq> 0 \<and> bt_outcome_index target \<noteq> 1
      then Inl (ErrText ''book target outcome index must be 0 or 1'')
      else Inr target)"

text \<open>The decimals that \<open>Build\<close> requires to be positive; Go ranges over a map, so only the name in the message may differ.\<close>

definition required_positive :: "market_validation \<Rightarrow> (string \<times> decimal) list" where
  "required_positive v =
     filter (\<lambda>(name, value). \<not> (mv_book_status v = OrderBookStatusEmpty \<and> (name = ''best_bid'' \<or> name = ''best_ask'') \<and> dec_is_empty value))
       [(''tick_size'', mv_tick_size v), (''best_bid'', mv_best_bid v), (''best_ask'', mv_best_ask v), (''worst_price'', mv_worst_price v)]"

definition trim_reserve :: "buy_fee_reserve \<Rightarrow> buy_fee_reserve" where
  "trim_reserve r = r\<lparr>br_source := trim_space (br_source r), br_reason := trim_space (br_reason r)\<rparr>"

definition executable_size_error :: "market_validation \<Rightarrow> err" where
  "executable_size_error v =
     (if dec_is_empty (mv_executable_size v) then None
      else if not_positive (mv_executable_size v) then Some (ErrText ''market validation executable_size must be positive'')
      else if \<not> dec_is_empty (mv_min_order_size v) \<and> compare_fails (mv_executable_size v) (mv_min_order_size v) (\<lambda>c. c < 0)
      then Some (ErrText ''market validation executable_size is below min_order_size'') else None)"

text \<open>The checks of \<open>Build\<close> on the trimmed evidence, up to the fee reserve.\<close>

definition market_validation_error :: "market_validation \<Rightarrow> err" where
  "market_validation_error v =
     (if mv_mode v = [] \<or> mv_token_id v = [] \<or> mv_outcome_name v = [] \<or> is_zero_time (mv_validated_at v) \<or>
         is_zero_time (mv_market_observed_at v) \<or> is_zero_time (mv_strategy_snapshot_at v) \<or>
         is_zero_time (mv_latest_book_source_at v) \<or> is_zero_time (mv_latest_book_observed_at v)
      then Some (ErrText ''market validation identity and timestamps are required'')
      else if mv_outcome_index v \<noteq> 0 \<and> mv_outcome_index v \<noteq> 1
      then Some (ErrText ''market validation outcome index must be 0 or 1'')
      else if mv_book_status v \<noteq> [] \<and> mv_book_status v \<noteq> OrderBookStatusOK \<and> mv_book_status v \<noteq> OrderBookStatusEmpty
      then Some (ErrText ''market validation requires a successfully fetched orderbook'')
      else if mv_book_status v = OrderBookStatusEmpty \<and> \<not> dec_is_empty (mv_best_bid v) \<and> \<not> dec_is_empty (mv_best_ask v)
      then Some (ErrText ''EMPTY market validation cannot contain both best bid and ask'')
      else case filter (\<lambda>(name, value). not_positive value) (required_positive v) of
        (name, _) # _ \<Rightarrow> Some (ErrText (''market validation '' @ name @ '' must be positive''))
      | [] \<Rightarrow>
      if \<not> dec_is_empty (mv_min_order_size v) \<and> not_positive (mv_min_order_size v)
      then Some (ErrText ''market validation min_order_size must be positive'')
      else executable_size_error v)"

definition market_validation_build :: "market_validation \<Rightarrow> go_error + market_validation" where
  "market_validation_build p =
     (let v = p\<lparr>mv_mode := trim_space (mv_mode p), mv_outcome_name := trim_space (mv_outcome_name p), mv_token_id := trim_space (mv_token_id p)\<rparr> in
      case market_validation_error v of
        Some e \<Rightarrow> Inl e
      | None \<Rightarrow>
      (case mv_buy_fee_reserve v of
        None \<Rightarrow> Inr v
      | Some r \<Rightarrow>
          (case buy_fee_reserve_validate (trim_reserve r) of
             Some e \<Rightarrow> Inl (wrap_error ''market validation buy_fee_reserve'' e)
           | None \<Rightarrow> Inr (v\<lparr>mv_buy_fee_reserve := Some (trim_reserve r)\<rparr>))))"


section \<open>The checks\<close>

definition validate_age :: "string \<Rightarrow> gtime \<Rightarrow> gtime \<Rightarrow> duration \<Rightarrow> duration \<Rightarrow> err" where
  "validate_age pre observedAt now maxAge maxFutureSkew =
     (if is_zero_time observedAt then Some (ErrRejection (pre @ ''_MISSING'') ''required timestamp is missing'')
      else if observedAt > now + maxFutureSkew
      then Some (ErrRejection (pre @ ''_FUTURE'') ''timestamp is later than the allowed clock skew'')
      else if now - observedAt > maxAge
      then Some (ErrRejection (pre @ ''_STALE'') ''timestamp is older than the configured maximum age'') else None)"

definition validate_not_future :: "string \<Rightarrow> gtime \<Rightarrow> gtime \<Rightarrow> duration \<Rightarrow> err" where
  "validate_not_future pre observedAt now maxFutureSkew =
     (if is_zero_time observedAt then Some (ErrRejection (pre @ ''_MISSING'') ''required timestamp is missing'')
      else if observedAt > now + maxFutureSkew
      then Some (ErrRejection (pre @ ''_FUTURE'') ''timestamp is later than the allowed clock skew'') else None)"

definition outcome_at :: "market_outcome list \<Rightarrow> int \<Rightarrow> market_outcome option" where
  "outcome_at outcomes index = List.find (\<lambda>x. mo_index x = index) outcomes"

definition validate_worst_price :: "side \<Rightarrow> decimal \<Rightarrow> decimal \<Rightarrow> decimal \<Rightarrow> err" where
  "validate_worst_price s worstPrice bestBid bestAsk =
     (if s = SideBuy then
        (if compare_fails bestAsk worstPrice (\<lambda>c. c > 0)
         then Some (ErrRejection ''PRICE_DRIFT'' ''latest best ask exceeds the strategy worst_price'') else None)
      else if s = SideSell then
        (if compare_fails bestBid worstPrice (\<lambda>c. c < 0)
         then Some (ErrRejection ''PRICE_DRIFT'' ''latest best bid is below the strategy worst_price'') else None)
      else Some (ErrRejection ''INVALID_SIDE'' ''order side is not supported''))"

fun validate_outcomes_from :: "int list \<Rightarrow> string list \<Rightarrow> market_outcome list \<Rightarrow> err" where
  "validate_outcomes_from indexes tokens [] = None"
| "validate_outcomes_from indexes tokens (out # outcomes) =
     (let name = trim_space (mo_name out); tokenID = trim_space (mo_token_id out) in
      if mo_index out \<noteq> 0 \<and> mo_index out \<noteq> 1 \<or> name = [] \<or> tokenID = []
      then Some (ErrRejection ''MARKET_METADATA_INVALID'' ''authoritative outcome identity is incomplete'')
      else if mo_index out \<in> set indexes
      then Some (ErrRejection ''MARKET_METADATA_INVALID'' ''authoritative outcome indexes are duplicated'')
      else if tokenID \<in> set tokens
      then Some (ErrRejection ''MARKET_METADATA_INVALID'' ''authoritative outcome token_ids are duplicated'')
      else validate_outcomes_from (mo_index out # indexes) (tokenID # tokens) outcomes)"

definition validate_outcome_mapping :: "market_outcome list \<Rightarrow> err" where
  "validate_outcome_mapping outcomes =
     (if length outcomes \<noteq> 2
      then Some (ErrRejection ''MARKET_METADATA_INVALID'' ''binary market must contain exactly two authoritative outcomes'')
      else validate_outcomes_from [] [] outcomes)"

fun validate_price_list :: "(string \<times> decimal) list \<Rightarrow> decimal \<Rightarrow> err" where
  "validate_price_list [] tickSize = None"
| "validate_price_list ((name, value) # prices) tickSize =
     (if compare_fails value ''1'' (\<lambda>c. c > 0) then Some (ErrRejection ''PRICE_OUT_OF_RANGE'' (name @ '' must be in (0,1]''))
      else if dec_is_multiple_of value tickSize \<noteq> Inr True
      then Some (ErrRejection ''PRICE_TICK_MISMATCH'' (name @ '' is not an exact multiple of the current tick_size''))
      else validate_price_list prices tickSize)"

definition validate_prices :: "order_intent \<Rightarrow> decimal \<Rightarrow> err" where
  "validate_prices i tickSize =
     (if oi_type i = OrderTypeLimit \<and> \<not> dec_equal (oi_price i) (oi_worst_price i)
      then Some (ErrRejection ''LIMIT_PRICE_MISMATCH'' ''limit price must equal the strategy worst_price'')
      else validate_price_list ((''worst_price'', oi_worst_price i) # (if oi_type i = OrderTypeLimit then [(''price'', oi_price i)] else [])) tickSize)"

definition validate_market_tradable :: "market_snapshot \<Rightarrow> gtime \<Rightarrow> duration \<Rightarrow> duration \<Rightarrow> err" where
  "validate_market_tradable m now maxUniverseAge maxFutureSkew =
     (case validate_age ''MARKET_METADATA'' (ms_observed_at m) now maxUniverseAge maxFutureSkew of
        Some e \<Rightarrow> Some e
      | None \<Rightarrow>
          if ms_resolved m then Some (ErrRejection ''MARKET_RESOLVED'' ''market is already resolved'')
          else if ms_closed m \<or> \<not> ms_active m then Some (ErrRejection ''MARKET_CLOSED'' ''market is closed or inactive'')
          else if ms_paused m then Some (ErrRejection ''MARKET_PAUSED'' ''market trading is paused'')
          else if \<not> ms_accepting_orders m then Some (ErrRejection ''MARKET_NOT_ACCEPTING_ORDERS'' ''market is not accepting orders'')
          else None)"

definition validate_market_identity :: "order_intent \<Rightarrow> market_snapshot \<Rightarrow> err" where
  "validate_market_identity i m =
     (if trim_space (ms_condition_id m) \<noteq> oi_condition_id i \<or> trim_space (ms_market_id m) \<noteq> oi_market_id i
      then Some (ErrRejection ''MARKET_IDENTITY_MISMATCH'' ''condition_id no longer resolves to the submitted market_id'')
      else if not_positive (ms_tick_size m)
      then Some (ErrRejection ''INVALID_TICK_SIZE'' ''Market Universe Service returned an invalid tick_size'') else None)"

definition require_market_context :: "order_intent \<Rightarrow> err" where
  "require_market_context i =
     (if oi_condition_id i = [] \<or> oi_outcome_index i = None \<or> oi_outcome_name i = [] \<or> oi_expected_neg_risk i = None \<or>
         oi_market_snapshot_at i = None \<or> dec_is_empty (oi_worst_price i)
      then Some (ErrRejection ''MARKET_CONTEXT_REQUIRED''
        ''condition_id, outcome identity, expected_neg_risk, market_snapshot_at, and worst_price are required'')
      else None)"

text \<open>\<open>floorRat\<close>: \<open>Quo\<close> of a non-negative numerator rounds down.\<close>

definition floor_rat :: "rat \<Rightarrow> nat \<Rightarrow> rat" where
  "floor_rat value scale =
     (let multiplier = 10 ^ scale; (a, b) = quotient_of (value * of_int multiplier) in of_int (int_quo a b) / of_int multiplier)"

fun protected_depth :: "side \<Rightarrow> decimal \<Rightarrow> rat \<Rightarrow> price_level list \<Rightarrow> go_error + rat" where
  "protected_depth s worstPrice depth [] = Inr depth"
| "protected_depth s worstPrice depth (level # levels) =
     (case dec_compare (pv_price level) worstPrice of
        Inl _ \<Rightarrow> Inl (ErrRejection ''LATEST_BOOK_INVALID'' ''latest orderbook level price is invalid'')
      | Inr c \<Rightarrow>
          if \<not> (s = SideBuy \<and> c \<le> 0 \<or> s = SideSell \<and> c \<ge> 0) then protected_depth s worstPrice depth levels
          else case dec_multiply (pv_size level) ''1'' of
            Inl _ \<Rightarrow> Inl (ErrRejection ''LATEST_BOOK_INVALID'' ''latest orderbook level size is invalid'')
          | Inr shares \<Rightarrow> protected_depth s worstPrice (depth + shares) levels)"

definition size_decimal_places :: nat where "size_decimal_places = 2"

definition protected_executable_size :: "order_intent \<Rightarrow> order_book \<Rightarrow> go_error + decimal" where
  "protected_executable_size i book =
     (case protected_depth (oi_side i) (oi_worst_price i) 0 (if oi_side i = SideSell then ob_bids book else ob_asks book) of
        Inl e \<Rightarrow> Inl e
      | Inr depth \<Rightarrow>
      case dec_multiply (oi_size i) ''1'' of
        Inl _ \<Rightarrow> Inl (ErrRejection ''INVALID_SIZE'' ''order size is not a positive decimal'')
      | Inr requested \<Rightarrow>
      if requested \<le> 0 then Inl (ErrRejection ''INVALID_SIZE'' ''order size is not a positive decimal'')
      else
        (let visible = floor_rat depth size_decimal_places in
         if visible \<le> 0
         then Inl (ErrRejection ''NO_PROTECTED_LIQUIDITY'' ''latest orderbook has no visible liquidity inside the strategy worst_price'')
         else
           (let executable = (if requested < visible then requested else visible) in
            if \<not> dec_is_empty (ob_min_order_size book) \<and>
               (case dec_multiply (ob_min_order_size book) ''1'' of Inl _ \<Rightarrow> True | Inr minimum \<Rightarrow> executable < minimum)
            then Inl (ErrRejection ''PROTECTED_LIQUIDITY_BELOW_MIN_ORDER_SIZE''
              (''only '' @ rat_float_string executable size_decimal_places @
               '' shares are executable inside worst_price, below the venue min_order_size '' @ ob_min_order_size book))
            else Inr (dec_canonical (rat_float_string executable size_decimal_places)))))"


section \<open>The service\<close>

record 's validator =
  vl_find_by_condition :: "string \<Rightarrow> ('s, go_error + market_snapshot option) state"
  vl_capture :: "gtime \<Rightarrow> book_target list \<Rightarrow> ('s, go_error + order_book list) state"
  vl_fee_schedules :: "(string \<Rightarrow> string \<Rightarrow> ('s, market_fee_schedule \<times> err) state) option"
  vl_max_universe_age :: duration
  vl_max_latest_book_age :: duration
  vl_max_future_skew :: duration
  vl_now :: "('s, gtime) state"

definition new_validator :: "'s validator \<Rightarrow> go_error + 's validator" where
  "new_validator p =
     (let p = p\<lparr>vl_max_universe_age := (if vl_max_universe_age p = 0 then 5 * minute else vl_max_universe_age p),
                vl_max_latest_book_age := (if vl_max_latest_book_age p = 0 then 10 * second else vl_max_latest_book_age p),
                vl_max_future_skew := (if vl_max_future_skew p = 0 then 2 * second else vl_max_future_skew p)\<rparr> in
      if vl_max_universe_age p < 0 \<or> vl_max_latest_book_age p < 0 \<or> vl_max_future_skew p < 0
      then Inl (ErrText ''market validation durations must not be negative'') else Inr p)"

text \<open>The checks of \<open>Validate\<close> on the market metadata, before the book is captured; the result names the outcome.\<close>

definition check_market :: "'s validator \<Rightarrow> order_intent \<Rightarrow> market_snapshot \<Rightarrow> gtime \<Rightarrow> go_error + market_outcome" where
  "check_market vl i m now =
     (let sellExit = (oi_side i = SideSell) in
      case validate_market_identity i m of
        Some e \<Rightarrow> Inl e
      | None \<Rightarrow>
      case (if sellExit then None else validate_market_tradable m now (vl_max_universe_age vl) (vl_max_future_skew vl)) of
        Some e \<Rightarrow> Inl e
      | None \<Rightarrow>
      case validate_outcome_mapping (ms_outcomes m) of
        Some e \<Rightarrow> Inl e
      | None \<Rightarrow>
      case outcome_at (ms_outcomes m) (the (oi_outcome_index i)) of
        None \<Rightarrow> Inl (ErrRejection ''OUTCOME_NOT_FOUND'' ''outcome_index is not present in current market metadata'')
      | Some out \<Rightarrow>
      if trim_space (mo_token_id out) \<noteq> oi_token_id i \<or> \<not> equal_fold (trim_space (mo_name out)) (oi_outcome_name i)
      then Inl (ErrRejection ''OUTCOME_TOKEN_MISMATCH'' ''outcome name/index does not map to the submitted token_id'')
      else if \<not> sellExit \<and> ms_neg_risk m \<noteq> the (oi_expected_neg_risk i)
      then Inl (ErrRejection ''NEG_RISK_MISMATCH'' ''market neg_risk changed after the strategy snapshot'')
      else case validate_prices i (ms_tick_size m) of Some e \<Rightarrow> Inl e | None \<Rightarrow> Inr out)"

definition market_target :: "market_snapshot \<Rightarrow> market_outcome \<Rightarrow> go_error + book_target" where
  "market_target m out =
     book_target_build \<lparr>bt_market_source = [], bt_market_id = trim_space (ms_market_id m), bt_condition_id = trim_space (ms_condition_id m),
       bt_outcome_index = mo_index out, bt_token_id = trim_space (mo_token_id out), bt_outcome_id = []\<rparr>"

definition best_price :: "price_level list \<Rightarrow> decimal" where
  "best_price levels = (case levels of [] \<Rightarrow> [] | l # _ \<Rightarrow> pv_price l)"

text \<open>The checks on the captured book.\<close>

definition check_book :: "'s validator \<Rightarrow> order_intent \<Rightarrow> market_snapshot \<Rightarrow> book_target \<Rightarrow> order_book \<Rightarrow> gtime \<Rightarrow> err" where
  "check_book vl i m target book now =
     (let sellExit = (oi_side i = SideSell); bestBid = best_price (ob_bids book); bestAsk = best_price (ob_asks book) in
      if ob_status book \<noteq> OrderBookStatusOK \<and> (\<not> sellExit \<or> ob_status book \<noteq> OrderBookStatusEmpty)
      then Some (ErrRejection ''LATEST_BOOK_UNAVAILABLE'' ''latest orderbook was not fetched successfully'')
      else if ob_status book = OrderBookStatusOK \<and> (ob_bids book = [] \<or> ob_asks book = [])
      then Some (ErrRejection ''LATEST_BOOK_UNAVAILABLE'' ''latest orderbook does not contain both sides'')
      else if ob_market_id book \<noteq> bt_market_id target \<or> ob_condition_id book \<noteq> bt_condition_id target \<or>
              ob_outcome_index book \<noteq> bt_outcome_index target \<or> ob_token_id book \<noteq> bt_token_id target
      then Some (ErrRejection ''LATEST_BOOK_IDENTITY_MISMATCH'' ''latest orderbook identity does not match the authoritative outcome'')
      else case book_validate book of
        Some e \<Rightarrow> Some (ErrRejection ''LATEST_BOOK_INVALID'' (error_text e))
      | None \<Rightarrow>
      if \<not> dec_is_empty (ob_tick_size book) \<and> \<not> dec_equal (ob_tick_size book) (ms_tick_size m)
      then Some (ErrRejection ''TICK_SIZE_CHANGED'' ''latest CLOB orderbook tick_size differs from Market Universe Service'')
      else if \<not> dec_is_empty bestBid \<and> \<not> dec_is_empty bestAsk \<and> compare_fails bestBid bestAsk (\<lambda>c. c > 0)
      then Some (ErrRejection ''LATEST_BOOK_INVALID'' ''latest best bid exceeds best ask'')
      else if sellExit then None
      else case validate_age ''LATEST_BOOK_OBSERVATION'' (ob_observed_at book) now (vl_max_latest_book_age vl) (vl_max_future_skew vl) of
        Some e \<Rightarrow> Some e
      | None \<Rightarrow> validate_worst_price (oi_side i) (oi_worst_price i) bestBid bestAsk)"

definition buy_fee_reserve_for :: "'s validator \<Rightarrow> order_intent \<Rightarrow> ('s, buy_fee_reserve option) state" where
  "buy_fee_reserve_for vl i =
     (case vl_fee_schedules vl of
        Some source \<Rightarrow>
          if oi_side i = SideBuy
          then do { (schedule, e) \<leftarrow> source (oi_condition_id i) (oi_token_id i);
                    State_Monad.return (Some (resolve_buy_fee_reserve (oi_worst_price i) schedule e)) }
          else State_Monad.return None
      | None \<Rightarrow> State_Monad.return None)"

definition validation_params :: "order_intent \<Rightarrow> market_snapshot \<Rightarrow> market_outcome \<Rightarrow> order_book \<Rightarrow> gtime \<Rightarrow> market_validation" where
  "validation_params i m out book now =
     \<lparr>mv_mode = ''LIVE_CHECK'', mv_validated_at = now, mv_market_observed_at = ms_observed_at m,
      mv_strategy_snapshot_at = the (oi_market_snapshot_at i), mv_latest_book_source_at = ob_source_at book,
      mv_latest_book_observed_at = ob_observed_at book, mv_outcome_index = mo_index out, mv_outcome_name = trim_space (mo_name out),
      mv_token_id = trim_space (mo_token_id out), mv_neg_risk = ms_neg_risk m, mv_tick_size = ms_tick_size m,
      mv_min_order_size = ob_min_order_size book, mv_best_bid = best_price (ob_bids book), mv_best_ask = best_price (ob_asks book),
      mv_worst_price = oi_worst_price i, mv_book_status = ob_status book, mv_executable_size = [], mv_buy_fee_reserve = None\<rparr>"

definition validate_book :: "'s validator \<Rightarrow> order_intent \<Rightarrow> market_snapshot \<Rightarrow> market_outcome \<Rightarrow> book_target \<Rightarrow> order_book list \<Rightarrow> gtime \<Rightarrow>
    ('s, go_error + market_validation) state" where
  "validate_book vl i m out target books now =
     (case books of
        [book] \<Rightarrow>
          (case check_book vl i m target book now of
             Some e \<Rightarrow> State_Monad.return (Inl e)
           | None \<Rightarrow>
           (case (if oi_time_in_force i = TimeInForceIOC \<and> oi_side i \<noteq> SideSell then protected_executable_size i book else Inr []) of
              Inl e \<Rightarrow> State_Monad.return (Inl e)
            | Inr executableSize \<Rightarrow> do {
                reserve \<leftarrow> buy_fee_reserve_for vl i;
                State_Monad.return (market_validation_build
                  ((validation_params i m out book now)\<lparr>mv_executable_size := executableSize, mv_buy_fee_reserve := reserve\<rparr>)) }))
      | _ \<Rightarrow> State_Monad.return (Inl (ErrRejection ''LATEST_BOOK_UNAVAILABLE'' ''latest orderbook response is incomplete'')))"

definition validate_market :: "'s validator \<Rightarrow> order_intent \<Rightarrow> market_snapshot \<Rightarrow> gtime \<Rightarrow> ('s, go_error + market_validation) state" where
  "validate_market vl i m now =
     (case check_market vl i m now of
        Inl e \<Rightarrow> State_Monad.return (Inl e)
      | Inr out \<Rightarrow>
          (case market_target m out of
             Inl e \<Rightarrow> State_Monad.return (Inl (ErrRejection ''MARKET_IDENTITY_INVALID'' (error_text e)))
           | Inr target \<Rightarrow> do {
               captured \<leftarrow> vl_capture vl now [target];
               (case captured of
                  Inl e \<Rightarrow> State_Monad.return (Inl (wrap_error ''capture latest orderbook'' e))
                | Inr books \<Rightarrow> validate_book vl i m out target books now) }))"

definition live_validate :: "'s validator \<Rightarrow> order_intent \<Rightarrow> ('s, go_error + market_validation) state" where
  "live_validate vl intent =
     (let i = intent_normalize intent in
      case require_market_context i of
        Some e \<Rightarrow> State_Monad.return (Inl e)
      | None \<Rightarrow> do {
          now \<leftarrow> vl_now vl;
          (case validate_not_future ''MARKET_SNAPSHOT'' (the (oi_market_snapshot_at i)) now (vl_max_future_skew vl) of
             Some e \<Rightarrow> State_Monad.return (Inl e)
           | None \<Rightarrow> do {
               found \<leftarrow> vl_find_by_condition vl (oi_condition_id i);
               (case found of
                  Inl e \<Rightarrow> State_Monad.return (Inl (wrap_error ''query market universe'' e))
                | Inr None \<Rightarrow> State_Monad.return (Inl (ErrRejection ''MARKET_NOT_FOUND'' ''condition_id is not present in Market Universe Service''))
                | Inr (Some m) \<Rightarrow> validate_market vl i m now) }) })"


section \<open>The visible quantity\<close>

text \<open>The quantity a book shows at prices inside the limit.\<close>

definition inside_limit :: "side \<Rightarrow> decimal \<Rightarrow> price_level \<Rightarrow> bool" where
  "inside_limit s worstPrice level \<longleftrightarrow>
     (if s = SideBuy then dec_value (pv_price level) \<le> dec_value worstPrice
      else s = SideSell \<and> dec_value worstPrice \<le> dec_value (pv_price level))"

definition visible_depth :: "order_intent \<Rightarrow> order_book \<Rightarrow> rat" where
  "visible_depth i book =
     sum_list (map (\<lambda>l. dec_value (pv_size l)) (filter (inside_limit (oi_side i) (oi_worst_price i))
       (if oi_side i = SideSell then ob_bids book else ob_asks book)))"

lemma dec_multiply_one: "dec_multiply d ''1'' = Inr r \<Longrightarrow> r = dec_value d"
proof -
  have "dec_rat ''1'' = Inr 1" by code_simp
  then show "dec_multiply d ''1'' = Inr r \<Longrightarrow> r = dec_value d" by (auto simp: dec_multiply_def dec_value_def split: sum.splits)
qed

lemma dec_compare_value:
  assumes "dec_compare a b = Inr c"
  shows "c \<le> 0 \<longleftrightarrow> dec_value a \<le> dec_value b" "0 \<le> c \<longleftrightarrow> dec_value b \<le> dec_value a" "c = rat_cmp (dec_value a) (dec_value b)"
  using assms by (auto simp: dec_compare_def dec_value_def rat_cmp_def split: sum.splits if_splits)

lemma protected_depth_sum:
  "protected_depth s w d levels = Inr r \<Longrightarrow> r = d + sum_list (map (\<lambda>l. dec_value (pv_size l)) (filter (inside_limit s w) levels))"
proof (induction s w d levels rule: protected_depth.induct)
  case (2 s w d level levels)
  obtain c where c: "dec_compare (pv_price level) w = Inr c" using "2.prems" by (auto split: sum.splits)
  have i: "inside_limit s w level \<longleftrightarrow> s = SideBuy \<and> c \<le> 0 \<or> s = SideSell \<and> c \<ge> 0"
    using dec_compare_value(1,2) [OF c] by (auto simp: inside_limit_def order_constants)
  show ?case
  proof (cases "inside_limit s w level")
    case False
    then show ?thesis using "2.IH"(1) [OF c] "2.prems" i c by (simp only: protected_depth.simps sum.case if_True filter.simps simp_thms if_False)
  next
    case True
    then obtain shares where sh: "dec_multiply (pv_size level) ''1'' = Inr shares" using "2.prems" i c by (auto split: sum.splits)
    have "protected_depth s w (d + shares) levels = Inr r" using "2.prems" i c sh True by (auto split: if_splits)
    then show ?thesis using "2.IH"(2) [OF c _ sh] i True dec_multiply_one [OF sh] by (auto simp: add.assoc)
  qed
qed simp

lemma not_positive_value: "\<not> not_positive d \<longleftrightarrow> 0 < dec_value d"
  by (auto simp: not_positive_def dec_sign_def dec_value_def rat_sign_def split: sum.splits)

lemma levels_positive:
  "validate_levels_from n p levels desc = None \<Longrightarrow> l \<in> set levels \<Longrightarrow> 0 < dec_value (pv_price l) \<and> 0 < dec_value (pv_size l)"
  by (induction n p levels desc rule: validate_levels_from.induct) (auto simp: not_positive_value split: if_splits)

lemma book_levels_positive:
  assumes "book_validate book = None" "l \<in> set (ob_bids book) \<union> set (ob_asks book)"
  shows "0 < dec_value (pv_price l)" "0 < dec_value (pv_size l)"
proof -
  have "validate_levels (ob_bids book) True = None" "validate_levels (ob_asks book) False = None"
    using assms(1) by (auto simp: book_validate_def split: if_splits option.splits)
  then show "0 < dec_value (pv_price l)" "0 < dec_value (pv_size l)"
    using assms(2) levels_positive by (auto simp: validate_levels_def)
qed

lemma visible_depth_nonneg: "book_validate book = None \<Longrightarrow> 0 \<le> visible_depth i book"
  unfolding visible_depth_def by (intro sum_list_nonneg) (auto dest: book_levels_positive(2) intro: less_imp_le split: if_splits)

lemma floor_rat_value:
  assumes "0 \<le> v"
  shows "floor_rat v n = of_int \<lfloor>v * 10 ^ n\<rfloor> / 10 ^ n"
proof -
  obtain a b where ab: "quotient_of (v * 10 ^ n) = (a, b)" by force
  have b: "0 < b" and v: "v * 10 ^ n = of_int a / of_int b" using ab by (simp_all add: quotient_of_denom_pos quotient_of_div)
  have "0 \<le> v * 10 ^ n" using assms by simp
  then have "0 \<le> a" using b unfolding v by (simp add: zero_le_divide_iff)
  then have "int_quo a b = a div b" using b by (cases "a = 0") (simp_all add: int_quo_def)
  then show ?thesis using ab by (simp add: floor_rat_def v floor_divide_of_int_eq)
qed

lemma executable_size_cases:
  assumes "protected_executable_size i book = Inr d" "book_validate book = None"
  obtains e where "e = min (dec_value (oi_size i)) (floor_rat (visible_depth i book) size_decimal_places)" "0 < e" "0 < dec_value (oi_size i)"
    "d = dec_canonical (rat_float_string e size_decimal_places)"
    "dec_is_empty (ob_min_order_size book) \<or> dec_value (ob_min_order_size book) \<le> e"
proof -
  obtain depth requested where p: "protected_depth (oi_side i) (oi_worst_price i) 0
        (if oi_side i = SideSell then ob_bids book else ob_asks book) = Inr depth" "dec_multiply (oi_size i) ''1'' = Inr requested"
    using assms(1) by (auto simp: protected_executable_size_def split: sum.splits)
  have depth: "depth = visible_depth i book" using protected_depth_sum [OF p(1)] by (simp add: visible_depth_def)
  have req: "requested = dec_value (oi_size i)" by (rule dec_multiply_one [OF p(2)])
  let ?e = "min requested (floor_rat depth size_decimal_places)"
  have "0 < requested" "0 < floor_rat depth size_decimal_places" "d = dec_canonical (rat_float_string ?e size_decimal_places)"
    "dec_is_empty (ob_min_order_size book) \<or> dec_value (ob_min_order_size book) \<le> ?e"
    using assms(1) dec_multiply_one [of "ob_min_order_size book"]
    by (auto simp: protected_executable_size_def p Let_def min_def not_le split: if_splits sum.splits)
  then show ?thesis using that [of ?e] by (simp add: depth req)
qed

lemma round_le_multiple:
  assumes "e \<le> of_int k / 10 ^ n"
  shows "of_int \<lfloor>e * 10 ^ n + 1 / 2\<rfloor> / 10 ^ n \<le> (of_int k / 10 ^ n :: rat)"
proof -
  have "e * 10 ^ n \<le> of_int k" using assms by (simp add: le_divide_eq)
  then have "e * 10 ^ n + 1 / 2 < of_int (k + 1)" by simp
  then have "\<lfloor>e * 10 ^ n + 1 / 2\<rfloor> \<le> k" by (simp add: floor_le_iff)
  then show ?thesis by (simp add: divide_right_mono)
qed

text \<open>
  For a book that passes its checks, the size of \<open>protectedExecutableSize\<close> never exceeds the quantity the book shows
  inside the limit price, and never exceeds the requested size when that has at most two places: the rounding of the
  printed size cannot add a share nobody offers.
\<close>

lemma executable_size_is_visible:
  assumes e: "protected_executable_size i book = Inr d" and b: "book_validate book = None"
  shows "\<exists>q. dec_rat d = Inr q \<and> 0 \<le> q \<and> q * 100 \<in> \<int> \<and> q \<le> visible_depth i book \<and>
    (dec_value (oi_size i) * 100 \<in> \<int> \<longrightarrow> 0 < q \<and> q \<le> dec_value (oi_size i))"
proof -
  let ?v = "visible_depth i book"
  obtain x where x: "x = min (dec_value (oi_size i)) (floor_rat ?v size_decimal_places)" "0 < x" "0 < dec_value (oi_size i)"
    "d = dec_canonical (rat_float_string x size_decimal_places)" by (rule executable_size_cases [OF e b])
  let ?q = "of_int \<lfloor>x * 10 ^ size_decimal_places + 1 / 2\<rfloor> / 10 ^ size_decimal_places :: rat"
  have fs: "plain_decimal (rat_float_string x size_decimal_places)" "dec_rat (rat_float_string x size_decimal_places) = Inr ?q"
    using float_string_value [of x size_decimal_places] x(2) by (simp_all add: size_decimal_places_def)
  then have d: "dec_rat d = Inr ?q" unfolding x(4) by (simp add: dec_canonical_rat)
  have fl: "floor_rat ?v size_decimal_places = of_int \<lfloor>?v * 10 ^ size_decimal_places\<rfloor> / 10 ^ size_decimal_places"
    by (rule floor_rat_value [OF visible_depth_nonneg [OF b]])
  have "?q \<le> floor_rat ?v size_decimal_places" unfolding fl by (rule round_le_multiple) (simp add: x(1) fl [symmetric])
  also have "\<dots> \<le> ?v" unfolding fl by (simp add: divide_le_eq)
  finally have v: "?q \<le> ?v" .
  have i: "?q * 100 \<in> \<int>" by (simp add: size_decimal_places_def)
  have "0 < ?q \<and> ?q \<le> dec_value (oi_size i)" if int: "dec_value (oi_size i) * 100 \<in> \<int>"
  proof -
    have "floor_rat ?v size_decimal_places * 100 \<in> \<int>" unfolding fl by (simp add: size_decimal_places_def)
    then have "x * 100 \<in> \<int>" unfolding x(1) min_def using int by auto
    then obtain k where "x * 100 = of_int k" by (rule Ints_cases)
    then have "?q = x" by (simp add: size_decimal_places_def floor_eq_iff field_simps)
    then show ?thesis using x(1,2) by simp
  qed
  then show ?thesis using d v i x(2) by (intro exI [of _ ?q]) simp
qed


section \<open>What a passed check guarantees\<close>

text \<open>What a BUY may rely on when the live check passes: the market \<open>m\<close>, its outcome \<open>out\<close> and the \<open>book\<close> at time \<open>now\<close>.\<close>

definition market_open_for :: "'s validator \<Rightarrow> order_intent \<Rightarrow> market_snapshot \<Rightarrow> market_outcome \<Rightarrow> gtime \<Rightarrow> bool" where
  "market_open_for vl i m out now \<longleftrightarrow>
     trim_space (ms_condition_id m) = oi_condition_id i \<and> trim_space (ms_market_id m) = oi_market_id i \<and>
     ms_active m \<and> ms_accepting_orders m \<and> \<not> ms_closed m \<and> \<not> ms_resolved m \<and> \<not> ms_paused m \<and>
     now - ms_observed_at m \<le> vl_max_universe_age vl \<and>
     out \<in> set (ms_outcomes m) \<and> mo_index out = the (oi_outcome_index i) \<and> trim_space (mo_token_id out) = oi_token_id i \<and>
     ms_neg_risk m = the (oi_expected_neg_risk i) \<and>
     0 < dec_value (ms_tick_size m) \<and> dec_value (oi_worst_price i) \<le> 1 \<and>
     (\<exists>k. dec_value (oi_worst_price i) = of_int k * dec_value (ms_tick_size m))"

definition book_within_limit :: "'s validator \<Rightarrow> order_intent \<Rightarrow> order_book \<Rightarrow> gtime \<Rightarrow> bool" where
  "book_within_limit vl i book now \<longleftrightarrow>
     book_validate book = None \<and> ob_status book = OrderBookStatusOK \<and> ob_token_id book = oi_token_id i \<and>
     now - ob_observed_at book \<le> vl_max_latest_book_age vl \<and> ob_bids book \<noteq> [] \<and> ob_asks book \<noteq> [] \<and>
     dec_value (pv_price (hd (ob_bids book))) \<le> dec_value (pv_price (hd (ob_asks book))) \<and>
     dec_value (pv_price (hd (ob_asks book))) \<le> dec_value (oi_worst_price i)"

lemma compare_fails_value: "\<not> compare_fails a b (\<lambda>c. c > 0) \<Longrightarrow> dec_value a \<le> dec_value b"
  using dec_compare_value(1) by (fastforce simp: compare_fails_def not_less split: sum.splits)

lemma is_multiple_value:
  assumes "dec_is_multiple_of a b = Inr True"
  shows "\<exists>k. dec_value a = of_int k * dec_value b"
proof -
  obtain x y where xy: "dec_rat a = Inr x" "dec_rat b = Inr y" "0 < y" "rat_is_int (x / y)"
    using assms by (auto simp: dec_is_multiple_of_def split: sum.splits if_splits)
  obtain n m where q: "quotient_of (x / y) = (n, m)" by force
  then have "x / y = of_int n" using xy(4) quotient_of_div [OF q] by (simp add: rat_is_int_def)
  then show ?thesis using xy by (intro exI [of _ n]) (simp add: dec_value_def field_simps)
qed

lemma validate_age_None: "validate_age pre t now maxAge skew = None \<Longrightarrow> now - t \<le> maxAge"
  by (auto simp: validate_age_def split: if_splits)

lemma validate_prices_sound:
  assumes "validate_prices i tick = None"
  shows "dec_value (oi_worst_price i) \<le> 1" "\<exists>k. dec_value (oi_worst_price i) = of_int k * dec_value tick"
proof -
  have p: "\<not> compare_fails (oi_worst_price i) ''1'' (\<lambda>c. c > 0)" "dec_is_multiple_of (oi_worst_price i) tick = Inr True"
    using assms by (auto simp: validate_prices_def split: if_splits)
  have "dec_value ''1'' = 1" by code_simp
  then show "dec_value (oi_worst_price i) \<le> 1" using compare_fails_value [OF p(1)] by simp
  show "\<exists>k. dec_value (oi_worst_price i) = of_int k * dec_value tick" by (rule is_multiple_value [OF p(2)])
qed

lemma tradable_sound:
  assumes "validate_market_tradable m now age skew = None"
  shows "ms_active m" "ms_accepting_orders m" "\<not> ms_closed m" "\<not> ms_resolved m" "\<not> ms_paused m" "now - ms_observed_at m \<le> age"
  using assms by (auto simp: validate_market_tradable_def validate_age_None split: if_splits option.splits)

lemma check_market_sound:
  assumes "check_market vl i m now = Inr out" "oi_side i = SideBuy"
  shows "market_open_for vl i m out now"
proof -
  have c: "validate_market_identity i m = None" "validate_market_tradable m now (vl_max_universe_age vl) (vl_max_future_skew vl) = None"
    "outcome_at (ms_outcomes m) (the (oi_outcome_index i)) = Some out" "trim_space (mo_token_id out) = oi_token_id i"
    "ms_neg_risk m = the (oi_expected_neg_risk i)" "validate_prices i (ms_tick_size m) = None"
    using assms by (auto simp: check_market_def Let_def order_constants split: option.splits if_splits)
  have "out \<in> set (ms_outcomes m)" "mo_index out = the (oi_outcome_index i)"
    using c(3) by (auto simp: outcome_at_def find_Some_iff)
  moreover have "trim_space (ms_condition_id m) = oi_condition_id i" "trim_space (ms_market_id m) = oi_market_id i" "0 < dec_value (ms_tick_size m)"
    using c(1) not_positive_value by (auto simp: validate_market_identity_def split: if_splits)
  ultimately show ?thesis using c tradable_sound [OF c(2)] validate_prices_sound [OF c(6)] by (simp add: market_open_for_def)
qed

lemma positive_not_empty: "0 < dec_value d \<Longrightarrow> \<not> dec_is_empty d"
  by (auto simp: dec_is_empty_def dec_value_def dec_rat_def)

lemma check_book_sound:
  assumes c: "check_book vl i m target book now = None" and s: "oi_side i = SideBuy" and t: "bt_token_id target = oi_token_id i"
  shows "book_within_limit vl i book now"
proof -
  have b: "book_validate book = None" "ob_status book = OrderBookStatusOK" "ob_bids book \<noteq> []" "ob_asks book \<noteq> []"
      "ob_token_id book = oi_token_id i"
      "validate_age ''LATEST_BOOK_OBSERVATION'' (ob_observed_at book) now (vl_max_latest_book_age vl) (vl_max_future_skew vl) = None"
      "validate_worst_price (oi_side i) (oi_worst_price i) (best_price (ob_bids book)) (best_price (ob_asks book)) = None"
      "dec_is_empty (best_price (ob_bids book)) \<or> dec_is_empty (best_price (ob_asks book)) \<or>
       \<not> compare_fails (best_price (ob_bids book)) (best_price (ob_asks book)) (\<lambda>c. c > 0)"
    using c s t by (auto simp: check_book_def Let_def order_constants split: option.splits if_splits)
  have best: "best_price (ob_bids book) = pv_price (hd (ob_bids book))" "best_price (ob_asks book) = pv_price (hd (ob_asks book))"
    using b(3,4) by (auto simp: best_price_def split: list.splits)
  have "hd (ob_bids book) \<in> set (ob_bids book)" "hd (ob_asks book) \<in> set (ob_asks book)" using b(3,4) by simp_all
  then have "\<not> dec_is_empty (pv_price (hd (ob_bids book)))" "\<not> dec_is_empty (pv_price (hd (ob_asks book)))"
    using book_levels_positive(1) [OF b(1)] positive_not_empty by blast+
  then have "\<not> compare_fails (pv_price (hd (ob_bids book))) (pv_price (hd (ob_asks book))) (\<lambda>c. c > 0)" using b(8) best by simp
  moreover have "\<not> compare_fails (pv_price (hd (ob_asks book))) (oi_worst_price i) (\<lambda>c. c > 0)"
    using b(7) s best by (auto simp: validate_worst_price_def split: if_splits)
  ultimately show ?thesis using b compare_fails_value validate_age_None [OF b(6)] by (simp add: book_within_limit_def)
qed

lemma build_fields:
  assumes "market_validation_build p = Inr v"
  shows "mv_executable_size v = mv_executable_size p" "mv_token_id v = trim_space (mv_token_id p)" "mv_worst_price v = mv_worst_price p"
    "mv_tick_size v = mv_tick_size p" "mv_neg_risk v = mv_neg_risk p"
  using assms by (auto simp: market_validation_build_def Let_def split: option.splits)

lemma market_target_token: "market_target m out = Inr target \<Longrightarrow> bt_token_id target = trim_space (trim_space (mo_token_id out))"
  by (auto simp: market_target_def book_target_build_def Let_def split: if_splits)

text \<open>The evidence a passed check hands on.\<close>

definition evidence_of :: "order_intent \<Rightarrow> market_snapshot \<Rightarrow> order_book \<Rightarrow> market_validation \<Rightarrow> bool" where
  "evidence_of i m book v \<longleftrightarrow>
     mv_token_id v = oi_token_id i \<and> mv_worst_price v = oi_worst_price i \<and> mv_tick_size v = ms_tick_size m \<and> mv_neg_risk v = ms_neg_risk m \<and>
     (oi_time_in_force i = TimeInForceIOC \<longrightarrow> protected_executable_size i book = Inr (mv_executable_size v))"

lemma validate_book_sound:
  assumes r: "run_state (validate_book vl i m out target books now) s = (Inr v, s')" and s: "oi_side i = SideBuy"
    and t: "bt_token_id target = oi_token_id i" "trim_space (mo_token_id out) = oi_token_id i"
  shows "\<exists>book. books = [book] \<and> book_within_limit vl i book now \<and> evidence_of i m book v"
proof -
  obtain book where bk: "books = [book]" "check_book vl i m target book now = None"
    using r by (auto simp: validate_book_def split: list.splits option.splits)
  obtain d where d: "(if oi_time_in_force i = TimeInForceIOC \<and> oi_side i \<noteq> SideSell then protected_executable_size i book else Inr []) = Inr d"
    using r bk by (auto simp: validate_book_def split: sum.splits)
  obtain reserve where v: "market_validation_build
      ((validation_params i m out book now)\<lparr>mv_executable_size := d, mv_buy_fee_reserve := reserve\<rparr>) = Inr v"
    using r bk d by (auto simp: validate_book_def split_def)
  have "trim_space (trim_space (mo_token_id out)) = oi_token_id i" using t(2) by (metis trim_space_idem)
  then have "evidence_of i m book v"
    using build_fields [OF v] d s t(2) by (auto simp: evidence_of_def validation_params_def order_constants split: if_splits)
  then show ?thesis using bk check_book_sound [OF bk(2) s t(1)] by blast
qed

lemma live_validate_cases:
  assumes r: "run_state (live_validate vl intent) s = (Inr v, s')" and s: "oi_side (intent_normalize intent) = SideBuy"
  obtains m out book target now s1 s2 s3 s4
    where "run_state (vl_find_by_condition vl (oi_condition_id (intent_normalize intent))) s1 = (Inr (Some m), s2)"
      "run_state (vl_capture vl now [target]) s3 = (Inr [book], s4)" "check_market vl (intent_normalize intent) m now = Inr out"
      "require_market_context (intent_normalize intent) = None" "book_within_limit vl (intent_normalize intent) book now"
      "evidence_of (intent_normalize intent) m book v"
proof -
  let ?i = "intent_normalize intent"
  have ctx: "require_market_context ?i = None" using r by (auto simp: live_validate_def Let_def split: option.splits)
  obtain now s1 where now: "run_state (vl_now vl) s = (now, s1)" by force
  obtain found s2 where f: "run_state (vl_find_by_condition vl (oi_condition_id ?i)) s1 = (found, s2)" by force
  obtain m where m: "found = Inr (Some m)" "run_state (validate_market vl ?i m now) s2 = (Inr v, s')"
    using r by (auto simp: live_validate_def Let_def ctx now f split: option.splits sum.splits)
  obtain out where out: "check_market vl ?i m now = Inr out" using m(2) by (auto simp: validate_market_def split: sum.splits)
  obtain target where target: "market_target m out = Inr target" using m(2) by (auto simp: validate_market_def out split: sum.splits)
  obtain captured s3 where c: "run_state (vl_capture vl now [target]) s2 = (captured, s3)" by force
  obtain books where books: "captured = Inr books" "run_state (validate_book vl ?i m out target books now) s3 = (Inr v, s')"
    using m(2) by (auto simp: validate_market_def out target c split: sum.splits)
  have tok: "trim_space (mo_token_id out) = oi_token_id ?i" using check_market_sound [OF out s] by (simp add: market_open_for_def)
  then have "bt_token_id target = oi_token_id ?i" using market_target_token [OF target] by (metis trim_space_idem)
  from validate_book_sound [OF books(2) s this tok] obtain book
    where "books = [book]" "book_within_limit vl ?i book now" "evidence_of ?i m book v" by blast
  then show ?thesis using that f m(1) c books(1) out ctx by blast
qed

text \<open>
  C9. A BUY that passes the live market check may trade. When \<open>Validate\<close> returns evidence for a BUY, the market universe
  returned the market of the intent, open, accepting orders and fresh, whose outcome is the intent's token with the
  expected neg_risk flag; the limit price is a multiple of the tick size and at most 1; and the book source returned one
  valid and fresh book of that token, not crossed, whose best ask is within the limit. The evidence carries these values,
  and for an IOC the quantity of \<open>protectedExecutableSize\<close>.
\<close>

theorem live_buy_check_sound:
  assumes r: "run_state (live_validate vl intent) s = (Inr v, s')" and s: "oi_side (intent_normalize intent) = SideBuy"
  shows "\<exists>m out book target now s1 s2 s3 s4.
    run_state (vl_find_by_condition vl (oi_condition_id (intent_normalize intent))) s1 = (Inr (Some m), s2) \<and>
    run_state (vl_capture vl now [target]) s3 = (Inr [book], s4) \<and> market_open_for vl (intent_normalize intent) m out now \<and>
    book_within_limit vl (intent_normalize intent) book now \<and> evidence_of (intent_normalize intent) m book v"
  by (rule live_validate_cases [OF r s]) (blast intro: check_market_sound [OF _ s])

text \<open>A live market, its book and an IOC buy of 10 shares of which 7.5 are on offer inside the limit.\<close>

definition live_intent :: order_intent where
  "live_intent = sample_intent\<lparr>oi_time_in_force := ''IOC'', oi_type := ''MARKET'', oi_price := [], oi_expected_neg_risk := Some False,
     oi_market_snapshot_at := Some 900, oi_signal_at := Some 900\<rparr>"

definition live_market :: market_snapshot where
  "live_market = \<lparr>ms_market_id = ''mk'', ms_condition_id = ''cond'', ms_active = True, ms_closed = False, ms_resolved = False,
     ms_closed_at = None, ms_paused = False, ms_accepting_orders = True, ms_neg_risk = False, ms_tick_size = ''0.1'',
     ms_outcomes = [\<lparr>mo_index = 0, mo_name = ''Yes'', mo_token_id = ''tok''\<rparr>, \<lparr>mo_index = 1, mo_name = ''No'', mo_token_id = ''tok2''\<rparr>],
     ms_observed_at = 950\<rparr>"

definition live_book :: order_book where
  "live_book = \<lparr>ob_market_source = [], ob_market_id = ''mk'', ob_condition_id = ''cond'', ob_outcome_index = 0, ob_token_id = ''tok'',
     ob_outcome_id = [], ob_status = ''OK'', ob_source_at = 960, ob_observed_at = 990, ob_tick_size = ''0.1'', ob_min_order_size = ''5'',
     ob_depth_limit = 15, ob_best_bid = ''0.4'', ob_best_ask = ''0.5'', ob_bids = [\<lparr>pv_price = ''0.4'', pv_size = ''3''\<rparr>],
     ob_asks = [\<lparr>pv_price = ''0.5'', pv_size = ''2.5''\<rparr>, \<lparr>pv_price = ''0.6'', pv_size = ''5''\<rparr>, \<lparr>pv_price = ''0.7'', pv_size = ''9''\<rparr>],
     ob_error_code = []\<rparr>"

definition live_validator :: "unit validator" where
  "live_validator = \<lparr>vl_find_by_condition = (\<lambda>_. State_Monad.return (Inr (Some live_market))),
     vl_capture = (\<lambda>_ _. State_Monad.return (Inr [live_book])), vl_fee_schedules = None, vl_max_universe_age = 1000, vl_max_latest_book_age = 100,
     vl_max_future_skew = 10, vl_now = State_Monad.return 1000\<rparr>"

definition live_probe :: "bool \<times> string" where
  "live_probe = (case fst (run_state (live_validate live_validator live_intent) ()) of
     Inl e \<Rightarrow> (False, error_text e) | Inr v \<Rightarrow> (True, mv_executable_size v))"

lemma live_probe_value: "live_probe = (True, ''7.5'')"
  by code_simp

theorem live_buy_check_sound_witness:
  "\<exists>m out book now v. market_open_for live_validator (intent_normalize live_intent) m out now \<and>
     book_within_limit live_validator (intent_normalize live_intent) book now \<and>
     evidence_of (intent_normalize live_intent) m book v \<and> mv_executable_size v = ''7.5''"
proof -
  have s: "oi_side (intent_normalize live_intent) = SideBuy" by code_simp
  obtain v where v: "run_state (live_validate live_validator live_intent) () = (Inr v, ())" "mv_executable_size v = ''7.5''"
    using live_probe_value by (cases "run_state (live_validate live_validator live_intent) ()") (auto simp: live_probe_def split: sum.splits)
  from live_buy_check_sound [OF v(1) s] v(2) show ?thesis by blast
qed

end
