(* ===== verification/Wire_Amounts.thy ===== *)
theory Wire_Amounts
  imports Market_Validation
begin

text \<open>
  \<open>src/internal/adapter/polymarket/precision.go\<close>: the quantity an order is signed with and its integer token amounts.
  The theorems show that the integers are exactly size and notional in units of \<open>10^-6\<close>, so nothing is rounded between
  the strategy's decision and the signature, and that the signed quantity stays within the requested one.
\<close>

section \<open>Decimals of the adapter\<close>

record round_config =
  rc_price :: nat
  rc_size :: nat
  rc_amount :: nat

definition rounding_by_tick :: "(string \<times> round_config) list" where
  "rounding_by_tick =
     [(''0.1'', \<lparr>rc_price = 1, rc_size = 2, rc_amount = 3\<rparr>), (''0.01'', \<lparr>rc_price = 2, rc_size = 2, rc_amount = 4\<rparr>),
      (''0.005'', \<lparr>rc_price = 3, rc_size = 2, rc_amount = 5\<rparr>), (''0.0025'', \<lparr>rc_price = 4, rc_size = 2, rc_amount = 6\<rparr>),
      (''0.001'', \<lparr>rc_price = 3, rc_size = 2, rc_amount = 5\<rparr>), (''0.0001'', \<lparr>rc_price = 4, rc_size = 2, rc_amount = 6\<rparr>)]"

definition pm_canonical_decimal :: "decimal \<Rightarrow> string" where
  "pm_canonical_decimal d =
     (let t = trim_space d in
      if CHR ''.'' \<notin> set t then t else trim_right_char (CHR ''.'') (trim_right_char (CHR ''0'') t))"

definition pm_decimal_places :: "decimal \<Rightarrow> nat" where
  "pm_decimal_places d =
     (let t = pm_canonical_decimal d in
      if CHR ''.'' \<notin> set t then 0 else length t - length (takeWhile (\<lambda>c. c \<noteq> CHR ''.'') t) - 1)"

definition pm_decimal_rat :: "decimal \<Rightarrow> go_error + rat" where
  "pm_decimal_rat d =
     (let t = trim_space d in
      case rat_set_string t of
        Some r \<Rightarrow>
          if t = [] \<or> set t \<inter> {CHR ''/'', CHR ''e'', CHR ''E''} \<noteq> {} then Inl (ErrText (''invalid decimal '' @ quoted t)) else Inr r
      | None \<Rightarrow> Inl (ErrText (''invalid decimal '' @ quoted t)))"

definition pm_multiply :: "decimal \<Rightarrow> decimal \<Rightarrow> go_error + rat" where
  "pm_multiply l r =
     (case pm_decimal_rat l of Inl e \<Rightarrow> Inl e
      | Inr x \<Rightarrow> (case pm_decimal_rat r of Inl e \<Rightarrow> Inl e | Inr y \<Rightarrow> Inr (x * y)))"

definition rat_to_scaled_integer :: "rat \<Rightarrow> nat \<Rightarrow> go_error + int" where
  "rat_to_scaled_integer value scale =
     (let scaled = value * 10 ^ scale in
      if \<not> rat_is_int scaled
      then Inl (ErrText (''amount cannot be represented exactly with '' @ show_nat scale @ '' token decimals''))
      else Inr (fst (quotient_of scaled)))"

definition rat_decimal_places :: "rat \<Rightarrow> nat" where
  "rat_decimal_places value =
     (case List.find (\<lambda>scale. rat_is_int (value * 10 ^ scale)) [0..<19] of Some scale \<Rightarrow> scale | None \<Rightarrow> 19)"

definition new_invalid_error :: "string \<Rightarrow> string \<Rightarrow> go_error" where
  "new_invalid_error code message = ErrVenue VenueErrorInvalid code message [] 0 0 None"


section \<open>Placement\<close>

definition placement_intent :: "order \<Rightarrow> go_error + order_intent" where
  "placement_intent o1 =
     (let i = intent_normalize (o_intent o1) in
      case o_market_validation o1 of
        None \<Rightarrow> Inr i
      | Some v \<Rightarrow>
          if oi_time_in_force i \<noteq> TimeInForceIOC \<or> dec_is_empty (mv_executable_size v) then Inr i
          else if not_positive (mv_executable_size v)
          then Inl (new_invalid_error ''EXECUTABLE_SIZE_INVALID'' ''market validation executable_size is not a positive decimal'')
          else if compare_fails (mv_executable_size v) (oi_size i) (\<lambda>c. c > 0)
          then Inl (new_invalid_error ''EXECUTABLE_SIZE_INVALID'' ''market validation executable_size exceeds the strategy requested size'')
          else if oi_side i \<noteq> SideSell \<and> \<not> dec_is_empty (mv_min_order_size v) \<and>
                  compare_fails (mv_executable_size v) (mv_min_order_size v) (\<lambda>c. c < 0)
          then Inl (new_invalid_error ''MIN_ORDER_SIZE'' ''market validation executable_size is below min_order_size'')
          else Inr (i\<lparr>oi_size := mv_executable_size v\<rparr>))"

record raw_amounts =
  ra_price :: decimal
  ra_maker_amount :: string
  ra_taker_amount :: string
  ra_side :: nat

text \<open>The price, size and minimum checks of \<open>buildRawAmounts\<close>; the result is the price, the notional and the rounding row.\<close>

definition check_price :: "decimal \<Rightarrow> decimal \<Rightarrow> round_config \<Rightarrow> go_error + rat" where
  "check_price price tickSize config =
     (if dec_is_empty price then Inl (new_invalid_error ''PRICE_REQUIRED'' ''limit price or protected market worst_price is required'')
      else if dec_is_multiple_of price tickSize \<noteq> Inr True
      then Inl (new_invalid_error ''PRICE_TICK_MISMATCH'' ''price is not an exact multiple of current tick_size'')
      else case pm_decimal_rat price of
        Inl e \<Rightarrow> Inl (new_invalid_error ''INVALID_PRICE'' (error_text e))
      | Inr priceRat \<Rightarrow>
      case pm_decimal_rat tickSize of
        Inl e \<Rightarrow> Inl (new_invalid_error ''INVALID_TICK_SIZE'' (error_text e))
      | Inr tickRat \<Rightarrow>
      if priceRat < tickRat \<or> priceRat > 1 - tickRat
      then Inl (new_invalid_error ''PRICE_OUT_OF_RANGE'' ''price must be between tick_size and 1-tick_size'')
      else if pm_decimal_places price > rc_price config
      then Inl (new_invalid_error ''INVALID_PRICE_PRECISION'' (''price supports at most '' @ show_nat (rc_price config) @ '' decimal places for tick_size '' @ tickSize))
      else Inr priceRat)"

definition check_size :: "order_intent \<Rightarrow> decimal \<Rightarrow> round_config \<Rightarrow> err" where
  "check_size i minOrderSize config =
     (if pm_decimal_places (oi_size i) > rc_size config
      then Some (new_invalid_error ''INVALID_SIZE_PRECISION'' (''size supports at most '' @ show_nat (rc_size config) @ '' decimal places''))
      else if not_positive (oi_size i) then Some (new_invalid_error ''INVALID_SIZE'' ''size must be a positive decimal'')
      else if oi_side i \<noteq> SideSell \<and> \<not> dec_is_empty minOrderSize \<and> compare_fails (oi_size i) minOrderSize (\<lambda>c. c < 0)
      then Some (new_invalid_error ''MIN_ORDER_SIZE'' ''size is below the market min_order_size'') else None)"

definition check_notional :: "order_intent \<Rightarrow> rat \<Rightarrow> decimal \<Rightarrow> err" where
  "check_notional i notional minBuyNotional =
     (if oi_side i = SideBuy \<and> \<not> dec_is_empty minBuyNotional then
        (case pm_decimal_rat minBuyNotional of
           Inl e \<Rightarrow> Some (new_invalid_error ''INVALID_MIN_NOTIONAL'' (error_text e))
         | Inr minimum \<Rightarrow>
             if notional < minimum then Some (new_invalid_error ''MIN_BUY_NOTIONAL'' ''BUY notional is below the configured CLOB minimum'') else None)
      else None)"

definition immediate :: "order_intent \<Rightarrow> bool" where
  "immediate i \<longleftrightarrow> oi_time_in_force i = TimeInForceFAK \<or> oi_time_in_force i = TimeInForceFOK"

definition check_amount_precision :: "order_intent \<Rightarrow> rat \<Rightarrow> round_config \<Rightarrow> err" where
  "check_amount_precision i notional config =
     (let amountPrecision = (if immediate i then 4 else rc_amount config) in
      if immediate i \<and> oi_side i = SideBuy \<and> (rat_decimal_places notional > 4 \<or> pm_decimal_places (oi_size i) > 4)
      then Some (new_invalid_error ''INVALID_FAK_FOK_PRECISION'' ''FAK/FOK BUY requires maker notional <=4 decimals and shares <=4 decimals'')
      else if immediate i \<and> oi_side i \<noteq> SideBuy \<and> (pm_decimal_places (oi_size i) > 2 \<or> rat_decimal_places notional > 4)
      then Some (new_invalid_error ''INVALID_FAK_FOK_PRECISION'' ''FAK/FOK SELL requires shares <=2 decimals and taker notional <=4 decimals'')
      else if rat_decimal_places notional > amountPrecision
      then Some (new_invalid_error ''INVALID_AMOUNT_PRECISION''
        (''price*size supports at most '' @ show_nat amountPrecision @ '' decimal places for this order''))
      else None)"

definition raw_amounts_of :: "order_intent \<Rightarrow> decimal \<Rightarrow> rat \<Rightarrow> rat \<Rightarrow> go_error + raw_amounts" where
  "raw_amounts_of i price sizeRat notional =
     (case rat_to_scaled_integer sizeRat 6 of
        Inl e \<Rightarrow> Inl (new_invalid_error ''INVALID_SIZE_PRECISION'' (error_text e))
      | Inr sizeRaw \<Rightarrow>
      case rat_to_scaled_integer notional 6 of
        Inl e \<Rightarrow> Inl (new_invalid_error ''INVALID_AMOUNT_PRECISION'' (error_text e))
      | Inr notionalRaw \<Rightarrow>
      if oi_side i = SideBuy
      then Inr \<lparr>ra_price = price, ra_maker_amount = show_int notionalRaw, ra_taker_amount = show_int sizeRaw, ra_side = 0\<rparr>
      else if oi_side i = SideSell
      then Inr \<lparr>ra_price = price, ra_maker_amount = show_int sizeRaw, ra_taker_amount = show_int notionalRaw, ra_side = 1\<rparr>
      else Inl (new_invalid_error ''INVALID_SIDE'' ''side must be BUY or SELL''))"

definition wire_price :: "order_intent \<Rightarrow> decimal" where
  "wire_price i = (if oi_type i = OrderTypeMarket then oi_worst_price i else oi_price i)"

definition build_raw_amounts :: "order_intent \<Rightarrow> decimal \<Rightarrow> decimal \<Rightarrow> decimal \<Rightarrow> go_error + raw_amounts" where
  "build_raw_amounts i tickSize minOrderSize minBuyNotional =
     (case map_of rounding_by_tick (pm_canonical_decimal tickSize) of
        None \<Rightarrow> Inl (new_invalid_error ''UNSUPPORTED_TICK_SIZE'' ''tick_size is not supported by the current CLOB V2 rounding table'')
      | Some config \<Rightarrow>
      case check_price (wire_price i) tickSize config of
        Inl e \<Rightarrow> Inl e
      | Inr priceRat \<Rightarrow>
      case check_size i minOrderSize config of
        Some e \<Rightarrow> Inl e
      | None \<Rightarrow>
      case pm_multiply (oi_size i) (wire_price i) of
        Inl e \<Rightarrow> Inl (new_invalid_error ''INVALID_AMOUNTS'' (error_text e))
      | Inr notional \<Rightarrow>
      case check_notional i notional minBuyNotional of
        Some e \<Rightarrow> Inl e
      | None \<Rightarrow>
      case check_amount_precision i notional config of
        Some e \<Rightarrow> Inl e
      | None \<Rightarrow>
          raw_amounts_of i (wire_price i) (case pm_decimal_rat (oi_size i) of Inl _ \<Rightarrow> 0 | Inr r \<Rightarrow> r) notional)"


section \<open>The amounts are exact\<close>

lemma rat_to_scaled_exact:
  assumes "rat_to_scaled_integer v n = Inr k"
  shows "v = of_int k / 10 ^ n"
proof -
  obtain a b where q: "quotient_of (v * 10 ^ n) = (a, b)" by force
  then have "v * 10 ^ n = of_int k" using assms quotient_of_div [OF q]
    by (auto simp: rat_to_scaled_integer_def Let_def rat_is_int_def split: if_splits)
  then show ?thesis by (simp add: field_simps)
qed

lemma pm_decimal_rat_value: "pm_decimal_rat d = Inr r \<Longrightarrow> dec_rat d = Inr r"
  by (auto simp: pm_decimal_rat_def dec_rat_def Let_def split: option.splits if_splits)

lemma pm_decimal_rat_dec_value: "pm_decimal_rat d = Inr r \<Longrightarrow> dec_value d = r"
  by (drule pm_decimal_rat_value) (simp add: dec_value_def)

lemma pm_multiply_value: "pm_multiply a b = Inr r \<Longrightarrow> r = dec_value a * dec_value b \<and> (\<exists>x. pm_decimal_rat a = Inr x)"
  by (auto simp: pm_multiply_def pm_decimal_rat_dec_value split: sum.splits)

text \<open>The parts of a successful \<open>buildRawAmounts\<close>.\<close>

lemma build_raw_amounts_cases:
  assumes "build_raw_amounts i tickSize minSize minNotional = Inr a"
  obtains config where "check_price (wire_price i) tickSize config = Inr (dec_value (wire_price i))" "check_size i minSize config = None"
    "check_notional i (dec_value (oi_size i) * dec_value (wire_price i)) minNotional = None"
    "raw_amounts_of i (wire_price i) (dec_value (oi_size i)) (dec_value (oi_size i) * dec_value (wire_price i)) = Inr a"
proof -
  obtain config p n where c: "check_price (wire_price i) tickSize config = Inr p" "check_size i minSize config = None"
      "pm_multiply (oi_size i) (wire_price i) = Inr n" "check_notional i n minNotional = None"
      "raw_amounts_of i (wire_price i) (case pm_decimal_rat (oi_size i) of Inl _ \<Rightarrow> 0 | Inr r \<Rightarrow> r) n = Inr a"
    using assms by (auto simp: build_raw_amounts_def split: option.splits sum.splits)
  have "p = dec_value (wire_price i)"
    using c(1) by (auto simp: check_price_def pm_decimal_rat_dec_value split: if_splits sum.splits)
  moreover obtain x where "pm_decimal_rat (oi_size i) = Inr x" "n = dec_value (oi_size i) * dec_value (wire_price i)"
    using pm_multiply_value [OF c(3)] by blast
  moreover from this(1) have "x = dec_value (oi_size i)" by (simp add: pm_decimal_rat_dec_value)
  ultimately show ?thesis using that [of config] c by simp
qed

lemma check_price_sound:
  assumes "check_price p tickSize config = Inr r"
  shows "dec_value tickSize \<le> dec_value p" "dec_value p \<le> 1 - dec_value tickSize" "0 < dec_value tickSize"
    "\<exists>k. dec_value p = of_int k * dec_value tickSize"
proof -
  obtain t where t: "pm_decimal_rat tickSize = Inr t" "pm_decimal_rat p = Inr r" "t \<le> r" "r \<le> 1 - t" "dec_is_multiple_of p tickSize = Inr True"
    using assms by (auto simp: check_price_def not_less split: if_splits sum.splits)
  note v = t(1,2) [THEN pm_decimal_rat_dec_value]
  show "dec_value tickSize \<le> dec_value p" "dec_value p \<le> 1 - dec_value tickSize" using t(3,4) v by simp_all
  show "0 < dec_value tickSize" using t(5) by (auto simp: dec_is_multiple_of_def dec_value_def not_le split: sum.splits if_splits)
  show "\<exists>k. dec_value p = of_int k * dec_value tickSize" by (rule is_multiple_value [OF t(5)])
qed

lemma build_raw_amounts_units:
  assumes "build_raw_amounts i tickSize minSize minNotional = Inr a"
  obtains x n where "of_int x = dec_value (oi_size i) * 10 ^ 6" "of_int n = dec_value (wire_price i) * of_int x"
    "0 < n" "n < x" "0 < dec_value (wire_price i)" "dec_value (wire_price i) < 1"
    "oi_side i = SideBuy \<and> ra_maker_amount a = show_int n \<and> ra_taker_amount a = show_int x \<or>
     oi_side i = SideSell \<and> ra_maker_amount a = show_int x \<and> ra_taker_amount a = show_int n"
proof -
  obtain config where c: "check_price (wire_price i) tickSize config = Inr (dec_value (wire_price i))" "check_size i minSize config = None"
    "raw_amounts_of i (wire_price i) (dec_value (oi_size i)) (dec_value (oi_size i) * dec_value (wire_price i)) = Inr a"
    by (rule build_raw_amounts_cases [OF assms])
  let ?p = "dec_value (wire_price i)" and ?s = "dec_value (oi_size i)"
  have p: "0 < ?p" "?p < 1" using check_price_sound [OF c(1)] by linarith+
  have s: "0 < ?s" using c(2) by (auto simp: check_size_def not_positive_value [symmetric] split: if_splits)
  obtain x n where x: "rat_to_scaled_integer ?s 6 = Inr x" "rat_to_scaled_integer (?s * ?p) 6 = Inr n"
    using c(3) by (auto simp: raw_amounts_of_def split: sum.splits)
  have eq1: "of_int x = ?s * 10 ^ 6" using rat_to_scaled_exact [OF x(1)] by (simp add: field_simps)
  have "of_int n = ?s * ?p * 10 ^ 6" using rat_to_scaled_exact [OF x(2)] by (simp add: field_simps)
  then have eq2: "of_int n = ?p * of_int x" using eq1 by (simp add: algebra_simps)
  have "0 < (of_int x :: rat)" using s by (simp add: eq1)
  moreover from this have "0 < (of_int n :: rat)" "(of_int n :: rat) < of_int x" using p by (simp_all add: eq2 mult_less_cancel_right1)
  ultimately have "0 < n" "n < x" by simp_all
  moreover have "oi_side i = SideBuy \<and> ra_maker_amount a = show_int n \<and> ra_taker_amount a = show_int x \<or>
     oi_side i = SideSell \<and> ra_maker_amount a = show_int x \<and> ra_taker_amount a = show_int n"
    using c(3) x by (auto simp: raw_amounts_of_def split: if_splits)
  ultimately show ?thesis using that [of x n] eq1 eq2 p by blast
qed

text \<open>
  The signed amounts are the order. When \<open>buildRawAmounts\<close> succeeds, its two integers are exactly the size and the
  notional \<open>size * price\<close> in units of \<open>10^-6\<close>, maker and taker in the order of the side. Both are positive, the price is
  a multiple of the tick size strictly between 0 and 1, and a BUY spends less than one unit of collateral per share.
\<close>

lemma wire_amounts_exact:
  assumes "build_raw_amounts i tickSize minSize minNotional = Inr a"
  shows "(\<exists>k. dec_value (wire_price i) = of_int k * dec_value tickSize) \<and> 0 < dec_value (wire_price i) \<and> dec_value (wire_price i) < 1 \<and>
    (\<exists>x n. of_int x = dec_value (oi_size i) * 10 ^ 6 \<and> of_int n = dec_value (wire_price i) * of_int x \<and> 0 < n \<and> n < x \<and>
      (oi_side i = SideBuy \<and> ra_maker_amount a = show_int n \<and> ra_taker_amount a = show_int x \<or>
       oi_side i = SideSell \<and> ra_maker_amount a = show_int x \<and> ra_taker_amount a = show_int n))"
proof -
  obtain config where c: "check_price (wire_price i) tickSize config = Inr (dec_value (wire_price i))"
    by (rule build_raw_amounts_cases [OF assms])
  show ?thesis by (rule build_raw_amounts_units [OF assms]) (use check_price_sound(4) [OF c] in blast)
qed

lemma intent_normalize_size: "dec_value (oi_size (intent_normalize i)) = dec_value (oi_size i)"
  by (simp add: intent_normalize_def dec_value_def dec_rat_def Let_def)

lemma placement_sound:
  assumes "placement_intent o1 = Inr w" and "0 < dec_value (oi_size (o_intent o1))"
  shows "dec_value (oi_size w) \<le> dec_value (oi_size (o_intent o1))" "w\<lparr>oi_size := []\<rparr> = (intent_normalize (o_intent o1))\<lparr>oi_size := []\<rparr>"
    "o_market_validation o1 = Some v \<Longrightarrow> oi_time_in_force w = TimeInForceIOC \<Longrightarrow> \<not> dec_is_empty (mv_executable_size v) \<Longrightarrow>
     oi_size w = mv_executable_size v"
proof -
  show "dec_value (oi_size w) \<le> dec_value (oi_size (o_intent o1))"
  proof (cases "w = intent_normalize (o_intent o1)")
    case False
    then obtain v where v: "o_market_validation o1 = Some v" using assms(1) by (auto simp: placement_intent_def Let_def split: option.splits)
    then have "\<not> compare_fails (mv_executable_size v) (oi_size (intent_normalize (o_intent o1))) (\<lambda>c. c > 0)" "oi_size w = mv_executable_size v"
      using assms False by (auto simp: placement_intent_def Let_def split: if_splits)
    then show ?thesis using compare_fails_value intent_normalize_size by metis
  qed (use intent_normalize_size [of "o_intent o1"] in simp)
qed (use assms in \<open>auto simp: placement_intent_def Let_def split: option.splits if_splits\<close>)


section \<open>From the live check to the signature\<close>

lemma limit_price_is_worst:
  assumes "validate_prices i tick = None" "oi_type i = OrderTypeLimit" "\<not> dec_is_empty (oi_worst_price i)"
  shows "dec_value (oi_price i) = dec_value (oi_worst_price i)"
proof -
  have "dec_equal (oi_price i) (oi_worst_price i)" using assms by (auto simp: validate_prices_def split: if_splits)
  then show ?thesis using assms(3) by (auto simp: dec_equal_def dec_value_def dec_compare_Inr rat_cmp_def split: if_splits)
qed

lemma normalize_idem_fields:
  assumes "w\<lparr>oi_size := []\<rparr> = i\<lparr>oi_size := []\<rparr>"
  shows "oi_side w = oi_side i" "wire_price w = wire_price i" "oi_time_in_force w = oi_time_in_force i"
proof -
  have f: "f (w\<lparr>oi_size := []\<rparr>) = f (i\<lparr>oi_size := []\<rparr>)" for f :: "order_intent \<Rightarrow> string" using assms by simp
  show "oi_side w = oi_side i" "wire_price w = wire_price i" "oi_time_in_force w = oi_time_in_force i"
    using f [of oi_side] f [of wire_price] f [of oi_time_in_force] by (simp_all add: wire_price_def cong: if_cong)
qed

lemma checked_wire_price:
  assumes "check_market vl i m now = Inr out" "require_market_context i = None" "oi_type i = OrderTypeLimit \<or> oi_type i = OrderTypeMarket"
  shows "dec_value (wire_price i) = dec_value (oi_worst_price i)"
proof -
  have "validate_prices i (ms_tick_size m) = None" using assms(1) by (auto simp: check_market_def Let_def split: option.splits if_splits)
  moreover have "\<not> dec_is_empty (oi_worst_price i)" using assms(2) by (auto simp: require_market_context_def split: if_splits)
  ultimately show ?thesis using assms(3) limit_price_is_worst by (auto simp: wire_price_def order_constants)
qed

text \<open>
  C8. What is signed for an IOC buy was on the book. Let the live check of the intent return \<open>v\<close> from the captured
  \<open>book\<close>, and let the order that carries \<open>v\<close> be turned into wire amounts. The signed number of shares is at most the
  requested size and at most what the book showed inside the limit, and the signed spend is exactly the limit price for
  each of these shares: no step between the decision and the signature adds shares or money.
\<close>

theorem signed_ioc_is_on_the_book:
  assumes live: "run_state (live_validate vl (o_intent o1)) s = (Inr v, s')" and ev: "o_market_validation o1 = Some v"
    and i: "i = intent_normalize (o_intent o1)" "oi_side i = SideBuy" "oi_time_in_force i = TimeInForceIOC"
      "oi_type i = OrderTypeLimit \<or> oi_type i = OrderTypeMarket"
    and w: "placement_intent o1 = Inr w" "build_raw_amounts w tickSize minSize minNotional = Inr a"
  shows "\<exists>now target book s3 s4 shares spend.
    run_state (vl_capture vl now [target]) s3 = (Inr [book], s4) \<and> ra_taker_amount a = show_int shares \<and> ra_maker_amount a = show_int spend \<and>
    0 < shares \<and> of_int shares / 10 ^ 6 \<le> dec_value (oi_size (o_intent o1)) \<and> of_int shares / 10 ^ 6 \<le> visible_depth i book \<and>
    of_int spend = dec_value (oi_worst_price i) * of_int shares"
proof -
  have buy: "oi_side (intent_normalize (o_intent o1)) = SideBuy" using i(1,2) by (simp only:)
  obtain m out book target now s1 s2 s3 s4 where l: "run_state (vl_capture vl now [target]) s3 = (Inr [book], s4)"
      "check_market vl i m now = Inr out" "require_market_context i = None" "book_within_limit vl i book now" "evidence_of i m book v"
    unfolding i(1) by (rule live_validate_cases [OF live buy])
  have e: "protected_executable_size i book = Inr (mv_executable_size v)" "book_validate book = None"
    using l(4,5) i(3) by (simp_all add: evidence_of_def book_within_limit_def)
  obtain q where q: "dec_rat (mv_executable_size v) = Inr q" "q \<le> visible_depth i book" using executable_size_is_visible [OF e] by blast
  then have ne: "\<not> dec_is_empty (mv_executable_size v)" by (auto simp: dec_is_empty_def dec_rat_def)
  have pos: "0 < dec_value (oi_size (o_intent o1))"
    using executable_size_cases [OF e] intent_normalize_size [of "o_intent o1"] i(1) by metis
  note pl = placement_sound [OF w(1) pos] and f = normalize_idem_fields [OF placement_sound(2) [OF w(1) pos], folded i(1)]
  have sz: "oi_size w = mv_executable_size v" using pl(3) [OF ev _ ne] f(3) i(3) by simp
  obtain x n where x: "of_int x = dec_value (oi_size w) * 10 ^ 6" "of_int n = dec_value (wire_price w) * of_int x" "0 < n" "n < x"
      "oi_side w = SideBuy \<and> ra_maker_amount a = show_int n \<and> ra_taker_amount a = show_int x \<or>
       oi_side w = SideSell \<and> ra_maker_amount a = show_int x \<and> ra_taker_amount a = show_int n"
    by (rule build_raw_amounts_units [OF w(2)])
  have am: "ra_maker_amount a = show_int n" "ra_taker_amount a = show_int x" using x(5) f(1) i(2) by (auto simp: order_constants)
  have wp: "dec_value (wire_price w) = dec_value (oi_worst_price i)" using checked_wire_price [OF l(2,3) i(4)] f(2) by simp
  have "of_int x / 10 ^ 6 = dec_value (oi_size w)" using x(1) by simp
  moreover have "dec_value (oi_size w) \<le> visible_depth i book" using q sz by (simp add: dec_value_def)
  ultimately show ?thesis using l(1) x(2-4) am wp pl(1) by (intro exI [of _ now] exI [of _ target] exI [of _ book] exI [of _ s3] exI [of _ s4]
        exI [of _ x] exI [of _ n]) auto
qed

definition wire_order :: order where
  "wire_order = sample_order\<lparr>o_intent := live_intent, o_filled_size := ''0'',
     o_market_validation := Some (projr (fst (run_state (live_validate live_validator live_intent) ())))\<rparr>"

definition wire_probe :: "string \<times> string" where
  "wire_probe = (case placement_intent wire_order of
     Inl e \<Rightarrow> (error_text e, [])
   | Inr w \<Rightarrow> (case build_raw_amounts w ''0.1'' ''5'' ''1'' of Inl e \<Rightarrow> (error_text e, [])
       | Inr a \<Rightarrow> (ra_taker_amount a, ra_maker_amount a)))"

lemma wire_probe_value: "wire_probe = (''7500000'', ''4500000'')"
  by code_simp

theorem signed_ioc_is_on_the_book_witness:
  "\<exists>book shares. show_int shares = ''7500000'' \<and> of_int shares / 10 ^ 6 \<le> visible_depth (intent_normalize live_intent) book"
proof -
  let ?i = "intent_normalize (o_intent wire_order)"
  have i: "oi_side ?i = SideBuy" "oi_time_in_force ?i = TimeInForceIOC" "oi_type ?i = OrderTypeLimit \<or> oi_type ?i = OrderTypeMarket"
    by code_simp+
  have o: "o_intent wire_order = live_intent" by (simp add: wire_order_def)
  obtain v where v: "run_state (live_validate live_validator live_intent) () = (Inr v, ())"
    using live_probe_value by (cases "run_state (live_validate live_validator live_intent) ()") (auto simp: live_probe_def split: sum.splits)
  then have ev: "o_market_validation wire_order = Some v" by (simp add: wire_order_def)
  obtain w a where w: "placement_intent wire_order = Inr w" "build_raw_amounts w ''0.1'' ''5'' ''1'' = Inr a" "ra_taker_amount a = ''7500000''"
    using wire_probe_value by (auto simp: wire_probe_def split: sum.splits)
  from signed_ioc_is_on_the_book [OF v [folded o] ev refl i w(1,2)] w(3) show ?thesis unfolding o by metis
qed

end
