(* ===== verification/Risk_Control.thy ===== *)
theory Risk_Control
  imports Market_Validation
begin

text \<open>
  \<open>src/internal/domain/risk.go\<close> and \<open>src/internal/service/riskcontrol/service.go\<close>: the hard risk gate accepts or rejects
  an intent against a snapshot of the account. The snapshot source and the clock are parameters. Go ranges over maps of
  named decimals; only the name in the error message depends on that order, and the model takes the order of the source text.
\<close>

section \<open>Snapshots\<close>

record hard_risk_limits =
  hl_policy_id :: string
  hl_max_order_notional :: decimal
  hl_max_market_exposure :: decimal
  hl_max_strategy_exposure :: decimal
  hl_max_wallet_exposure :: decimal
  hl_max_daily_traded_notional :: decimal
  hl_max_price_age :: duration
  hl_max_signal_age :: duration
  hl_max_state_age :: duration

record trading_controls =
  tc_global_kill_switch :: bool
  tc_execution_account_paused :: bool
  tc_strategy_paused :: bool
  tc_market_paused :: bool
  tc_reason :: string

record risk_position =
  rp_strategy_id :: string
  rp_market_id :: string
  rp_token_id :: string
  rp_total_shares :: decimal
  rp_available_shares :: decimal
  rp_reserved_shares :: decimal
  rp_risk_value :: decimal

record risk_open_order =
  ro_order_id :: string
  ro_client_order_id :: string
  ro_strategy_id :: string
  ro_market_id :: string
  ro_token_id :: string
  ro_side :: side
  ro_remaining_size :: decimal
  ro_worst_price :: decimal

record hard_risk_snapshot =
  hs_snapshot_id :: string
  hs_execution_account_id :: string
  hs_observed_at :: gtime
  hs_total_balance :: decimal
  hs_available_balance :: decimal
  hs_reserved_balance :: decimal
  hs_daily_traded_notional :: decimal
  hs_limits :: hard_risk_limits
  hs_controls :: trading_controls
  hs_positions :: "risk_position list"
  hs_open_orders :: "risk_open_order list"


section \<open>The checks\<close>














record 's risk_service =
  rk_snapshot :: "order_intent \<Rightarrow> gtime \<Rightarrow> ('s, go_error + hard_risk_snapshot) state"
  rk_max_future_skew :: duration
  rk_now :: "('s, gtime) state"

definition new_risk_service :: "'s risk_service \<Rightarrow> go_error + 's risk_service" where
  "new_risk_service p =
     (let p = p\<lparr>rk_max_future_skew := (if rk_max_future_skew p = 0 then 2 * second else rk_max_future_skew p)\<rparr> in
      if rk_max_future_skew p < 0 then Inl (ErrText ''hard risk maximum future skew must not be negative'') else Inr p)"



section \<open>What an accepted order may rely on\<close>



















end
