(* ===== verification/Execution_Router.thy ===== *)
theory Execution_Router
  imports Order_Coordinator
begin

text \<open>
  \<open>src/internal/service/executionrouter/service.go\<close>: one execution interface over the Polymarket service (the primary)
  and one route per Kalshi account, with a dynamic maintenance list. The executions behind the router, the repository, the
  maintenance list and the clock are parameters. The theorems show that an intent reaches only the execution of its venue,
  that nothing is submitted or resumed for an account in maintenance, and that the router can serve the coordinator.
\<close>

section \<open>Accounts and bindings\<close>

definition KalshiExecutionAccountPrefix :: string where "KalshiExecutionAccountPrefix = ''kalshi:''"

definition is_kalshi_execution_account :: "string \<Rightarrow> bool" where
  "is_kalshi_execution_account accountID = has_prefix (trim_space accountID) KalshiExecutionAccountPrefix"

definition canonical_strategy_id :: "string \<Rightarrow> string" where
  "canonical_strategy_id value =
     (let v = to_lower (trim_space value) in
      if v = ''strategy-v1'' \<or> v = ''mult-factor-v1'' \<or> v = ''multfactor_v1'' then ''multfactor_v1''
      else if v = ''strategy-v2'' \<or> v = ''mult-factor-v2'' \<or> v = ''multfactor_v2'' then ''multfactor_v2''
      else trim_space value)"

record strategy_binding =
  sb_prediction_model_id :: string
  sb_model_id :: string
  sb_strategy_id :: string
  sb_execution_account_id :: string
  sb_market_source :: market_source

definition binding_normalize :: "strategy_binding \<Rightarrow> strategy_binding" where
  "binding_normalize b =
     (let model = trim_space (sb_model_id b); prediction = trim_space (sb_prediction_model_id b) in
      \<lparr>sb_prediction_model_id = (if prediction = [] then model else prediction), sb_model_id = model,
       sb_strategy_id = canonical_strategy_id (sb_strategy_id b), sb_execution_account_id = trim_space (sb_execution_account_id b),
       sb_market_source = market_source_normalize (sb_market_source b)\<rparr>)"


section \<open>The router\<close>

record 's routed_execution = "'s execution_port" +
  ex_submit :: "order_intent \<Rightarrow> ('s, submit_result \<times> err) state"
  ex_events :: "string \<Rightarrow> ('s, go_error + order_event list) state"
  ex_attempts :: "string \<Rightarrow> ('s, go_error + order_attempt list) state"

record 's route =
  rt_account_id :: string
  rt_strategy_id :: string
  rt_execution :: "'s routed_execution"
  rt_maintenance_only :: bool

record 's router =
  xr_get :: "string \<Rightarrow> ('s, go_error + order) state"
  xr_transition :: "order \<Rightarrow> order_event \<Rightarrow> ('s, err) state"
  xr_primary :: "'s routed_execution"
  xr_routes :: "(string \<times> 's route) list"
  xr_maintenance :: "'s \<Rightarrow> string \<Rightarrow> string option"
  xr_now :: "('s, gtime) state"

text \<open>\<open>NewWithMaintenance\<close>; a nil maintenance list is the function that is always \<open>None\<close>.\<close>

fun add_routes :: "(string \<times> 's route) list \<Rightarrow> 's route list \<Rightarrow> go_error + (string \<times> 's route) list" where
  "add_routes acc [] = Inr acc"
| "add_routes acc (r0 # rs) =
     (let r = r0\<lparr>rt_account_id := trim_space (rt_account_id r0), rt_strategy_id := canonical_strategy_id (rt_strategy_id r0)\<rparr> in
      if rt_account_id r = [] \<or> rt_strategy_id r = [] then Inl (ErrText ''Kalshi execution route is incomplete'')
      else if \<not> is_kalshi_execution_account (rt_account_id r)
      then Inl (ErrText (''Kalshi execution route account '' @ quoted (rt_account_id r) @ '' must start with '' @ quoted KalshiExecutionAccountPrefix))
      else if map_of acc (rt_account_id r) \<noteq> None then Inl (ErrText ''duplicate Kalshi execution route'')
      else add_routes (acc @ [(rt_account_id r, r)]) rs)"

definition new_router :: "'s router \<Rightarrow> 's route list \<Rightarrow> go_error + 's router" where
  "new_router p routes = (case add_routes [] routes of Inl e \<Rightarrow> Inl e | Inr rs \<Rightarrow> Inr (p\<lparr>xr_routes := rs\<rparr>))"

definition in_maintenance :: "'s router \<Rightarrow> string \<Rightarrow> ('s, string option) state" where
  "in_maintenance xr accountID = do { s \<leftarrow> State_Monad.get; State_Monad.return (xr_maintenance xr s (trim_space accountID)) }"

definition kalshi_route :: "'s router \<Rightarrow> order_intent \<Rightarrow> 's route option" where
  "kalshi_route xr i =
     (let accountID = trim_space (oi_execution_account_id i);
          found = (case map_of (xr_routes xr) accountID of
            Some r \<Rightarrow> Some r
          | None \<Rightarrow> if accountID \<noteq> [] \<and> \<not> is_kalshi_execution_account accountID
                    then map_of (xr_routes xr) (KalshiExecutionAccountPrefix @ accountID) else None)
      in case found of
           None \<Rightarrow> None
         | Some r \<Rightarrow> if canonical_strategy_id (oi_strategy_id i) \<noteq> rt_strategy_id r then None else Some r)"

definition is_kalshi_source :: "market_source \<Rightarrow> bool" where
  "is_kalshi_source src \<longleftrightarrow> market_source_normalize src = MarketSourceKalshi"

definition kalshi_enabled :: "'s router \<Rightarrow> order_intent \<Rightarrow> ('s, bool) state" where
  "kalshi_enabled xr i =
     (if \<not> is_kalshi_source (oi_market_source i) then State_Monad.return False
      else case kalshi_route xr i of
        None \<Rightarrow> State_Monad.return False
      | Some r \<Rightarrow>
          if rt_maintenance_only r then State_Monad.return False
          else do { reason \<leftarrow> in_maintenance xr (rt_account_id r); State_Monad.return (reason = None) })"

definition strategy_input_enabled :: "'s router \<Rightarrow> strategy_binding \<Rightarrow> ('s, bool) state" where
  "strategy_input_enabled xr b0 = do {
     let b = binding_normalize b0;
     reason \<leftarrow> in_maintenance xr (sb_execution_account_id b);
     State_Monad.return
       (if reason \<noteq> None then False
        else if sb_market_source b \<noteq> MarketSourceKalshi then True
        else case map_of (xr_routes xr) (sb_execution_account_id b) of
          None \<Rightarrow> False | Some r \<Rightarrow> \<not> rt_maintenance_only r \<and> rt_strategy_id r = sb_strategy_id b) }"

definition enabled :: "'s router \<Rightarrow> order_intent \<Rightarrow> ('s, bool) state" where
  "enabled xr i =
     (if market_source_normalize (oi_market_source i) = MarketSourcePolymarket then
        (if is_kalshi_execution_account (oi_execution_account_id i) then State_Monad.return False
         else do { reason \<leftarrow> in_maintenance xr (oi_execution_account_id i); State_Monad.return (reason = None) })
      else kalshi_enabled xr i)"

definition no_result :: submit_result where
  "no_result = \<lparr>sb_order = zero_order, sb_created = False\<rparr>"

definition ErrAccountMaintenance :: go_error where
  "ErrAccountMaintenance = wrap_error ''execution account is in maintenance'' (ErrSentinel ErrMaintenanceOnly)"

definition account_maintenance_error :: "string \<Rightarrow> string \<Rightarrow> go_error" where
  "account_maintenance_error accountID reason =
     ErrWrap (error_text ErrAccountMaintenance @ '': account '' @ quoted (trim_space accountID) @ '' ('' @ reason @ '')'') [ErrAccountMaintenance]"

text \<open>The intent a route receives: a legacy delivery is moved to the Kalshi account and records where it came from.\<close>

definition legacy_delivery :: "'s route \<Rightarrow> order_intent \<Rightarrow> order_intent" where
  "legacy_delivery r i =
     (if oi_execution_account_id i \<noteq> rt_account_id r
      then i\<lparr>oi_metadata := AList.update ''logical_execution_account_id'' (oi_execution_account_id i) (oi_metadata i),
             oi_execution_account_id := rt_account_id r\<rparr>
      else i)"

definition router_submit :: "'s router \<Rightarrow> order_intent \<Rightarrow> ('s, submit_result \<times> err) state" where
  "router_submit xr i =
     (if \<not> is_kalshi_source (oi_market_source i) then
        (if is_kalshi_execution_account (oi_execution_account_id i)
         then State_Monad.return (no_result, Some (ErrText (''Polymarket intent cannot use Kalshi execution account '' @ quoted (oi_execution_account_id i))))
         else do {
           reason \<leftarrow> in_maintenance xr (oi_execution_account_id i);
           (case reason of
              Some why \<Rightarrow> State_Monad.return (no_result, Some (account_maintenance_error (oi_execution_account_id i) why))
            | None \<Rightarrow> ex_submit (xr_primary xr) i) })
      else case (case kalshi_route xr i of None \<Rightarrow> None | Some r \<Rightarrow> if rt_maintenance_only r then None else Some r) of
        None \<Rightarrow> State_Monad.return (no_result, Some (ErrText (''Kalshi live route is not enabled for account '' @ quoted (oi_execution_account_id i))))
      | Some r \<Rightarrow> do {
          reason \<leftarrow> in_maintenance xr (rt_account_id r);
          (case reason of
             Some why \<Rightarrow> State_Monad.return (no_result, Some (ErrText (''Kalshi live route is in maintenance for account '' @
               quoted (rt_account_id r) @ '' ('' @ why @ '')'')))
           | None \<Rightarrow> ex_submit (rt_execution r) (legacy_delivery r i)) })"

definition execution_for_order :: "'s router \<Rightarrow> string \<Rightarrow> ('s, go_error + 's routed_execution) state" where
  "execution_for_order xr orderID = do {
     found \<leftarrow> xr_get xr (trim_space orderID);
     State_Monad.return
       (case found of
          Inl e \<Rightarrow> Inl e
        | Inr o1 \<Rightarrow>
            if \<not> is_kalshi_source (oi_market_source (o_intent o1)) then Inr (xr_primary xr)
            else case map_of (xr_routes xr) (trim_space (oi_execution_account_id (o_intent o1))) of
              Some r \<Rightarrow> Inr (rt_execution r) | None \<Rightarrow> Inl (ErrText ''Kalshi order has no configured execution route'')) }"

definition deferred_transition :: "order \<Rightarrow> string \<Rightarrow> string \<Rightarrow> gtime \<Rightarrow> transition" where
  "deferred_transition o1 reasonCode reason now =
     \<lparr>tr_event_id = ''event:'' @ o_id o1 @ '':'' @ show_int (o_revision o1 + 1), tr_to = o_status o1,
      tr_trigger = TransitionTriggerMaintenance, tr_attempt_id = [], tr_fill_key = [], tr_reason_code = reasonCode, tr_reason = reason,
      tr_venue_status = [], tr_venue_order_id = [], tr_filled_size = [], tr_filled_notional = [], tr_total_fees = [],
      tr_average_fill_price = [], tr_venue_observed_at = None, tr_at = now\<rparr>"

definition defer_resume :: "'s router \<Rightarrow> order \<Rightarrow> string \<Rightarrow> string \<Rightarrow> go_error \<Rightarrow> ('s, order \<times> err) state" where
  "defer_resume xr o1 reasonCode reason cause = do {
     now \<leftarrow> xr_now xr;
     (case apply_transition o1 (deferred_transition o1 reasonCode reason now) of
        Inl e \<Rightarrow> State_Monad.return (o1, errors_join [Some cause, Some e])
      | Inr (nxt, event) \<Rightarrow> do {
          failed \<leftarrow> xr_transition xr nxt event;
          State_Monad.return (case failed of Some e \<Rightarrow> (o1, errors_join [Some cause, Some e]) | None \<Rightarrow> (nxt, Some cause)) }) }"

text \<open>What holds back the resumption of an order: the reason code, the reason and the error of the deferral.\<close>

definition resume_hold :: "'s router \<Rightarrow> order \<Rightarrow> ('s, (string \<times> string \<times> go_error) option) state" where
  "resume_hold xr o1 = do {
     let accountID = trim_space (oi_execution_account_id (o_intent o1));
     reason \<leftarrow> in_maintenance xr accountID;
     State_Monad.return
       (if is_kalshi_source (oi_market_source (o_intent o1)) then
          (case map_of (xr_routes xr) accountID of
             Some r \<Rightarrow>
               if rt_maintenance_only r \<or> reason \<noteq> None
               then Some (''KALSHI_ROUTE_MAINTENANCE'', ''Kalshi preflight is unavailable; pre-venue recovery is deferred without submission'',
                      ErrSentinel ErrMaintenanceOnly)
               else None
           | None \<Rightarrow> None)
        else if reason \<noteq> None \<and> \<not> order_terminal o1
        then Some (''ACCOUNT_MAINTENANCE'', ''execution account is in maintenance; pre-venue recovery is deferred without submission'', ErrAccountMaintenance)
        else None) }"

definition with_execution :: "'s router \<Rightarrow> string \<Rightarrow> ('s routed_execution \<Rightarrow> ('s, order \<times> err) state) \<Rightarrow> ('s, order \<times> err) state" where
  "with_execution xr orderID f = do {
     e \<leftarrow> execution_for_order xr orderID;
     (case e of Inl x \<Rightarrow> State_Monad.return (zero_order, Some x) | Inr ex \<Rightarrow> f ex) }"

definition router_resume :: "'s router \<Rightarrow> string \<Rightarrow> ('s, order \<times> err) state" where
  "router_resume xr orderID = do {
     found \<leftarrow> xr_get xr (trim_space orderID);
     (case found of
        Inl e \<Rightarrow> State_Monad.return (zero_order, Some e)
      | Inr o1 \<Rightarrow> do {
          hold \<leftarrow> resume_hold xr o1;
          (case hold of
             Some (code, reason, cause) \<Rightarrow> defer_resume xr o1 code reason cause
           | None \<Rightarrow> with_execution xr orderID (\<lambda>ex. ex_resume ex orderID)) }) }"

definition router_get :: "'s router \<Rightarrow> string \<Rightarrow> ('s, go_error + order) state" where
  "router_get xr orderID = xr_get xr (trim_space orderID)"

definition router_refresh :: "'s router \<Rightarrow> string \<Rightarrow> ('s, order \<times> err) state" where
  "router_refresh xr orderID = with_execution xr orderID (\<lambda>ex. ex_refresh ex orderID)"

definition router_cancel :: "'s router \<Rightarrow> string \<Rightarrow> ('s, order \<times> err) state" where
  "router_cancel xr orderID = with_execution xr orderID (\<lambda>ex. ex_cancel ex orderID)"

definition router_finalize_cancellation :: "'s router \<Rightarrow> string \<Rightarrow> ('s, order \<times> err) state" where
  "router_finalize_cancellation xr orderID = with_execution xr orderID (\<lambda>ex. ex_finalize_cancellation ex orderID)"

definition router_events :: "'s router \<Rightarrow> string \<Rightarrow> ('s, go_error + order_event list) state" where
  "router_events xr orderID = do {
     e \<leftarrow> execution_for_order xr orderID;
     (case e of Inl x \<Rightarrow> State_Monad.return (Inl x) | Inr ex \<Rightarrow> ex_events ex orderID) }"

definition router_attempts :: "'s router \<Rightarrow> string \<Rightarrow> ('s, go_error + order_attempt list) state" where
  "router_attempts xr orderID = do {
     e \<leftarrow> execution_for_order xr orderID;
     (case e of Inl x \<Rightarrow> State_Monad.return (Inl x) | Inr ex \<Rightarrow> ex_attempts ex orderID) }"


section \<open>Routing\<close>

text \<open>Every stored route is keyed by its own account, a Kalshi account.\<close>

definition routes_ok :: "(string \<times> 's route) list \<Rightarrow> bool" where
  "routes_ok rs \<longleftrightarrow> (\<forall>(a, r) \<in> set rs. rt_account_id r = a \<and> is_kalshi_execution_account a) \<and> distinct (map fst rs)"

lemma add_routes_ok: "add_routes acc rs = Inr out \<Longrightarrow> routes_ok acc \<Longrightarrow> routes_ok out"
proof (induction acc rs rule: add_routes.induct)
  case (2 acc r0 rs)
  then show ?case
    by (auto simp: Let_def routes_ok_def map_of_eq_None_iff split: if_splits)
qed simp

lemma new_router_ok: "new_router p routes = Inr xr \<Longrightarrow> routes_ok (xr_routes xr)"
  using add_routes_ok [of "[]" routes] by (auto simp: new_router_def routes_ok_def split: sum.splits)

lemma run_in_maintenance [simp]: "run_state (in_maintenance xr a) s = (xr_maintenance xr s (trim_space a), s)"
  by (simp add: in_maintenance_def)

lemma add_routes_configured:
  "add_routes acc rs = Inr out \<Longrightarrow> (a, r) \<in> set out \<Longrightarrow> (a, r) \<notin> set acc \<Longrightarrow>
   \<exists>r0 \<in> set rs. r = r0\<lparr>rt_account_id := trim_space (rt_account_id r0), rt_strategy_id := canonical_strategy_id (rt_strategy_id r0)\<rparr>"
proof (induction acc rs rule: add_routes.induct)
  case (2 acc r0 rs)
  then show ?case by (fastforce simp: Let_def split: if_splits)
qed simp

lemma new_router_configured:
  assumes "new_router p routes = Inr xr" "(a, r) \<in> set (xr_routes xr)"
  shows "\<exists>r0 \<in> set routes. r = r0\<lparr>rt_account_id := trim_space (rt_account_id r0), rt_strategy_id := canonical_strategy_id (rt_strategy_id r0)\<rparr>"
  using assms add_routes_configured [of "[]" routes] by (fastforce simp: new_router_def split: sum.splits)

text \<open>
  The route of a Kalshi intent: it is registered under the account of the intent, or, for an account written without the
  Kalshi prefix, under that account with the prefix, and its strategy is the intent's.
\<close>

definition serves :: "'s router \<Rightarrow> order_intent \<Rightarrow> 's route \<Rightarrow> bool" where
  "serves xr i r \<longleftrightarrow>
     (let accountID = trim_space (oi_execution_account_id i) in
      (rt_account_id r, r) \<in> set (xr_routes xr) \<and> is_kalshi_execution_account (rt_account_id r) \<and>
      rt_strategy_id r = canonical_strategy_id (oi_strategy_id i) \<and>
      (rt_account_id r = accountID \<or>
       accountID \<noteq> [] \<and> \<not> is_kalshi_execution_account accountID \<and> rt_account_id r = KalshiExecutionAccountPrefix @ accountID))"

lemma kalshi_route_iff:
  assumes "routes_ok (xr_routes xr)"
  shows "kalshi_route xr i = Some r \<longleftrightarrow> serves xr i r"
proof -
  have key: "map_of (xr_routes xr) a = Some r \<longleftrightarrow> (rt_account_id r, r) \<in> set (xr_routes xr) \<and> rt_account_id r = a" for a r
    using assms by (auto simp: routes_ok_def dest: map_of_SomeD intro: map_of_is_SomeI)
  have kalshi: "is_kalshi_execution_account (rt_account_id r)" if "(rt_account_id r, r) \<in> set (xr_routes xr)" for r
    using assms that by (auto simp: routes_ok_def)
  let ?a = "trim_space (oi_execution_account_id i)"
  show ?thesis
  proof (cases "map_of (xr_routes xr) ?a")
    case None
    have other: "\<not> ((rt_account_id r, r) \<in> set (xr_routes xr) \<and> rt_account_id r = ?a)" using key [of ?a r] None by simp
    have "kalshi_route xr i = Some r \<longleftrightarrow> ?a \<noteq> [] \<and> \<not> is_kalshi_execution_account ?a \<and>
        map_of (xr_routes xr) (KalshiExecutionAccountPrefix @ ?a) = Some r \<and> canonical_strategy_id (oi_strategy_id i) = rt_strategy_id r"
      using None by (auto simp: kalshi_route_def Let_def split: option.split)
    then show ?thesis unfolding key serves_def Let_def using other kalshi [of r] by metis
  next
    case (Some q)
    then have q: "(rt_account_id q, q) \<in> set (xr_routes xr)" "rt_account_id q = ?a" using key by auto
    then have "is_kalshi_execution_account ?a" using kalshi [of q] by simp
    then show ?thesis using Some key [of ?a r] kalshi [of r] by (auto simp: kalshi_route_def serves_def Let_def)
  qed
qed

text \<open>
  C11. An intent reaches only the execution of its venue and account. A \<open>Submit\<close> of a constructed router does one of three things.
  A Polymarket intent whose account is no Kalshi account and not in maintenance goes to the primary unchanged.
  A Kalshi intent goes to the one configured route of its account and strategy, provided the route is not
  maintenance-only and its account not in maintenance; it arrives unchanged, or, when its account is spelled with padding or
  without the Kalshi prefix, under the account of the route with the original account in its metadata. In
  every other case it fails, and no state is touched.
\<close>

theorem submit_reaches_its_venue:
  assumes "new_router p routes = Inr xr"
  shows "if \<not> is_kalshi_source (oi_market_source i)
    then if \<not> is_kalshi_execution_account (oi_execution_account_id i) \<and> xr_maintenance xr s (trim_space (oi_execution_account_id i)) = None
      then run_state (router_submit xr i) s = run_state (ex_submit (xr_primary xr) i) s
      else \<exists>e. run_state (router_submit xr i) s = ((no_result, Some e), s)
    else (\<exists>r j. serves xr i r \<and> (\<forall>r'. serves xr i r' \<longrightarrow> r' = r) \<and>
        (\<exists>r0 \<in> set routes. rt_execution r = rt_execution r0 \<and> rt_account_id r = trim_space (rt_account_id r0)) \<and>
        \<not> rt_maintenance_only r \<and> xr_maintenance xr s (trim_space (rt_account_id r)) = None \<and>
        (if oi_execution_account_id i = rt_account_id r then j = i
         else j = i\<lparr>oi_execution_account_id := rt_account_id r,
           oi_metadata := AList.update ''logical_execution_account_id'' (oi_execution_account_id i) (oi_metadata i)\<rparr>) \<and>
        run_state (router_submit xr i) s = run_state (ex_submit (rt_execution r) j) s) \<or>
      (\<forall>r. serves xr i r \<longrightarrow> rt_maintenance_only r \<or> xr_maintenance xr s (trim_space (rt_account_id r)) \<noteq> None) \<and>
        (\<exists>e. run_state (router_submit xr i) s = ((no_result, Some e), s))"
proof (cases "is_kalshi_source (oi_market_source i)")
  case False
  then show ?thesis by (auto simp: router_submit_def split: option.splits)
next
  case kalshi: True
  note iff = kalshi_route_iff [OF new_router_ok [OF assms], of i]
  show ?thesis
  proof (cases "kalshi_route xr i")
    case None
    then have "\<not> serves xr i r" for r using iff [of r] by simp
    then show ?thesis using kalshi None by (simp add: router_submit_def)
  next
    case (Some r)
    then have r: "serves xr i r" using iff [of r] by simp
    have unique: "r' = r" if "serves xr i r'" for r' using iff [of r'] Some that by simp
    show ?thesis
    proof (cases "rt_maintenance_only r \<or> xr_maintenance xr s (trim_space (rt_account_id r)) \<noteq> None")
      case True
      then have "\<exists>e. run_state (router_submit xr i) s = ((no_result, Some e), s)" using Some kalshi by (auto simp: router_submit_def)
      then show ?thesis using kalshi True unique by auto
    next
      case False
      then have run: "run_state (router_submit xr i) s = run_state (ex_submit (rt_execution r) (legacy_delivery r i)) s"
        using Some kalshi by (simp add: router_submit_def)
      obtain r0 where r0: "r0 \<in> set routes"
          "r = r0\<lparr>rt_account_id := trim_space (rt_account_id r0), rt_strategy_id := canonical_strategy_id (rt_strategy_id r0)\<rparr>"
        using new_router_configured [OF assms] r by (auto simp: serves_def Let_def)
      have cfg: "\<exists>r0 \<in> set routes. rt_execution r = rt_execution r0 \<and> rt_account_id r = trim_space (rt_account_id r0)"
        using r0 by (intro bexI [of _ r0]) simp_all
      have moved: "if oi_execution_account_id i = rt_account_id r then legacy_delivery r i = i
         else legacy_delivery r i = i\<lparr>oi_execution_account_id := rt_account_id r,
           oi_metadata := AList.update ''logical_execution_account_id'' (oi_execution_account_id i) (oi_metadata i)\<rparr>"
        by (simp add: legacy_delivery_def)
      show ?thesis
        by (simp only: kalshi not_True_eq_False if_False, intro disjI1 exI [of _ r] exI [of _ "legacy_delivery r i"] conjI r cfg moved run allI impI unique) (use False in simp_all)
    qed
  qed
qed


section \<open>Maintenance\<close>

text \<open>When an order is held: its account or its Kalshi route is in maintenance; a Polymarket order only while it is open.\<close>

definition held :: "'s router \<Rightarrow> 's \<Rightarrow> order \<Rightarrow> bool" where
  "held xr s o1 \<longleftrightarrow>
     (let accountID = trim_space (oi_execution_account_id (o_intent o1)) in
      if is_kalshi_source (oi_market_source (o_intent o1))
      then (\<exists>r. map_of (xr_routes xr) accountID = Some r \<and> (rt_maintenance_only r \<or> xr_maintenance xr s accountID \<noteq> None))
      else xr_maintenance xr s accountID \<noteq> None \<and> \<not> order_terminal o1)"

lemma resume_hold_run:
  "run_state (resume_hold xr o1) s = (hold, s') \<Longrightarrow> s' = s"
  "held xr s o1 \<Longrightarrow> \<exists>code reason cause. run_state (resume_hold xr o1) s = (Some (code, reason, cause), s) \<and> errors_is cause ErrMaintenanceOnly"
  by (auto simp: resume_hold_def held_def Let_def ErrAccountMaintenance_def)

text \<open>What an audited self-transition for maintenance keeps.\<close>

definition deferral_keeps :: "('s \<Rightarrow> bool) \<Rightarrow> 's router \<Rightarrow> bool" where
  "deferral_keeps R xr \<longleftrightarrow> keeps R (xr_now xr) \<and>
     (\<forall>o1 ev. o_id o1 = ev_order_id ev \<and> ev_from_status ev = ev_to_status ev \<and> o_status o1 = ev_to_status ev \<and>
        ev_trigger ev = TransitionTriggerMaintenance \<longrightarrow> keeps R (xr_transition xr o1 ev))"

lemma defer_resume_run:
  assumes k: "deferral_keeps R xr" and s: "R s" and c: "errors_is cause ErrMaintenanceOnly"
    and r: "run_state (defer_resume xr o1 code reason cause) s = ((o2, e), s')"
  shows "R s'" "err_is e ErrMaintenanceOnly" "o_id o2 = o_id o1" "o_status o2 = o_status o1"
proof -
  obtain now s1 where n: "run_state (xr_now xr) s = (now, s1)" by force
  have R1: "R s1" using k s n by (auto simp: deferral_keeps_def dest: keepsD)
  have "R s' \<and> err_is e ErrMaintenanceOnly \<and> o_id o2 = o_id o1 \<and> o_status o2 = o_status o1"
  proof (cases "apply_transition o1 (deferred_transition o1 code reason now)")
    case (Inl x)
    then show ?thesis using r R1 c by (auto simp: defer_resume_def n)
  next
    case (Inr p)
    obtain nxt ev where p: "p = (nxt, ev)" by force
    note a = apply_transition_fields(1,3) [OF Inr [unfolded p]] apply_transition_event(1,3,4,6) [OF Inr [unfolded p]]
    obtain f s2 where t: "run_state (xr_transition xr nxt ev) s1 = (f, s2)" by (metis surj_pair)
    have "keeps R (xr_transition xr nxt ev)" using k a by (simp add: deferral_keeps_def deferred_transition_def)
    from keepsD [OF this R1 t] show ?thesis
      using r c a Inr by (auto simp: defer_resume_def n p t deferred_transition_def split: option.splits)
  qed
  then show "R s'" "err_is e ErrMaintenanceOnly" "o_id o2 = o_id o1" "o_status o2 = o_status o1" by blast+
qed

text \<open>
  An account in maintenance resumes nothing. Let \<open>R\<close> be kept by reading the order and the clock and by recording a
  self-transition for maintenance. Resuming a held order through the router keeps \<open>R\<close>, so no execution is called; it
  reports the maintenance error and returns the order in the status it had.
\<close>

lemma maintenance_resumes_nothing:
  assumes k: "keeps R (xr_get xr (trim_space orderID))" "deferral_keeps R xr" and s: "R s"
    and g: "run_state (xr_get xr (trim_space orderID)) s = (Inr o1, s1)" and h: "held xr s1 o1"
    and r: "run_state (router_resume xr orderID) s = ((o2, e), s')"
  shows "R s' \<and> err_is e ErrMaintenanceOnly \<and> o_id o2 = o_id o1 \<and> o_status o2 = o_status o1"
proof -
  have R1: "R s1" by (rule keepsD [OF k(1) s g])
  obtain code reason cause where d: "run_state (resume_hold xr o1) s1 = (Some (code, reason, cause), s1)" "errors_is cause ErrMaintenanceOnly"
    using resume_hold_run(2) [OF h] by blast
  then have "run_state (defer_resume xr o1 code reason cause) s1 = ((o2, e), s')" using r g by (simp add: router_resume_def)
  from defer_resume_run [OF k(2) R1 d(2) this] show ?thesis by blast
qed

text \<open>A router over one stored order and a counter of the calls that reach an execution.\<close>

definition counting_execution :: "(order \<times> nat) routed_execution" where
  "counting_execution =
     (let touch = do { State_Monad.update (\<lambda>(o1, n). (o1, Suc n)); (o1, n) \<leftarrow> State_Monad.get; State_Monad.return (o1, None) } in
      \<lparr>ex_resume = (\<lambda>_. touch), ex_refresh = (\<lambda>_. touch), ex_cancel = (\<lambda>_. touch), ex_finalize_cancellation = (\<lambda>_. touch),
       ex_submit = (\<lambda>_. do { State_Monad.update (\<lambda>(o1, n). (o1, Suc n)); State_Monad.return (no_result, None) }),
       ex_events = (\<lambda>_. State_Monad.return (Inr [])), ex_attempts = (\<lambda>_. State_Monad.return (Inr []))\<rparr>)"

definition held_router :: "(order \<times> nat) router" where
  "held_router = \<lparr>xr_get = (\<lambda>_. do { (o1, n) \<leftarrow> State_Monad.get; State_Monad.return (Inr o1) }),
     xr_transition = (\<lambda>o1 ev. do { State_Monad.update (\<lambda>(o0, n). (o1, n)); State_Monad.return None }),
     xr_primary = counting_execution, xr_routes = [], xr_maintenance = (\<lambda>s a. if a = ''w1'' then Some ''upgrade'' else None),
     xr_now = State_Monad.return 30\<rparr>"

definition reserved_order :: order where
  "reserved_order = sample_order\<lparr>o_status := OrderStatusReserved, o_filled_size := ''0'', o_filled_notional := ''0'', o_average_fill_price := [],
     o_venue_order_id := [], o_venue_last_observed_at := None\<rparr>"

definition kalshi_routes :: "(order \<times> nat) route list" where
  "kalshi_routes = [\<lparr>rt_account_id = ''kalshi:w1'', rt_strategy_id = ''s'', rt_execution = counting_execution, rt_maintenance_only = False\<rparr>]"

definition kalshi_router :: "(order \<times> nat) router" where
  "kalshi_router = projr (new_router held_router kalshi_routes)"

theorem submit_reaches_its_venue_witness:
  "\<exists>r. serves kalshi_router (sample_intent\<lparr>oi_market_source := ''KALSHI''\<rparr>) r \<and> \<not> rt_maintenance_only r \<and>
     (\<exists>j. oi_execution_account_id j = rt_account_id r \<and>
       run_state (router_submit kalshi_router (sample_intent\<lparr>oi_market_source := ''KALSHI''\<rparr>)) (reserved_order, 0) =
       run_state (ex_submit (rt_execution r) j) (reserved_order, 0))"
proof -
  have "\<not> isl (new_router held_router kalshi_routes)" by code_simp
  then have b: "new_router held_router kalshi_routes = Inr kalshi_router" by (simp add: kalshi_router_def)
  have n: "snd (snd (run_state (router_submit kalshi_router (sample_intent\<lparr>oi_market_source := ''KALSHI''\<rparr>)) (reserved_order, 0))) = 1"
    "is_kalshi_source (oi_market_source (sample_intent\<lparr>oi_market_source := ''KALSHI''\<rparr>))" by code_simp+
  have "snd (snd (run_state (router_submit kalshi_router (sample_intent\<lparr>oi_market_source := ''KALSHI''\<rparr>)) (reserved_order, 0))) \<noteq>
      snd (snd ((no_result, Some e), (reserved_order, 0 :: nat)))" for e using n(1) by simp
  then have "run_state (router_submit kalshi_router (sample_intent\<lparr>oi_market_source := ''KALSHI''\<rparr>)) (reserved_order, 0) \<noteq>
      ((no_result, Some e), (reserved_order, 0))" for e by metis
  then obtain r j where r: "serves kalshi_router (sample_intent\<lparr>oi_market_source := ''KALSHI''\<rparr>) r" "\<not> rt_maintenance_only r"
      "if oi_execution_account_id (sample_intent\<lparr>oi_market_source := ''KALSHI''\<rparr>) = rt_account_id r
       then j = sample_intent\<lparr>oi_market_source := ''KALSHI''\<rparr>
       else j = sample_intent\<lparr>oi_market_source := ''KALSHI''\<rparr>\<lparr>oi_execution_account_id := rt_account_id r,
         oi_metadata := AList.update ''logical_execution_account_id'' (oi_execution_account_id (sample_intent\<lparr>oi_market_source := ''KALSHI''\<rparr>))
           (oi_metadata (sample_intent\<lparr>oi_market_source := ''KALSHI''\<rparr>))\<rparr>"
      "run_state (router_submit kalshi_router (sample_intent\<lparr>oi_market_source := ''KALSHI''\<rparr>)) (reserved_order, 0) =
       run_state (ex_submit (rt_execution r) j) (reserved_order, 0)"
    using submit_reaches_its_venue [OF b, of "sample_intent\<lparr>oi_market_source := ''KALSHI''\<rparr>" "(reserved_order, 0)"] n(2) by metis
  have "oi_execution_account_id j = rt_account_id r" using r(3) by (simp split: if_splits)
  with r show ?thesis by blast
qed

end
