(* ===== verification/Reconciliation_Impact.thy ===== *)
theory Reconciliation_Impact
  imports Orders
begin

text \<open>
  \<open>src/internal/domain/reconciliation.go\<close>: which trading an open reconciliation issue blocks, and the summary of a run.
  The enumerations are strings in Go and stay strings. The theorem shows that the summary of a run decides exactly which
  intents its issues block, and that an issue nobody classified blocks the whole account.
\<close>

definition ReconciliationIssueOpen :: string where "ReconciliationIssueOpen = ''OPEN''"
definition ReconciliationResolutionObserved :: string where "ReconciliationResolutionObserved = ''OBSERVED_ONLY''"
definition ReconciliationResolutionRetry :: string where "ReconciliationResolutionRetry = ''RETRY_LATER''"

record reconciliation_issue =
  is_issue_id :: string
  is_run_id :: string
  is_fingerprint :: string
  is_execution_account_id :: string
  is_type :: string
  is_resolution :: string
  is_status :: string
  is_order_id :: string
  is_venue_order_id :: string
  is_venue_trade_id :: string
  is_market_id :: string
  is_condition_id :: string
  is_token_id :: string
  is_local_value :: decimal
  is_remote_value :: decimal
  is_remote_block_number :: nat
  is_source :: string
  is_details :: string
  is_observed_at :: gtime
  is_resolved_at :: "gtime option"
  is_impact_scope :: string

definition reconciliation_issue_build :: "reconciliation_issue \<Rightarrow> go_error + reconciliation_issue" where
  "reconciliation_issue_build p =
     (let x = p\<lparr>is_issue_id := trim_space (is_issue_id p), is_run_id := trim_space (is_run_id p),
            is_fingerprint := trim_space (is_fingerprint p), is_execution_account_id := trim_space (is_execution_account_id p),
            is_order_id := trim_space (is_order_id p), is_venue_order_id := trim_space (is_venue_order_id p),
            is_venue_trade_id := trim_space (is_venue_trade_id p), is_market_id := trim_space (is_market_id p),
            is_condition_id := trim_space (is_condition_id p), is_token_id := trim_space (is_token_id p),
            is_source := trim_space (is_source p), is_details := trim_space (is_details p)\<rparr> in
      if is_type x = [] \<or> is_resolution x = [] \<or> is_status x = [] \<or> is_details x = []
      then Inl (ErrText ''reconciliation issue type, resolution, status, and details are required'') else Inr x)"

definition ReconciliationImpactNone :: string where "ReconciliationImpactNone = ''NONE''"
definition ReconciliationImpactOrder :: string where "ReconciliationImpactOrder = ''ORDER''"
definition ReconciliationImpactToken :: string where "ReconciliationImpactToken = ''TOKEN''"
definition ReconciliationImpactAccount :: string where "ReconciliationImpactAccount = ''ACCOUNT''"

lemmas impact_defs = ReconciliationImpactNone_def ReconciliationImpactOrder_def ReconciliationImpactToken_def ReconciliationImpactAccount_def

definition issue_has_market_identity :: "reconciliation_issue \<Rightarrow> bool" where
  "issue_has_market_identity x \<longleftrightarrow>
     trim_space (is_token_id x) \<noteq> [] \<or> trim_space (is_condition_id x) \<noteq> [] \<or> trim_space (is_market_id x) \<noteq> []"

definition order_scoped_impact :: "reconciliation_issue \<Rightarrow> string" where
  "order_scoped_impact x =
     (if \<not> issue_has_market_identity x then ReconciliationImpactAccount
      else if trim_space (is_order_id x) \<noteq> [] then ReconciliationImpactOrder else ReconciliationImpactToken)"

definition token_scoped_impact :: "reconciliation_issue \<Rightarrow> string" where
  "token_scoped_impact x = (if \<not> issue_has_market_identity x then ReconciliationImpactAccount else ReconciliationImpactToken)"

definition account_issue_types :: "string list" where
  "account_issue_types = [''SOURCE_CONFLICT'', ''UNATTRIBUTED_CASH_OUT'']"

definition observation_issue_types :: "string list" where
  "observation_issue_types = [''UNATTRIBUTED_CASH_IN'', ''REDEMPTION_APPLY_STALLED'']"

definition order_issue_types :: "string list" where
  "order_issue_types = [''SOURCE_UNAVAILABLE'', ''SUBMIT_UNCONFIRMED'', ''FILL_FINALITY_STALLED'', ''LOCAL_ORDER_CANCELLED'',
     ''MISSED_BUY_FILL'', ''MISSED_SELL_FILL'', ''EXTERNAL_TRADE'', ''ORDER_RECOVERY_PENDING'', ''ORDER_RECOVERY_STALLED'']"

definition token_issue_types :: "string list" where
  "token_issue_types = [''POSITION_DRIFT'', ''PHANTOM_POSITION'', ''EXTERNAL_POSITION_BASELINE_DRIFT'', ''POSITION_SETTLED'']"

definition classify_reconciliation_impact :: "reconciliation_issue \<Rightarrow> string" where
  "classify_reconciliation_impact x =
     (if is_status x \<noteq> ReconciliationIssueOpen \<or> is_resolution x = ReconciliationResolutionObserved then ReconciliationImpactNone
      else if is_type x = ''BALANCE_DRIFT''
      then (if is_resolution x = ReconciliationResolutionRetry then ReconciliationImpactNone else ReconciliationImpactAccount)
      else if is_type x \<in> set account_issue_types then ReconciliationImpactAccount
      else if is_type x \<in> set observation_issue_types then ReconciliationImpactNone
      else if is_type x \<in> set order_issue_types then order_scoped_impact x
      else if is_type x \<in> set token_issue_types then token_scoped_impact x
      else ReconciliationImpactAccount)"

text \<open>The persisted scope of an issue, or its classification when none is stored.\<close>

definition impact_scope_of :: "reconciliation_issue \<Rightarrow> string" where
  "impact_scope_of x = (if is_impact_scope x = [] then classify_reconciliation_impact x else is_impact_scope x)"

definition identity_matches :: "string \<Rightarrow> string \<Rightarrow> bool" where
  "identity_matches issueValue intentValue = (let v = trim_space issueValue in v \<noteq> [] \<and> equal_fold v (trim_space intentValue))"

definition blocks_intent :: "reconciliation_issue \<Rightarrow> order_intent \<Rightarrow> bool" where
  "blocks_intent x i =
     (if impact_scope_of x = ReconciliationImpactAccount then True
      else if impact_scope_of x = ReconciliationImpactOrder \<or> impact_scope_of x = ReconciliationImpactToken
      then identity_matches (is_token_id x) (oi_token_id i) \<or> identity_matches (is_condition_id x) (oi_condition_id i) \<or>
           identity_matches (is_market_id x) (oi_market_id i)
      else False)"

record reconciliation_impact =
  ri_account_wide :: bool
  ri_reasons :: "string list"
  ri_scoped_reasons :: "string list"
  ri_order_ids :: "string list"
  ri_token_ids :: "string list"
  ri_condition_ids :: "string list"
  ri_market_ids :: "string list"

text \<open>
  The closure \<open>add\<close>. Its \<open>seen\<close> keys start with a prefix of their own for each target, so a value is seen exactly when it is
  in the target already.
\<close>

definition add_value :: "string list \<Rightarrow> string \<Rightarrow> string list" where
  "add_value target value = (let v = trim_space value in if v = [] \<or> v \<in> set target then target else target @ [v])"

definition summarize_issue :: "reconciliation_issue \<Rightarrow> reconciliation_impact \<Rightarrow> reconciliation_impact" where
  "summarize_issue x im =
     (if impact_scope_of x = ReconciliationImpactAccount
      then im\<lparr>ri_account_wide := True, ri_reasons := add_value (ri_reasons im) (is_type x @ '':'' @ is_source x)\<rparr>
      else if impact_scope_of x = ReconciliationImpactOrder \<or> impact_scope_of x = ReconciliationImpactToken
      then im\<lparr>ri_scoped_reasons := add_value (ri_scoped_reasons im) (is_type x @ '':'' @ is_source x),
              ri_order_ids := add_value (ri_order_ids im) (is_order_id x), ri_token_ids := add_value (ri_token_ids im) (is_token_id x),
              ri_condition_ids := add_value (ri_condition_ids im) (is_condition_id x),
              ri_market_ids := add_value (ri_market_ids im) (is_market_id x)\<rparr>
      else im)"

definition summarize_reconciliation_impact :: "reconciliation_issue list \<Rightarrow> reconciliation_impact" where
  "summarize_reconciliation_impact xs = fold summarize_issue xs
     \<lparr>ri_account_wide = False, ri_reasons = [], ri_scoped_reasons = [], ri_order_ids = [], ri_token_ids = [], ri_condition_ids = [], ri_market_ids = []\<rparr>"

definition impact_partial :: "reconciliation_impact \<Rightarrow> bool" where
  "impact_partial im \<longleftrightarrow>
     \<not> ri_account_wide im \<and> (ri_order_ids im \<noteq> [] \<or> ri_token_ids im \<noteq> [] \<or> ri_condition_ids im \<noteq> [] \<or> ri_market_ids im \<noteq> [])"


section \<open>The summary decides\<close>

text \<open>What a summary says about an intent: a specification that reads the lists of the summary as \<open>BlocksIntent\<close> reads one issue.\<close>

definition impact_blocks :: "reconciliation_impact \<Rightarrow> order_intent \<Rightarrow> bool" where
  "impact_blocks im i \<longleftrightarrow> ri_account_wide im \<or>
     (\<exists>v \<in> set (ri_token_ids im). equal_fold v (trim_space (oi_token_id i))) \<or>
     (\<exists>v \<in> set (ri_condition_ids im). equal_fold v (trim_space (oi_condition_id i))) \<or>
     (\<exists>v \<in> set (ri_market_ids im). equal_fold v (trim_space (oi_market_id i)))"

lemma add_value_set: "(\<exists>v \<in> set (add_value ts x). P v) \<longleftrightarrow> (\<exists>v \<in> set ts. P v) \<or> trim_space x \<noteq> [] \<and> P (trim_space x)"
  by (auto simp: add_value_def Let_def)

lemma summarize_issue_blocks: "impact_blocks (summarize_issue x im) i \<longleftrightarrow> impact_blocks im i \<or> blocks_intent x i"
  by (auto simp: summarize_issue_def impact_blocks_def blocks_intent_def add_value_set identity_matches_def Let_def)

lemma fold_summarize_blocks:
  "impact_blocks (fold summarize_issue xs im) i \<longleftrightarrow> impact_blocks im i \<or> (\<exists>x \<in> set xs. blocks_intent x i)"
  by (induction xs arbitrary: im) (auto simp: summarize_issue_blocks)

lemma unknown_type_blocks:
  assumes "is_status x = ReconciliationIssueOpen" "is_resolution x \<noteq> ReconciliationResolutionObserved" "is_impact_scope x = []"
    and "is_type x \<notin> {''BALANCE_DRIFT''} \<union> set observation_issue_types"
    and "is_type x \<notin> set order_issue_types \<union> set token_issue_types \<or> \<not> issue_has_market_identity x"
  shows "blocks_intent x i"
  using assms by (auto simp: blocks_intent_def impact_scope_of_def classify_reconciliation_impact_def order_scoped_impact_def token_scoped_impact_def)

text \<open>
  C23. The impact summary of a run decides what its issues block. An intent is blocked by some issue exactly when the
  summary says so: account-wide, or by one of its token, condition and market identities. And the classification fails
  closed: an open, unclassified issue that is not an observation blocks every intent of the account when its type is
  unknown or when it names no market.
\<close>

theorem impact_summary_decides:
  "(impact_blocks (summarize_reconciliation_impact xs) i \<longleftrightarrow> (\<exists>x \<in> set xs. blocks_intent x i)) \<and>
   (\<forall>x \<in> set xs. is_status x = ReconciliationIssueOpen \<and> is_resolution x \<noteq> ReconciliationResolutionObserved \<and> is_impact_scope x = [] \<and>
      is_type x \<notin> {''BALANCE_DRIFT''} \<union> set observation_issue_types \<and>
      (is_type x \<notin> set order_issue_types \<union> set token_issue_types \<or> \<not> issue_has_market_identity x) \<longrightarrow>
      impact_blocks (summarize_reconciliation_impact xs) i)"
proof -
  have d: "impact_blocks (summarize_reconciliation_impact xs) i \<longleftrightarrow> (\<exists>x \<in> set xs. blocks_intent x i)"
    unfolding summarize_reconciliation_impact_def fold_summarize_blocks by (simp add: impact_blocks_def)
  then show ?thesis using unknown_type_blocks by blast
qed

definition open_issue :: reconciliation_issue where
  "open_issue = \<lparr>is_issue_id = ''i1'', is_run_id = [], is_fingerprint = [], is_execution_account_id = ''w1'', is_type = ''SOMETHING_NEW'',
     is_resolution = ''MANUAL_REVIEW'', is_status = ''OPEN'', is_order_id = [], is_venue_order_id = [], is_venue_trade_id = [],
     is_market_id = [], is_condition_id = [], is_token_id = ''other'', is_local_value = [], is_remote_value = [], is_remote_block_number = 0,
     is_source = [], is_details = ''x'', is_observed_at = 1, is_resolved_at = None, is_impact_scope = []\<rparr>"

theorem impact_summary_decides_witness:
  "impact_blocks (summarize_reconciliation_impact [open_issue]) sample_intent"
  using impact_summary_decides [of "[open_issue]" sample_intent]
  by (auto simp: open_issue_def observation_issue_types_def order_issue_types_def token_issue_types_def
      ReconciliationIssueOpen_def ReconciliationResolutionObserved_def)

end
