(* ===== verification/Predictions.thy ===== *)
theory Predictions
  imports Orders "HOL-Library.AList" "HOL-Library.Multiset" "HOL-Library.List_Lexorder" "HOL-Library.Product_Lexorder" "HOL-Library.Char_ord"
begin

text \<open>
  The prediction snapshots of \<open>src/internal/domain/decision.go\<close> and the selection of the effective ones in
  \<open>src/internal/domain/prediction_effective.go\<close>. Probabilities are IEEE 754 doubles, modelled as exact dyadic numbers
  with rounding to nearest even after every operation. The theorem shows that a successful selection does not depend on the
  order in which the snapshot lists its rows, and that it keeps the newest row of every market and model.
\<close>

section \<open>Double precision numbers\<close>

text \<open>
  A \<open>float64\<close>: NaN, an infinity (negative or not), the negative zero, or \<open>m * 2 ^ e\<close>. A value may have several
  representations; \<open>f64_eq\<close> is the equality of Go. \<open>f64_round a b\<close> is the double nearest to \<open>a / b\<close>, ties to even, with
  gradual underflow and overflow to an infinity.
\<close>

datatype float64 = F64NaN | F64Inf bool | F64NegZero | F64 int int

fun bit_length :: "nat \<Rightarrow> nat" where
  "bit_length n = (if n = 0 then 0 else Suc (bit_length (n div 2)))"

declare bit_length.simps [simp del]

text \<open>The quotient \<open>a / b\<close> divided by \<open>2 ^ e\<close>, as numerator and denominator.\<close>

definition scale_ratio :: "int \<Rightarrow> int \<Rightarrow> int \<Rightarrow> int \<times> int" where
  "scale_ratio a b e = (if e < 0 then (a * 2 ^ nat (- e), b) else (a, b * 2 ^ nat e))"

definition floor_log2_at :: "int \<Rightarrow> int \<Rightarrow> int \<Rightarrow> int" where
  "floor_log2_at a b k = (case scale_ratio a b k of (n, d) \<Rightarrow> if d \<le> n then k else k - 1)"

definition floor_log2 :: "int \<Rightarrow> int \<Rightarrow> int" where
  "floor_log2 a b = floor_log2_at a b (int (bit_length (nat a)) - int (bit_length (nat b)))"

fun round_half_even :: "int \<times> int \<Rightarrow> int" where
  "round_half_even (n, d) =
     (if 2 * (n mod d) < d \<or> 2 * (n mod d) = d \<and> even (n div d) then n div d else n div d + 1)"

definition f64_pack :: "bool \<Rightarrow> int \<Rightarrow> int \<Rightarrow> float64" where
  "f64_pack negative e m =
     (if e > 971 \<or> e = 971 \<and> m = 2 ^ 53 then F64Inf negative
      else if m = 0 \<and> negative then F64NegZero
      else F64 (if negative then - m else m) e)"

definition f64_round_at :: "bool \<Rightarrow> int \<Rightarrow> int \<Rightarrow> int \<Rightarrow> float64" where
  "f64_round_at negative a b e = f64_pack negative e (round_half_even (scale_ratio a b e))"

definition f64_round :: "int \<Rightarrow> int \<Rightarrow> float64" where
  "f64_round a b = (if a = 0 then F64 0 0 else f64_round_at (a < 0) \<bar>a\<bar> b (max (- 1074) (floor_log2 \<bar>a\<bar> b - 52)))"

text \<open>The mantissa of \<open>m * 2 ^ e\<close> at the smaller of two exponents.\<close>

definition align :: "int \<Rightarrow> int \<Rightarrow> int \<Rightarrow> int" where
  "align m e f = m * 2 ^ nat (e - min e f)"

fun f64_round_dyadic :: "int \<Rightarrow> int \<Rightarrow> float64" where
  "f64_round_dyadic m e = (if e < 0 then f64_round m (2 ^ nat (- e)) else f64_round (m * 2 ^ nat e) 1)"

fun f64_add :: "float64 \<Rightarrow> float64 \<Rightarrow> float64" where
  "f64_add F64NaN _ = F64NaN"
| "f64_add _ F64NaN = F64NaN"
| "f64_add (F64Inf a) (F64Inf b) = (if a = b then F64Inf a else F64NaN)"
| "f64_add (F64Inf a) _ = F64Inf a"
| "f64_add _ (F64Inf b) = F64Inf b"
| "f64_add F64NegZero F64NegZero = F64NegZero"
| "f64_add F64NegZero (F64 n f) = F64 n f"
| "f64_add (F64 m e) F64NegZero = F64 m e"
| "f64_add (F64 m e) (F64 n f) = f64_round_dyadic (align m e f + align n f e) (min e f)"

fun f64_neg :: "float64 \<Rightarrow> float64" where
  "f64_neg F64NaN = F64NaN"
| "f64_neg (F64Inf a) = F64Inf (\<not> a)"
| "f64_neg F64NegZero = F64 0 0"
| "f64_neg (F64 m e) = (if m = 0 then F64NegZero else F64 (- m) e)"

definition f64_sub :: "float64 \<Rightarrow> float64 \<Rightarrow> float64" where
  "f64_sub a b = f64_add a (f64_neg b)"

fun f64_abs :: "float64 \<Rightarrow> float64" where
  "f64_abs F64NaN = F64NaN"
| "f64_abs (F64Inf a) = F64Inf False"
| "f64_abs F64NegZero = F64 0 0"
| "f64_abs (F64 m e) = F64 \<bar>m\<bar> e"

text \<open>The comparison operators of Go: every one of them is false when an operand is NaN.\<close>

fun f64_less :: "float64 \<Rightarrow> float64 \<Rightarrow> bool" where
  "f64_less F64NaN _ = False"
| "f64_less _ F64NaN = False"
| "f64_less (F64Inf a) (F64Inf b) = (a \<and> \<not> b)"
| "f64_less (F64Inf a) _ = a"
| "f64_less _ (F64Inf b) = (\<not> b)"
| "f64_less F64NegZero F64NegZero = False"
| "f64_less F64NegZero (F64 n f) = (0 < n)"
| "f64_less (F64 m e) F64NegZero = (m < 0)"
| "f64_less (F64 m e) (F64 n f) = (align m e f < align n f e)"

definition f64_is_nan :: "float64 \<Rightarrow> bool" where
  "f64_is_nan x = (case x of F64NaN \<Rightarrow> True | _ \<Rightarrow> False)"

definition f64_eq :: "float64 \<Rightarrow> float64 \<Rightarrow> bool" where
  "f64_eq x y \<longleftrightarrow> \<not> f64_is_nan x \<and> \<not> f64_is_nan y \<and> \<not> f64_less x y \<and> \<not> f64_less y x"

definition f64_is_nan_or_inf :: "float64 \<Rightarrow> bool" where
  "f64_is_nan_or_inf x = (case x of F64NaN \<Rightarrow> True | F64Inf _ \<Rightarrow> True | _ \<Rightarrow> False)"


section \<open>Predictions\<close>

record prediction_outcome =
  po_index :: int
  po_name :: string
  po_token_id :: string
  po_outcome_id :: string
  po_probability :: float64

record prediction_model =
  pm_name :: string
  pm_predictor_version :: string
  pm_prompt_version :: string

text \<open>\<open>Domains\<close> is \<open>None\<close> for the nil slice, which \<open>reflect.DeepEqual\<close> tells from an empty one.\<close>

record prediction =
  pr_prediction_id :: string
  pr_source_job_id :: string
  pr_sandbox_id :: string
  pr_market_source :: market_source
  pr_market_id :: string
  pr_condition_id :: string
  pr_event_id :: string
  pr_question :: string
  pr_event_slug :: string
  pr_market_slug :: string
  pr_domains :: "string list option"
  pr_end_at :: "gtime option"
  pr_neg_risk :: bool
  pr_outcomes :: "prediction_outcome list"
  pr_prediction_as_of :: gtime
  pr_completed_at :: gtime
  pr_available_at :: gtime
  pr_model :: prediction_model

definition PredictionExpectationPending :: string where "PredictionExpectationPending = ''PENDING''"
definition PredictionExpectationCompleted :: string where "PredictionExpectationCompleted = ''COMPLETED''"

record prediction_expectation =
  pe_prediction_id :: string
  pe_source_job_id :: string
  pe_prediction_model_id :: string
  pe_selection_id :: int
  pe_selection_run_id :: int
  pe_market_source :: market_source
  pe_market_id :: string
  pe_condition_id :: string
  pe_outcomes :: "prediction_outcome list"
  pe_prediction_as_of :: gtime
  pe_task_available_at :: gtime
  pe_status :: string
  pe_result_available_at :: "gtime option"

record prediction_snapshot =
  sn_schema_version :: string
  sn_snapshot_id :: string
  sn_decision_at :: gtime
  sn_completed_after :: gtime
  sn_generated_at :: gtime
  sn_predictions :: "prediction list"
  sn_expected_predictions :: "prediction_expectation list"

definition PredictionSnapshotSchemaVersion :: string where
  "PredictionSnapshotSchemaVersion = ''prediction.live_snapshot.v1''"


subsection \<open>Venue identities\<close>

text \<open>The inner loop of \<open>NormalizeVenueIdentities\<close>, the same for predictions and expectations.\<close>

definition normalize_outcome ::
    "market_source \<Rightarrow> string \<Rightarrow> string \<Rightarrow> prediction_outcome \<Rightarrow> go_error + prediction_outcome" where
  "normalize_outcome source marketID conditionID o1 =
     (let outcomeID = (if market_source_normalize source = MarketSourceKalshi \<and> trim_space (po_outcome_id o1) = []
                       then to_upper (trim_space (po_name o1)) else po_outcome_id o1) in
      case canonical_instrument_id source marketID conditionID outcomeID (po_token_id o1) of
        Inl e \<Rightarrow> Inl e
      | Inr instrumentID \<Rightarrow> Inr (o1\<lparr>po_outcome_id := to_upper (trim_space outcomeID), po_token_id := instrumentID\<rparr>))"

fun normalize_outcomes ::
    "string \<Rightarrow> nat \<Rightarrow> market_source \<Rightarrow> string \<Rightarrow> string \<Rightarrow> prediction_outcome list \<Rightarrow> go_error + prediction_outcome list" where
  "normalize_outcomes label index source marketID conditionID [] = Inr []"
| "normalize_outcomes label index source marketID conditionID (o1 # os) =
     (case normalize_outcome source marketID conditionID o1 of
        Inl e \<Rightarrow> Inl (wrap_error (label @ '' outcome '' @ show_nat index) e)
      | Inr o2 \<Rightarrow>
          (case normalize_outcomes label (Suc index) source marketID conditionID os of
             Inl e \<Rightarrow> Inl e | Inr os2 \<Rightarrow> Inr (o2 # os2)))"

fun normalize_predictions :: "nat \<Rightarrow> prediction list \<Rightarrow> go_error + prediction list" where
  "normalize_predictions index [] = Inr []"
| "normalize_predictions index (p # ps) =
     (let source = inferred_market_source (pr_market_source p) (pr_condition_id p) in
      case normalize_outcomes (''prediction '' @ show_nat index) 0 source (pr_market_id p) (pr_condition_id p) (pr_outcomes p) of
        Inl e \<Rightarrow> Inl e
      | Inr os \<Rightarrow>
          (case normalize_predictions (Suc index) ps of
             Inl e \<Rightarrow> Inl e | Inr ps2 \<Rightarrow> Inr (p\<lparr>pr_market_source := source, pr_outcomes := os\<rparr> # ps2)))"

fun normalize_expectations :: "nat \<Rightarrow> prediction_expectation list \<Rightarrow> go_error + prediction_expectation list" where
  "normalize_expectations index [] = Inr []"
| "normalize_expectations index (x # xs) =
     (let source = inferred_market_source (pe_market_source x) (pe_condition_id x) in
      case normalize_outcomes (''expected prediction '' @ show_nat index) 0 source (pe_market_id x) (pe_condition_id x) (pe_outcomes x) of
        Inl e \<Rightarrow> Inl e
      | Inr os \<Rightarrow>
          (case normalize_expectations (Suc index) xs of
             Inl e \<Rightarrow> Inl e | Inr xs2 \<Rightarrow> Inr (x\<lparr>pe_market_source := source, pe_outcomes := os\<rparr> # xs2)))"

definition normalize_venue_identities :: "prediction_snapshot \<Rightarrow> go_error + prediction_snapshot" where
  "normalize_venue_identities sn =
     (case normalize_predictions 0 (sn_predictions sn) of
        Inl e \<Rightarrow> Inl e
      | Inr ps \<Rightarrow>
          (case normalize_expectations 0 (sn_expected_predictions sn) of
             Inl e \<Rightarrow> Inl e
           | Inr xs \<Rightarrow> Inr (sn\<lparr>sn_predictions := ps, sn_expected_predictions := xs\<rparr>)))"


subsection \<open>Validation\<close>

definition outcome_identity_error ::
    "string \<Rightarrow> market_source \<Rightarrow> string \<Rightarrow> string \<Rightarrow> nat \<Rightarrow> prediction_outcome \<Rightarrow> err" where
  "outcome_identity_error label source marketID conditionID index o1 =
     (if po_index o1 \<noteq> int index \<or> trim_space (po_name o1) = [] \<or> trim_space (po_token_id o1) = []
      then Some (ErrText (label @ show_nat index @ '' identity is invalid''))
      else if canonical_instrument_id source marketID conditionID (po_outcome_id o1) (po_token_id o1) \<noteq> Inr (trim_space (po_token_id o1))
      then Some (ErrText (label @ show_nat index @ '' venue identity is invalid''))
      else None)"

fun validate_expected_outcomes ::
    "prediction_expectation \<Rightarrow> nat \<Rightarrow> string list \<Rightarrow> prediction_outcome list \<Rightarrow> err" where
  "validate_expected_outcomes x index seen [] = None"
| "validate_expected_outcomes x index seen (o1 # os) =
     (case outcome_identity_error ''expected outcome '' (pe_market_source x) (pe_market_id x) (pe_condition_id x) index o1 of
        Some e \<Rightarrow> Some e
      | None \<Rightarrow>
          if po_token_id o1 \<in> set seen then Some (ErrText ''expected prediction task contains duplicate token ids'')
          else validate_expected_outcomes x (Suc index) (po_token_id o1 # seen) os)"

definition expectation_status_error :: "prediction_expectation \<Rightarrow> gtime \<Rightarrow> err" where
  "expectation_status_error x decisionAt =
     (if pe_status x = PredictionExpectationPending then
        (if pe_result_available_at x \<noteq> None then Some (ErrText ''pending expected prediction must not have result_available_at'') else None)
      else if pe_status x = PredictionExpectationCompleted then
        (case pe_result_available_at x of
           None \<Rightarrow> Some (ErrText ''completed expected prediction requires a PIT-visible result_available_at'')
         | Some t \<Rightarrow>
             if is_zero_time t \<or> t > decisionAt
             then Some (ErrText ''completed expected prediction requires a PIT-visible result_available_at'')
             else if t < pe_task_available_at x
             then Some (ErrText ''completed expected prediction result is available before its task'') else None)
      else Some (ErrText (''expected prediction status '' @ quoted (pe_status x) @ '' is invalid'')))"

definition expectation_validate :: "prediction_expectation \<Rightarrow> gtime \<Rightarrow> err" where
  "expectation_validate x decisionAt =
     (if trim_space (pe_prediction_id x) = [] \<or> trim_space (pe_source_job_id x) = [] \<or> trim_space (pe_prediction_model_id x) = [] \<or>
         pe_selection_id x < 1 \<or> pe_selection_run_id x < 1 \<or> trim_space (pe_market_id x) = [] \<or> trim_space (pe_condition_id x) = []
      then Some (ErrText ''task, selection, Market, and model identifiers are required'')
      else if is_zero_time (pe_prediction_as_of x) \<or> is_zero_time (pe_task_available_at x) \<or>
              pe_prediction_as_of x > decisionAt \<or> pe_task_available_at x > decisionAt
      then Some (ErrText ''expected prediction task is not point-in-time available'')
      else if pe_task_available_at x < pe_prediction_as_of x
      then Some (ErrText ''expected prediction task is available before its prediction_as_of'')
      else if length (pe_outcomes x) \<noteq> 2 then Some (ErrText ''expected prediction task must contain two outcomes'')
      else case validate_expected_outcomes x 0 [] (pe_outcomes x) of
        Some e \<Rightarrow> Some e
      | None \<Rightarrow> expectation_status_error x decisionAt)"

text \<open>The constants \<open>0.999999\<close> and \<open>1.000001\<close> are the nearest doubles.\<close>

definition minimum_probability_sum :: float64 where "minimum_probability_sum = f64_round 999999 1000000"
definition maximum_probability_sum :: float64 where "maximum_probability_sum = f64_round 1000001 1000000"

fun validate_outcomes :: "prediction \<Rightarrow> nat \<Rightarrow> string list \<Rightarrow> float64 \<Rightarrow> prediction_outcome list \<Rightarrow> err" where
  "validate_outcomes p index seen probabilitySum [] =
     (if f64_less probabilitySum minimum_probability_sum \<or> f64_less maximum_probability_sum probabilitySum
      then Some (ErrText ''prediction outcome probabilities must sum to one'') else None)"
| "validate_outcomes p index seen probabilitySum (o1 # os) =
     (case outcome_identity_error ''outcome '' (pr_market_source p) (pr_market_id p) (pr_condition_id p) index o1 of
        Some e \<Rightarrow> Some e
      | None \<Rightarrow>
          if f64_is_nan_or_inf (po_probability o1) \<or> f64_less (po_probability o1) (F64 0 0) \<or> f64_less (F64 1 0) (po_probability o1)
          then Some (ErrText (''outcome '' @ show_nat index @ '' probability is outside [0,1]''))
          else if po_token_id o1 \<in> set seen then Some (ErrText ''prediction contains duplicate token ids'')
          else validate_outcomes p (Suc index) (po_token_id o1 # seen) (f64_add probabilitySum (po_probability o1)) os)"

definition prediction_validate :: "prediction \<Rightarrow> gtime \<Rightarrow> err" where
  "prediction_validate p decisionAt =
     (if trim_space (pr_prediction_id p) = [] \<or> trim_space (pr_market_id p) = [] \<or> trim_space (pr_condition_id p) = []
      then Some (ErrText ''prediction, market, and condition identifiers are required'')
      else if trim_space (pm_name (pr_model p)) = [] then Some (ErrText ''prediction model name is required'')
      else if length (pr_outcomes p) \<noteq> 2 then Some (ErrText ''exactly two prediction outcomes are required'')
      else case validate_outcomes p 0 [] (F64 0 0) (pr_outcomes p) of
        Some e \<Rightarrow> Some e
      | None \<Rightarrow>
          if is_zero_time (pr_prediction_as_of p) \<or> is_zero_time (pr_completed_at p) \<or> is_zero_time (pr_available_at p) \<or>
             pr_prediction_as_of p > decisionAt \<or> pr_completed_at p > decisionAt \<or> pr_available_at p > decisionAt
          then Some (ErrText ''prediction is not point-in-time available at the decision boundary'')
          else if pr_completed_at p < pr_prediction_as_of p \<or> pr_available_at p < pr_completed_at p
          then Some (ErrText ''prediction completion and availability timestamps are out of order'') else None)"

fun validate_snapshot_predictions :: "gtime \<Rightarrow> nat \<Rightarrow> string list \<Rightarrow> prediction list \<Rightarrow> err" where
  "validate_snapshot_predictions decisionAt index seen [] = None"
| "validate_snapshot_predictions decisionAt index seen (p # ps) =
     (case prediction_validate p decisionAt of
        Some e \<Rightarrow> Some (wrap_error (''prediction '' @ show_nat index) e)
      | None \<Rightarrow>
          if pr_prediction_id p \<in> set seen
          then Some (ErrText (''prediction snapshot contains duplicate prediction_id '' @ quoted (pr_prediction_id p)))
          else validate_snapshot_predictions decisionAt (Suc index) (pr_prediction_id p # seen) ps)"

text \<open>
  The generation of a task. Go joins the run, the market, the model and the formatted time with NUL characters; the time is
  kept as a value here, as formatting is injective on instants.
\<close>

definition task_generation :: "prediction_expectation \<Rightarrow> string \<times> gtime" where
  "task_generation x =
     (show_int (pe_selection_run_id x) @ [CHR 0x00] @ pe_market_id x @ [CHR 0x00] @ pe_prediction_model_id x, pe_prediction_as_of x)"

fun validate_snapshot_expectations ::
    "gtime \<Rightarrow> nat \<Rightarrow> string list \<Rightarrow> string list \<Rightarrow> (string \<times> gtime) list \<Rightarrow> prediction_expectation list \<Rightarrow> err" where
  "validate_snapshot_expectations decisionAt index ids jobs dims [] = None"
| "validate_snapshot_expectations decisionAt index ids jobs dims (x # xs) =
     (case expectation_validate x decisionAt of
        Some e \<Rightarrow> Some (wrap_error (''expected prediction '' @ show_nat index) e)
      | None \<Rightarrow>
          if pe_prediction_id x \<in> set ids
          then Some (ErrText (''prediction snapshot contains duplicate expected prediction_id '' @ quoted (pe_prediction_id x)))
          else if pe_source_job_id x \<in> set jobs
          then Some (ErrText (''prediction snapshot contains duplicate expected source_job_id '' @ quoted (pe_source_job_id x)))
          else if task_generation x \<in> set dims
          then Some (ErrText ''prediction snapshot contains duplicate expected Market/Model generation task'')
          else validate_snapshot_expectations decisionAt (Suc index) (pe_prediction_id x # ids) (pe_source_job_id x # jobs)
                 (task_generation x # dims) xs)"

definition snapshot_validate :: "prediction_snapshot \<Rightarrow> gtime \<Rightarrow> err" where
  "snapshot_validate sn expectedDecisionAt =
     (if sn_schema_version sn \<noteq> PredictionSnapshotSchemaVersion \<or> trim_space (sn_snapshot_id sn) = []
      then Some (ErrText ''prediction snapshot schema version and id are required'')
      else if sn_decision_at sn \<noteq> expectedDecisionAt
      then Some (ErrText ''prediction snapshot decision_at does not match requested boundary'')
      else case validate_snapshot_predictions (sn_decision_at sn) 0 [] (sn_predictions sn) of
        Some e \<Rightarrow> Some e
      | None \<Rightarrow> validate_snapshot_expectations (sn_decision_at sn) 0 [] [] [] (sn_expected_predictions sn))"


section \<open>Effective predictions\<close>

definition prediction_model_set :: "string list \<Rightarrow> string set" where
  "prediction_model_set modelIDs = set (filter (\<lambda>m. m \<noteq> []) (map trim_space modelIDs))"

text \<open>
  The loop that \<open>SelectEffectivePredictions\<close> and \<open>SelectEffectivePredictionExpectations\<close> share: the selected rows are put
  into a map by market and model, and a newer row replaces the stored one.
\<close>

fun latest_by ::
    "('a \<Rightarrow> string) \<Rightarrow> ('a \<Rightarrow> bool) \<Rightarrow> ('a \<Rightarrow> 'a \<Rightarrow> go_error + bool) \<Rightarrow> (string \<times> 'a) list \<Rightarrow> 'a list \<Rightarrow> go_error + (string \<times> 'a) list" where
  "latest_by key selected newer latest [] = Inr latest"
| "latest_by key selected newer latest (x # xs) =
     (if \<not> selected x then latest_by key selected newer latest xs
      else case map_of latest (key x) of
        None \<Rightarrow> latest_by key selected newer (AList.update (key x) x latest) xs
      | Some current \<Rightarrow>
          (case newer x current of
             Inl e \<Rightarrow> Inl e
           | Inr b \<Rightarrow> latest_by key selected newer (if b then AList.update (key x) x latest else latest) xs))"

definition prediction_key :: "prediction \<Rightarrow> string" where
  "prediction_key p = trim_space (pr_market_id p) @ [CHR 0x00] @ trim_space (pm_name (pr_model p))"

definition outcome_deep_equal :: "prediction_outcome \<Rightarrow> prediction_outcome \<Rightarrow> bool" where
  "outcome_deep_equal a b \<longleftrightarrow>
     po_index a = po_index b \<and> po_name a = po_name b \<and> po_token_id a = po_token_id b \<and> po_outcome_id a = po_outcome_id b \<and>
     f64_eq (po_probability a) (po_probability b)"

text \<open>
  \<open>reflect.DeepEqual\<close> of two rows compares the location of a \<open>time.Time\<close> as well; times here are instants, so rows that
  differ only in the location of a time are equal.
\<close>

definition equivalent_prediction_payload :: "prediction \<Rightarrow> prediction \<Rightarrow> bool" where
  "equivalent_prediction_payload a b \<longleftrightarrow>
     pr_market_source a = pr_market_source b \<and> pr_market_id a = pr_market_id b \<and> pr_condition_id a = pr_condition_id b \<and>
     pr_event_id a = pr_event_id b \<and> pr_question a = pr_question b \<and> pr_event_slug a = pr_event_slug b \<and>
     pr_market_slug a = pr_market_slug b \<and> pr_domains a = pr_domains b \<and> pr_end_at a = pr_end_at b \<and>
     pr_neg_risk a = pr_neg_risk b \<and> list_all2 outcome_deep_equal (pr_outcomes a) (pr_outcomes b) \<and>
     pr_prediction_as_of a = pr_prediction_as_of b \<and> pr_model a = pr_model b"

definition compare_prediction_recency :: "prediction \<Rightarrow> prediction \<Rightarrow> go_error + bool" where
  "compare_prediction_recency candidate current =
     (if pr_prediction_as_of candidate \<noteq> pr_prediction_as_of current then Inr (pr_prediction_as_of candidate > pr_prediction_as_of current)
      else if pr_available_at candidate \<noteq> pr_available_at current then Inr (pr_available_at candidate > pr_available_at current)
      else if pr_completed_at candidate \<noteq> pr_completed_at current then Inr (pr_completed_at candidate > pr_completed_at current)
      else if \<not> equivalent_prediction_payload candidate current
      then Inl (ErrText ''equal PIT timestamps have different prediction payloads'')
      else Inr (pr_prediction_id candidate > pr_prediction_id current))"

definition ambiguous_revisions :: "prediction \<Rightarrow> prediction \<Rightarrow> go_error + bool" where
  "ambiguous_revisions candidate current =
     (case compare_prediction_recency candidate current of
        Inl e \<Rightarrow> Inl (wrap_error (''prediction snapshot has ambiguous revisions for market '' @ quoted (pr_market_id candidate) @
          '' and model '' @ quoted (trim_space (pm_name (pr_model candidate))) @ '' ('' @ pr_prediction_id current @ '', '' @
          pr_prediction_id candidate @ '')'') e)
      | Inr b \<Rightarrow> Inr b)"

definition same_prediction_outcomes :: "prediction_outcome list \<Rightarrow> prediction_outcome list \<Rightarrow> bool" where
  "same_prediction_outcomes first others =
     list_all2 (\<lambda>a b. po_index a = po_index b \<and> trim_space (po_name a) = trim_space (po_name b) \<and>
                      trim_space (po_token_id a) = trim_space (po_token_id b)) first others"

fun validate_prediction_market_identities ::
    "(string \<times> string \<times> bool \<times> prediction_outcome list) list \<Rightarrow> prediction list \<Rightarrow> err" where
  "validate_prediction_market_identities byMarket [] = None"
| "validate_prediction_market_identities byMarket (p # ps) =
     (let marketID = trim_space (pr_market_id p) in
      case map_of byMarket marketID of
        None \<Rightarrow> validate_prediction_market_identities
          ((marketID, trim_space (pr_condition_id p), pr_neg_risk p, pr_outcomes p) # byMarket) ps
      | Some (conditionID, negRisk, outcomes) \<Rightarrow>
          if conditionID \<noteq> trim_space (pr_condition_id p) \<or> negRisk \<noteq> pr_neg_risk p \<or> \<not> same_prediction_outcomes outcomes (pr_outcomes p)
          then Some (ErrText (''prediction snapshot has conflicting market identity across models for market '' @ quoted (pr_market_id p)))
          else validate_prediction_market_identities byMarket ps)"

definition prediction_order :: "prediction \<Rightarrow> string \<times> string \<times> string" where
  "prediction_order p = (pr_market_id p, pm_name (pr_model p), pr_prediction_id p)"

text \<open>Go ranges over the map in any order and sorts; the rows of a map differ in market or model, so the sort fixes their order.\<close>

definition select_effective_predictions :: "prediction list \<Rightarrow> string list \<Rightarrow> go_error + prediction list" where
  "select_effective_predictions predictions modelIDs =
     (case latest_by prediction_key (\<lambda>p. trim_space (pm_name (pr_model p)) \<in> prediction_model_set modelIDs) ambiguous_revisions [] predictions of
        Inl e \<Rightarrow> Inl e
      | Inr latest \<Rightarrow>
          (let result = sort_key prediction_order (map snd latest) in
           case validate_prediction_market_identities [] result of Some e \<Rightarrow> Inl e | None \<Rightarrow> Inr result))"

definition expectation_key :: "prediction_expectation \<Rightarrow> string" where
  "expectation_key x = trim_space (pe_market_id x) @ [CHR 0x00] @ trim_space (pe_prediction_model_id x)"

definition prediction_expectation_is_newer :: "prediction_expectation \<Rightarrow> prediction_expectation \<Rightarrow> bool" where
  "prediction_expectation_is_newer candidate current =
     (if pe_prediction_as_of candidate \<noteq> pe_prediction_as_of current then pe_prediction_as_of candidate > pe_prediction_as_of current
      else if pe_task_available_at candidate \<noteq> pe_task_available_at current then pe_task_available_at candidate > pe_task_available_at current
      else if pe_selection_run_id candidate \<noteq> pe_selection_run_id current then pe_selection_run_id candidate > pe_selection_run_id current
      else if pe_selection_id candidate \<noteq> pe_selection_id current then pe_selection_id candidate > pe_selection_id current
      else pe_prediction_id candidate > pe_prediction_id current)"

fun validate_expectation_market_identities ::
    "(string \<times> string \<times> prediction_outcome list) list \<Rightarrow> prediction_expectation list \<Rightarrow> err" where
  "validate_expectation_market_identities byMarket [] = None"
| "validate_expectation_market_identities byMarket (x # xs) =
     (let marketID = trim_space (pe_market_id x) in
      case map_of byMarket marketID of
        None \<Rightarrow> validate_expectation_market_identities ((marketID, trim_space (pe_condition_id x), pe_outcomes x) # byMarket) xs
      | Some (conditionID, outcomes) \<Rightarrow>
          if conditionID \<noteq> trim_space (pe_condition_id x) \<or> \<not> same_prediction_outcomes outcomes (pe_outcomes x)
          then Some (ErrText (''prediction task manifest has conflicting market identity across models for market '' @ quoted (pe_market_id x)))
          else validate_expectation_market_identities byMarket xs)"

definition expectation_order :: "prediction_expectation \<Rightarrow> string \<times> string \<times> string" where
  "expectation_order x = (pe_market_id x, pe_prediction_model_id x, pe_prediction_id x)"

definition select_effective_prediction_expectations ::
    "prediction_expectation list \<Rightarrow> string list \<Rightarrow> go_error + prediction_expectation list" where
  "select_effective_prediction_expectations expectations modelIDs =
     (case latest_by expectation_key (\<lambda>x. trim_space (pe_prediction_model_id x) \<in> prediction_model_set modelIDs)
             (\<lambda>candidate current. Inr (prediction_expectation_is_newer candidate current)) [] expectations of
        Inl e \<Rightarrow> Inl e
      | Inr latest \<Rightarrow>
          (let result = sort_key expectation_order (map snd latest) in
           case validate_expectation_market_identities [] result of Some e \<Rightarrow> Inl e | None \<Rightarrow> Inr result))"


section \<open>The newest row of every key\<close>

text \<open>
  The contract of a recency comparison: when it answers, it compares a recency in a linear order that tells two rows with
  different identifiers apart, and rows with different keys sort differently.
\<close>

locale recency_selection =
  fixes key :: "'a \<Rightarrow> string"
    and newer :: "'a \<Rightarrow> 'a \<Rightarrow> go_error + bool"
    and recency :: "'a \<Rightarrow> 'r::linorder"
    and ident :: "'a \<Rightarrow> string"
    and rank :: "'a \<Rightarrow> 'k::linorder"
  assumes newer_recency: "newer x y = Inr b \<Longrightarrow> b \<longleftrightarrow> recency y < recency x"
    and recency_ident: "recency x = recency y \<Longrightarrow> ident x = ident y"
    and rank_key: "rank x = rank y \<Longrightarrow> key x = key y"
begin

definition newest :: "('a \<Rightarrow> bool) \<Rightarrow> 'a set \<Rightarrow> string \<Rightarrow> 'a \<Rightarrow> bool" where
  "newest selected S k q \<longleftrightarrow>
     q \<in> S \<and> selected q \<and> key q = k \<and> (\<forall>p \<in> S. selected p \<and> key p = k \<longrightarrow> recency p \<le> recency q)"

definition latest_of :: "('a \<Rightarrow> bool) \<Rightarrow> 'a set \<Rightarrow> (string \<times> 'a) list \<Rightarrow> bool" where
  "latest_of selected S latest \<longleftrightarrow>
     distinct (map fst latest) \<and> (\<forall>k q. map_of latest k = Some q \<longrightarrow> newest selected S k q) \<and>
     (\<forall>p \<in> S. selected p \<longrightarrow> map_of latest (key p) \<noteq> None)"

lemma latest_of_skip: "latest_of selected S latest \<Longrightarrow> \<not> selected x \<Longrightarrow> latest_of selected (insert x S) latest"
  unfolding latest_of_def newest_def by blast

lemma latest_of_update:
  assumes "latest_of selected S latest" "selected x"
    and "\<And>y. map_of latest (key x) = Some y \<Longrightarrow> recency y < recency x"
  shows "latest_of selected (insert x S) (AList.update (key x) x latest)"
proof -
  have below: "recency p \<le> recency x" if p: "p \<in> S" "selected p" "key p = key x" for p
  proof -
    obtain y where y: "map_of latest (key x) = Some y"
      using assms(1) p unfolding latest_of_def by (metis option.exhaust)
    then have "newest selected S (key x) y" using assms(1) unfolding latest_of_def by blast
    then have "recency p \<le> recency y" using p unfolding newest_def by blast
    then show ?thesis using assms(3) [OF y] by simp
  qed
  have "newest selected (insert x S) k q" if "map_of (AList.update (key x) x latest) k = Some q" for k q
  proof (cases "k = key x")
    case True
    then show ?thesis using that below assms(2) by (auto simp: newest_def update_conv)
  next
    case False
    then have "newest selected S k q" using that assms(1) by (auto simp: update_conv latest_of_def)
    then show ?thesis using False by (auto simp: newest_def)
  qed
  then show ?thesis
    using assms(1,2) unfolding latest_of_def by (auto simp: distinct_update update_conv)
qed

lemma latest_of_keep:
  assumes "latest_of selected S latest" "map_of latest (key x) = Some y" "recency x \<le> recency y"
  shows "latest_of selected (insert x S) latest"
proof -
  have "newest selected (insert x S) k q" if q: "map_of latest k = Some q" for k q
  proof -
    have "newest selected S k q" using assms(1) q unfolding latest_of_def by blast
    moreover have "key x = k \<Longrightarrow> recency x \<le> recency q" using assms(2,3) q by auto
    ultimately show ?thesis unfolding newest_def by blast
  qed
  then show ?thesis using assms(1,2) unfolding latest_of_def by (metis insertE option.discI)
qed

lemma latest_by_latest_of:
  assumes "latest_by key selected newer latest xs = Inr latest'" "latest_of selected S latest"
  shows "latest_of selected (S \<union> set xs) latest'"
  using assms
proof (induction xs arbitrary: latest S)
  case Nil
  then show ?case by simp
next
  case (Cons x xs)
  have step: ?case if l: "latest_by key selected newer l xs = Inr latest'" "latest_of selected (insert x S) l" for l
    using Cons.IH [OF l] by (simp add: insert_commute)
  show ?case
  proof (cases "selected x")
    case False
    then show ?thesis using Cons.prems step [of latest] latest_of_skip by simp
  next
    case sel: True
    show ?thesis
    proof (cases "map_of latest (key x)")
      case None
      then show ?thesis using Cons.prems sel step [of "AList.update (key x) x latest"] latest_of_update [of selected S latest x] by simp
    next
      case (Some y)
      then obtain b where b: "newer x y = Inr b" using Cons.prems(1) sel by (auto split: sum.splits)
      show ?thesis
      proof (cases b)
        case True
        then show ?thesis
          using Cons.prems sel Some b newer_recency [OF b] step [of "AList.update (key x) x latest"] latest_of_update [of selected S latest x]
          by simp
      next
        case False
        then show ?thesis
          using Cons.prems sel Some b newer_recency [OF b] step [of latest] latest_of_keep [OF Cons.prems(2) Some] by simp
      qed
    qed
  qed
qed

lemma latest_of_unique:
  assumes "latest_of selected S l" "latest_of selected S l'" "inj_on ident S"
  shows "map_of l = map_of l'"
proof
  have le: "map_of m' k = Some q" if m: "latest_of selected S m" "latest_of selected S m'" and q: "map_of m k = Some q" for m m' k q
  proof -
    have n: "newest selected S k q" using m(1) q unfolding latest_of_def by blast
    then obtain q' where q': "map_of m' k = Some q'"
      using m(2) unfolding latest_of_def newest_def by (metis option.exhaust)
    then have n': "newest selected S k q'" using m(2) unfolding latest_of_def by blast
    have "recency q \<le> recency q'" "recency q' \<le> recency q" using n n' unfolding newest_def by blast+
    then have "recency q = recency q'" by simp
    then have "ident q = ident q'" by (rule recency_ident)
    then have "q = q'" using n n' assms(3) unfolding newest_def inj_on_def by blast
    then show ?thesis using q' by simp
  qed
  fix k
  show "map_of l k = map_of l' k"
    using le [OF assms(1,2)] le [OF assms(2,1)] by (metis option.exhaust)
qed

text \<open>The rows kept by a run of the loop, sorted: one for every key, the newest, and the same for every order of the input.\<close>

definition kept :: "('a \<Rightarrow> bool) \<Rightarrow> 'a set \<Rightarrow> 'a list \<Rightarrow> bool" where
  "kept selected S r \<longleftrightarrow>
     sorted (map rank r) \<and> distinct (map key r) \<and> (\<forall>q \<in> set r. newest selected S (key q) q) \<and>
     (\<forall>p \<in> S. selected p \<longrightarrow> (\<exists>q \<in> set r. key q = key p))"

lemma latest_of_snd: "latest_of selected S l \<Longrightarrow> (k, q) \<in> set l \<Longrightarrow> key q = k"
  unfolding latest_of_def newest_def by (metis map_of_is_SomeI)

lemma latest_of_keys: "latest_of selected S l \<Longrightarrow> map key (map snd l) = map fst l"
  using latest_of_snd [of selected S l] by auto

lemma latest_of_kept:
  assumes "latest_of selected S l"
  shows "kept selected S (sort_key rank (map snd l))"
proof -
  have fst: "distinct (map fst l)" using assms unfolding latest_of_def by blast
  have k: "map key (map snd l) = map fst l" by (rule latest_of_keys [OF assms])
  have new: "newest selected S (key q) q" if q: "q \<in> set (map snd l)" for q
  proof -
    obtain k where kq: "(k, q) \<in> set l" using q by auto
    then have "map_of l k = Some q" using fst by simp
    then show ?thesis using assms latest_of_snd [OF assms kq] unfolding latest_of_def by blast
  qed
  have all: "\<exists>q \<in> set (map snd l). key q = key p" if p: "p \<in> S" "selected p" for p
  proof -
    obtain q where "map_of l (key p) = Some q" using assms p unfolding latest_of_def by (metis option.exhaust)
    then have "(key p, q) \<in> set l" by (rule map_of_SomeD)
    then show ?thesis using latest_of_snd [OF assms] by force
  qed
  have "distinct (map key (sort_key rank (map snd l)))"
    using fst k by (metis distinct_map distinct_sort set_sort)
  then show ?thesis using new all unfolding kept_def by simp
qed

lemma latest_of_sorted_unique:
  assumes "latest_of selected S l" "latest_of selected S l'" "inj_on ident S"
  shows "sort_key rank (map snd l) = sort_key rank (map snd l')"
proof -
  have d: "distinct (map fst l)" "distinct (map fst l')" using assms unfolding latest_of_def by auto
  have "set l = set l'" using latest_of_unique [OF assms] d by (metis map_of_eqI map_of_inject_set set_map)
  then have "mset l = mset l'" using d by (metis distinct_map set_eq_iff_mset_eq_distinct)
  then have m: "mset (map snd l) = mset (map snd l')" by (simp add: mset_map)
  have "inj_on rank (set (map snd l))"
  proof (rule inj_onI)
    fix x y assume xy: "x \<in> set (map snd l)" "y \<in> set (map snd l)" "rank x = rank y"
    then have "key x = key y" using rank_key by blast
    moreover have "distinct (map key (map snd l))" unfolding latest_of_keys [OF assms(1)] by (rule d)
    ultimately show "x = y" using xy by (simp add: distinct_map inj_on_def) blast
  qed
  then show ?thesis using m by (metis mset_sort sort_key_inj_key_eq sorted_sort_key)
qed

end


definition prediction_recency :: "prediction \<Rightarrow> gtime \<times> gtime \<times> gtime \<times> string" where
  "prediction_recency p = (pr_prediction_as_of p, pr_available_at p, pr_completed_at p, pr_prediction_id p)"

definition expectation_recency :: "prediction_expectation \<Rightarrow> gtime \<times> gtime \<times> int \<times> int \<times> string" where
  "expectation_recency x =
     (pe_prediction_as_of x, pe_task_available_at x, pe_selection_run_id x, pe_selection_id x, pe_prediction_id x)"

interpretation predictions: recency_selection prediction_key ambiguous_revisions prediction_recency pr_prediction_id prediction_order
proof
  show "b \<longleftrightarrow> prediction_recency y < prediction_recency x" if "ambiguous_revisions x y = Inr b" for x y b
    using that by (auto simp: ambiguous_revisions_def compare_prediction_recency_def prediction_recency_def less_prod_def
        split: sum.splits if_splits)
qed (simp_all add: prediction_recency_def prediction_order_def prediction_key_def)

interpretation expectations: recency_selection expectation_key "\<lambda>candidate current. Inr (prediction_expectation_is_newer candidate current)"
  expectation_recency pe_prediction_id expectation_order
proof
  show "b \<longleftrightarrow> expectation_recency y < expectation_recency x" if "Inr (prediction_expectation_is_newer x y) = Inr b" for x y b
    using that by (auto simp: prediction_expectation_is_newer_def expectation_recency_def less_prod_def split: if_splits)
qed (simp_all add: expectation_recency_def expectation_order_def expectation_key_def)

definition model_selected :: "string list \<Rightarrow> prediction \<Rightarrow> bool" where
  "model_selected modelIDs p \<longleftrightarrow> trim_space (pm_name (pr_model p)) \<in> prediction_model_set modelIDs"

lemma predictions_empty_latest: "predictions.latest_of selected {} []"
  by (simp add: predictions.latest_of_def)

lemma expectations_empty_latest: "expectations.latest_of selected {} []"
  by (simp add: expectations.latest_of_def)

lemma select_effective_predictions_latest:
  assumes "select_effective_predictions ps ms = Inr r"
  obtains l where "predictions.latest_of (model_selected ms) (set ps) l" "r = sort_key prediction_order (map snd l)"
proof -
  obtain l where l: "latest_by prediction_key (model_selected ms) ambiguous_revisions [] ps = Inr l"
    and r: "r = sort_key prediction_order (map snd l)"
    using assms by (auto simp: select_effective_predictions_def model_selected_def [abs_def] Let_def split: sum.splits option.splits)
  have "predictions.latest_of (model_selected ms) ({} \<union> set ps) l"
    by (rule predictions.latest_by_latest_of [OF l predictions_empty_latest])
  with r show thesis by (intro that) simp_all
qed

lemma latest_by_total: "\<exists>l'. latest_by k sel (\<lambda>x y. Inr (f x y)) l xs = Inr l'"
  by (induction xs arbitrary: l) (auto split: option.splits)

text \<open>The task manifest never fails on recency, so its selection does not depend on the order of the rows at all.\<close>

lemma expectations_order_independent:
  assumes "set xs = set ys" "inj_on pe_prediction_id (set xs)"
  shows "select_effective_prediction_expectations xs ms = select_effective_prediction_expectations ys ms"
proof -
  let ?sel = "\<lambda>x. trim_space (pe_prediction_model_id x) \<in> prediction_model_set ms"
  let ?newer = "\<lambda>candidate current. Inr (prediction_expectation_is_newer candidate current)"
  obtain l where l: "latest_by expectation_key ?sel ?newer [] xs = Inr l"
    using latest_by_total [of expectation_key ?sel prediction_expectation_is_newer "[]" xs] by blast
  obtain l' where l': "latest_by expectation_key ?sel ?newer [] ys = Inr l'"
    using latest_by_total [of expectation_key ?sel prediction_expectation_is_newer "[]" ys] by blast
  have "sort_key expectation_order (map snd l) = sort_key expectation_order (map snd l')"
    using expectations.latest_by_latest_of [OF l expectations_empty_latest] expectations.latest_by_latest_of [OF l' expectations_empty_latest] assms
    by (intro expectations.latest_of_sorted_unique [where S = "set xs"]) simp_all
  then show ?thesis unfolding select_effective_prediction_expectations_def l l' by simp
qed

text \<open>
  C21. The effective predictions are the newest ones, whatever the order of the snapshot. The result is sorted, has one row
  for every market and configured model of the snapshot, and that row is a row of the snapshot whose time of prediction,
  availability and completion (then its identifier) no other row of the same market and model exceeds. When the snapshot
  has no identifier twice, which \<open>PredictionSnapshot.Validate\<close> ensures, every order of its rows that is accepted yields the
  same result.
\<close>

theorem effective_predictions_newest:
  assumes "select_effective_predictions ps ms = Inr r"
  shows "sorted (map prediction_order r) \<and> distinct (map prediction_key r) \<and>
    (\<forall>q \<in> set r. q \<in> set ps \<and> model_selected ms q \<and>
       (\<forall>p \<in> set ps. model_selected ms p \<and> prediction_key p = prediction_key q \<longrightarrow> prediction_recency p \<le> prediction_recency q)) \<and>
    (\<forall>p \<in> set ps. model_selected ms p \<longrightarrow> (\<exists>q \<in> set r. prediction_key q = prediction_key p)) \<and>
    (distinct (map pr_prediction_id ps) \<longrightarrow>
       (\<forall>ps' r'. mset ps' = mset ps \<and> select_effective_predictions ps' ms = Inr r' \<longrightarrow> r' = r))"
proof -
  obtain l where l: "predictions.latest_of (model_selected ms) (set ps) l" and r: "r = sort_key prediction_order (map snd l)"
    by (rule select_effective_predictions_latest [OF assms])
  have kept: "predictions.kept (model_selected ms) (set ps) r" unfolding r by (rule predictions.latest_of_kept [OF l])
  have same: "r' = r" if ids: "distinct (map pr_prediction_id ps)" and m: "mset ps' = mset ps"
    and r': "select_effective_predictions ps' ms = Inr r'" for ps' r'
  proof -
    obtain l' where l': "predictions.latest_of (model_selected ms) (set ps') l'" "r' = sort_key prediction_order (map snd l')"
      by (rule select_effective_predictions_latest [OF r'])
    have "set ps' = set ps" using m by (metis set_mset_mset)
    moreover have "inj_on pr_prediction_id (set ps)" using ids by (simp add: distinct_map)
    ultimately show ?thesis unfolding r l'(2) using predictions.latest_of_sorted_unique [OF l, of l'] l'(1) by simp
  qed
  from kept same show ?thesis unfolding predictions.kept_def predictions.newest_def by blast
qed

definition sample_outcome :: "int \<Rightarrow> string \<Rightarrow> float64 \<Rightarrow> prediction_outcome" where
  "sample_outcome k token probability =
     \<lparr>po_index = k, po_name = ''o'', po_token_id = token, po_outcome_id = [], po_probability = probability\<rparr>"

definition sample_prediction :: "string \<Rightarrow> gtime \<Rightarrow> int \<Rightarrow> prediction" where
  "sample_prediction ident asOf halves =
     \<lparr>pr_prediction_id = ident, pr_source_job_id = [], pr_sandbox_id = [], pr_market_source = [], pr_market_id = ''m1'',
      pr_condition_id = ''c1'', pr_event_id = [], pr_question = ''q'', pr_event_slug = [], pr_market_slug = [], pr_domains = None,
      pr_end_at = None, pr_neg_risk = False, pr_outcomes = [sample_outcome 0 ''t0'' (F64 halves (- 1)), sample_outcome 1 ''t1'' (F64 (2 - halves) (- 1))],
      pr_prediction_as_of = asOf, pr_completed_at = asOf, pr_available_at = asOf,
      pr_model = \<lparr>pm_name = ''model'', pm_predictor_version = [], pm_prompt_version = []\<rparr>\<rparr>"

lemma sample_effective: "select_effective_predictions [sample_prediction ''a'' 1 0, sample_prediction ''b'' 2 1] [''model''] = Inr [sample_prediction ''b'' 2 1]"
  by code_simp

theorem effective_predictions_newest_witness:
  "model_selected [''model''] (sample_prediction ''b'' 2 1) \<and>
   prediction_recency (sample_prediction ''a'' 1 0) \<le> prediction_recency (sample_prediction ''b'' 2 1)"
proof -
  have "model_selected [''model''] (sample_prediction ''a'' 1 0)"
    "prediction_key (sample_prediction ''a'' 1 0) = prediction_key (sample_prediction ''b'' 2 1)"
    by code_simp+
  then show ?thesis using effective_predictions_newest [OF sample_effective] by simp
qed

text \<open>
  Whether the selection is accepted does depend on the order: two rows with the same times and different payloads are only
  compared when the first of them has not been replaced by a newer row before the second is read.
\<close>

lemma ambiguity_depends_on_order:
  "isl (select_effective_predictions [sample_prediction ''a'' 1 0, sample_prediction ''b'' 1 1, sample_prediction ''c'' 2 1] [''model'']) \<and>
   select_effective_predictions [sample_prediction ''c'' 2 1, sample_prediction ''a'' 1 0, sample_prediction ''b'' 1 1] [''model''] =
     Inr [sample_prediction ''c'' 2 1]"
  by code_simp

end
