(* ===== verification/Strategy_Orders.thy ===== *)
theory Strategy_Orders
  imports Market_Validation Predictions
begin

text \<open>
  What the decision cycle demands of the orders a strategy proposes: the execution constraints of
  \<open>src/internal/domain/decision.go\<close> and the order checks of \<open>src/internal/service/decisioncycle/service.go\<close>. BUY entries
  are checked against the frozen order book, SELL exits only for their form. The theorems say what an accepted BUY order
  is worth, and that the loop which counts decimal places ends with the right count.
\<close>

section \<open>Order parameters and constraints\<close>

record strategy_order_params =
  so_side :: side
  so_type :: order_type
  so_worst_price :: decimal
  so_size :: decimal
  so_time_in_force :: time_in_force
  so_expires_at :: "gtime option"

record strategy_execution_constraints =
  sc_size_unit :: string
  sc_size_decimal_places :: int
  sc_buy_notional_decimals :: int
  sc_minimum_buy_notional :: decimal
  sc_allowed_time_in_force :: "time_in_force list"
  sc_price_protection_policy :: string
  sc_max_price_slippage_ticks :: int

definition StrategyPriceProtectionDepthAwareLimit :: string where "StrategyPriceProtectionDepthAwareLimit = ''DEPTH_AWARE_LIMIT''"
definition DefaultStrategyMaxPriceSlippageTicks :: int where "DefaultStrategyMaxPriceSlippageTicks = 2"

definition default_strategy_execution_constraints :: strategy_execution_constraints where
  "default_strategy_execution_constraints =
     \<lparr>sc_size_unit = ''SHARES'', sc_size_decimal_places = 2, sc_buy_notional_decimals = 4, sc_minimum_buy_notional = ''1'',
      sc_allowed_time_in_force = [TimeInForceIOC, TimeInForceFOK],
      sc_price_protection_policy = StrategyPriceProtectionDepthAwareLimit,
      sc_max_price_slippage_ticks = DefaultStrategyMaxPriceSlippageTicks\<rparr>"

definition unsupported_constraints :: go_error where
  "unsupported_constraints = ErrText ''unsupported strategy execution constraint set''"

fun check_allowed_time_in_force :: "time_in_force list \<Rightarrow> time_in_force list \<Rightarrow> err" where
  "check_allowed_time_in_force seen [] = None"
| "check_allowed_time_in_force seen (t # ts) =
     (if t \<noteq> TimeInForceFOK \<and> t \<noteq> TimeInForceIOC then Some unsupported_constraints
      else if t \<in> set seen then Some unsupported_constraints
      else check_allowed_time_in_force (t # seen) ts)"

definition validate_execution_constraints :: "strategy_execution_constraints \<Rightarrow> err" where
  "validate_execution_constraints c =
     (if sc_size_unit c \<noteq> ''SHARES'' \<or> sc_size_decimal_places c \<noteq> 2 \<or> sc_buy_notional_decimals c \<noteq> 4 \<or>
         sc_price_protection_policy c \<noteq> StrategyPriceProtectionDepthAwareLimit \<or>
         sc_max_price_slippage_ticks c < 1 \<or> sc_max_price_slippage_ticks c > DefaultStrategyMaxPriceSlippageTicks \<or>
         length (sc_allowed_time_in_force c) = 0 \<or> length (sc_allowed_time_in_force c) > 2
      then Some unsupported_constraints
      else case check_allowed_time_in_force [] (sc_allowed_time_in_force c) of
        Some e \<Rightarrow> Some e
      | None \<Rightarrow> if not_positive (sc_minimum_buy_notional c) then Some (ErrText ''minimum_buy_notional must be positive'') else None)"


section \<open>Counting decimal places\<close>

definition decimal_places :: "decimal \<Rightarrow> int" where
  "decimal_places value =
     (let t = trim_space value in
      if CHR ''.'' \<notin> set t then 0
      else int (length (trim_right_char (CHR ''0'') (tl (dropWhile (\<lambda>c. c \<noteq> CHR ''.'') t)))))"

text \<open>
  The two loops of \<open>rationalDecimalPlaces\<close> divide a factor out of the denominator and count. For a denominator of 0 they
  would not end, which the \<open>None\<close> of a partial function stands for; \<open>rational_decimal_places_exact\<close> shows that it does
  not happen.
\<close>

partial_function (option) divide_out :: "int \<Rightarrow> int \<Rightarrow> int \<Rightarrow> (int \<times> int) option" where
  [code]: "divide_out factor n denominator =
     (if denominator mod factor \<noteq> 0 then Some (n, denominator) else divide_out factor (n + 1) (denominator div factor))"

definition math_MaxInt :: int where "math_MaxInt = 2 ^ 63 - 1"

definition rational_decimal_places :: "rat \<Rightarrow> int option" where
  "rational_decimal_places value =
     (case divide_out 2 0 (snd (quotient_of value)) of
        None \<Rightarrow> None
      | Some (twoCount, d) \<Rightarrow>
          (case divide_out 5 0 d of
             None \<Rightarrow> None
           | Some (fiveCount, d') \<Rightarrow> Some (if d' \<noteq> 1 then math_MaxInt else max twoCount fiveCount)))"

definition exceeds_decimal_places :: "rat \<Rightarrow> int \<Rightarrow> bool" where
  "exceeds_decimal_places value limit = (case rational_decimal_places value of Some places \<Rightarrow> places > limit | None \<Rightarrow> False)"


section \<open>Checking an order\<close>

text \<open>\<open>QuoRem\<close> truncates; half a share rounds away from zero.\<close>

definition round_buy_shares :: "decimal \<Rightarrow> go_error + decimal" where
  "round_buy_shares shares =
     (case dec_multiply shares ''1'' of
        Inl e \<Rightarrow> Inl e
      | Inr value \<Rightarrow>
          (let (a, b) = quotient_of value; quotient = int_quo a b; remainder = int_rem a b in
           Inr (show_int (if 2 * \<bar>remainder\<bar> \<ge> b then (if value \<ge> 0 then quotient + 1 else quotient - 1) else quotient))))"

fun protected_price_liquidity :: "rat \<Rightarrow> price_level list \<Rightarrow> side \<Rightarrow> decimal \<Rightarrow> go_error + rat" where
  "protected_price_liquidity acc [] s protectedPrice = Inr acc"
| "protected_price_liquidity acc (level # levels) s protectedPrice =
     (case dec_compare (pv_price level) protectedPrice of
        Inl e \<Rightarrow> Inl e
      | Inr c \<Rightarrow>
          if \<not> (s = SideBuy \<and> c \<le> 0 \<or> s = SideSell \<and> c \<ge> 0) then protected_price_liquidity acc levels s protectedPrice
          else case dec_multiply (pv_size level) ''1'' of
            Inl e \<Rightarrow> Inl e
          | Inr shares \<Rightarrow> protected_price_liquidity (acc + shares) levels s protectedPrice)"

definition validate_strategy_protected_price :: "decimal \<Rightarrow> side \<Rightarrow> order_book \<Rightarrow> err" where
  "validate_strategy_protected_price protectedPrice s book =
     (if dec_is_empty (ob_tick_size book) then Some (ErrText ''DEPTH_AWARE_LIMIT requires orderbook tick_size'')
      else if not_positive (ob_tick_size book) then Some (ErrText ''orderbook tick_size must be positive'')
      else if not_positive protectedPrice then Some (ErrText ''order.worst_price must be positive'')
      else if compare_fails protectedPrice ''1'' (\<lambda>c. c > 0) then Some (ErrText ''order.worst_price must not exceed one'')
      else if dec_is_multiple_of protectedPrice (ob_tick_size book) \<noteq> Inr True
      then Some (ErrText ''order.worst_price must be an exact multiple of orderbook tick_size'')
      else if s = SideBuy then
        (case ob_asks book of
           [] \<Rightarrow> Some (ErrText ''BUY price protection requires an ask'')
         | ask # _ \<Rightarrow>
             if compare_fails protectedPrice (pv_price ask) (\<lambda>c. c < 0)
             then Some (ErrText ''BUY order.worst_price must be at or above the strategy snapshot best ask'') else None)
      else if s = SideSell then
        (case ob_bids book of
           [] \<Rightarrow> Some (ErrText ''SELL price protection requires a bid'')
         | bid # _ \<Rightarrow>
             if compare_fails protectedPrice (pv_price bid) (\<lambda>c. c > 0)
             then Some (ErrText ''SELL order.worst_price must be at or below the strategy snapshot best bid'') else None)
      else Some (ErrText (''unsupported strategy order side '' @ quoted s)))"

definition venue_time_in_force :: "time_in_force \<Rightarrow> side \<Rightarrow> market_source \<Rightarrow> time_in_force" where
  "venue_time_in_force strategy s marketSource =
     (if market_source_normalize marketSource = MarketSourceKalshi \<or> s = SideBuy then TimeInForceIOC else strategy)"

text \<open>The checks that \<open>validateStrategyOrderForMarket\<close> and \<open>validateStrategyExitOrder\<close> start with.\<close>

definition check_order_form :: "strategy_order_params \<Rightarrow> side \<Rightarrow> strategy_execution_constraints \<Rightarrow> err" where
  "check_order_form x s c =
     (if so_side x \<noteq> s \<or> so_type x \<noteq> OrderTypeLimit \<or> so_expires_at x \<noteq> None \<or>
         so_time_in_force x \<noteq> TimeInForceFOK \<and> so_time_in_force x \<noteq> TimeInForceIOC
      then Some (ErrText (''order must be a '' @ s @ '' LIMIT FOK or IOC without expires_at''))
      else if so_time_in_force x \<notin> set (sc_allowed_time_in_force c)
      then Some (ErrText (''order.time_in_force '' @ so_time_in_force x @ '' is not in allowed_time_in_force''))
      else if not_positive (so_size x) then Some (ErrText ''order.size must be positive shares'')
      else if decimal_places (so_size x) > sc_size_decimal_places c
      then Some (ErrText (''order.size exceeds '' @ show_int (sc_size_decimal_places c) @ '' decimal places''))
      else None)"

definition effective_order_size :: "strategy_order_params \<Rightarrow> side \<Rightarrow> go_error + decimal" where
  "effective_order_size x s =
     (if s \<noteq> SideBuy then Inr (so_size x)
      else case round_buy_shares (so_size x) of
        Inl e \<Rightarrow> Inl (wrap_error ''round BUY order.size'' e)
      | Inr shares \<Rightarrow> if not_positive shares then Inl (ErrText ''BUY order.size rounds below one whole share'') else Inr shares)"

definition check_liquidity ::
    "strategy_order_params \<Rightarrow> side \<Rightarrow> order_book \<Rightarrow> market_source \<Rightarrow> decimal \<Rightarrow> err" where
  "check_liquidity x s book marketSource effectiveSize =
     (case protected_price_liquidity 0 (if s = SideSell then ob_bids book else ob_asks book) s (so_worst_price x) of
        Inl e \<Rightarrow> Some (wrap_error (''calculate '' @ s @ '' protected-price liquidity'') e)
      | Inr availableShares \<Rightarrow>
      case dec_multiply effectiveSize ''1'' of
        Inl e \<Rightarrow> Some (wrap_error (''calculate effective '' @ s @ '' shares'') e)
      | Inr requestedShares \<Rightarrow>
      if venue_time_in_force (so_time_in_force x) s marketSource = TimeInForceIOC
      then (if availableShares \<le> 0 then Some (ErrText (s @ '' order has no protected-price liquidity'')) else None)
      else if requestedShares > availableShares then Some (ErrText (s @ '' order.size exceeds protected-price liquidity'')) else None)"

definition check_buy_notional :: "strategy_order_params \<Rightarrow> strategy_execution_constraints \<Rightarrow> decimal \<Rightarrow> err" where
  "check_buy_notional x c effectiveSize =
     (case dec_multiply (so_worst_price x) effectiveSize of
        Inl e \<Rightarrow> Some (wrap_error ''calculate BUY notional'' e)
      | Inr notional \<Rightarrow>
          if (case dec_multiply (sc_minimum_buy_notional c) ''1'' of Inl _ \<Rightarrow> True | Inr minimum \<Rightarrow> notional < minimum)
          then Some (ErrText ''BUY notional is below minimum_buy_notional'')
          else if exceeds_decimal_places notional (sc_buy_notional_decimals c)
          then Some (ErrText (''BUY price*size exceeds '' @ show_int (sc_buy_notional_decimals c) @ '' decimal places''))
          else None)"

definition check_order_in_book ::
    "strategy_order_params \<Rightarrow> side \<Rightarrow> order_book \<Rightarrow> strategy_execution_constraints \<Rightarrow> market_source \<Rightarrow> decimal \<Rightarrow> err" where
  "check_order_in_book x s book c marketSource effectiveSize =
     (if \<not> dec_is_empty (ob_min_order_size book) \<and> compare_fails effectiveSize (ob_min_order_size book) (\<lambda>c. c < 0)
      then Some (ErrText ''order.size is below orderbook min_order_size'')
      else case validate_strategy_protected_price (so_worst_price x) s book of
        Some e \<Rightarrow> Some e
      | None \<Rightarrow>
      (case check_liquidity x s book marketSource effectiveSize of
        Some e \<Rightarrow> Some e
      | None \<Rightarrow> if s = SideBuy then check_buy_notional x c effectiveSize else None))"

definition validate_strategy_order_for_market ::
    "strategy_order_params \<Rightarrow> side \<Rightarrow> order_book \<Rightarrow> strategy_execution_constraints \<Rightarrow> market_source \<Rightarrow> err" where
  "validate_strategy_order_for_market x s book c marketSource =
     (case check_order_form x s c of
        Some e \<Rightarrow> Some e
      | None \<Rightarrow>
      case effective_order_size x s of
        Inl e \<Rightarrow> Some e
      | Inr effectiveSize \<Rightarrow> check_order_in_book x s book c marketSource effectiveSize)"

definition validate_strategy_order :: "strategy_order_params \<Rightarrow> side \<Rightarrow> order_book \<Rightarrow> strategy_execution_constraints \<Rightarrow> err" where
  "validate_strategy_order x s book c = validate_strategy_order_for_market x s book c MarketSourcePolymarket"

definition validate_strategy_exit_order :: "strategy_order_params \<Rightarrow> strategy_execution_constraints \<Rightarrow> err" where
  "validate_strategy_exit_order x c =
     (case check_order_form x SideSell c of
        Some e \<Rightarrow> Some e
      | None \<Rightarrow>
          if not_positive (so_worst_price x) then Some (ErrText ''order.worst_price must be positive'')
          else if compare_fails (so_worst_price x) ''1'' (\<lambda>c. c > 0) then Some (ErrText ''order.worst_price must not exceed one'')
          else None)"

definition execution_outcome_id :: "market_source \<Rightarrow> string \<Rightarrow> string \<Rightarrow> go_error + string" where
  "execution_outcome_id source conditionID tokenID =
     (if market_source_normalize source \<noteq> MarketSourceKalshi then Inr []
      else
        (let pre = trim_space conditionID @ '':''; token = trim_space tokenID in
         if \<not> has_prefix token pre then Inl (ErrText ''Kalshi position token does not match its condition'')
         else
           (let outcomeID = to_upper (trim_space (drop (length pre) token)) in
            if outcomeID \<noteq> ''YES'' \<and> outcomeID \<noteq> ''NO'' then Inl (ErrText ''Kalshi position token has an invalid outcome'')
            else Inr outcomeID)))"


section \<open>The count of decimal places\<close>

lemma divide_out_spec:
  fixes f d :: int
  assumes "1 < f" "0 < d"
  shows "\<exists>k d'. divide_out f n d = Some (n + int k, d') \<and> d = f ^ k * d' \<and> \<not> f dvd d' \<and> 0 < d'"
  using assms(2)
proof (induction "nat d" arbitrary: n d rule: less_induct)
  case less
  show ?case
  proof (cases "f dvd d")
    case False
    then have "divide_out f n d = Some (n + int 0, d)" by (subst divide_out.simps) (simp add: dvd_eq_mod_eq_0)
    then show ?thesis using False less.prems by (intro exI [of _ 0] exI [of _ d]) simp
  next
    case True
    then obtain e where e: "d = f * e" by blast
    then have pos: "0 < e" "e < d" using less.prems assms(1) by (simp_all add: zero_less_mult_iff)
    from less.hyps [of e "n + 1"] pos obtain k d' where
      k: "divide_out f (n + 1) e = Some (n + 1 + int k, d')" "e = f ^ k * d'" "\<not> f dvd d'" "0 < d'" by auto
    have "divide_out f n d = divide_out f (n + 1) e" using e assms(1) by (subst divide_out.simps) simp
    then show ?thesis using k e by (intro exI [of _ "Suc k"] exI [of _ d']) simp
  qed
qed

lemma not_dvd_five_coprime:
  fixes m :: int
  assumes "\<not> 5 dvd m"
  shows "coprime m 5"
proof -
  have g: "gcd m 5 dvd 5" "0 < gcd m 5" "gcd m 5 \<le> 5" by (simp_all add: zdvd_imp_le)
  then have "gcd m 5 = 1 \<or> gcd m 5 = 2 \<or> gcd m 5 = 3 \<or> gcd m 5 = 4 \<or> gcd m 5 = 5" by linarith
  moreover have "\<not> (2 :: int) dvd 5" "\<not> (3 :: int) dvd 5" "\<not> (4 :: int) dvd 5" by presburger+
  then have "gcd m 5 \<noteq> 2" "gcd m 5 \<noteq> 3" "gcd m 5 \<noteq> 4" using g(1) by metis+
  moreover have "gcd m 5 \<noteq> 5" using assms by (metis gcd_dvd1)
  ultimately show ?thesis by (simp add: coprime_iff_gcd_eq_1)
qed

lemma dvd_power_two_five:
  fixes m :: int
  assumes "coprime m 2" "coprime m 5" "0 < m"
  shows "2 ^ a * (5 ^ b * m) dvd 10 ^ k \<longleftrightarrow> m = 1 \<and> a \<le> k \<and> b \<le> k"
proof
  assume d: "2 ^ a * (5 ^ b * m) dvd 10 ^ k"
  have ten: "(10 :: int) ^ k = 2 ^ k * 5 ^ k" by (simp add: power_mult_distrib [symmetric])
  have cop: "coprime (2 :: int) 5" by code_simp
  have "m dvd 2 ^ k * 5 ^ k" using d unfolding ten by (metis dvd_mult_right)
  then have "m dvd 2 ^ k" using assms(2) by (simp add: coprime_dvd_mult_left_iff)
  then have "is_unit m" using assms(1) by (metis coprime_absorb_left coprime_power_right_iff)
  moreover have "2 ^ a dvd (2 ^ k * 5 ^ k :: int)" using d unfolding ten by (metis dvd_mult_left)
  then have "(2 :: int) ^ a dvd 2 ^ k" using cop by (simp add: coprime_dvd_mult_left_iff)
  moreover have "5 ^ b dvd (2 ^ k * 5 ^ k :: int)" using d unfolding ten by (metis dvd_mult_left dvd_mult_right)
  then have "(5 :: int) ^ b dvd 5 ^ k" using cop by (simp add: coprime_dvd_mult_right_iff coprime_commute)
  ultimately show "m = 1 \<and> a \<le> k \<and> b \<le> k" using assms(3) by (auto simp: dvd_power_iff)
next
  assume "m = 1 \<and> a \<le> k \<and> b \<le> k"
  then have "(2 :: int) ^ a * 5 ^ b dvd 2 ^ k * 5 ^ k" by (intro mult_dvd_mono) (simp_all add: le_imp_power_dvd)
  with \<open>m = 1 \<and> a \<le> k \<and> b \<le> k\<close> show "2 ^ a * (5 ^ b * m) dvd 10 ^ k" by (simp add: power_mult_distrib [symmetric])
qed

lemma scaled_integer_iff:
  assumes "quotient_of v = (a, b)"
  shows "v * 10 ^ k \<in> \<int> \<longleftrightarrow> b dvd 10 ^ k"
proof -
  have b: "0 < b" and cop: "coprime a b" and v: "v = of_int a / of_int b"
    using assms quotient_of_denom_pos quotient_of_coprime quotient_of_div by auto
  have "v * 10 ^ k = of_int (a * 10 ^ k) / of_int b" using v by simp
  then have "v * 10 ^ k \<in> \<int> \<longleftrightarrow> b dvd a * 10 ^ k"
    using b of_int_div_of_int_in_Ints_iff [of "a * 10 ^ k" b, where ?'a = rat] by auto
  then show ?thesis using cop by (simp add: coprime_dvd_mult_right_iff coprime_commute)
qed

lemma rational_decimal_places_factors:
  obtains m :: int and k l :: nat
  where "rational_decimal_places v = Some (if m \<noteq> 1 then math_MaxInt else max (int k) (int l))"
    and "\<forall>i. v * 10 ^ i \<in> \<int> \<longleftrightarrow> m = 1 \<and> k \<le> i \<and> l \<le> i"
proof -
  obtain a b where q: "quotient_of v = (a, b)" by fastforce
  obtain k d where k: "divide_out 2 0 b = Some (int k, d)" "b = 2 ^ k * d" "\<not> 2 dvd d" "0 < d"
    using divide_out_spec [of 2 b 0] quotient_of_denom_pos [OF q] by auto
  obtain l m where l: "divide_out 5 0 d = Some (int l, m)" "d = 5 ^ l * m" "\<not> 5 dvd m" "0 < m"
    using divide_out_spec [of 5 d 0] k(4) by auto
  have "\<not> 2 dvd m" using k(3) l(2) by (metis dvd_mult)
  then have cop: "coprime m 2" "coprime m 5" using not_dvd_five_coprime [OF l(3)] by simp_all
  have "v * 10 ^ i \<in> \<int> \<longleftrightarrow> m = 1 \<and> k \<le> i \<and> l \<le> i" for i
    using scaled_integer_iff [OF q, of i] dvd_power_two_five [OF cop l(4), of k l i] k(2) l(2) by simp
  moreover have "rational_decimal_places v = Some (if m \<noteq> 1 then math_MaxInt else max (int k) (int l))"
    using q k(1) l(1) by (simp add: rational_decimal_places_def)
  ultimately show thesis by (intro that allI)
qed

text \<open>
  C22. The loops that count the decimal places of a notional always end, and the count is exact: the least number of places
  at which the value is a whole number of units, or the largest integer when no number of places suffices.
\<close>

theorem rational_decimal_places_exact:
  "\<exists>p. rational_decimal_places v = Some p \<and>
     (if \<exists>k. v * 10 ^ k \<in> \<int>
      then 0 \<le> p \<and> v * 10 ^ nat p \<in> \<int> \<and> (\<forall>k. v * 10 ^ k \<in> \<int> \<longrightarrow> p \<le> int k)
      else p = math_MaxInt)"
proof -
  obtain k l :: nat and m :: int where p: "rational_decimal_places v = Some (if m \<noteq> 1 then math_MaxInt else max (int k) (int l))"
    and iff: "\<forall>i. v * 10 ^ i \<in> \<int> \<longleftrightarrow> m = 1 \<and> k \<le> i \<and> l \<le> i"
    by (rule rational_decimal_places_factors [of v])
  have "\<exists>i. k \<le> i \<and> l \<le> i" by (intro exI [of _ "max k l"]) simp
  then show ?thesis unfolding p iff [rule_format] by auto
qed

theorem rational_decimal_places_exact_witness:
  "\<exists>p. rational_decimal_places (13 / 40) = Some p \<and> 0 \<le> p \<and> p \<le> 3"
proof -
  have "(13 / 40 :: rat) * 10 ^ 3 = of_int 325" by simp
  then have i: "(13 / 40 :: rat) * 10 ^ 3 \<in> \<int>" by (metis Ints_of_int)
  from rational_decimal_places_exact [of "13 / 40"] obtain p where p: "rational_decimal_places (13 / 40) = Some p"
    and q: "if \<exists>k. (13 / 40 :: rat) * 10 ^ k \<in> \<int>
      then 0 \<le> p \<and> (13 / 40 :: rat) * 10 ^ nat p \<in> \<int> \<and> (\<forall>k. (13 / 40 :: rat) * 10 ^ k \<in> \<int> \<longrightarrow> p \<le> int k)
      else p = math_MaxInt" by blast
  have "\<exists>k. (13 / 40 :: rat) * 10 ^ k \<in> \<int>" using i by blast
  then have "0 \<le> p \<and> p \<le> int 3" using q i by metis
  then show ?thesis using p by auto
qed

lemma exceeds_decimal_places_units:
  assumes "\<not> exceeds_decimal_places v n" "n < math_MaxInt"
  shows "v * 10 ^ nat n \<in> \<int>"
proof -
  obtain k l :: nat and m :: int where p: "rational_decimal_places v = Some (if m \<noteq> 1 then math_MaxInt else max (int k) (int l))"
    and iff: "\<forall>i. v * 10 ^ i \<in> \<int> \<longleftrightarrow> m = 1 \<and> k \<le> i \<and> l \<le> i"
    by (rule rational_decimal_places_factors [of v])
  show ?thesis using assms unfolding exceeds_decimal_places_def p iff [rule_format] by (auto split: if_splits)
qed


section \<open>What an accepted BUY order is worth\<close>

lemma dec_rat_show_int: "dec_rat (show_int n) = Inr (of_int n)"
proof -
  have s: "show_int n = render_parts (n < 0, show_nat (nat \<bar>n\<bar>), [])" by (simp add: show_int_def render_parts_def)
  have "parts_value (n < 0, show_nat (nat \<bar>n\<bar>), []) = of_int n" by (simp add: parts_value_def show_nat_value)
  then show ?thesis unfolding s by (subst render_parts_rat) (simp_all add: show_nat_digits)
qed

lemma dec_value_show_int [simp]: "dec_value (show_int n) = of_int n"
  by (rule dec_value_Inr [OF dec_rat_show_int])

text \<open>Rounding half away from zero moves a value by at most one half.\<close>

lemma quo_rounding:
  fixes a b :: int
  assumes "0 < b"
  shows "\<bar>2 * ((if 2 * \<bar>int_rem a b\<bar> \<ge> b then (if 0 \<le> a then int_quo a b + 1 else int_quo a b - 1) else int_quo a b) * b - a)\<bar> \<le> b"
proof -
  define c where "c = \<bar>a\<bar> div b"
  define s where "s = \<bar>a\<bar> mod b"
  have cs: "\<bar>a\<bar> = c * b + s" "0 \<le> s" "s < b" using assms by (simp_all add: c_def s_def)
  have q: "int_quo a b = (if 0 \<le> a then c else - c)" using assms by (auto simp: int_quo_def c_def sgn_if)
  have r: "int_rem a b = (if 0 \<le> a then s else - s)" using cs q by (auto simp: int_rem_def)
  show ?thesis unfolding q r using cs by (auto simp: algebra_simps abs_if split: if_splits)
qed

lemma round_buy_shares_value:
  assumes "round_buy_shares shares = Inr rounded"
  obtains n where "rounded = show_int n" "\<bar>dec_value shares - of_int n\<bar> \<le> 1 / 2"
proof -
  obtain v where v: "dec_multiply shares ''1'' = Inr v" using assms by (auto simp: round_buy_shares_def split: sum.splits)
  obtain a b where q: "quotient_of v = (a, b)" by fastforce
  have b: "0 < b" and va: "v = of_int a / of_int b" using q quotient_of_denom_pos quotient_of_div by auto
  have sign: "0 \<le> v \<longleftrightarrow> 0 \<le> a" using b va by (simp add: zero_le_divide_iff)
  define n where "n = (if 2 * \<bar>int_rem a b\<bar> \<ge> b then (if 0 \<le> a then int_quo a b + 1 else int_quo a b - 1) else int_quo a b)"
  have "rounded = show_int n" using assms v q sign by (simp add: round_buy_shares_def n_def Let_def split: if_splits)
  moreover have "\<bar>v - of_int n\<bar> \<le> 1 / 2"
  proof -
    have le: "of_int \<bar>2 * (n * b - a)\<bar> \<le> (of_int b :: rat)" unfolding of_int_le_iff n_def by (rule quo_rounding [OF b])
    have "of_int a - of_int n * of_int b = (v - of_int n) * of_int b" using b va by (simp add: field_simps)
    then have "\<bar>of_int a - of_int n * of_int b\<bar> = \<bar>v - of_int n\<bar> * of_int b" using b by (simp add: abs_mult)
    then have "2 * \<bar>v - of_int n\<bar> * of_int b \<le> 1 * of_int b" using le by (simp add: abs_minus_commute)
    then show ?thesis using b mult_right_le_imp_le [of "2 * \<bar>v - of_int n\<bar>" "of_int b" 1] by simp
  qed
  ultimately show thesis using dec_multiply_one [OF v] by (intro that) simp_all
qed

lemma protected_price_liquidity_sum:
  "protected_price_liquidity acc levels s w = Inr r \<Longrightarrow>
     r = acc + sum_list (map (\<lambda>l. dec_value (pv_size l)) (filter (inside_limit s w) levels))"
proof (induction acc levels s w rule: protected_price_liquidity.induct)
  case (2 acc level levels s w)
  obtain c where c: "dec_compare (pv_price level) w = Inr c" using "2.prems" by (auto split: sum.splits)
  have i: "inside_limit s w level \<longleftrightarrow> s = SideBuy \<and> c \<le> 0 \<or> s = SideSell \<and> c \<ge> 0"
    using dec_compare_value(1,2) [OF c] by (auto simp: inside_limit_def order_constants)
  show ?case
  proof (cases "inside_limit s w level")
    case False
    then show ?thesis using "2.IH"(1) [OF c] "2.prems" i c by (simp only: protected_price_liquidity.simps sum.case if_True filter.simps simp_thms if_False)
  next
    case True
    then obtain shares where sh: "dec_multiply (pv_size level) ''1'' = Inr shares" using "2.prems" i c by (auto split: sum.splits)
    have "protected_price_liquidity (acc + shares) levels s w = Inr r" using "2.prems" i c sh True by (auto split: if_splits)
    then show ?thesis using "2.IH"(2) [OF c _ sh] i True dec_multiply_one [OF sh] by (auto simp: add.assoc)
  qed
qed simp

text \<open>
  What the entry checks promise of a BUY of \<open>n\<close> shares at the limit \<open>p\<close>: a whole number of shares, at least one and at
  least the minimum of the book, a limit on the tick grid that is at least the best ask and at most 1, visible liquidity
  inside the limit, and a notional that reaches the minimum and has no more decimal places than allowed.
\<close>

definition buy_within_constraints :: "order_book \<Rightarrow> strategy_execution_constraints \<Rightarrow> rat \<Rightarrow> int \<Rightarrow> bool" where
  "buy_within_constraints book c p n \<longleftrightarrow>
     1 \<le> n \<and> (dec_is_empty (ob_min_order_size book) \<or> dec_value (ob_min_order_size book) \<le> of_int n) \<and>
     0 < p \<and> p \<le> 1 \<and> (\<exists>k. p = of_int k * dec_value (ob_tick_size book)) \<and>
     ob_asks book \<noteq> [] \<and> dec_value (pv_price (hd (ob_asks book))) \<le> p \<and>
     0 < sum_list (map (\<lambda>l. dec_value (pv_size l)) (filter (\<lambda>l. dec_value (pv_price l) \<le> p) (ob_asks book))) \<and>
     dec_value (sc_minimum_buy_notional c) \<le> p * of_int n \<and>
     (sc_buy_notional_decimals c < math_MaxInt \<longrightarrow> p * of_int n * 10 ^ nat (sc_buy_notional_decimals c) \<in> \<int>)"

lemma compare_fails_less: "\<not> compare_fails a b (\<lambda>c. c < 0) \<Longrightarrow> dec_value b \<le> dec_value a"
  using dec_compare_value(2) by (fastforce simp: compare_fails_def not_less split: sum.splits)

lemma dec_value_one [simp]: "dec_value ''1'' = 1"
  by code_simp

lemma protected_buy_price:
  assumes "validate_strategy_protected_price w SideBuy book = None"
  shows "0 < dec_value w" "dec_value w \<le> 1" "\<exists>k. dec_value w = of_int k * dec_value (ob_tick_size book)"
    "ob_asks book \<noteq> []" "dec_value (pv_price (hd (ob_asks book))) \<le> dec_value w"
proof -
  from assms have p: "\<not> not_positive w" "\<not> compare_fails w ''1'' (\<lambda>c. c > 0)" "dec_is_multiple_of w (ob_tick_size book) = Inr True"
    "ob_asks book \<noteq> []" "\<not> compare_fails w (pv_price (hd (ob_asks book))) (\<lambda>c. c < 0)"
    by (auto simp: validate_strategy_protected_price_def split: if_splits list.splits)
  show "0 < dec_value w" using p(1) by (simp add: not_positive_value)
  show "dec_value w \<le> 1" using compare_fails_value [OF p(2)] by simp
  show "\<exists>k. dec_value w = of_int k * dec_value (ob_tick_size book)" by (rule is_multiple_value [OF p(3)])
  show "ob_asks book \<noteq> []" by (rule p(4))
  show "dec_value (pv_price (hd (ob_asks book))) \<le> dec_value w" by (rule compare_fails_less [OF p(5)])
qed

lemma strategy_buy_accepted:
  assumes "validate_strategy_order_for_market x SideBuy book c src = None"
  obtains n where "round_buy_shares (so_size x) = Inr (show_int n)" "\<bar>dec_value (so_size x) - of_int n\<bar> \<le> 1 / 2"
    "so_type x = OrderTypeLimit" "so_expires_at x = None" "so_time_in_force x \<in> set (sc_allowed_time_in_force c)"
    "buy_within_constraints book c (dec_value (so_worst_price x)) n"
proof -
  have form: "check_order_form x SideBuy c = None" using assms by (auto simp: validate_strategy_order_for_market_def split: option.splits)
  obtain rounded where eff: "round_buy_shares (so_size x) = Inr rounded" "\<not> not_positive rounded"
    and book: "check_order_in_book x SideBuy book c src rounded = None"
    using assms form by (auto simp: validate_strategy_order_for_market_def effective_order_size_def split: sum.splits if_splits)
  obtain n where n: "rounded = show_int n" "\<bar>dec_value (so_size x) - of_int n\<bar> \<le> 1 / 2"
    by (rule round_buy_shares_value [OF eff(1)])
  have price: "validate_strategy_protected_price (so_worst_price x) SideBuy book = None"
    and liquid: "check_liquidity x SideBuy book src rounded = None" and notional: "check_buy_notional x c rounded = None"
    and least: "dec_is_empty (ob_min_order_size book) \<or> dec_value (ob_min_order_size book) \<le> of_int n"
    using book compare_fails_less [of rounded "ob_min_order_size book"] n(1)
    by (auto simp: check_order_in_book_def split: if_splits option.splits)
  have pos: "1 \<le> n" using eff(2) n(1) by (simp add: not_positive_value)
  have depth: "0 < sum_list (map (\<lambda>l. dec_value (pv_size l)) (filter (\<lambda>l. dec_value (pv_price l) \<le> dec_value (so_worst_price x)) (ob_asks book)))"
    using liquid protected_price_liquidity_sum [of 0 "ob_asks book" SideBuy "so_worst_price x"]
    by (auto simp: check_liquidity_def venue_time_in_force_def inside_limit_def [abs_def] order_constants split: sum.splits if_splits)
  have "dec_value (sc_minimum_buy_notional c) \<le> dec_value (so_worst_price x) * of_int n \<and>
      \<not> exceeds_decimal_places (dec_value (so_worst_price x) * of_int n) (sc_buy_notional_decimals c)"
    using notional n(1) dec_rat_show_int [of n] dec_multiply_one [of "sc_minimum_buy_notional c"]
    by (auto simp: check_buy_notional_def dec_multiply_def [of "so_worst_price x"] dec_value_def split: sum.splits if_splits)
  then have "buy_within_constraints book c (dec_value (so_worst_price x)) n"
    using pos least depth protected_buy_price [OF price] exceeds_decimal_places_units by (simp add: buy_within_constraints_def)
  with eff(1) n form show thesis by (intro that) (auto simp: check_order_form_def split: if_splits)
qed

end
