(* ===== verification/Strategy_Response.thy ===== *)
theory Strategy_Response
  imports Strategy_Orders Execution_Router
begin

text \<open>
  How the decision cycle turns the answer of a strategy into order intents: the request and response of
  \<open>src/internal/domain/decision.go\<close> and \<open>validateResponseWithEntryPolicy\<close> with its helpers in
  \<open>src/internal/service/decisioncycle/service.go\<close>. The strategy is an untrusted Python process, so nothing is assumed of its
  answer. SHA-256 and the shortest decimal text of a double are parameters (\<open>sha256_hex\<close>, \<open>format_float\<close>).
\<close>

section \<open>Identity of a strategy run\<close>

record strategy_context =
  cx_model_id :: string
  cx_strategy_id :: string
  cx_execution_account_id :: string

definition context_normalize :: "strategy_context \<Rightarrow> strategy_context" where
  "context_normalize cx = \<lparr>cx_model_id = trim_space (cx_model_id cx), cx_strategy_id = canonical_strategy_id (cx_strategy_id cx),
     cx_execution_account_id = trim_space (cx_execution_account_id cx)\<rparr>"

definition is_letter :: "char \<Rightarrow> bool" where
  "is_letter c \<longleftrightarrow> (let n = of_char c :: nat in 65 \<le> n \<and> n \<le> 90 \<or> 97 \<le> n \<and> n \<le> 122)"

text \<open>The regular expression \<open>^[A-Za-z][A-Za-z0-9._-]{0,63}$\<close>.\<close>

definition safe_strategy_id :: "string \<Rightarrow> bool" where
  "safe_strategy_id v =
     (case v of [] \<Rightarrow> False
      | c # cs \<Rightarrow> is_letter c \<and> length cs \<le> 63 \<and> list_all (\<lambda>d. is_letter d \<or> is_digit d \<or> d \<in> {CHR ''.'', CHR ''_'', CHR ''-''}) cs)"

definition validate_strategy_id :: "string \<Rightarrow> err" where
  "validate_strategy_id value =
     (let v = canonical_strategy_id value in
      if v = [] then Some (ErrText ''strategy_id is required'')
      else if \<not> safe_strategy_id v then Some (ErrText (''strategy_id '' @ quoted v @ '' has invalid format''))
      else None)"

definition context_validate :: "strategy_context \<Rightarrow> err" where
  "context_validate cx0 =
     (let cx = context_normalize cx0 in
      if cx_model_id cx = [] \<or> cx_strategy_id cx = [] \<or> cx_execution_account_id cx = []
      then Some (ErrText ''model_id, strategy_id, and execution_account_id are required'')
      else validate_strategy_id (cx_strategy_id cx))"

definition context_equal :: "strategy_context \<Rightarrow> strategy_context \<Rightarrow> bool" where
  "context_equal a b \<longleftrightarrow> context_normalize a = context_normalize b"

definition binding_context :: "strategy_binding \<Rightarrow> strategy_context" where
  "binding_context b0 =
     (let b = binding_normalize b0 in
      \<lparr>cx_model_id = sb_model_id b, cx_strategy_id = sb_strategy_id b, cx_execution_account_id = sb_execution_account_id b\<rparr>)"

definition binding_validate :: "strategy_binding \<Rightarrow> err" where
  "binding_validate b0 =
     (let b = binding_normalize b0 in
      if sb_prediction_model_id b = [] then Some (ErrText ''prediction_model_id is required'')
      else if sb_market_source b = MarketSourcePolymarket then
        (if is_kalshi_execution_account (sb_execution_account_id b)
         then Some (ErrText (''Polymarket execution account '' @ quoted (sb_execution_account_id b) @ '' cannot use the '' @
                quoted KalshiExecutionAccountPrefix @ '' prefix''))
         else context_validate (binding_context b))
      else if sb_market_source b = MarketSourceKalshi then
        (if \<not> is_kalshi_execution_account (sb_execution_account_id b)
         then Some (ErrText (''Kalshi execution account '' @ quoted (sb_execution_account_id b) @ '' must start with '' @
                quoted KalshiExecutionAccountPrefix))
         else context_validate (binding_context b))
      else Some (ErrText (''unsupported market_source '' @ quoted (sb_market_source b))))"


section \<open>Requests and responses\<close>

record strategy_position_lot =
  lt_lot_id :: string
  lt_market_source :: market_source
  lt_market_id :: string
  lt_condition_id :: string
  lt_outcome_index :: int
  lt_outcome_name :: string
  lt_token_id :: string
  lt_neg_risk :: bool
  lt_entered_at :: gtime
  lt_shares :: decimal
  lt_entry_price :: decimal

definition lot_validate :: "strategy_position_lot \<Rightarrow> gtime \<Rightarrow> err" where
  "lot_validate l decisionAt =
     (if market_source_normalize (lt_market_source l) \<noteq> MarketSourcePolymarket \<and> market_source_normalize (lt_market_source l) \<noteq> MarketSourceKalshi
      then Some (ErrText ''position lot market_source is invalid'')
      else if trim_space (lt_lot_id l) = [] \<or> trim_space (lt_market_id l) = [] \<or> trim_space (lt_condition_id l) = [] \<or>
              trim_space (lt_outcome_name l) = [] \<or> trim_space (lt_token_id l) = []
      then Some (ErrText ''position lot identity is required'')
      else if lt_outcome_index l \<noteq> 0 \<and> lt_outcome_index l \<noteq> 1 then Some (ErrText ''position lot outcome_index must be 0 or 1'')
      else if is_zero_time (lt_entered_at l) \<or> lt_entered_at l > decisionAt then Some (ErrText ''position lot entered_at is invalid'')
      else if not_positive (lt_shares l) then Some (ErrText ''position lot shares must be positive'')
      else if not_positive (lt_entry_price l) then Some (ErrText ''position lot entry_price must be positive'')
      else if compare_fails (lt_entry_price l) ''1'' (\<lambda>c. c > 0) then Some (ErrText ''position lot entry_price must not exceed one'')
      else None)"

record strategy_request =
  rq_schema_version :: string
  rq_cycle_id :: string
  rq_input_id :: string
  rq_context :: strategy_context
  rq_decision_at :: gtime
  rq_generated_at :: gtime
  rq_prediction_snapshot_id :: string
  rq_prediction_scope :: string
  rq_predictions :: "prediction list"
  rq_positions :: "strategy_position_lot list"
  rq_order_books :: "order_book list"
  rq_execution_constraints :: strategy_execution_constraints

definition StrategyActionSkip :: string where "StrategyActionSkip = ''SKIP''"
definition StrategyActionSubmit :: string where "StrategyActionSubmit = ''SUBMIT''"
definition StrategyReasonEntrySignal :: string where "StrategyReasonEntrySignal = ''ENTRY_SIGNAL''"
definition StrategyReasonInvalidBook :: string where "StrategyReasonInvalidBook = ''INVALID_BOOK''"

text \<open>\<open>Metrics\<close> is a Go map: a list of pairs with different keys, in any order.\<close>

record strategy_evidence =
  ed_probability :: float64
  ed_edge :: decimal
  ed_metrics :: "(string \<times> string) list"

record strategy_evaluation =
  ev_decision_id :: string
  ev_prediction_id :: string
  ev_market_id :: string
  ev_condition_id :: string
  ev_outcome_index :: int
  ev_token_id :: string
  ev_action :: string
  ev_reason_code :: string
  ev_reason :: string
  ev_evidence :: strategy_evidence
  ev_order :: "strategy_order_params option"

record strategy_exit =
  ex_decision_id :: string
  ex_lot_id :: string
  ex_token_id :: string
  ex_reason_code :: string
  ex_reason :: string
  ex_order :: "strategy_order_params option"

record strategy_entry_policy =
  ep_enabled :: bool
  ep_block_reason :: string

record strategy_response =
  rs_schema_version :: string
  rs_cycle_id :: string
  rs_input_id :: string
  rs_context :: strategy_context
  rs_decided_at :: gtime
  rs_evaluations :: "strategy_evaluation list"
  rs_exits :: "strategy_exit list"
  rs_entry_policy :: "strategy_entry_policy option"

definition StrategyOutputSchemaVersion :: string where "StrategyOutputSchemaVersion = ''trading.strategy_output.v4''"


section \<open>Lookups\<close>

definition strategy_prediction :: "prediction list \<Rightarrow> string \<Rightarrow> prediction option" where
  "strategy_prediction predictions predictionID = List.find (\<lambda>p. pr_prediction_id p = predictionID) predictions"

definition strategy_lot :: "strategy_position_lot list \<Rightarrow> string \<Rightarrow> strategy_position_lot option" where
  "strategy_lot positions lotID = List.find (\<lambda>l. lt_lot_id l = lotID) positions"

definition strategy_book :: "order_book list \<Rightarrow> string \<Rightarrow> order_book option" where
  "strategy_book books tokenID = List.find (\<lambda>b. ob_token_id b = tokenID) books"

definition evaluation_key :: "string \<Rightarrow> string \<Rightarrow> string" where
  "evaluation_key predictionID tokenID = predictionID @ [CHR 0x00] @ tokenID"

text \<open>Half of the 32 bytes of the digest, in hexadecimal.\<close>

definition client_order_id :: "(string \<Rightarrow> string) \<Rightarrow> string \<Rightarrow> string \<Rightarrow> string" where
  "client_order_id sha256_hex cycleID decisionID =
     ''strategy-order-'' @ take 32 (sha256_hex (cycleID @ [CHR 0x00] @ decisionID))"

definition input_failure_reason :: "strategy_request \<Rightarrow> string \<Rightarrow> string" where
  "input_failure_reason rq tokenID =
     (case strategy_book (rq_order_books rq) tokenID of
        None \<Rightarrow> StrategyReasonInvalidBook
      | Some book \<Rightarrow> if ob_status book \<noteq> OrderBookStatusOK then StrategyReasonInvalidBook else [])"

definition valid_skip_reason :: "string \<Rightarrow> bool" where
  "valid_skip_reason reason \<longleftrightarrow>
     reason \<in> {''EDGE_TOO_LOW'', ''SPREAD_TOO_WIDE'', ''LIQUIDITY_TOO_LOW'', ''PRICE_OUT_OF_RANGE'', ''HOURLY_VETO'', ''FACTOR_WARMUP'',
       ''STALE_DATA'', ''INVALID_BOOK'', ''OUTSIDE_STRATEGY_UNIVERSE''}"


section \<open>Evidence\<close>

fun check_metrics :: "(string \<times> string) list \<Rightarrow> err" where
  "check_metrics [] = None"
| "check_metrics ((key, value) # ms) =
     (if trim_space key = [] then Some (ErrText ''evidence.metrics key must be non-empty'')
      else if isl (parse_decimal value) then Some (ErrText (''evidence.metrics.'' @ key @ '' must be a decimal string''))
      else check_metrics ms)"

definition required_metrics :: "string \<Rightarrow> string list" where
  "required_metrics strategyID =
     [''best_ask''] @ (if strategyID = ''multfactor_v1'' \<or> strategyID = ''multfactor_v2'' then [''near_logdiff_usd'', ''rel_spread''] else []) @
     (if strategyID = ''multfactor_v2'' then [''MOM'', ''MACD_SIGNAL''] else [])"

definition validate_evidence_metrics :: "strategy_evidence \<Rightarrow> strategy_request \<Rightarrow> string \<Rightarrow> bool \<Rightarrow> err" where
  "validate_evidence_metrics ed rq tokenID requireAll =
     (case check_metrics (ed_metrics ed) of
        Some e \<Rightarrow> Some e
      | None \<Rightarrow>
      if \<not> requireAll then None
      else case List.find (\<lambda>key. map_of (ed_metrics ed) key = None) (required_metrics (cx_strategy_id (context_normalize (rq_context rq)))) of
        Some key \<Rightarrow> Some (ErrText (''SUBMIT requires evidence.metrics.'' @ key))
      | None \<Rightarrow>
      (case strategy_book (rq_order_books rq) tokenID of
        None \<Rightarrow> Some (ErrText ''evidence.metrics.best_ask must equal the input best ask'')
      | Some book \<Rightarrow>
          if ob_status book \<noteq> OrderBookStatusOK \<or> ob_asks book = [] \<or>
             \<not> dec_equal (the (map_of (ed_metrics ed) ''best_ask'')) (pv_price (hd (ob_asks book)))
          then Some (ErrText ''evidence.metrics.best_ask must equal the input best ask'') else None))"


section \<open>Audit data of an entry\<close>

definition unit_quote :: "decimal \<Rightarrow> decimal" where
  "unit_quote value0 =
     (let value = trim_space value0 in
      if dec_is_empty value then []
      else if compare_fails value ''0'' (\<lambda>c. c < 0) then []
      else if compare_fails value ''1'' (\<lambda>c. c > 0) then []
      else value)"

definition book_top_of_book :: "order_book \<Rightarrow> decimal \<times> decimal" where
  "book_top_of_book book =
     (if ob_status book = OrderBookStatusMissing \<or> ob_status book = OrderBookStatusError then ([], [])
      else
        (let bid = (if dec_is_empty (ob_best_bid book) \<and> ob_bids book \<noteq> [] then pv_price (hd (ob_bids book)) else ob_best_bid book);
             ask = (if dec_is_empty (ob_best_ask book) \<and> ob_asks book \<noteq> [] then pv_price (hd (ob_asks book)) else ob_best_ask book) in
         (unit_quote bid, unit_quote ask)))"

text \<open>The loop of \<open>buyDecisionQuotes\<close> keeps the last matching outcome of each side.\<close>

definition last_outcome :: "(prediction_outcome \<Rightarrow> bool) \<Rightarrow> prediction_outcome list \<Rightarrow> prediction_outcome option" where
  "last_outcome matches os = (case filter matches os of [] \<Rightarrow> None | ms \<Rightarrow> Some (last ms))"

definition outcome_side :: "prediction \<Rightarrow> string \<Rightarrow> int \<Rightarrow> prediction_outcome option" where
  "outcome_side p label index =
     last_outcome (\<lambda>o1. if market_source_normalize (pr_market_source p) = MarketSourceKalshi
                        then to_upper (trim_space (po_outcome_id o1)) = label else po_index o1 = index) (pr_outcomes p)"

definition buy_decision_quotes :: "(float64 \<Rightarrow> string) \<Rightarrow> order_book list \<Rightarrow> prediction \<Rightarrow> order_decision_quotes" where
  "buy_decision_quotes format_float books p =
     (let top = (\<lambda>o1. case o1 of None \<Rightarrow> ([], [])
                       | Some x \<Rightarrow> (case strategy_book books (po_token_id x) of None \<Rightarrow> ([], []) | Some book \<Rightarrow> book_top_of_book book));
          yes = outcome_side p ''YES'' 0; no = outcome_side p ''NO'' 1 in
      \<lparr>dq_yes_bid = fst (top yes), dq_yes_ask = snd (top yes), dq_no_bid = fst (top no), dq_no_ask = snd (top no),
       dq_yes_probability = (case yes of None \<Rightarrow> [] | Some x \<Rightarrow> unit_quote (format_float (po_probability x)))\<rparr>)"

definition buy_decision_meta :: "prediction \<Rightarrow> order_decision_meta option" where
  "buy_decision_meta p =
     (let meta = \<lparr>dm_market_end_at = (case pr_end_at p of Some t \<Rightarrow> if is_zero_time t then None else Some t | None \<Rightarrow> None),
                  dm_domains = filter (\<lambda>n. n \<noteq> []) (map trim_space (case pr_domains p of None \<Rightarrow> [] | Some ds \<Rightarrow> ds))\<rparr> in
      if decision_meta_is_empty meta then None else Some meta)"


section \<open>Intents\<close>

definition entry_metadata ::
    "(float64 \<Rightarrow> string) \<Rightarrow> strategy_request \<Rightarrow> strategy_evaluation \<Rightarrow> prediction \<Rightarrow> order_book \<Rightarrow> strategy_order_params \<Rightarrow> decimal \<Rightarrow> metadata" where
  "entry_metadata format_float rq ev p book x rounded =
     (let tif = venue_time_in_force (so_time_in_force x) SideBuy (pr_market_source p) in
      [(''cycle_id'', rq_cycle_id rq), (''input_id'', rq_input_id rq), (''prediction_id'', ev_prediction_id ev),
       (''strategy_decision_id'', ev_decision_id ev), (''strategy_reason_code'', ev_reason_code ev),
       (''strategy_reference_price'', pv_price (hd (ob_asks book))), (''strategy_worst_price'', so_worst_price x),
       (''predicted_probability'', format_float (ed_probability (ev_evidence ev))), (''market_question'', pr_question p),
       (''model_id'', cx_model_id (rq_context rq)), (''execution_account_id'', cx_execution_account_id (rq_context rq)),
       (''market_source'', market_source_normalize (pr_market_source p)),
       (''outcome_id'', po_outcome_id (pr_outcomes p ! nat (ev_outcome_index ev)))] @
      (if tif \<noteq> so_time_in_force x
       then [(''strategy_time_in_force'', so_time_in_force x), (''execution_time_in_force'', tif)] else []) @
      (if dec_is_empty (ed_edge (ev_evidence ev)) then [] else [(''strategy_edge'', ed_edge (ev_evidence ev))]) @
      (if dec_equal rounded (so_size x) then [] else [(''strategy_requested_size'', so_size x)]))"

definition entry_intent_params ::
    "(string \<Rightarrow> string) \<Rightarrow> (float64 \<Rightarrow> string) \<Rightarrow> strategy_request \<Rightarrow> gtime \<Rightarrow> strategy_evaluation \<Rightarrow> prediction \<Rightarrow> order_book \<Rightarrow>
     strategy_order_params \<Rightarrow> decimal \<Rightarrow> string \<Rightarrow> order_intent" where
  "entry_intent_params sha256_hex format_float rq signalAt ev p book x rounded intentVenue =
     (let outcome = pr_outcomes p ! nat (ev_outcome_index ev) in
      \<lparr>oi_model_id = cx_model_id (rq_context rq), oi_strategy_id = cx_strategy_id (rq_context rq),
       oi_execution_account_id = cx_execution_account_id (rq_context rq), oi_signal_id = ev_decision_id ev,
       oi_client_order_id = client_order_id sha256_hex (rq_cycle_id rq) (ev_decision_id ev), oi_venue = intentVenue,
       oi_market_source = pr_market_source p, oi_market_id = ev_market_id ev, oi_condition_id = ev_condition_id ev,
       oi_outcome_index = Some (ev_outcome_index ev), oi_outcome_name = po_name outcome, oi_outcome_id = po_outcome_id outcome,
       oi_token_id = ev_token_id ev, oi_target_lot_id = [], oi_expected_neg_risk = Some (pr_neg_risk p),
       oi_market_snapshot_at = Some (ob_source_at book), oi_signal_at = Some signalAt, oi_side = SideBuy, oi_type = so_type x,
       oi_price = (if so_type x = OrderTypeLimit then so_worst_price x else []), oi_worst_price = so_worst_price x, oi_size = rounded,
       oi_time_in_force = venue_time_in_force (so_time_in_force x) SideBuy (pr_market_source p), oi_expires_at = so_expires_at x,
       oi_metadata = entry_metadata format_float rq ev p book x rounded,
       oi_decision_quotes = Some (buy_decision_quotes format_float (rq_order_books rq) p), oi_decision_meta = buy_decision_meta p\<rparr>)"

definition build_entry_intent ::
    "(string \<Rightarrow> string) \<Rightarrow> (float64 \<Rightarrow> string) \<Rightarrow> strategy_request \<Rightarrow> gtime \<Rightarrow> strategy_evaluation \<Rightarrow> string \<Rightarrow> go_error + order_intent" where
  "build_entry_intent sha256_hex format_float rq signalAt ev venue =
     (case ev_order ev of
        None \<Rightarrow> Inl (ErrText ''SUBMIT requires order parameters'')
      | Some x \<Rightarrow>
      case context_validate (rq_context rq) of
        Some e \<Rightarrow> Inl e
      | None \<Rightarrow>
      case strategy_prediction (rq_predictions rq) (ev_prediction_id ev) of
        None \<Rightarrow> Inl (ErrText ''strategy prediction/outcome identity is missing'')
      | Some p \<Rightarrow>
      if ev_outcome_index ev < 0 \<or> ev_outcome_index ev \<ge> int (length (pr_outcomes p))
      then Inl (ErrText ''strategy prediction/outcome identity is missing'')
      else case strategy_book (rq_order_books rq) (ev_token_id ev) of
        None \<Rightarrow> Inl (ErrText ''SUBMIT requires an OK orderbook'')
      | Some book \<Rightarrow>
      if ob_status book \<noteq> OrderBookStatusOK then Inl (ErrText ''SUBMIT requires an OK orderbook'')
      else case validate_strategy_order_for_market x SideBuy book (rq_execution_constraints rq) (pr_market_source p) of
        Some e \<Rightarrow> Inl e
      | None \<Rightarrow>
      case round_buy_shares (so_size x) of
        Inl e \<Rightarrow> Inl (wrap_error ''round BUY order.size'' e)
      | Inr rounded \<Rightarrow>
      case market_source_venue (pr_market_source p) venue of
        Inl e \<Rightarrow> Inl e
      | Inr intentVenue \<Rightarrow> build_intent (entry_intent_params sha256_hex format_float rq signalAt ev p book x rounded intentVenue))"

definition exit_metadata :: "strategy_request \<Rightarrow> strategy_exit \<Rightarrow> strategy_position_lot \<Rightarrow> strategy_order_params \<Rightarrow> metadata" where
  "exit_metadata rq ex l x =
     (let tif = venue_time_in_force (so_time_in_force x) SideSell (lt_market_source l) in
      [(''cycle_id'', rq_cycle_id rq), (''input_id'', rq_input_id rq), (''strategy_decision_id'', ex_decision_id ex),
       (''strategy_reason_code'', ex_reason_code ex), (''strategy_worst_price'', so_worst_price x), (''target_lot_id'', lt_lot_id l),
       (''model_id'', cx_model_id (rq_context rq)), (''execution_account_id'', cx_execution_account_id (rq_context rq))] @
      (case strategy_book (rq_order_books rq) (lt_token_id l) of
         None \<Rightarrow> []
       | Some book \<Rightarrow> if ob_status book = OrderBookStatusOK \<and> ob_bids book \<noteq> []
                       then [(''strategy_reference_price'', pv_price (hd (ob_bids book)))] else []) @
      (if tif \<noteq> so_time_in_force x
       then [(''strategy_time_in_force'', so_time_in_force x), (''execution_time_in_force'', tif)] else []))"

definition exit_snapshot_at :: "strategy_request \<Rightarrow> strategy_position_lot \<Rightarrow> gtime" where
  "exit_snapshot_at rq l =
     (case strategy_book (rq_order_books rq) (lt_token_id l) of
        None \<Rightarrow> rq_decision_at rq
      | Some book \<Rightarrow> if ob_status book = OrderBookStatusOK \<and> \<not> is_zero_time (ob_source_at book) then ob_source_at book else rq_decision_at rq)"

definition exit_intent_params ::
    "(string \<Rightarrow> string) \<Rightarrow> strategy_request \<Rightarrow> gtime \<Rightarrow> strategy_exit \<Rightarrow> strategy_position_lot \<Rightarrow> strategy_order_params \<Rightarrow> string \<Rightarrow> string \<Rightarrow> order_intent" where
  "exit_intent_params sha256_hex rq signalAt ex l x outcomeID intentVenue =
     \<lparr>oi_model_id = cx_model_id (rq_context rq), oi_strategy_id = cx_strategy_id (rq_context rq),
      oi_execution_account_id = cx_execution_account_id (rq_context rq), oi_signal_id = ex_decision_id ex,
      oi_client_order_id = client_order_id sha256_hex (rq_cycle_id rq) (ex_decision_id ex), oi_venue = intentVenue,
      oi_market_source = lt_market_source l, oi_market_id = lt_market_id l, oi_condition_id = lt_condition_id l,
      oi_outcome_index = Some (lt_outcome_index l), oi_outcome_name = lt_outcome_name l, oi_outcome_id = outcomeID,
      oi_token_id = lt_token_id l, oi_target_lot_id = lt_lot_id l, oi_expected_neg_risk = Some (lt_neg_risk l),
      oi_market_snapshot_at = Some (exit_snapshot_at rq l), oi_signal_at = Some signalAt, oi_side = SideSell, oi_type = so_type x,
      oi_price = so_worst_price x, oi_worst_price = so_worst_price x, oi_size = so_size x,
      oi_time_in_force = venue_time_in_force (so_time_in_force x) SideSell (lt_market_source l), oi_expires_at = so_expires_at x,
      oi_metadata = exit_metadata rq ex l x, oi_decision_quotes = None, oi_decision_meta = None\<rparr>"

definition build_exit_intent ::
    "(string \<Rightarrow> string) \<Rightarrow> strategy_request \<Rightarrow> gtime \<Rightarrow> strategy_exit \<Rightarrow> string \<Rightarrow> go_error + order_intent" where
  "build_exit_intent sha256_hex rq signalAt ex venue =
     (if ex_reason_code ex = [] then Inl (ErrText ''exit requires reason_code'')
      else case strategy_lot (rq_positions rq) (ex_lot_id ex) of
        None \<Rightarrow> Inl (ErrText ''exit lot/token does not belong to the decision input'')
      | Some l \<Rightarrow>
      if lt_token_id l \<noteq> ex_token_id ex then Inl (ErrText ''exit lot/token does not belong to the decision input'')
      else case ex_order ex of
        None \<Rightarrow> Inl (ErrText ''exit requires order parameters'')
      | Some x \<Rightarrow>
      case validate_strategy_exit_order x (rq_execution_constraints rq) of
        Some e \<Rightarrow> Inl e
      | None \<Rightarrow>
      if compare_fails (so_size x) (lt_shares l) (\<lambda>c. c > 0)
      then Inl (ErrText ''exit size must not exceed the selected lot's remaining shares'')
      else case execution_outcome_id (lt_market_source l) (lt_condition_id l) (lt_token_id l) of
        Inl e \<Rightarrow> Inl e
      | Inr outcomeID \<Rightarrow>
      case market_source_venue (lt_market_source l) venue of
        Inl e \<Rightarrow> Inl e
      | Inr intentVenue \<Rightarrow> build_intent (exit_intent_params sha256_hex rq signalAt ex l x outcomeID intentVenue))"


section \<open>Validating a response\<close>

definition ErrInvalidStrategy :: go_error where "ErrInvalidStrategy = ErrText ''strategy response is invalid''"

definition invalid_strategy :: "string \<Rightarrow> go_error" where
  "invalid_strategy text1 = ErrWrap (error_text ErrInvalidStrategy @ '': '' @ text1) [ErrInvalidStrategy]"

text \<open>The map \<open>expected\<close>: a later prediction with the same key replaces an earlier one.\<close>

definition expected_evaluations :: "prediction list \<Rightarrow> (string \<times> prediction \<times> prediction_outcome) list" where
  "expected_evaluations predictions =
     fold (\<lambda>(p, o1) expected. AList.update (evaluation_key (pr_prediction_id p) (po_token_id o1)) (p, o1) expected)
       (concat (map (\<lambda>p. map (Pair p) (pr_outcomes p)) predictions)) []"

definition check_entry_policy :: "bool \<Rightarrow> string \<Rightarrow> strategy_response \<Rightarrow> err" where
  "check_entry_policy allowEntries expectedBlockReason rs =
     (if allowEntries then
        (if expectedBlockReason \<noteq> [] \<or> rs_entry_policy rs \<noteq> None
         then Some (invalid_strategy ''healthy Trading entry policy must be absent'') else None)
      else if expectedBlockReason = [] \<or>
              (case rs_entry_policy rs of None \<Rightarrow> True | Some ep \<Rightarrow> ep_enabled ep \<or> ep_block_reason ep \<noteq> expectedBlockReason)
      then Some (invalid_strategy ''blocked Trading entry policy mismatch'') else None)"

definition check_response_identity :: "strategy_request \<Rightarrow> strategy_response \<Rightarrow> err" where
  "check_response_identity rq rs =
     (if rs_schema_version rs \<noteq> StrategyOutputSchemaVersion \<or> rs_cycle_id rs \<noteq> rq_cycle_id rq \<or> rs_input_id rs \<noteq> rq_input_id rq \<or>
         \<not> context_equal (rs_context rs) (rq_context rq)
      then Some (invalid_strategy ''schema, cycle, input, or execution context mismatch'')
      else if is_zero_time (rs_decided_at rs) \<or> rs_decided_at rs < rq_decision_at rq
      then Some (invalid_strategy ''decided_at is invalid'') else None)"

definition probability_tolerance :: float64 where "probability_tolerance = f64_round 1 1000000000000"

definition probability_mismatch :: "float64 \<Rightarrow> float64 \<Rightarrow> bool" where
  "probability_mismatch p q \<longleftrightarrow> f64_is_nan_or_inf p \<or> f64_less probability_tolerance (f64_abs (f64_sub p q))"

text \<open>The decision ids seen so far: among the evaluations, and among those that may act.\<close>

record seen_evaluations =
  se_keys :: "string list"
  se_evaluation_decisions :: "string list"
  se_decisions :: "string list"

definition acts :: "bool \<Rightarrow> strategy_evaluation \<Rightarrow> bool" where
  "acts allowEntries ev \<longleftrightarrow> ev_action ev \<noteq> StrategyActionSubmit \<or> allowEntries"

definition see :: "bool \<Rightarrow> strategy_evaluation \<Rightarrow> seen_evaluations \<Rightarrow> seen_evaluations" where
  "see allowEntries ev seen =
     \<lparr>se_keys = evaluation_key (ev_prediction_id ev) (ev_token_id ev) # se_keys seen,
      se_evaluation_decisions = ev_decision_id ev # se_evaluation_decisions seen,
      se_decisions = (if acts allowEntries ev then ev_decision_id ev # se_decisions seen else se_decisions seen)\<rparr>"

text \<open>The identity part of the loop body, after \<open>DecisionID\<close> and \<open>ReasonCode\<close> have been trimmed.\<close>

definition trim_evaluation :: "strategy_evaluation \<Rightarrow> strategy_evaluation" where
  "trim_evaluation ev = ev\<lparr>ev_decision_id := trim_space (ev_decision_id ev), ev_reason_code := trim_space (ev_reason_code ev)\<rparr>"

definition check_evaluation_identity ::
    "(string \<times> prediction \<times> prediction_outcome) list \<Rightarrow> bool \<Rightarrow> nat \<Rightarrow> seen_evaluations \<Rightarrow> strategy_evaluation \<Rightarrow> go_error + prediction_outcome" where
  "check_evaluation_identity expected allowEntries index seen ev =
     (let key = evaluation_key (ev_prediction_id ev) (ev_token_id ev) in
      case map_of expected key of
        None \<Rightarrow> Inl (invalid_strategy (''evaluation '' @ show_nat index @ '' does not belong to the decision input''))
      | Some (p, o1) \<Rightarrow>
          if ev_market_id ev \<noteq> pr_market_id p \<or> ev_condition_id ev \<noteq> pr_condition_id p \<or> ev_outcome_index ev \<noteq> po_index o1
          then Inl (invalid_strategy (''evaluation '' @ show_nat index @ '' does not belong to the decision input''))
          else if key \<in> set (se_keys seen) then Inl (invalid_strategy ''duplicate evaluation for prediction/token'')
          else if ev_decision_id ev = [] \<or> ev_reason_code ev = []
          then Inl (invalid_strategy (''evaluation '' @ show_nat index @ '' requires decision_id and reason_code''))
          else if ev_decision_id ev \<in> set (se_evaluation_decisions seen) \<or> acts allowEntries ev \<and> ev_decision_id ev \<in> set (se_decisions seen)
          then Inl (invalid_strategy (''duplicate decision_id '' @ quoted (ev_decision_id ev)))
          else Inr o1)"

text \<open>The action part: \<open>None\<close> for an evaluation that proposes nothing, or nothing that is allowed.\<close>

definition check_evaluation_action ::
    "(string \<Rightarrow> string) \<Rightarrow> (float64 \<Rightarrow> string) \<Rightarrow> strategy_request \<Rightarrow> gtime \<Rightarrow> string \<Rightarrow> bool \<Rightarrow> nat \<Rightarrow> strategy_evaluation \<Rightarrow>
     go_error + order_intent option" where
  "check_evaluation_action sha256_hex format_float rq decidedAt venue allowEntries index ev =
     (let pre = ''evaluation '' @ show_nat index; requiredReason = input_failure_reason rq (ev_token_id ev) in
      if ev_action ev = StrategyActionSkip then
        (if ev_order ev \<noteq> None then Inl (invalid_strategy (''SKIP '' @ pre @ '' must not contain order parameters''))
         else if \<not> valid_skip_reason (ev_reason_code ev)
         then Inl (invalid_strategy (pre @ '' has unsupported SKIP reason_code '' @ quoted (ev_reason_code ev)))
         else if requiredReason \<noteq> [] \<and> ev_reason_code ev \<noteq> requiredReason
         then Inl (invalid_strategy (pre @ '' must map input status to '' @ requiredReason))
         else Inr None)
      else if ev_action ev = StrategyActionSubmit then
        (if \<not> allowEntries then Inr None
         else if requiredReason \<noteq> [] then Inl (invalid_strategy (pre @ '' cannot SUBMIT with '' @ requiredReason @ '' input''))
         else if ev_reason_code ev \<noteq> StrategyReasonEntrySignal
         then Inl (invalid_strategy (pre @ '' SUBMIT reason_code must be ENTRY_SIGNAL''))
         else case build_entry_intent sha256_hex format_float rq decidedAt ev venue of
           Inl e \<Rightarrow> Inl (invalid_strategy (pre @ '': '' @ error_text e))
         | Inr i \<Rightarrow> Inr (Some i))
      else Inl (invalid_strategy (pre @ '' has unsupported action '' @ quoted (ev_action ev))))"

definition check_evaluation ::
    "(string \<Rightarrow> string) \<Rightarrow> (float64 \<Rightarrow> string) \<Rightarrow> strategy_request \<Rightarrow> gtime \<Rightarrow> string \<Rightarrow> bool \<Rightarrow>
     (string \<times> prediction \<times> prediction_outcome) list \<Rightarrow> nat \<Rightarrow> seen_evaluations \<Rightarrow> strategy_evaluation \<Rightarrow> go_error + order_intent option" where
  "check_evaluation sha256_hex format_float rq decidedAt venue allowEntries expected index seen ev =
     (case check_evaluation_identity expected allowEntries index seen ev of
        Inl e \<Rightarrow> Inl e
      | Inr o1 \<Rightarrow>
      if probability_mismatch (ed_probability (ev_evidence ev)) (po_probability o1)
      then Inl (invalid_strategy (''evaluation '' @ show_nat index @ '' probability does not match the input''))
      else case validate_evidence_metrics (ev_evidence ev) rq (ev_token_id ev) (ev_action ev = StrategyActionSubmit \<and> allowEntries) of
        Some e \<Rightarrow> Inl (invalid_strategy (''evaluation '' @ show_nat index @ '': '' @ error_text e))
      | None \<Rightarrow> check_evaluation_action sha256_hex format_float rq decidedAt venue allowEntries index ev)"

definition option_list :: "'a option \<Rightarrow> 'a list" where
  "option_list x = (case x of None \<Rightarrow> [] | Some y \<Rightarrow> [y])"

fun evaluation_loop ::
    "(string \<Rightarrow> string) \<Rightarrow> (float64 \<Rightarrow> string) \<Rightarrow> strategy_request \<Rightarrow> gtime \<Rightarrow> string \<Rightarrow> bool \<Rightarrow>
     (string \<times> prediction \<times> prediction_outcome) list \<Rightarrow> nat \<Rightarrow> seen_evaluations \<Rightarrow> order_intent list \<Rightarrow> strategy_evaluation list \<Rightarrow>
     go_error + seen_evaluations \<times> order_intent list" where
  "evaluation_loop sha256_hex format_float rq decidedAt venue allowEntries expected index seen intents [] = Inr (seen, intents)"
| "evaluation_loop sha256_hex format_float rq decidedAt venue allowEntries expected index seen intents (ev0 # evs) =
     (let ev = trim_evaluation ev0 in
      case check_evaluation sha256_hex format_float rq decidedAt venue allowEntries expected index seen ev of
        Inl e \<Rightarrow> Inl e
      | Inr i \<Rightarrow> evaluation_loop sha256_hex format_float rq decidedAt venue allowEntries expected (Suc index) (see allowEntries ev seen)
                   (intents @ option_list i) evs)"

definition trim_exit :: "strategy_exit \<Rightarrow> strategy_exit" where
  "trim_exit ex = ex\<lparr>ex_decision_id := trim_space (ex_decision_id ex), ex_lot_id := trim_space (ex_lot_id ex),
     ex_token_id := trim_space (ex_token_id ex), ex_reason_code := trim_space (ex_reason_code ex)\<rparr>"

fun exit_loop ::
    "(string \<Rightarrow> string) \<Rightarrow> strategy_request \<Rightarrow> gtime \<Rightarrow> string \<Rightarrow> nat \<Rightarrow> string list \<Rightarrow> string list \<Rightarrow> order_intent list \<Rightarrow> strategy_exit list \<Rightarrow>
     go_error + order_intent list" where
  "exit_loop sha256_hex rq decidedAt venue index seenDecisions seenExits intents [] = Inr intents"
| "exit_loop sha256_hex rq decidedAt venue index seenDecisions seenExits intents (ex0 # exs) =
     (let ex = trim_exit ex0 in
      if ex_decision_id ex = [] \<or> ex_lot_id ex = [] \<or> ex_token_id ex = []
      then Inl (invalid_strategy (''exit '' @ show_nat index @ '' requires decision_id, lot_id, and token_id''))
      else if ex_decision_id ex \<in> set seenDecisions then Inl (invalid_strategy (''duplicate decision_id '' @ quoted (ex_decision_id ex)))
      else if ex_lot_id ex \<in> set seenExits then Inl (invalid_strategy (''duplicate exit for lot '' @ quoted (ex_lot_id ex)))
      else case build_exit_intent sha256_hex rq decidedAt ex venue of
        Inl e \<Rightarrow> Inl (invalid_strategy (''exit '' @ show_nat index @ '': '' @ error_text e))
      | Inr i \<Rightarrow> exit_loop sha256_hex rq decidedAt venue (Suc index) (ex_decision_id ex # seenDecisions) (ex_lot_id ex # seenExits)
                   (intents @ [i]) exs)"

definition validate_response_with_entry_policy ::
    "(string \<Rightarrow> string) \<Rightarrow> (float64 \<Rightarrow> string) \<Rightarrow> strategy_request \<Rightarrow> strategy_response \<Rightarrow> string \<Rightarrow> bool \<Rightarrow> string \<Rightarrow> go_error + order_intent list" where
  "validate_response_with_entry_policy sha256_hex format_float rq rs venue allowEntries expectedBlockReason =
     (case context_validate (rq_context rq) of
        Some e \<Rightarrow> Inl (invalid_strategy (''request execution context: '' @ error_text e))
      | None \<Rightarrow>
      case check_entry_policy allowEntries expectedBlockReason rs of
        Some e \<Rightarrow> Inl e
      | None \<Rightarrow>
      case check_response_identity rq rs of
        Some e \<Rightarrow> Inl e
      | None \<Rightarrow>
      let expected = expected_evaluations (rq_predictions rq) in
      if length (rs_evaluations rs) \<noteq> length expected
      then Inl (invalid_strategy (''expected '' @ show_nat (length expected) @ '' evaluations, got '' @ show_nat (length (rs_evaluations rs))))
      else case evaluation_loop sha256_hex format_float rq (rs_decided_at rs) venue allowEntries expected 0
                  \<lparr>se_keys = [], se_evaluation_decisions = [], se_decisions = []\<rparr> [] (rs_evaluations rs) of
        Inl e \<Rightarrow> Inl e
      | Inr (seen, intents) \<Rightarrow> exit_loop sha256_hex rq (rs_decided_at rs) venue 0 (se_decisions seen) [] intents (rs_exits rs))"

definition validate_response ::
    "(string \<Rightarrow> string) \<Rightarrow> (float64 \<Rightarrow> string) \<Rightarrow> strategy_request \<Rightarrow> strategy_response \<Rightarrow> string \<Rightarrow> go_error + order_intent list" where
  "validate_response sha256_hex format_float rq rs venue =
     validate_response_with_entry_policy sha256_hex format_float rq rs venue True []"


section \<open>What an accepted response contains\<close>

text \<open>
  An entry: a BUY limit order, immediate or cancelled, for a market outcome of the request, whose order book was OK, and
  within the constraints of the request.
\<close>

definition entry_of :: "strategy_request \<Rightarrow> strategy_response \<Rightarrow> order_intent \<Rightarrow> bool" where
  "entry_of rq rs i \<longleftrightarrow>
     oi_side i = SideBuy \<and> oi_type i = OrderTypeLimit \<and> oi_time_in_force i = TimeInForceIOC \<and> oi_expires_at i = None \<and>
     oi_target_lot_id i = [] \<and>
     (\<exists>ev \<in> set (rs_evaluations rs). oi_signal_id i = trim_space (ev_decision_id ev) \<and> oi_token_id i = trim_space (ev_token_id ev) \<and>
        (\<exists>book \<in> set (rq_order_books rq). ob_token_id book = ev_token_id ev \<and> ob_status book = OrderBookStatusOK \<and>
          (\<exists>n. dec_value (oi_size i) = of_int n \<and>
             buy_within_constraints book (rq_execution_constraints rq) (dec_value (oi_price i)) n)))"

text \<open>An exit: a SELL limit order for at most the shares of one lot of the request, at a price in (0, 1].\<close>

definition exit_of :: "strategy_request \<Rightarrow> strategy_response \<Rightarrow> order_intent \<Rightarrow> bool" where
  "exit_of rq rs i \<longleftrightarrow>
     oi_side i = SideSell \<and> oi_type i = OrderTypeLimit \<and> oi_time_in_force i \<in> {TimeInForceIOC, TimeInForceFOK} \<and>
     (\<exists>ex \<in> set (rs_exits rs). oi_signal_id i = trim_space (ex_decision_id ex) \<and> oi_target_lot_id i = trim_space (ex_lot_id ex)) \<and>
     (\<exists>l \<in> set (rq_positions rq). oi_target_lot_id i = lt_lot_id l \<and> oi_token_id i = lt_token_id l \<and>
        dec_value (oi_size i) \<le> dec_value (lt_shares l)) \<and>
     0 < dec_value (oi_size i) \<and> 0 < dec_value (oi_price i) \<and> dec_value (oi_price i) \<le> 1"


lemma dec_value_trim [simp]: "dec_value (trim_space d) = dec_value d"
  by (simp add: dec_value_def)

lemma build_intentD: "build_intent params = Inr i \<Longrightarrow> i = intent_normalize params \<and> intent_validate i = None"
  by (auto simp: build_intent_def Let_def split: option.splits)

lemma constants_normal [simp]:
  "to_upper (trim_space SideBuy) = SideBuy" "to_upper (trim_space SideSell) = SideSell"
  "to_upper (trim_space OrderTypeLimit) = OrderTypeLimit" "to_upper (trim_space TimeInForceIOC) = TimeInForceIOC"
  "to_upper (trim_space TimeInForceFOK) = TimeInForceFOK"
  by code_simp+

lemma buy_time_in_force [simp]: "venue_time_in_force tif SideBuy source = TimeInForceIOC"
  by (simp add: venue_time_in_force_def)

lemma strategy_book_in: "strategy_book books token = Some book \<Longrightarrow> book \<in> set books \<and> ob_token_id book = token"
  by (auto simp: strategy_book_def find_Some_iff)

lemma strategy_lot_in: "strategy_lot lots ident = Some l \<Longrightarrow> l \<in> set lots \<and> lt_lot_id l = ident"
  by (auto simp: strategy_lot_def find_Some_iff)

lemma build_entry_intent_cases:
  assumes "build_entry_intent sha fmt rq t ev venue = Inr i"
  obtains x p book rounded v where
    "strategy_book (rq_order_books rq) (ev_token_id ev) = Some book" "ob_status book = OrderBookStatusOK"
    "validate_strategy_order_for_market x SideBuy book (rq_execution_constraints rq) (pr_market_source p) = None"
    "round_buy_shares (so_size x) = Inr rounded" "build_intent (entry_intent_params sha fmt rq t ev p book x rounded v) = Inr i"
  using assms by (auto simp: build_entry_intent_def split: option.splits if_splits sum.splits)

lemma build_entry_intent_entry:
  assumes "build_entry_intent sha fmt rq t (trim_evaluation ev) venue = Inr i" "ev \<in> set (rs_evaluations rs)"
  shows "entry_of rq rs i" "intent_validate i = None" "oi_signal_id i = trim_space (ev_decision_id ev)"
proof -
  let ?ev = "trim_evaluation ev"
  from assms(1) obtain x p book rounded v where
    b: "strategy_book (rq_order_books rq) (ev_token_id ?ev) = Some book" "ob_status book = OrderBookStatusOK"
    and ok: "validate_strategy_order_for_market x SideBuy book (rq_execution_constraints rq) (pr_market_source p) = None"
    and r: "round_buy_shares (so_size x) = Inr rounded" and i: "build_intent (entry_intent_params sha fmt rq t ?ev p book x rounded v) = Inr i"
    by (rule build_entry_intent_cases)
  obtain n where n: "rounded = show_int n" "so_type x = OrderTypeLimit" "so_expires_at x = None"
    "buy_within_constraints book (rq_execution_constraints rq) (dec_value (so_worst_price x)) n"
    using strategy_buy_accepted [OF ok] r by (metis Inr_inject)
  note i' = build_intentD [OF i]
  show "intent_validate i = None" using i' by blast
  show s: "oi_signal_id i = trim_space (ev_decision_id ev)"
    using i' by (simp add: intent_normalize_def entry_intent_params_def trim_evaluation_def Let_def)
  have "oi_token_id i = trim_space (ev_token_id ev)" "dec_value (oi_size i) = of_int n" "dec_value (oi_price i) = dec_value (so_worst_price x)"
    "oi_side i = SideBuy" "oi_type i = OrderTypeLimit" "oi_time_in_force i = TimeInForceIOC" "oi_expires_at i = None" "oi_target_lot_id i = []"
    using i' n by (simp_all add: intent_normalize_def entry_intent_params_def trim_evaluation_def Let_def)
  moreover have "ev_token_id ?ev = ev_token_id ev" by (simp add: trim_evaluation_def)
  ultimately show "entry_of rq rs i"
    unfolding entry_of_def using s n(4) assms(2) strategy_book_in [OF b(1)] b(2) by auto
qed

lemma build_exit_intent_cases:
  assumes "build_exit_intent sha rq t ex venue = Inr i"
  obtains l x oid v where
    "strategy_lot (rq_positions rq) (ex_lot_id ex) = Some l" "lt_token_id l = ex_token_id ex"
    "validate_strategy_exit_order x (rq_execution_constraints rq) = None" "\<not> compare_fails (so_size x) (lt_shares l) (\<lambda>c. c > 0)"
    "build_intent (exit_intent_params sha rq t ex l x oid v) = Inr i"
  using assms by (auto simp: build_exit_intent_def split: option.splits if_splits sum.splits)

lemma exit_order_accepted:
  assumes "validate_strategy_exit_order x c = None"
  shows "so_type x = OrderTypeLimit" "so_time_in_force x \<in> {TimeInForceIOC, TimeInForceFOK}" "0 < dec_value (so_size x)"
    "0 < dec_value (so_worst_price x)" "dec_value (so_worst_price x) \<le> 1"
  using assms compare_fails_value [of "so_worst_price x" "''1''"]
  by (auto simp: validate_strategy_exit_order_def check_order_form_def not_positive_value split: option.splits if_splits)

lemma build_exit_intent_exit:
  assumes "build_exit_intent sha rq t (trim_exit ex) venue = Inr i" "ex \<in> set (rs_exits rs)"
  shows "exit_of rq rs i" "intent_validate i = None" "oi_signal_id i = trim_space (ex_decision_id ex)" "oi_target_lot_id i = trim_space (ex_lot_id ex)"
proof -
  let ?ex = "trim_exit ex"
  from assms(1) obtain l x oid v where
    l: "strategy_lot (rq_positions rq) (ex_lot_id ?ex) = Some l" "lt_token_id l = ex_token_id ?ex"
    and ok: "validate_strategy_exit_order x (rq_execution_constraints rq) = None"
    and le: "\<not> compare_fails (so_size x) (lt_shares l) (\<lambda>c. c > 0)"
    and i: "build_intent (exit_intent_params sha rq t ?ex l x oid v) = Inr i"
    by (rule build_exit_intent_cases)
  note i' = build_intentD [OF i] and l' = strategy_lot_in [OF l(1)]
  show "intent_validate i = None" using i' by blast
  show s: "oi_signal_id i = trim_space (ex_decision_id ex)" "oi_target_lot_id i = trim_space (ex_lot_id ex)"
    using i' l' by (simp_all add: intent_normalize_def exit_intent_params_def trim_exit_def)
  have "oi_token_id i = lt_token_id l" "oi_target_lot_id i = lt_lot_id l" "dec_value (oi_size i) = dec_value (so_size x)"
    "dec_value (oi_price i) = dec_value (so_worst_price x)" "oi_side i = SideSell" "oi_type i = OrderTypeLimit"
    using i' l' l(2) exit_order_accepted(1) [OF ok] by (simp_all add: intent_normalize_def exit_intent_params_def trim_exit_def)
  moreover have "oi_time_in_force i \<in> {TimeInForceIOC, TimeInForceFOK}"
    using i' exit_order_accepted(2) [OF ok] by (auto simp: intent_normalize_def exit_intent_params_def venue_time_in_force_def)
  moreover have "\<exists>l \<in> set (rq_positions rq). oi_target_lot_id i = lt_lot_id l \<and> oi_token_id i = lt_token_id l \<and>
      dec_value (oi_size i) \<le> dec_value (lt_shares l)"
    using l' calculation(1-3) compare_fails_value [OF le] by (intro bexI [of _ l]) simp_all
  ultimately show "exit_of rq rs i"
    unfolding exit_of_def using s assms(2) exit_order_accepted [OF ok] by auto
qed


text \<open>An intent of an accepted response.\<close>

definition accepted_intent :: "strategy_request \<Rightarrow> strategy_response \<Rightarrow> bool \<Rightarrow> order_intent \<Rightarrow> bool" where
  "accepted_intent rq rs allowEntries i \<longleftrightarrow>
     intent_validate i = None \<and> (allowEntries \<and> entry_of rq rs i \<or> exit_of rq rs i)"

text \<open>What the loops keep: every intent is accepted and carries a decision id of its own that has been seen.\<close>

definition collected :: "strategy_request \<Rightarrow> strategy_response \<Rightarrow> bool \<Rightarrow> string list \<Rightarrow> order_intent list \<Rightarrow> bool" where
  "collected rq rs allowEntries decisions intents \<longleftrightarrow>
     list_all (accepted_intent rq rs allowEntries) intents \<and> distinct (map oi_signal_id intents) \<and>
     oi_signal_id ` set intents \<subseteq> set decisions"

lemma collected_add:
  assumes "collected rq rs allowEntries decisions intents" "accepted_intent rq rs allowEntries i" "oi_signal_id i \<notin> set decisions"
  shows "collected rq rs allowEntries (oi_signal_id i # decisions) (intents @ [i])"
  using assms by (auto simp: collected_def)

lemma collected_mono: "collected rq rs a ds intents \<Longrightarrow> set ds \<subseteq> set ds' \<Longrightarrow> collected rq rs a ds' intents"
  by (auto simp: collected_def)

lemma check_evaluation_identity_new:
  "check_evaluation_identity expected allow n seen ev = Inr o1 \<Longrightarrow> acts allow ev \<Longrightarrow> ev_decision_id ev \<notin> set (se_decisions seen)"
  by (auto simp: check_evaluation_identity_def Let_def split: option.splits if_splits prod.splits)

lemma check_evaluation_action_intent:
  assumes "check_evaluation_action sha fmt rq t venue allow n ev = Inr (Some i)"
  shows "allow \<and> ev_action ev = StrategyActionSubmit \<and> build_entry_intent sha fmt rq t ev venue = Inr i"
  using assms by (auto simp: check_evaluation_action_def Let_def split: if_splits sum.splits)

lemma check_evaluation_new:
  assumes "check_evaluation sha fmt rq t venue allow expected n seen (trim_evaluation ev) = Inr (Some i)" "ev \<in> set (rs_evaluations rs)"
  shows "accepted_intent rq rs allow i \<and> acts allow (trim_evaluation ev) \<and> oi_signal_id i = ev_decision_id (trim_evaluation ev) \<and>
    oi_signal_id i \<notin> set (se_decisions seen) \<and> oi_side i = SideBuy"
proof -
  obtain o1 where o1: "check_evaluation_identity expected allow n seen (trim_evaluation ev) = Inr o1"
    and a: "check_evaluation_action sha fmt rq t venue allow n (trim_evaluation ev) = Inr (Some i)"
    using assms(1) by (auto simp: check_evaluation_def split: sum.splits if_splits option.splits)
  from check_evaluation_action_intent [OF a] have allow: "allow" and b: "build_entry_intent sha fmt rq t (trim_evaluation ev) venue = Inr i"
    by simp_all
  note e = build_entry_intent_entry [OF b assms(2)]
  have "ev_decision_id (trim_evaluation ev) = trim_space (ev_decision_id ev)" by (simp add: trim_evaluation_def)
  moreover have "oi_side i = SideBuy" using e(1) by (simp add: entry_of_def)
  ultimately show ?thesis
    using e allow check_evaluation_identity_new [OF o1] by (simp add: accepted_intent_def acts_def)
qed

lemma evaluation_loop_collected:
  assumes "evaluation_loop sha fmt rq t venue allow expected n seen intents evs = Inr (seen', intents')"
    and "collected rq rs allow (se_decisions seen) intents" "set evs \<subseteq> set (rs_evaluations rs)" "\<forall>i \<in> set intents. oi_side i = SideBuy"
  shows "collected rq rs allow (se_decisions seen') intents' \<and> (\<forall>i \<in> set intents'. oi_side i = SideBuy)"
  using assms
proof (induction evs arbitrary: n seen intents)
  case Nil
  then show ?case by simp
next
  case (Cons ev evs)
  let ?ev = "trim_evaluation ev"
  obtain r where r: "check_evaluation sha fmt rq t venue allow expected n seen ?ev = Inr r"
    and rest: "evaluation_loop sha fmt rq t venue allow expected (Suc n) (see allow ?ev seen) (intents @ option_list r) evs = Inr (seen', intents')"
    using Cons.prems(1) by (auto simp: Let_def split: sum.splits)
  have "collected rq rs allow (se_decisions (see allow ?ev seen)) (intents @ option_list r) \<and> (\<forall>i \<in> set (intents @ option_list r). oi_side i = SideBuy)"
  proof (cases r)
    case None
    have "set (se_decisions seen) \<subseteq> set (se_decisions (see allow ?ev seen))" by (auto simp: see_def)
    then show ?thesis using None Cons.prems(4) collected_mono [OF Cons.prems(2)] by (simp add: option_list_def)
  next
    case (Some i)
    have ev: "ev \<in> set (rs_evaluations rs)" using Cons.prems(3) by simp
    note new = check_evaluation_new [OF r [unfolded Some] ev]
    have "collected rq rs allow (oi_signal_id i # se_decisions seen) (intents @ [i])"
      using new collected_add [OF Cons.prems(2)] by blast
    then show ?thesis using new Some Cons.prems(4) by (simp add: option_list_def see_def)
  qed
  then show ?case using Cons.IH [OF rest] Cons.prems(3) by simp
qed

abbreviation sell_lots :: "order_intent list \<Rightarrow> string list" where
  "sell_lots intents \<equiv> map oi_target_lot_id (filter (\<lambda>i. oi_side i = SideSell) intents)"

lemma exit_loop_collected:
  assumes "exit_loop sha rq t venue n decisions lots intents exs = Inr intents'"
    and "collected rq rs allow decisions intents" "set exs \<subseteq> set (rs_exits rs)"
    and "distinct (sell_lots intents)" "set (sell_lots intents) \<subseteq> set lots"
  shows "\<exists>ds. collected rq rs allow ds intents' \<and> distinct (sell_lots intents')"
  using assms
proof (induction exs arbitrary: n decisions lots intents)
  case Nil
  then show ?case by auto
next
  case (Cons ex exs)
  let ?ex = "trim_exit ex"
  obtain i where i: "build_exit_intent sha rq t ?ex venue = Inr i" "ex_decision_id ?ex \<notin> set decisions" "ex_lot_id ?ex \<notin> set lots"
    and rest: "exit_loop sha rq t venue (Suc n) (ex_decision_id ?ex # decisions) (ex_lot_id ?ex # lots) (intents @ [i]) exs = Inr intents'"
    using Cons.prems(1) by (auto simp: Let_def split: sum.splits if_splits)
  have ex: "ex \<in> set (rs_exits rs)" using Cons.prems(3) by simp
  note e = build_exit_intent_exit [OF i(1) ex]
  have id: "ex_decision_id ?ex = oi_signal_id i" "ex_lot_id ?ex = oi_target_lot_id i" "oi_side i = SideSell"
    using e by (simp_all add: trim_exit_def exit_of_def)
  have "collected rq rs allow (ex_decision_id ?ex # decisions) (intents @ [i])"
    using e(1,2) i(2) id collected_add [OF Cons.prems(2)] by (simp add: accepted_intent_def)
  moreover have "distinct (sell_lots (intents @ [i]))" "set (sell_lots (intents @ [i])) \<subseteq> set (ex_lot_id ?ex # lots)"
    using Cons.prems(4,5) i(3) id by auto
  ultimately show ?case using Cons.IH [OF rest] Cons.prems(3) by simp
qed

lemma validated_response_collected:
  assumes "validate_response_with_entry_policy sha fmt rq rs venue allowEntries reason = Inr intents"
  shows "\<exists>ds. collected rq rs allowEntries ds intents \<and> distinct (sell_lots intents)"
proof -
  let ?s0 = "\<lparr>se_keys = [], se_evaluation_decisions = [], se_decisions = []\<rparr>"
  obtain seen buys where
    ev: "evaluation_loop sha fmt rq (rs_decided_at rs) venue allowEntries (expected_evaluations (rq_predictions rq)) 0 ?s0 [] (rs_evaluations rs) = Inr (seen, buys)"
    and ex: "exit_loop sha rq (rs_decided_at rs) venue 0 (se_decisions seen) [] buys (rs_exits rs) = Inr intents"
    using assms by (auto simp: validate_response_with_entry_policy_def Let_def split: option.splits if_splits sum.splits)
  have "collected rq rs allowEntries (se_decisions ?s0) []" by (simp add: collected_def)
  from evaluation_loop_collected [OF ev this] have buys: "collected rq rs allowEntries (se_decisions seen) buys" "sell_lots buys = []"
    by (auto simp: filter_empty_conv order_constants)
  show ?thesis using exit_loop_collected [OF ex buys(1)] buys(2) by auto
qed

text \<open>
  C18. Whatever a strategy answers, an accepted response yields only orders the input allows. Every intent is a valid order
  intent. It is a BUY of whole shares, limited to the tick grid at or above the frozen best ask and at most 1, immediate or
  cancelled, with the minimum notional and an OK order book of the request, or a SELL of at most the shares of a lot of the
  request. With entries blocked there is no BUY at all. No decision id is used twice, and no lot is sold twice.
\<close>

theorem accepted_response_sound:
  assumes "validate_response_with_entry_policy sha fmt rq rs venue allowEntries reason = Inr intents"
  shows "list_all (accepted_intent rq rs allowEntries) intents \<and> distinct (map oi_signal_id intents) \<and>
    distinct (map oi_target_lot_id (filter (\<lambda>i. oi_side i = SideSell) intents)) \<and>
    (\<not> allowEntries \<longrightarrow> (\<forall>i \<in> set intents. oi_side i = SideSell))"
proof -
  obtain ds where "collected rq rs allowEntries ds intents" "distinct (sell_lots intents)"
    using validated_response_collected [OF assms] by blast
  then show ?thesis by (auto simp: collected_def accepted_intent_def exit_of_def list_all_iff)
qed


text \<open>A request with one market, one lot and a book; a response that buys on one side and sells the lot.\<close>

definition half_prediction :: prediction where
  "half_prediction = sample_prediction ''p1'' 1 1"

definition frozen_book :: "string \<Rightarrow> int \<Rightarrow> order_book" where
  "frozen_book token k =
     \<lparr>ob_market_source = [], ob_market_id = ''m1'', ob_condition_id = ''c1'', ob_outcome_index = k, ob_token_id = token, ob_outcome_id = [],
      ob_status = ''OK'', ob_source_at = 1, ob_observed_at = 1, ob_tick_size = ''0.01'', ob_min_order_size = ''1'', ob_depth_limit = 15,
      ob_best_bid = ''0.4'', ob_best_ask = ''0.5'', ob_bids = [\<lparr>pv_price = ''0.4'', pv_size = ''10''\<rparr>],
      ob_asks = [\<lparr>pv_price = ''0.5'', pv_size = ''3''\<rparr>], ob_error_code = []\<rparr>"

definition strategy_run_context :: strategy_context where
  "strategy_run_context = \<lparr>cx_model_id = ''model'', cx_strategy_id = ''s1'', cx_execution_account_id = ''w1''\<rparr>"

definition frozen_request :: strategy_request where
  "frozen_request =
     \<lparr>rq_schema_version = ''trading.strategy_input.v4'', rq_cycle_id = ''w1:c'', rq_input_id = ''in'', rq_context = strategy_run_context,
      rq_decision_at = 2, rq_generated_at = 2, rq_prediction_snapshot_id = ''sn'', rq_prediction_scope = ''ALL_EFFECTIVE_AT_DECISION_AT'',
      rq_predictions = [half_prediction],
      rq_positions = [\<lparr>lt_lot_id = ''l1'', lt_market_source = [], lt_market_id = ''m1'', lt_condition_id = ''c1'', lt_outcome_index = 1,
        lt_outcome_name = ''o'', lt_token_id = ''t1'', lt_neg_risk = False, lt_entered_at = 1, lt_shares = ''7'', lt_entry_price = ''0.3''\<rparr>],
      rq_order_books = [frozen_book ''t0'' 0, frozen_book ''t1'' 1], rq_execution_constraints = default_strategy_execution_constraints\<rparr>"

definition proposed_evaluation :: "string \<Rightarrow> int \<Rightarrow> string \<Rightarrow> strategy_order_params option \<Rightarrow> strategy_evaluation" where
  "proposed_evaluation token k reason x =
     \<lparr>ev_decision_id = token, ev_prediction_id = ''p1'', ev_market_id = ''m1'', ev_condition_id = ''c1'', ev_outcome_index = k, ev_token_id = token,
      ev_action = (if x = None then ''SKIP'' else ''SUBMIT''), ev_reason_code = reason, ev_reason = [],
      ev_evidence = \<lparr>ed_probability = F64 1 (- 1), ed_edge = [], ed_metrics = [(''best_ask'', ''0.5'')]\<rparr>, ev_order = x\<rparr>"

definition strategy_answer :: strategy_response where
  "strategy_answer =
     \<lparr>rs_schema_version = ''trading.strategy_output.v4'', rs_cycle_id = ''w1:c'', rs_input_id = ''in'', rs_context = strategy_run_context,
      rs_decided_at = 3,
      rs_evaluations = [proposed_evaluation ''t0'' 0 ''ENTRY_SIGNAL''
          (Some \<lparr>so_side = ''BUY'', so_type = ''LIMIT'', so_worst_price = ''0.52'', so_size = ''4.6'', so_time_in_force = ''FOK'', so_expires_at = None\<rparr>),
        proposed_evaluation ''t1'' 1 ''EDGE_TOO_LOW'' None],
      rs_exits = [\<lparr>ex_decision_id = ''x1'', ex_lot_id = ''l1'', ex_token_id = ''t1'', ex_reason_code = ''HOLD_48H'', ex_reason = [],
        ex_order = Some \<lparr>so_side = ''SELL'', so_type = ''LIMIT'', so_worst_price = ''0.4'', so_size = ''6.5'', so_time_in_force = ''IOC'', so_expires_at = None\<rparr>\<rparr>],
      rs_entry_policy = None\<rparr>"

definition answer_intents :: "go_error + order_intent list" where
  "answer_intents = validate_response_with_entry_policy (\<lambda>_. ''00'') (\<lambda>_. ''0.5'') frozen_request strategy_answer ''polymarket'' True []"

definition answer_probe :: "(string \<times> string) list" where
  "answer_probe = (case answer_intents of Inl _ \<Rightarrow> [] | Inr intents \<Rightarrow> map (\<lambda>i. (oi_side i, oi_size i)) intents)"

lemma answer_probe_value: "answer_probe = [(''BUY'', ''5''), (''SELL'', ''6.5'')]"
  by code_simp

theorem accepted_response_sound_witness:
  "answer_intents = Inr (projr answer_intents) \<and> length (projr answer_intents) = 2 \<and>
   list_all (accepted_intent frozen_request strategy_answer True) (projr answer_intents)"
proof (cases answer_intents)
  case (Inl e)
  show ?thesis using answer_probe_value unfolding answer_probe_def Inl by simp
next
  case (Inr intents)
  have "length intents = length answer_probe" unfolding answer_probe_def Inr by simp
  then show ?thesis unfolding Inr answer_probe_value using accepted_response_sound [OF Inr [unfolded answer_intents_def]] by simp
qed

end
