(* ===== verification/Strategy_Inputs.thy ===== *)
theory Strategy_Inputs
  imports Strategy_Response
begin

text \<open>
  How the decision cycle freezes the input of a strategy: the targets of the market data capture, the alignment of the
  captured books, the shared snapshot batch, the request and the check of a claimed request
  (\<open>src/internal/service/decisioncycle/service.go\<close>, \<open>src/internal/domain/builders.go\<close>,
  \<open>src/internal/domain/orderbook_snapshot.go\<close>). JSON encoding followed by SHA-256 is a parameter. The theorems say that
  aligned books match their targets and that an accepted request holds exactly one valid book for every token it names.
\<close>

section \<open>Capture targets\<close>

type_synonym targets = "(string \<times> book_target) list"

text \<open>The loop bodies of \<open>buildInputTargets\<close>: the map \<open>byToken\<close> is an association list.\<close>

definition add_target :: "string \<Rightarrow> book_target \<Rightarrow> targets \<Rightarrow> go_error + targets" where
  "add_target label params byToken =
     (case book_target_build params of
        Inl e \<Rightarrow> Inl e
      | Inr t \<Rightarrow>
          if map_of byToken (bt_token_id t) \<noteq> None \<and> map_of byToken (bt_token_id t) \<noteq> Some t
          then Inl (ErrText (label @ quoted (bt_token_id t) @ '' has conflicting market identity''))
          else Inr (AList.update (bt_token_id t) t byToken))"

fun add_outcome_targets :: "prediction \<Rightarrow> prediction_outcome list \<Rightarrow> targets \<Rightarrow> go_error + targets" where
  "add_outcome_targets p [] byToken = Inr byToken"
| "add_outcome_targets p (o1 # os) byToken =
     (case add_target ''token '' \<lparr>bt_market_source = pr_market_source p, bt_market_id = pr_market_id p, bt_condition_id = pr_condition_id p,
             bt_outcome_index = po_index o1, bt_token_id = po_token_id o1, bt_outcome_id = po_outcome_id o1\<rparr> byToken of
        Inl e \<Rightarrow> Inl e
      | Inr byToken' \<Rightarrow> add_outcome_targets p os byToken')"

fun add_prediction_targets :: "prediction list \<Rightarrow> targets \<Rightarrow> go_error + targets" where
  "add_prediction_targets [] byToken = Inr byToken"
| "add_prediction_targets (p # ps) byToken =
     (case add_outcome_targets p (pr_outcomes p) byToken of Inl e \<Rightarrow> Inl e | Inr byToken' \<Rightarrow> add_prediction_targets ps byToken')"

fun add_lot_targets :: "strategy_position_lot list \<Rightarrow> targets \<Rightarrow> go_error + targets" where
  "add_lot_targets [] byToken = Inr byToken"
| "add_lot_targets (l # ls) byToken =
     (case execution_outcome_id (lt_market_source l) (lt_condition_id l) (lt_token_id l) of
        Inl e \<Rightarrow> Inl e
      | Inr outcomeID \<Rightarrow>
      case add_target ''position token '' \<lparr>bt_market_source = lt_market_source l, bt_market_id = lt_market_id l,
             bt_condition_id = lt_condition_id l, bt_outcome_index = lt_outcome_index l, bt_token_id = lt_token_id l, bt_outcome_id = outcomeID\<rparr> byToken of
        Inl e \<Rightarrow> Inl e
      | Inr byToken' \<Rightarrow> add_lot_targets ls byToken')"

text \<open>
  Targets of the same condition and outcome have an unspecified order in Go, which ranges over a map and sorts without
  stability; here it is the order of the input.
\<close>

definition sort_book_targets :: "book_target list \<Rightarrow> book_target list" where
  "sort_book_targets ts = sort_key (\<lambda>t. (bt_condition_id t, bt_outcome_index t)) ts"

definition build_input_targets :: "prediction list \<Rightarrow> strategy_position_lot list \<Rightarrow> go_error + book_target list" where
  "build_input_targets predictions positions =
     (case add_prediction_targets predictions [] of
        Inl e \<Rightarrow> Inl e
      | Inr byToken \<Rightarrow>
          (case add_lot_targets positions byToken of Inl e \<Rightarrow> Inl e | Inr byToken' \<Rightarrow> Inr (sort_book_targets (map snd byToken'))))"

definition build_book_targets :: "prediction list \<Rightarrow> go_error + book_target list" where
  "build_book_targets predictions = build_input_targets predictions []"


section \<open>Aligning the captured books\<close>

definition missing_book :: "book_target \<Rightarrow> gtime \<Rightarrow> order_book" where
  "missing_book t observedAt =
     \<lparr>ob_market_source = bt_market_source t, ob_market_id = bt_market_id t, ob_condition_id = bt_condition_id t,
      ob_outcome_index = bt_outcome_index t, ob_token_id = bt_token_id t, ob_outcome_id = bt_outcome_id t, ob_status = OrderBookStatusMissing,
      ob_source_at = 0, ob_observed_at = observedAt, ob_tick_size = [], ob_min_order_size = [], ob_depth_limit = 15, ob_best_bid = [],
      ob_best_ask = [], ob_bids = [], ob_asks = [], ob_error_code = ''SOURCE_DID_NOT_RETURN_TOKEN''\<rparr>"

definition normalize_failed_order_book :: "order_book \<Rightarrow> order_book" where
  "normalize_failed_order_book b =
     (if ob_status b \<noteq> OrderBookStatusMissing \<and> ob_status b \<noteq> OrderBookStatusError then b
      else b\<lparr>ob_best_bid := [], ob_best_ask := [], ob_bids := [], ob_asks := []\<rparr>)"

definition fail_closed_invalid_minimum_order_size :: "order_book \<Rightarrow> order_book" where
  "fail_closed_invalid_minimum_order_size b =
     (if dec_is_empty (ob_min_order_size b) then b
      else if \<not> not_positive (ob_min_order_size b) then b
      else b\<lparr>ob_status := OrderBookStatusError, ob_min_order_size := [], ob_best_bid := [], ob_best_ask := [], ob_bids := [], ob_asks := [],
             ob_error_code := ''INVALID_MIN_ORDER_SIZE''\<rparr>)"

definition fill_best_prices :: "order_book \<Rightarrow> order_book" where
  "fill_best_prices b =
     b\<lparr>ob_best_bid := (case ob_bids b of [] \<Rightarrow> ob_best_bid b | l # _ \<Rightarrow> pv_price l),
       ob_best_ask := (case ob_asks b of [] \<Rightarrow> ob_best_ask b | l # _ \<Rightarrow> pv_price l)\<rparr>"

definition book_of_target :: "book_target \<Rightarrow> order_book \<Rightarrow> bool" where
  "book_of_target t b \<longleftrightarrow>
     market_source_normalize (ob_market_source b) = market_source_normalize (bt_market_source t) \<and> ob_market_id b = bt_market_id t \<and>
     ob_condition_id b = bt_condition_id t \<and> ob_outcome_index b = bt_outcome_index t \<and>
     to_upper (trim_space (ob_outcome_id b)) = to_upper (trim_space (bt_outcome_id t))"

fun index_books :: "(string \<times> order_book) list \<Rightarrow> order_book list \<Rightarrow> go_error + (string \<times> order_book) list" where
  "index_books byToken [] = Inr byToken"
| "index_books byToken (b # bs) =
     (if map_of byToken (ob_token_id b) \<noteq> None
      then Inl (ErrText (''orderbook source returned duplicate token '' @ quoted (ob_token_id b)))
      else index_books (AList.update (ob_token_id b) b byToken) bs)"

text \<open>One target: the captured book or a missing one, made safe and validated.\<close>

definition align_book :: "(string \<times> order_book) list \<Rightarrow> gtime \<Rightarrow> book_target \<Rightarrow> go_error + order_book" where
  "align_book byToken observedAt t =
     (case (case map_of byToken (bt_token_id t) of
              None \<Rightarrow> Inr (missing_book t observedAt)
            | Some b \<Rightarrow> if book_of_target t b then Inr b
                        else Inl (ErrText (''orderbook token '' @ quoted (bt_token_id t) @ '' has mismatched market identity''))) of
        Inl e \<Rightarrow> Inl e
      | Inr b \<Rightarrow>
          (let b' = fill_best_prices (normalize_failed_order_book (fail_closed_invalid_minimum_order_size b)) in
           case book_validate b' of
             Some e \<Rightarrow> Inl (wrap_error (''invalid orderbook for token '' @ quoted (ob_token_id b')) e)
           | None \<Rightarrow> Inr b'))"

fun align_targets :: "(string \<times> order_book) list \<Rightarrow> gtime \<Rightarrow> book_target list \<Rightarrow> go_error + order_book list \<times> (string \<times> order_book) list" where
  "align_targets byToken observedAt [] = Inr ([], byToken)"
| "align_targets byToken observedAt (t # ts) =
     (case align_book byToken observedAt t of
        Inl e \<Rightarrow> Inl e
      | Inr b \<Rightarrow>
          (case align_targets (AList.delete (bt_token_id t) byToken) observedAt ts of
             Inl e \<Rightarrow> Inl e
           | Inr (bs, rest) \<Rightarrow> Inr (b # bs, rest)))"

definition align_books :: "book_target list \<Rightarrow> order_book list \<Rightarrow> gtime \<Rightarrow> go_error + order_book list" where
  "align_books targets books observedAt =
     (case index_books [] books of
        Inl e \<Rightarrow> Inl e
      | Inr byToken \<Rightarrow>
          (case align_targets byToken observedAt targets of
             Inl e \<Rightarrow> Inl e
           | Inr (result, rest) \<Rightarrow>
               if rest \<noteq> [] then Inl (ErrText ''orderbook source returned an unexpected token'') else Inr result))"

fun books_for_targets :: "book_target list \<Rightarrow> order_book list \<Rightarrow> go_error + order_book list" where
  "books_for_targets [] books = Inr []"
| "books_for_targets (t # ts) books =
     (case List.find (\<lambda>b. ob_token_id b = bt_token_id t) (rev books) of
        None \<Rightarrow> Inl (ErrText (''shared orderbook snapshot is missing token '' @ quoted (bt_token_id t)))
      | Some b \<Rightarrow> (case books_for_targets ts books of Inl e \<Rightarrow> Inl e | Inr bs \<Rightarrow> Inr (b # bs)))"


section \<open>The shared snapshot batch\<close>

definition OrderBookErrorVenueCaptureFailed :: string where "OrderBookErrorVenueCaptureFailed = ''VENUE_ORDERBOOK_CAPTURE_FAILED''"

record snapshot_batch =
  sp_decision_at :: gtime
  sp_prediction_snapshot_id :: string
  sp_snapshot_set_id :: string
  sp_target_count :: int
  sp_snapshot_count :: int
  sp_ok_count :: int
  sp_empty_count :: int
  sp_missing_count :: int
  sp_error_count :: int
  sp_snapshots :: "order_book list"

definition canonical_level :: "price_level \<Rightarrow> price_level" where
  "canonical_level l = \<lparr>pv_price = dec_canonical (pv_price l), pv_size = dec_canonical (pv_size l)\<rparr>"

definition canonical_order_book :: "order_book \<Rightarrow> order_book" where
  "canonical_order_book b = b\<lparr>ob_market_source := market_source_normalize (ob_market_source b), ob_market_id := trim_space (ob_market_id b),
     ob_condition_id := trim_space (ob_condition_id b), ob_token_id := trim_space (ob_token_id b),
     ob_outcome_id := to_upper (trim_space (ob_outcome_id b)), ob_error_code := trim_space (ob_error_code b),
     ob_tick_size := dec_canonical (ob_tick_size b), ob_min_order_size := dec_canonical (ob_min_order_size b),
     ob_best_bid := dec_canonical (ob_best_bid b), ob_best_ask := dec_canonical (ob_best_ask b),
     ob_bids := map canonical_level (ob_bids b), ob_asks := map canonical_level (ob_asks b)\<rparr>"

definition failed_book_error :: "order_book \<Rightarrow> bool" where
  "failed_book_error b \<longleftrightarrow>
     (ob_status b = OrderBookStatusMissing \<or> ob_status b = OrderBookStatusError) \<and>
     (ob_error_code b = [] \<or> ob_bids b \<noteq> [] \<or> ob_asks b \<noteq> [] \<or> \<not> dec_is_empty (ob_best_bid b) \<or> \<not> dec_is_empty (ob_best_ask b))"

fun canonical_books :: "nat \<Rightarrow> string list \<Rightarrow> order_book list \<Rightarrow> go_error + order_book list" where
  "canonical_books index seen [] = Inr []"
| "canonical_books index seen (b0 # bs) =
     (let b = canonical_order_book b0; key = market_source_normalize (ob_market_source b) @ [CHR 0x00] @ ob_token_id b in
      case book_validate b of
        Some e \<Rightarrow> Inl (wrap_error (''orderbook snapshot '' @ show_nat index) e)
      | None \<Rightarrow>
          if failed_book_error b
          then Inl (ErrText (''orderbook snapshot '' @ show_nat index @ '': failed status requires an error code and empty levels''))
          else if key \<in> set seen
          then Inl (ErrText (''orderbook snapshot batch contains duplicate token identity '' @ quoted (ob_token_id b)))
          else case canonical_books (Suc index) (key # seen) bs of Inl e \<Rightarrow> Inl e | Inr rest \<Rightarrow> Inr (b # rest))"

definition status_count :: "string \<Rightarrow> order_book list \<Rightarrow> int" where
  "status_count status books = int (length (filter (\<lambda>b. ob_status b = status) books))"

text \<open>\<open>digest\<close>: the JSON of the identity, hashed; encoding may fail.\<close>

definition new_order_book_snapshot_batch ::
    "(gtime \<Rightarrow> string \<Rightarrow> order_book list \<Rightarrow> go_error + string) \<Rightarrow> gtime \<Rightarrow> string \<Rightarrow> int \<Rightarrow> order_book list \<Rightarrow> go_error + snapshot_batch" where
  "new_order_book_snapshot_batch digest decisionAt snapshotID0 targetCount snapshots =
     (let snapshotID = trim_space snapshotID0 in
      if is_zero_time decisionAt \<or> snapshotID = []
      then Inl (ErrText ''orderbook snapshot batch decision and prediction identities are required'')
      else if targetCount < 0 \<or> targetCount \<noteq> int (length snapshots)
      then Inl (ErrText ''orderbook snapshot batch target count must equal snapshot count'')
      else case canonical_books 0 [] snapshots of
        Inl e \<Rightarrow> Inl e
      | Inr books \<Rightarrow>
      (let canonical = sort_key (\<lambda>b. (ob_market_source b, ob_condition_id b, ob_outcome_index b, ob_token_id b)) books in
       case digest decisionAt snapshotID canonical of
        Inl e \<Rightarrow> Inl (wrap_error ''encode orderbook snapshot set identity'' e)
      | Inr h \<Rightarrow>
          Inr \<lparr>sp_decision_at = decisionAt, sp_prediction_snapshot_id = snapshotID, sp_snapshot_set_id = ''orderbook-snapshot-set-'' @ h,
            sp_target_count = targetCount, sp_snapshot_count = int (length canonical), sp_ok_count = status_count OrderBookStatusOK canonical,
            sp_empty_count = status_count OrderBookStatusEmpty canonical, sp_missing_count = status_count OrderBookStatusMissing canonical,
            sp_error_count = status_count OrderBookStatusError canonical, sp_snapshots = canonical\<rparr>))"

definition same_claimed_batch :: "snapshot_batch \<Rightarrow> snapshot_batch \<Rightarrow> bool" where
  "same_claimed_batch l r \<longleftrightarrow>
     sp_decision_at l = sp_decision_at r \<and> sp_prediction_snapshot_id l = sp_prediction_snapshot_id r \<and>
     sp_snapshot_set_id l = sp_snapshot_set_id r \<and> sp_target_count l = sp_target_count r \<and> sp_snapshot_count l = sp_snapshot_count r \<and>
     sp_ok_count l = sp_ok_count r \<and> sp_empty_count l = sp_empty_count r \<and> sp_missing_count l = sp_missing_count r \<and>
     sp_error_count l = sp_error_count r"


section \<open>Requests\<close>

definition StrategyInputSchemaVersion :: string where "StrategyInputSchemaVersion = ''trading.strategy_input.v4''"
definition PredictionScopeAllEffective :: string where "PredictionScopeAllEffective = ''ALL_EFFECTIVE_AT_DECISION_AT''"

definition lot_build :: "strategy_position_lot \<Rightarrow> gtime \<Rightarrow> go_error + strategy_position_lot" where
  "lot_build p decisionAt =
     (let l = p\<lparr>lt_lot_id := trim_space (lt_lot_id p), lt_market_id := trim_space (lt_market_id p),
            lt_condition_id := trim_space (lt_condition_id p), lt_outcome_name := trim_space (lt_outcome_name p),
            lt_token_id := trim_space (lt_token_id p), lt_shares := trim_space (lt_shares p), lt_entry_price := trim_space (lt_entry_price p)\<rparr> in
      case lot_validate l decisionAt of Some e \<Rightarrow> Inl e | None \<Rightarrow> Inr l)"

text \<open>\<open>digest\<close> sees every field of the request but its id and the time of its generation.\<close>

type_synonym input_digest = "strategy_request \<Rightarrow> go_error + string"

definition compute_strategy_input_id :: "input_digest \<Rightarrow> strategy_request \<Rightarrow> go_error + string" where
  "compute_strategy_input_id digest rq =
     (case digest (rq\<lparr>rq_input_id := [], rq_generated_at := 0, rq_context := context_normalize (rq_context rq)\<rparr>) of
        Inl e \<Rightarrow> Inl (wrap_error ''encode strategy input identity'' e)
      | Inr h \<Rightarrow> Inr (''strategy-input-'' @ h))"

definition request_build ::
    "input_digest \<Rightarrow> string \<Rightarrow> strategy_context \<Rightarrow> gtime \<Rightarrow> gtime \<Rightarrow> string \<Rightarrow> prediction list \<Rightarrow> strategy_position_lot list \<Rightarrow> order_book list \<Rightarrow>
     go_error + strategy_request" where
  "request_build digest cycleID cx decisionAt generatedAt snapshotID predictions positions books =
     (let rq = \<lparr>rq_schema_version = StrategyInputSchemaVersion, rq_cycle_id = trim_space cycleID, rq_input_id = [],
            rq_context = context_normalize cx, rq_decision_at = decisionAt, rq_generated_at = generatedAt,
            rq_prediction_snapshot_id = trim_space snapshotID, rq_prediction_scope = PredictionScopeAllEffective, rq_predictions = predictions,
            rq_positions = positions, rq_order_books = books, rq_execution_constraints = default_strategy_execution_constraints\<rparr> in
      if rq_cycle_id rq = [] \<or> rq_prediction_snapshot_id rq = [] \<or> is_zero_time decisionAt \<or> is_zero_time generatedAt
      then Inl (ErrText ''strategy cycle, snapshot, decision_at, and generated_at are required'')
      else case context_validate (rq_context rq) of
        Some e \<Rightarrow> Inl e
      | None \<Rightarrow>
      (case compute_strategy_input_id digest rq of Inl e \<Rightarrow> Inl e | Inr ident \<Rightarrow> Inr (rq\<lparr>rq_input_id := ident\<rparr>)))"

definition claimed_book_identity :: "market_source \<Rightarrow> string \<Rightarrow> string \<Rightarrow> int \<Rightarrow> string \<Rightarrow> string \<Rightarrow> book_target" where
  "claimed_book_identity source marketID conditionID outcomeIndex tokenID outcomeID =
     \<lparr>bt_market_source = market_source_normalize source, bt_market_id = marketID, bt_condition_id = conditionID,
      bt_outcome_index = outcomeIndex, bt_token_id = tokenID, bt_outcome_id = to_upper (trim_space outcomeID)\<rparr>"

definition add_claimed :: "string \<Rightarrow> book_target \<Rightarrow> targets \<Rightarrow> go_error + targets" where
  "add_claimed label t tokens =
     (if map_of tokens (bt_token_id t) \<noteq> None \<and> map_of tokens (bt_token_id t) \<noteq> Some t
      then Inl (ErrText (label @ quoted (bt_token_id t) @ '' has conflicting market identity''))
      else Inr (AList.update (bt_token_id t) t tokens))"

fun claim_outcomes :: "prediction \<Rightarrow> prediction_outcome list \<Rightarrow> targets \<Rightarrow> go_error + targets" where
  "claim_outcomes p [] tokens = Inr tokens"
| "claim_outcomes p (o1 # os) tokens =
     (case add_claimed ''claimed strategy prediction token '' (claimed_book_identity (pr_market_source p) (pr_market_id p) (pr_condition_id p)
             (po_index o1) (po_token_id o1) (po_outcome_id o1)) tokens of
        Inl e \<Rightarrow> Inl e
      | Inr tokens' \<Rightarrow> claim_outcomes p os tokens')"

fun claim_predictions :: "strategy_request \<Rightarrow> prediction list \<Rightarrow> targets \<Rightarrow> go_error + targets" where
  "claim_predictions rq [] tokens = Inr tokens"
| "claim_predictions rq (p # ps) tokens =
     (if trim_space (pm_name (pr_model p)) \<noteq> cx_model_id (rq_context rq)
      then Inl (ErrText ''claimed strategy input contains prediction from another model'')
      else case prediction_validate p (rq_decision_at rq) of
        Some e \<Rightarrow> Inl (wrap_error (''claimed strategy prediction '' @ quoted (pr_prediction_id p)) e)
      | None \<Rightarrow>
      (case claim_outcomes p (pr_outcomes p) tokens of Inl e \<Rightarrow> Inl e | Inr tokens' \<Rightarrow> claim_predictions rq ps tokens'))"

fun claim_lots :: "strategy_request \<Rightarrow> string list \<Rightarrow> strategy_position_lot list \<Rightarrow> targets \<Rightarrow> go_error + targets" where
  "claim_lots rq seen [] tokens = Inr tokens"
| "claim_lots rq seen (l # ls) tokens =
     (case lot_validate l (rq_decision_at rq) of
        Some e \<Rightarrow> Inl (wrap_error (''claimed strategy position lot '' @ quoted (lt_lot_id l)) e)
      | None \<Rightarrow>
      if lt_lot_id l \<in> set seen
      then Inl (ErrText (''claimed strategy input contains duplicate position lot '' @ quoted (lt_lot_id l)))
      else case execution_outcome_id (lt_market_source l) (lt_condition_id l) (lt_token_id l) of
        Inl e \<Rightarrow> Inl (wrap_error (''claimed strategy position lot '' @ quoted (lt_lot_id l)) e)
      | Inr outcomeID \<Rightarrow>
      (case add_claimed ''claimed strategy position token '' (claimed_book_identity (lt_market_source l) (lt_market_id l) (lt_condition_id l)
              (lt_outcome_index l) (lt_token_id l) outcomeID) tokens of
         Inl e \<Rightarrow> Inl e
       | Inr tokens' \<Rightarrow> claim_lots rq (lt_lot_id l # seen) ls tokens'))"

fun claim_books :: "order_book list \<Rightarrow> targets \<Rightarrow> go_error + targets" where
  "claim_books [] tokens = Inr tokens"
| "claim_books (b # bs) tokens =
     (case book_validate b of
        Some e \<Rightarrow> Inl (wrap_error (''claimed strategy orderbook '' @ quoted (ob_token_id b)) e)
      | None \<Rightarrow>
      if ob_depth_limit b \<noteq> 15
      then Inl (ErrText (''claimed strategy orderbook '' @ quoted (ob_token_id b) @ '' must have depth_limit=15''))
      else case map_of tokens (ob_token_id b) of
        None \<Rightarrow> Inl (ErrText (''claimed strategy orderbook '' @ quoted (ob_token_id b) @ '' has unexpected identity''))
      | Some t \<Rightarrow>
          if \<not> book_of_target t b
          then Inl (ErrText (''claimed strategy orderbook '' @ quoted (ob_token_id b) @ '' has unexpected identity''))
          else claim_books bs (AList.delete (ob_token_id b) tokens))"

definition claimed_tokens :: "strategy_request \<Rightarrow> go_error + targets" where
  "claimed_tokens rq =
     (case claim_predictions rq (rq_predictions rq) [] of
        Inl e \<Rightarrow> Inl e | Inr tokens \<Rightarrow> claim_lots rq [] (rq_positions rq) tokens)"

definition validate_claimed_input :: "input_digest \<Rightarrow> strategy_request \<Rightarrow> string \<Rightarrow> strategy_context \<Rightarrow> gtime \<Rightarrow> err" where
  "validate_claimed_input digest rq expectedCycleID expectedContext expectedDecisionAt =
     (if rq_schema_version rq \<noteq> StrategyInputSchemaVersion \<or> rq_cycle_id rq \<noteq> expectedCycleID \<or> rq_input_id rq = [] \<or>
         \<not> context_equal (rq_context rq) expectedContext \<or> rq_decision_at rq \<noteq> expectedDecisionAt
      then Some (ErrText ''claimed strategy input identity is invalid'')
      else if rq_prediction_scope rq \<noteq> PredictionScopeAllEffective
      then Some (ErrText ''claimed strategy input must contain all effective predictions'')
      else case validate_execution_constraints (rq_execution_constraints rq) of
        Some e \<Rightarrow> Some (wrap_error ''claimed strategy execution constraints'' e)
      | None \<Rightarrow>
      case claimed_tokens rq of
        Inl e \<Rightarrow> Some e
      | Inr tokens \<Rightarrow>
      if length (rq_order_books rq) \<noteq> length tokens
      then Some (ErrText ''claimed strategy input must contain one orderbook for every prediction or position token'')
      else case claim_books (rq_order_books rq) tokens of
        Inl e \<Rightarrow> Some e
      | Inr rest \<Rightarrow>
      if rest \<noteq> [] then Some (ErrText ''claimed strategy input is missing an orderbook'')
      else case compute_strategy_input_id digest rq of
        Inl e \<Rightarrow> Some e
      | Inr ident \<Rightarrow>
      if ident \<noteq> rq_input_id rq then Some (ErrText ''claimed strategy input hash does not match its payload'') else None)"


section \<open>Aligned books match their targets\<close>

text \<open>What the cycle promises of one target: a valid book of the same token and market; a failed book shows no price, and
  every other book is a captured one, its best prices read from its levels.\<close>

definition book_aligned :: "order_book list \<Rightarrow> book_target \<Rightarrow> order_book \<Rightarrow> bool" where
  "book_aligned captured t b \<longleftrightarrow>
     ob_token_id b = bt_token_id t \<and> book_of_target t b \<and> book_validate b = None \<and>
     (if ob_status b = OrderBookStatusMissing \<or> ob_status b = OrderBookStatusError
      then ob_bids b = [] \<and> ob_asks b = [] \<and> ob_best_bid b = [] \<and> ob_best_ask b = []
      else b \<in> set (map fill_best_prices captured))"

definition indexed :: "order_book list \<Rightarrow> (string \<times> order_book) list \<Rightarrow> bool" where
  "indexed captured byToken \<longleftrightarrow> (\<forall>k b. map_of byToken k = Some b \<longrightarrow> ob_token_id b = k \<and> b \<in> set captured)"

lemma index_books_indexed:
  assumes "index_books byToken bs = Inr byToken'" "indexed captured byToken" "set bs \<subseteq> set captured"
  shows "indexed captured byToken' \<and> dom (map_of byToken') = dom (map_of byToken) \<union> ob_token_id ` set bs"
  using assms
proof (induction bs arbitrary: byToken)
  case (Cons b bs)
  have "indexed captured (AList.update (ob_token_id b) b byToken)"
    using Cons.prems(2,3) by (auto simp: indexed_def update_conv' split: if_splits)
  then show ?case
    using Cons.IH [of "AList.update (ob_token_id b) b byToken"] Cons.prems(1,3) by (auto simp: update_conv' split: if_splits)
qed simp

lemma indexed_delete: "indexed captured byToken \<Longrightarrow> indexed captured (AList.delete k byToken)"
  by (auto simp: indexed_def delete_conv' split: if_splits)

lemma made_safe_identity:
  fixes b :: order_book
  defines "b' \<equiv> fill_best_prices (normalize_failed_order_book (fail_closed_invalid_minimum_order_size b))"
  shows "ob_token_id b' = ob_token_id b" and "book_of_target t b' = book_of_target t b"
  by (auto simp: b'_def fill_best_prices_def normalize_failed_order_book_def fail_closed_invalid_minimum_order_size_def
      book_of_target_def)

lemma fill_best_prices_empty:
  "ob_status (fill_best_prices b) = ob_status b"
  "ob_bids (fill_best_prices b) = ob_bids b" "ob_asks (fill_best_prices b) = ob_asks b"
  "ob_bids b = [] \<Longrightarrow> ob_best_bid (fill_best_prices b) = ob_best_bid b"
  "ob_asks b = [] \<Longrightarrow> ob_best_ask (fill_best_prices b) = ob_best_ask b"
  by (simp_all add: fill_best_prices_def)

lemma made_safe_failed:
  fixes b :: order_book
  defines "b' \<equiv> fill_best_prices (normalize_failed_order_book (fail_closed_invalid_minimum_order_size b))"
  assumes "ob_status b' = OrderBookStatusMissing \<or> ob_status b' = OrderBookStatusError"
  shows "ob_bids b' = [] \<and> ob_asks b' = [] \<and> ob_best_bid b' = [] \<and> ob_best_ask b' = []"
proof -
  let ?c = "fail_closed_invalid_minimum_order_size b"
  have "ob_status (normalize_failed_order_book ?c) = ob_status ?c" by (simp add: normalize_failed_order_book_def)
  then have "normalize_failed_order_book ?c = ?c\<lparr>ob_best_bid := [], ob_best_ask := [], ob_bids := [], ob_asks := []\<rparr>"
    using assms(2) by (auto simp: b'_def fill_best_prices_empty normalize_failed_order_book_def)
  then show ?thesis by (simp add: b'_def fill_best_prices_empty)
qed

lemma made_safe_live:
  fixes b :: order_book
  defines "b' \<equiv> fill_best_prices (normalize_failed_order_book (fail_closed_invalid_minimum_order_size b))"
  assumes "\<not> (ob_status b' = OrderBookStatusMissing \<or> ob_status b' = OrderBookStatusError)"
  shows "b' = fill_best_prices b" and "ob_status b' = ob_status b"
proof -
  let ?c = "fail_closed_invalid_minimum_order_size b"
  have status: "ob_status b' = ob_status ?c"
    by (simp add: b'_def fill_best_prices_empty normalize_failed_order_book_def)
  then have "?c = b" using assms(2) by (auto simp: fail_closed_invalid_minimum_order_size_def)
  moreover have "normalize_failed_order_book ?c = ?c" using assms(2) status by (simp add: normalize_failed_order_book_def)
  ultimately show "b' = fill_best_prices b" and "ob_status b' = ob_status b" by (simp_all add: b'_def fill_best_prices_empty)
qed

lemma align_book_aligned:
  assumes "align_book byToken observedAt t = Inr b" "indexed captured byToken"
  shows "book_aligned captured t b"
proof -
  obtain b0 where b0: "(case map_of byToken (bt_token_id t) of
              None \<Rightarrow> Inr (missing_book t observedAt)
            | Some b \<Rightarrow> if book_of_target t b then Inr b
                        else Inl (ErrText (''orderbook token '' @ quoted (bt_token_id t) @ '' has mismatched market identity''))) = Inr b0"
    and b: "b = fill_best_prices (normalize_failed_order_book (fail_closed_invalid_minimum_order_size b0))" "book_validate b = None"
    using assms(1) by (auto simp: align_book_def Let_def split: sum.splits option.splits)
  have identity: "ob_token_id b0 = bt_token_id t" "book_of_target t b0"
    using b0 assms(2) by (auto simp: indexed_def missing_book_def book_of_target_def split: option.splits if_splits)
  have origin: "b0 \<in> set captured \<or> ob_status b0 = OrderBookStatusMissing"
    using b0 assms(2) by (auto simp: indexed_def missing_book_def split: option.splits if_splits)
  show ?thesis
  proof (cases "ob_status b = OrderBookStatusMissing \<or> ob_status b = OrderBookStatusError")
    case True
    then show ?thesis using made_safe_failed [of b0] made_safe_identity [where b = b0] identity b by (simp add: book_aligned_def)
  next
    case False
    then show ?thesis using made_safe_live [of b0] made_safe_identity [where b = b0] identity origin b by (auto simp: book_aligned_def)
  qed
qed

lemma align_targets_aligned:
  assumes "align_targets byToken observedAt ts = Inr (bs, rest)" "indexed captured byToken"
  shows "list_all2 (book_aligned captured) ts bs \<and> dom (map_of byToken) \<subseteq> dom (map_of rest) \<union> bt_token_id ` set ts"
  using assms
proof (induction ts arbitrary: byToken bs)
  case (Cons t ts)
  obtain b bs' where b: "align_book byToken observedAt t = Inr b"
    and bs': "align_targets (AList.delete (bt_token_id t) byToken) observedAt ts = Inr (bs', rest)" "bs = b # bs'"
    using Cons.prems(1) by (auto split: sum.splits)
  have "list_all2 (book_aligned captured) ts bs' \<and>
    dom (map_of (AList.delete (bt_token_id t) byToken)) \<subseteq> dom (map_of rest) \<union> bt_token_id ` set ts"
    using Cons.IH [OF bs'(1) indexed_delete [OF Cons.prems(2)]] .
  moreover have "dom (map_of byToken) \<subseteq> insert (bt_token_id t) (dom (map_of (AList.delete (bt_token_id t) byToken)))"
    by (auto simp: delete_conv')
  ultimately have "dom (map_of byToken) \<subseteq> dom (map_of rest) \<union> bt_token_id ` set (t # ts)"
    unfolding list.set image_insert by blast
  then show ?case using align_book_aligned [OF b Cons.prems(2)] bs'(2) Cons.IH [OF bs'(1) indexed_delete [OF Cons.prems(2)]] by simp
qed simp

text \<open>
  C20. Type. Whatever books a market data source returns, an alignment that succeeds yields one book per target, in the
  order of the targets: each is valid, carries the target's token and market identity, shows no price when the capture of that
  market failed, and is otherwise one of the captured books; and no captured book is of a token outside the targets.
\<close>

theorem aligned_books_match:
  assumes "align_books targets captured observedAt = Inr books"
  shows "list_all2 (book_aligned captured) targets books \<and> ob_token_id ` set captured \<subseteq> bt_token_id ` set targets"
proof -
  obtain byToken where ix: "index_books [] captured = Inr byToken" and al: "align_targets byToken observedAt targets = Inr (books, [])"
    using assms by (auto simp: align_books_def split: sum.splits if_splits)
  have inv: "indexed captured byToken" "dom (map_of byToken) = ob_token_id ` set captured"
    using index_books_indexed [OF ix, of captured] by (auto simp: indexed_def)
  show ?thesis using align_targets_aligned [OF al inv(1)] inv(2) by auto
qed

definition capture_target :: "string \<Rightarrow> int \<Rightarrow> book_target" where
  "capture_target token k = \<lparr>bt_market_source = [], bt_market_id = ''m1'', bt_condition_id = ''c1'', bt_outcome_index = k, bt_token_id = token, bt_outcome_id = []\<rparr>"

definition captured_books :: "order_book list" where
  "captured_books = [(frozen_book ''t1'' 1)\<lparr>ob_min_order_size := ''0''\<rparr>, (frozen_book ''t2'' 0)\<lparr>ob_best_bid := []\<rparr>]"

definition capture_outcome :: "go_error + order_book list" where
  "capture_outcome = align_books [capture_target ''t0'' 0, capture_target ''t1'' 1, capture_target ''t2'' 0] captured_books 5"

lemma capture_outcome_value:
  "capture_outcome = Inr [missing_book (capture_target ''t0'' 0) 5,
     (frozen_book ''t1'' 1)\<lparr>ob_status := ''ERROR'', ob_min_order_size := [], ob_best_bid := [], ob_best_ask := [], ob_bids := [], ob_asks := [],
       ob_error_code := ''INVALID_MIN_ORDER_SIZE''\<rparr>, frozen_book ''t2'' 0]"
  by code_simp

theorem aligned_books_match_witness:
  "list_all2 (book_aligned captured_books) [capture_target ''t0'' 0, capture_target ''t1'' 1, capture_target ''t2'' 0] (projr capture_outcome) \<and>
   map ob_status (projr capture_outcome) = [''MISSING'', ''ERROR'', ''OK'']"
  using aligned_books_match [OF capture_outcome_value [unfolded capture_outcome_def]] unfolding capture_outcome_value
  by (simp add: missing_book_def frozen_book_def OrderBookStatusMissing_def)


section \<open>A claimed input is complete\<close>

text \<open>The books an input must hold: one for every outcome of a prediction and for every lot.\<close>

definition prediction_targets :: "prediction \<Rightarrow> book_target list" where
  "prediction_targets p = map (\<lambda>o1. claimed_book_identity (pr_market_source p) (pr_market_id p) (pr_condition_id p)
     (po_index o1) (po_token_id o1) (po_outcome_id o1)) (pr_outcomes p)"

definition lot_target :: "strategy_position_lot \<Rightarrow> book_target" where
  "lot_target l = claimed_book_identity (lt_market_source l) (lt_market_id l) (lt_condition_id l) (lt_outcome_index l) (lt_token_id l)
     (case execution_outcome_id (lt_market_source l) (lt_condition_id l) (lt_token_id l) of Inl e \<Rightarrow> [] | Inr ident \<Rightarrow> ident)"

definition request_targets :: "strategy_request \<Rightarrow> book_target list" where
  "request_targets rq = concat (map prediction_targets (rq_predictions rq)) @ map lot_target (rq_positions rq)"

definition collects :: "targets \<Rightarrow> book_target list \<Rightarrow> targets \<Rightarrow> bool" where
  "collects tokens ts tokens' \<longleftrightarrow>
     map_of tokens \<subseteq>\<^sub>m map_of tokens' \<and> (\<forall>t\<in>set ts. map_of tokens' (bt_token_id t) = Some t) \<and>
     dom (map_of tokens') = dom (map_of tokens) \<union> bt_token_id ` set ts"

lemma collects_Nil [simp]: "collects tokens [] tokens" by (simp add: collects_def)

lemma collects_append:
  assumes "collects a ts b" "collects b us c"
  shows "collects a (ts @ us) c"
  using assms by (auto simp: collects_def map_le_def intro: domI)

lemma collects_Cons:
  assumes "collects a [t] b" "collects b us c"
  shows "collects a (t # us) c"
  using collects_append [OF assms] by simp

lemma add_claimed_collects: "add_claimed label t tokens = Inr tokens' \<Longrightarrow> collects tokens [t] tokens'"
  by (auto simp: add_claimed_def collects_def update_conv' map_le_def split: if_splits)

lemma claim_outcomes_collects:
  "claim_outcomes p os tokens = Inr tokens' \<Longrightarrow>
   collects tokens (map (\<lambda>o1. claimed_book_identity (pr_market_source p) (pr_market_id p) (pr_condition_id p)
     (po_index o1) (po_token_id o1) (po_outcome_id o1)) os) tokens'"
proof (induction os arbitrary: tokens)
  case (Cons o1 os)
  then show ?case by (auto split: sum.splits intro!: collects_Cons add_claimed_collects)
qed simp

lemma claim_predictions_collects:
  assumes "claim_predictions rq ps tokens = Inr tokens'"
  shows "collects tokens (concat (map prediction_targets ps)) tokens' \<and>
    (\<forall>p\<in>set ps. prediction_validate p (rq_decision_at rq) = None \<and> trim_space (pm_name (pr_model p)) = cx_model_id (rq_context rq))"
  using assms
proof (induction ps arbitrary: tokens)
  case (Cons p ps)
  obtain b where b: "claim_outcomes p (pr_outcomes p) tokens = Inr b" "claim_predictions rq ps b = Inr tokens'"
    and p: "prediction_validate p (rq_decision_at rq) = None" "trim_space (pm_name (pr_model p)) = cx_model_id (rq_context rq)"
    using Cons.prems by (auto split: sum.splits option.splits if_splits)
  have "collects tokens (prediction_targets p) b"
    using claim_outcomes_collects [OF b(1)] by (simp add: prediction_targets_def)
  then show ?case using Cons.IH [OF b(2)] p by (auto intro: collects_append)
qed simp

lemma claim_lots_collects:
  assumes "claim_lots rq seen ls tokens = Inr tokens'"
  shows "collects tokens (map lot_target ls) tokens' \<and> (\<forall>l\<in>set ls. lot_validate l (rq_decision_at rq) = None) \<and>
    distinct (map lt_lot_id ls) \<and> lt_lot_id ` set ls \<inter> set seen = {}"
  using assms
proof (induction ls arbitrary: seen tokens)
  case (Cons l ls)
  obtain ident b where l: "lot_validate l (rq_decision_at rq) = None" "lt_lot_id l \<notin> set seen"
    and ident: "execution_outcome_id (lt_market_source l) (lt_condition_id l) (lt_token_id l) = Inr ident"
    and b: "add_claimed ''claimed strategy position token '' (claimed_book_identity (lt_market_source l) (lt_market_id l) (lt_condition_id l)
              (lt_outcome_index l) (lt_token_id l) ident) tokens = Inr b" "claim_lots rq (lt_lot_id l # seen) ls b = Inr tokens'"
    using Cons.prems by (auto split: sum.splits option.splits if_splits)
  have "collects tokens [lot_target l] b"
    using add_claimed_collects [OF b(1)] ident by (simp add: lot_target_def)
  then show ?case using Cons.IH [OF b(2)] l by (auto intro: collects_Cons)
qed simp

lemma claim_books_all:
  assumes "claim_books bs tokens = Inr []"
  shows "distinct (map ob_token_id bs) \<and> ob_token_id ` set bs = dom (map_of tokens) \<and>
    (\<forall>b\<in>set bs. book_validate b = None \<and> ob_depth_limit b = 15 \<and> (\<exists>t. map_of tokens (ob_token_id b) = Some t \<and> book_of_target t b))"
  using assms
proof (induction bs arbitrary: tokens)
  case (Cons b bs)
  obtain t where t: "map_of tokens (ob_token_id b) = Some t" "book_of_target t b" "book_validate b = None" "ob_depth_limit b = 15"
    and rest: "claim_books bs (AList.delete (ob_token_id b) tokens) = Inr []"
    using Cons.prems by (auto split: option.splits if_splits)
  have dom: "dom (map_of (AList.delete (ob_token_id b) tokens)) = dom (map_of tokens) - {ob_token_id b}"
    by (auto simp: delete_conv')
  have "map_of tokens (ob_token_id c) = map_of (AList.delete (ob_token_id b) tokens) (ob_token_id c)" if "c \<in> set bs" for c
  proof -
    have "ob_token_id c \<in> dom (map_of tokens) - {ob_token_id b}" using Cons.IH [OF rest] that dom by blast
    then show ?thesis by (simp add: delete_conv')
  qed
  then show ?case using Cons.IH [OF rest] t dom by (auto 0 3)
qed simp

lemma claimed_tokens_collects:
  assumes "claimed_tokens rq = Inr tokens"
  shows "collects [] (request_targets rq) tokens"
    and "\<forall>p\<in>set (rq_predictions rq). prediction_validate p (rq_decision_at rq) = None \<and>
           trim_space (pm_name (pr_model p)) = cx_model_id (rq_context rq)"
    and "\<forall>l\<in>set (rq_positions rq). lot_validate l (rq_decision_at rq) = None" and "distinct (map lt_lot_id (rq_positions rq))"
proof -
  obtain b where b: "claim_predictions rq (rq_predictions rq) [] = Inr b" "claim_lots rq [] (rq_positions rq) b = Inr tokens"
    using assms by (auto simp: claimed_tokens_def split: sum.splits)
  note ps = claim_predictions_collects [OF b(1)] and ls = claim_lots_collects [OF b(2)]
  show "collects [] (request_targets rq) tokens"
    unfolding request_targets_def by (rule collects_append [OF conjunct1 [OF ps] conjunct1 [OF ls]])
  show "\<forall>p\<in>set (rq_predictions rq). prediction_validate p (rq_decision_at rq) = None \<and>
          trim_space (pm_name (pr_model p)) = cx_model_id (rq_context rq)" by (rule conjunct2 [OF ps])
  show "\<forall>l\<in>set (rq_positions rq). lot_validate l (rq_decision_at rq) = None" and "distinct (map lt_lot_id (rq_positions rq))"
    using ls by simp_all
qed

text \<open>
  C19. Type. A frozen input that the cycle accepts back from its store is the asked one and is complete: its books are
  distinct, valid, of the fixed depth, and exactly one for every outcome it predicts and every lot it holds, with the identity
  of that outcome or lot (so no token stands for two markets); its lots are valid and distinct; its predictions are valid at the
  decision time and of the account's model; and its id is the hash of its content.
\<close>

theorem claimed_input_complete:
  assumes "validate_claimed_input digest rq cycle cx decisionAt = None"
  shows "rq_cycle_id rq = cycle \<and> rq_decision_at rq = decisionAt \<and> context_equal (rq_context rq) cx \<and>
    distinct (map ob_token_id (rq_order_books rq)) \<and>
    ob_token_id ` set (rq_order_books rq) = bt_token_id ` set (request_targets rq) \<and>
    (\<forall>t\<in>set (request_targets rq). \<exists>b\<in>set (rq_order_books rq). ob_token_id b = bt_token_id t \<and> book_of_target t b \<and>
       book_validate b = None \<and> ob_depth_limit b = 15) \<and>
    inj_on bt_token_id (set (request_targets rq)) \<and>
    distinct (map lt_lot_id (rq_positions rq)) \<and> (\<forall>l\<in>set (rq_positions rq). lot_validate l decisionAt = None) \<and>
    (\<forall>p\<in>set (rq_predictions rq). prediction_validate p decisionAt = None \<and> trim_space (pm_name (pr_model p)) = cx_model_id (rq_context rq)) \<and>
    compute_strategy_input_id digest rq = Inr (rq_input_id rq)"
proof -
  obtain tokens where tok: "claimed_tokens rq = Inr tokens" and books: "claim_books (rq_order_books rq) tokens = Inr []"
    and identity: "rq_cycle_id rq = cycle" "rq_decision_at rq = decisionAt" "context_equal (rq_context rq) cx"
    and ident: "compute_strategy_input_id digest rq = Inr (rq_input_id rq)"
    using assms by (auto simp: validate_claimed_input_def split: if_splits sum.splits option.splits)
  note coll = claimed_tokens_collects [OF tok, unfolded collects_def] and all = claim_books_all [OF books]
  have tokens: "ob_token_id ` set (rq_order_books rq) = bt_token_id ` set (request_targets rq)" using all coll(1) by simp
  have match: "\<exists>b\<in>set (rq_order_books rq). ob_token_id b = bt_token_id t \<and> book_of_target t b \<and> book_validate b = None \<and> ob_depth_limit b = 15"
    if t: "t \<in> set (request_targets rq)" for t
  proof -
    obtain b where b: "b \<in> set (rq_order_books rq)" "ob_token_id b = bt_token_id t"
      using tokens t by (metis (no_types, lifting) image_iff)
    moreover have "map_of tokens (bt_token_id t) = Some t" using coll(1) t by blast
    ultimately show ?thesis using all by (metis option.inject)
  qed
  have inj: "inj_on bt_token_id (set (request_targets rq))" using coll(1) by (metis inj_onI option.inject)
  show ?thesis using all coll identity ident tokens match inj by simp
qed

definition stored_request :: strategy_request where
  "stored_request = frozen_request\<lparr>rq_input_id := ''strategy-input-ab''\<rparr>"

lemma stored_request_accepted: "validate_claimed_input (\<lambda>_. Inr ''ab'') stored_request ''w1:c'' strategy_run_context 2 = None"
  by code_simp

theorem claimed_input_complete_witness:
  "distinct (map ob_token_id (rq_order_books stored_request)) \<and>
   ob_token_id ` set (rq_order_books stored_request) = bt_token_id ` set (request_targets stored_request) \<and>
   inj_on bt_token_id (set (request_targets stored_request)) \<and> map bt_token_id (request_targets stored_request) = [''t0'', ''t1'', ''t1'']"
  using claimed_input_complete [OF stored_request_accepted]
  by (simp add: request_targets_def stored_request_def frozen_request_def half_prediction_def sample_prediction_def sample_outcome_def
      prediction_targets_def lot_target_def claimed_book_identity_def)

end
