(* ===== verification/Decision_Store.thy ===== *)
theory Decision_Store
  imports Strategy_Inputs
begin

text \<open>
  The durable hand-off between strategy answers and the execution service:
  \<open>src/internal/adapter/postgres/decision_recorder.go\<close> and \<open>src/internal/domain/decision_delivery.go\<close>. The two tables
  are lists of rows; a statement is one function on them, with the meaning of its SQL text. The output column holds JSON text,
  written and read through a codec that is a parameter; requests and intents are held decoded, as they were written.
  A method takes the errors of the database as a function from the number of the statement, and the rows that other
  transactions have locked. A write that reports an error may have taken effect all the same, its acknowledgement
  lost: the flag beside the error says so. The theorems say that every method keeps the constraints of the schema
  (\<open>src/migrations/0012_strategy_decision_cycles.sql\<close>, \<open>0013_strategy_intent_deliveries.sql\<close>), that a delivery is
  claimed by one worker at a time, and that its outcome is written once.
\<close>

section \<open>Rows\<close>

datatype delivery_status =
    DecisionIntentPending | DecisionIntentSubmitting | DecisionIntentSubmitted | DecisionIntentFailed | DecisionIntentUnknown
  | DecisionIntentOther string

fun delivery_status_text :: "delivery_status \<Rightarrow> string" where
  "delivery_status_text DecisionIntentPending = ''PENDING''"
| "delivery_status_text DecisionIntentSubmitting = ''SUBMITTING''"
| "delivery_status_text DecisionIntentSubmitted = ''SUBMITTED''"
| "delivery_status_text DecisionIntentFailed = ''FAILED''"
| "delivery_status_text DecisionIntentUnknown = ''UNKNOWN''"
| "delivery_status_text (DecisionIntentOther t) = t"

text \<open>An absent text column is the empty text, as the scanner reads it.\<close>

record decision_intent_delivery =
  dd_cycle_id :: string
  dd_client_order_id :: string
  dd_sequence :: int
  dd_intent :: order_intent
  dd_status :: delivery_status
  dd_attempt :: int
  dd_claimed_at :: "gtime option"
  dd_completed_at :: "gtime option"
  dd_order_id :: string
  dd_order_status :: order_status
  dd_last_error :: string
  dd_created_at :: gtime
  dd_updated_at :: gtime

record decision_intent_completion =
  dm_status :: delivery_status
  dm_order_id :: string
  dm_order_status :: order_status
  dm_last_error :: string

record decision_run =
  dr_input :: strategy_request
  dr_output :: "string option"
  dr_decided_at :: "gtime option"
  dr_submission_enabled :: "bool option"
  dr_created_at :: gtime
  dr_updated_at :: gtime

record decision_store =
  st_runs :: "decision_run list"
  st_deliveries :: "decision_intent_delivery list"

type_synonym 'a stored = "(go_error + 'a) \<times> decision_store"
type_synonym db_errors = "nat \<Rightarrow> (go_error \<times> bool) option"

text \<open>
  \<open>json.Marshal\<close> and \<open>json.Unmarshal\<close> of an answer, and the text that PostgreSQL gives back for a JSON text stored as
  JSONB. Reading back need not give the value that was written: a \<open>Decimal\<close> is written as it is and read trimmed
  (see \<open>dec_unmarshal_json\<close>). The text of a JSONB value is never empty, so the empty text of the query stands for NULL.
\<close>

record response_codec =
  rc_marshal :: "strategy_response \<Rightarrow> go_error + string"
  rc_jsonb :: "string \<Rightarrow> string"
  rc_unmarshal :: "string \<Rightarrow> go_error + strategy_response"

definition run_cycle :: "decision_run \<Rightarrow> string" where
  "run_cycle r = rq_cycle_id (dr_input r)"

definition run_slot :: "decision_run \<Rightarrow> string \<times> gtime" where
  "run_slot r = (cx_execution_account_id (rq_context (dr_input r)), rq_decision_at (dr_input r))"


section \<open>Inputs\<close>

definition find_run :: "string \<Rightarrow> decision_store \<Rightarrow> decision_run option" where
  "find_run cycleID st = List.find (\<lambda>r. run_cycle r = cycleID) (st_runs st)"

definition load_input :: "(go_error \<times> bool) option \<Rightarrow> string \<Rightarrow> decision_store \<Rightarrow> go_error + strategy_request" where
  "load_input db cycleID st =
     (case db of
        Some (e, _) \<Rightarrow> Inl (wrap_error ''get strategy decision input'' e)
      | None \<Rightarrow> (case find_run cycleID st of None \<Rightarrow> Inl (ErrSentinel ErrDecisionRunNotFound) | Some r \<Rightarrow> Inr (dr_input r)))"

definition new_run :: "gtime \<Rightarrow> strategy_request \<Rightarrow> decision_run" where
  "new_run now rq = \<lparr>dr_input = rq, dr_output = None, dr_decided_at = None, dr_submission_enabled = None, dr_created_at = now, dr_updated_at = now\<rparr>"

definition input_identity_valid :: "input_digest \<Rightarrow> strategy_request \<Rightarrow> bool" where
  "input_identity_valid digest rq \<longleftrightarrow>
     compute_strategy_input_id digest rq = Inr (rq_input_id rq) \<and> rq_schema_version rq = StrategyInputSchemaVersion \<and>
     rq_cycle_id rq \<noteq> [] \<and> \<not> is_zero_time (rq_decision_at rq)"

text \<open>\<open>ON CONFLICT (cycle_id) DO NOTHING\<close>: the primary key decides first; the other unique keys raise.\<close>

definition slot_taken :: "gtime \<Rightarrow> strategy_request \<Rightarrow> decision_store \<Rightarrow> bool" where
  "slot_taken now rq st \<longleftrightarrow>
     list_ex (\<lambda>r. rq_input_id (dr_input r) = rq_input_id rq \<or> run_slot r = run_slot (new_run now rq)) (st_runs st)"

definition insert_run :: "gtime \<Rightarrow> strategy_request \<Rightarrow> decision_store \<Rightarrow> decision_store" where
  "insert_run now rq st =
     (if find_run (rq_cycle_id rq) st = None \<and> \<not> slot_taken now rq st then st\<lparr>st_runs := st_runs st @ [new_run now rq]\<rparr> else st)"

definition claim_input :: "input_digest \<Rightarrow> db_errors \<Rightarrow> gtime \<Rightarrow> strategy_request \<Rightarrow> decision_store \<Rightarrow> (strategy_request \<times> bool) stored" where
  "claim_input digest db now rq st =
     (if \<not> input_identity_valid digest rq then (Inl (ErrText ''strategy decision input identity is invalid''), st)
      else case context_validate (rq_context rq) of
        Some e \<Rightarrow> (Inl (wrap_error ''strategy decision context'' e), st)
      | None \<Rightarrow>
      case db 0 of
        Some (e, took) \<Rightarrow> (Inl (wrap_error ''claim strategy decision input'' e), if took then insert_run now rq st else st)
      | None \<Rightarrow>
      case find_run (rq_cycle_id rq) st of
        None \<Rightarrow>
          if slot_taken now rq st then (Inl (ErrSentinel ErrDecisionConflict), st)
          else (Inr (rq, True), insert_run now rq st)
      | Some _ \<Rightarrow>
          (case load_input (db 1) (rq_cycle_id rq) st of
             Inl e \<Rightarrow> (Inl e, st)
           | Inr stored \<Rightarrow>
               if compute_strategy_input_id digest stored \<noteq> Inr (rq_input_id stored) \<or> rq_input_id stored \<noteq> rq_input_id rq \<or>
                  rq_cycle_id stored \<noteq> rq_cycle_id rq \<or> \<not> context_equal (rq_context stored) (rq_context rq) \<or>
                  rq_decision_at stored \<noteq> rq_decision_at rq
               then (Inl (ErrSentinel ErrDecisionConflict), st)
               else (Inr (stored, False), st)))"


section \<open>Outputs\<close>

definition metadata_value :: "(string \<times> string) list \<Rightarrow> string \<Rightarrow> string" where
  "metadata_value m k = (case map_of m k of None \<Rightarrow> [] | Some v \<Rightarrow> v)"

definition belongs_to_output :: "strategy_response \<Rightarrow> order_intent \<Rightarrow> bool" where
  "belongs_to_output rs i \<longleftrightarrow>
     metadata_value (oi_metadata i) ''cycle_id'' = rs_cycle_id rs \<and> metadata_value (oi_metadata i) ''input_id'' = rs_input_id rs \<and>
     oi_execution_account_id i = cx_execution_account_id (rs_context rs) \<and> oi_model_id i = cx_model_id (rs_context rs) \<and>
     canonical_strategy_id (oi_strategy_id i) = cx_strategy_id (context_normalize (rs_context rs))"

fun encode_intents_loop :: "strategy_response \<Rightarrow> nat \<Rightarrow> string list \<Rightarrow> order_intent list \<Rightarrow> go_error + order_intent list" where
  "encode_intents_loop rs index seen [] = Inr []"
| "encode_intents_loop rs index seen (v # vs) =
     (let i = intent_normalize v in
      case intent_validate i of
        Some e \<Rightarrow> Inl (wrap_error (''strategy decision intent '' @ show_nat index) e)
      | None \<Rightarrow>
      if \<not> belongs_to_output rs i
      then Inl (ErrText (''strategy decision intent '' @ quoted (oi_client_order_id i) @ '' does not belong to its output''))
      else if oi_client_order_id i \<in> set seen
      then Inl (ErrText (''duplicate strategy decision client_order_id '' @ quoted (oi_client_order_id i)))
      else case encode_intents_loop rs (Suc index) (oi_client_order_id i # seen) vs of Inl e \<Rightarrow> Inl e | Inr rest \<Rightarrow> Inr (i # rest))"

definition encode_decision_intents :: "strategy_response \<Rightarrow> order_intent list \<Rightarrow> go_error + order_intent list" where
  "encode_decision_intents rs intents = encode_intents_loop rs 0 [] intents"

definition decision_intent_replay_equivalent :: "order_intent \<Rightarrow> order_intent \<Rightarrow> bool" where
  "decision_intent_replay_equivalent stored0 proposed0 =
     (if intent_equivalent stored0 proposed0 then True
      else
        (let stored = intent_normalize stored0; proposed = intent_normalize proposed0 in
         if market_source_normalize (oi_market_source stored) \<noteq> MarketSourceKalshi \<or>
            market_source_normalize (oi_market_source proposed) \<noteq> MarketSourceKalshi \<or>
            oi_venue stored \<noteq> ''kalshi'' \<or> oi_venue proposed \<noteq> ''kalshi'' \<or>
            oi_type stored \<noteq> OrderTypeLimit \<or> oi_type proposed \<noteq> OrderTypeLimit \<or>
            oi_time_in_force stored \<noteq> TimeInForceFOK \<or> oi_time_in_force proposed \<noteq> TimeInForceIOC \<or>
            metadata_value (oi_metadata proposed) ''strategy_time_in_force'' \<noteq> TimeInForceFOK \<or>
            metadata_value (oi_metadata proposed) ''execution_time_in_force'' \<noteq> TimeInForceIOC
         then False
         else intent_equivalent stored
           (proposed\<lparr>oi_time_in_force := TimeInForceFOK,
              oi_metadata := metadata_delete ''execution_time_in_force''
                (metadata_delete ''strategy_time_in_force'' (oi_metadata proposed))\<rparr>)))"

definition cycle_deliveries :: "string \<Rightarrow> decision_store \<Rightarrow> decision_intent_delivery list" where
  "cycle_deliveries cycleID st = sort_key dd_sequence (filter (\<lambda>d. dd_cycle_id d = cycleID) (st_deliveries st))"

definition verify_stored_decision_intents :: "(go_error \<times> bool) option \<Rightarrow> string \<Rightarrow> order_intent list \<Rightarrow> bool \<Rightarrow> decision_store \<Rightarrow> err" where
  "verify_stored_decision_intents db cycleID expected submissionEnabled st =
     (case db of
        Some (e, _) \<Rightarrow> Some (wrap_error ''list stored strategy decision intents'' e)
      | None \<Rightarrow>
          (let actual = map dd_intent (cycle_deliveries cycleID st) in
           if \<not> submissionEnabled then (if actual \<noteq> [] then Some (ErrSentinel ErrDecisionConflict) else None)
           else if \<not> list_all2 decision_intent_replay_equivalent actual expected then Some (ErrSentinel ErrDecisionConflict)
           else None))"

definition new_delivery :: "gtime \<Rightarrow> string \<Rightarrow> nat \<Rightarrow> order_intent \<Rightarrow> decision_intent_delivery" where
  "new_delivery now cycleID index i =
     \<lparr>dd_cycle_id = cycleID, dd_client_order_id = oi_client_order_id i, dd_sequence = int index, dd_intent = i,
      dd_status = DecisionIntentPending, dd_attempt = 0, dd_claimed_at = None, dd_completed_at = None, dd_order_id = [],
      dd_order_status = OrderStatusOther [], dd_last_error = [], dd_created_at = now, dd_updated_at = now\<rparr>"

definition delivery_key_taken :: "decision_intent_delivery \<Rightarrow> decision_intent_delivery list \<Rightarrow> bool" where
  "delivery_key_taken d rows \<longleftrightarrow>
     list_ex (\<lambda>r. dd_client_order_id r = dd_client_order_id d \<or> dd_cycle_id r = dd_cycle_id d \<and> dd_sequence r = dd_sequence d) rows"

text \<open>The inserts of a transaction: their rows, or the error that rolls it back.\<close>

fun insert_deliveries :: "db_errors \<Rightarrow> gtime \<Rightarrow> string \<Rightarrow> nat \<Rightarrow> order_intent list \<Rightarrow> decision_intent_delivery list \<Rightarrow> go_error + decision_intent_delivery list" where
  "insert_deliveries db now cycleID index [] rows = Inr rows"
| "insert_deliveries db now cycleID index (i # tail) rows =
     (case db index of
        Some (e, _) \<Rightarrow> Inl (wrap_error (''store strategy decision intent '' @ quoted (oi_client_order_id i)) e)
      | None \<Rightarrow>
          (let d = new_delivery now cycleID index i in
           if delivery_key_taken d rows then Inl (ErrSentinel ErrDecisionConflict)
           else insert_deliveries db now cycleID (Suc index) tail (rows @ [d])))"

definition set_output :: "gtime \<Rightarrow> strategy_response \<Rightarrow> string \<Rightarrow> bool \<Rightarrow> decision_run \<Rightarrow> decision_run" where
  "set_output now rs column submissionEnabled r =
     (if run_cycle r = rs_cycle_id rs
      then r\<lparr>dr_output := Some column, dr_decided_at := Some (rs_decided_at rs), dr_submission_enabled := Some submissionEnabled, dr_updated_at := now\<rparr>
      else r)"

text \<open>
  Statements of the transaction: begin, select, update or verify, commit, and from number 4 on the inserts. A failure
  before the commit rolls everything back. The stored answer is decoded and encoded again before it is compared
  with the bytes of the new one.
\<close>

definition replay_output ::
    "response_codec \<Rightarrow> db_errors \<Rightarrow> string \<Rightarrow> string \<Rightarrow> string \<Rightarrow> order_intent list \<Rightarrow> bool \<Rightarrow> decision_run \<Rightarrow> decision_store \<Rightarrow>
     (strategy_response \<times> bool) stored" where
  "replay_output codec db existingPayload payload cycleID payloads submissionEnabled r st =
     (case rc_unmarshal codec existingPayload of
        Inl e \<Rightarrow> (Inl (wrap_error ''decode existing strategy decision output'' e), st)
      | Inr existing \<Rightarrow>
      if rc_marshal codec existing \<noteq> Inr payload then (Inl (ErrSentinel ErrDecisionConflict), st)
      else if dr_submission_enabled r \<noteq> Some submissionEnabled then (Inl (ErrSentinel ErrDecisionConflict), st)
      else case verify_stored_decision_intents (db 2) cycleID payloads submissionEnabled st of
        Some e \<Rightarrow> (Inl e, st)
      | None \<Rightarrow>
      case db 3 of
        Some (e, _) \<Rightarrow> (Inl (wrap_error ''commit existing strategy decision output'' e), st)
      | None \<Rightarrow> (Inr (existing, False), st))"

definition store_output ::
    "db_errors \<Rightarrow> gtime \<Rightarrow> strategy_response \<Rightarrow> string \<Rightarrow> order_intent list \<Rightarrow> bool \<Rightarrow> decision_store \<Rightarrow> (strategy_response \<times> bool) stored" where
  "store_output db now rs column payloads submissionEnabled st =
     (case db 2 of
        Some (e, _) \<Rightarrow> (Inl (wrap_error ''store strategy decision output'' e), st)
      | None \<Rightarrow>
      case (if submissionEnabled then insert_deliveries (\<lambda>k. db (4 + k)) now (rs_cycle_id rs) 0 payloads (st_deliveries st)
            else Inr (st_deliveries st)) of
        Inl e \<Rightarrow> (Inl e, st)
      | Inr rows \<Rightarrow>
      (let st' = st\<lparr>st_runs := map (set_output now rs column submissionEnabled) (st_runs st), st_deliveries := rows\<rparr> in
       case db 3 of
         Some (e, took) \<Rightarrow> (Inl (wrap_error ''commit strategy decision output'' e), if took then st' else st)
       | None \<Rightarrow> (Inr (rs, True), st')))"

definition claim_output ::
    "response_codec \<Rightarrow> db_errors \<Rightarrow> gtime \<Rightarrow> strategy_response \<Rightarrow> order_intent list \<Rightarrow> bool \<Rightarrow> decision_store \<Rightarrow>
     (strategy_response \<times> bool) stored" where
  "claim_output codec db now rs intents submissionEnabled st =
     (if rs_schema_version rs \<noteq> StrategyOutputSchemaVersion \<or> rs_cycle_id rs = [] \<or> rs_input_id rs = [] \<or> is_zero_time (rs_decided_at rs)
      then (Inl (ErrText ''strategy decision output identity is invalid''), st)
      else if rs_decided_at rs > now then (Inl (ErrText ''strategy decision output decided_at must not be in the future''), st)
      else case rc_marshal codec rs of
        Inl e \<Rightarrow> (Inl (wrap_error ''encode strategy decision output'' e), st)
      | Inr payload \<Rightarrow>
      case encode_decision_intents rs intents of
        Inl e \<Rightarrow> (Inl e, st)
      | Inr payloads \<Rightarrow>
      case db 0 of
        Some (e, _) \<Rightarrow> (Inl (wrap_error ''begin strategy decision output claim'' e), st)
      | None \<Rightarrow>
      case db 1 of
        Some (e, _) \<Rightarrow> (Inl (wrap_error ''lock strategy decision run'' e), st)
      | None \<Rightarrow>
      case find_run (rs_cycle_id rs) st of
        None \<Rightarrow> (Inl (ErrSentinel ErrDecisionRunNotFound), st)
      | Some r \<Rightarrow>
      if rs_input_id rs \<noteq> rq_input_id (dr_input r) \<or> \<not> context_equal (rs_context rs) (rq_context (dr_input r)) \<or>
         rs_decided_at rs < rq_decision_at (dr_input r)
      then (Inl (ErrSentinel ErrDecisionConflict), st)
      else case dr_output r of
        Some existingPayload \<Rightarrow> replay_output codec db existingPayload payload (rs_cycle_id rs) payloads submissionEnabled r st
      | None \<Rightarrow> store_output db now rs (rc_jsonb codec payload) payloads submissionEnabled st)"


section \<open>Deliveries\<close>

fun quarantine_loop :: "string list \<Rightarrow> string list \<Rightarrow> err" where
  "quarantine_loop seen [] = None"
| "quarantine_loop seen (raw # rest) =
     (let accountID = trim_space raw in
      if accountID = [] then Some (ErrText ''quarantined execution account id is required'')
      else if accountID \<in> set seen then Some (ErrText (''duplicate quarantined execution account '' @ quoted accountID))
      else quarantine_loop (accountID # seen) rest)"

definition count_unresolved_intents_for_accounts :: "db_errors \<Rightarrow> string list \<Rightarrow> decision_store \<Rightarrow> go_error + int" where
  "count_unresolved_intents_for_accounts db accounts st =
     (if accounts = [] then Inr 0
      else case quarantine_loop [] accounts of
        Some e \<Rightarrow> Inl e
      | None \<Rightarrow>
      case db 0 of
        Some (e, _) \<Rightarrow> Inl (wrap_error ''count unresolved quarantined strategy intents'' e)
      | None \<Rightarrow> Inr (int (length (filter (\<lambda>d. (dd_status d = DecisionIntentPending \<or> dd_status d = DecisionIntentSubmitting) \<and>
          oi_execution_account_id (dd_intent d) \<in> set (map trim_space accounts)) (st_deliveries st)))))"

fun recovery_accounts_loop :: "nat \<Rightarrow> string list \<Rightarrow> string list \<Rightarrow> go_error + string list" where
  "recovery_accounts_loop index seen [] = Inr []"
| "recovery_accounts_loop index seen (raw # rest) =
     (let accountID = trim_space raw in
      if accountID = [] then Inl (ErrText (''active execution account '' @ show_nat index @ '' is empty''))
      else if accountID \<in> set seen then Inl (ErrText (''active execution account '' @ quoted accountID @ '' is duplicated''))
      else case recovery_accounts_loop (Suc index) (accountID # seen) rest of Inl e \<Rightarrow> Inl e | Inr ids \<Rightarrow> Inr (accountID # ids))"

definition normalize_decision_recovery_accounts :: "string list \<Rightarrow> go_error + string list" where
  "normalize_decision_recovery_accounts accounts =
     (if accounts = [] then Inl (ErrText ''active execution accounts are required for strategy intent recovery'')
      else recovery_accounts_loop 0 [] accounts)"

definition scan_decision_intent_delivery :: "decision_intent_delivery \<Rightarrow> go_error + decision_intent_delivery" where
  "scan_decision_intent_delivery d =
     (if \<not> intent_equivalent (dd_intent d) (intent_normalize (dd_intent d)) \<or> oi_client_order_id (dd_intent d) \<noteq> dd_client_order_id d
      then Inl (ErrText (''stored strategy decision intent '' @ quoted (dd_client_order_id d) @ '' is invalid''))
      else Inr d)"

fun scan_all :: "decision_intent_delivery list \<Rightarrow> go_error + decision_intent_delivery list" where
  "scan_all [] = Inr []"
| "scan_all (d # ds) =
     (case scan_decision_intent_delivery d of
        Inl e \<Rightarrow> Inl e
      | Inr x \<Rightarrow> (case scan_all ds of Inl e \<Rightarrow> Inl e | Inr xs \<Rightarrow> Inr (x # xs)))"

definition side_selected :: "side \<Rightarrow> decision_intent_delivery \<Rightarrow> bool" where
  "side_selected side d \<longleftrightarrow> side = [] \<or> oi_side (dd_intent d) = side"

definition claim_candidates :: "(string \<Rightarrow> bool) \<Rightarrow> string list \<Rightarrow> string \<Rightarrow> side \<Rightarrow> nat \<Rightarrow> decision_store \<Rightarrow> string list" where
  "claim_candidates locked accounts cycleID side limit st =
     map dd_client_order_id (take limit (sort_key (\<lambda>d. (dd_created_at d, dd_cycle_id d, dd_sequence d))
       (filter (\<lambda>d. dd_status d = DecisionIntentPending \<and> (cycleID = [] \<or> dd_cycle_id d = cycleID) \<and> side_selected side d \<and>
          oi_execution_account_id (dd_intent d) \<in> set accounts \<and> \<not> locked (dd_client_order_id d)) (st_deliveries st))))"

definition claimed_delivery :: "gtime \<Rightarrow> decision_intent_delivery \<Rightarrow> decision_intent_delivery" where
  "claimed_delivery now d = d\<lparr>dd_status := DecisionIntentSubmitting, dd_attempt := dd_attempt d + 1, dd_claimed_at := Some now,
     dd_completed_at := None, dd_last_error := [], dd_updated_at := now\<rparr>"

definition update_rows :: "string list \<Rightarrow> (decision_intent_delivery \<Rightarrow> decision_intent_delivery) \<Rightarrow> decision_store \<Rightarrow> decision_store" where
  "update_rows ids f st = st\<lparr>st_deliveries := map (\<lambda>d. if dd_client_order_id d \<in> set ids then f d else d) (st_deliveries st)\<rparr>"

text \<open>The order of the returned rows is restored by the sort.\<close>

definition claim_pending_intents ::
    "db_errors \<Rightarrow> (string \<Rightarrow> bool) \<Rightarrow> gtime \<Rightarrow> string list \<Rightarrow> string \<Rightarrow> side \<Rightarrow> int \<Rightarrow> decision_store \<Rightarrow> decision_intent_delivery list stored" where
  "claim_pending_intents db locked now accounts0 cycleID0 side limit st =
     (case normalize_decision_recovery_accounts accounts0 of
        Inl e \<Rightarrow> (Inl e, st)
      | Inr accounts \<Rightarrow>
      if side \<noteq> [] \<and> side \<noteq> SideBuy \<and> side \<noteq> SideSell
      then (Inl (ErrText ''decision intent claim side must be BUY, SELL, or empty''), st)
      else if limit \<le> 0 \<or> limit > 1000 then (Inl (ErrText ''decision intent claim limit must be between 1 and 1000''), st)
      else
      (let ids = claim_candidates locked accounts (trim_space cycleID0) side (nat limit) st;
           st' = update_rows ids (claimed_delivery now) st;
           claimed = filter (\<lambda>d. dd_client_order_id d \<in> set ids) (st_deliveries st') in
       case db 0 of
         Some (e, took) \<Rightarrow> (Inl (wrap_error ''claim pending strategy decision intents'' e), if took then st' else st)
       | None \<Rightarrow>
       case scan_all claimed of
         Inl e \<Rightarrow> (Inl e, st')
       | Inr rows \<Rightarrow>
       case db 1 of
         Some (e, _) \<Rightarrow> (Inl (wrap_error ''iterate claimed strategy decision intents'' e), st')
       | None \<Rightarrow> (Inr (sort_key (\<lambda>d. (dd_created_at d, dd_cycle_id d, dd_sequence d, dd_client_order_id d)) rows), st')))"

definition stale_candidates :: "(string \<Rightarrow> bool) \<Rightarrow> string list \<Rightarrow> gtime \<Rightarrow> side \<Rightarrow> nat \<Rightarrow> decision_store \<Rightarrow> string list" where
  "stale_candidates locked accounts before side limit st =
     map dd_client_order_id (take limit (sort_key (\<lambda>d. (the (dd_claimed_at d), dd_cycle_id d, dd_sequence d))
       (filter (\<lambda>d. dd_status d = DecisionIntentSubmitting \<and> (case dd_claimed_at d of None \<Rightarrow> False | Some t \<Rightarrow> t \<le> before) \<and> side_selected side d \<and>
          oi_execution_account_id (dd_intent d) \<in> set accounts \<and> \<not> locked (dd_client_order_id d)) (st_deliveries st))))"

definition requeued_delivery :: "gtime \<Rightarrow> decision_intent_delivery \<Rightarrow> decision_intent_delivery" where
  "requeued_delivery now d = d\<lparr>dd_status := DecisionIntentPending, dd_claimed_at := None, dd_completed_at := None,
     dd_last_error := ''worker claim expired before durable completion'', dd_updated_at := now\<rparr>"

definition requeue_stale_submitting ::
    "db_errors \<Rightarrow> (string \<Rightarrow> bool) \<Rightarrow> gtime \<Rightarrow> string list \<Rightarrow> gtime \<Rightarrow> side \<Rightarrow> int \<Rightarrow> decision_store \<Rightarrow> int stored" where
  "requeue_stale_submitting db locked now accounts0 before side limit st =
     (case normalize_decision_recovery_accounts accounts0 of
        Inl e \<Rightarrow> (Inl e, st)
      | Inr accounts \<Rightarrow>
      if side \<noteq> [] \<and> side \<noteq> SideBuy \<and> side \<noteq> SideSell
      then (Inl (ErrText ''stale decision intent side must be BUY, SELL, or empty''), st)
      else if is_zero_time before \<or> limit \<le> 0 \<or> limit > 1000
      then (Inl (ErrText ''stale decision intent cutoff and limit are required''), st)
      else
      (let ids = stale_candidates locked accounts before side (nat limit) st; st' = update_rows ids (requeued_delivery now) st in
       case db 0 of
         Some (e, took) \<Rightarrow> (Inl (wrap_error ''requeue stale strategy decision intents'' e), if took then st' else st)
       | None \<Rightarrow>
       case db 1 of
         Some (e, _) \<Rightarrow> (Inl (wrap_error ''count requeued strategy decision intents'' e), st')
       | None \<Rightarrow> (Inr (int (length (filter (\<lambda>d. dd_client_order_id d \<in> set ids) (st_deliveries st)))), st')))"

definition check_completion :: "decision_intent_completion \<Rightarrow> err" where
  "check_completion c =
     (case dm_status c of
        DecisionIntentSubmitted \<Rightarrow>
          if trim_space (dm_order_id c) = [] \<or> dm_order_status c = OrderStatusOther [] \<or> dm_order_status c = OrderStatusRejected \<or>
             dm_order_status c = OrderStatusUnknown \<or> dm_order_status c = OrderStatusManualReview
          then Some (ErrText ''submitted strategy decision intent requires an execution-owned non-error order state'') else None
      | DecisionIntentFailed \<Rightarrow>
          if trim_space (dm_order_id c) = [] \<or> dm_order_status c \<noteq> OrderStatusRejected
          then Some (ErrText ''failed strategy decision intent requires a rejected execution order'') else None
      | DecisionIntentUnknown \<Rightarrow>
          if trim_space (dm_order_id c) = [] \<or> dm_order_status c \<noteq> OrderStatusUnknown \<and> dm_order_status c \<noteq> OrderStatusManualReview
          then Some (ErrText ''unknown strategy decision intent requires an uncertain execution order'') else None
      | _ \<Rightarrow> Some (ErrText (''unsupported strategy decision intent completion status '' @ quoted (delivery_status_text (dm_status c)))))"

definition completed_delivery :: "gtime \<Rightarrow> decision_intent_completion \<Rightarrow> decision_intent_delivery \<Rightarrow> decision_intent_delivery" where
  "completed_delivery now c d = d\<lparr>dd_status := dm_status c, dd_completed_at := Some now, dd_order_id := trim_space (dm_order_id c),
     dd_order_status := dm_order_status c, dd_last_error := trim_space (dm_last_error c), dd_updated_at := now\<rparr>"

definition held_delivery :: "string \<Rightarrow> int \<Rightarrow> decision_intent_delivery \<Rightarrow> bool" where
  "held_delivery clientOrderID attempt d \<longleftrightarrow> dd_client_order_id d = clientOrderID \<and> dd_status d = DecisionIntentSubmitting \<and> dd_attempt d = attempt"

definition complete_intent ::
    "db_errors \<Rightarrow> gtime \<Rightarrow> string \<Rightarrow> int \<Rightarrow> decision_intent_completion \<Rightarrow> decision_store \<Rightarrow> err \<times> decision_store" where
  "complete_intent db now clientOrderID0 attempt c st =
     (let clientOrderID = trim_space clientOrderID0 in
      if clientOrderID = [] \<or> attempt \<le> 0 then (Some (ErrText ''strategy decision intent identity and attempt are required''), st)
      else case check_completion c of
        Some e \<Rightarrow> (Some e, st)
      | None \<Rightarrow>
      (let st' = st\<lparr>st_deliveries := map (\<lambda>d. if held_delivery clientOrderID attempt d then completed_delivery now c d else d) (st_deliveries st)\<rparr> in
       case db 0 of
         Some (e, took) \<Rightarrow> (Some (wrap_error ''complete strategy decision intent'' e), if took then st' else st)
       | None \<Rightarrow>
         (if length (filter (held_delivery clientOrderID attempt) (st_deliveries st)) \<noteq> 1 then Some (ErrSentinel ErrDecisionIntentConflict) else None, st')))"

definition list_intents :: "db_errors \<Rightarrow> string \<Rightarrow> decision_store \<Rightarrow> go_error + decision_intent_delivery list" where
  "list_intents db cycleID0 st =
     (let cycleID = trim_space cycleID0 in
      if cycleID = [] then Inl (ErrText ''strategy decision cycle id is required'')
      else case db 0 of
        Some (e, _) \<Rightarrow> Inl (wrap_error ''list strategy decision intents'' e)
      | None \<Rightarrow>
      case scan_all (cycle_deliveries cycleID st) of
        Inl e \<Rightarrow> Inl e
      | Inr rows \<Rightarrow> (case db 1 of Some (e, _) \<Rightarrow> Inl (wrap_error ''iterate strategy decision intents'' e) | None \<Rightarrow> Inr rows))"


section \<open>The schema\<close>

definition terminal_delivery :: "decision_intent_delivery \<Rightarrow> bool" where
  "terminal_delivery d \<longleftrightarrow> dd_status d = DecisionIntentSubmitted \<or> dd_status d = DecisionIntentFailed \<or> dd_status d = DecisionIntentUnknown"

text \<open>The CHECK constraints of a delivery: identity, status, attempt, state shape and result shape. Its key has no white space
  around it, as the recorder looks it up trimmed.\<close>

definition delivery_row_ok :: "decision_intent_delivery \<Rightarrow> bool" where
  "delivery_row_ok d \<longleftrightarrow>
     dd_client_order_id d \<noteq> [] \<and> trim_space (dd_client_order_id d) = dd_client_order_id d \<and> dd_cycle_id d \<noteq> [] \<and> dd_sequence d \<ge> 0 \<and> dd_attempt d \<ge> 0 \<and>
     (dd_status d = DecisionIntentPending \<and> dd_claimed_at d = None \<and> dd_completed_at d = None \<or>
      dd_status d = DecisionIntentSubmitting \<and> dd_claimed_at d \<noteq> None \<and> dd_completed_at d = None \<or>
      terminal_delivery d \<and> dd_claimed_at d \<noteq> None \<and> dd_completed_at d \<noteq> None) \<and>
     (if terminal_delivery d then dd_order_id d \<noteq> [] \<and> dd_order_status d \<noteq> OrderStatusOther []
      else dd_order_id d = [] \<and> dd_order_status d = OrderStatusOther [])"

text \<open>
  The CHECK constraints of a decision: its identity, \<open>strategy_decision_runs_output_time\<close> and
  \<open>strategy_decision_runs_submission_mode_shape\<close>.
\<close>

definition run_row_ok :: "decision_run \<Rightarrow> bool" where
  "run_row_ok r \<longleftrightarrow>
     run_cycle r \<noteq> [] \<and> rq_input_id (dr_input r) \<noteq> [] \<and> cx_model_id (rq_context (dr_input r)) \<noteq> [] \<and>
     cx_strategy_id (rq_context (dr_input r)) \<noteq> [] \<and> cx_execution_account_id (rq_context (dr_input r)) \<noteq> [] \<and>
     (dr_output r = None \<longleftrightarrow> dr_decided_at r = None) \<and> (dr_output r = None \<longleftrightarrow> dr_submission_enabled r = None)"

definition delivery_keys :: "decision_intent_delivery \<Rightarrow> string \<times> string \<times> int" where
  "delivery_keys d = (dd_client_order_id d, dd_cycle_id d, dd_sequence d)"

definition deliveries_ok :: "decision_intent_delivery list \<Rightarrow> bool" where
  "deliveries_ok ds \<longleftrightarrow> list_all delivery_row_ok ds \<and> distinct (map dd_client_order_id ds) \<and> distinct (map (snd \<circ> delivery_keys) ds)"

definition runs_ok :: "decision_run list \<Rightarrow> bool" where
  "runs_ok rs \<longleftrightarrow> list_all run_row_ok rs \<and> distinct (map run_cycle rs) \<and> distinct (map (rq_input_id \<circ> dr_input) rs) \<and> distinct (map run_slot rs)"

definition schema_ok :: "decision_store \<Rightarrow> bool" where
  "schema_ok st \<longleftrightarrow> runs_ok (st_runs st) \<and> deliveries_ok (st_deliveries st) \<and>
     dd_cycle_id ` set (st_deliveries st) \<subseteq> run_cycle ` set (st_runs st)"


section \<open>What a method may do to a delivery\<close>

inductive row_step :: "decision_intent_delivery \<Rightarrow> decision_intent_delivery \<Rightarrow> bool" where
  same: "row_step d d"
| claim: "dd_status d = DecisionIntentPending \<Longrightarrow> row_step d (claimed_delivery now d)"
| requeue: "dd_status d = DecisionIntentSubmitting \<Longrightarrow> row_step d (requeued_delivery now d)"
| complete: "dd_status d = DecisionIntentSubmitting \<Longrightarrow> check_completion c = None \<Longrightarrow> row_step d (completed_delivery now c d)"

lemma check_completion_None:
  assumes "check_completion c = None"
  shows "(dm_status c = DecisionIntentSubmitted \<or> dm_status c = DecisionIntentFailed \<or> dm_status c = DecisionIntentUnknown) \<and>
    trim_space (dm_order_id c) \<noteq> [] \<and> dm_order_status c \<noteq> OrderStatusOther []"
  using assms by (auto simp: check_completion_def split: delivery_status.splits if_splits)

lemma row_step_keeps:
  assumes "row_step d d'"
  shows "delivery_keys d' = delivery_keys d" and "dd_intent d' = dd_intent d" and "dd_created_at d' = dd_created_at d"
  using assms by (auto elim!: row_step.cases simp: delivery_keys_def claimed_delivery_def requeued_delivery_def completed_delivery_def)

lemma row_step_ok:
  assumes "row_step d d'" "delivery_row_ok d"
  shows "delivery_row_ok d'"
  using assms(1)
proof cases
  case (complete c now)
  then show ?thesis using assms(2) check_completion_None [of c] by (auto simp: delivery_row_ok_def terminal_delivery_def completed_delivery_def)
qed (use assms(2) in \<open>auto simp: delivery_row_ok_def terminal_delivery_def claimed_delivery_def requeued_delivery_def\<close>)

text \<open>Every change of a row raises this rank: a claim starts the next attempt, its end is a requeue or an outcome.\<close>

definition delivery_rank :: "decision_intent_delivery \<Rightarrow> int" where
  "delivery_rank d = 2 * dd_attempt d + (if dd_status d = DecisionIntentSubmitting then 0 else 1)"

definition row_later :: "decision_intent_delivery \<Rightarrow> decision_intent_delivery \<Rightarrow> bool" where
  "row_later d d' \<longleftrightarrow>
     delivery_keys d' = delivery_keys d \<and> dd_intent d' = dd_intent d \<and> dd_created_at d' = dd_created_at d \<and>
     (d' = d \<or> \<not> terminal_delivery d \<and> delivery_rank d < delivery_rank d')"

lemma row_step_later:
  assumes "row_step d d'"
  shows "row_later d d'"
proof -
  note keeps = row_step_keeps [OF assms]
  from assms show ?thesis
  proof cases
    case (complete c now)
    then have "delivery_rank d < delivery_rank d'"
      using check_completion_None [of c] by (auto simp: delivery_rank_def completed_delivery_def)
    then show ?thesis using keeps complete(2) by (simp add: row_later_def terminal_delivery_def)
  qed (use keeps in \<open>auto simp: row_later_def delivery_rank_def terminal_delivery_def claimed_delivery_def requeued_delivery_def\<close>)
qed

lemma row_later_refl [simp]: "row_later d d" by (simp add: row_later_def)

lemma row_later_trans: "row_later a b \<Longrightarrow> row_later b c \<Longrightarrow> row_later a c"
  by (auto simp: row_later_def)


section \<open>Method by method\<close>

lemma distinct_key_eq:
  assumes "distinct (map f xs)" "x \<in> set xs" "y \<in> set xs" "f x = f y"
  shows "x = y"
  using assms by (metis distinct_map inj_onD)

lemma update_rows_steps:
  assumes ok: "deliveries_ok (st_deliveries st)" and ids: "set ids \<subseteq> dd_client_order_id ` {d \<in> set (st_deliveries st). P d}"
    and f: "\<And>d. P d \<Longrightarrow> row_step d (f d)"
  shows "list_all2 row_step (st_deliveries st) (st_deliveries (update_rows ids f st))"
proof -
  have "row_step d (if dd_client_order_id d \<in> set ids then f d else d)" if d: "d \<in> set (st_deliveries st)" for d
  proof (cases "dd_client_order_id d \<in> set ids")
    case True
    then obtain e where "e \<in> set (st_deliveries st)" "P e" "dd_client_order_id d = dd_client_order_id e" using ids by auto
    then have "P d" using ok d distinct_key_eq [of dd_client_order_id "st_deliveries st" d e] by (simp add: deliveries_ok_def)
    then show ?thesis using True f by simp
  qed (simp add: row_step.same)
  then show ?thesis by (auto simp: update_rows_def list_all2_conv_all_nth)
qed

lemma claim_candidates_pending:
  "set (claim_candidates locked accounts cycleID side limit st) \<subseteq>
   dd_client_order_id ` {d \<in> set (st_deliveries st). dd_status d = DecisionIntentPending \<and> side_selected side d \<and>
     oi_execution_account_id (dd_intent d) \<in> set accounts \<and> (cycleID = [] \<or> dd_cycle_id d = cycleID)}"
  by (auto simp: claim_candidates_def dest!: in_set_takeD)

lemma stale_candidates_submitting:
  "set (stale_candidates locked accounts before side limit st) \<subseteq>
   dd_client_order_id ` {d \<in> set (st_deliveries st). dd_status d = DecisionIntentSubmitting}"
  by (auto simp: stale_candidates_def dest!: in_set_takeD)

text \<open>A claim is refused and leaves the store alone, or it updates the candidates.\<close>

lemma scan_all_Inr: "scan_all ds = Inr rows \<Longrightarrow> rows = ds"
  by (induction ds arbitrary: rows) (auto simp: scan_decision_intent_delivery_def split: sum.splits if_splits)

lemma claim_pending_cases:
  assumes "claim_pending_intents db locked now accounts0 cycleID side limit st = (r, st')"
  shows "isl r \<and> st' = st \<or>
    (\<exists>accounts ids. normalize_decision_recovery_accounts accounts0 = Inr accounts \<and> 0 < limit \<and>
       ids = claim_candidates locked accounts (trim_space cycleID) side (nat limit) st \<and> st' = update_rows ids (claimed_delivery now) st \<and>
       (isl r \<or> mset (projr r) = mset (filter (\<lambda>d. dd_client_order_id d \<in> set ids) (st_deliveries st'))))"
proof (cases "normalize_decision_recovery_accounts accounts0")
  case (Inr accounts)
  define ids where "ids = claim_candidates locked accounts (trim_space cycleID) side (nat limit) st"
  define st1 where "st1 = update_rows ids (claimed_delivery now) st"
  show ?thesis
  proof (cases "(side \<noteq> [] \<and> side \<noteq> SideBuy \<and> side \<noteq> SideSell) \<or> limit \<le> 0 \<or> limit > 1000")
    case True
    then show ?thesis using assms Inr by (auto simp: claim_pending_intents_def split: if_splits option.splits)
  next
    case False
    then have "claim_pending_intents db locked now accounts0 cycleID side limit st =
      (case db 0 of
         Some (e, took) \<Rightarrow> (Inl (wrap_error ''claim pending strategy decision intents'' e), if took then st1 else st)
       | None \<Rightarrow>
       case scan_all (filter (\<lambda>d. dd_client_order_id d \<in> set ids) (st_deliveries st1)) of
         Inl e \<Rightarrow> (Inl e, st1)
       | Inr rows \<Rightarrow>
       case db 1 of
         Some (e, _) \<Rightarrow> (Inl (wrap_error ''iterate claimed strategy decision intents'' e), st1)
       | None \<Rightarrow> (Inr (sort_key (\<lambda>d. (dd_created_at d, dd_cycle_id d, dd_sequence d, dd_client_order_id d)) rows), st1))"
      unfolding claim_pending_intents_def Let_def ids_def st1_def using Inr by auto
    then have "isl r \<and> st' = st \<or> st' = st1 \<and> (isl r \<or> mset (projr r) = mset (filter (\<lambda>d. dd_client_order_id d \<in> set ids) (st_deliveries st1)))"
      using assms by (auto split: sum.splits option.splits dest: scan_all_Inr)
    then show ?thesis using Inr False ids_def st1_def by auto
  qed
qed (use assms in \<open>auto simp: claim_pending_intents_def\<close>)

lemma claim_pending_steps:
  assumes "claim_pending_intents db locked now accounts0 cycleID side limit st = (r, st')" "deliveries_ok (st_deliveries st)"
  shows "list_all2 row_step (st_deliveries st) (st_deliveries st') \<and> st_runs st' = st_runs st"
proof (cases "st' = st")
  case False
  then obtain accounts where st': "st' = update_rows (claim_candidates locked accounts (trim_space cycleID) side (nat limit) st) (claimed_delivery now) st"
    using claim_pending_cases [OF assms(1)] by blast
  have "set (claim_candidates locked accounts (trim_space cycleID) side (nat limit) st) \<subseteq>
    dd_client_order_id ` {d \<in> set (st_deliveries st). dd_status d = DecisionIntentPending}"
    using claim_candidates_pending by fastforce
  from update_rows_steps [OF assms(2) this] show ?thesis unfolding st' by (simp add: row_step.claim update_rows_def)
qed (simp add: list.rel_refl row_step.same)

lemma requeue_cases:
  assumes "requeue_stale_submitting db locked now accounts0 before side limit st = (r, st')"
  shows "isl r \<and> st' = st \<or>
    (\<exists>accounts ids. 0 < limit \<and> ids = stale_candidates locked accounts before side (nat limit) st \<and>
       st' = update_rows ids (requeued_delivery now) st \<and>
       (isl r \<or> projr r = int (length (filter (\<lambda>d. dd_client_order_id d \<in> set ids) (st_deliveries st)))))"
proof (cases "normalize_decision_recovery_accounts accounts0")
  case (Inr accounts)
  define ids where "ids = stale_candidates locked accounts before side (nat limit) st"
  show ?thesis
  proof (cases "(side \<noteq> [] \<and> side \<noteq> SideBuy \<and> side \<noteq> SideSell) \<or> is_zero_time before \<or> limit \<le> 0 \<or> limit > 1000")
    case True
    then show ?thesis using assms Inr by (auto simp: requeue_stale_submitting_def split: if_splits option.splits)
  next
    case False
    then have "requeue_stale_submitting db locked now accounts0 before side limit st =
      (case db 0 of
         Some (e, took) \<Rightarrow> (Inl (wrap_error ''requeue stale strategy decision intents'' e), if took then update_rows ids (requeued_delivery now) st else st)
       | None \<Rightarrow>
       case db 1 of
         Some (e, _) \<Rightarrow> (Inl (wrap_error ''count requeued strategy decision intents'' e), update_rows ids (requeued_delivery now) st)
       | None \<Rightarrow> (Inr (int (length (filter (\<lambda>d. dd_client_order_id d \<in> set ids) (st_deliveries st)))), update_rows ids (requeued_delivery now) st))"
      unfolding requeue_stale_submitting_def Let_def ids_def using Inr by auto
    then have "isl r \<and> st' = st \<or> st' = update_rows ids (requeued_delivery now) st \<and>
      (isl r \<or> projr r = int (length (filter (\<lambda>d. dd_client_order_id d \<in> set ids) (st_deliveries st))))"
      using assms by (auto split: option.splits)
    then show ?thesis using False ids_def by auto
  qed
qed (use assms in \<open>auto simp: requeue_stale_submitting_def\<close>)

lemma requeue_steps:
  assumes "requeue_stale_submitting db locked now accounts0 before side limit st = (r, st')" "deliveries_ok (st_deliveries st)"
  shows "list_all2 row_step (st_deliveries st) (st_deliveries st') \<and> st_runs st' = st_runs st"
proof (cases "st' = st")
  case False
  then obtain accounts where st': "st' = update_rows (stale_candidates locked accounts before side (nat limit) st) (requeued_delivery now) st"
    using requeue_cases [OF assms(1)] by blast
  from update_rows_steps [OF assms(2) stale_candidates_submitting] show ?thesis unfolding st' by (simp add: row_step.requeue update_rows_def)
qed (simp add: list.rel_refl row_step.same)

lemma complete_steps:
  assumes "complete_intent db now client attempt c st = (e, st')"
  shows "list_all2 row_step (st_deliveries st) (st_deliveries st') \<and> st_runs st' = st_runs st"
  using assms by (auto simp: complete_intent_def Let_def held_delivery_def list_all2_conv_all_nth row_step.same row_step.complete
      split: option.splits if_splits)

text \<open>A claim of an output leaves the store alone, or it stores the output and appends its deliveries.\<close>

lemma insert_deliveries_rows:
  assumes "insert_deliveries db now cycleID index intents rows = Inr rows'" "deliveries_ok rows" "cycleID \<noteq> []"
    "\<forall>i\<in>set intents. oi_client_order_id i \<noteq> [] \<and> trim_space (oi_client_order_id i) = oi_client_order_id i"
  shows "deliveries_ok rows' \<and> rows' = rows @ map (\<lambda>(k, i). new_delivery now cycleID k i) (enumerate index intents)"
  using assms
proof (induction intents arbitrary: index rows)
  case (Cons i intents)
  define d where "d = new_delivery now cycleID index i"
  have d: "\<not> delivery_key_taken d rows" and rest: "insert_deliveries db now cycleID (Suc index) intents (rows @ [d]) = Inr rows'"
    using Cons.prems(1) by (auto simp: d_def Let_def split: option.splits if_splits)
  have "delivery_row_ok d" using Cons.prems(3,4) by (simp add: d_def new_delivery_def delivery_row_ok_def terminal_delivery_def)
  then have "deliveries_ok (rows @ [d])"
    using Cons.prems(2) d by (auto simp: deliveries_ok_def delivery_key_taken_def delivery_keys_def list_ex_iff)
  from Cons.IH [OF rest this] Cons.prems(3,4) show ?case by (auto simp: d_def)
qed simp

lemma encode_intents_loop_valid:
  "encode_intents_loop rs index seen intents = Inr payloads \<Longrightarrow>
   payloads = map intent_normalize intents \<and> (\<forall>i\<in>set payloads. intent_validate i = None \<and> belongs_to_output rs i)"
proof (induction intents arbitrary: index seen payloads)
  case (Cons v vs)
  then obtain rest where "encode_intents_loop rs (Suc index) (oi_client_order_id (intent_normalize v) # seen) vs = Inr rest"
    "payloads = intent_normalize v # rest" "intent_validate (intent_normalize v) = None" "belongs_to_output rs (intent_normalize v)"
    by (auto simp: Let_def split: option.splits if_splits sum.splits)
  then show ?case using Cons.IH by auto
qed simp

lemma valid_client_order_id: "intent_validate i = None \<Longrightarrow> oi_client_order_id i \<noteq> []"
  by (auto simp: intent_validate_def Let_def split: if_splits)

lemma encoded_ids:
  assumes "encode_decision_intents rs intents = Inr payloads"
  shows "\<forall>i\<in>set payloads. oi_client_order_id i \<noteq> [] \<and> trim_space (oi_client_order_id i) = oi_client_order_id i"
proof -
  have "payloads = map intent_normalize intents" "\<forall>i\<in>set payloads. intent_validate i = None"
    using encode_intents_loop_valid assms unfolding encode_decision_intents_def by blast+
  then have "\<forall>i\<in>set payloads. trim_space (oi_client_order_id i) = oi_client_order_id i" "\<forall>i\<in>set payloads. oi_client_order_id i \<noteq> []"
    using valid_client_order_id by (simp, blast)
  then show ?thesis by blast
qed

lemma claim_output_cases:
  assumes "claim_output codec db now rs intents submitting st = (r, st')"
  shows "st' = st \<or>
    (\<exists>payload payloads run rows. rc_marshal codec rs = Inr payload \<and> encode_decision_intents rs intents = Inr payloads \<and>
       find_run (rs_cycle_id rs) st = Some run \<and> rs_cycle_id rs \<noteq> [] \<and>
       dr_output run = None \<and> (isl r \<or> r = Inr (rs, True)) \<and> rs_input_id rs = rq_input_id (dr_input run) \<and>
       context_equal (rs_context rs) (rq_context (dr_input run)) \<and> rq_decision_at (dr_input run) \<le> rs_decided_at rs \<and>
       (if submitting then insert_deliveries (\<lambda>k. db (4 + k)) now (rs_cycle_id rs) 0 payloads (st_deliveries st) else Inr (st_deliveries st)) = Inr rows \<and>
       st' = st\<lparr>st_runs := map (set_output now rs (rc_jsonb codec payload) submitting) (st_runs st), st_deliveries := rows\<rparr>)"
proof -
  have replay: "snd (replay_output codec db existing payload c payloads submitting run st) = st" for existing payload c payloads run
    by (auto simp: replay_output_def split: option.splits sum.splits)
  have stored: "snd (store_output db now rs col payloads submitting st) = st \<or>
    (\<exists>rows. (isl (fst (store_output db now rs col payloads submitting st)) \<or> fst (store_output db now rs col payloads submitting st) = Inr (rs, True)) \<and>
      (if submitting then insert_deliveries (\<lambda>k. db (4 + k)) now (rs_cycle_id rs) 0 payloads (st_deliveries st) else Inr (st_deliveries st)) = Inr rows \<and>
      snd (store_output db now rs col payloads submitting st) =
        st\<lparr>st_runs := map (set_output now rs col submitting) (st_runs st), st_deliveries := rows\<rparr>)" for col payloads
    unfolding store_output_def Let_def by (auto split: option.splits sum.splits if_splits)
  show ?thesis
  proof (cases "st' = st")
    case False
    then obtain payload payloads run where p: "rc_marshal codec rs = Inr payload" "encode_decision_intents rs intents = Inr payloads"
        "find_run (rs_cycle_id rs) st = Some run" "rs_cycle_id rs \<noteq> []"
      and c: "rs_input_id rs = rq_input_id (dr_input run)" "context_equal (rs_context rs) (rq_context (dr_input run))"
        "\<not> rs_decided_at rs < rq_decision_at (dr_input run)"
      and r: "(r, st') = (case dr_output run of
          Some existing \<Rightarrow> replay_output codec db existing payload (rs_cycle_id rs) payloads submitting run st
        | None \<Rightarrow> store_output db now rs (rc_jsonb codec payload) payloads submitting st)"
      using assms by (auto simp: claim_output_def split: if_splits sum.splits option.splits)
    show ?thesis
    proof (cases "dr_output run")
      case None
      then show ?thesis using stored [of "rc_jsonb codec payload" payloads] r p c False
        by (cases "store_output db now rs (rc_jsonb codec payload) payloads submitting st") auto
    next
      case (Some existing)
      then show ?thesis using replay [of existing payload "rs_cycle_id rs" payloads run] r False by (metis option.simps(5) snd_conv)
    qed
  qed simp
qed

lemma find_runD: "find_run c st = Some run \<Longrightarrow> run \<in> set (st_runs st) \<and> run_cycle run = c"
  by (auto simp: find_run_def find_Some_iff)

lemma set_output_fields [simp]:
  "run_cycle (set_output now rs col b r) = run_cycle r" "dr_input (set_output now rs col b r) = dr_input r" "run_slot (set_output now rs col b r) = run_slot r"
  by (simp_all add: set_output_def run_cycle_def run_slot_def)

lemma set_output_rows:
  "map run_cycle (map (set_output now rs col b) runs) = map run_cycle runs" "map run_slot (map (set_output now rs col b) runs) = map run_slot runs"
  "map (rq_input_id \<circ> dr_input) (map (set_output now rs col b) runs) = map (rq_input_id \<circ> dr_input) runs"
  by simp_all

lemma set_output_ok: "run_row_ok r \<Longrightarrow> run_row_ok (set_output now rs col b r)"
  by (auto simp: run_row_ok_def set_output_def run_cycle_def)

lemma claim_output_ok:
  assumes "claim_output codec db now rs intents submitting st = (r, st')" "schema_ok st"
  shows "schema_ok st' \<and> (\<exists>new. st_deliveries st' = st_deliveries st @ new)"
proof (cases "st' = st")
  case False
  then obtain payload payloads run rows where p: "encode_decision_intents rs intents = Inr payloads" "find_run (rs_cycle_id rs) st = Some run" "rs_cycle_id rs \<noteq> []"
    and rows: "(if submitting then insert_deliveries (\<lambda>k. db (4 + k)) now (rs_cycle_id rs) 0 payloads (st_deliveries st) else Inr (st_deliveries st)) = Inr rows"
    and st': "st' = st\<lparr>st_runs := map (set_output now rs (rc_jsonb codec payload) submitting) (st_runs st), st_deliveries := rows\<rparr>"
    using claim_output_cases [OF assms(1)] by blast
  have runs: "runs_ok (st_runs st)" and dels: "deliveries_ok (st_deliveries st)" and fk: "dd_cycle_id ` set (st_deliveries st) \<subseteq> run_cycle ` set (st_runs st)"
    using assms(2) by (auto simp: schema_ok_def)
  note ids = encoded_ids [OF p(1)]
  have cycle: "rs_cycle_id rs \<in> run_cycle ` set (st_runs st)" using find_runD [OF p(2)] by (metis image_eqI)
  have new: "deliveries_ok rows \<and> (\<exists>new. rows = st_deliveries st @ new \<and> dd_cycle_id ` set new \<subseteq> {rs_cycle_id rs})"
  proof (cases submitting)
    case True
    then show ?thesis using insert_deliveries_rows [OF _ dels p(3) ids] rows by (fastforce simp: new_delivery_def)
  next
    case False
    then have "rows = st_deliveries st" using rows by simp
    then show ?thesis using dels by simp
  qed
  have "runs_ok (map (set_output now rs (rc_jsonb codec payload) submitting) (st_runs st))"
    using runs set_output_ok unfolding runs_ok_def set_output_rows by (auto simp: list_all_iff)
  moreover have "run_cycle ` set (map (set_output now rs (rc_jsonb codec payload) submitting) (st_runs st)) = run_cycle ` set (st_runs st)" by (simp add: image_image)
  moreover obtain new where new': "rows = st_deliveries st @ new" "dd_cycle_id ` set new \<subseteq> {rs_cycle_id rs}" using new by blast
  moreover have "dd_cycle_id ` set rows \<subseteq> run_cycle ` set (st_runs st)"
    unfolding new'(1) set_append image_Un using fk order_trans [OF new'(2)] cycle by simp
  ultimately show ?thesis using conjunct1 [OF new] unfolding st' schema_ok_def by simp
qed (use assms(2) in simp)

lemma claim_input_ok:
  assumes "claim_input digest db now rq st = (r, st')" "schema_ok st"
  shows "schema_ok st' \<and> st_deliveries st' = st_deliveries st"
proof (cases "st' = st")
  case False
  then have st': "st' = st\<lparr>st_runs := st_runs st @ [new_run now rq]\<rparr>" and rq: "input_identity_valid digest rq" "context_validate (rq_context rq) = None"
    and cycle: "find_run (rq_cycle_id rq) st = None"
    and free: "\<not> list_ex (\<lambda>r. rq_input_id (dr_input r) = rq_input_id rq \<or> run_slot r = run_slot (new_run now rq)) (st_runs st)"
    using assms(1) by (auto simp: claim_input_def insert_run_def slot_taken_def split: if_splits option.splits sum.splits)
  have "run_row_ok (new_run now rq)"
    using rq by (auto simp: run_row_ok_def new_run_def run_cycle_def input_identity_valid_def compute_strategy_input_id_def context_validate_def
        context_normalize_def canonical_strategy_id_def Let_def split: sum.splits if_splits)
  moreover have "run_cycle (new_run now rq) \<notin> run_cycle ` set (st_runs st)"
    using cycle by (auto simp: find_run_def find_None_iff new_run_def run_cycle_def)
  ultimately have "runs_ok (st_runs st @ [new_run now rq])"
    using assms(2) free by (auto simp: runs_ok_def schema_ok_def list_ex_iff new_run_def)
  then show ?thesis using assms(2) unfolding st' schema_ok_def by auto
qed (use assms(2) in simp)


section \<open>Runs of the recorder\<close>

text \<open>Any number of workers call any method, in any order, with any arguments and failures; each statement is atomic.\<close>

inductive store_step :: "decision_store \<Rightarrow> decision_store \<Rightarrow> bool" where
  input: "claim_input digest db now rq st = (r, st') \<Longrightarrow> store_step st st'"
| answer: "claim_output codec db now rs intents submitting st = (r, st') \<Longrightarrow> store_step st st'"
| claim: "claim_pending_intents db locked now accounts cycleID side limit st = (r, st') \<Longrightarrow> store_step st st'"
| requeue: "requeue_stale_submitting db locked now accounts before side limit st = (r, st') \<Longrightarrow> store_step st st'"
| complete: "complete_intent db now client attempt c st = (e, st') \<Longrightarrow> store_step st st'"

definition empty_store :: decision_store where
  "empty_store = \<lparr>st_runs = [], st_deliveries = []\<rparr>"

definition reachable_store :: "decision_store \<Rightarrow> bool" where
  "reachable_store st \<longleftrightarrow> store_step\<^sup>*\<^sup>* empty_store st"

lemma row_steps_keys:
  assumes "list_all2 row_step ds ds'"
  shows "map delivery_keys ds' = map delivery_keys ds" and "map dd_intent ds' = map dd_intent ds"
  using assms by (induction rule: list_all2_induct) (auto dest: row_step_keeps)

lemma keys_components:
  "map dd_client_order_id ds = map fst (map delivery_keys ds)" "map (snd \<circ> delivery_keys) ds = map snd (map delivery_keys ds)"
  "map dd_cycle_id ds = map (fst \<circ> snd) (map delivery_keys ds)"
  by (simp_all add: delivery_keys_def)

lemma row_steps_ok:
  assumes "list_all2 row_step (st_deliveries st) (st_deliveries st') \<and> st_runs st' = st_runs st" "schema_ok st"
  shows "schema_ok st'"
proof -
  note keys = row_steps_keys(1) [OF conjunct1 [OF assms(1)]]
  have "list_all delivery_row_ok (st_deliveries st')"
    using assms row_step_ok by (auto simp: schema_ok_def deliveries_ok_def list_all_length list_all2_conv_all_nth)
  moreover have "dd_cycle_id ` set (st_deliveries st') = dd_cycle_id ` set (st_deliveries st)"
    using keys by (metis keys_components(3) list.set_map)
  ultimately show ?thesis
    using assms keys unfolding schema_ok_def deliveries_ok_def keys_components by simp
qed

lemma store_step_schema: "store_step st st' \<Longrightarrow> schema_ok st \<Longrightarrow> schema_ok st'"
proof (induction rule: store_step.induct)
  case (claim db locked now accounts cycleID side limit st r st')
  then show ?case using row_steps_ok [OF claim_pending_steps] by (simp add: schema_ok_def)
next
  case (requeue db locked now accounts before side limit st r st')
  then show ?case using row_steps_ok [OF requeue_steps] by (simp add: schema_ok_def)
next
  case (complete db now client attempt c st e st')
  then show ?case using row_steps_ok [OF complete_steps] by simp
qed (simp_all add: claim_input_ok claim_output_ok)

lemma store_run_schema: "store_step\<^sup>*\<^sup>* st st' \<Longrightarrow> schema_ok st \<Longrightarrow> schema_ok st'"
  by (induction rule: rtranclp_induct) (auto dest: store_step_schema)

lemma empty_schema: "schema_ok empty_store"
  by (simp add: empty_store_def schema_ok_def runs_ok_def deliveries_ok_def)

text \<open>
  C17. Whatever the workers do, and whatever fails, the recorder never asks the database for a row that its schema forbids:
  identities are unique and not empty, a decision has an output exactly when it has a decision time and exactly when it
  has a submission mode, a delivery is PENDING without a claim, SUBMITTING with one, or finished with a claim, a
  completion time, an order id and an order status, and every delivery belongs to a recorded decision.
\<close>

theorem recorder_keeps_schema:
  assumes "reachable_store st"
  shows "schema_ok st"
  using store_run_schema [OF assms [unfolded reachable_store_def] empty_schema] .


section \<open>Deliveries over time\<close>

lemma store_step_later:
  assumes "store_step st st'" "schema_ok st" "d \<in> set (st_deliveries st)"
  shows "\<exists>d'\<in>set (st_deliveries st'). row_later d d'"
proof -
  have rows: "\<exists>d'\<in>set (st_deliveries st'). row_later d d'" if "list_all2 row_step (st_deliveries st) (st_deliveries st') \<and> st_runs st' = st_runs st"
    using that assms(3) row_step_later unfolding list_all2_conv_all_nth by (metis in_set_conv_nth)
  have kept: "\<exists>d'\<in>set (st_deliveries st'). row_later d d'" if "\<exists>new. st_deliveries st' = st_deliveries st @ new"
    using that assms(3) row_later_refl by (metis Un_iff set_append)
  from assms(1) show ?thesis
  proof cases
    case (input digest db now rq r)
    then show ?thesis using claim_input_ok [OF input assms(2)] kept by simp
  next
    case (answer codec db now rs intents submitting r)
    then show ?thesis using claim_output_ok [OF answer assms(2)] kept by simp
  next
    case (claim db locked now accounts cycleID side limit r)
    then show ?thesis using claim_pending_steps [OF claim] assms(2) rows by (simp add: schema_ok_def)
  next
    case (requeue db locked now accounts before side limit r)
    then show ?thesis using requeue_steps [OF requeue] assms(2) rows by (simp add: schema_ok_def)
  next
    case (complete db now client attempt c e)
    then show ?thesis using complete_steps [OF complete] rows by simp
  qed
qed

lemma store_run_later:
  assumes "store_step\<^sup>*\<^sup>* st st'" "schema_ok st" "d \<in> set (st_deliveries st)"
  shows "\<exists>d'\<in>set (st_deliveries st'). row_later d d'"
  using assms(1)
proof (induction rule: rtranclp_induct)
  case (step st1 st2)
  then obtain d1 where d1: "d1 \<in> set (st_deliveries st1)" "row_later d d1" by blast
  then show ?case using store_step_later [OF step(2) store_run_schema [OF step(1) assms(2)] d1(1)] row_later_trans by blast
qed (use assms(3) row_later_refl in blast)

lemma same_client_same_row:
  assumes "schema_ok st" "d \<in> set (st_deliveries st)" "e \<in> set (st_deliveries st)" "dd_client_order_id d = dd_client_order_id e"
  shows "d = e"
  using assms distinct_key_eq unfolding schema_ok_def deliveries_ok_def by metis

text \<open>
  C15. An intent that the recorder accepted stays: its row is never removed, keeps its intent and its place in the strategy's
  order, and once its outcome (SUBMITTED, FAILED or UNKNOWN) is written the row never changes again. In particular no delivery
  with an UNKNOWN outcome is ever claimed again.
\<close>

theorem delivery_outcome_is_final:
  assumes "reachable_store st" "store_step\<^sup>*\<^sup>* st st'" "d \<in> set (st_deliveries st)"
  shows "\<exists>!d'. d' \<in> set (st_deliveries st') \<and> dd_client_order_id d' = dd_client_order_id d \<and> row_later d d'"
proof -
  have ok: "schema_ok st" "schema_ok st'"
    using assms(1,2) store_run_schema empty_schema unfolding reachable_store_def by blast+
  obtain d' where d': "d' \<in> set (st_deliveries st')" "row_later d d'" using store_run_later [OF assms(2) ok(1) assms(3)] by blast
  then have "dd_client_order_id d' = dd_client_order_id d" by (simp add: row_later_def delivery_keys_def)
  then show ?thesis using d' same_client_same_row [OF ok(2)] by metis
qed

lemma claim_pending_rows:
  assumes "claim_pending_intents db locked now accounts cycleID side limit st = (Inr rows, st')" "schema_ok st" "d \<in> set rows"
  shows "d \<in> set (st_deliveries st') \<and> dd_status d = DecisionIntentSubmitting \<and>
    (\<exists>d0\<in>set (st_deliveries st). dd_status d0 = DecisionIntentPending \<and> d = claimed_delivery now d0)"
proof -
  obtain accs where st': "st' = update_rows (claim_candidates locked accs (trim_space cycleID) side (nat limit) st) (claimed_delivery now) st"
    and rows: "mset rows = mset (filter (\<lambda>d. dd_client_order_id d \<in> set (claim_candidates locked accs (trim_space cycleID) side (nat limit) st)) (st_deliveries st'))"
    using claim_pending_cases [OF assms(1)] by auto
  let ?ids = "claim_candidates locked accs (trim_space cycleID) side (nat limit) st"
  have d: "d \<in> set (st_deliveries st')" "dd_client_order_id d \<in> set ?ids" using assms(3) rows by (metis (no_types, lifting) mem_Collect_eq set_filter set_mset_mset)+
  then obtain d0 where d0: "d0 \<in> set (st_deliveries st)" "d = (if dd_client_order_id d0 \<in> set ?ids then claimed_delivery now d0 else d0)"
    unfolding st' update_rows_def by auto
  have "dd_client_order_id d0 \<in> set ?ids" using d(2) d0(2) by (auto simp: claimed_delivery_def split: if_splits)
  then obtain e where e: "e \<in> set (st_deliveries st)" "dd_status e = DecisionIntentPending" "dd_client_order_id d0 = dd_client_order_id e"
    using claim_candidates_pending [of locked accs "trim_space cycleID" side "nat limit" st] by auto
  then have "dd_status d0 = DecisionIntentPending" using same_client_same_row [OF assms(2) d0(1) e(1)] by simp
  then show ?thesis using d(1) d0 \<open>dd_client_order_id d0 \<in> set ?ids\<close> by (auto simp: claimed_delivery_def)
qed

text \<open>
  C14. Claims are exclusive and fenced. After a worker claimed a delivery, whatever happens next, another claim of the same
  delivery has a higher attempt number, and a completion under the old attempt is accepted only while the row is still exactly
  the claimed one; it then writes the outcome.
\<close>

theorem claims_are_fenced:
  assumes "reachable_store st" "claim_pending_intents db locked now accounts cycleID side limit st = (Inr rows, st1)" "d \<in> set rows"
    and run: "store_step\<^sup>*\<^sup>* st1 st2"
  shows "(\<forall>db locked now accounts cycleID side limit rows' st3 d'.
      claim_pending_intents db locked now accounts cycleID side limit st2 = (Inr rows', st3) \<and> d' \<in> set rows' \<and>
      dd_client_order_id d' = dd_client_order_id d \<longrightarrow> dd_attempt d < dd_attempt d') \<and>
    (\<forall>db now c st3. complete_intent db now (dd_client_order_id d) (dd_attempt d) c st2 = (None, st3) \<longrightarrow>
      d \<in> set (st_deliveries st2) \<and> completed_delivery now c d \<in> set (st_deliveries st3))"
proof -
  have ok: "schema_ok st" using assms(1) store_run_schema empty_schema unfolding reachable_store_def by blast
  have ok1: "schema_ok st1" using store_step_schema [OF store_step.claim [OF assms(2)] ok] .
  have ok2: "schema_ok st2" using store_run_schema [OF run ok1] .
  have d: "d \<in> set (st_deliveries st1)" "dd_status d = DecisionIntentSubmitting" using claim_pending_rows [OF assms(2) ok assms(3)] by auto
  obtain d2 where d2: "d2 \<in> set (st_deliveries st2)" "row_later d d2" using store_run_later [OF run ok1 d(1)] by blast
  have client: "dd_client_order_id d2 = dd_client_order_id d" using d2(2) by (simp add: row_later_def delivery_keys_def)
  have again: "dd_attempt d < dd_attempt d'" if c: "claim_pending_intents db locked now accounts cycleID side limit st2 = (Inr rows', st3)" "d' \<in> set rows'"
    "dd_client_order_id d' = dd_client_order_id d" for db locked now accounts cycleID side limit rows' st3 d'
  proof -
    obtain e where e: "e \<in> set (st_deliveries st2)" "dd_status e = DecisionIntentPending" "d' = claimed_delivery now e"
      using claim_pending_rows [OF c(1) ok2 c(2)] by blast
    have "e = d2" using same_client_same_row [OF ok2 e(1) d2(1)] c(3) client e(3) by (simp add: claimed_delivery_def)
    then show ?thesis using d2(2) d(2) e by (auto simp: row_later_def delivery_rank_def claimed_delivery_def)
  qed
  have key: "trim_space (dd_client_order_id d) = dd_client_order_id d"
    using ok1 d(1) by (simp add: schema_ok_def deliveries_ok_def list_all_iff delivery_row_ok_def)
  have held: "d \<in> set (st_deliveries st2) \<and> completed_delivery now c d \<in> set (st_deliveries st3)"
    if c: "complete_intent db now (dd_client_order_id d) (dd_attempt d) c st2 = (None, st3)" for db now c st3
  proof -
    have st3: "length (filter (held_delivery (dd_client_order_id d) (dd_attempt d)) (st_deliveries st2)) = 1"
      "st3 = st2\<lparr>st_deliveries := map (\<lambda>e. if held_delivery (dd_client_order_id d) (dd_attempt d) e then completed_delivery now c e else e) (st_deliveries st2)\<rparr>"
      using c key by (auto simp: complete_intent_def Let_def split: if_splits option.splits)
    then obtain e where "e \<in> set (filter (held_delivery (dd_client_order_id d) (dd_attempt d)) (st_deliveries st2))"
      by (cases "filter (held_delivery (dd_client_order_id d) (dd_attempt d)) (st_deliveries st2)") auto
    then have e: "e \<in> set (st_deliveries st2)" "held_delivery (dd_client_order_id d) (dd_attempt d) e" by auto
    have "e = d2" using same_client_same_row [OF ok2 e(1) d2(1)] e(2) client by (simp add: held_delivery_def)
    then have "delivery_rank d2 = delivery_rank d" using e(2) d(2) by (simp add: held_delivery_def delivery_rank_def)
    then have "e = d" using d2(2) \<open>e = d2\<close> by (auto simp: row_later_def)
    then show ?thesis using e unfolding st3(2) by (auto intro!: image_eqI)
  qed
  show ?thesis using again held by blast
qed


section \<open>The first answer stays\<close>

lemma insort_key_rel:
  assumes "R x y" "list_all2 R xs ys" "\<And>a b. R a b \<Longrightarrow> f a = f b"
  shows "list_all2 R (insort_key f x xs) (insort_key f y ys)"
  using assms(2) assms(1) by (induction rule: list_all2_induct) (auto simp: assms(3))

lemma sort_filter_rel:
  assumes "list_all2 R xs ys" "\<And>a b. R a b \<Longrightarrow> f a = f b" "\<And>a b. R a b \<Longrightarrow> P a = P b"
  shows "list_all2 R (sort_key f (filter P xs)) (sort_key f (filter P ys))"
  using assms(1)
proof (induction rule: list_all2_induct)
  case (Cons x xs y ys)
  then show ?case using assms(3) [of x y] insort_key_rel [of R x y, OF _ Cons.IH assms(2)] by simp
qed simp

lemma row_steps_cycle:
  assumes "list_all2 row_step (st_deliveries st) (st_deliveries st')"
  shows "map dd_intent (cycle_deliveries c st') = map dd_intent (cycle_deliveries c st)"
proof -
  have "list_all2 row_step (cycle_deliveries c st) (cycle_deliveries c st')"
    unfolding cycle_deliveries_def
    by (rule sort_filter_rel [OF assms]) (auto dest: row_step_keeps(1) simp: delivery_keys_def)
  then show ?thesis by (induction rule: list_all2_induct) (auto dest: row_step_keeps)
qed

lemma find_run_map: "find_run c (st\<lparr>st_runs := map (set_output now rs col b) (st_runs st)\<rparr>) = map_option (set_output now rs col b) (find_run c st)"
proof -
  have "List.find (\<lambda>r. run_cycle r = c) (map (set_output now rs col b) runs) = map_option (set_output now rs col b) (List.find (\<lambda>r. run_cycle r = c) runs)" for runs
    by (induction runs) auto
  then show ?thesis by (simp add: find_run_def)
qed

lemma find_run_append: "find_run c st = Some r \<Longrightarrow> find_run c (st\<lparr>st_runs := st_runs st @ more_runs\<rparr>) = Some r"
proof -
  have "List.find P runs = Some r \<Longrightarrow> List.find P (runs @ more_runs) = Some r" for P and runs :: "decision_run list"
    by (induction runs) (auto split: if_splits)
  then show "find_run c st = Some r \<Longrightarrow> find_run c (st\<lparr>st_runs := st_runs st @ more_runs\<rparr>) = Some r" by (simp add: find_run_def)
qed

lemma find_run_deliveries [simp]: "find_run c (st\<lparr>st_runs := rs, st_deliveries := ds\<rparr>) = find_run c (st\<lparr>st_runs := rs\<rparr>)"
  by (simp add: find_run_def)

text \<open>Deliveries exist only for answered cycles; an answered cycle keeps its run, its answer and its intents.\<close>

definition answered_cycle :: "string \<Rightarrow> decision_store \<Rightarrow> bool" where
  "answered_cycle c st \<longleftrightarrow> (\<exists>r. find_run c st = Some r \<and> dr_output r \<noteq> None)"

definition answer_fixed :: "decision_run \<Rightarrow> order_intent list \<Rightarrow> decision_store \<Rightarrow> bool" where
  "answer_fixed r intents st \<longleftrightarrow> find_run (run_cycle r) st = Some r \<and> dr_output r \<noteq> None \<and> map dd_intent (cycle_deliveries (run_cycle r) st) = intents"

lemma claim_output_other:
  assumes "claim_output codec db now rs intents submitting st = (r, st')" "find_run c st = Some run" "dr_output run \<noteq> None"
  shows "find_run c st' = Some run \<and> cycle_deliveries c st' = cycle_deliveries c st"
proof (cases "st' = st")
  case False
  then obtain payload payloads new rows where new: "find_run (rs_cycle_id rs) st = Some new" "dr_output new = None"
    and rows: "(if submitting then insert_deliveries (\<lambda>k. db (4 + k)) now (rs_cycle_id rs) 0 payloads (st_deliveries st) else Inr (st_deliveries st)) = Inr rows"
    and st': "st' = st\<lparr>st_runs := map (set_output now rs (rc_jsonb codec payload) submitting) (st_runs st), st_deliveries := rows\<rparr>"
    using claim_output_cases [OF assms(1)] by blast
  have c: "rs_cycle_id rs \<noteq> c" using new assms(2,3) by auto
  have "insert_deliveries db' now (rs_cycle_id rs) k is1 ds = Inr rows' \<Longrightarrow>
    filter (\<lambda>d. dd_cycle_id d = c) rows' = filter (\<lambda>d. dd_cycle_id d = c) ds" for db' k is1 ds rows'
    using c by (induction is1 arbitrary: k ds) (auto simp: Let_def new_delivery_def split: option.splits if_splits)
  then have "filter (\<lambda>d. dd_cycle_id d = c) rows = filter (\<lambda>d. dd_cycle_id d = c) (st_deliveries st)"
    using rows by (auto split: if_splits)
  moreover have "set_output now rs (rc_jsonb codec payload) submitting run = run" using c find_runD [OF assms(2)] by (auto simp: set_output_def)
  ultimately show ?thesis using assms(2) by (simp add: st' find_run_map cycle_deliveries_def)
qed (use assms(2) in simp)

lemma claim_input_other:
  assumes "claim_input digest db now rq st = (r, st')" "find_run c st = Some run"
  shows "find_run c st' = Some run"
proof (cases "st' = st")
  case False
  then have "st' = st\<lparr>st_runs := st_runs st @ [new_run now rq]\<rparr>"
    using assms(1) by (auto simp: claim_input_def insert_run_def split: if_splits option.splits sum.splits)
  then show ?thesis using find_run_append [OF assms(2)] by simp
qed (use assms(2) in simp)

lemma rows_only_runs: "st_runs st' = st_runs st \<Longrightarrow> find_run c st' = find_run c st"
  by (simp add: find_run_def)

lemma store_step_answer:
  assumes "store_step st st'" "schema_ok st" "answer_fixed r intents st"
  shows "answer_fixed r intents st'"
proof -
  have rows: "answer_fixed r intents st'" if "list_all2 row_step (st_deliveries st) (st_deliveries st') \<and> st_runs st' = st_runs st"
    using that assms(3) row_steps_cycle rows_only_runs unfolding answer_fixed_def by metis
  have ok: "deliveries_ok (st_deliveries st)" using assms(2) by (simp add: schema_ok_def)
  from assms(1) show ?thesis
  proof cases
    case (input digest db now rq res)
    then show ?thesis
      using claim_input_ok [OF input assms(2)] claim_input_other [OF input] assms(3) by (simp add: answer_fixed_def cycle_deliveries_def)
  next
    case (answer codec db now rs is1 submitting res)
    then show ?thesis using claim_output_other [OF answer] assms(3) by (simp add: answer_fixed_def)
  next
    case (claim db locked now accounts cycleID side limit res)
    then show ?thesis using claim_pending_steps [OF claim ok] rows by simp
  next
    case (requeue db locked now accounts before side limit res)
    then show ?thesis using requeue_steps [OF requeue ok] rows by simp
  next
    case (complete db now client attempt c e)
    then show ?thesis using complete_steps [OF complete] rows by simp
  qed
qed

lemma store_run_answer:
  assumes "store_step\<^sup>*\<^sup>* st st'" "schema_ok st" "answer_fixed r intents st"
  shows "answer_fixed r intents st'"
  using assms(1) by (induction rule: rtranclp_induct) (use assms(2,3) store_step_answer store_run_schema in blast)+

definition answered_deliveries :: "decision_store \<Rightarrow> bool" where
  "answered_deliveries st \<longleftrightarrow> (\<forall>d\<in>set (st_deliveries st). answered_cycle (dd_cycle_id d) st)"

lemma claim_output_stored:
  assumes "claim_output codec db now rs intents submitting st = (res, st')" "schema_ok st" "st' \<noteq> st"
  shows "\<exists>payload payloads run. rc_marshal codec rs = Inr payload \<and> encode_decision_intents rs intents = Inr payloads \<and>
    find_run (rs_cycle_id rs) st = Some run \<and> dr_output run = None \<and>
    (isl res \<or> res = Inr (rs, True)) \<and> rs_input_id rs = rq_input_id (dr_input run) \<and> context_equal (rs_context rs) (rq_context (dr_input run)) \<and>
    rq_decision_at (dr_input run) \<le> rs_decided_at rs \<and> find_run (rs_cycle_id rs) st' = Some (set_output now rs (rc_jsonb codec payload) submitting run) \<and>
    st_deliveries st' = st_deliveries st @
      (if submitting then map (\<lambda>(k, i). new_delivery now (rs_cycle_id rs) k i) (enumerate 0 payloads) else [])"
proof -
  obtain payload payloads run rows where p: "rc_marshal codec rs = Inr payload" "encode_decision_intents rs intents = Inr payloads"
      "find_run (rs_cycle_id rs) st = Some run" "rs_cycle_id rs \<noteq> []"
      "dr_output run = None" "isl res \<or> res = Inr (rs, True)" "rs_input_id rs = rq_input_id (dr_input run)"
      "context_equal (rs_context rs) (rq_context (dr_input run))" "rq_decision_at (dr_input run) \<le> rs_decided_at rs"
    and rows: "(if submitting then insert_deliveries (\<lambda>k. db (4 + k)) now (rs_cycle_id rs) 0 payloads (st_deliveries st) else Inr (st_deliveries st)) = Inr rows"
    and st': "st' = st\<lparr>st_runs := map (set_output now rs (rc_jsonb codec payload) submitting) (st_runs st), st_deliveries := rows\<rparr>"
    using claim_output_cases [OF assms(1)] assms(3) by blast
  note ids = encoded_ids [OF p(2)]
  have "rows = st_deliveries st @ (if submitting then map (\<lambda>(k, i). new_delivery now (rs_cycle_id rs) k i) (enumerate 0 payloads) else [])"
    using insert_deliveries_rows [OF _ _ p(4) ids, of "\<lambda>k. db (4 + k)" now 0 "st_deliveries st" rows] rows assms(2)
    unfolding schema_ok_def by (cases submitting) simp_all
  then show ?thesis using p by (simp add: st' find_run_map)
qed

lemma answered_rows:
  assumes "st_runs st' = st_runs st" "map delivery_keys (st_deliveries st') = map delivery_keys (st_deliveries st)" "answered_deliveries st"
  shows "answered_deliveries st'"
proof -
  have "map dd_cycle_id (st_deliveries st') = map dd_cycle_id (st_deliveries st)" unfolding keys_components assms(2) ..
  then have "dd_cycle_id ` set (st_deliveries st') = dd_cycle_id ` set (st_deliveries st)" by (metis list.set_map)
  moreover have "answered_cycle c st' = answered_cycle c st" for c using rows_only_runs [OF assms(1)] by (simp add: answered_cycle_def)
  ultimately show ?thesis using assms(3) unfolding answered_deliveries_def by (metis (no_types, opaque_lifting) image_iff)
qed

lemma store_step_answered:
  assumes "store_step st st'" "schema_ok st" "answered_deliveries st"
  shows "answered_deliveries st'"
proof -
  have ok: "deliveries_ok (st_deliveries st)" using assms(2) by (simp add: schema_ok_def)
  from assms(1) show ?thesis
  proof cases
    case (input digest db now rq res)
    then show ?thesis
      using claim_input_ok [OF input assms(2)] claim_input_other [OF input] assms(3) by (fastforce simp: answered_deliveries_def answered_cycle_def)
  next
    case (answer codec db now rs is1 submitting res)
    show ?thesis
    proof (cases "st' = st")
      case False
      then obtain payload payloads run where new: "find_run (rs_cycle_id rs) st' = Some (set_output now rs (rc_jsonb codec payload) submitting run)" "find_run (rs_cycle_id rs) st = Some run"
        "st_deliveries st' = st_deliveries st @
          (if submitting then map (\<lambda>(k, i). new_delivery now (rs_cycle_id rs) k i) (enumerate 0 payloads) else [])"
        using claim_output_stored [OF answer assms(2)] by blast
      have "answered_cycle (rs_cycle_id rs) st'"
        using new(1) find_runD [OF new(2)] by (simp add: answered_cycle_def set_output_def)
      moreover have "answered_cycle (dd_cycle_id d) st'" if "d \<in> set (st_deliveries st)" for d
        using that assms(3) claim_output_other [OF answer] unfolding answered_deliveries_def answered_cycle_def by blast
      ultimately show ?thesis unfolding answered_deliveries_def new(3) by (auto simp: new_delivery_def split: if_splits)
    qed (use assms(3) in simp)
  next
    case (claim db locked now accounts cycleID side limit res)
    then show ?thesis using claim_pending_steps [OF claim ok] row_steps_keys(1) answered_rows assms(3) by blast
  next
    case (requeue db locked now accounts before side limit res)
    then show ?thesis using requeue_steps [OF requeue ok] row_steps_keys(1) answered_rows assms(3) by blast
  next
    case (complete db now client attempt c e)
    then show ?thesis using complete_steps [OF complete] row_steps_keys(1) answered_rows assms(3) by blast
  qed
qed

lemma reachable_ok:
  assumes "reachable_store st"
  shows "schema_ok st" "answered_deliveries st"
proof -
  have "schema_ok st \<and> answered_deliveries st" using assms unfolding reachable_store_def
    by (induction rule: rtranclp_induct)
      (use empty_schema store_step_schema store_step_answered in \<open>auto simp: answered_deliveries_def empty_store_def\<close>)
  then show "schema_ok st" "answered_deliveries st" by simp_all
qed

lemma enumerate_intents: "map dd_intent (map (\<lambda>(k, i). new_delivery now c k i) (enumerate n intents)) = intents"
  by (induction intents arbitrary: n) (auto simp: new_delivery_def)

lemma enumerate_sorted: "sort_key dd_sequence (map (\<lambda>(k, i). new_delivery now c k i) (enumerate n intents)) = map (\<lambda>(k, i). new_delivery now c k i) (enumerate n intents)"
proof -
  have "sorted (map dd_sequence (map (\<lambda>(k, i). new_delivery now c k i) (enumerate n intents))) \<and>
    (\<forall>d \<in> set (map (\<lambda>(k, i). new_delivery now c k i) (enumerate n intents)). int n \<le> dd_sequence d)"
  proof (induction intents arbitrary: n)
    case (Cons i intents)
    from Cons.IH [of "Suc n"] show ?case by (auto simp: new_delivery_def)
  qed simp
  then show ?thesis by (intro sort_key_id_if_sorted) blast
qed

lemma answer_created:
  assumes "claim_output codec db now rs intents submitting st = (Inr (rs', True), st1)"
  shows "st1 \<noteq> st"
proof
  assume same: "st1 = st"
  have "fst (replay_output codec db existing payload c payloads submitting run st) \<noteq> Inr (rs', True)" for existing payload c payloads run
    by (auto simp: replay_output_def split: option.splits sum.splits)
  moreover have "store_output db now rs col payloads submitting st \<noteq> (Inr (rs', True), st)"
    if run: "find_run (rs_cycle_id rs) st = Some run" "dr_output run = None" for col payloads run
  proof
    assume "store_output db now rs col payloads submitting st = (Inr (rs', True), st)"
    moreover have "\<not> isl (fst (store_output db now rs col payloads submitting st)) \<Longrightarrow>
        st_runs (snd (store_output db now rs col payloads submitting st)) = map (set_output now rs col submitting) (st_runs st)"
      by (auto simp: store_output_def Let_def split: option.splits sum.splits if_splits)
    ultimately have "st_runs st = map (set_output now rs col submitting) (st_runs st)" by simp
    then have "set_output now rs col submitting run = run" using find_runD [OF run(1)] by (metis in_set_conv_nth length_map nth_map)
    then show False using find_runD [OF run(1)] run(2) by (auto simp: set_output_def dest: arg_cong [of _ _ dr_output])
  qed
  ultimately show False using assms same by (auto simp: claim_output_def split: if_splits sum.splits option.splits) (metis fst_conv)
qed

lemma answer_is_fixed:
  assumes "reachable_store st" "claim_output codec db now rs intents submitting st = (Inr (rs', True), st1)"
  shows "\<exists>payload payloads r. rc_marshal codec rs = Inr payload \<and> encode_decision_intents rs intents = Inr payloads \<and>
    run_cycle r = rs_cycle_id rs \<and> dr_output r = Some (rc_jsonb codec payload) \<and>
    dr_submission_enabled r = Some submitting \<and> rs_input_id rs = rq_input_id (dr_input r) \<and> context_equal (rs_context rs) (rq_context (dr_input r)) \<and>
    rq_decision_at (dr_input r) \<le> rs_decided_at rs \<and> rs' = rs \<and> answer_fixed r (if submitting then payloads else []) st1"
proof -
  note ok = reachable_ok [OF assms(1)]
  obtain payload payloads run where p: "rc_marshal codec rs = Inr payload" "encode_decision_intents rs intents = Inr payloads"
      "find_run (rs_cycle_id rs) st = Some run" "dr_output run = None"
      "rs_input_id rs = rq_input_id (dr_input run)" "context_equal (rs_context rs) (rq_context (dr_input run))"
      "rq_decision_at (dr_input run) \<le> rs_decided_at rs"
      "find_run (rs_cycle_id rs) st1 = Some (set_output now rs (rc_jsonb codec payload) submitting run)" "rs' = rs"
    and rows: "st_deliveries st1 = st_deliveries st @
      (if submitting then map (\<lambda>(k, i). new_delivery now (rs_cycle_id rs) k i) (enumerate 0 payloads) else [])"
    using claim_output_stored [OF assms(2) ok(1) answer_created [OF assms(2)]] by auto
  have cyc: "run_cycle run = rs_cycle_id rs" using find_runD [OF p(3)] by simp
  have "filter (\<lambda>d. dd_cycle_id d = rs_cycle_id rs) (st_deliveries st) = []"
    using ok(2) p(3,4) by (auto simp: answered_deliveries_def answered_cycle_def filter_empty_conv)
  moreover have "filter (\<lambda>d. dd_cycle_id d = rs_cycle_id rs) (map (\<lambda>(k, i). new_delivery now (rs_cycle_id rs) k i) (enumerate 0 payloads)) =
      map (\<lambda>(k, i). new_delivery now (rs_cycle_id rs) k i) (enumerate 0 payloads)"
    by (auto simp: filter_id_conv new_delivery_def)
  ultimately have "map dd_intent (cycle_deliveries (rs_cycle_id rs) st1) = (if submitting then payloads else [])"
    unfolding cycle_deliveries_def rows by (simp add: enumerate_sorted enumerate_intents del: map_map)
  then have "answer_fixed (set_output now rs (rc_jsonb codec payload) submitting run) (if submitting then payloads else []) st1"
    using p(8) cyc by (simp add: answer_fixed_def, simp add: set_output_def)
  moreover have "dr_output (set_output now rs (rc_jsonb codec payload) submitting run) = Some (rc_jsonb codec payload)"
      "dr_submission_enabled (set_output now rs (rc_jsonb codec payload) submitting run) = Some submitting"
    using cyc by (simp_all add: set_output_def)
  ultimately show ?thesis using p(1,2,5,6,7,9) cyc by (metis set_output_fields(1,2))
qed

lemma replay_refl: "intent_validate i = None \<Longrightarrow> decision_intent_replay_equivalent i i"
  by (simp add: decision_intent_replay_equivalent_def intent_equivalent_refl)

lemma fixed_answer_replays:
  assumes fixed: "answer_fixed r (if submitting then payloads else []) st" and enc: "encode_decision_intents rs intents = Inr payloads"
    and pay: "rc_marshal codec rs = Inr payload"
    and r: "run_cycle r = rs_cycle_id rs" "dr_output r = Some (rc_jsonb codec payload)" "dr_submission_enabled r = Some submitting"
      "rs_input_id rs = rq_input_id (dr_input r)" "context_equal (rs_context rs) (rq_context (dr_input r))" "rq_decision_at (dr_input r) \<le> rs_decided_at rs"
    and rs: "rs_schema_version rs = StrategyOutputSchemaVersion" "rs_cycle_id rs \<noteq> []" "rs_input_id rs \<noteq> []" "\<not> is_zero_time (rs_decided_at rs)"
      "rs_decided_at rs \<le> now"
  shows "claim_output codec (\<lambda>_. None) now rs intents submitting st =
    ((case rc_unmarshal codec (rc_jsonb codec payload) of
        Inl e \<Rightarrow> Inl (wrap_error ''decode existing strategy decision output'' e)
      | Inr stored \<Rightarrow> if rc_marshal codec stored = Inr payload then Inr (stored, False) else Inl (ErrSentinel ErrDecisionConflict)), st)"
proof -
  have "\<forall>i\<in>set payloads. intent_validate i = None"
    using encode_intents_loop_valid enc unfolding encode_decision_intents_def by blast
  then have "list_all2 decision_intent_replay_equivalent payloads payloads"
    using replay_refl by (auto simp: list_all2_conv_all_nth)
  moreover have "find_run (rs_cycle_id rs) st = Some r" "map dd_intent (cycle_deliveries (rs_cycle_id rs) st) = (if submitting then payloads else [])"
    using fixed r(1) by (simp_all add: answer_fixed_def)
  ultimately have "verify_stored_decision_intents None (rs_cycle_id rs) payloads submitting st = None"
    "find_run (rs_cycle_id rs) st = Some r" by (simp_all add: verify_stored_decision_intents_def)
  then show ?thesis using r rs enc pay by (simp add: claim_output_def replay_output_def split: sum.split)
qed

lemma fixed_answer_wins:
  assumes fixed: "answer_fixed r intents st" and r: "run_cycle r = rs_cycle_id other" "dr_output r = Some col" "dr_submission_enabled r = Some submitting"
    and claim: "claim_output codec db now other others b st = (res, st')"
  shows "st' = st \<and> (\<forall>answer created. res = Inr (answer, created) \<longrightarrow>
    \<not> created \<and> b = submitting \<and> rc_unmarshal codec col = Inr answer \<and> rc_marshal codec other = rc_marshal codec answer)"
proof -
  have "find_run (rs_cycle_id other) st = Some r" using fixed r(1) by (simp add: answer_fixed_def)
  then show ?thesis using claim r(2,3)
    by (auto simp: claim_output_def replay_output_def split: if_splits sum.splits option.splits)
qed

text \<open>
  C16. The first answer of a cycle wins. Once an output and its intents are recorded, then after any further work on the store
  every later claim for that cycle leaves the store alone, and when it succeeds it returns the recorded answer, as it is read
  back from its JSON column, for an answer with the same encoding and the same submission mode. The recorded answer
  itself is accepted again, with its intents, exactly when reading it back and encoding it again gives the bytes
  that were sent; the only other outcomes are a column that cannot be decoded and \<open>ErrDecisionConflict\<close>.
\<close>

theorem recorded_answer_replays:
  assumes "reachable_store st" "claim_output codec db now rs intents submitting st = (Inr (rs', True), st1)" "store_step\<^sup>*\<^sup>* st1 st2"
  shows "rs' = rs \<and> (\<exists>payload. rc_marshal codec rs = Inr payload \<and>
    (\<forall>later. rs_decided_at rs \<le> later \<longrightarrow>
       claim_output codec (\<lambda>_. None) later rs intents submitting st2 =
         ((case rc_unmarshal codec (rc_jsonb codec payload) of
             Inl e \<Rightarrow> Inl (wrap_error ''decode existing strategy decision output'' e)
           | Inr stored \<Rightarrow> if rc_marshal codec stored = Inr payload then Inr (stored, False) else Inl (ErrSentinel ErrDecisionConflict)), st2)) \<and>
    (\<forall>db later other others b res st3. rs_cycle_id other = rs_cycle_id rs \<and> claim_output codec db later other others b st2 = (res, st3) \<longrightarrow>
       st3 = st2 \<and> (\<forall>answer created. res = Inr (answer, created) \<longrightarrow>
         \<not> created \<and> b = submitting \<and> rc_unmarshal codec (rc_jsonb codec payload) = Inr answer \<and> rc_marshal codec other = rc_marshal codec answer)))"
proof -
  obtain payload payloads r where p: "encode_decision_intents rs intents = Inr payloads" "rc_marshal codec rs = Inr payload"
      "run_cycle r = rs_cycle_id rs" "dr_output r = Some (rc_jsonb codec payload)"
      "dr_submission_enabled r = Some submitting" "rs_input_id rs = rq_input_id (dr_input r)" "context_equal (rs_context rs) (rq_context (dr_input r))"
      "rq_decision_at (dr_input r) \<le> rs_decided_at rs"
    and same: "rs' = rs" and fixed1: "answer_fixed r (if submitting then payloads else []) st1"
    using answer_is_fixed [OF assms(1,2)] by blast
  have ok1: "schema_ok st1" using claim_output_ok [OF assms(2)] reachable_ok [OF assms(1)] by blast
  note fixed = store_run_answer [OF assms(3) ok1 fixed1]
  have rs: "rs_schema_version rs = StrategyOutputSchemaVersion" "rs_cycle_id rs \<noteq> []" "rs_input_id rs \<noteq> []" "\<not> is_zero_time (rs_decided_at rs)"
    using assms(2) by (auto simp: claim_output_def split: if_splits)
  have other: "st3 = st2 \<and> (\<forall>answer created. res = Inr (answer, created) \<longrightarrow>
      \<not> created \<and> b = submitting \<and> rc_unmarshal codec (rc_jsonb codec payload) = Inr answer \<and> rc_marshal codec other = rc_marshal codec answer)"
    if "rs_cycle_id other = rs_cycle_id rs" "claim_output codec db later other others b st2 = (res, st3)" for db later other others b res st3
    by (rule fixed_answer_wins [OF fixed _ p(4,5) that(2)]) (use p(3) that(1) in simp)
  show ?thesis using same other fixed_answer_replays [OF fixed p rs] p(2) by blast
qed


section \<open>A recorded decision\<close>

text \<open>One decision is recorded with one intent; its delivery is claimed, requeued after a crash, claimed again and completed.\<close>

definition recorded_answer :: strategy_response where
  "recorded_answer = strategy_answer\<lparr>rs_input_id := ''strategy-input-ab''\<rparr>"

definition recorded_intent :: order_intent where
  "recorded_intent = sample_intent\<lparr>oi_model_id := ''model'', oi_strategy_id := ''s1'',
     oi_metadata := [(''cycle_id'', ''w1:c''), (''input_id'', ''strategy-input-ab'')]\<rparr>"

text \<open>
  A codec that keeps, of an answer, the size of its exit order, written and read as the JSON of a \<open>Decimal\<close>; the rest of
  the answer is fixed.
\<close>

definition with_exit_size :: "decimal \<Rightarrow> strategy_response \<Rightarrow> strategy_response" where
  "with_exit_size d rs = rs\<lparr>rs_exits := map (\<lambda>x. x\<lparr>ex_order := map_option (\<lambda>p. p\<lparr>so_size := d\<rparr>) (ex_order x)\<rparr>) (rs_exits rs)\<rparr>"

definition exit_sizes :: "strategy_response \<Rightarrow> decimal list" where
  "exit_sizes rs = concat (map (\<lambda>x. case ex_order x of None \<Rightarrow> [] | Some p \<Rightarrow> [so_size p]) (rs_exits rs))"

definition size_codec :: response_codec where
  "size_codec = \<lparr>rc_marshal = (\<lambda>rs. case exit_sizes rs of [] \<Rightarrow> Inr ''null'' | d # _ \<Rightarrow>
       map_sum id (\<lambda>j. case j of None \<Rightarrow> ''null'' | Some v \<Rightarrow> v) (dec_marshal_json d)), rc_jsonb = (\<lambda>t. t),
     rc_unmarshal = (\<lambda>t. case dec_unmarshal_json (if t = ''null'' then None else Some t) of Inl e \<Rightarrow> Inl e | Inr d \<Rightarrow> Inr (with_exit_size d recorded_answer))\<rparr>"

definition no_failure :: db_errors where "no_failure = (\<lambda>_. None)"

definition store_asked :: decision_store where
  "store_asked = snd (claim_input (\<lambda>_. Inr ''ab'') no_failure 2 stored_request empty_store)"

definition answer_claim :: "(strategy_response \<times> bool) stored" where
  "answer_claim = claim_output size_codec no_failure 5 recorded_answer [recorded_intent] True store_asked"

definition first_claim :: "decision_intent_delivery list stored" where
  "first_claim = claim_pending_intents no_failure (\<lambda>_. False) 6 [''w1''] [] [] 100 (snd answer_claim)"

definition requeue_claim :: "int stored" where
  "requeue_claim = requeue_stale_submitting no_failure (\<lambda>_. False) 7 [''w1''] 6 [] 100 (snd first_claim)"

definition second_claim :: "decision_intent_delivery list stored" where
  "second_claim = claim_pending_intents no_failure (\<lambda>_. False) 8 [''w1''] [] [] 100 (snd requeue_claim)"

definition completion_claim :: "err \<times> decision_store" where
  "completion_claim = complete_intent no_failure 9 ''c1'' 2
     \<lparr>dm_status = DecisionIntentUnknown, dm_order_id = ''o1'', dm_order_status = OrderStatusUnknown, dm_last_error = []\<rparr> (snd second_claim)"

definition delivery_view :: "decision_intent_delivery list stored \<Rightarrow> (string \<times> delivery_status \<times> int) list" where
  "delivery_view r = (case fst r of Inl _ \<Rightarrow> [] | Inr ds \<Rightarrow> map (\<lambda>d. (dd_client_order_id d, dd_status d, dd_attempt d)) ds)"

lemma recorded_views:
  "fst answer_claim = Inr (recorded_answer, True)"
  "delivery_view first_claim = [(''c1'', DecisionIntentSubmitting, 1)]"
  "delivery_view second_claim = [(''c1'', DecisionIntentSubmitting, 2)]"
  "fst completion_claim = None"
  by code_simp+

lemma recorded_steps:
  "store_step empty_store store_asked" "store_step store_asked (snd answer_claim)" "store_step (snd answer_claim) (snd first_claim)"
  "store_step (snd first_claim) (snd requeue_claim)" "store_step (snd requeue_claim) (snd second_claim)"
  "store_step (snd second_claim) (snd completion_claim)"
  unfolding store_asked_def answer_claim_def first_claim_def requeue_claim_def second_claim_def completion_claim_def
  by (metis prod.collapse store_step.input, metis prod.collapse store_step.answer, metis prod.collapse store_step.claim,
      metis prod.collapse store_step.requeue, metis prod.collapse store_step.claim, metis prod.collapse store_step.complete)

lemma recorded_reachable: "reachable_store store_asked" "reachable_store (snd answer_claim)" "reachable_store (snd second_claim)"
  unfolding reachable_store_def using recorded_steps by (meson rtranclp.rtrancl_into_rtrancl rtranclp.rtrancl_refl)+

lemma view_claim: "delivery_view r \<noteq> [] \<Longrightarrow> r = (Inr (projr (fst r)), snd r)"
  by (cases r) (auto simp: delivery_view_def split: sum.splits)

lemma view_rows: "delivery_view r \<noteq> [] \<Longrightarrow> map (\<lambda>d. (dd_client_order_id d, dd_status d, dd_attempt d)) (projr (fst r)) = delivery_view r"
  by (cases "fst r") (auto simp: delivery_view_def)

theorem recorder_keeps_schema_witness: "schema_ok (snd second_claim) \<and> delivery_view second_claim = [(''c1'', DecisionIntentSubmitting, 2)]"
  using recorder_keeps_schema [OF recorded_reachable(3)] recorded_views(3) by blast

theorem delivery_outcome_is_final_witness:
  "\<exists>d' \<in> set (st_deliveries (snd completion_claim)). row_later (hd (st_deliveries (snd answer_claim))) d'"
proof -
  have "map dd_client_order_id (st_deliveries (snd answer_claim)) = [''c1'']" by code_simp
  then have "hd (st_deliveries (snd answer_claim)) \<in> set (st_deliveries (snd answer_claim))" by (cases "st_deliveries (snd answer_claim)") auto
  moreover have "store_step\<^sup>*\<^sup>* (snd answer_claim) (snd completion_claim)"
    using recorded_steps by (meson rtranclp.rtrancl_into_rtrancl rtranclp.rtrancl_refl)
  ultimately show ?thesis using delivery_outcome_is_final [OF recorded_reachable(2)] by blast
qed

theorem claims_are_fenced_witness:
  "dd_attempt (hd (projr (fst first_claim))) < dd_attempt (hd (projr (fst second_claim))) \<and>
   map dd_status (projr (fst second_claim)) = [DecisionIntentSubmitting]"
proof -
  have first: "projr (fst first_claim) \<noteq> []" "dd_client_order_id (hd (projr (fst first_claim))) = ''c1''"
    and second: "projr (fst second_claim) \<noteq> []" "dd_client_order_id (hd (projr (fst second_claim))) = ''c1''"
      "map dd_status (projr (fst second_claim)) = [DecisionIntentSubmitting]"
    using view_rows [of first_claim] view_rows [of second_claim] recorded_views by (auto simp: map_eq_Cons_conv)
  have c1: "claim_pending_intents no_failure (\<lambda>_. False) 6 [''w1''] [] [] 100 (snd answer_claim) = (Inr (projr (fst first_claim)), snd first_claim)"
    and c2: "claim_pending_intents no_failure (\<lambda>_. False) 8 [''w1''] [] [] 100 (snd requeue_claim) = (Inr (projr (fst second_claim)), snd second_claim)"
    using view_claim [of first_claim] view_claim [of second_claim] recorded_views by (simp_all add: first_claim_def second_claim_def)
  have run: "store_step\<^sup>*\<^sup>* (snd first_claim) (snd requeue_claim)" using recorded_steps(4) by blast
  show ?thesis
    using claims_are_fenced [OF recorded_reachable(2) c1 hd_in_set [OF first(1)] run] c2 hd_in_set [OF second(1)] first(2) second(2,3) by metis
qed

text \<open>
  An answer whose size is written with padding is recorded, but the same bytes are refused afterwards, while the trimmed answer, which
  was never sent before, is accepted as its replay. The answers of the HTTP client have been decoded from JSON and carry no padding.
\<close>

definition padded_answer :: strategy_response where
  "padded_answer = with_exit_size '' 6.5'' recorded_answer"

definition padded_claim :: "(strategy_response \<times> bool) stored" where
  "padded_claim = claim_output size_codec no_failure 5 padded_answer [recorded_intent] True store_asked"

lemma padded_answer_conflicts:
  "fst padded_claim = Inr (padded_answer, True) \<and>
   fst (claim_output size_codec no_failure 6 padded_answer [recorded_intent] True (snd padded_claim)) = Inl (ErrSentinel ErrDecisionConflict) \<and>
   fst (claim_output size_codec no_failure 6 recorded_answer [recorded_intent] True (snd padded_claim)) = Inr (recorded_answer, False)"
  by code_simp

theorem recorded_answer_replays_witness:
  "claim_output size_codec (\<lambda>_. None) 9 recorded_answer [recorded_intent] True (snd completion_claim) =
   (Inr (recorded_answer, False), snd completion_claim)"
proof -
  have c: "claim_output size_codec no_failure 5 recorded_answer [recorded_intent] True store_asked = (Inr (recorded_answer, True), snd answer_claim)"
    using recorded_views(1) unfolding answer_claim_def by (metis prod.collapse)
  have run: "store_step\<^sup>*\<^sup>* (snd answer_claim) (snd completion_claim)"
    using recorded_steps by (meson rtranclp.rtrancl_into_rtrancl rtranclp.rtrancl_refl)
  have codec: "rc_marshal size_codec recorded_answer = Inr ''6.5''" "rc_unmarshal size_codec (rc_jsonb size_codec ''6.5'') = Inr recorded_answer"
    and time: "rs_decided_at recorded_answer \<le> 9" by code_simp+
  show ?thesis using recorded_answer_replays [OF recorded_reachable(1) c run] codec time by auto
qed

end
