(* ===== verification/Decision_Service.thy ===== *)
theory Decision_Service
  imports Decision_Store
begin

text \<open>
  The decision cycle's service: its parameters, \<open>New\<close> and the account topology it derives
  (\<open>src/internal/service/decisioncycle/service.go\<close>). The ports are fields of the record; the ports that Go requires to be
  non-nil are functions here, the optional ones are options. The theorem says that \<open>New\<close> splits the bound accounts into
  those that may buy, those that may only sell and those that are left out.
\<close>

section \<open>The service\<close>

type_synonym prediction_source_mode = string

definition PredictionSourceModeDirect :: prediction_source_mode where "PredictionSourceModeDirect = ''DIRECT''"
definition PredictionSourceModeSandbox :: prediction_source_mode where "PredictionSourceModeSandbox = ''SANDBOX''"

definition source_mode_valid :: "prediction_source_mode \<Rightarrow> bool" where
  "source_mode_valid mode \<longleftrightarrow> mode = PredictionSourceModeDirect \<or> mode = PredictionSourceModeSandbox"

definition decisionInterval :: duration where "decisionInterval = 10 * minute"
definition defaultDeliveryBatch :: int where "defaultDeliveryBatch = 100"
definition defaultDeliveryStaleAge :: duration where "defaultDeliveryStaleAge = 9 * minute"
definition defaultStrategyTimeout :: duration where "defaultStrategyTimeout = 90 * second"
definition defaultPredictionTimeout :: duration where "defaultPredictionTimeout = 30 * second"
definition maxDeliveryConcurrency :: int where "maxDeliveryConcurrency = 8"

text \<open>A lot as the position store keeps it (\<open>domain.PositionLot\<close>, the fields the cycle reads).\<close>

record position_lot =
  pl_lot_id :: string
  pl_execution_account_id :: string
  pl_market_id :: string
  pl_condition_id :: string
  pl_outcome_index :: "int option"
  pl_outcome_name :: string
  pl_token_id :: string
  pl_neg_risk :: "bool option"
  pl_open :: bool
  pl_opened_at :: gtime
  pl_remaining_shares :: decimal
  pl_average_entry_price :: decimal

record undelivered_decision =
  ud_decision_id :: string
  ud_condition_id :: string
  ud_token_id :: string

record 's decision_ports =
  dp_snapshot :: "gtime \<Rightarrow> duration \<Rightarrow> ('s, go_error + prediction_snapshot) state"
  dp_list_open_lots :: "strategy_context \<Rightarrow> ('s, go_error + position_lot list) state"
  dp_capture :: "gtime \<Rightarrow> book_target list \<Rightarrow> ('s, go_error + order_book list) state"
  dp_claim_batch :: "snapshot_batch \<Rightarrow> ('s, go_error + snapshot_batch \<times> bool) state"
  dp_decide :: "strategy_request \<Rightarrow> ('s, strategy_response \<times> err) state"
  dp_claim_input :: "strategy_request \<Rightarrow> ('s, go_error + strategy_request) state"
  dp_claim_output :: "strategy_response \<Rightarrow> order_intent list \<Rightarrow> bool \<Rightarrow> ('s, go_error + strategy_response) state"
  dp_count_unresolved :: "string list \<Rightarrow> ('s, go_error + int) state"
  dp_claim_pending :: "string list \<Rightarrow> string \<Rightarrow> side \<Rightarrow> int \<Rightarrow> ('s, go_error + decision_intent_delivery list) state"
  dp_requeue_stale :: "string list \<Rightarrow> gtime \<Rightarrow> side \<Rightarrow> int \<Rightarrow> ('s, go_error + int) state"
  dp_complete :: "string \<Rightarrow> int \<Rightarrow> decision_intent_completion \<Rightarrow> ('s, err) state"
  dp_list_intents :: "string \<Rightarrow> ('s, go_error + decision_intent_delivery list) state"
  dp_submit :: "(order_intent \<Rightarrow> ('s, submit_result \<times> err) state) option"
  dp_account_gate :: "((string \<Rightarrow> ('s, err) state) \<times> (string \<Rightarrow> ('s, unit) state)) option"
  dp_submission_policy :: "(order_intent \<Rightarrow> ('s, bool) state) option"
  dp_route_policy :: "(strategy_binding \<Rightarrow> ('s, bool) state) option"
  dp_reporter :: "(strategy_context \<Rightarrow> undelivered_decision list \<Rightarrow> string \<Rightarrow> string \<Rightarrow> ('s, unit) state) option"
  dp_now :: "('s, gtime) state"
  dp_ctx_err :: "('s, err) state"

record decision_params =
  cp_submit_enabled :: bool
  cp_submission_disabled_accounts :: "string list"
  cp_entry_submission_disabled :: bool
  cp_entry_disabled_accounts :: "string list"
  cp_strategy_disabled_accounts :: "string list"
  cp_require_complete_model_coverage :: bool
  cp_bindings :: "strategy_binding list"
  cp_prediction_source_modes :: "(string \<times> prediction_source_mode) list"
  cp_venue :: string
  cp_prediction_lookback :: duration
  cp_delivery_stale_age :: duration
  cp_delivery_concurrency :: int
  cp_strategy_timeout :: duration
  cp_prediction_timeout :: duration

record decision_topology =
  tp_active_bindings :: "strategy_binding list"
  tp_strategy_bindings :: "strategy_binding list"
  tp_strategy_entry_enabled_bindings :: "strategy_binding list"
  tp_entry_enabled_bindings :: "strategy_binding list"
  tp_active_accounts :: "string list"
  tp_entry_enabled_accounts :: "string list"
  tp_entry_disabled_accounts :: "string list"

record 's decision_service =
  ds_ports :: "'s decision_ports"
  ds_params :: decision_params
  ds_topology :: decision_topology


section \<open>Construction\<close>

fun normalize_bindings_loop :: "nat \<Rightarrow> string list \<Rightarrow> strategy_binding list \<Rightarrow> go_error + strategy_binding list" where
  "normalize_bindings_loop index seen [] = Inr []"
| "normalize_bindings_loop index seen (raw # rest) =
     (let b = binding_normalize raw in
      case binding_validate b of
        Some e \<Rightarrow> Inl (wrap_error (''binding '' @ show_nat index) e)
      | None \<Rightarrow>
      if sb_execution_account_id b \<in> set seen
      then Inl (ErrText (''execution account '' @ quoted (sb_execution_account_id b) @ '' is bound more than once''))
      else case normalize_bindings_loop (Suc index) (sb_execution_account_id b # seen) rest of Inl e \<Rightarrow> Inl e | Inr bs \<Rightarrow> Inr (b # bs))"

text \<open>Polymarket before Kalshi, then model, strategy and account; accounts are unique, so the order is total.\<close>

definition normalize_bindings :: "strategy_binding list \<Rightarrow> go_error + strategy_binding list" where
  "normalize_bindings bindings =
     (if bindings = [] then Inl (ErrText ''at least one model/strategy/execution account binding is required'')
      else case normalize_bindings_loop 0 [] bindings of
        Inl e \<Rightarrow> Inl e
      | Inr bs \<Rightarrow> Inr (sort_key (\<lambda>b. (sb_market_source b = MarketSourceKalshi, sb_model_id b, sb_strategy_id b, sb_execution_account_id b)) bs))"

fun bound_accounts_loop :: "string list \<Rightarrow> string \<Rightarrow> nat \<Rightarrow> string list \<Rightarrow> string list \<Rightarrow> go_error + string list" where
  "bound_accounts_loop bound label index seen [] = Inr []"
| "bound_accounts_loop bound label index seen (raw # rest) =
     (let accountID = trim_space raw in
      if accountID = [] then Inl (ErrText (label @ '' account '' @ show_nat index @ '' is empty''))
      else if accountID \<in> set seen then Inl (ErrText (''duplicate '' @ label @ '' account '' @ quoted accountID))
      else if accountID \<notin> set bound then Inl (ErrText (label @ '' account '' @ quoted accountID @ '' is not a configured binding''))
      else case bound_accounts_loop bound label (Suc index) (accountID # seen) rest of Inl e \<Rightarrow> Inl e | Inr ids \<Rightarrow> Inr (accountID # ids))"

definition normalize_bound_accounts :: "strategy_binding list \<Rightarrow> string list \<Rightarrow> string \<Rightarrow> go_error + string list" where
  "normalize_bound_accounts bindings accounts label =
     (case bound_accounts_loop (map sb_execution_account_id bindings) label 0 [] accounts of Inl e \<Rightarrow> Inl e | Inr ids \<Rightarrow> Inr (sort ids))"

definition filter_submission_enabled_bindings :: "strategy_binding list \<Rightarrow> string list \<Rightarrow> strategy_binding list" where
  "filter_submission_enabled_bindings bindings disabled = filter (\<lambda>b. sb_execution_account_id b \<notin> set disabled) bindings"

definition filter_entry_disabled_bindings :: "strategy_binding list \<Rightarrow> string list \<Rightarrow> strategy_binding list" where
  "filter_entry_disabled_bindings bindings disabled = filter (\<lambda>b. sb_execution_account_id b \<in> set disabled) bindings"

definition execution_account_ids :: "strategy_binding list \<Rightarrow> string list" where
  "execution_account_ids bindings = sort_key (\<lambda>a. (is_kalshi_execution_account a, a)) (map sb_execution_account_id bindings)"

definition configured_prediction_models :: "strategy_binding list \<Rightarrow> string list" where
  "configured_prediction_models bindings = sort (remdups (map sb_prediction_model_id bindings))"

text \<open>Go ranges over the map of modes in an unspecified order: which of several faults is reported is left open there.\<close>

fun check_source_modes :: "(string \<times> prediction_source_mode) list \<Rightarrow> string list \<Rightarrow> go_error + (string \<times> prediction_source_mode) list" where
  "check_source_modes modes [] = Inr []"
| "check_source_modes modes (m # ms) =
     (case map_of modes m of
        None \<Rightarrow> Inl (ErrText (''prediction source mode is missing for configured model '' @ quoted m))
      | Some mode \<Rightarrow>
          if \<not> source_mode_valid mode
          then Inl (ErrText (''prediction source mode for configured model '' @ quoted m @ '' is unknown: '' @ quoted mode))
          else case check_source_modes modes ms of Inl e \<Rightarrow> Inl e | Inr rest \<Rightarrow> Inr ((m, mode) # rest))"

definition normalize_prediction_source_modes ::
    "strategy_binding list \<Rightarrow> (string \<times> prediction_source_mode) list \<Rightarrow> go_error + (string \<times> prediction_source_mode) list" where
  "normalize_prediction_source_modes bindings modes =
     (case check_source_modes modes (configured_prediction_models bindings) of
        Inl e \<Rightarrow> Inl e
      | Inr result \<Rightarrow>
          (case List.find (\<lambda>(m, _). map_of result m = None) modes of
             Some (m, _) \<Rightarrow> Inl (ErrText (''prediction source mode is configured for unknown model '' @ quoted m))
           | None \<Rightarrow> Inr result))"

definition topology_of :: "strategy_binding list \<Rightarrow> string list \<Rightarrow> string list \<Rightarrow> string list \<Rightarrow> decision_topology" where
  "topology_of bindings disabled entryDisabled strategyDisabled =
     (let active = filter_submission_enabled_bindings bindings disabled;
          entryEnabled = filter_submission_enabled_bindings active entryDisabled in
      \<lparr>tp_active_bindings = active,
       tp_strategy_bindings = filter_submission_enabled_bindings active strategyDisabled,
       tp_strategy_entry_enabled_bindings = filter_submission_enabled_bindings entryEnabled strategyDisabled,
       tp_entry_enabled_bindings = entryEnabled,
       tp_active_accounts = execution_account_ids active,
       tp_entry_enabled_accounts = execution_account_ids entryEnabled,
       tp_entry_disabled_accounts = execution_account_ids (filter_entry_disabled_bindings active entryDisabled)\<rparr>)"

text \<open>The second half of \<open>New\<close>: defaults and bounds.\<close>

definition check_decision_limits :: "decision_params \<Rightarrow> go_error + decision_params" where
  "check_decision_limits p =
     (let lookback = (if cp_prediction_lookback p = 0 then 3 * hour else cp_prediction_lookback p);
          stale = (if cp_delivery_stale_age p = 0 then defaultDeliveryStaleAge else cp_delivery_stale_age p) in
      if cp_venue p = [] then Inl (ErrText ''execution venue is required'')
      else if lookback < decisionInterval then Inl (ErrText ''prediction lookback must be at least 10m0s'')
      else if stale \<le> 0 \<or> stale > 24 * hour then Inl (ErrText ''decision intent delivery stale age must be positive and at most 24h'')
      else if cp_delivery_concurrency p < 0 \<or> cp_delivery_concurrency p > maxDeliveryConcurrency
      then Inl (ErrText ''decision intent delivery concurrency must be between 0 and 8'')
      else if cp_strategy_timeout p < 0 \<or> cp_prediction_timeout p < 0
      then Inl (ErrText ''strategy and prediction call timeouts must not be negative'')
      else Inr (p\<lparr>cp_prediction_lookback := lookback, cp_delivery_stale_age := stale,
        cp_strategy_timeout := (if cp_strategy_timeout p = 0 then defaultStrategyTimeout else cp_strategy_timeout p),
        cp_prediction_timeout := (if cp_prediction_timeout p = 0 then defaultPredictionTimeout else cp_prediction_timeout p)\<rparr>))"

definition new_decision_service :: "'s decision_ports \<Rightarrow> decision_params \<Rightarrow> go_error + 's decision_service" where
  "new_decision_service ports p0 =
     (if cp_submit_enabled p0 \<and> dp_submit ports = None
      then Inl (ErrText ''order executor is required when decision-cycle submission is enabled'')
      else if cp_submit_enabled p0 \<and> \<not> cp_require_complete_model_coverage p0
      then Inl (ErrText ''complete prediction-model coverage is required when decision-cycle submission is enabled'')
      else case normalize_bindings (cp_bindings p0) of
        Inl e \<Rightarrow> Inl e
      | Inr bindings \<Rightarrow>
      case normalize_prediction_source_modes bindings (cp_prediction_source_modes p0) of
        Inl e \<Rightarrow> Inl e
      | Inr modes \<Rightarrow>
      case normalize_bound_accounts bindings (cp_submission_disabled_accounts p0) ''submission-disabled'' of
        Inl e \<Rightarrow> Inl e
      | Inr disabled \<Rightarrow>
      case normalize_bound_accounts bindings (cp_entry_disabled_accounts p0) ''entry-disabled'' of
        Inl e \<Rightarrow> Inl e
      | Inr entryDisabled \<Rightarrow>
      case normalize_bound_accounts bindings (cp_strategy_disabled_accounts p0) ''strategy-disabled'' of
        Inl e \<Rightarrow> Inl e
      | Inr strategyDisabled \<Rightarrow>
      let tp = topology_of bindings disabled entryDisabled strategyDisabled in
      if tp_active_bindings tp = [] then Inl (ErrText ''submission-disabled accounts cannot exclude every decision binding'')
      else if length (tp_entry_enabled_bindings tp) + length (filter_entry_disabled_bindings (tp_active_bindings tp) entryDisabled) \<noteq> length (tp_active_bindings tp)
      then Inl (ErrText ''entry-disabled accounts do not partition every active decision binding'')
      else if tp_strategy_bindings tp = [] then Inl (ErrText ''strategy-disabled accounts cannot exclude every active decision binding'')
      else case check_decision_limits (p0\<lparr>cp_venue := to_lower (trim_space (cp_venue p0)), cp_bindings := bindings,
             cp_prediction_source_modes := modes, cp_submission_disabled_accounts := disabled,
             cp_entry_disabled_accounts := entryDisabled, cp_strategy_disabled_accounts := strategyDisabled\<rparr>) of
        Inl e \<Rightarrow> Inl e
      | Inr p \<Rightarrow> Inr \<lparr>ds_ports = ports, ds_params = p, ds_topology = tp\<rparr>)"

record delivery_cohort =
  ch_accounts :: "string list"
  ch_side :: side

definition delivery_cohorts :: "'s decision_service \<Rightarrow> delivery_cohort list" where
  "delivery_cohorts svc =
     (let tp = ds_topology svc in
      if cp_entry_submission_disabled (ds_params svc) then [\<lparr>ch_accounts = tp_active_accounts tp, ch_side = SideSell\<rparr>]
      else (if tp_entry_enabled_accounts tp \<noteq> [] then [\<lparr>ch_accounts = tp_entry_enabled_accounts tp, ch_side = []\<rparr>] else []) @
           (if tp_entry_disabled_accounts tp \<noteq> [] then [\<lparr>ch_accounts = tp_entry_disabled_accounts tp, ch_side = SideSell\<rparr>] else []))"

definition account_entry_disabled :: "'s decision_service \<Rightarrow> strategy_binding \<Rightarrow> bool" where
  "account_entry_disabled svc b \<longleftrightarrow>
     sb_execution_account_id b \<in> set (cp_entry_disabled_accounts (ds_params svc)) \<or> cp_entry_submission_disabled (ds_params svc)"


section \<open>The accounts of a constructed service\<close>

lemma execution_account_ids_set [simp]: "set (execution_account_ids bs) = sb_execution_account_id ` set bs"
  by (simp add: execution_account_ids_def)

lemma check_decision_limits_fields:
  "check_decision_limits p = Inr q \<Longrightarrow>
   cp_bindings q = cp_bindings p \<and> cp_submission_disabled_accounts q = cp_submission_disabled_accounts p \<and>
   cp_entry_disabled_accounts q = cp_entry_disabled_accounts p \<and> cp_strategy_disabled_accounts q = cp_strategy_disabled_accounts p \<and>
   cp_entry_submission_disabled q = cp_entry_submission_disabled p \<and> cp_submit_enabled q = cp_submit_enabled p \<and>
   cp_require_complete_model_coverage q = cp_require_complete_model_coverage p \<and> cp_venue q = cp_venue p"
  by (auto simp: check_decision_limits_def Let_def split: if_splits)

lemma new_decision_service_cases:
  assumes "new_decision_service ports p0 = Inr svc"
  shows "\<exists>bindings modes disabled entryDisabled strategyDisabled p.
    check_decision_limits (p0\<lparr>cp_venue := to_lower (trim_space (cp_venue p0)), cp_bindings := bindings,
             cp_prediction_source_modes := modes, cp_submission_disabled_accounts := disabled,
             cp_entry_disabled_accounts := entryDisabled, cp_strategy_disabled_accounts := strategyDisabled\<rparr>) = Inr p \<and>
    svc = \<lparr>ds_ports = ports, ds_params = p, ds_topology = topology_of bindings disabled entryDisabled strategyDisabled\<rparr> \<and>
    normalize_bindings (cp_bindings p0) = Inr bindings \<and>
    (cp_submit_enabled p0 \<longrightarrow> dp_submit ports \<noteq> None \<and> cp_require_complete_model_coverage p0)"
  using assms unfolding new_decision_service_def Let_def by (simp split: if_split_asm sum.split_asm) blast+

lemma new_decision_service_fields:
  assumes "new_decision_service ports p0 = Inr svc"
  shows "ds_ports svc = ports"
    and "cp_entry_submission_disabled (ds_params svc) = cp_entry_submission_disabled p0" "cp_submit_enabled (ds_params svc) = cp_submit_enabled p0"
    and "ds_topology svc = topology_of (cp_bindings (ds_params svc)) (cp_submission_disabled_accounts (ds_params svc))
           (cp_entry_disabled_accounts (ds_params svc)) (cp_strategy_disabled_accounts (ds_params svc))"
    and "cp_submit_enabled p0 \<Longrightarrow> dp_submit ports \<noteq> None"
  using new_decision_service_cases [OF assms] by (auto dest!: check_decision_limits_fields)

lemma normalized_bindings_trimmed:
  assumes "normalize_bindings bs = Inr bindings" "b \<in> set bindings"
  shows "trim_space (sb_execution_account_id b) = sb_execution_account_id b" and "binding_validate b = None"
proof -
  have "normalize_bindings_loop k seen bs' = Inr r \<Longrightarrow> \<forall>b\<in>set r. binding_validate b = None \<and> (\<exists>raw. b = binding_normalize raw)" for k seen bs' r
    by (induction bs' arbitrary: k seen r) (auto simp: Let_def split: option.splits if_splits sum.splits)
  then have "binding_validate b = None \<and> (\<exists>raw. b = binding_normalize raw)"
    using assms by (auto simp: normalize_bindings_def split: if_splits sum.splits)
  then show "trim_space (sb_execution_account_id b) = sb_execution_account_id b" and "binding_validate b = None"
    by (auto simp: binding_normalize_def Let_def)
qed

lemma new_service_bindings:
  assumes "new_decision_service ports p0 = Inr svc" "b \<in> set (cp_bindings (ds_params svc))"
  shows "trim_space (sb_execution_account_id b) = sb_execution_account_id b" and "binding_validate b = None"
  using new_decision_service_cases [OF assms(1)] assms(2) normalized_bindings_trimmed by (auto dest!: check_decision_limits_fields)

text \<open>What a cohort may contain: bound accounts that are not quarantined; both sides only where entries are allowed.\<close>

definition deliverable_account :: "'s decision_service \<Rightarrow> side \<Rightarrow> string \<Rightarrow> bool" where
  "deliverable_account svc side a \<longleftrightarrow>
     a \<in> sb_execution_account_id ` set (cp_bindings (ds_params svc)) \<and> a \<notin> set (cp_submission_disabled_accounts (ds_params svc)) \<and>
     (side = SideSell \<or> \<not> cp_entry_submission_disabled (ds_params svc) \<and> a \<notin> set (cp_entry_disabled_accounts (ds_params svc)))"

lemma cohort_accounts:
  assumes "new_decision_service ports p0 = Inr svc" "c \<in> set (delivery_cohorts svc)" "a \<in> set (ch_accounts c)"
  shows "deliverable_account svc (ch_side c) a \<and> (ch_side c = [] \<or> ch_side c = SideSell)"
  using assms(2,3)
  by (auto simp: delivery_cohorts_def new_decision_service_fields(4) [OF assms(1)] topology_of_def deliverable_account_def Let_def
      filter_submission_enabled_bindings_def filter_entry_disabled_bindings_def split: if_splits)

end
