(* ===== verification/Decision_Delivery.thy ===== *)
theory Decision_Delivery
  imports Decision_Service
begin

text \<open>
  Durable delivery of recorded intents to the execution service and its recovery after a crash
  (\<open>src/internal/service/decisioncycle/service.go\<close>). A loop that claims batches until none is left may run forever over
  arbitrary ports, so it is a partial function into \<open>option\<close>: \<open>None\<close> means that it never returns. Batches are delivered in
  claim order, as the service does with \<open>DeliveryConcurrency\<close> at most 1. The theorems, for the recorder of this development
  and any execution service, say that recovery ends, that it submits nothing the account gates forbid, and that it submits each
  intent at most once, always under a claim that is already on record.
\<close>

section \<open>One delivery\<close>

record intent_result =
  ir_intent :: order_intent
  ir_result :: submit_result
  ir_status :: delivery_status
  ir_attempt :: int
  ir_submission_disabled :: bool
  ir_awaiting_fill_evidence :: bool
  ir_error :: err

definition decision_intent_completion_of :: "submit_result \<Rightarrow> err \<Rightarrow> decision_intent_completion option" where
  "decision_intent_completion_of r submitErr =
     (if trim_space (o_id (sb_order r)) = [] then None
      else Some \<lparr>dm_status =
             (if o_status (sb_order r) = OrderStatusRejected then DecisionIntentFailed
              else if o_status (sb_order r) = OrderStatusUnknown \<or> o_status (sb_order r) = OrderStatusManualReview then DecisionIntentUnknown
              else DecisionIntentSubmitted),
           dm_order_id = o_id (sb_order r), dm_order_status = o_status (sb_order r),
           dm_last_error = (case submitErr of None \<Rightarrow> [] | Some e \<Rightarrow> error_text e)\<rparr>)"

definition claimed_result :: "decision_intent_delivery \<Rightarrow> intent_result" where
  "claimed_result d =
     \<lparr>ir_intent = dd_intent d, ir_result = no_result, ir_status = dd_status d, ir_attempt = dd_attempt d, ir_submission_disabled = False,
      ir_awaiting_fill_evidence = False, ir_error = None\<rparr>"

definition completed_result :: "intent_result \<Rightarrow> decision_intent_completion \<Rightarrow> intent_result" where
  "completed_result r c =
     (let awaiting = (ir_error r = None \<and> awaiting_fill_evidence (sb_order (ir_result r))) in
      r\<lparr>ir_status := dm_status c, ir_awaiting_fill_evidence := awaiting,
        ir_error := (if \<not> awaiting \<and> (dm_status c = DecisionIntentFailed \<or> dm_status c = DecisionIntentUnknown)
          then errors_join [ir_error r, Some (ErrText (''execution order '' @ dm_order_id c @ '' completed durable delivery as '' @
                 delivery_status_text (dm_status c) @ '' ('' @ status_text (dm_order_status c) @ '')''))]
          else ir_error r)\<rparr>)"

definition submission_allowed :: "'s decision_ports \<Rightarrow> order_intent \<Rightarrow> ('s, bool) state" where
  "submission_allowed ports i = (case dp_submission_policy ports of None \<Rightarrow> State_Monad.return True | Some policy \<Rightarrow> policy i)"

text \<open>A nil executor cannot be reached: \<open>New\<close> refuses it when submission is enabled; the call would panic.\<close>

definition executor_submit :: "'s decision_ports \<Rightarrow> order_intent \<Rightarrow> ('s, submit_result \<times> err) state" where
  "executor_submit ports i =
     (case dp_submit ports of None \<Rightarrow> State_Monad.return (no_result, Some (ErrText ''nil order executor'')) | Some submit \<Rightarrow> submit i)"

definition process_delivery :: "'s decision_ports \<Rightarrow> decision_intent_delivery \<Rightarrow> ('s, intent_result) state" where
  "process_delivery ports d = do {
     allowed \<leftarrow> submission_allowed ports (dd_intent d);
     (if \<not> allowed then State_Monad.return (claimed_result d\<lparr>ir_submission_disabled := True\<rparr>)
      else do {
        (res, e) \<leftarrow> executor_submit ports (dd_intent d);
        let r = claimed_result d\<lparr>ir_result := res, ir_error := e\<rparr>;
        (case decision_intent_completion_of res e of
           None \<Rightarrow> State_Monad.return (r\<lparr>ir_error := (if e = None
             then Some (ErrText ''execution did not return a durable order id; delivery remains leased for recovery'') else e)\<rparr>)
         | Some c \<Rightarrow> do {
             completeErr \<leftarrow> dp_complete ports (dd_client_order_id d) (dd_attempt d) c;
             State_Monad.return (case completeErr of
               Some x \<Rightarrow> r\<lparr>ir_error := errors_join [e, Some (wrap_error ''complete durable strategy intent'' x)]\<rparr>
             | None \<Rightarrow> completed_result r c) }) }) }"

text \<open>
  The sequential branch of \<open>deliverBatch\<close>, taken with \<open>DeliveryConcurrency\<close> at most 1 and for batches of at most
  one delivery.
\<close>

fun deliver_batch :: "'s decision_ports \<Rightarrow> decision_intent_delivery list \<Rightarrow> ('s, intent_result list) state" where
  "deliver_batch ports [] = State_Monad.return []"
| "deliver_batch ports (d # ds) = do {
     r \<leftarrow> process_delivery ports d;
     rs \<leftarrow> deliver_batch ports ds;
     State_Monad.return (r # rs) }"

definition submit_error :: "string \<Rightarrow> intent_result \<Rightarrow> go_error list" where
  "submit_error clientOrderID r = (case ir_error r of None \<Rightarrow> [] | Some e \<Rightarrow> [wrap_error (''submit '' @ clientOrderID) e])"


section \<open>Claim loops\<close>

record account_delivery =
  ad_intents :: "intent_result list"
  ad_errors :: "go_error list"

partial_function (option) deliver_claims ::
    "'s decision_ports \<Rightarrow> string \<Rightarrow> string \<Rightarrow> side \<Rightarrow> account_delivery \<Rightarrow> 's \<Rightarrow> ((account_delivery \<times> err) \<times> 's) option" where
  "deliver_claims ports account cycleID side acc s =
     (case run_state (dp_claim_pending ports [account] cycleID side defaultDeliveryBatch) s of
        (claimed, s1) \<Rightarrow>
      case claimed of
        Inl e \<Rightarrow> Some ((acc, Some (wrap_error (''claim strategy intents for execution account '' @ quoted account) e)), s1)
      | Inr deliveries \<Rightarrow>
      if deliveries = [] then Some ((acc, None), s1)
      else case run_state (deliver_batch ports deliveries) s1 of
        (results, s2) \<Rightarrow>
      let acc' = \<lparr>ad_intents = ad_intents acc @ results,
            ad_errors = ad_errors acc @ concat (map2 (\<lambda>d r. submit_error (dd_client_order_id d) r) deliveries results)\<rparr> in
      if int (length deliveries) < defaultDeliveryBatch then Some ((acc', None), s2)
      else deliver_claims ports account cycleID side acc' s2)"

declare deliver_claims.simps [code]

definition deliver_pending_for_account ::
    "'s decision_ports \<Rightarrow> string \<Rightarrow> string \<Rightarrow> side \<Rightarrow> 's \<Rightarrow> ((account_delivery \<times> err) \<times> 's) option" where
  "deliver_pending_for_account ports account cycleID side s =
     (let empty = \<lparr>ad_intents = [], ad_errors = []\<rparr> in
      case dp_account_gate ports of
        None \<Rightarrow> deliver_claims ports account cycleID side empty s
      | Some (acquire, release) \<Rightarrow>
          (case run_state (acquire account) s of
             (Some e, s1) \<Rightarrow> Some ((empty, Some (wrap_error (''acquire execution account '' @ quoted account @ '' for strategy delivery'') e)), s1)
           | (None, s1) \<Rightarrow>
               (case deliver_claims ports account cycleID side empty s1 of
                  None \<Rightarrow> None
                | Some (r, s2) \<Rightarrow> Some (r, snd (run_state (release account) s2)))))"

fun deliver_accounts ::
    "'s decision_ports \<Rightarrow> string \<Rightarrow> (string \<times> side) list \<Rightarrow> intent_result list \<Rightarrow> 's \<Rightarrow> ((intent_result list \<times> err) \<times> 's) option" where
  "deliver_accounts ports cycleID [] results s = Some ((results, None), s)"
| "deliver_accounts ports cycleID ((account, side) # rest) results s =
     (case deliver_pending_for_account ports account cycleID side s of
        None \<Rightarrow> None
      | Some ((r, e), s1) \<Rightarrow>
          (case e of
             Some _ \<Rightarrow> Some ((results @ ad_intents r, e), s1)
           | None \<Rightarrow> deliver_accounts ports cycleID rest (results @ ad_intents r) s1))"

definition cohort_pairs :: "delivery_cohort list \<Rightarrow> (string \<times> side) list" where
  "cohort_pairs cohorts = concat (map (\<lambda>c. map (\<lambda>a. (a, ch_side c)) (ch_accounts c)) cohorts)"

definition deliver_pending_results :: "'s decision_service \<Rightarrow> string \<Rightarrow> 's \<Rightarrow> ((intent_result list \<times> err) \<times> 's) option" where
  "deliver_pending_results svc cycleID s = deliver_accounts (ds_ports svc) cycleID (cohort_pairs (delivery_cohorts svc)) [] s"

definition deliver_pending :: "'s decision_service \<Rightarrow> string \<Rightarrow> 's \<Rightarrow> ((intent_result list \<times> err) \<times> 's) option" where
  "deliver_pending svc cycleID s =
     (case deliver_pending_results svc cycleID s of
        None \<Rightarrow> None
      | Some ((results, claimErr), s1) \<Rightarrow>
          Some ((results, errors_join [errors_join (map Some (concat (map (\<lambda>r. submit_error (oi_client_order_id (ir_intent r)) r) results))), claimErr]), s1))"


section \<open>Recovery\<close>

partial_function (option) requeue_all :: "'s decision_ports \<Rightarrow> delivery_cohort \<Rightarrow> gtime \<Rightarrow> 's \<Rightarrow> (err \<times> 's) option" where
  "requeue_all ports cohort cutoff s =
     (case run_state (dp_requeue_stale ports (ch_accounts cohort) cutoff (ch_side cohort) defaultDeliveryBatch) s of
        (requeued, s1) \<Rightarrow>
      case requeued of
        Inl e \<Rightarrow> Some (Some (wrap_error ''requeue stale strategy intents'' e), s1)
      | Inr n \<Rightarrow> if n < defaultDeliveryBatch then Some (None, s1) else requeue_all ports cohort cutoff s1)"

declare requeue_all.simps [code]

fun requeue_cohorts :: "'s decision_ports \<Rightarrow> delivery_cohort list \<Rightarrow> gtime \<Rightarrow> 's \<Rightarrow> (err \<times> 's) option" where
  "requeue_cohorts ports [] cutoff s = Some (None, s)"
| "requeue_cohorts ports (c # cs) cutoff s =
     (case requeue_all ports c cutoff s of
        None \<Rightarrow> None
      | Some (e, s1) \<Rightarrow> (case e of Some _ \<Rightarrow> Some (e, s1) | None \<Rightarrow> requeue_cohorts ports cs cutoff s1))"

record recovery_result =
  rr_intents :: "intent_result list"
  rr_rejected :: int
  rr_unknown :: int
  rr_business_err :: err

definition no_recovery :: recovery_result where
  "no_recovery = \<lparr>rr_intents = [], rr_rejected = 0, rr_unknown = 0, rr_business_err = None\<rparr>"

definition delivery_blocks_recovery :: "intent_result \<Rightarrow> bool" where
  "delivery_blocks_recovery r \<longleftrightarrow> ir_error r \<noteq> None \<and> ir_status r \<noteq> DecisionIntentFailed \<and> ir_status r \<noteq> DecisionIntentUnknown"

definition result_errors :: "(intent_result \<Rightarrow> bool) \<Rightarrow> intent_result list \<Rightarrow> err list" where
  "result_errors P results = map Some (concat (map (\<lambda>r. submit_error (oi_client_order_id (ir_intent r)) r) (filter P results)))"

definition recovery_of :: "intent_result list \<Rightarrow> err \<Rightarrow> recovery_result \<times> err" where
  "recovery_of results claimErr =
     (let finished = filter (\<lambda>r. ir_error r \<noteq> None \<and> \<not> delivery_blocks_recovery r) results in
      (\<lparr>rr_intents = results,
        rr_rejected = int (length (filter (\<lambda>r. ir_status r = DecisionIntentFailed) finished)),
        rr_unknown = int (length (filter (\<lambda>r. ir_status r \<noteq> DecisionIntentFailed) finished)),
        rr_business_err = errors_join (result_errors (\<lambda>r. \<not> delivery_blocks_recovery r) results)\<rparr>,
       errors_join [errors_join (result_errors delivery_blocks_recovery results), claimErr]))"

definition recover_deliveries :: "'s decision_service \<Rightarrow> gtime \<Rightarrow> 's \<Rightarrow> ((recovery_result \<times> err) \<times> 's) option" where
  "recover_deliveries svc cutoff s =
     (case requeue_cohorts (ds_ports svc) (delivery_cohorts svc) cutoff s of
        None \<Rightarrow> None
      | Some (e, s1) \<Rightarrow>
          (case e of
             Some _ \<Rightarrow> Some ((no_recovery, e), s1)
           | None \<Rightarrow>
               (case deliver_pending_results svc [] s1 of
                  None \<Rightarrow> None
                | Some ((results, claimErr), s2) \<Rightarrow> Some (recovery_of results claimErr, s2))))"

definition guard_disabled_account_recovery :: "'s decision_service \<Rightarrow> ('s, err) state" where
  "guard_disabled_account_recovery svc =
     (let accounts = cp_submission_disabled_accounts (ds_params svc) in
      if accounts = [] then State_Monad.return None
      else do {
        counted \<leftarrow> dp_count_unresolved (ds_ports svc) accounts;
        State_Monad.return (case counted of
          Inl e \<Rightarrow> Some (wrap_error ''check quarantined strategy intents'' e)
        | Inr n \<Rightarrow> if n \<noteq> 0 then Some (ErrText (''automatic submission is disabled for '' @ show_nat (length accounts) @ '' account(s), but '' @
              show_int n @ '' unresolved intent(s) require operator disposition'')) else None) })"

definition recover_from :: "'s decision_service \<Rightarrow> duration \<Rightarrow> 's \<Rightarrow> ((recovery_result \<times> err) \<times> 's) option" where
  "recover_from svc age s =
     (if \<not> cp_submit_enabled (ds_params svc) then Some ((no_recovery, None), s)
      else case run_state (guard_disabled_account_recovery svc) s of
        (Some e, s1) \<Rightarrow> Some ((no_recovery, Some e), s1)
      | (None, s1) \<Rightarrow> (case run_state (dp_now (ds_ports svc)) s1 of (now, s2) \<Rightarrow> recover_deliveries svc (now - age) s2))"

definition recover_pending :: "'s decision_service \<Rightarrow> 's \<Rightarrow> ((recovery_result \<times> err) \<times> 's) option" where
  "recover_pending svc s = recover_from svc (cp_delivery_stale_age (ds_params svc)) s"

text \<open>\<open>RecoverStartup\<close>: the business errors are only logged.\<close>

definition recover_startup :: "'s decision_service \<Rightarrow> 's \<Rightarrow> (err \<times> 's) option" where
  "recover_startup svc s = map_option (\<lambda>((_, e), s1). (e, s1)) (recover_from svc 0 s)"


section \<open>Recovery ends\<close>

text \<open>
  What the claim loops rely on: a claim takes rows out of the pending ones, a requeue takes rows out of the leased ones,
  and nothing else that a delivery calls adds a pending row.
\<close>

locale bounded_recorder =
  fixes ports :: "'s decision_ports" and good :: "'s \<Rightarrow> bool" and pending leased :: "'s \<Rightarrow> nat"
  assumes claim: "good s \<Longrightarrow> wp (dp_claim_pending ports accounts cycleID side limit)
      (\<lambda>r s'. good s' \<and> pending s' + (case r of Inl _ \<Rightarrow> 0 | Inr ds \<Rightarrow> length ds) \<le> pending s) s"
    and requeue: "good s \<Longrightarrow> wp (dp_requeue_stale ports accounts before side limit)
      (\<lambda>r s'. good s' \<and> leased s' + (case r of Inl _ \<Rightarrow> 0 | Inr k \<Rightarrow> nat k) \<le> leased s) s"
    and complete: "keeps (\<lambda>s. good s \<and> pending s \<le> n) (dp_complete ports client attempt c)"
    and submit: "keeps (\<lambda>s. good s \<and> pending s \<le> n) (executor_submit ports i)"
    and policy: "keeps (\<lambda>s. good s \<and> pending s \<le> n) (submission_allowed ports i)"
    and gate: "dp_account_gate ports = Some (acquire, release) \<Longrightarrow> keeps good (acquire a) \<and> keeps good (release a)"
    and counts: "keeps good (dp_count_unresolved ports accounts)"
    and clock: "keeps good (dp_now ports)"
begin

lemma process_delivery_bounded: "keeps (\<lambda>s. good s \<and> pending s \<le> n) (process_delivery ports d)"
  unfolding process_delivery_def by (intro keeps_rules policy submit complete)

lemma deliver_batch_bounded: "keeps (\<lambda>s. good s \<and> pending s \<le> n) (deliver_batch ports ds)"
  by (induction ds) (auto intro!: keeps_rules process_delivery_bounded)

lemma deliver_claims_ends:
  "good s \<Longrightarrow> \<exists>r s'. deliver_claims ports account cycleID side acc s = Some (r, s') \<and> good s'"
proof (induction "pending s" arbitrary: s acc rule: less_induct)
  case less
  obtain claimed s1 where c: "run_state (dp_claim_pending ports [account] cycleID side defaultDeliveryBatch) s = (claimed, s1)" by (metis surj_pair)
  note cl = wpD [OF claim [OF less.prems] c]
  show ?case
  proof (cases "\<exists>ds. claimed = Inr ds \<and> ds \<noteq> []")
    case False
    then show ?thesis using c cl by (subst deliver_claims.simps) (auto split: sum.splits)
  next
    case True
    then obtain ds where ds: "claimed = Inr ds" "ds \<noteq> []" by blast
    obtain rs s2 where b: "run_state (deliver_batch ports ds) s1 = (rs, s2)" by (metis surj_pair)
    have "good s2 \<and> pending s2 \<le> pending s1" using keepsD [OF deliver_batch_bounded _ b, of "pending s1"] cl by simp
    moreover have "0 < length ds" using ds(2) by simp
    moreover have "pending s1 + length ds \<le> pending s" using cl ds(1) by simp
    ultimately have s2: "good s2" "pending s2 < pending s" by linarith+
    show ?thesis using less.hyps [OF s2(2,1)] s2(1) c ds b by (subst deliver_claims.simps) (simp add: Let_def)
  qed
qed

lemma deliver_account_ends:
  assumes "good s"
  shows "\<exists>r s'. deliver_pending_for_account ports account cycleID side s = Some (r, s') \<and> good s'"
proof (cases "dp_account_gate ports")
  case None
  then show ?thesis using deliver_claims_ends [OF assms] by (simp add: deliver_pending_for_account_def)
next
  case (Some g)
  obtain acquire release where g: "g = (acquire, release)" by (metis surj_pair)
  obtain e s1 where a: "run_state (acquire account) s = (e, s1)" by (metis surj_pair)
  note gates = gate [OF Some [unfolded g], of account]
  have s1: "good s1" using keepsD [OF conjunct1 [OF gates] assms a] .
  obtain r s2 where r: "deliver_claims ports account cycleID side \<lparr>ad_intents = [], ad_errors = []\<rparr> s1 = Some (r, s2)" "good s2"
    using deliver_claims_ends [OF s1] by blast
  have "good (snd (run_state (release account) s2))" using keepsD [OF conjunct2 [OF gates] r(2)] by (metis surj_pair snd_conv)
  then show ?thesis using r a s1 Some g by (cases e) (simp_all add: deliver_pending_for_account_def)
qed

lemma deliver_accounts_ends: "good s \<Longrightarrow> \<exists>r s'. deliver_accounts ports cycleID pairs results s = Some (r, s') \<and> good s'"
proof (induction pairs arbitrary: results s)
  case (Cons p pairs)
  obtain account side where p: "p = (account, side)" by (metis surj_pair)
  obtain r e s1 where "deliver_pending_for_account ports account cycleID side s = Some ((r, e), s1)" "good s1"
    using deliver_account_ends [OF Cons.prems] by (metis surj_pair)
  then show ?case using Cons.IH [of s1] p by (cases e) auto
qed simp

lemma requeue_all_ends: "good s \<Longrightarrow> \<exists>e s'. requeue_all ports cohort cutoff s = Some (e, s') \<and> good s'"
proof (induction "leased s" arbitrary: s rule: less_induct)
  case less
  obtain n s1 where n: "run_state (dp_requeue_stale ports (ch_accounts cohort) cutoff (ch_side cohort) defaultDeliveryBatch) s = (n, s1)" by (metis surj_pair)
  note rq = wpD [OF requeue [OF less.prems] n]
  show ?case
  proof (cases "\<exists>k. n = Inr k \<and> \<not> k < defaultDeliveryBatch")
    case False
    then show ?thesis using n rq by (subst requeue_all.simps) (auto split: sum.splits)
  next
    case True
    then have "leased s1 < leased s" using rq by (auto simp: defaultDeliveryBatch_def)
    then show ?thesis using less.hyps [of s1] rq n True by (subst requeue_all.simps) auto
  qed
qed

lemma requeue_cohorts_ends: "good s \<Longrightarrow> \<exists>e s'. requeue_cohorts ports cs cutoff s = Some (e, s') \<and> good s'"
proof (induction cs arbitrary: s)
  case (Cons c cs)
  obtain e s1 where "requeue_all ports c cutoff s = Some (e, s1)" "good s1" using requeue_all_ends [OF Cons.prems] by blast
  then show ?case using Cons.IH [of s1] by (cases e) auto
qed simp

lemma recover_from_ends:
  assumes "good s" "ds_ports svc = ports"
  shows "\<exists>r s'. recover_from svc age s = Some (r, s')"
proof (cases "cp_submit_enabled (ds_params svc)")
  case True
  obtain e s1 where g: "run_state (guard_disabled_account_recovery svc) s = (e, s1)" by (metis surj_pair)
  have "keeps good (guard_disabled_account_recovery svc)"
    unfolding guard_disabled_account_recovery_def Let_def assms(2) by (intro keeps_rules counts)
  from keepsD [OF this assms(1) g] have s1: "good s1" .
  obtain now s2 where n: "run_state (dp_now ports) s1 = (now, s2)" by (metis surj_pair)
  have s2: "good s2" using keepsD [OF clock s1 n] .
  obtain e3 s3 where q: "requeue_cohorts ports (delivery_cohorts svc) (now - age) s2 = Some (e3, s3)" "good s3"
    using requeue_cohorts_ends [OF s2] by blast
  obtain rs e4 s4 where "deliver_pending_results svc [] s3 = Some ((rs, e4), s4)"
    using deliver_accounts_ends [OF q(2)] assms(2) unfolding deliver_pending_results_def by (metis surj_pair)
  then have "\<exists>r s'. recover_deliveries svc (now - age) s2 = Some (r, s')"
    using q(1) assms(2) by (cases e3) (auto simp: recover_deliveries_def)
  then show ?thesis using True g n assms(2) by (cases e) (simp_all add: recover_from_def)
qed (simp add: recover_from_def)

end


section \<open>Delivery over the recorder\<close>

text \<open>
  The service over the tables of \<open>Decision_Store\<close>: every recorder call is a call of the recorder, with errors, locks and
  clock from the world; every other port acts on the world. The log keeps each submitted intent with the tables at that time.
\<close>

record 'w cycle_state =
  cs_store :: decision_store
  cs_submits :: "(order_intent \<times> decision_store) list"
  cs_world :: 'w

record 'w recorder_env =
  re_statement :: "('w, db_errors \<times> (string \<Rightarrow> bool) \<times> gtime) state"
  re_digest :: input_digest
  re_codec :: response_codec

definition on_world :: "('w, 'a) state \<Rightarrow> ('w cycle_state, 'a) state" where
  "on_world m = State (\<lambda>s. case run_state m (cs_world s) of (x, w) \<Rightarrow> (x, s\<lparr>cs_world := w\<rparr>))"

definition on_store ::
    "'w recorder_env \<Rightarrow> (db_errors \<Rightarrow> (string \<Rightarrow> bool) \<Rightarrow> gtime \<Rightarrow> decision_store \<Rightarrow> 'a \<times> decision_store) \<Rightarrow> ('w cycle_state, 'a) state" where
  "on_store env f = State (\<lambda>s. case run_state (re_statement env) (cs_world s) of
     ((db, locked, now), w) \<Rightarrow> (case f db locked now (cs_store s) of (x, st) \<Rightarrow> (x, s\<lparr>cs_store := st, cs_world := w\<rparr>)))"

definition logged_submit :: "(order_intent \<Rightarrow> ('w, submit_result \<times> err) state) \<Rightarrow> order_intent \<Rightarrow> ('w cycle_state, submit_result \<times> err) state" where
  "logged_submit submit i = State (\<lambda>s. case run_state (submit i) (cs_world s) of
     (x, w) \<Rightarrow> (x, s\<lparr>cs_submits := cs_submits s @ [(i, cs_store s)], cs_world := w\<rparr>))"

definition first_of :: "(go_error + 'a \<times> bool) \<times> 'b \<Rightarrow> (go_error + 'a) \<times> 'b" where
  "first_of r = (map_sum id fst (fst r), snd r)"

definition recorder_ports :: "'w recorder_env \<Rightarrow> 'w decision_ports \<Rightarrow> 'w cycle_state decision_ports" where
  "recorder_ports env outside =
     \<lparr>dp_snapshot = (\<lambda>a b. on_world (dp_snapshot outside a b)), dp_list_open_lots = (\<lambda>c. on_world (dp_list_open_lots outside c)),
      dp_capture = (\<lambda>a ts. on_world (dp_capture outside a ts)), dp_claim_batch = (\<lambda>b. on_world (dp_claim_batch outside b)),
      dp_decide = (\<lambda>rq. on_world (dp_decide outside rq)),
      dp_claim_input = (\<lambda>rq. on_store env (\<lambda>db locked now st. first_of (claim_input (re_digest env) db now rq st))),
      dp_claim_output = (\<lambda>rs intents b. on_store env (\<lambda>db locked now st. first_of (claim_output (re_codec env) db now rs intents b st))),
      dp_count_unresolved = (\<lambda>accounts. on_store env (\<lambda>db locked now st. (count_unresolved_intents_for_accounts db accounts st, st))),
      dp_claim_pending = (\<lambda>accounts cycleID side limit. on_store env (\<lambda>db locked now st. claim_pending_intents db locked now accounts cycleID side limit st)),
      dp_requeue_stale = (\<lambda>accounts before side limit. on_store env (\<lambda>db locked now st. requeue_stale_submitting db locked now accounts before side limit st)),
      dp_complete = (\<lambda>client attempt c. on_store env (\<lambda>db locked now st. complete_intent db now client attempt c st)),
      dp_list_intents = (\<lambda>cycleID. on_store env (\<lambda>db locked now st. (list_intents db cycleID st, st))),
      dp_submit = map_option logged_submit (dp_submit outside),
      dp_account_gate = map_option (\<lambda>(acquire, release). (\<lambda>a. on_world (acquire a), \<lambda>a. on_world (release a))) (dp_account_gate outside),
      dp_submission_policy = map_option (\<lambda>policy i. on_world (policy i)) (dp_submission_policy outside),
      dp_route_policy = map_option (\<lambda>policy b. on_world (policy b)) (dp_route_policy outside),
      dp_reporter = map_option (\<lambda>report c ds code reason. on_world (report c ds code reason)) (dp_reporter outside),
      dp_now = on_world (dp_now outside), dp_ctx_err = on_world (dp_ctx_err outside)\<rparr>"

lemma wp_on_world: "(\<And>x w. run_state m (cs_world s) = (x, w) \<Longrightarrow> Q x (s\<lparr>cs_world := w\<rparr>)) \<Longrightarrow> wp (on_world m) Q s"
  by (auto simp: wp_def on_world_def split: prod.splits)

lemma wp_on_store:
  "(\<And>db locked now x st w. f db locked now (cs_store s) = (x, st) \<Longrightarrow> Q x (s\<lparr>cs_store := st, cs_world := w\<rparr>)) \<Longrightarrow> wp (on_store env f) Q s"
  by (auto simp: wp_def on_store_def split: prod.splits)

lemma wp_logged_submit: "(\<And>x w. Q x (s\<lparr>cs_submits := cs_submits s @ [(i, cs_store s)], cs_world := w\<rparr>)) \<Longrightarrow> wp (logged_submit submit i) Q s"
  by (auto simp: wp_def logged_submit_def split: prod.splits)

definition pending_rows :: "decision_store \<Rightarrow> nat" where
  "pending_rows st = length (filter (\<lambda>d. dd_status d = DecisionIntentPending) (st_deliveries st))"

definition leased_rows :: "decision_store \<Rightarrow> nat" where
  "leased_rows st = length (filter (\<lambda>d. dd_status d = DecisionIntentSubmitting) (st_deliveries st))"

text \<open>Updating rows that satisfy \<open>P\<close> to rows that do not takes as many out of \<open>P\<close> as were updated.\<close>

lemma updated_count:
  assumes "\<forall>d\<in>set ds. dd_client_order_id d \<in> ids \<longrightarrow> P d \<and> \<not> P (f d)"
  shows "length (filter P (map (\<lambda>d. if dd_client_order_id d \<in> ids then f d else d) ds)) + length (filter (\<lambda>d. dd_client_order_id d \<in> ids) ds) = length (filter P ds)"
  using assms by (induction ds) auto

lemma update_rows_count:
  assumes ok: "schema_ok st" and ids: "set ids \<subseteq> dd_client_order_id ` {d \<in> set (st_deliveries st). P d}" and f: "\<And>d. \<not> P (f d)"
  shows "length (filter P (st_deliveries (update_rows ids f st))) + length (filter (\<lambda>d. dd_client_order_id d \<in> set ids) (st_deliveries st)) =
    length (filter P (st_deliveries st))"
proof -
  have "P d" if d: "d \<in> set (st_deliveries st)" "dd_client_order_id d \<in> set ids" for d
  proof -
    obtain e where e: "e \<in> set (st_deliveries st)" "P e" "dd_client_order_id d = dd_client_order_id e" using d(2) ids by blast
    then show ?thesis using same_client_same_row [OF ok d(1) e(1)] by simp
  qed
  then show ?thesis unfolding update_rows_def using updated_count [of "st_deliveries st" "set ids" P f] f by simp
qed

lemma update_rows_ids:
  "(\<And>d. dd_client_order_id (f d) = dd_client_order_id d) \<Longrightarrow>
   length (filter (\<lambda>d. dd_client_order_id d \<in> set ids) (st_deliveries (update_rows ids f st))) =
   length (filter (\<lambda>d. dd_client_order_id d \<in> set ids) (st_deliveries st))"
proof -
  assume f: "\<And>d. dd_client_order_id (f d) = dd_client_order_id d"
  have "length (filter (\<lambda>d. dd_client_order_id d \<in> set ids) (map (\<lambda>d. if dd_client_order_id d \<in> set ids then f d else d) ds)) =
    length (filter (\<lambda>d. dd_client_order_id d \<in> set ids) ds)" for ds
    by (induction ds) (auto simp: f)
  then show ?thesis by (simp add: update_rows_def)
qed

lemma claim_takes_pending:
  assumes "claim_pending_intents db locked now accounts cycleID side limit st = (r, st')" "schema_ok st"
  shows "schema_ok st' \<and> pending_rows st' + (case r of Inl _ \<Rightarrow> 0 | Inr ds \<Rightarrow> length ds) \<le> pending_rows st"
proof -
  have ok: "schema_ok st'" using store_step_schema [OF store_step.claim [OF assms(1)] assms(2)] .
  show ?thesis
  proof (cases "isl r \<and> st' = st")
    case True
    then show ?thesis using ok by (auto split: sum.splits)
  next
    case False
    then obtain accs ids where ids: "ids = claim_candidates locked accs (trim_space cycleID) side (nat limit) st"
      and st': "st' = update_rows ids (claimed_delivery now) st"
      and rows: "isl r \<or> mset (projr r) = mset (filter (\<lambda>d. dd_client_order_id d \<in> set ids) (st_deliveries st'))"
      using claim_pending_cases [OF assms(1)] by blast
    have "set ids \<subseteq> dd_client_order_id ` {d \<in> set (st_deliveries st). dd_status d = DecisionIntentPending}"
      unfolding ids using claim_candidates_pending by fastforce
    from update_rows_count [OF assms(2) this, of "claimed_delivery now"]
    have "pending_rows st' + length (filter (\<lambda>d. dd_client_order_id d \<in> set ids) (st_deliveries st)) = pending_rows st"
      unfolding st' pending_rows_def by (simp add: claimed_delivery_def)
    moreover have "length ds = length (filter (\<lambda>d. dd_client_order_id d \<in> set ids) (st_deliveries st))" if "r = Inr ds" for ds
      using rows that update_rows_ids [of "claimed_delivery now" ids st] mset_eq_length unfolding st' by (fastforce simp: claimed_delivery_def)
    ultimately show ?thesis using ok by (auto split: sum.splits)
  qed
qed

lemma requeue_takes_leased:
  assumes "requeue_stale_submitting db locked now accounts before side limit st = (r, st')" "schema_ok st"
  shows "schema_ok st' \<and> leased_rows st' + (case r of Inl _ \<Rightarrow> 0 | Inr n \<Rightarrow> nat n) \<le> leased_rows st"
proof -
  have ok: "schema_ok st'" using store_step_schema [OF store_step.requeue [OF assms(1)] assms(2)] .
  show ?thesis
  proof (cases "isl r \<and> st' = st")
    case True
    then show ?thesis using ok by (auto split: sum.splits)
  next
    case False
    then obtain accs ids where ids: "ids = stale_candidates locked accs before side (nat limit) st" and st': "st' = update_rows ids (requeued_delivery now) st"
      and n: "isl r \<or> projr r = int (length (filter (\<lambda>d. dd_client_order_id d \<in> set ids) (st_deliveries st)))"
      using requeue_cases [OF assms(1)] by blast
    from update_rows_count [OF assms(2), of ids "\<lambda>d. dd_status d = DecisionIntentSubmitting" "requeued_delivery now"] stale_candidates_submitting
    have "leased_rows st' + length (filter (\<lambda>d. dd_client_order_id d \<in> set ids) (st_deliveries st)) = leased_rows st"
      unfolding st' leased_rows_def ids by (simp add: requeued_delivery_def)
    then show ?thesis using ok n by (auto split: sum.splits)
  qed
qed

lemma complete_adds_no_pending:
  assumes "complete_intent db now client attempt c st = (e, st')"
  shows "pending_rows st' \<le> pending_rows st"
proof -
  have "check_completion c = None \<Longrightarrow> length (filter (\<lambda>d. dd_status d = DecisionIntentPending)
      (map (\<lambda>d. if held_delivery k attempt d then completed_delivery now c d else d) ds)) \<le>
    length (filter (\<lambda>d. dd_status d = DecisionIntentPending) ds)" for ds k
    using check_completion_None [of c] by (induction ds) (auto simp: completed_delivery_def)
  then show ?thesis using assms by (auto simp: complete_intent_def pending_rows_def Let_def split: if_splits option.splits)
qed

interpretation recorder: bounded_recorder "recorder_ports env outside" "\<lambda>s. schema_ok (cs_store s)" "\<lambda>s. pending_rows (cs_store s)" "\<lambda>s. leased_rows (cs_store s)"
  for env :: "'w recorder_env" and outside :: "'w decision_ports"
proof
  show "keeps (\<lambda>s. schema_ok (cs_store s) \<and> pending_rows (cs_store s) \<le> n) (dp_complete (recorder_ports env outside) client attempt c)" for n client attempt c
    using complete_adds_no_pending store_step_schema [OF store_step.complete]
    by (auto simp: keeps_def recorder_ports_def intro!: wp_on_store) (meson le_trans)
  show "keeps (\<lambda>s. schema_ok (cs_store s) \<and> pending_rows (cs_store s) \<le> n) (executor_submit (recorder_ports env outside) i)" for n i
    by (auto simp: keeps_def executor_submit_def recorder_ports_def intro!: wp_logged_submit wp_return split: option.splits)
  show "keeps (\<lambda>s. schema_ok (cs_store s) \<and> pending_rows (cs_store s) \<le> n) (submission_allowed (recorder_ports env outside) i)" for n i
    by (auto simp: keeps_def submission_allowed_def recorder_ports_def intro!: wp_on_world wp_return split: option.splits)
  show "keeps (\<lambda>s. schema_ok (cs_store s)) (acquire a) \<and> keeps (\<lambda>s. schema_ok (cs_store s)) (release a)"
    if "dp_account_gate (recorder_ports env outside) = Some (acquire, release)" for acquire release a
    using that by (auto simp: keeps_def recorder_ports_def intro!: wp_on_world)
qed (auto simp: keeps_def recorder_ports_def claim_takes_pending requeue_takes_leased intro!: wp_on_store wp_on_world
    dest: claim_takes_pending requeue_takes_leased)

text \<open>
  Termination. Recovery of pending deliveries always returns, whatever the executor, the gates, the locks and the
  database do: every full batch that is requeued or claimed leaves fewer rows to requeue or to claim.
\<close>

lemma recovery_terminates:
  assumes "new_decision_service (recorder_ports env outside) p = Inr svc" "schema_ok (cs_store s)"
  shows "(\<exists>r s'. recover_pending svc s = Some (r, s')) \<and> (\<exists>e s'. recover_startup svc s = Some (e, s'))"
proof -
  note ends = recorder.recover_from_ends [where s = s, OF assms(2) new_decision_service_fields(1) [OF assms(1)]]
  show ?thesis using ends unfolding recover_pending_def recover_startup_def by fastforce
qed


section \<open>What recovery submits\<close>

definition pending_ids :: "decision_store \<Rightarrow> string set" where
  "pending_ids st = dd_client_order_id ` {d \<in> set (st_deliveries st). dd_status d = DecisionIntentPending}"

text \<open>The tables hold a claim of the intent: a row under its key, in state SUBMITTING.\<close>

definition claimed_in :: "order_intent \<Rightarrow> decision_store \<Rightarrow> bool" where
  "claimed_in i st \<longleftrightarrow> (\<exists>d\<in>set (st_deliveries st). dd_intent d = i \<and> dd_client_order_id d = oi_client_order_id i \<and>
     dd_status d = DecisionIntentSubmitting \<and> 0 < dd_attempt d)"

definition logged_clients :: "(order_intent \<times> decision_store) list \<Rightarrow> string list" where
  "logged_clients entries = map (\<lambda>(i, st). oi_client_order_id i) entries"

text \<open>The intents recorded for a cycle, in the order of the strategy.\<close>

definition cycle_intents :: "string \<Rightarrow> decision_store \<Rightarrow> order_intent list" where
  "cycle_intents c st = map dd_intent (cycle_deliveries c st)"

definition delivery_trace :: "(order_intent \<Rightarrow> bool) \<Rightarrow> 'w cycle_state \<Rightarrow> 'w cycle_state \<Rightarrow> bool" where
  "delivery_trace P s s' \<longleftrightarrow> store_step\<^sup>*\<^sup>* (cs_store s) (cs_store s') \<and> schema_ok (cs_store s') \<and>
     pending_ids (cs_store s') \<subseteq> pending_ids (cs_store s) \<and> (\<forall>c. cycle_intents c (cs_store s') = cycle_intents c (cs_store s)) \<and>
     (\<exists>entries. cs_submits s' = cs_submits s @ entries \<and> (\<forall>(i, st)\<in>set entries. P i \<and> claimed_in i st) \<and> distinct (logged_clients entries) \<and>
        set (logged_clients entries) \<subseteq> pending_ids (cs_store s) - pending_ids (cs_store s'))"

lemma delivery_trace_refl: "schema_ok (cs_store s) \<Longrightarrow> delivery_trace P s s"
  by (auto simp: delivery_trace_def logged_clients_def intro!: exI [of _ "[]"])

lemma delivery_trace_same:
  "delivery_trace P s s' \<Longrightarrow> cs_store s0 = cs_store s \<Longrightarrow> cs_submits s0 = cs_submits s \<Longrightarrow>
   cs_store s1 = cs_store s' \<Longrightarrow> cs_submits s1 = cs_submits s' \<Longrightarrow> delivery_trace P s0 s1"
  by (simp add: delivery_trace_def)

lemma delivery_trace_trans:
  assumes "delivery_trace P s s1" "delivery_trace P s1 s2"
  shows "delivery_trace P s s2"
proof -
  obtain l1 where l1: "cs_submits s1 = cs_submits s @ l1" "\<forall>(i, st)\<in>set l1. P i \<and> claimed_in i st" "distinct (logged_clients l1)"
    "set (logged_clients l1) \<subseteq> pending_ids (cs_store s) - pending_ids (cs_store s1)" using assms(1) by (auto simp: delivery_trace_def)
  obtain l2 where l2: "cs_submits s2 = cs_submits s1 @ l2" "\<forall>(i, st)\<in>set l2. P i \<and> claimed_in i st" "distinct (logged_clients l2)"
    "set (logged_clients l2) \<subseteq> pending_ids (cs_store s1) - pending_ids (cs_store s2)" using assms(2) by (auto simp: delivery_trace_def)
  have pend: "pending_ids (cs_store s2) \<subseteq> pending_ids (cs_store s1)" "pending_ids (cs_store s1) \<subseteq> pending_ids (cs_store s)"
    using assms by (auto simp: delivery_trace_def)
  have app: "logged_clients (l1 @ l2) = logged_clients l1 @ logged_clients l2" by (simp add: logged_clients_def)
  have kept: "store_step\<^sup>*\<^sup>* (cs_store s) (cs_store s2)" "\<forall>c. cycle_intents c (cs_store s2) = cycle_intents c (cs_store s)"
    using assms by (auto simp: delivery_trace_def)
  have "distinct (logged_clients (l1 @ l2))" unfolding app distinct_append using l1(3,4) l2(3,4) by blast
  moreover have "set (logged_clients (l1 @ l2)) \<subseteq> pending_ids (cs_store s) - pending_ids (cs_store s2)"
    unfolding app set_append using l1(4) l2(4) pend by blast
  moreover have "\<forall>(i, st)\<in>set (l1 @ l2). P i \<and> claimed_in i st" using l1(2) l2(2) by auto
  moreover have "cs_submits s2 = cs_submits s @ (l1 @ l2)" using l1(1) l2(1) by simp
  moreover have "schema_ok (cs_store s2)" using assms(2) by (simp add: delivery_trace_def)
  ultimately show ?thesis using order_trans [OF pend] kept unfolding delivery_trace_def by blast
qed

lemma delivery_trace_mono: "delivery_trace P s s' \<Longrightarrow> (\<And>i. P i \<Longrightarrow> Q i) \<Longrightarrow> delivery_trace Q s s'"
  unfolding delivery_trace_def by (metis (no_types, lifting) case_prodD case_prodI2)

text \<open>The rows a claim returns.\<close>

lemma scan_all_keys: "scan_all ds = Inr rows \<Longrightarrow> \<forall>d\<in>set rows. oi_client_order_id (dd_intent d) = dd_client_order_id d"
  by (induction ds arbitrary: rows) (auto simp: scan_decision_intent_delivery_def split: sum.splits if_splits)

lemma claim_rows_keys:
  "claim_pending_intents db locked now accounts cycleID side limit st = (Inr rows, st') \<Longrightarrow>
   \<forall>d\<in>set rows. oi_client_order_id (dd_intent d) = dd_client_order_id d"
  using scan_all_keys by (fastforce simp: claim_pending_intents_def Let_def split: sum.splits option.splits if_splits)

lemma claim_pending_ids_subset:
  assumes "claim_pending_intents db locked now accounts cycleID side limit st = (r, st')" "schema_ok st"
  shows "pending_ids st' \<subseteq> pending_ids st"
proof (cases "st' = st")
  case False
  then obtain ids where "st' = update_rows ids (claimed_delivery now) st" using claim_pending_cases [OF assms(1)] by blast
  moreover have "dd_client_order_id (claimed_delivery now d) = dd_client_order_id d" "dd_status (claimed_delivery now d) \<noteq> DecisionIntentPending" for d
    by (simp_all add: claimed_delivery_def)
  ultimately show ?thesis unfolding pending_ids_def update_rows_def by force
qed simp

definition claimed_row :: "string \<Rightarrow> string \<Rightarrow> side \<Rightarrow> decision_store \<Rightarrow> decision_intent_delivery \<Rightarrow> bool" where
  "claimed_row account cycleID side st d \<longleftrightarrow> d \<in> set (st_deliveries st) \<and> dd_status d = DecisionIntentSubmitting \<and> 0 < dd_attempt d \<and>
     oi_client_order_id (dd_intent d) = dd_client_order_id d \<and> oi_execution_account_id (dd_intent d) = account \<and>
     (cycleID = [] \<or> dd_cycle_id d = cycleID) \<and> side_selected side d"

lemma claim_rows_claimed:
  assumes claim: "claim_pending_intents db locked now [account] cycleID side limit st = (Inr rows, st')" and ok: "schema_ok st"
  shows "\<forall>d\<in>set rows. claimed_row (trim_space account) (trim_space cycleID) side st' d \<and> dd_client_order_id d \<in> pending_ids st - pending_ids st'"
    and "distinct (map dd_client_order_id rows)" and "pending_ids st' \<subseteq> pending_ids st"
proof -
  obtain accs ids where accs: "normalize_decision_recovery_accounts [account] = Inr accs"
    and ids: "ids = claim_candidates locked accs (trim_space cycleID) side (nat limit) st" and st': "st' = update_rows ids (claimed_delivery now) st"
    and rows: "mset rows = mset (filter (\<lambda>d. dd_client_order_id d \<in> set ids) (st_deliveries st'))"
    using claim_pending_cases [OF claim] by auto
  have acc: "accs = [trim_space account]" using accs by (auto simp: normalize_decision_recovery_accounts_def Let_def split: if_splits)
  have ok': "schema_ok st'" using store_step_schema [OF store_step.claim [OF claim] ok] .
  show "distinct (map dd_client_order_id rows)"
  proof -
    have "mset (map dd_client_order_id rows) = mset (map dd_client_order_id (filter (\<lambda>d. dd_client_order_id d \<in> set ids) (st_deliveries st')))"
      using rows by simp
    moreover have "distinct (map dd_client_order_id (filter (\<lambda>d. dd_client_order_id d \<in> set ids) (st_deliveries st')))"
      using ok' by (simp add: schema_ok_def deliveries_ok_def distinct_map_filter)
    ultimately show ?thesis by (metis mset_eq_imp_distinct_iff)
  qed
  have pend: "pending_ids st' = pending_ids st - set ids"
  proof -
    have "dd_client_order_id (claimed_delivery now d) = dd_client_order_id d" "dd_status (claimed_delivery now d) \<noteq> DecisionIntentPending" for d
      by (simp_all add: claimed_delivery_def)
    then show ?thesis unfolding pending_ids_def st' update_rows_def by force
  qed
  then show "pending_ids st' \<subseteq> pending_ids st" by blast
  show "\<forall>d\<in>set rows. claimed_row (trim_space account) (trim_space cycleID) side st' d \<and> dd_client_order_id d \<in> pending_ids st - pending_ids st'"
  proof
    fix d assume d: "d \<in> set rows"
    obtain d0 where d0: "d \<in> set (st_deliveries st')" "d0 \<in> set (st_deliveries st)" "dd_status d0 = DecisionIntentPending" "d = claimed_delivery now d0"
      using claim_pending_rows [OF claim ok d] by blast
    have key: "dd_client_order_id d = dd_client_order_id d0" using d0(4) by (simp add: claimed_delivery_def)
    have "dd_client_order_id d \<in> set ids" using d rows by (metis (no_types, lifting) mem_Collect_eq set_filter set_mset_mset)
    then obtain e where e: "e \<in> set (st_deliveries st)" "side_selected side e" "oi_execution_account_id (dd_intent e) = trim_space account"
      "trim_space cycleID = [] \<or> dd_cycle_id e = trim_space cycleID" "dd_client_order_id d = dd_client_order_id e"
      using claim_candidates_pending [of locked accs "trim_space cycleID" side "nat limit" st] unfolding ids acc by auto
    have "e = d0" using same_client_same_row [OF ok e(1) d0(2)] e(5) key by simp
    moreover have "0 \<le> dd_attempt d0" using ok d0(2) by (auto simp: schema_ok_def deliveries_ok_def list_all_iff delivery_row_ok_def)
    ultimately have "claimed_row (trim_space account) (trim_space cycleID) side st' d"
      using d0 e claim_rows_keys [OF claim] d by (auto simp: claimed_row_def claimed_delivery_def side_selected_def)
    moreover have "dd_client_order_id d \<in> pending_ids st" using d0(2,3) key by (auto simp: pending_ids_def)
    ultimately show "claimed_row (trim_space account) (trim_space cycleID) side st' d \<and> dd_client_order_id d \<in> pending_ids st - pending_ids st'"
      using pend \<open>dd_client_order_id d \<in> set ids\<close> by blast
  qed
qed

text \<open>One delivery: at most one submission, under its claim, and only its own row changes.\<close>

definition row_held :: "decision_store \<Rightarrow> decision_intent_delivery \<Rightarrow> bool" where
  "row_held st d \<longleftrightarrow> d \<in> set (st_deliveries st) \<and> dd_status d = DecisionIntentSubmitting \<and> 0 < dd_attempt d \<and>
     oi_client_order_id (dd_intent d) = dd_client_order_id d"

lemma complete_pending_ids:
  assumes "complete_intent db now client attempt c st = (e, st')"
  shows "pending_ids st' \<subseteq> pending_ids st"
proof -
  have "dd_client_order_id (completed_delivery now c d) = dd_client_order_id d" for d by (simp add: completed_delivery_def)
  moreover have "check_completion c = None \<Longrightarrow> dd_status (completed_delivery now c d) \<noteq> DecisionIntentPending" for d
    using check_completion_None [of c] by (auto simp: completed_delivery_def)
  ultimately show ?thesis using assms unfolding pending_ids_def
    by (auto simp: complete_intent_def Let_def split: if_splits option.splits)
qed

lemma complete_other_rows:
  assumes "complete_intent db now client attempt c st = (e, st')" "row_held st d" "dd_client_order_id d \<noteq> trim_space client"
  shows "row_held st' d"
  using assms by (auto simp: complete_intent_def row_held_def held_delivery_def Let_def split: if_splits option.splits intro!: image_eqI [of _ _ d])

definition delivered_batch :: "'w cycle_state \<Rightarrow> decision_intent_delivery list \<Rightarrow> 'w cycle_state \<Rightarrow> bool" where
  "delivered_batch s ds s' \<longleftrightarrow> store_step\<^sup>*\<^sup>* (cs_store s) (cs_store s') \<and> schema_ok (cs_store s') \<and>
     pending_ids (cs_store s') \<subseteq> pending_ids (cs_store s) \<and> (\<forall>c. cycle_intents c (cs_store s') = cycle_intents c (cs_store s)) \<and>
     (\<forall>d. row_held (cs_store s) d \<and> dd_client_order_id d \<notin> dd_client_order_id ` set ds \<longrightarrow> row_held (cs_store s') d) \<and>
     (\<exists>entries. cs_submits s' = cs_submits s @ entries \<and> (\<forall>(i, st)\<in>set entries. i \<in> dd_intent ` set ds \<and> claimed_in i st) \<and>
        distinct (logged_clients entries) \<and> set (logged_clients entries) \<subseteq> dd_client_order_id ` set ds)"

lemma process_delivery_delivered:
  assumes ok: "schema_ok (cs_store s)" and d: "row_held (cs_store s) d"
  shows "wp (process_delivery (recorder_ports env outside) d) (\<lambda>_. delivered_batch s [d]) s"
proof -
  have key: "trim_space (dd_client_order_id d) = dd_client_order_id d"
    using ok d by (auto simp: row_held_def schema_ok_def deliveries_ok_def list_all_iff delivery_row_ok_def)
  have claim: "claimed_in (dd_intent d) (cs_store s)" using d by (auto simp: row_held_def claimed_in_def)
  have idle: "delivered_batch s [d] (s\<lparr>cs_world := w\<rparr>)" for w
    using ok by (auto simp: delivered_batch_def logged_clients_def intro!: exI [of _ "[]"])
  define logged where "logged w = s\<lparr>cs_submits := cs_submits s @ [(dd_intent d, cs_store s)], cs_world := w\<rparr>" for w
  have logged: "delivered_batch s [d] (logged w)" for w
    using ok claim d by (auto simp: delivered_batch_def logged_def logged_clients_def row_held_def intro!: exI [of _ "[(dd_intent d, cs_store s)]"])
  have submitted: "wp (executor_submit (recorder_ports env outside) (dd_intent d)) (\<lambda>_ s'. (\<exists>w. s' = logged w) \<or> (\<exists>w'. s' = s\<lparr>cs_world := w'\<rparr>)) (s\<lparr>cs_world := w\<rparr>)" for w
    by (auto simp: executor_submit_def recorder_ports_def logged_def intro!: wp_logged_submit wp_return split: option.splits)
  have complete: "wp (dp_complete (recorder_ports env outside) (dd_client_order_id d) (dd_attempt d) c) (\<lambda>_. delivered_batch s [d]) s1"
    if s1: "delivered_batch s [d] s1" "cs_store s1 = cs_store s" for c s1
  proof (simp add: recorder_ports_def, rule wp_on_store, goal_cases)
    case (1 db locked now x st w)
    have c: "complete_intent db now (dd_client_order_id d) (dd_attempt d) c (cs_store s) = (x, st)" using 1 s1(2) by simp
    have "cycle_intents k st = cycle_intents k (cs_store s)" for k
      using row_steps_cycle [OF conjunct1 [OF complete_steps [OF c]]] by (simp add: cycle_intents_def)
    then show ?case using s1 complete_pending_ids [OF c] complete_other_rows [OF c] key store_step_schema [OF store_step.complete [OF c] ok]
        store_step.complete [OF c]
      by (auto simp: delivered_batch_def)
  qed
  have "wp (submission_allowed (recorder_ports env outside) (dd_intent d)) (\<lambda>_ s'. \<exists>w. s' = s\<lparr>cs_world := w\<rparr>) s"
  proof (cases "dp_submission_policy outside")
    case None
    then show ?thesis by (auto simp: submission_allowed_def recorder_ports_def intro!: wp_return exI [of _ "cs_world s"])
  next
    case (Some policy)
    then show ?thesis by (auto simp: submission_allowed_def recorder_ports_def intro!: wp_on_world)
  qed
  then show ?thesis
    unfolding process_delivery_def
    apply (intro wp_bind)
    apply (erule wp_mono)
    apply (clarify, intro wp_rules)
     apply (rule idle)
    apply (rule wp_mono [OF submitted])
    apply (intro wp_rules)
     apply (use idle logged in blast)
    apply (rule wp_mono [OF complete])
      apply (use idle logged in \<open>auto simp: logged_def intro!: wp_return\<close>)
    done
qed

lemma delivered_batch_refl: "schema_ok (cs_store s) \<Longrightarrow> delivered_batch s [] s"
  by (auto simp: delivered_batch_def logged_clients_def intro!: exI [of _ "[]"])

lemma delivered_batch_append:
  assumes "delivered_batch s ds s1" "delivered_batch s1 es s2" "dd_client_order_id ` set ds \<inter> dd_client_order_id ` set es = {}"
  shows "delivered_batch s (ds @ es) s2"
proof -
  obtain l1 where l1: "cs_submits s1 = cs_submits s @ l1" "\<forall>(i, st)\<in>set l1. i \<in> dd_intent ` set ds \<and> claimed_in i st" "distinct (logged_clients l1)"
    "set (logged_clients l1) \<subseteq> dd_client_order_id ` set ds" using assms(1) by (auto simp: delivered_batch_def)
  obtain l2 where l2: "cs_submits s2 = cs_submits s1 @ l2" "\<forall>(i, st)\<in>set l2. i \<in> dd_intent ` set es \<and> claimed_in i st" "distinct (logged_clients l2)"
    "set (logged_clients l2) \<subseteq> dd_client_order_id ` set es" using assms(2) by (auto simp: delivered_batch_def)
  have app: "logged_clients (l1 @ l2) = logged_clients l1 @ logged_clients l2" by (simp add: logged_clients_def)
  have "distinct (logged_clients (l1 @ l2))" "set (logged_clients (l1 @ l2)) \<subseteq> dd_client_order_id ` set (ds @ es)"
    unfolding app using l1(3,4) l2(3,4) assms(3) by auto
  moreover have "\<forall>(i, st)\<in>set (l1 @ l2). i \<in> dd_intent ` set (ds @ es) \<and> claimed_in i st" using l1(2) l2(2) by auto
  moreover have "cs_submits s2 = cs_submits s @ (l1 @ l2)" using l1(1) l2(1) by simp
  moreover have "schema_ok (cs_store s2)" "pending_ids (cs_store s2) \<subseteq> pending_ids (cs_store s)" "store_step\<^sup>*\<^sup>* (cs_store s) (cs_store s2)"
      "\<forall>c. cycle_intents c (cs_store s2) = cycle_intents c (cs_store s)"
    using assms(1,2) by (auto simp: delivered_batch_def)
  moreover have "row_held (cs_store s2) d" if "row_held (cs_store s) d" "dd_client_order_id d \<notin> dd_client_order_id ` set (ds @ es)" for d
    using that assms(1,2) by (simp add: delivered_batch_def image_Un)
  ultimately show ?thesis unfolding delivered_batch_def by blast
qed

lemma deliver_batch_delivered:
  assumes "schema_ok (cs_store s)" "\<forall>d\<in>set ds. row_held (cs_store s) d" "distinct (map dd_client_order_id ds)"
  shows "wp (deliver_batch (recorder_ports env outside) ds) (\<lambda>_. delivered_batch s ds) s"
  using assms
proof (induction ds arbitrary: s)
  case Nil
  then show ?case by (simp add: wp_return delivered_batch_refl)
next
  case (Cons d ds)
  have rest: "wp (deliver_batch (recorder_ports env outside) ds) (\<lambda>_. delivered_batch s (d # ds)) s1" if s1: "delivered_batch s [d] s1" for s1
  proof (rule wp_mono [OF Cons.IH])
    show "schema_ok (cs_store s1)" using s1 by (simp add: delivered_batch_def)
    show "\<forall>e\<in>set ds. row_held (cs_store s1) e" using s1 Cons.prems(2,3) unfolding delivered_batch_def
      by (metis (no_types, lifting) distinct.simps(2) image_eqI image_insert insert_iff empty_iff image_empty list.set(1,2) list.set_map list.simps(9))
    show "distinct (map dd_client_order_id ds)" using Cons.prems(3) by simp
    show "delivered_batch s1 ds s2 \<Longrightarrow> delivered_batch s (d # ds) s2" for s2
      using delivered_batch_append [OF s1, of ds s2] Cons.prems(3) by simp
  qed
  have first: "wp (process_delivery (recorder_ports env outside) d) (\<lambda>_. delivered_batch s [d]) s"
    by (rule process_delivery_delivered) (use Cons.prems(1,2) in simp_all)
  show ?case unfolding deliver_batch.simps
    by (intro wp_bind, rule wp_mono [OF first], intro wp_bind, rule wp_mono [OF rest], assumption, rule wp_return, assumption)
qed

text \<open>What a delivery for an account, a cycle (or any) and a side (or both) may submit from a store.\<close>

definition selected_intent :: "string \<Rightarrow> string \<Rightarrow> side \<Rightarrow> decision_store \<Rightarrow> order_intent \<Rightarrow> bool" where
  "selected_intent account cycleID side st i \<longleftrightarrow> oi_execution_account_id i = account \<and> (side = [] \<or> oi_side i = side) \<and>
     (cycleID = [] \<or> i \<in> set (cycle_intents cycleID st))"

lemma selected_intent_cong: "(\<forall>c. cycle_intents c st' = cycle_intents c st) \<Longrightarrow> selected_intent a c side st' = selected_intent a c side st"
  by (rule ext) (simp add: selected_intent_def)

lemma delivered_batch_trace:
  assumes claimed: "\<forall>d\<in>set ds. claimed_row account cycleID side (cs_store s1) d \<and> dd_client_order_id d \<in> pending_ids (cs_store s) - pending_ids (cs_store s1)"
    and pend: "pending_ids (cs_store s1) \<subseteq> pending_ids (cs_store s)" and subs: "cs_submits s1 = cs_submits s"
    and step: "store_step (cs_store s) (cs_store s1)" and cyc: "\<forall>c. cycle_intents c (cs_store s1) = cycle_intents c (cs_store s)"
    and batch: "delivered_batch s1 ds s2"
  shows "delivery_trace (selected_intent account cycleID side (cs_store s)) s s2"
proof -
  obtain l where l: "cs_submits s2 = cs_submits s1 @ l" "\<forall>(i, st)\<in>set l. i \<in> dd_intent ` set ds \<and> claimed_in i st" "distinct (logged_clients l)"
    "set (logged_clients l) \<subseteq> dd_client_order_id ` set ds" and s2: "schema_ok (cs_store s2)" "pending_ids (cs_store s2) \<subseteq> pending_ids (cs_store s1)"
    "store_step\<^sup>*\<^sup>* (cs_store s1) (cs_store s2)" "\<forall>c. cycle_intents c (cs_store s2) = cycle_intents c (cs_store s1)"
    using batch by (auto simp: delivered_batch_def)
  have sel: "selected_intent account cycleID side (cs_store s) (dd_intent d)" if "d \<in> set ds" for d
  proof -
    have d: "claimed_row account cycleID side (cs_store s1) d" using claimed that by blast
    then have "cycleID = [] \<or> dd_intent d \<in> set (cycle_intents cycleID (cs_store s1))"
      by (auto simp: claimed_row_def cycle_intents_def cycle_deliveries_def)
    then show ?thesis using d cyc by (auto simp: claimed_row_def side_selected_def selected_intent_def)
  qed
  have "\<forall>(i, st)\<in>set l. selected_intent account cycleID side (cs_store s) i \<and> claimed_in i st" using l(2) sel by fast
  moreover have "set (logged_clients l) \<subseteq> pending_ids (cs_store s) - pending_ids (cs_store s2)" using l(4) claimed s2(2) by blast
  moreover have "store_step\<^sup>*\<^sup>* (cs_store s) (cs_store s2)" using step s2(3) by (rule converse_rtranclp_into_rtranclp)
  moreover have "\<forall>c. cycle_intents c (cs_store s2) = cycle_intents c (cs_store s)" using s2(4) cyc by simp
  moreover have "cs_submits s2 = cs_submits s @ l" using l(1) subs by simp
  ultimately show ?thesis using l(3) s2(1) order_trans [OF s2(2) pend] unfolding delivery_trace_def by blast
qed

lemma deliver_claims_trace:
  assumes "deliver_claims (recorder_ports env outside) account cycleID side acc s = Some (r, s')" "schema_ok (cs_store s)"
  shows "delivery_trace (selected_intent (trim_space account) (trim_space cycleID) side (cs_store s)) s s'"
  using assms
proof (induction "pending_rows (cs_store s)" arbitrary: s acc rule: less_induct)
  case less
  let ?P = "selected_intent (trim_space account) (trim_space cycleID) side"
  obtain claimed s1 where c: "run_state (dp_claim_pending (recorder_ports env outside) [account] cycleID side defaultDeliveryBatch) s = (claimed, s1)"
    by (metis surj_pair)
  obtain db locked now st w where st: "claim_pending_intents db locked now [account] cycleID side defaultDeliveryBatch (cs_store s) = (claimed, st)"
    and s1: "s1 = s\<lparr>cs_store := st, cs_world := w\<rparr>"
    using c by (auto simp: recorder_ports_def on_store_def split: prod.splits)
  have ok1: "schema_ok st" "pending_rows st + (case claimed of Inl _ \<Rightarrow> 0 | Inr ds \<Rightarrow> length ds) \<le> pending_rows (cs_store s)"
    using claim_takes_pending [OF st less.prems(2)] by auto
  have step: "store_step (cs_store s) st" using store_step.claim [OF st] .
  have cyc: "\<forall>c. cycle_intents c st = cycle_intents c (cs_store s)"
    using row_steps_cycle [OF conjunct1 [OF claim_pending_steps [OF st]]] less.prems(2) by (simp add: cycle_intents_def schema_ok_def)
  show ?case
  proof (cases "\<exists>ds. claimed = Inr ds \<and> ds \<noteq> []")
    case False
    then have "s' = s1" using less.prems(1) c by (subst (asm) deliver_claims.simps) (auto split: sum.splits)
    moreover have "pending_ids st \<subseteq> pending_ids (cs_store s)"
      using claim_pending_ids_subset [OF st less.prems(2)] .
    ultimately show ?thesis using ok1 s1 cyc step by (auto simp: delivery_trace_def logged_clients_def intro!: exI [of _ "[]"])
  next
    case True
    then obtain ds where ds: "claimed = Inr ds" "ds \<noteq> []" by blast
    note cl = claim_rows_claimed [OF st [unfolded ds(1)] less.prems(2)]
    obtain rs s2 where b: "run_state (deliver_batch (recorder_ports env outside) ds) s1 = (rs, s2)" by (metis surj_pair)
    have "\<forall>d\<in>set ds. row_held (cs_store s1) d" using cl(1) s1 by (auto simp: claimed_row_def row_held_def)
    then have batch: "delivered_batch s1 ds s2"
      using wpD [OF deliver_batch_delivered b] ok1(1) cl(2) s1 by simp
    have tr: "delivery_trace (?P (cs_store s)) s s2"
      using delivered_batch_trace [OF _ _ _ _ _ batch, of "trim_space account" "trim_space cycleID" side s] cl s1 step cyc by simp
    have "pending_rows (cs_store s2) \<le> pending_rows (cs_store s1)"
      using keepsD [OF recorder.deliver_batch_bounded _ b, of "pending_rows (cs_store s1)"] ok1(1) s1 by simp
    moreover have "0 < length ds" "pending_rows st + length ds \<le> pending_rows (cs_store s)" using ds ok1(2) by auto
    moreover have "pending_rows (cs_store s1) = pending_rows st" using s1 by simp
    ultimately have fewer: "pending_rows (cs_store s2) < pending_rows (cs_store s)" by linarith
    have ok2: "schema_ok (cs_store s2)" using tr by (simp add: delivery_trace_def)
    show ?thesis
    proof (cases "int (length ds) < defaultDeliveryBatch")
      case True
      then have "s' = s2" using less.prems(1) c ds b by (subst (asm) deliver_claims.simps) (auto simp: Let_def)
      then show ?thesis using tr by simp
    next
      case False
      then obtain acc' where "deliver_claims (recorder_ports env outside) account cycleID side acc' s2 = Some (r, s')"
        using less.prems(1) c ds b by (subst (asm) deliver_claims.simps) (auto simp: Let_def)
      from less.hyps [OF fewer this ok2] have "delivery_trace (?P (cs_store s)) s2 s'"
        using tr selected_intent_cong [of "cs_store s2" "cs_store s"] by (simp add: delivery_trace_def)
      then show ?thesis using delivery_trace_trans [OF tr] by blast
    qed
  qed
qed

lemma deliver_account_trace:
  assumes "deliver_pending_for_account (recorder_ports env outside) account cycleID side s = Some (r, s')" "schema_ok (cs_store s)"
  shows "delivery_trace (selected_intent (trim_space account) (trim_space cycleID) side (cs_store s)) s s'"
proof (cases "dp_account_gate outside")
  case None
  then have "dp_account_gate (recorder_ports env outside) = None" by (simp add: recorder_ports_def)
  then have "deliver_claims (recorder_ports env outside) account cycleID side \<lparr>ad_intents = [], ad_errors = []\<rparr> s = Some (r, s')"
    using assms(1) by (simp add: deliver_pending_for_account_def)
  then show ?thesis using deliver_claims_trace assms(2) by blast
next
  case (Some g)
  obtain acquire release where g: "g = (acquire, release)" by (metis surj_pair)
  obtain e w where a: "run_state (acquire account) (cs_world s) = (e, w)" by (metis surj_pair)
  let ?s1 = "s\<lparr>cs_world := w\<rparr>"
  have gate: "dp_account_gate (recorder_ports env outside) = Some (\<lambda>a. on_world (acquire a), \<lambda>a. on_world (release a))"
    using Some g by (simp add: recorder_ports_def)
  show ?thesis
  proof (cases e)
    case None
    then obtain s2 w2 where "deliver_claims (recorder_ports env outside) account cycleID side \<lparr>ad_intents = [], ad_errors = []\<rparr> ?s1 = Some (r, s2)"
      and s': "s' = s2\<lparr>cs_world := w2\<rparr>"
      using assms(1) gate a by (auto simp: deliver_pending_for_account_def on_world_def split: option.splits prod.splits)
    from deliver_claims_trace [OF this(1)] assms(2) show ?thesis
      by (auto intro: delivery_trace_same simp: s')
  next
    case (Some x)
    then have "s' = ?s1" using assms(1) gate a by (auto simp: deliver_pending_for_account_def on_world_def)
    then show ?thesis using delivery_trace_same [OF delivery_trace_refl [OF assms(2)]] by fastforce
  qed
qed

lemma deliver_accounts_trace:
  assumes "deliver_accounts (recorder_ports env outside) cycleID pairs results s = Some (r, s')" "schema_ok (cs_store s)"
    and P: "\<And>a side i. (a, side) \<in> set pairs \<Longrightarrow> oi_execution_account_id i = trim_space a \<Longrightarrow> side = [] \<or> oi_side i = side \<Longrightarrow> P i"
  shows "delivery_trace P s s'"
  using assms
proof (induction pairs arbitrary: results s)
  case Nil
  then show ?case by (simp add: delivery_trace_refl)
next
  case (Cons p pairs)
  obtain a side where p: "p = (a, side)" by (metis surj_pair)
  obtain res e s1 where d: "deliver_pending_for_account (recorder_ports env outside) a cycleID side s = Some ((res, e), s1)"
    using Cons.prems(1) p by (auto split: option.splits)
  have tr: "delivery_trace P s s1"
    using delivery_trace_mono [OF deliver_account_trace [OF d Cons.prems(2)]] Cons.prems(3) [of a side] p by (auto simp: selected_intent_def)
  show ?case
  proof (cases e)
    case None
    have ok: "schema_ok (cs_store s1)" using tr by (simp add: delivery_trace_def)
    have "delivery_trace P s1 s'" using Cons.IH [OF _ ok] Cons.prems(1,3) p d None by auto
    then show ?thesis using delivery_trace_trans [OF tr] by blast
  next
    case (Some x)
    then show ?thesis using Cons.prems(1) p d tr by auto
  qed
qed

text \<open>Requeueing submits nothing.\<close>

lemma requeue_all_idle:
  "requeue_all (recorder_ports env outside) c cutoff s = Some (e, s') \<Longrightarrow> schema_ok (cs_store s) \<Longrightarrow>
   cs_submits s' = cs_submits s \<and> schema_ok (cs_store s') \<and> store_step\<^sup>*\<^sup>* (cs_store s) (cs_store s')"
proof (induction "leased_rows (cs_store s)" arbitrary: s rule: less_induct)
  case less
  obtain n s1 where n: "run_state (dp_requeue_stale (recorder_ports env outside) (ch_accounts c) cutoff (ch_side c) defaultDeliveryBatch) s = (n, s1)"
    by (metis surj_pair)
  obtain db locked now st w where st: "requeue_stale_submitting db locked now (ch_accounts c) cutoff (ch_side c) defaultDeliveryBatch (cs_store s) = (n, st)"
    and s1: "s1 = s\<lparr>cs_store := st, cs_world := w\<rparr>"
    using n by (auto simp: recorder_ports_def on_store_def split: prod.splits)
  note ok = requeue_takes_leased [OF st less.prems(2)] and step = store_step.requeue [OF st]
  show ?case
  proof (cases "\<exists>k. n = Inr k \<and> \<not> k < defaultDeliveryBatch")
    case False
    then have "s' = s1" using less.prems(1) n by (subst (asm) requeue_all.simps) (auto split: sum.splits if_splits)
    then show ?thesis using ok s1 step by auto
  next
    case True
    then obtain k where k: "n = Inr k" "100 \<le> k" by (auto simp: defaultDeliveryBatch_def)
    then have "leased_rows (cs_store s1) < leased_rows (cs_store s)" using ok s1 by auto
    moreover have "requeue_all (recorder_ports env outside) c cutoff s1 = Some (e, s')"
      using less.prems(1) n True by (subst (asm) requeue_all.simps) auto
    ultimately show ?thesis using less.hyps [of s1] ok s1 step by (auto intro: converse_rtranclp_into_rtranclp)
  qed
qed

lemma requeue_cohorts_idle:
  "requeue_cohorts (recorder_ports env outside) cs cutoff s = Some (e, s') \<Longrightarrow> schema_ok (cs_store s) \<Longrightarrow>
   cs_submits s' = cs_submits s \<and> schema_ok (cs_store s') \<and> store_step\<^sup>*\<^sup>* (cs_store s) (cs_store s')"
proof (induction cs arbitrary: s)
  case (Cons c cs)
  obtain e1 s1 where r: "requeue_all (recorder_ports env outside) c cutoff s = Some (e1, s1)" using Cons.prems(1) by (auto split: option.splits)
  note idle = requeue_all_idle [OF r Cons.prems(2)]
  show ?case
  proof (cases e1)
    case None
    then show ?thesis using Cons.IH [of s1] Cons.prems(1) r idle by auto
  next
    case (Some x)
    then show ?thesis using Cons.prems(1) r idle by simp
  qed
qed simp

lemma recover_from_traced:
  assumes new: "new_decision_service (recorder_ports env outside) p = Inr svc" and ok: "schema_ok (cs_store s)"
    and run: "recover_from svc age s = Some (r, s')"
  shows "\<exists>s0. cs_submits s0 = cs_submits s \<and> store_step\<^sup>*\<^sup>* (cs_store s) (cs_store s0) \<and>
    delivery_trace (\<lambda>i. deliverable_account svc (oi_side i) (oi_execution_account_id i)) s0 s'"
proof -
  let ?P = "\<lambda>i. deliverable_account svc (oi_side i) (oi_execution_account_id i)"
  note ports = new_decision_service_fields(1) [OF new]
  have idle: "\<exists>s0. cs_submits s0 = cs_submits s \<and> store_step\<^sup>*\<^sup>* (cs_store s) (cs_store s0) \<and> delivery_trace ?P s0 s'"
    if "cs_submits s' = cs_submits s" "schema_ok (cs_store s')" "store_step\<^sup>*\<^sup>* (cs_store s) (cs_store s')"
    using that delivery_trace_refl by metis
  show ?thesis
  proof (cases "cp_submit_enabled (ds_params svc)")
    case False
    then show ?thesis using run ok idle by (simp add: recover_from_def)
  next
    case True
    obtain e s1 where g: "run_state (guard_disabled_account_recovery svc) s = (e, s1)" by (metis surj_pair)
    have "wp (guard_disabled_account_recovery svc) (\<lambda>_ s'. cs_submits s' = cs_submits s \<and> cs_store s' = cs_store s) s"
      unfolding guard_disabled_account_recovery_def Let_def ports
      using ok by (auto simp: recorder_ports_def intro!: wp_if wp_return wp_bind wp_on_store)
    note s1 = wpD [OF this g]
    show ?thesis
    proof (cases e)
      case (Some x)
      then show ?thesis using run True g idle s1 ok by (simp add: recover_from_def)
    next
      case None
      obtain now w where n: "run_state (dp_now outside) (cs_world s1) = (now, w)" by (metis surj_pair)
      let ?s2 = "s1\<lparr>cs_world := w\<rparr>"
      have r: "recover_deliveries svc (now - age) ?s2 = Some (r, s')"
        using run True g None n ports by (simp add: recover_from_def recorder_ports_def on_world_def)
      obtain e3 s3 where q: "requeue_cohorts (recorder_ports env outside) (delivery_cohorts svc) (now - age) ?s2 = Some (e3, s3)"
        using r ports by (auto simp: recover_deliveries_def split: option.splits)
      have s3: "cs_submits s3 = cs_submits s" "schema_ok (cs_store s3)" "store_step\<^sup>*\<^sup>* (cs_store s) (cs_store s3)"
        using requeue_cohorts_idle [OF q] s1 ok by auto
      show ?thesis
      proof (cases e3)
        case (Some x)
        then show ?thesis using r q ports s3 idle by (simp add: recover_deliveries_def)
      next
        case None
        then obtain rs where d: "deliver_accounts (recorder_ports env outside) [] (cohort_pairs (delivery_cohorts svc)) [] s3 = Some (rs, s')"
          using r q ports by (auto simp: recover_deliveries_def deliver_pending_results_def split: option.splits)
        have "?P i" if pair: "(a, side) \<in> set (cohort_pairs (delivery_cohorts svc))" and i: "oi_execution_account_id i = trim_space a" "side = [] \<or> oi_side i = side"
          for a side i
        proof -
          obtain c where c: "c \<in> set (delivery_cohorts svc)" "a \<in> set (ch_accounts c)" "ch_side c = side"
            using pair by (auto simp: cohort_pairs_def)
          note da = cohort_accounts [OF new c(1,2)]
          have "trim_space a = a" using da new_service_bindings(1) [OF new] by (auto simp: deliverable_account_def)
          moreover have "[] \<noteq> SideSell" by (simp add: order_constants)
          ultimately show ?thesis using da i c(3) by (auto simp: deliverable_account_def)
        qed
        from deliver_accounts_trace [OF d s3(2), where P = ?P] this s3(1,3) show ?thesis by blast
      qed
    qed
  qed
qed

text \<open>
  What recovery submits. Every intent that recovery hands to the executor belongs to a bound account that is not
  quarantined; a BUY only to an account whose entries are allowed, globally and by itself. At that moment the tables already hold
  the claim, and no intent is handed over twice.
\<close>

lemma recovery_respects_gates:
  assumes "new_decision_service (recorder_ports env outside) p = Inr svc" "schema_ok (cs_store s)" "recover_pending svc s = Some (r, s')"
  shows "\<exists>entries. cs_submits s' = cs_submits s @ entries \<and> distinct (logged_clients entries) \<and>
    (\<forall>(i, st)\<in>set entries. deliverable_account svc (oi_side i) (oi_execution_account_id i) \<and> claimed_in i st)"
  using recover_from_traced [OF assms(1,2)] assms(3) unfolding recover_pending_def delivery_trace_def by (metis (no_types, lifting))


section \<open>A service\<close>

text \<open>A world that fails every read and accepts every order, and the parameters of one account.\<close>

definition silent :: "(unit, go_error + 'a) state" where
  "silent = State_Monad.return (Inl (ErrText ''silent''))"

definition accepting_ports :: "unit decision_ports" where
  "accepting_ports =
     \<lparr>dp_snapshot = (\<lambda>_ _. silent), dp_list_open_lots = (\<lambda>_. silent), dp_capture = (\<lambda>_ _. silent), dp_claim_batch = (\<lambda>_. silent),
      dp_decide = (\<lambda>_. State_Monad.return (recorded_answer, None)), dp_claim_input = (\<lambda>_. silent), dp_claim_output = (\<lambda>_ _ _. silent),
      dp_count_unresolved = (\<lambda>_. silent), dp_claim_pending = (\<lambda>_ _ _ _. silent), dp_requeue_stale = (\<lambda>_ _ _ _. silent),
      dp_complete = (\<lambda>_ _ _. State_Monad.return None), dp_list_intents = (\<lambda>_. silent),
      dp_submit = Some (\<lambda>i. State_Monad.return (no_result\<lparr>sb_order := zero_order\<lparr>o_id := ''o1'', o_status := OrderStatusLive\<rparr>\<rparr>, None)),
      dp_account_gate = Some (\<lambda>_. State_Monad.return None, \<lambda>_. State_Monad.return ()), dp_submission_policy = None, dp_route_policy = None,
      dp_reporter = None, dp_now = State_Monad.return 1000, dp_ctx_err = State_Monad.return None\<rparr>"

definition cycle_params :: decision_params where
  "cycle_params =
     \<lparr>cp_submit_enabled = True, cp_submission_disabled_accounts = [], cp_entry_submission_disabled = False, cp_entry_disabled_accounts = [],
      cp_strategy_disabled_accounts = [], cp_require_complete_model_coverage = True,
      cp_bindings = [\<lparr>sb_prediction_model_id = [], sb_model_id = ''model'', sb_strategy_id = ''s1'', sb_execution_account_id = ''w1'', sb_market_source = []\<rparr>],
      cp_prediction_source_modes = [(''model'', ''DIRECT'')], cp_venue = ''polymarket'', cp_prediction_lookback = 0, cp_delivery_stale_age = 0,
      cp_delivery_concurrency = 0, cp_strategy_timeout = 0, cp_prediction_timeout = 0\<rparr>"

end
