(* ===== verification/Decision_Cycle.thy ===== *)
theory Decision_Cycle
  imports Decision_Delivery
begin

text \<open>
  One decision cycle (\<open>src/internal/service/decisioncycle/service.go\<close> and \<open>account_inputs.go\<close>): recovery, the
  prediction snapshot, the input of every account, the shared book capture, and for every account the frozen request, the
  strategy call, the recorded answer and its delivery. Hashes are parameters. A cycle is a function into
  \<open>option\<close>, since a delivery loop might not return. \<open>Decision_Safety\<close> proves what a cycle may hand to the execution service.
\<close>

section \<open>Predictions of a cycle\<close>

text \<open>SHA-256 digests and the decimal form of a double are parameters.\<close>

record cycle_env =
  ce_input_digest :: input_digest
  ce_batch_digest :: "gtime \<Rightarrow> string \<Rightarrow> order_book list \<Rightarrow> go_error + string"
  ce_sha :: "string \<Rightarrow> string"
  ce_float_text :: "float64 \<Rightarrow> string"

text \<open>\<open>Format("20060102T150405Z")\<close> in UTC.\<close>

definition format_stamp :: "gtime \<Rightarrow> string" where
  "format_stamp t =
     (let s = nat t div 1000000000; (year, month, day) = civil_date (s div 86400); r = s mod 86400
      in padded 4 year @ padded 2 month @ padded 2 day @ ''T'' @ padded 2 (r div 3600) @ padded 2 (r div 60 mod 60) @ padded 2 (r mod 60) @ ''Z'')"

fun configured_modes :: "(string \<times> prediction_source_mode) list \<Rightarrow> string list \<Rightarrow> go_error + (string \<times> prediction_source_mode) list" where
  "configured_modes modes [] = Inr []"
| "configured_modes modes (raw # ms) =
     (let m = trim_space raw in
      case map_of modes m of
        None \<Rightarrow> Inl (ErrText (''prediction source mode is missing for configured model '' @ quoted m))
      | Some mode \<Rightarrow>
          if \<not> source_mode_valid mode
          then Inl (ErrText (''prediction source mode for configured model '' @ quoted m @ '' is unknown: '' @ quoted mode))
          else case configured_modes modes ms of Inl e \<Rightarrow> Inl e | Inr rest \<Rightarrow> Inr ((m, mode) # rest))"

definition prediction_is_fresh :: "(string \<times> prediction_source_mode) list \<Rightarrow> gtime \<Rightarrow> prediction \<Rightarrow> bool" where
  "prediction_is_fresh modes freshAfter p \<longleftrightarrow>
     (case map_of modes (trim_space (pm_name (pr_model p))) of
        None \<Rightarrow> False
      | Some mode \<Rightarrow>
          \<not> (mode = PredictionSourceModeDirect \<and> trim_space (pr_sandbox_id p) \<noteq> [] \<or>
             mode = PredictionSourceModeSandbox \<and> trim_space (pr_sandbox_id p) = []) \<and>
          \<not> (pr_prediction_as_of p < freshAfter \<or> pr_completed_at p < freshAfter))"

definition select_available_predictions ::
    "prediction list \<Rightarrow> string list \<Rightarrow> (string \<times> prediction_source_mode) list \<Rightarrow> gtime \<Rightarrow> go_error + prediction list" where
  "select_available_predictions predictions modelIDs modes freshAfter =
     (case configured_modes modes modelIDs of
        Inl e \<Rightarrow> Inl e
      | Inr configured \<Rightarrow> select_effective_predictions (filter (prediction_is_fresh configured freshAfter) predictions) modelIDs)"

definition predictions_for_model :: "prediction list \<Rightarrow> string \<Rightarrow> prediction list" where
  "predictions_for_model predictions modelID = filter (\<lambda>p. trim_space (pm_name (pr_model p)) = modelID) predictions"

definition predictions_for_binding :: "prediction list \<Rightarrow> strategy_binding \<Rightarrow> prediction list" where
  "predictions_for_binding predictions b =
     map (\<lambda>p. p\<lparr>pr_model := (pr_model p)\<lparr>pm_name := sb_model_id b\<rparr>\<rparr>)
       (filter (\<lambda>p. market_source_normalize (pr_market_source p) = market_source_normalize (sb_market_source b))
         (predictions_for_model predictions (sb_prediction_model_id b)))"

definition predictions_for_sources :: "prediction list \<Rightarrow> market_source list \<Rightarrow> prediction list" where
  "predictions_for_sources predictions sources = filter (\<lambda>p. market_source_normalize (pr_market_source p) \<in> set sources) predictions"

record cycle_predictions =
  cr_snapshot_id :: string
  cr_selected :: "prediction list"
  cr_unavailable :: err

definition prediction_source_unavailable :: "go_error \<Rightarrow> bool" where
  "prediction_source_unavailable e \<longleftrightarrow> errors_is e ErrPredictionSourceUnavailable \<or> errors_is e DeadlineExceeded"

definition unavailable_prediction_snapshot_id :: "gtime \<Rightarrow> string" where
  "unavailable_prediction_snapshot_id decisionAt = ''predsnap-unavailable-'' @ format_stamp decisionAt"

definition unavailable_error :: "go_error \<Rightarrow> go_error" where
  "unavailable_error e =
     (if errors_is e ErrPredictionSourceUnavailable then wrap_error ''load prediction snapshot (cycle is exit-only)'' e
      else ErrWrap (sentinel_text ErrPredictionSourceUnavailable @ '': load prediction snapshot (cycle is exit-only): '' @ error_text e)
             [ErrSentinel ErrPredictionSourceUnavailable, e])"

text \<open>A call under its own timeout fails with an error that is \<open>DeadlineExceeded\<close>; \<open>dp_ctx_err\<close> is the cycle's context.\<close>

definition load_predictions :: "'s decision_service \<Rightarrow> gtime \<Rightarrow> ('s, go_error + cycle_predictions) state" where
  "load_predictions svc decisionAt = do {
     snapshot \<leftarrow> dp_snapshot (ds_ports svc) decisionAt (cp_prediction_lookback (ds_params svc));
     (case snapshot of
        Inl e \<Rightarrow> do {
          ended \<leftarrow> dp_ctx_err (ds_ports svc);
          State_Monad.return
            (if ended \<noteq> None \<or> \<not> prediction_source_unavailable e then Inl (wrap_error ''load prediction snapshot'' e)
             else Inr \<lparr>cr_snapshot_id = unavailable_prediction_snapshot_id decisionAt, cr_selected = [], cr_unavailable = Some (unavailable_error e)\<rparr>) }
      | Inr sn \<Rightarrow> State_Monad.return
          (case snapshot_validate sn decisionAt of
             Some e \<Rightarrow> Inl (wrap_error ''validate prediction snapshot'' e)
           | None \<Rightarrow>
           case select_available_predictions (sn_predictions sn) (configured_prediction_models (tp_strategy_entry_enabled_bindings (ds_topology svc)))
                  (cp_prediction_source_modes (ds_params svc)) (decisionAt - cp_prediction_lookback (ds_params svc)) of
             Inl e \<Rightarrow> Inl e
           | Inr chosen \<Rightarrow> Inr \<lparr>cr_snapshot_id = sn_snapshot_id sn, cr_selected = chosen, cr_unavailable = None\<rparr>)) }"


section \<open>The input of an account\<close>

record account_input =
  ai_predictions :: "prediction list"
  ai_positions :: "strategy_position_lot list"
  ai_targets :: "book_target list"
  ai_failure :: "(string \<times> go_error) option"

definition FailureStagePositions :: string where "FailureStagePositions = ''positions''"
definition FailureStageTargets :: string where "FailureStageTargets = ''targets''"
definition FailureStageTargetConflict :: string where "FailureStageTargetConflict = ''target_conflict''"
definition FailureStageOrderBooks :: string where "FailureStageOrderBooks = ''orderbooks''"
definition FailureStageInput :: string where "FailureStageInput = ''input''"
definition FailureStageStrategy :: string where "FailureStageStrategy = ''strategy''"
definition FailureStageOutput :: string where "FailureStageOutput = ''output''"
definition FailureStageDelivery :: string where "FailureStageDelivery = ''delivery''"
definition FailureStageCycleDeadline :: string where "FailureStageCycleDeadline = ''cycle_deadline''"

type_synonym account_inputs = "(string \<times> account_input) list"

definition strategy_lot_of :: "bool \<Rightarrow> position_lot \<Rightarrow> int \<Rightarrow> bool \<Rightarrow> strategy_position_lot" where
  "strategy_lot_of kalshiAccount lot outcomeIndex negRisk =
     \<lparr>lt_lot_id = pl_lot_id lot, lt_market_source = (if kalshiAccount then MarketSourceKalshi else []), lt_market_id = pl_market_id lot,
      lt_condition_id = pl_condition_id lot, lt_outcome_index = outcomeIndex, lt_outcome_name = pl_outcome_name lot, lt_token_id = pl_token_id lot,
      lt_neg_risk = negRisk, lt_entered_at = pl_opened_at lot, lt_shares = pl_remaining_shares lot, lt_entry_price = pl_average_entry_price lot\<rparr>"

fun build_account_lots :: "strategy_binding \<Rightarrow> gtime \<Rightarrow> string list \<Rightarrow> position_lot list \<Rightarrow> go_error + strategy_position_lot list" where
  "build_account_lots b decisionAt seen [] = Inr []"
| "build_account_lots b decisionAt seen (lot # lots) =
     (let kalshiAccount = (sb_market_source b = MarketSourceKalshi);
          foreign = Inl (ErrText (''position lot '' @ quoted (pl_lot_id lot) @ '' does not belong to account '' @ sb_execution_account_id b)) in
      if pl_execution_account_id lot \<noteq> sb_execution_account_id b \<or> \<not> pl_open lot then foreign
      else case pl_outcome_index lot of
        None \<Rightarrow> foreign
      | Some outcomeIndex \<Rightarrow>
      case pl_neg_risk lot of
        None \<Rightarrow> foreign
      | Some negRisk \<Rightarrow>
      if has_prefix (trim_space (pl_token_id lot)) KalshiExecutionAccountPrefix \<noteq> kalshiAccount
      then Inl (ErrText (''position lot '' @ quoted (pl_lot_id lot) @ '' is not a '' @ sb_market_source b @ '' lot of account '' @ sb_execution_account_id b))
      else if pl_lot_id lot \<in> set seen then Inl (ErrText (''duplicate open position lot '' @ quoted (pl_lot_id lot)))
      else case lot_build (strategy_lot_of kalshiAccount lot outcomeIndex negRisk) decisionAt of
        Inl e \<Rightarrow> Inl (wrap_error (''position lot '' @ quoted (pl_lot_id lot)) e)
      | Inr l \<Rightarrow>
      (case build_account_lots b decisionAt (pl_lot_id lot # seen) lots of Inl e \<Rightarrow> Inl e | Inr ls \<Rightarrow> Inr (l # ls)))"

definition load_account_lots :: "'s decision_service \<Rightarrow> gtime \<Rightarrow> strategy_binding \<Rightarrow> ('s, go_error + strategy_position_lot list) state" where
  "load_account_lots svc decisionAt b = do {
     loaded \<leftarrow> dp_list_open_lots (ds_ports svc) (binding_context b);
     State_Monad.return (case loaded of
        Inl e \<Rightarrow> Inl (wrap_error (''load position lots for '' @ sb_execution_account_id b) e)
      | Inr lots \<Rightarrow> build_account_lots b decisionAt [] lots) }"

definition routed_accounts_step :: "'s decision_service \<Rightarrow> strategy_binding \<Rightarrow> ('s, bool) state" where
  "routed_accounts_step svc b = (case dp_route_policy (ds_ports svc) of None \<Rightarrow> State_Monad.return True | Some policy \<Rightarrow> policy b)"

fun routed_accounts_loop :: "'s decision_service \<Rightarrow> strategy_binding list \<Rightarrow> ('s, string list) state" where
  "routed_accounts_loop svc [] = State_Monad.return []"
| "routed_accounts_loop svc (b # bs) = do {
     routed \<leftarrow> routed_accounts_step svc b;
     rest \<leftarrow> routed_accounts_loop svc bs;
     State_Monad.return (if routed then sb_execution_account_id b # rest else rest) }"

definition routed_accounts :: "'s decision_service \<Rightarrow> ('s, string list) state" where
  "routed_accounts svc = routed_accounts_loop svc (cp_bindings (ds_params svc))"

definition entry_sources :: "'s decision_service \<Rightarrow> string list \<Rightarrow> market_source list" where
  "entry_sources svc routed =
     map (\<lambda>b. market_source_normalize (sb_market_source b))
       (filter (\<lambda>b. sb_execution_account_id b \<in> set routed) (tp_strategy_entry_enabled_bindings (ds_topology svc)))"

definition prepared_input :: "prediction list \<Rightarrow> go_error + strategy_position_lot list \<Rightarrow> account_input" where
  "prepared_input predictions loaded =
     (let input = \<lparr>ai_predictions = predictions, ai_positions = [], ai_targets = [], ai_failure = None\<rparr> in
      case loaded of
        Inl e \<Rightarrow> input\<lparr>ai_failure := Some (FailureStagePositions, e)\<rparr>
      | Inr lots \<Rightarrow>
          (case build_input_targets predictions lots of
             Inl e \<Rightarrow> input\<lparr>ai_positions := lots, ai_failure := Some (FailureStageTargets, e)\<rparr>
           | Inr targets \<Rightarrow> input\<lparr>ai_positions := lots, ai_targets := targets\<rparr>))"

fun prepare_inputs_loop ::
    "'s decision_service \<Rightarrow> gtime \<Rightarrow> string list \<Rightarrow> prediction list \<Rightarrow> account_inputs \<Rightarrow> strategy_binding list \<Rightarrow> ('s, go_error + account_inputs) state" where
  "prepare_inputs_loop svc decisionAt routed chosen inputs [] = State_Monad.return (Inr inputs)"
| "prepare_inputs_loop svc decisionAt routed chosen inputs (b # bs) =
     (if sb_execution_account_id b \<notin> set routed then prepare_inputs_loop svc decisionAt routed chosen inputs bs
      else do {
        let predictions = (if account_entry_disabled svc b then [] else predictions_for_binding chosen b);
        loaded \<leftarrow> load_account_lots svc decisionAt b;
        ended \<leftarrow> (case loaded of Inl _ \<Rightarrow> dp_ctx_err (ds_ports svc) | Inr _ \<Rightarrow> State_Monad.return None);
        (case ended of
           Some x \<Rightarrow> State_Monad.return (Inl (wrap_error (''load position lots for '' @ sb_execution_account_id b)
             (the (errors_join [case loaded of Inl e \<Rightarrow> Some e | Inr _ \<Rightarrow> None, Some x]))))
         | None \<Rightarrow> prepare_inputs_loop svc decisionAt routed chosen
             (AList.update (sb_execution_account_id b) (prepared_input predictions loaded) inputs) bs) })"

definition prepare_account_inputs :: "'s decision_service \<Rightarrow> gtime \<Rightarrow> string list \<Rightarrow> prediction list \<Rightarrow> ('s, go_error + account_inputs) state" where
  "prepare_account_inputs svc decisionAt routed chosen =
     prepare_inputs_loop svc decisionAt routed chosen [] (tp_strategy_bindings (ds_topology svc))"


section \<open>Shared targets\<close>

definition healthy_input :: "account_inputs \<Rightarrow> string \<Rightarrow> account_input option" where
  "healthy_input inputs a =
     (case map_of inputs a of None \<Rightarrow> None | Some input \<Rightarrow> if ai_failure input = None then Some input else None)"

definition healthy :: "strategy_binding list \<Rightarrow> account_inputs \<Rightarrow> strategy_binding list" where
  "healthy bindings inputs = filter (\<lambda>b. healthy_input inputs (sb_execution_account_id b) \<noteq> None) bindings"

definition exclude_account :: "string \<Rightarrow> string \<Rightarrow> go_error \<Rightarrow> account_inputs \<Rightarrow> account_inputs" where
  "exclude_account a stage e inputs =
     (case map_of inputs a of None \<Rightarrow> inputs | Some input \<Rightarrow> AList.update a (input\<lparr>ai_failure := Some (stage, e)\<rparr>) inputs)"

text \<open>Exclude every healthy account with a target that \<open>bad\<close>; \<open>reason\<close> names the first such target.\<close>

definition exclude_where :: "strategy_binding list \<Rightarrow> (book_target \<Rightarrow> bool) \<Rightarrow> (book_target \<Rightarrow> go_error) \<Rightarrow> account_inputs \<Rightarrow> account_inputs" where
  "exclude_where bindings bad reason inputs =
     fold (\<lambda>b acc.
        case healthy_input inputs (sb_execution_account_id b) of
          None \<Rightarrow> acc
        | Some input \<Rightarrow>
            (case List.find bad (ai_targets input) of
               None \<Rightarrow> acc
             | Some t \<Rightarrow> exclude_account (sb_execution_account_id b) FailureStageTargetConflict (reason t) acc))
       (healthy bindings inputs) inputs"

definition targets_of :: "account_inputs \<Rightarrow> strategy_binding list \<Rightarrow> book_target list" where
  "targets_of inputs bindings =
     concat (map (\<lambda>b. case map_of inputs (sb_execution_account_id b) of None \<Rightarrow> [] | Some input \<Rightarrow> ai_targets input) bindings)"

definition conflict_tokens :: "string set \<Rightarrow> book_target list \<Rightarrow> string list" where
  "conflict_tokens predicted ts =
     sort (remdups (map bt_token_id (filter (\<lambda>t. bt_token_id t \<notin> predicted \<and> list_ex (\<lambda>u. bt_token_id u = bt_token_id t \<and> u \<noteq> t) ts) ts)))"

definition by_token :: "book_target list \<Rightarrow> targets" where
  "by_token ts = fold (\<lambda>t acc. AList.update (bt_token_id t) t acc) ts []"

definition shared_targets :: "'s decision_service \<Rightarrow> prediction list \<Rightarrow> string list \<Rightarrow> account_inputs \<Rightarrow> go_error + (book_target list \<times> account_inputs)" where
  "shared_targets svc chosen routed inputs0 =
     (case build_input_targets (predictions_for_sources chosen (entry_sources svc routed)) [] of
        Inl e \<Rightarrow> Inl e
      | Inr predictionTargets \<Rightarrow>
      let bindings = tp_strategy_bindings (ds_topology svc);
          predictionByToken = map_of (by_token predictionTargets);
          inputs1 = exclude_where bindings (\<lambda>t. predictionByToken (bt_token_id t) \<noteq> None \<and> predictionByToken (bt_token_id t) \<noteq> Some t)
            (\<lambda>t. ErrText (''position token '' @ quoted (bt_token_id t) @ '' conflicts with the prediction market identity'')) inputs0;
          conflicts = conflict_tokens (set (map bt_token_id predictionTargets)) (targets_of inputs1 (healthy bindings inputs1));
          inputs2 = fold (\<lambda>token. exclude_where bindings (\<lambda>t. bt_token_id t = token)
            (\<lambda>t. ErrText (''position token '' @ quoted token @ '' has conflicting market identity across accounts''))) conflicts inputs1;
          accounts = healthy bindings inputs2;
          entryVenues = map (\<lambda>b. market_source_normalize (sb_market_source b)) (healthy (tp_strategy_entry_enabled_bindings (ds_topology svc)) inputs2);
          wanted = filter (\<lambda>t. market_source_normalize (bt_market_source t) \<in> set entryVenues) predictionTargets
      in Inr (sort_book_targets (map snd (by_token (wanted @ targets_of inputs2 accounts))), inputs2))"

definition degraded_order_book_venues :: "order_book list \<Rightarrow> market_source list" where
  "degraded_order_book_venues books =
     remdups (map (\<lambda>b. market_source_normalize (ob_market_source b))
       (filter (\<lambda>b. ob_status b = OrderBookStatusError \<and> ob_error_code b = OrderBookErrorVenueCaptureFailed) books))"

definition sorted_market_sources :: "market_source list \<Rightarrow> market_source list" where
  "sorted_market_sources sources = sort (remdups sources)"


section \<open>One account\<close>

definition StrategyEntryBlockIncompleteModelCoverage :: string where "StrategyEntryBlockIncompleteModelCoverage = ''INCOMPLETE_MODEL_COVERAGE''"
definition StrategyEntryBlockSubmissionDisabled :: string where "StrategyEntryBlockSubmissionDisabled = ''ENTRY_SUBMISSION_DISABLED''"
definition StrategyEntryBlockPredictionSourceUnavailable :: string where
  "StrategyEntryBlockPredictionSourceUnavailable = ''PREDICTION_SOURCE_UNAVAILABLE''"

text \<open>A request or response that is \<open>None\<close> is Go's zero value.\<close>

record binding_run =
  br_context :: strategy_context
  br_prediction_model_id :: string
  br_prediction_count :: nat
  br_position_count :: nat
  br_order_submission_enabled :: bool
  br_account_submission_disabled :: bool
  br_account_strategy_disabled :: bool
  br_route_unavailable :: bool
  br_input_unavailable :: bool
  br_venue_books_unavailable :: bool
  br_not_run :: bool
  br_strategy_timed_out :: bool
  br_failure_stage :: string
  br_entry_submission_enabled :: bool
  br_entry_block_reason :: string
  br_request :: "strategy_request option"
  br_response :: "strategy_response option"
  br_intents :: "intent_result list"
  br_error :: err

definition binding_run_of :: "strategy_context \<Rightarrow> nat \<Rightarrow> nat \<Rightarrow> bool \<Rightarrow> binding_run" where
  "binding_run_of cx predictions positions submitEnabled =
     \<lparr>br_context = cx, br_prediction_model_id = [], br_prediction_count = predictions, br_position_count = positions,
      br_order_submission_enabled = submitEnabled, br_account_submission_disabled = False, br_account_strategy_disabled = False,
      br_route_unavailable = False, br_input_unavailable = False, br_venue_books_unavailable = False, br_not_run = False,
      br_strategy_timed_out = False, br_failure_stage = [], br_entry_submission_enabled = False, br_entry_block_reason = [],
      br_request = None, br_response = None, br_intents = [], br_error = None\<rparr>"

record binding_params =
  bp_decision_at :: gtime
  bp_snapshot_id :: string
  bp_context :: strategy_context
  bp_predictions :: "prediction list"
  bp_positions :: "strategy_position_lot list"
  bp_books :: "order_book list"
  bp_allow_entries :: bool
  bp_block_reason :: string
  bp_submit_enabled :: bool

definition entry_block_reason :: "bool \<Rightarrow> bool \<Rightarrow> bool \<Rightarrow> string" where
  "entry_block_reason predictionUnavailable incomplete entryDisabled =
     (if entryDisabled then StrategyEntryBlockSubmissionDisabled
      else if predictionUnavailable then StrategyEntryBlockPredictionSourceUnavailable
      else if \<not> incomplete then [] else StrategyEntryBlockIncompleteModelCoverage)"

definition cycle_id :: "strategy_context \<Rightarrow> gtime \<Rightarrow> string" where
  "cycle_id cx decisionAt = cx_execution_account_id cx @ '':'' @ format_stamp decisionAt"

definition submit_evaluations :: "strategy_response \<Rightarrow> undelivered_decision list" where
  "submit_evaluations rs =
     map (\<lambda>ev. \<lparr>ud_decision_id = trim_space (ev_decision_id ev), ud_condition_id = ev_condition_id ev, ud_token_id = ev_token_id ev\<rparr>)
       (filter (\<lambda>ev. ev_action ev = StrategyActionSubmit \<and> trim_space (ev_decision_id ev) \<noteq> []) (rs_evaluations rs))"

definition buy_intent_decisions :: "order_intent list \<Rightarrow> undelivered_decision list" where
  "buy_intent_decisions intents =
     map (\<lambda>i. \<lparr>ud_decision_id = trim_space (oi_signal_id i), ud_condition_id = oi_condition_id i, ud_token_id = oi_token_id i\<rparr>)
       (filter (\<lambda>i. oi_side i = SideBuy \<and> trim_space (oi_signal_id i) \<noteq> []) intents)"

definition report_not_submitted ::
    "'s decision_service \<Rightarrow> strategy_context \<Rightarrow> undelivered_decision list \<Rightarrow> string \<Rightarrow> string \<Rightarrow> ('s, unit) state" where
  "report_not_submitted svc cx decisions failureCode failureReason =
     (case dp_reporter (ds_ports svc) of
        None \<Rightarrow> State_Monad.return ()
      | Some report \<Rightarrow> if decisions = [] then State_Monad.return () else report cx decisions failureCode failureReason)"

fun submission_intents :: "'s decision_service \<Rightarrow> order_intent list \<Rightarrow> ('s, order_intent list \<times> order_intent list) state" where
  "submission_intents svc [] = State_Monad.return ([], [])"
| "submission_intents svc (i # is1) = do {
     allowed \<leftarrow> (case dp_submission_policy (ds_ports svc) of
        None \<Rightarrow> State_Monad.return (market_source_normalize (oi_market_source i) = MarketSourcePolymarket)
      | Some policy \<Rightarrow> policy i);
     (deliverable, dryRun) \<leftarrow> submission_intents svc is1;
     State_Monad.return (if allowed then (i # deliverable, dryRun) else (deliverable, i # dryRun)) }"

type_synonym answered = "binding_run \<times> strategy_response \<times> order_intent list \<times> order_intent list"

definition record_answer ::
    "cycle_env \<Rightarrow> 's decision_service \<Rightarrow> binding_params \<Rightarrow> binding_run \<Rightarrow> strategy_request \<Rightarrow> strategy_response \<Rightarrow> order_intent list \<Rightarrow>
     ('s, (binding_run \<times> go_error) + answered) state" where
  "record_answer env svc bp run rq rs intents = do {
     (deliverable, _) \<leftarrow> submission_intents svc intents;
     claimed \<leftarrow> dp_claim_output (ds_ports svc) rs deliverable (bp_submit_enabled bp);
     (case claimed of
        Inl e \<Rightarrow> State_Monad.return (Inl (run\<lparr>br_response := None, br_failure_stage := FailureStageOutput\<rparr>, wrap_error ''record strategy output'' e))
      | Inr stored \<Rightarrow>
          (case validate_response_with_entry_policy (ce_sha env) (ce_float_text env) rq stored (cp_venue (ds_params svc))
                  (bp_allow_entries bp) (bp_block_reason bp) of
             Inl e \<Rightarrow> State_Monad.return (Inl (run\<lparr>br_response := Some stored, br_failure_stage := FailureStageOutput\<rparr>,
               wrap_error ''validate recorded strategy output'' e))
           | Inr recorded \<Rightarrow> do {
               (_, dryRun) \<leftarrow> submission_intents svc recorded;
               State_Monad.return (Inr (run\<lparr>br_response := Some stored\<rparr>, stored, recorded, dryRun)) })) }"

definition with_entry_policy :: "binding_params \<Rightarrow> strategy_response \<Rightarrow> strategy_response" where
  "with_entry_policy bp rs =
     rs\<lparr>rs_entry_policy := (if bp_allow_entries bp then None else Some \<lparr>ep_enabled = False, ep_block_reason = bp_block_reason bp\<rparr>)\<rparr>"

definition accept_answer ::
    "cycle_env \<Rightarrow> 's decision_service \<Rightarrow> binding_params \<Rightarrow> binding_run \<Rightarrow> strategy_request \<Rightarrow> strategy_response \<Rightarrow>
     ('s, (binding_run \<times> go_error) + answered) state" where
  "accept_answer env svc bp run0 rq answer = do {
     let rs = with_entry_policy bp answer;
     let run = run0\<lparr>br_response := Some rs\<rparr>;
     now \<leftarrow> dp_now (ds_ports svc);
     (if rs_decided_at rs > now
      then State_Monad.return (Inl (run\<lparr>br_failure_stage := FailureStageOutput\<rparr>, invalid_strategy ''decided_at must not be in the future''))
      else case validate_response_with_entry_policy (ce_sha env) (ce_float_text env) rq rs (cp_venue (ds_params svc))
             (bp_allow_entries bp) (bp_block_reason bp) of
        Inl e \<Rightarrow> do {
          _ \<leftarrow> report_not_submitted svc (bp_context bp) (submit_evaluations rs) ''STRATEGY_RESPONSE_REJECTED'' (error_text e);
          State_Monad.return (Inl (run\<lparr>br_failure_stage := FailureStageOutput\<rparr>, e)) }
      | Inr intents \<Rightarrow> do {
          _ \<leftarrow> (if bp_allow_entries bp then State_Monad.return ()
               else report_not_submitted svc (bp_context bp) (submit_evaluations rs) ''ENTRY_BLOCKED'' (bp_block_reason bp));
          record_answer env svc bp run rq rs intents }) }"

definition ask_decision ::
    "cycle_env \<Rightarrow> 's decision_service \<Rightarrow> binding_params \<Rightarrow> binding_run \<Rightarrow> strategy_request \<Rightarrow> ('s, (binding_run \<times> go_error) + answered) state" where
  "ask_decision env svc bp run rq = do {
     (answer, failed) \<leftarrow> dp_decide (ds_ports svc) rq;
     (case failed of
        Some e \<Rightarrow> do {
          ended \<leftarrow> dp_ctx_err (ds_ports svc);
          State_Monad.return (Inl (run\<lparr>br_response := Some answer, br_failure_stage := FailureStageStrategy,
            br_strategy_timed_out := (ended = None \<and> errors_is e DeadlineExceeded)\<rparr>, wrap_error ''request strategy decision'' e)) }
      | None \<Rightarrow> accept_answer env svc bp run rq answer) }"

definition ask_strategy :: "cycle_env \<Rightarrow> 's decision_service \<Rightarrow> binding_params \<Rightarrow> ('s, (binding_run \<times> go_error) + answered) state" where
  "ask_strategy env svc bp = do {
     generatedAt \<leftarrow> dp_now (ds_ports svc);
     let run = (binding_run_of (bp_context bp) (length (bp_predictions bp)) (length (bp_positions bp)) (bp_submit_enabled bp))
       \<lparr>br_entry_submission_enabled := bp_allow_entries bp, br_entry_block_reason := bp_block_reason bp\<rparr>;
     (case request_build (ce_input_digest env) (cycle_id (bp_context bp) (bp_decision_at bp)) (bp_context bp) (bp_decision_at bp) generatedAt
             (bp_snapshot_id bp) (bp_predictions bp) (bp_positions bp) (bp_books bp) of
        Inl e \<Rightarrow> State_Monad.return (Inl (run\<lparr>br_failure_stage := FailureStageInput\<rparr>, e))
      | Inr proposed \<Rightarrow> do {
          claimed \<leftarrow> dp_claim_input (ds_ports svc) proposed;
          (case claimed of
             Inl e \<Rightarrow> State_Monad.return (Inl (run\<lparr>br_failure_stage := FailureStageInput\<rparr>, wrap_error ''record strategy input'' e))
           | Inr rq \<Rightarrow>
               (case validate_claimed_input (ce_input_digest env) rq (rq_cycle_id proposed) (bp_context bp) (bp_decision_at bp) of
                  Some e \<Rightarrow> State_Monad.return (Inl (run\<lparr>br_request := Some rq, br_failure_stage := FailureStageInput\<rparr>, e))
                | None \<Rightarrow> ask_decision env svc bp (run\<lparr>br_request := Some rq\<rparr>) rq)) }) }"

definition disabled_result :: "order_intent \<Rightarrow> intent_result" where
  "disabled_result i =
     \<lparr>ir_intent = i, ir_result = no_result, ir_status = DecisionIntentOther [], ir_attempt = 0, ir_submission_disabled = True,
      ir_awaiting_fill_evidence = False, ir_error = None\<rparr>"

definition listed_result :: "intent_result list \<Rightarrow> decision_intent_delivery \<Rightarrow> intent_result" where
  "listed_result delivered d =
     (case List.find (\<lambda>r. oi_client_order_id (ir_intent r) = dd_client_order_id d) (rev delivered) of
        Some r \<Rightarrow> r
      | None \<Rightarrow>
          \<lparr>ir_intent = dd_intent d, ir_result = no_result\<lparr>sb_order := zero_order\<lparr>o_id := dd_order_id d, o_status := dd_order_status d\<rparr>\<rparr>,
           ir_status = dd_status d, ir_attempt = dd_attempt d, ir_submission_disabled = False, ir_awaiting_fill_evidence = False, ir_error = None\<rparr>)"

definition deliver_answer ::
    "'s decision_service \<Rightarrow> binding_params \<Rightarrow> answered \<Rightarrow> 's \<Rightarrow> ((binding_run \<times> err) \<times> 's) option" where
  "deliver_answer svc bp answer s =
     (case answer of (run, rs, intents, dryRun) \<Rightarrow>
      if \<not> bp_submit_enabled bp then
        (case run_state (report_not_submitted svc (bp_context bp) (buy_intent_decisions intents) ''ORDER_SUBMISSION_DISABLED''
                ''decision-cycle order submission is disabled'') s of
           (_, s1) \<Rightarrow> Some ((run\<lparr>br_intents := map disabled_result intents\<rparr>, None), s1))
      else
        (case run_state (report_not_submitted svc (bp_context bp) (buy_intent_decisions dryRun) ''VENUE_SUBMISSION_DISABLED''
                ''venue route does not accept submissions'') s of
           (_, s1) \<Rightarrow>
         case deliver_pending_for_account (ds_ports svc) (cx_execution_account_id (bp_context bp)) (rs_cycle_id rs) [] s1 of
           None \<Rightarrow> None
         | Some ((delivered, claimErr), s2) \<Rightarrow>
             let deliveryErr = errors_join [errors_join (map Some (ad_errors delivered)), claimErr];
                 run' = (if deliveryErr \<noteq> None then run\<lparr>br_failure_stage := FailureStageDelivery\<rparr> else run) in
             (case run_state (dp_list_intents (ds_ports svc) (rs_cycle_id rs)) s2 of
                (Inl e, s3) \<Rightarrow> Some ((run'\<lparr>br_failure_stage := FailureStageDelivery\<rparr>,
                  errors_join [deliveryErr, Some (wrap_error ''list strategy intent deliveries'' e)]), s3)
              | (Inr stored, s3) \<Rightarrow>
                  Some ((run'\<lparr>br_intents := map disabled_result dryRun @ map (listed_result (ad_intents delivered)) stored\<rparr>, deliveryErr), s3))))"

definition run_binding :: "cycle_env \<Rightarrow> 's decision_service \<Rightarrow> binding_params \<Rightarrow> 's \<Rightarrow> ((binding_run \<times> err) \<times> 's) option" where
  "run_binding env svc bp s =
     (case run_state (ask_strategy env svc bp) s of
        (Inl (run, e), s1) \<Rightarrow> Some ((run, Some e), s1)
      | (Inr answer, s1) \<Rightarrow> deliver_answer svc bp answer s1)"


section \<open>One cycle\<close>

definition ErrInvalidBoundary :: go_error where
  "ErrInvalidBoundary = ErrText ''decision_at is not an exact 10-minute UTC boundary''"

text \<open>\<open>time.Time.Unix\<close>: whole seconds since 1970, of a time in nanoseconds since the year 1.\<close>

definition unix_seconds :: "gtime \<Rightarrow> int" where
  "unix_seconds t = t div second - 62135596800"

definition decision_boundary :: "gtime \<Rightarrow> bool" where
  "decision_boundary t \<longleftrightarrow> \<not> is_zero_time t \<and> unix_seconds t mod (decisionInterval div second) = 0"

record run_result =
  ru_decision_at :: gtime
  ru_snapshot_id :: string
  ru_source_unavailable :: bool
  ru_degraded_venues :: "market_source list"
  ru_recovery :: recovery_result
  ru_runs :: "binding_run list"

definition empty_result :: "gtime \<Rightarrow> recovery_result \<Rightarrow> run_result" where
  "empty_result decisionAt recovery =
     \<lparr>ru_decision_at = decisionAt, ru_snapshot_id = [], ru_source_unavailable = False, ru_degraded_venues = [], ru_recovery = recovery, ru_runs = []\<rparr>"

record cycle_plan =
  pn_predictions :: cycle_predictions
  pn_routed :: "string list"
  pn_inputs :: account_inputs
  pn_books :: "order_book list"
  pn_degraded :: "market_source list"

text \<open>Everything the accounts share: predictions, inputs, targets, books and the snapshot batch.\<close>

definition claim_shared_books ::
    "cycle_env \<Rightarrow> 's decision_service \<Rightarrow> gtime \<Rightarrow> run_result \<Rightarrow> cycle_plan \<Rightarrow> book_target list \<Rightarrow> ('s, (run_result \<times> go_error) + (run_result \<times> cycle_plan)) state" where
  "claim_shared_books env svc decisionAt result plan targets = do {
     captured \<leftarrow> dp_capture (ds_ports svc) decisionAt targets;
     (case captured of
        Inl e \<Rightarrow> State_Monad.return (Inl (result, wrap_error ''capture orderbooks'' e))
      | Inr raw \<Rightarrow> do {
          now \<leftarrow> dp_now (ds_ports svc);
          (case align_books targets raw now of
             Inl e \<Rightarrow> State_Monad.return (Inl (result, e))
           | Inr books \<Rightarrow>
           case new_order_book_snapshot_batch (ce_batch_digest env) decisionAt (cr_snapshot_id (pn_predictions plan)) (int (length targets)) books of
             Inl e \<Rightarrow> State_Monad.return (Inl (result, wrap_error ''build shared orderbook snapshot batch'' e))
           | Inr batch \<Rightarrow> do {
               claimed \<leftarrow> dp_claim_batch (ds_ports svc) batch;
               State_Monad.return (case claimed of
                 Inl e \<Rightarrow> Inl (result, wrap_error (''claim shared orderbook snapshot batch for decision_at '' @ format_rfc3339 decisionAt) e)
               | Inr (stored, _) \<Rightarrow>
                   if \<not> same_claimed_batch stored batch then Inl (result, ErrText ''claimed shared orderbook snapshot batch identity is invalid'')
                   else let degraded = degraded_order_book_venues books in
                     Inr (result\<lparr>ru_degraded_venues := sorted_market_sources degraded\<rparr>, plan\<lparr>pn_books := books, pn_degraded := degraded\<rparr>)) }) }) }"

definition prepare_cycle ::
    "cycle_env \<Rightarrow> 's decision_service \<Rightarrow> gtime \<Rightarrow> run_result \<Rightarrow> ('s, (run_result \<times> go_error) + (run_result \<times> cycle_plan)) state" where
  "prepare_cycle env svc decisionAt result0 = do {
     loaded \<leftarrow> load_predictions svc decisionAt;
     (case loaded of
        Inl e \<Rightarrow> State_Monad.return (Inl (result0, e))
      | Inr predictions \<Rightarrow> do {
          let result = result0\<lparr>ru_snapshot_id := cr_snapshot_id predictions, ru_source_unavailable := (cr_unavailable predictions \<noteq> None)\<rparr>;
          routed \<leftarrow> routed_accounts svc;
          prepared \<leftarrow> prepare_account_inputs svc decisionAt routed (cr_selected predictions);
          (case prepared of
             Inl e \<Rightarrow> State_Monad.return (Inl (result, e))
           | Inr inputs \<Rightarrow>
           case shared_targets svc (cr_selected predictions) routed inputs of
             Inl e \<Rightarrow> State_Monad.return (Inl (result, e))
           | Inr (targets, inputs') \<Rightarrow>
               claim_shared_books env svc decisionAt result
                 \<lparr>pn_predictions = predictions, pn_routed = routed, pn_inputs = inputs', pn_books = [], pn_degraded = []\<rparr> targets) }) }"

definition binding_run_error :: "strategy_binding \<Rightarrow> go_error \<Rightarrow> go_error" where
  "binding_run_error b e = wrap_error (''run '' @ sb_model_id b @ ''/'' @ sb_strategy_id b @ '' on '' @ sb_execution_account_id b) e"

text \<open>An account that this cycle leaves out by configuration or because its route is closed.\<close>

definition left_out :: "'s decision_service \<Rightarrow> cycle_plan \<Rightarrow> strategy_binding \<Rightarrow> binding_run option" where
  "left_out svc plan b =
     (let base = (binding_run_of (binding_context b) (length (predictions_for_binding (cr_selected (pn_predictions plan)) b)) 0 False)
            \<lparr>br_prediction_model_id := sb_prediction_model_id b\<rparr>;
          account = sb_execution_account_id b in
      if account \<in> set (cp_submission_disabled_accounts (ds_params svc)) then Some (base\<lparr>br_account_submission_disabled := True\<rparr>)
      else if account \<in> set (cp_strategy_disabled_accounts (ds_params svc)) then Some (base\<lparr>br_account_strategy_disabled := True\<rparr>)
      else if account \<notin> set (pn_routed plan) then Some (base\<lparr>br_route_unavailable := True\<rparr>)
      else None)"

definition unprepared_input :: account_input where
  "unprepared_input = \<lparr>ai_predictions = [], ai_positions = [], ai_targets = [],
     ai_failure = Some (FailureStageInput, ErrText ''account input was not prepared'')\<rparr>"

definition input_of :: "cycle_plan \<Rightarrow> strategy_binding \<Rightarrow> account_input" where
  "input_of plan b = (case map_of (pn_inputs plan) (sb_execution_account_id b) of None \<Rightarrow> unprepared_input | Some input \<Rightarrow> input)"

definition started_run :: "'s decision_service \<Rightarrow> strategy_binding \<Rightarrow> account_input \<Rightarrow> binding_run" where
  "started_run svc b input =
     (binding_run_of (binding_context b) (length (ai_predictions input)) (length (ai_positions input)) (cp_submit_enabled (ds_params svc)))
       \<lparr>br_prediction_model_id := sb_prediction_model_id b\<rparr>"

text \<open>An account that was to run but cannot: broken input, a failed venue capture, or the cycle has ended.\<close>

definition skipped_run :: "'s decision_service \<Rightarrow> cycle_plan \<Rightarrow> strategy_binding \<Rightarrow> ('s, (binding_run \<times> go_error) option) state" where
  "skipped_run svc plan b =
     (let input = input_of plan b; run = started_run svc b input; venue = market_source_normalize (sb_market_source b) in
      case ai_failure input of
        Some (stage, e) \<Rightarrow> State_Monad.return (Some (run\<lparr>br_input_unavailable := True, br_failure_stage := stage\<rparr>,
          ErrWrap (''account input unavailable ('' @ stage @ ''): '' @ error_text e) [e]))
      | None \<Rightarrow>
      if venue \<in> set (pn_degraded plan) then State_Monad.return (Some (run\<lparr>br_venue_books_unavailable := True, br_failure_stage := FailureStageOrderBooks\<rparr>,
          ErrText (venue @ '' orderbooks unavailable this cycle'')))
      else do {
        ended \<leftarrow> dp_ctx_err (ds_ports svc);
        State_Monad.return (case ended of
          Some e \<Rightarrow> Some (run\<lparr>br_not_run := True, br_failure_stage := FailureStageCycleDeadline\<rparr>,
            wrap_error ''decision cycle ended before this account ran'' e)
        | None \<Rightarrow> None) })"

definition binding_params_of :: "'s decision_service \<Rightarrow> cycle_plan \<Rightarrow> gtime \<Rightarrow> strategy_binding \<Rightarrow> order_book list \<Rightarrow> binding_params" where
  "binding_params_of svc plan decisionAt b books =
     (let input = input_of plan b;
          unavailable = (cr_unavailable (pn_predictions plan) \<noteq> None);
          incomplete = (cp_require_complete_model_coverage (ds_params svc) \<and> ai_predictions input = []);
          entryDisabled = account_entry_disabled svc b in
      \<lparr>bp_decision_at = decisionAt, bp_snapshot_id = cr_snapshot_id (pn_predictions plan), bp_context = binding_context b,
       bp_predictions = ai_predictions input, bp_positions = ai_positions input, bp_books = books,
       bp_allow_entries = (\<not> unavailable \<and> \<not> incomplete \<and> \<not> entryDisabled),
       bp_block_reason = entry_block_reason unavailable incomplete entryDisabled,
       bp_submit_enabled = cp_submit_enabled (ds_params svc)\<rparr>)"

definition run_account :: "cycle_env \<Rightarrow> 's decision_service \<Rightarrow> cycle_plan \<Rightarrow> gtime \<Rightarrow> strategy_binding \<Rightarrow> 's \<Rightarrow> ((binding_run \<times> err) \<times> 's) option" where
  "run_account env svc plan decisionAt b s =
     (case left_out svc plan b of
        Some run \<Rightarrow> Some ((run, None), s)
      | None \<Rightarrow>
      case run_state (skipped_run svc plan b) s of
        (Some (run, e), s1) \<Rightarrow> Some ((run\<lparr>br_error := Some e\<rparr>, Some e), s1)
      | (None, s1) \<Rightarrow>
      case books_for_targets (ai_targets (input_of plan b)) (pn_books plan) of
        Inl e \<Rightarrow> Some (((started_run svc b (input_of plan b))\<lparr>br_failure_stage := FailureStageOrderBooks, br_error := Some e\<rparr>, Some e), s1)
      | Inr books \<Rightarrow>
      case run_binding env svc (binding_params_of svc plan decisionAt b books) s1 of
        None \<Rightarrow> None
      | Some ((run, e), s2) \<Rightarrow> Some ((run\<lparr>br_prediction_model_id := sb_prediction_model_id b, br_error := e\<rparr>, e), s2))"

fun run_accounts ::
    "cycle_env \<Rightarrow> 's decision_service \<Rightarrow> cycle_plan \<Rightarrow> gtime \<Rightarrow> strategy_binding list \<Rightarrow> 's \<Rightarrow> ((binding_run list \<times> err list) \<times> 's) option" where
  "run_accounts env svc plan decisionAt [] s = Some (([], []), s)"
| "run_accounts env svc plan decisionAt (b # bs) s =
     (case run_account env svc plan decisionAt b s of
        None \<Rightarrow> None
      | Some ((run, e), s1) \<Rightarrow>
          (case run_accounts env svc plan decisionAt bs s1 of
             None \<Rightarrow> None
           | Some ((runs, errs), s2) \<Rightarrow> Some ((run # runs, map_option (binding_run_error b) e # errs), s2)))"

definition run_decision_cycle :: "cycle_env \<Rightarrow> 's decision_service \<Rightarrow> gtime \<Rightarrow> 's \<Rightarrow> ((run_result \<times> err) \<times> 's) option" where
  "run_decision_cycle env svc decisionAt s =
     (if \<not> decision_boundary decisionAt then Some ((empty_result 0 no_recovery, Some ErrInvalidBoundary), s)
      else case recover_pending svc s of
        None \<Rightarrow> None
      | Some ((recovery, Some e), s1) \<Rightarrow>
          Some ((empty_result decisionAt recovery, Some (wrap_error ''recover pending strategy intents'' e)), s1)
      | Some ((recovery, None), s1) \<Rightarrow>
      case run_state (prepare_cycle env svc decisionAt (empty_result decisionAt recovery)) s1 of
        (Inl (result, e), s2) \<Rightarrow> Some ((result, Some e), s2)
      | (Inr (result, plan), s2) \<Rightarrow>
      case run_accounts env svc plan decisionAt (cp_bindings (ds_params svc)) s2 of
        None \<Rightarrow> None
      | Some ((runs, errs), s3) \<Rightarrow>
          Some ((result\<lparr>ru_runs := runs\<rparr>,
            errors_join ([map_option (wrap_error ''recover pending strategy intents'') (rr_business_err recovery), cr_unavailable (pn_predictions plan)] @ errs)), s3))"

end
