(* ===== verification/Decision_Safety.thy ===== *)
theory Decision_Safety
  imports Decision_Cycle
begin

text \<open>
  What one decision cycle may do, over the recorder of \<open>Decision_Store\<close> and ports that otherwise behave in any way: the
  strategy, the executor, the policies, the gates, the clock and the data sources. The cycle always ends, and everything it
  hands to the execution service passed the account gates, was recorded before, and is handed over once.
\<close>

section \<open>Traces of a cycle\<close>

text \<open>Every port but the recorder and the executor acts on the world only.\<close>

definition untouched :: "decision_store \<Rightarrow> (order_intent \<times> decision_store) list \<Rightarrow> 'w cycle_state \<Rightarrow> bool" where
  "untouched st entries s \<longleftrightarrow> cs_store s = st \<and> cs_submits s = entries"

lemma keeps_on_world: "keeps (untouched st entries) (on_world m)"
  by (auto simp: keeps_def untouched_def intro!: wp_on_world)

lemma keeps_case_option:
  "(x = None \<Longrightarrow> keeps R m) \<Longrightarrow> (\<And>y. x = Some y \<Longrightarrow> keeps R (f y)) \<Longrightarrow> keeps R (case x of None \<Rightarrow> m | Some y \<Rightarrow> f y)"
  by (cases x) auto

lemma recorder_ports_untouched:
  assumes "ports = recorder_ports renv outside"
  shows "keeps (untouched st entries) (dp_snapshot ports a b)" and "keeps (untouched st entries) (dp_list_open_lots ports c)"
    and "keeps (untouched st entries) (dp_capture ports a ts)" and "keeps (untouched st entries) (dp_claim_batch ports batch)"
    and "keeps (untouched st entries) (dp_decide ports rq)" and "keeps (untouched st entries) (dp_now ports)"
    and "keeps (untouched st entries) (dp_ctx_err ports)"
    and "dp_submission_policy ports = Some policy \<Longrightarrow> keeps (untouched st entries) (policy i)"
    and "dp_route_policy ports = Some route \<Longrightarrow> keeps (untouched st entries) (route bd)"
    and "dp_reporter ports = Some report \<Longrightarrow> keeps (untouched st entries) (report cx ds code reason)"
  unfolding assms by (auto simp: recorder_ports_def intro!: keeps_on_world)

lemma wp_untouched:
  assumes "\<And>st entries. keeps (untouched st entries) m" "\<And>x s'. cs_store s' = cs_store s \<Longrightarrow> cs_submits s' = cs_submits s \<Longrightarrow> Q x s'"
  shows "wp m Q s"
proof (rule wpI)
  fix x s' assume run: "run_state m s = (x, s')"
  have "untouched (cs_store s) (cs_submits s) s'" by (rule keepsD [OF assms(1) _ run]) (simp add: untouched_def)
  then show "Q x s'" using assms(2) by (simp add: untouched_def)
qed

text \<open>The deliveries that left the queue: claimed, or finished.\<close>

definition settled_ids :: "decision_store \<Rightarrow> string set" where
  "settled_ids st = dd_client_order_id ` set (st_deliveries st) - pending_ids st"

definition cycle_trace :: "(order_intent \<Rightarrow> bool) \<Rightarrow> 'w cycle_state \<Rightarrow> 'w cycle_state \<Rightarrow> bool" where
  "cycle_trace P s s' \<longleftrightarrow> store_step\<^sup>*\<^sup>* (cs_store s) (cs_store s') \<and> settled_ids (cs_store s) \<subseteq> settled_ids (cs_store s') \<and>
     (\<exists>entries. cs_submits s' = cs_submits s @ entries \<and> (\<forall>(i, st)\<in>set entries. P i \<and> claimed_in i st) \<and> distinct (logged_clients entries) \<and>
        set (logged_clients entries) \<subseteq> settled_ids (cs_store s') - settled_ids (cs_store s))"

lemma cycle_trace_step:
  "store_step\<^sup>*\<^sup>* (cs_store s) (cs_store s') \<Longrightarrow> settled_ids (cs_store s) \<subseteq> settled_ids (cs_store s') \<Longrightarrow> cs_submits s' = cs_submits s \<Longrightarrow> cycle_trace P s s'"
  by (auto simp: cycle_trace_def logged_clients_def intro!: exI [of _ "[]"])

lemma cycle_trace_same: "cs_store s' = cs_store s \<Longrightarrow> cs_submits s' = cs_submits s \<Longrightarrow> cycle_trace P s s'"
  by (simp add: cycle_trace_step)

lemma cycle_trace_trans:
  assumes "cycle_trace P s s1" "cycle_trace P s1 s2"
  shows "cycle_trace P s s2"
proof -
  obtain l1 where l1: "cs_submits s1 = cs_submits s @ l1" "\<forall>(i, st)\<in>set l1. P i \<and> claimed_in i st" "distinct (logged_clients l1)"
    "set (logged_clients l1) \<subseteq> settled_ids (cs_store s1) - settled_ids (cs_store s)" using assms(1) by (auto simp: cycle_trace_def)
  obtain l2 where l2: "cs_submits s2 = cs_submits s1 @ l2" "\<forall>(i, st)\<in>set l2. P i \<and> claimed_in i st" "distinct (logged_clients l2)"
    "set (logged_clients l2) \<subseteq> settled_ids (cs_store s2) - settled_ids (cs_store s1)" using assms(2) by (auto simp: cycle_trace_def)
  have mono: "settled_ids (cs_store s) \<subseteq> settled_ids (cs_store s1)" "settled_ids (cs_store s1) \<subseteq> settled_ids (cs_store s2)"
      "store_step\<^sup>*\<^sup>* (cs_store s) (cs_store s2)"
    using assms by (auto simp: cycle_trace_def)
  have app: "logged_clients (l1 @ l2) = logged_clients l1 @ logged_clients l2" by (simp add: logged_clients_def)
  have "distinct (logged_clients (l1 @ l2))" unfolding app distinct_append using l1(3,4) l2(3,4) by blast
  moreover have "set (logged_clients (l1 @ l2)) \<subseteq> settled_ids (cs_store s2) - settled_ids (cs_store s)"
    unfolding app set_append using l1(4) l2(4) mono by blast
  moreover have "\<forall>(i, st)\<in>set (l1 @ l2). P i \<and> claimed_in i st" using l1(2) l2(2) by auto
  moreover have "cs_submits s2 = cs_submits s @ (l1 @ l2)" using l1(1) l2(1) by simp
  ultimately show ?thesis using mono order_trans unfolding cycle_trace_def by blast
qed

lemma cycle_trace_mono: "cycle_trace P s s' \<Longrightarrow> (\<And>i. P i \<Longrightarrow> Q i) \<Longrightarrow> cycle_trace Q s s'"
  unfolding cycle_trace_def by (metis (no_types, lifting) case_prodD case_prodI2)

lemma cycle_trace_reachable: "cycle_trace P s s' \<Longrightarrow> reachable_store (cs_store s) \<Longrightarrow> reachable_store (cs_store s')"
  by (auto simp: cycle_trace_def reachable_store_def)

lemma run_keeps_ids:
  assumes "store_step\<^sup>*\<^sup>* st st'" "schema_ok st"
  shows "dd_client_order_id ` set (st_deliveries st) \<subseteq> dd_client_order_id ` set (st_deliveries st')"
proof
  fix x assume "x \<in> dd_client_order_id ` set (st_deliveries st)"
  then obtain d where d: "d \<in> set (st_deliveries st)" "x = dd_client_order_id d" by blast
  obtain d' where d': "d' \<in> set (st_deliveries st')" "row_later d d'" using store_run_later [OF assms d(1)] by blast
  have "x = dd_client_order_id d'" using d(2) d'(2) by (simp add: row_later_def delivery_keys_def)
  then show "x \<in> dd_client_order_id ` set (st_deliveries st')" using d'(1) by simp
qed

lemma delivery_trace_settled:
  assumes "delivery_trace P s s'" "schema_ok (cs_store s)"
  shows "settled_ids (cs_store s) \<subseteq> settled_ids (cs_store s')"
    and "pending_ids (cs_store s) - pending_ids (cs_store s') \<subseteq> settled_ids (cs_store s') - settled_ids (cs_store s)"
proof -
  have ids: "dd_client_order_id ` set (st_deliveries (cs_store s)) \<subseteq> dd_client_order_id ` set (st_deliveries (cs_store s'))"
    and pend: "pending_ids (cs_store s') \<subseteq> pending_ids (cs_store s)"
    using assms run_keeps_ids by (auto simp: delivery_trace_def)
  have "pending_ids (cs_store s) \<subseteq> dd_client_order_id ` set (st_deliveries (cs_store s))" by (auto simp: pending_ids_def)
  with ids pend show "settled_ids (cs_store s) \<subseteq> settled_ids (cs_store s')"
    and "pending_ids (cs_store s) - pending_ids (cs_store s') \<subseteq> settled_ids (cs_store s') - settled_ids (cs_store s)"
    unfolding settled_ids_def by blast+
qed

lemma delivery_cycle_trace:
  assumes "delivery_trace P s s'" "schema_ok (cs_store s)"
  shows "cycle_trace P s s'"
  using assms(1) delivery_trace_settled [OF assms] unfolding delivery_trace_def cycle_trace_def by (metis (no_types, lifting) order_trans)


section \<open>Recorded answers\<close>

text \<open>An answer is recorded under normalized intents, so that the side of a row is the side of the validated intent.\<close>

definition normalized_rows :: "decision_store \<Rightarrow> bool" where
  "normalized_rows st \<longleftrightarrow> dd_intent ` set (st_deliveries st) \<subseteq> range intent_normalize"

lemma normalized_rows_map: "map dd_intent (st_deliveries st') = map dd_intent (st_deliveries st) \<Longrightarrow> normalized_rows st \<Longrightarrow> normalized_rows st'"
  unfolding normalized_rows_def by (metis list.set_map)

lemma reachable_normalized: "reachable_store st \<Longrightarrow> normalized_rows st"
  unfolding reachable_store_def
proof (induction rule: rtranclp_induct)
  case (step st st')
  have ok: "schema_ok st" "deliveries_ok (st_deliveries st)" using store_run_schema [OF step(1) empty_schema] by (simp_all add: schema_ok_def)
  from step(2) show ?case
  proof cases
    case (input digest db now rq res)
    then show ?thesis using claim_input_ok [OF input ok(1)] step.IH by (simp add: normalized_rows_def)
  next
    case (answer codec db now rs intents submitting res)
    show ?thesis
    proof (cases "st' = st")
      case False
      then obtain payloads where p: "encode_decision_intents rs intents = Inr payloads"
        "st_deliveries st' = st_deliveries st @
          (if submitting then map (\<lambda>(k, i). new_delivery now (rs_cycle_id rs) k i) (enumerate 0 payloads) else [])"
        using claim_output_stored [OF answer ok(1)] by blast
      have "payloads = map intent_normalize intents" using p(1) encode_intents_loop_valid unfolding encode_decision_intents_def by blast
      then have "set payloads \<subseteq> range intent_normalize" by auto
      moreover have "dd_intent ` set (map (\<lambda>(k, i). new_delivery now (rs_cycle_id rs) k i) (enumerate 0 payloads)) = set payloads"
        using enumerate_intents by (metis list.set_map)
      ultimately show ?thesis using step.IH unfolding normalized_rows_def p(2) by (cases submitting) (simp_all add: image_Un del: set_map list.set_map)
    qed (use step.IH in simp)
  next
    case (claim db locked now accounts cycleID side limit res)
    then show ?thesis using claim_pending_steps [OF claim ok(2)] row_steps_keys(2) normalized_rows_map step.IH by blast
  next
    case (requeue db locked now accounts before side limit res)
    then show ?thesis using requeue_steps [OF requeue ok(2)] row_steps_keys(2) normalized_rows_map step.IH by blast
  next
    case (complete db now client attempt c e)
    then show ?thesis using complete_steps [OF complete] row_steps_keys(2) normalized_rows_map step.IH by blast
  qed
qed (simp add: normalized_rows_def empty_store_def)

lemma replay_side: "decision_intent_replay_equivalent stored proposed \<Longrightarrow> oi_side (intent_normalize stored) = oi_side (intent_normalize proposed)"
  by (auto simp: decision_intent_replay_equivalent_def intent_equivalent_def Let_def intent_normalize_def split: if_splits)

lemma replayed_answer_verified:
  assumes "claim_output codec db now rs intents True st = (Inr (stored, False), st')"
  shows "\<exists>payloads. encode_decision_intents rs intents = Inr payloads \<and> verify_stored_decision_intents (db 2) (rs_cycle_id rs) payloads True st = None"
proof -
  have stored: "store_output db now rs col payloads True st = (Inr (x, False), st1) \<longleftrightarrow> False" for col payloads x st1
    by (auto simp: store_output_def Let_def split: option.splits sum.splits)
  have replay: "replay_output codec db existing payload c payloads True run st = (Inr (x, False), st1) \<Longrightarrow>
      verify_stored_decision_intents (db 2) c payloads True st = None" for existing payload c payloads run x st1
    by (auto simp: replay_output_def split: option.splits if_splits sum.splits)
  obtain payload payloads where "rc_marshal codec rs = Inr payload" "encode_decision_intents rs intents = Inr payloads" using assms
    by (cases "encode_decision_intents rs intents") (auto simp: claim_output_def split: if_splits sum.splits)
  then show ?thesis using assms replay by (auto simp: claim_output_def stored split: if_splits option.splits)
qed

lemma claimed_answer_sides:
  assumes reach: "reachable_store st" and claim: "claim_output codec db now rs intents True st = (Inr (stored, b), st')"
    and sides: "\<forall>j\<in>set intents. oi_side (intent_normalize j) \<in> S"
  shows "\<forall>i\<in>set (cycle_intents (rs_cycle_id rs) st'). oi_side i \<in> S"
proof (cases b)
  case True
  have "claim_output codec db now rs intents True st = (Inr (stored, True), st')" using claim True by simp
  then obtain payloads r where p: "encode_decision_intents rs intents = Inr payloads" "run_cycle r = rs_cycle_id rs" "answer_fixed r payloads st'"
    using answer_is_fixed [OF reach] by fastforce
  have "payloads = map intent_normalize intents" using p(1) encode_intents_loop_valid unfolding encode_decision_intents_def by blast
  then show ?thesis using p(2,3) sides by (auto simp: answer_fixed_def cycle_intents_def)
next
  case False
  have st': "st' = st" using claim_output_cases [OF claim] False by auto
  obtain payloads where p: "encode_decision_intents rs intents = Inr payloads"
    and v: "verify_stored_decision_intents (db 2) (rs_cycle_id rs) payloads True st = None"
    using replayed_answer_verified claim False by (metis (full_types))
  have pl: "payloads = map intent_normalize intents" using p encode_intents_loop_valid unfolding encode_decision_intents_def by blast
  have eq: "list_all2 decision_intent_replay_equivalent (cycle_intents (rs_cycle_id rs) st) payloads"
    using v by (auto simp: verify_stored_decision_intents_def cycle_intents_def Let_def split: option.splits if_splits)
  show ?thesis unfolding st'
  proof
    fix i assume i: "i \<in> set (cycle_intents (rs_cycle_id rs) st)"
    obtain k where k: "k < length (cycle_intents (rs_cycle_id rs) st)" "i = cycle_intents (rs_cycle_id rs) st ! k" using i by (auto simp: in_set_conv_nth)
    then obtain j where j: "j \<in> set payloads" "decision_intent_replay_equivalent i j"
      using list_all2_nthD [OF eq k(1)] list_all2_lengthD [OF eq] by (metis nth_mem)
    obtain i0 where i0: "i = intent_normalize i0"
      using i reachable_normalized [OF reach] by (auto simp: cycle_intents_def cycle_deliveries_def normalized_rows_def)
    obtain j0 where j0: "j0 \<in> set intents" "j = intent_normalize j0" using j(1) pl by auto
    have "oi_side i = oi_side j" using replay_side [OF j(2)] unfolding i0 j0 by simp
    then show "oi_side i \<in> S" using sides j0 by simp
  qed
qed


section \<open>Shared work\<close>

lemma trim_cycle_id:
  assumes "trim_space (cx_execution_account_id cx) = cx_execution_account_id cx" "cx_execution_account_id cx \<noteq> []"
  shows "trim_space (cycle_id cx t) = cycle_id cx t"
proof -
  obtain c cs where a: "cx_execution_account_id cx = c # cs" using assms(2) by (cases "cx_execution_account_id cx") auto
  have "\<not> is_space c"
  proof
    assume "is_space c"
    then have "length (trim_space (c # cs)) \<le> length cs"
      by (simp add: trim_space_def) (metis (no_types, lifting) length_dropWhile_le length_rev order_trans)
    then show False using assms(1) a by simp
  qed
  moreover obtain xs where "format_stamp t = xs @ ''Z''" by (simp add: format_stamp_def Let_def split_def flip: append_assoc)
  moreover have "\<not> is_space (CHR ''Z'')" by code_simp
  ultimately show ?thesis by (simp add: trim_space_def cycle_id_def a)
qed

lemma submission_intents_subset:
  assumes ports: "ds_ports svc = recorder_ports renv outside"
  shows "wp (submission_intents svc intents)
    (\<lambda>(deliverable, dryRun) s'. set deliverable \<subseteq> set intents \<and> cs_store s' = cs_store s \<and> cs_submits s' = cs_submits s) s"
proof (induction intents arbitrary: s)
  case Nil
  then show ?case by (simp add: wp_return)
next
  case (Cons i intents)
  have policy: "keeps (untouched st entries) (case dp_submission_policy (ds_ports svc) of
        None \<Rightarrow> State_Monad.return (market_source_normalize (oi_market_source i) = MarketSourcePolymarket)
      | Some policy \<Rightarrow> policy i)" for st entries
    by (intro keeps_case_option keeps_return recorder_ports_untouched [OF ports])
  show ?case unfolding submission_intents.simps
    by (intro wp_bind, rule wp_untouched [OF policy], rule wp_bind, rule wp_mono [OF Cons.IH]) (auto intro!: wp_rules split: if_splits)
qed

lemma report_not_submitted_untouched:
  assumes "ds_ports svc = recorder_ports renv outside"
  shows "keeps (untouched st entries) (report_not_submitted svc cx ds code reason)"
  unfolding report_not_submitted_def by (intro keeps_case_option keeps_return keeps_if recorder_ports_untouched [OF assms])

lemma load_predictions_untouched:
  assumes "ds_ports svc = recorder_ports renv outside"
  shows "keeps (untouched st entries) (load_predictions svc t)"
  unfolding load_predictions_def by (intro keeps_rules recorder_ports_untouched [OF assms])

lemma routed_accounts_untouched:
  assumes "ds_ports svc = recorder_ports renv outside"
  shows "keeps (untouched st entries) (routed_accounts svc)"
proof -
  have step: "keeps (untouched st entries) (routed_accounts_step svc b)" for b
    unfolding routed_accounts_step_def by (intro keeps_case_option keeps_return recorder_ports_untouched [OF assms])
  have "keeps (untouched st entries) (routed_accounts_loop svc bs)" for bs
    by (induction bs) (auto intro!: keeps_rules step)
  then show ?thesis by (simp add: routed_accounts_def)
qed

lemma prepare_account_inputs_untouched:
  assumes "ds_ports svc = recorder_ports renv outside"
  shows "keeps (untouched st entries) (prepare_account_inputs svc t routed chosen)"
proof -
  have "keeps (untouched st entries) (prepare_inputs_loop svc t routed chosen inputs bs)" for inputs bs
  proof (induction bs arbitrary: inputs)
    case (Cons b bs)
    then show ?case unfolding prepare_inputs_loop.simps load_account_lots_def
      by (intro keeps_rules recorder_ports_untouched [OF assms])
  qed (simp add: keeps_return)
  then show ?thesis by (simp add: prepare_account_inputs_def)
qed

lemma prepare_cycle_untouched:
  assumes "ds_ports svc = recorder_ports renv outside"
  shows "keeps (untouched st entries) (prepare_cycle env svc t result)"
  unfolding prepare_cycle_def claim_shared_books_def
  by (intro keeps_rules recorder_ports_untouched [OF assms] load_predictions_untouched [OF assms] routed_accounts_untouched [OF assms]
      prepare_account_inputs_untouched [OF assms])

lemma wp_any: "(\<And>x s'. Q x s') \<Longrightarrow> wp m Q s"
  by (simp add: wpI)

lemma claimed_books_source:
  assumes "ru_source_unavailable result = (cr_unavailable (pn_predictions plan) \<noteq> None)"
  shows "wp (claim_shared_books env svc t result plan targets)
     (\<lambda>r _. case r of Inl _ \<Rightarrow> True | Inr (result', plan') \<Rightarrow> ru_source_unavailable result' = (cr_unavailable (pn_predictions plan') \<noteq> None)) s"
  unfolding claim_shared_books_def
  apply (rule wp_bind, rule wp_any, rule wp_sum, simp add: wp_return)
  apply (rule wp_bind, rule wp_any, rule wp_sum, simp add: wp_return, rule wp_sum, simp add: wp_return)
  apply (rule wp_bind, rule wp_any, rule wp_return)
  apply (use assms in \<open>auto simp: Let_def split: sum.splits\<close>)
  done

lemma prepared_cycle_source:
  "wp (prepare_cycle env svc t result)
     (\<lambda>r _. case r of Inl _ \<Rightarrow> True | Inr (result', plan) \<Rightarrow> ru_source_unavailable result' = (cr_unavailable (pn_predictions plan) \<noteq> None)) s"
  unfolding prepare_cycle_def
  apply (rule wp_bind, rule wp_any, rule wp_sum, simp add: wp_return, rule wp_let)
  apply (rule wp_bind, rule wp_any, rule wp_bind, rule wp_any, rule wp_sum, simp add: wp_return, rule wp_sum, simp add: wp_return)
  apply (rule wp_prod, rule claimed_books_source, simp)
  done

lemma skipped_run_untouched:
  assumes "ds_ports svc = recorder_ports renv outside"
  shows "keeps (untouched st entries) (skipped_run svc plan b)"
  unfolding skipped_run_def by (intro keeps_rules recorder_ports_untouched [OF assms])


section \<open>One account\<close>

lemma wp_claim_input:
  assumes "ports = recorder_ports renv outside"
    and "\<And>db now r st w. claim_input (re_digest renv) db now rq (cs_store s) = (r, st) \<Longrightarrow> Q (map_sum id fst r) (s\<lparr>cs_store := st, cs_world := w\<rparr>)"
  shows "wp (dp_claim_input ports rq) Q s"
  unfolding assms(1) recorder_ports_def by (simp, rule wp_on_store, use assms(2) in \<open>auto simp: first_of_def\<close>)

lemma wp_claim_output:
  assumes "ports = recorder_ports renv outside"
    and "\<And>db now r st w. claim_output (re_codec renv) db now rs intents b (cs_store s) = (r, st) \<Longrightarrow> Q (map_sum id fst r) (s\<lparr>cs_store := st, cs_world := w\<rparr>)"
  shows "wp (dp_claim_output ports rs intents b) Q s"
  unfolding assms(1) recorder_ports_def by (simp, rule wp_on_store, use assms(2) in \<open>auto simp: first_of_def\<close>)

lemma appended_settled:
  assumes "schema_ok st'" "st_deliveries st' = st_deliveries st @ new"
  shows "settled_ids st \<subseteq> settled_ids st'"
proof
  fix x assume x: "x \<in> settled_ids st"
  then obtain d where d: "d \<in> set (st_deliveries st)" "x = dd_client_order_id d" "dd_status d \<noteq> DecisionIntentPending"
    by (auto simp: settled_ids_def pending_ids_def)
  have "x \<notin> pending_ids st'"
  proof
    assume "x \<in> pending_ids st'"
    then obtain e where e: "e \<in> set (st_deliveries st')" "x = dd_client_order_id e" "dd_status e = DecisionIntentPending" by (auto simp: pending_ids_def)
    have "e = d" using same_client_same_row [OF assms(1) e(1)] d e(2) assms(2) by simp
    then show False using d(3) e(3) by simp
  qed
  then show "x \<in> settled_ids st'" using d assms(2) by (auto simp: settled_ids_def)
qed

lemma validated_cycle: "validate_response_with_entry_policy sha fmt rq rs venue allow reason = Inr intents \<Longrightarrow> rs_cycle_id rs = rq_cycle_id rq"
  by (auto simp: validate_response_with_entry_policy_def check_response_identity_def Let_def split: option.splits if_splits sum.splits)

lemma validated_sides:
  assumes "validate_response_with_entry_policy sha fmt rq rs venue allow reason = Inr intents" "j \<in> set intents"
  shows "oi_side (intent_normalize j) = SideSell \<or> allow"
proof -
  have "to_upper (trim_space SideSell) = SideSell" by code_simp
  moreover have "accepted_intent rq rs allow j" using validated_response_collected [OF assms(1)] assms(2) by (auto simp: collected_def list_all_iff)
  ultimately show ?thesis by (auto simp: accepted_intent_def exit_of_def intent_normalize_def)
qed

text \<open>The cycle of an answer and the sides of its recorded intents.\<close>

definition answer_ready :: "binding_params \<Rightarrow> string \<Rightarrow> (binding_run \<times> go_error) + answered \<Rightarrow> decision_store \<Rightarrow> bool" where
  "answer_ready bp cycleID r st \<longleftrightarrow>
     (case r of Inl _ \<Rightarrow> True | Inr (run, rs, intents, dryRun) \<Rightarrow> rs_cycle_id rs = cycleID \<and>
        (bp_submit_enabled bp \<longrightarrow> (\<forall>i\<in>set (cycle_intents cycleID st). oi_side i = SideSell \<or> bp_allow_entries bp)))"

lemma answer_ready_Inl [simp]: "answer_ready bp c (Inl e) st"
  by (simp add: answer_ready_def)

lemma record_answer_traced:
  assumes ports: "ds_ports svc = recorder_ports renv outside" and reach: "reachable_store (cs_store s)"
    and valid: "validate_response_with_entry_policy (ce_sha env) (ce_float_text env) rq rs (cp_venue (ds_params svc)) (bp_allow_entries bp) (bp_block_reason bp) = Inr intents"
  shows "wp (record_answer env svc bp run rq rs intents)
    (\<lambda>r s'. cycle_trace (\<lambda>_. False) s s' \<and> answer_ready bp (rq_cycle_id rq) r (cs_store s')) s"
proof -
  let ?S = "{x. x = SideSell \<or> bp_allow_entries bp}"
  have claimed: "wp (dp_claim_output (ds_ports svc) rs deliverable (bp_submit_enabled bp))
      (\<lambda>r s'. cycle_trace (\<lambda>_. False) s s' \<and> (isl r \<or> (bp_submit_enabled bp \<longrightarrow> (\<forall>i\<in>set (cycle_intents (rq_cycle_id rq) (cs_store s')). oi_side i \<in> ?S)))) s1"
    if sub: "set deliverable \<subseteq> set intents" and s1: "cs_store s1 = cs_store s" "cs_submits s1 = cs_submits s" for deliverable s1
  proof (rule wp_claim_output [OF ports], goal_cases)
    case (1 db now r st w)
    have c: "claim_output (re_codec renv) db now rs deliverable (bp_submit_enabled bp) (cs_store s) = (r, st)" using 1 s1 by simp
    note ok = claim_output_ok [OF c reachable_ok(1) [OF reach]]
    have "cycle_trace (\<lambda>_. False) s (s1\<lparr>cs_store := st, cs_world := w\<rparr>)"
      by (rule cycle_trace_step) (use ok appended_settled store_step.answer [OF c] s1 in auto)
    moreover have "\<forall>i\<in>set (cycle_intents (rq_cycle_id rq) st). oi_side i \<in> ?S" if r: "\<not> isl r" "bp_submit_enabled bp"
    proof -
      obtain stored b where "r = Inr (stored, b)" using r(1) by (cases r) auto
      then show ?thesis
        using claimed_answer_sides [OF reach, of "re_codec renv" db now rs deliverable stored b st ?S] c r(2) sub validated_sides [OF valid]
          validated_cycle [OF valid] by auto
    qed
    moreover have "isl (map_sum id fst r) = isl r" by (cases r) simp_all
    ultimately show ?case by auto
  qed
  show ?thesis unfolding record_answer_def
    apply (rule wp_bind, rule wp_mono [OF submission_intents_subset [OF ports]], rule wp_prod)
    apply (rule wp_bind, rule wp_mono [OF claimed], simp, simp, simp, rule wp_sum, rule wp_return, simp)
    apply (rule wp_sum, rule wp_return, simp)
    apply (rule wp_bind, rule wp_mono [OF submission_intents_subset [OF ports]], rule wp_prod, rule wp_return)
    apply (auto simp: answer_ready_def dest: validated_cycle intro: cycle_trace_trans cycle_trace_same)
    done
qed

lemma accept_answer_traced:
  assumes ports: "ds_ports svc = recorder_ports renv outside" and reach: "reachable_store (cs_store s)"
  shows "wp (accept_answer env svc bp run rq answer)
    (\<lambda>r s'. cycle_trace (\<lambda>_. False) s s' \<and> answer_ready bp (rq_cycle_id rq) r (cs_store s')) s"
proof -
  have recorded: "wp (record_answer env svc bp run' rq rs intents)
      (\<lambda>r s'. cycle_trace (\<lambda>_. False) s s' \<and> answer_ready bp (rq_cycle_id rq) r (cs_store s')) s1"
    if valid: "validate_response_with_entry_policy (ce_sha env) (ce_float_text env) rq rs (cp_venue (ds_params svc)) (bp_allow_entries bp) (bp_block_reason bp) = Inr intents"
      and s1: "cs_store s1 = cs_store s" "cs_submits s1 = cs_submits s" for run' rs intents s1
  proof (rule wp_mono [OF record_answer_traced [OF ports _ valid]])
    show "reachable_store (cs_store s1)" using reach s1 by simp
    show "cycle_trace (\<lambda>_. False) s s' \<and> answer_ready bp (rq_cycle_id rq) r (cs_store s')"
      if "cycle_trace (\<lambda>_. False) s1 s' \<and> answer_ready bp (rq_cycle_id rq) r (cs_store s')" for r s'
      using that cycle_trace_trans [OF cycle_trace_same [OF s1]] by blast
  qed
  have report: "keeps (untouched st entries) (if bp_allow_entries bp then State_Monad.return ()
      else report_not_submitted svc (bp_context bp) (submit_evaluations rs) code reason)" for st entries rs code reason
    by (intro keeps_if keeps_return report_not_submitted_untouched [OF ports])
  show ?thesis unfolding accept_answer_def Let_def
    apply (rule wp_bind, rule wp_untouched [OF recorder_ports_untouched(6) [OF ports]], rule wp_if)
     apply (rule wp_return, simp add: cycle_trace_same)
    apply (rule wp_sum)
     apply (rule wp_bind, rule wp_untouched [OF report_not_submitted_untouched [OF ports]], rule wp_return, simp add: cycle_trace_same)
    apply (rule wp_bind, rule wp_untouched [OF report], rule recorded, assumption, simp_all)
    done
qed

lemma ask_strategy_traced:
  assumes ports: "ds_ports svc = recorder_ports renv outside" and reach: "reachable_store (cs_store s)"
  shows "wp (ask_strategy env svc bp)
    (\<lambda>r s'. cycle_trace (\<lambda>_. False) s s' \<and> answer_ready bp (trim_space (cycle_id (bp_context bp) (bp_decision_at bp))) r (cs_store s')) s"
    (is "wp _ (?Q s) s")
proof -
  let ?c = "trim_space (cycle_id (bp_context bp) (bp_decision_at bp))"
  have accept: "wp (accept_answer env svc bp run rq answer) (?Q s) s2"
    if tr: "cycle_trace (\<lambda>_. False) s s2" and c: "rq_cycle_id rq = ?c" for run rq answer s2
    by (rule wp_mono [OF accept_answer_traced [OF ports cycle_trace_reachable [OF tr reach]]])
      (use cycle_trace_trans [OF tr] c in auto)
  have ask: "wp (ask_decision env svc bp run rq) (?Q s) s1" if tr: "cycle_trace (\<lambda>_. False) s s1" and c: "rq_cycle_id rq = ?c" for run rq s1
    unfolding ask_decision_def
    apply (rule wp_bind, rule wp_untouched [OF recorder_ports_untouched(5) [OF ports]], rule wp_prod, rule wp_option)
     apply (rule accept [OF cycle_trace_trans [OF tr cycle_trace_same] c], simp_all)
    apply (rule wp_bind, rule wp_untouched [OF recorder_ports_untouched(7) [OF ports]], rule wp_return)
    apply (simp add: cycle_trace_trans [OF tr cycle_trace_same])
    done
  have claim: "wp (dp_claim_input (ds_ports svc) rq) (\<lambda>_. cycle_trace (\<lambda>_. False) s) s1"
    if s1: "cs_store s1 = cs_store s" "cs_submits s1 = cs_submits s" for rq s1
  proof (rule wp_claim_input [OF ports], goal_cases)
    case (1 db now r st w)
    then have c: "claim_input (re_digest renv) db now rq (cs_store s) = (r, st)" using s1 by simp
    note ok = claim_input_ok [OF c reachable_ok(1) [OF reach]]
    show ?case by (rule cycle_trace_step) (use ok store_step.input [OF c] s1 in \<open>auto simp: settled_ids_def pending_ids_def\<close>)
  qed
  have built: "rq_cycle_id proposed = ?c"
    if "request_build digest (cycle_id (bp_context bp) (bp_decision_at bp)) cx t1 t2 sn ps ls bs = Inr proposed" for digest cx t1 t2 sn ps ls bs proposed
    using that by (auto simp: request_build_def Let_def split: if_splits option.splits sum.splits)
  have valid: "rq_cycle_id rq = c" if "validate_claimed_input digest rq c cx t = None" for digest rq c cx t
    using that by (auto simp: validate_claimed_input_def split: if_splits)
  show ?thesis unfolding ask_strategy_def
    apply (rule wp_bind, rule wp_untouched [OF recorder_ports_untouched(6) [OF ports]], rule wp_let, rule wp_sum)
     apply (rule wp_return, simp add: cycle_trace_same)
    apply (rule wp_bind, rule wp_mono [OF claim], assumption+, rule wp_sum, rule wp_return, simp)
    apply (rule wp_option, rule ask, assumption, simp add: built valid)
    apply (rule wp_return, simp)
    done
qed

lemma list_intents_untouched:
  assumes "ports = recorder_ports renv outside"
  shows "keeps (untouched st entries) (dp_list_intents ports c)"
  unfolding assms recorder_ports_def by (auto simp: keeps_def untouched_def intro!: wp_on_store)

text \<open>From here on each lemma says both that the code returns and what it did.\<close>

lemma deliver_answer_traced:
  assumes ports: "ds_ports svc = recorder_ports renv outside" and reach: "reachable_store (cs_store s)"
    and ready: "answer_ready bp c (Inr (run, rs, intents, dryRun)) (cs_store s)" and c: "trim_space c = c" "c \<noteq> []"
    and P: "\<And>i. bp_submit_enabled bp \<Longrightarrow> oi_execution_account_id i = trim_space (cx_execution_account_id (bp_context bp)) \<Longrightarrow>
      oi_side i = SideSell \<or> bp_allow_entries bp \<Longrightarrow> P i"
  shows "\<exists>r s'. deliver_answer svc bp (run, rs, intents, dryRun) s = Some (r, s') \<and> cycle_trace P s s'"
proof -
  have rs: "rs_cycle_id rs = c" using ready by (simp add: answer_ready_def)
  have idle: "cycle_trace P s s1" if "run_state (report_not_submitted svc cx ds code reason) s = (x, s1)" for cx ds code reason x s1
    using wpD [OF wp_untouched [OF report_not_submitted_untouched [OF ports], of s "\<lambda>_. cycle_trace P s"] that] cycle_trace_same by blast
  show ?thesis
  proof (cases "bp_submit_enabled bp")
    case False
    obtain x s1 where r: "run_state (report_not_submitted svc (bp_context bp) (buy_intent_decisions intents) ''ORDER_SUBMISSION_DISABLED''
        ''decision-cycle order submission is disabled'') s = (x, s1)" by (metis surj_pair)
    show ?thesis using False r idle [OF r] by (simp add: deliver_answer_def)
  next
    case True
    let ?account = "cx_execution_account_id (bp_context bp)"
    obtain x s1 where r: "run_state (report_not_submitted svc (bp_context bp) (buy_intent_decisions dryRun) ''VENUE_SUBMISSION_DISABLED''
        ''venue route does not accept submissions'') s = (x, s1)" by (metis surj_pair)
    have s1: "cs_store s1 = cs_store s"
      using wpD [OF wp_untouched [OF report_not_submitted_untouched [OF ports], of s "\<lambda>_ s'. cs_store s' = cs_store s"] r] by blast
    have ok: "schema_ok (cs_store s1)" using reachable_ok(1) [OF reach] s1 by simp
    obtain delivered claimErr s2 where d: "deliver_pending_for_account (recorder_ports renv outside) ?account c [] s1 = Some ((delivered, claimErr), s2)"
      using recorder.deliver_account_ends [OF ok] by (metis surj_pair)
    have sel: "P i" if "selected_intent (trim_space ?account) (trim_space c) [] (cs_store s1) i" for i
      using that ready True c P s1 by (auto simp: selected_intent_def answer_ready_def)
    have "cycle_trace P s1 s2"
      using delivery_cycle_trace [OF deliver_account_trace [OF d ok] ok] cycle_trace_mono sel by blast
    then have tr: "cycle_trace P s s2" using cycle_trace_trans [OF idle [OF r]] by blast
    obtain listed s3 where l: "run_state (dp_list_intents (ds_ports svc) c) s2 = (listed, s3)" by (metis surj_pair)
    have "cycle_trace P s2 s3"
      using wpD [OF wp_untouched [OF list_intents_untouched [OF ports], of s2 "\<lambda>_. cycle_trace P s2"] l] cycle_trace_same by blast
    then have "cycle_trace P s s3" using cycle_trace_trans [OF tr] by blast
    then show ?thesis using True r d l ports rs by (cases listed) (simp_all add: deliver_answer_def Let_def)
  qed
qed

lemma run_binding_traced:
  assumes ports: "ds_ports svc = recorder_ports renv outside" and reach: "reachable_store (cs_store s)"
    and account: "trim_space (cx_execution_account_id (bp_context bp)) = cx_execution_account_id (bp_context bp)" "cx_execution_account_id (bp_context bp) \<noteq> []"
    and P: "\<And>i. bp_submit_enabled bp \<Longrightarrow> oi_execution_account_id i = cx_execution_account_id (bp_context bp) \<Longrightarrow>
      oi_side i = SideSell \<or> bp_allow_entries bp \<Longrightarrow> P i"
  shows "\<exists>r s'. run_binding env svc bp s = Some (r, s') \<and> cycle_trace P s s'"
proof -
  let ?c = "cycle_id (bp_context bp) (bp_decision_at bp)"
  obtain r s1 where r: "run_state (ask_strategy env svc bp) s = (r, s1)" by (metis surj_pair)
  note asked = wpD [OF ask_strategy_traced [OF ports reach] r]
  have tr: "cycle_trace P s s1" using asked cycle_trace_mono by blast
  have c: "trim_space ?c = ?c" "?c \<noteq> []" using trim_cycle_id [OF account] by (simp_all add: cycle_id_def)
  show ?thesis
  proof (cases r)
    case (Inl e)
    then show ?thesis using r tr by (cases e) (simp add: run_binding_def)
  next
    case (Inr answer)
    obtain run rs intents dryRun where a: "answer = (run, rs, intents, dryRun)" by (metis surj_pair)
    have "\<exists>r' s'. deliver_answer svc bp (run, rs, intents, dryRun) s1 = Some (r', s') \<and> cycle_trace P s1 s'"
      using deliver_answer_traced [OF ports cycle_trace_reachable [OF tr reach] _ c, where P = P] asked P Inr a account c by fastforce
    then show ?thesis using r Inr a cycle_trace_trans [OF tr] by (auto simp: run_binding_def)
  qed
qed

text \<open>What a cycle may submit after recovery.\<close>

definition entry_gate :: "'s decision_service \<Rightarrow> bool \<Rightarrow> order_intent \<Rightarrow> bool" where
  "entry_gate svc unavailable i \<longleftrightarrow>
     cp_submit_enabled (ds_params svc) \<and> deliverable_account svc (oi_side i) (oi_execution_account_id i) \<and>
     oi_execution_account_id i \<notin> set (cp_strategy_disabled_accounts (ds_params svc)) \<and> (unavailable \<longrightarrow> oi_side i = SideSell)"

lemma binding_account:
  assumes "new_decision_service ports p = Inr svc" "b \<in> set (cp_bindings (ds_params svc))"
  shows "cx_execution_account_id (binding_context b) = sb_execution_account_id b" and "trim_space (sb_execution_account_id b) = sb_execution_account_id b"
    and "sb_execution_account_id b \<noteq> []"
proof -
  note trimmed = new_service_bindings [OF assms]
  show cx: "cx_execution_account_id (binding_context b) = sb_execution_account_id b"
    using trimmed(1) by (simp add: binding_context_def binding_normalize_def Let_def)
  have "sb_execution_account_id (binding_normalize b) = sb_execution_account_id b" using trimmed(1) by (simp add: binding_normalize_def Let_def)
  moreover have "context_validate (binding_context (binding_normalize b)) = None"
    using trimmed(2) by (auto simp: binding_validate_def Let_def split: if_splits)
  ultimately show "sb_execution_account_id b \<noteq> []"
    using trimmed(1) by (auto simp: context_validate_def binding_context_def binding_normalize_def context_normalize_def Let_def split: if_splits)
qed (rule new_service_bindings(1) [OF assms])

lemma run_account_traced:
  assumes new: "new_decision_service (recorder_ports renv outside) p = Inr svc" and reach: "reachable_store (cs_store s)"
    and b: "b \<in> set (cp_bindings (ds_params svc))"
  shows "\<exists>r s'. run_account env svc plan t b s = Some (r, s') \<and> cycle_trace (entry_gate svc (cr_unavailable (pn_predictions plan) \<noteq> None)) s s'"
    (is "\<exists>r s'. _ \<and> cycle_trace ?P s s'")
proof (cases "left_out svc plan b")
  case (Some run)
  then show ?thesis by (simp add: run_account_def cycle_trace_same)
next
  case None
  note ports = new_decision_service_fields(1) [OF new] and account = binding_account [OF new b]
  obtain skip s1 where k: "run_state (skipped_run svc plan b) s = (skip, s1)" by (metis surj_pair)
  have s1: "cs_store s1 = cs_store s \<and> cs_submits s1 = cs_submits s"
    using wpD [OF wp_untouched [OF skipped_run_untouched [OF ports], of s "\<lambda>_ s'. cs_store s' = cs_store s \<and> cs_submits s' = cs_submits s"] k] by blast
  have tr: "cycle_trace ?P s s1" using s1 cycle_trace_same by blast
  show ?thesis
  proof (cases "skip = None \<and> (\<exists>books. books_for_targets (ai_targets (input_of plan b)) (pn_books plan) = Inr books)")
    case False
    then show ?thesis using None k tr by (cases skip) (auto simp: run_account_def split: sum.splits)
  next
    case True
    then obtain books where books: "books_for_targets (ai_targets (input_of plan b)) (pn_books plan) = Inr books" and skip: "skip = None" by blast
    let ?bp = "binding_params_of svc plan t b books"
    have bp: "bp_context ?bp = binding_context b" "bp_submit_enabled ?bp = cp_submit_enabled (ds_params svc)"
      "bp_allow_entries ?bp \<Longrightarrow> cr_unavailable (pn_predictions plan) = None \<and> \<not> account_entry_disabled svc b"
      by (auto simp: binding_params_of_def Let_def)
    have gate: "?P i" if "bp_submit_enabled ?bp" "oi_execution_account_id i = cx_execution_account_id (bp_context ?bp)" "oi_side i = SideSell \<or> bp_allow_entries ?bp" for i
      using that bp account(1) b None
      by (auto simp: entry_gate_def deliverable_account_def left_out_def Let_def account_entry_disabled_def split: if_splits)
    have "reachable_store (cs_store s1)" using reach s1 by simp
    from run_binding_traced [OF ports this, where bp = ?bp and P = ?P and env = env]
    obtain r s2 where r: "run_binding env svc ?bp s1 = Some (r, s2)" "cycle_trace ?P s1 s2" using gate account bp(1) by auto
    then show ?thesis using None k skip books cycle_trace_trans [OF tr r(2)] by (cases r) (simp add: run_account_def)
  qed
qed

lemma run_accounts_traced:
  assumes new: "new_decision_service (recorder_ports renv outside) p = Inr svc"
  shows "reachable_store (cs_store s) \<Longrightarrow> set bs \<subseteq> set (cp_bindings (ds_params svc)) \<Longrightarrow>
    \<exists>r s'. run_accounts env svc plan t bs s = Some (r, s') \<and> cycle_trace (entry_gate svc (cr_unavailable (pn_predictions plan) \<noteq> None)) s s'"
proof (induction bs arbitrary: s)
  case (Cons b bs)
  let ?P = "entry_gate svc (cr_unavailable (pn_predictions plan) \<noteq> None)"
  have b: "b \<in> set (cp_bindings (ds_params svc))" using Cons.prems(2) by simp
  obtain run e s1 where a: "run_account env svc plan t b s = Some ((run, e), s1)" and tr: "cycle_trace ?P s s1"
    using run_account_traced [OF new Cons.prems(1) b, of env plan t] by (metis surj_pair)
  obtain runs errs s2 where "run_accounts env svc plan t bs s1 = Some ((runs, errs), s2)" "cycle_trace ?P s1 s2"
    using Cons.IH [OF cycle_trace_reachable [OF tr Cons.prems(1)]] Cons.prems(2) by auto
  then show ?case using a cycle_trace_trans [OF tr] by auto
qed (simp add: cycle_trace_same)


section \<open>The whole cycle\<close>

lemma recovery_settled:
  assumes new: "new_decision_service (recorder_ports renv outside) p = Inr svc" and reach: "reachable_store (cs_store s)"
    and rec: "recover_pending svc s = Some (r, s1)"
  shows "reachable_store (cs_store s1) \<and> (\<exists>recovered. cs_submits s1 = cs_submits s @ recovered \<and> distinct (logged_clients recovered) \<and>
    set (logged_clients recovered) \<subseteq> settled_ids (cs_store s1) \<and>
    (\<forall>(i, st)\<in>set recovered. cp_submit_enabled (ds_params svc) \<and> deliverable_account svc (oi_side i) (oi_execution_account_id i) \<and> claimed_in i st))"
proof (cases "cp_submit_enabled (ds_params svc)")
  case False
  then have "s1 = s" using rec by (simp add: recover_pending_def recover_from_def)
  then show ?thesis using reach by (simp add: logged_clients_def)
next
  case True
  note ok = reachable_ok(1) [OF reach]
  obtain s0 where s0: "cs_submits s0 = cs_submits s" "store_step\<^sup>*\<^sup>* (cs_store s) (cs_store s0)"
    "delivery_trace (\<lambda>i. deliverable_account svc (oi_side i) (oi_execution_account_id i)) s0 s1"
    using recover_from_traced [OF new ok] rec unfolding recover_pending_def by blast
  have settled: "pending_ids (cs_store s0) - pending_ids (cs_store s1) \<subseteq> settled_ids (cs_store s1)"
    using delivery_trace_settled(2) [OF s0(3) store_run_schema [OF s0(2) ok]] by blast
  have "reachable_store (cs_store s1)" using reach s0(2,3) by (auto simp: reachable_store_def delivery_trace_def)
  moreover obtain recovered where "cs_submits s1 = cs_submits s @ recovered" "distinct (logged_clients recovered)"
      "set (logged_clients recovered) \<subseteq> pending_ids (cs_store s0) - pending_ids (cs_store s1)"
      "\<forall>(i, st)\<in>set recovered. deliverable_account svc (oi_side i) (oi_execution_account_id i) \<and> claimed_in i st"
    using s0(1,3) by (auto simp: delivery_trace_def)
  ultimately show ?thesis using settled True by (intro conjI exI [of _ recovered]) auto
qed

lemma decision_cycle_traced:
  assumes new: "new_decision_service (recorder_ports renv outside) p = Inr svc" and reach: "reachable_store (cs_store s)"
  shows "\<exists>r e s'. run_decision_cycle env svc t s = Some ((r, e), s') \<and>
    (if decision_boundary t
     then \<exists>rec s1 recovered entered. recover_pending svc s = Some (rec, s1) \<and> cs_submits s1 = cs_submits s @ recovered \<and>
       cs_submits s' = cs_submits s1 @ entered \<and> (snd rec \<noteq> None \<longrightarrow> s' = s1) \<and>
       distinct (logged_clients (recovered @ entered)) \<and>
       (\<forall>(i, st)\<in>set recovered. cp_submit_enabled (ds_params svc) \<and> deliverable_account svc (oi_side i) (oi_execution_account_id i) \<and> claimed_in i st) \<and>
       (\<forall>(i, st)\<in>set entered. entry_gate svc (ru_source_unavailable r) i \<and> claimed_in i st)
     else s' = s)"
proof (cases "decision_boundary t")
  case False
  then show ?thesis by (simp add: run_decision_cycle_def)
next
  case True
  note ports = new_decision_service_fields(1) [OF new] and ok = reachable_ok(1) [OF reach]
  obtain recovery e1 s1 where rec: "recover_pending svc s = Some ((recovery, e1), s1)"
    using recorder.recover_from_ends [where s = s, OF ok ports] unfolding recover_pending_def by (metis surj_pair)
  obtain recovered where l1: "cs_submits s1 = cs_submits s @ recovered" "distinct (logged_clients recovered)"
      "set (logged_clients recovered) \<subseteq> settled_ids (cs_store s1)"
      "\<forall>(i, st)\<in>set recovered. cp_submit_enabled (ds_params svc) \<and> deliverable_account svc (oi_side i) (oi_execution_account_id i) \<and> claimed_in i st"
    and reach1: "reachable_store (cs_store s1)"
    using recovery_settled [OF new reach rec] by blast
  let ?R = "\<lambda>r e s' entered. run_decision_cycle env svc t s = Some ((r, e), s') \<and> cs_submits s' = cs_submits s1 @ entered \<and>
    (e1 \<noteq> None \<longrightarrow> s' = s1) \<and> distinct (logged_clients (recovered @ entered)) \<and>
    (\<forall>(i, st)\<in>set entered. entry_gate svc (ru_source_unavailable r) i \<and> claimed_in i st)"
  have "\<exists>r e s' entered. ?R r e s' entered"
  proof (cases e1)
    case (Some e)
    then have "?R (empty_result t recovery) (Some (wrap_error ''recover pending strategy intents'' e)) s1 []"
      using True rec l1 by (simp add: run_decision_cycle_def)
    then show ?thesis by blast
  next
    case None
    obtain prep s2 where pr: "run_state (prepare_cycle env svc t (empty_result t recovery)) s1 = (prep, s2)" by (metis surj_pair)
    have s2: "cs_store s2 = cs_store s1 \<and> cs_submits s2 = cs_submits s1"
      using wpD [OF wp_untouched [OF prepare_cycle_untouched [OF ports], of s1 "\<lambda>_ s'. cs_store s' = cs_store s1 \<and> cs_submits s' = cs_submits s1"] pr] by blast
    show ?thesis
    proof (cases prep)
      case (Inl x)
      obtain result e where x: "x = (result, e)" by (metis surj_pair)
      have "?R result (Some e) s2 []" using True rec None pr Inl x l1 s2 by (simp add: run_decision_cycle_def)
      then show ?thesis by blast
    next
      case (Inr y)
      obtain result plan where y: "y = (result, plan)" by (metis surj_pair)
      have src: "ru_source_unavailable result = (cr_unavailable (pn_predictions plan) \<noteq> None)"
        using wpD [OF prepared_cycle_source pr] Inr y by simp
      obtain runs errs s3 where ra: "run_accounts env svc plan t (cp_bindings (ds_params svc)) s2 = Some ((runs, errs), s3)"
        and tr: "cycle_trace (entry_gate svc (cr_unavailable (pn_predictions plan) \<noteq> None)) s2 s3"
        using run_accounts_traced [OF new, where s = s2 and bs = "cp_bindings (ds_params svc)" and env = env and plan = plan and t = t] reach1 s2 by auto
      obtain entered where l2: "cs_submits s3 = cs_submits s2 @ entered" "distinct (logged_clients entered)"
          "set (logged_clients entered) \<inter> settled_ids (cs_store s1) = {}"
          "\<forall>(i, st)\<in>set entered. entry_gate svc (ru_source_unavailable result) i \<and> claimed_in i st"
        using tr s2 src by (auto simp: cycle_trace_def)
      have "distinct (logged_clients (recovered @ entered))"
        using l1(2,3) l2(2,3) unfolding logged_clients_def map_append distinct_append by blast
      then have "\<exists>e. ?R (result\<lparr>ru_runs := runs\<rparr>) e s3 entered"
        using True rec None pr Inr y ra l1 l2 s2 by (simp add: run_decision_cycle_def)
      then show ?thesis by blast
    qed
  qed
  then obtain r e s' entered where R: "?R r e s' entered" by blast
  have "\<exists>rec s1 recovered entered. recover_pending svc s = Some (rec, s1) \<and> cs_submits s1 = cs_submits s @ recovered \<and>
       cs_submits s' = cs_submits s1 @ entered \<and> (snd rec \<noteq> None \<longrightarrow> s' = s1) \<and>
       distinct (logged_clients (recovered @ entered)) \<and>
       (\<forall>(i, st)\<in>set recovered. cp_submit_enabled (ds_params svc) \<and> deliverable_account svc (oi_side i) (oi_execution_account_id i) \<and> claimed_in i st) \<and>
       (\<forall>(i, st)\<in>set entered. entry_gate svc (ru_source_unavailable r) i \<and> claimed_in i st)"
    using rec l1(1,4) R by (intro exI [of _ "(recovery, e1)"] exI [of _ s1] exI [of _ recovered] exI [of _ entered]) simp
  then show ?thesis using R True by auto
qed

text \<open>
  C13. Termination. A decision cycle always returns, whatever the strategy, the executor, the data sources, the gates, the
  locks and the database do: every claim loop takes rows out of the queue, and nothing puts a row back while the cycle runs.
\<close>

theorem decision_cycle_terminates:
  assumes "new_decision_service (recorder_ports renv outside) p = Inr svc" "cp_delivery_concurrency p \<le> 1" "reachable_store (cs_store s)"
  shows "\<exists>r s'. run_decision_cycle env svc t s = Some (r, s')"
  using decision_cycle_traced [OF assms(1,3), of env t] by blast

text \<open>
  C12. What a decision cycle submits. Off the decision boundary nothing happens at all. On it the cycle first runs the recovery of
  pending intents; what it submits is what that recovery submitted, followed by the orders of this cycle, and when the
  recovery fails the cycle ends there. With submission disabled, nothing is submitted. Otherwise every intent handed to the executor belongs
  to a bound account that is not quarantined, a BUY only to an account whose entries are allowed, globally and by itself; the
  tables already hold its claim; and no intent is handed over twice. After the recovery only accounts whose strategy runs are
  served, and with the prediction source unavailable they only sell. A strategy answers as it likes. Deliveries run one
  at a time (\<open>DeliveryConcurrency\<close> at most one).
\<close>

theorem decision_cycle_safe:
  assumes "new_decision_service (recorder_ports renv outside) p = Inr svc" "cp_delivery_concurrency p \<le> 1" "reachable_store (cs_store s)"
    and "run_decision_cycle env svc t s = Some ((r, e), s')"
  shows "if decision_boundary t
    then \<exists>rec s1 recovered entered. recover_pending svc s = Some (rec, s1) \<and> cs_submits s1 = cs_submits s @ recovered \<and>
      cs_submits s' = cs_submits s1 @ entered \<and> (snd rec \<noteq> None \<longrightarrow> s' = s1) \<and> distinct (logged_clients (recovered @ entered)) \<and>
      (\<forall>(i, st)\<in>set (recovered @ entered). cp_submit_enabled p \<and> deliverable_account svc (oi_side i) (oi_execution_account_id i) \<and> claimed_in i st) \<and>
      (\<forall>(i, st)\<in>set entered. oi_execution_account_id i \<notin> set (cp_strategy_disabled_accounts (ds_params svc)) \<and>
         (ru_source_unavailable r \<longrightarrow> oi_side i = SideSell))
    else s' = s"
proof (cases "decision_boundary t")
  case True
  have p: "cp_submit_enabled (ds_params svc) = cp_submit_enabled p" using new_decision_service_fields(3) [OF assms(1)] .
  obtain rec s1 recovered entered where l: "recover_pending svc s = Some (rec, s1)" "cs_submits s1 = cs_submits s @ recovered"
    "cs_submits s' = cs_submits s1 @ entered" "snd rec \<noteq> None \<longrightarrow> s' = s1" "distinct (logged_clients (recovered @ entered))"
    "\<forall>(i, st)\<in>set recovered. cp_submit_enabled (ds_params svc) \<and> deliverable_account svc (oi_side i) (oi_execution_account_id i) \<and> claimed_in i st"
    "\<forall>(i, st)\<in>set entered. entry_gate svc (ru_source_unavailable r) i \<and> claimed_in i st"
    using decision_cycle_traced [OF assms(1,3), of env t] assms(4) True by auto
  have "\<forall>(i, st)\<in>set (recovered @ entered). cp_submit_enabled p \<and> deliverable_account svc (oi_side i) (oi_execution_account_id i) \<and> claimed_in i st"
    "\<forall>(i, st)\<in>set entered. oi_execution_account_id i \<notin> set (cp_strategy_disabled_accounts (ds_params svc)) \<and>
       (ru_source_unavailable r \<longrightarrow> oi_side i = SideSell)"
    using l(6,7) unfolding entry_gate_def p by auto
  then show ?thesis using l(1-5) True by auto
next
  case False
  then show ?thesis using decision_cycle_traced [OF assms(1,3), of env t] assms(4) by auto
qed


section \<open>An exit-only cycle\<close>

text \<open>
  The prediction source is unavailable, the account holds one lot, and the strategy sells it.
\<close>

definition cycle_time :: gtime where "cycle_time = 10 * minute"

definition held_lot :: position_lot where
  "held_lot =
     \<lparr>pl_lot_id = ''l1'', pl_execution_account_id = ''w1'', pl_market_id = ''m1'', pl_condition_id = ''c1'', pl_outcome_index = Some 1,
      pl_outcome_name = ''o'', pl_token_id = ''t1'', pl_neg_risk = Some False, pl_open = True, pl_opened_at = 1, pl_remaining_shares = ''7'',
      pl_average_entry_price = ''0.3''\<rparr>"

definition exit_answer :: "strategy_request \<Rightarrow> strategy_response" where
  "exit_answer rq = strategy_answer\<lparr>rs_cycle_id := rq_cycle_id rq, rs_input_id := rq_input_id rq, rs_decided_at := cycle_time + 1, rs_evaluations := []\<rparr>"

definition exit_ports :: "unit decision_ports" where
  "exit_ports = accepting_ports
     \<lparr>dp_snapshot := (\<lambda>_ _. State_Monad.return (Inl (ErrSentinel ErrPredictionSourceUnavailable))),
      dp_list_open_lots := (\<lambda>_. State_Monad.return (Inr [held_lot])),
      dp_capture := (\<lambda>_ _. State_Monad.return (Inr [(frozen_book ''t1'' 1)\<lparr>ob_source_at := cycle_time, ob_observed_at := cycle_time\<rparr>])),
      dp_claim_batch := (\<lambda>b. State_Monad.return (Inr (b, True))), dp_decide := (\<lambda>rq. State_Monad.return (exit_answer rq, None)),
      dp_now := State_Monad.return (cycle_time + 2)\<rparr>"

definition cycle_digest :: input_digest where "cycle_digest rq = Inr (rq_cycle_id rq)"

definition exit_recorder :: "unit recorder_env" where
  "exit_recorder = \<lparr>re_statement = State_Monad.return (no_failure, \<lambda>_. False, cycle_time + 2), re_digest = cycle_digest, re_codec = size_codec\<rparr>"

definition exit_env :: cycle_env where
  "exit_env = \<lparr>ce_input_digest = cycle_digest, ce_batch_digest = (\<lambda>_ _ _. Inr ''bb''), ce_sha = (\<lambda>_. ''00''), ce_float_text = (\<lambda>_. ''0.5'')\<rparr>"

definition exit_service_result :: "go_error + unit cycle_state decision_service" where
  "exit_service_result = new_decision_service (recorder_ports exit_recorder exit_ports) cycle_params"

definition exit_service :: "unit cycle_state decision_service" where
  "exit_service = projr exit_service_result"

definition fresh_state :: "unit cycle_state" where
  "fresh_state = \<lparr>cs_store = empty_store, cs_submits = [], cs_world = ()\<rparr>"

definition cycle_view :: "((run_result \<times> err) \<times> unit cycle_state) option \<Rightarrow> ((string \<times> string) list \<times> delivery_status list \<times> bool) option" where
  "cycle_view = map_option (\<lambda>((r, e), s). (map (\<lambda>(i, st). (oi_client_order_id i, oi_side i)) (cs_submits s),
     map dd_status (st_deliveries (cs_store s)), ru_source_unavailable r))"


lemma exit_service_new: "new_decision_service (recorder_ports exit_recorder exit_ports) cycle_params = Inr exit_service"
proof -
  have "\<not> isl exit_service_result" by code_simp
  then show ?thesis unfolding exit_service_def by (simp add: exit_service_result_def)
qed

lemma exit_cycle_value:
  "cycle_view (run_decision_cycle exit_env exit_service cycle_time fresh_state) =
     Some ([(''strategy-order-00'', ''SELL'')], [DecisionIntentSubmitted], True)"
  by code_simp

lemma fresh_reachable: "reachable_store (cs_store fresh_state)"
  by (simp add: fresh_state_def reachable_store_def)

lemma cycle_params_sequential: "cp_delivery_concurrency cycle_params \<le> 1"
  by (simp add: cycle_params_def)

theorem decision_cycle_terminates_witness:
  "(\<exists>r s'. run_decision_cycle exit_env exit_service cycle_time fresh_state = Some (r, s')) \<and>
   cycle_view (run_decision_cycle exit_env exit_service cycle_time fresh_state) =
     Some ([(''strategy-order-00'', ''SELL'')], [DecisionIntentSubmitted], True)"
  using decision_cycle_terminates [OF exit_service_new cycle_params_sequential fresh_reachable] exit_cycle_value by blast

theorem decision_cycle_safe_witness:
  "\<exists>r e s' i st. run_decision_cycle exit_env exit_service cycle_time fresh_state = Some ((r, e), s') \<and> cs_submits s' = [(i, st)] \<and>
     ru_source_unavailable r \<and> oi_side i = SideSell \<and> deliverable_account exit_service (oi_side i) (oi_execution_account_id i) \<and> claimed_in i st"
proof -
  obtain r e s' where run: "run_decision_cycle exit_env exit_service cycle_time fresh_state = Some ((r, e), s')"
    and v: "map (\<lambda>(i, st). (oi_client_order_id i, oi_side i)) (cs_submits s') = [(''strategy-order-00'', ''SELL'')]" "ru_source_unavailable r"
    using exit_cycle_value by (auto simp: cycle_view_def)
  obtain i st where l: "cs_submits s' = [(i, st)]" "oi_side i = ''SELL''" using v(1) by (auto simp: map_eq_Cons_conv)
  have boundary: "decision_boundary cycle_time" by code_simp
  obtain rec s1 recovered entered where rec: "recover_pending exit_service fresh_state = Some (rec, s1)" "cs_submits s1 = cs_submits fresh_state @ recovered" "cs_submits s' = cs_submits s1 @ entered"
    and gate: "\<forall>(i, st)\<in>set (recovered @ entered). cp_submit_enabled cycle_params \<and>
       deliverable_account exit_service (oi_side i) (oi_execution_account_id i) \<and> claimed_in i st"
    using decision_cycle_safe [OF exit_service_new cycle_params_sequential fresh_reachable run] unfolding if_P [OF boundary] by blast
  then have all: "recovered @ entered = [(i, st)]" using l(1) by (simp add: fresh_state_def)
  have "deliverable_account exit_service (oi_side i) (oi_execution_account_id i) \<and> claimed_in i st"
    using gate unfolding all by simp
  then show ?thesis using run l v(2) unfolding order_constants by blast
qed

end
