(* ===== verification/Spec2Isabelle.thy ===== *)
theory Spec2Isabelle
  imports Decimal Fees Orders Order_State Repository Fills Rounding Ports Execution Execution_Logic Paper_Runtime Execution_Safety Execution_Audit
    Execution_Replay Execution_Finality Execution_Outcome Fill_Processor Order_Recovery Order_Coordinator
    No_Fill_Release Market_Validation Wire_Amounts Risk_Control Execution_Router Reconciliation_Impact
    Predictions Strategy_Orders Strategy_Response Strategy_Inputs
    Decision_Store Decision_Service Decision_Delivery Decision_Cycle Decision_Safety
begin

text \<open>
  \<^bold>\<open>A verification of the trading execution service.\<close> The program (Go, under \<open>src/\<close>) turns strategy decisions into
  orders at prediction-market venues. Its core promises that money is never spent twice, never released while an outcome
  is uncertain, and that every step is on record. This development models that core and proves these promises.

  \<^bold>\<open>How the parts work together.\<close> Every ten minutes the decision cycle (\<open>service/decisioncycle\<close>) selects the effective
  predictions, freezes the input of every account with its lots and captured order books, asks the strategy, validates the
  answer, records it with its order intents (\<open>adapter/postgres/decision_recorder.go\<close>) and delivers them under claims; what a
  crash leaves behind is recovered by the next cycle. An \<open>OrderIntent\<close> (\<open>domain/order.go\<close>) enters the execution router
  (\<open>service/executionrouter\<close>), which picks the execution service of its venue. \<open>Submit\<close> (\<open>service/execution\<close>) checks
  the account scope, the sell-only gate, the hard risk gate (\<open>service/riskcontrol\<close>) and the live market
  (\<open>service/marketvalidation\<close>), reserves assets, records a durable attempt in the order repository, and only then calls the
  venue, for Polymarket with the signed amounts of \<open>adapter/polymarket/precision.go\<close>. Every change of an order goes through the
  state machine (\<open>domain/orderstate\<close>) and is stored as an event. Fills come back through the fill processor
  (\<open>service/fillprocessor\<close>). The order coordinator (\<open>service/ordercoordinator\<close>) sweeps the pending orders under recovery leases
  (\<open>service/orderrecovery\<close>) and calls \<open>Resume\<close>, \<open>Refresh\<close>, \<open>Cancel\<close> and \<open>FinalizeCancellation\<close>. An order whose placement
  stayed UNKNOWN is released only by the no-fill release (\<open>service/nofillrelease\<close>).

  \<^bold>\<open>The theories and the code they model.\<close>
  \<^item> \<open>Prelude\<close>: strings, times (\<open>gtime\<close>, nanoseconds since the year 1; 0 is Go's zero time), Go errors as trees with
    \<open>errors.Is\<close> and \<open>errors.As\<close>, and two ways to reason about programs in the state monad: weakest preconditions
    (\<open>wp\<close>, \<open>wp_rules\<close>) and kept properties (\<open>keeps\<close>, \<open>keeps_rules\<close>).
  \<^item> \<open>Decimal\<close>, \<open>Fees\<close>, \<open>Rounding\<close>: \<open>domain/decimal.go\<close>, \<open>domain/fee_schedule.go\<close> and what \<open>big.Rat\<close> reads and prints.
    Decimals are texts; their value is an exact rational.
  \<^item> \<open>Orders\<close>, \<open>Order_State\<close>, \<open>Repository\<close>: \<open>domain/order.go\<close>, \<open>order_lifecycle.go\<close>, \<open>market_source.go\<close>, the order
    builders, \<open>orderstate/machine.go\<close> and \<open>adapter/memory/order_repository.go\<close>. The repository is a record of association
    lists; each method is one function, as the mutex makes it.
  \<^item> \<open>Fills\<close>, \<open>Fill_Processor\<close>: \<open>domain/fill.go\<close>, \<open>domain/settlement_evidence.go\<close>, \<open>service/fillprocessor/service.go\<close>.
  \<^item> \<open>Ports\<close>: the types of \<open>port/port.go\<close>, \<open>domain/reservation.go\<close>, \<open>service/accountscope\<close>, the reservation turns of
    \<open>port/reservation_turn.go\<close> (workers that keep to their protocol are specified by an inductive step relation) and the paper adapters. Its locale
    \<open>reservation_manager\<close> states the contract of reservations and is interpreted on the paper adapter.
  \<^item> \<open>Execution\<close>: \<open>service/execution/\<close>, all five operations branch by branch over ports of arbitrary behaviour. The state
    \<open>sys\<close> holds the repository, the world behind the ports and the log of port calls.
  \<^item> \<open>Execution_Logic\<close>, \<open>Execution_Safety\<close>, \<open>Execution_Audit\<close>, \<open>Execution_Replay\<close>, \<open>Execution_Finality\<close>,
    \<open>Execution_Outcome\<close>: what every run of the service guarantees. The specification \<open>release_evidence\<close> says which answers of
    the ports, in which order, justify a finalised cancellation.
  \<^item> \<open>Paper_Runtime\<close>: \<open>buildPaperRuntime\<close> of \<open>cmd/server/main.go\<close> and \<open>adapter/risk/static_guard.go\<close>; it instantiates
    the service with concrete ports, and the witnesses run it.
  \<^item> \<open>Order_Recovery\<close>, \<open>Order_Coordinator\<close>: \<open>domain/order_recovery.go\<close>, \<open>adapter/memory/order_recovery_lease.go\<close>,
    \<open>service/orderrecovery/guard.go\<close>, \<open>service/ordercoordinator/coordinator.go\<close>. Durations of the backoff are 64-bit
    and wrap. The locales \<open>lease_manager\<close> and \<open>coordinated\<close> state what a lease store and a coordinator's ports promise;
    \<open>observed\<close> says that ports log what they are asked, which makes the work of a sweep visible.
  \<^item> \<open>No_Fill_Release\<close>: \<open>domain/no_fill_release.go\<close> and \<open>service/nofillrelease/\<close>. The specifications \<open>evidence_answered\<close> and
    \<open>complete_evidence\<close> say what the reads of one run answered and when that proves that nothing was filled.
  \<^item> \<open>Market_Validation\<close>, \<open>Wire_Amounts\<close>, \<open>Risk_Control\<close>, \<open>Execution_Router\<close>: \<open>service/marketvalidation\<close> with the
    order books of \<open>domain/decision.go\<close>, \<open>adapter/polymarket/precision.go\<close>, \<open>service/riskcontrol\<close> with \<open>domain/risk.go\<close>, and
    \<open>service/executionrouter\<close>.
  \<^item> \<open>Reconciliation_Impact\<close>: the impact rules of \<open>domain/reconciliation.go\<close>.
  \<^item> \<open>Predictions\<close>, \<open>Strategy_Orders\<close>, \<open>Strategy_Response\<close>, \<open>Strategy_Inputs\<close>: \<open>domain/prediction_effective.go\<close>, the
    decision types of \<open>domain/decision.go\<close>, \<open>domain/orderbook_snapshot.go\<close> and the pure half of
    \<open>service/decisioncycle/service.go\<close>: selection of predictions, order checks, validation of a strategy answer with the
    intents built from it, capture targets, aligned books and the frozen request. A \<open>float64\<close> is an exact dyadic number with
    rounding to nearest even, or NaN, or an infinity.
  \<^item> \<open>Decision_Store\<close>: \<open>adapter/postgres/decision_recorder.go\<close>. The two tables are lists of rows; every statement is a
    function on them whose failures, row locks and clock are arguments; a failure says whether the statement took
    effect before its acknowledgement was lost. Answers are kept as JSON text: encoding, the text that JSONB gives back and
    decoding are a parameter (\<open>response_codec\<close>), and reading back need not give what was written. Requests and
    intents are kept as the values that were written. A step relation runs the methods of any number of
    workers in any order.
  \<^item> \<open>Decision_Service\<close>, \<open>Decision_Delivery\<close>: construction of the decision cycle service, delivery of claimed intents and
    recovery. The locale \<open>bounded_recorder\<close> states what the claim loops need of a recorder; it is interpreted on the
    recorder of \<open>Decision_Store\<close>.
  \<^item> \<open>Decision_Cycle\<close>, \<open>Decision_Safety\<close>: \<open>Run\<close> and \<open>runBinding\<close> of the cycle with \<open>account_inputs.go\<close>, and what a whole cycle
    guarantees.

  \<^bold>\<open>What is shown.\<close> Safety of the service over every sequence of its operations and every behaviour of its ports: an order
  reaches the venue only after a durable attempt; gated orders never do; reservations of uncertain orders are never
  settled; a resubmission places nothing; a cancellation or a no-fill release is final only on what the ports answered in
  that very run; the router hands an intent only to the one route of its account and strategy. Safety of the
  decision cycle, whatever the strategy answers: only validated, recorded and claimed intents of accounts whose gates are open
  are submitted, each once; claims are fenced, outcomes are final, and the first recorded answer wins: it is
  accepted again exactly when reading it back and encoding it gives the same bytes. Types: an accepted frozen input
  is complete, aligned books match their targets. Invariants: the repository stays auditable, the decision tables satisfy
  their schema, fill states match statuses. Functional
  correctness: exact money of fills and fees, settlement evidence as exact base units, exact signed amounts, the market check,
  the risk gate as one formula, and which operation on which order a sweep of the coordinator performs under which lease.
  Refinement: every sweep of the coordinator is a run of the service (lemma \<open>sweep_refines_service_run\<close>). Termination: a decision cycle always returns. Progress: a failed recovery becomes due again. Error
  behaviour: what a failed placement stores. Some properties record where the code differs from its comments.

  \<^bold>\<open>Parameters and bounds.\<close> Code outside \<open>src/\<close> and everything that talks to it is a parameter: the venue, the ledger, the
  market universe, order books, the chain, clocks, random identifiers, SHA-256, JSON encoding. The state monad threads one
  state through them, so they may answer differently at every call. No theorem assumes that they behave, except where a
  hypothesis says so by name (\<open>ports_keep_audit\<close>, \<open>ports_keep_claims\<close>, \<open>reads_keep\<close>, \<open>deferral_keeps\<close>: they keep what
  they do not own; \<open>observed\<close>: they log what they are asked). The functions of the model are total; the retry loops of the code are bounded, and no fuel is used. The
  claim and requeue loops of the decision cycle might not end over arbitrary ports: they are partial functions into \<open>option\<close>,
  and over the recorder they are proved to return. Batches are delivered one intent after the other, as the service does with
  \<open>DeliveryConcurrency\<close> at most 1; the theorems about the cycle say so.
  Go's \<open>int\<close> and \<open>int64\<close> counters are \<open>int\<close>; where a wrap-around could matter (the backoff) it is written out. \<open>time.Sub\<close>
  saturates after 292 years, which is not modelled. Log calls are left out. Where Go ranges over a map, only the choice
  of an error text depends on the order, and the model uses the order of the source. \<open>sort.Slice\<close> leaves the order of
  equal keys open; the model sorts stably (\<open>matched_order\<close>, \<open>sort_book_targets\<close>). Times are instants: where
  \<open>reflect.DeepEqual\<close> also compares the location of a \<open>time.Time\<close> (\<open>equivalent_prediction_payload\<close>) the location
  is left out. \<open>impact_blocks\<close>, \<open>batch_step\<close> and the evidence predicates are specifications; no code computes them.

  \<^bold>\<open>Not modelled.\<close> The concurrent branch of batch delivery, of which only the reservation turns are modelled; the other
  PostgreSQL adapters (their behaviour is SQL); HTTP clients and servers, signing, configuration, command line tools and the
  reporting services. Position exits, reconciliation, redemption and settlement jobs are left out as well: their logic is large
  and mostly orchestrates the parts above around SQL stores and RPC clients.
\<close>

end
